(* ===== verification/Prelude.thy ===== *)
theory Prelude
  imports Main "HOL-Library.AList" "HOL-Library.List_Lexorder" "HOL-Library.Char_ord"
    "HOL-Library.Sublist"
begin

text \<open>
  Shared vocabulary of the development: Go maps as association lists, Go errors as values,
  results, times and durations, and the generic lemmas about them.

  A Go map of key type string is an association list, whose order stands for the order in
  which one iteration over the map runs. Every definition that ranges over a map takes the
  order from the list, so a statement about all lists covers every iteration order; where the
  code sorts the keys first, the model sorts them too. \<open>map_of\<close> looks a key up,
  \<open>AList.update\<close> and \<open>AList.delete\<close> write it, and a nil map that the code tells apart
  from an empty one is an \<open>option\<close>.

  A \<open>time\<close> counts nanoseconds from Go's zero time, so that \<open>IsZero\<close> is \<open>= 0\<close>; a
  \<open>duration\<close> counts nanoseconds.
\<close>

section \<open>Automation collections\<close>

named_theorems wf_intros "introduction rules for the well-formedness predicates"
named_theorems result_simps "equations that evaluate results and error chains"

section \<open>Times and durations\<close>

type_synonym time = int
type_synonym duration = int

abbreviation (input) microsecond :: duration where "microsecond \<equiv> 1000"
abbreviation (input) millisecond :: duration where "millisecond \<equiv> 1000000"
abbreviation (input) second :: duration where "second \<equiv> 1000000000"
abbreviation (input) minute :: duration where "minute \<equiv> 60000000000"
abbreviation (input) hour :: duration where "hour \<equiv> 3600000000000"

abbreviation max_int64 :: int where "max_int64 \<equiv> 9223372036854775807"
abbreviation min_int64 :: int where "min_int64 \<equiv> - 9223372036854775808"

text \<open>\<open>time.Time.Sub\<close> saturates at the ends of the 64-bit range.\<close>

definition time_sub :: "time \<Rightarrow> time \<Rightarrow> duration" where
  "time_sub t u = max min_int64 (min max_int64 (t - u))"

definition is_zero_time :: "time \<Rightarrow> bool" where
  "is_zero_time t \<longleftrightarrow> t = 0"

lemma time_sub_ge_iff:
  "min_int64 < d \<Longrightarrow> d \<le> max_int64 \<Longrightarrow> d \<le> time_sub t u \<longleftrightarrow> d \<le> t - u"
  by (auto simp: time_sub_def)

lemma time_sub_gt_iff:
  "min_int64 \<le> d \<Longrightarrow> d < max_int64 \<Longrightarrow> d < time_sub t u \<longleftrightarrow> d < t - u"
  by (auto simp: time_sub_def)

section \<open>Maps keyed by strings\<close>

type_synonym 'v gomap = "(string \<times> 'v) list"

definition map_keys :: "'v gomap \<Rightarrow> string list" where
  "map_keys m = map fst m"

definition has_key :: "'v gomap \<Rightarrow> string \<Rightarrow> bool" where
  "has_key m k \<longleftrightarrow> map_of m k \<noteq> None"

definition get_or :: "'v \<Rightarrow> 'v gomap \<Rightarrow> string \<Rightarrow> 'v" where
  "get_or z m k = (case map_of m k of None \<Rightarrow> z | Some v \<Rightarrow> v)"

definition wf_map :: "'v gomap \<Rightarrow> bool" where
  "wf_map m \<longleftrightarrow> distinct (map fst m)"

definition map_len :: "'v gomap \<Rightarrow> nat" where
  "map_len m = length (remdups (map fst m))"

text \<open>Reading from a nil map is reading from an empty one.\<close>

definition nil_map :: "'v gomap option \<Rightarrow> 'v gomap" where
  "nil_map m = (case m of None \<Rightarrow> [] | Some m' \<Rightarrow> m')"

lemma nil_map_simps [simp]: "nil_map None = []" "nil_map (Some m) = m"
  by (simp_all add: nil_map_def)

text \<open>\<open>slices.Sorted(maps.Keys(m))\<close>.\<close>

definition sorted_keys :: "'v gomap \<Rightarrow> string list" where
  "sorted_keys m = sort (remdups (map fst m))"

text \<open>\<open>maps.Copy(dst, src)\<close> writes every entry of \<open>src\<close> into \<open>dst\<close>.\<close>

definition map_copy :: "'v gomap \<Rightarrow> 'v gomap \<Rightarrow> 'v gomap" where
  "map_copy dst src = fold (\<lambda>(k, v). AList.update k v) src dst"

text \<open>\<open>reflect.DeepEqual\<close> on two non-nil maps: same keys, same values, any order.\<close>

definition map_deep_eq :: "'v gomap \<Rightarrow> 'v gomap \<Rightarrow> bool" where
  "map_deep_eq a b \<longleftrightarrow>
     list_all (\<lambda>k. map_of a k = map_of b k) (map fst a @ map fst b)"

lemma has_key_iff: "has_key m k \<longleftrightarrow> k \<in> fst ` set m"
  by (auto simp: has_key_def map_of_eq_None_iff)

lemma has_key_Nil [simp]: "\<not> has_key [] k"
  by (simp add: has_key_def)

lemma has_key_Cons [simp]: "has_key ((a, v) # m) k \<longleftrightarrow> k = a \<or> has_key m k"
  by (auto simp: has_key_def)

lemma has_key_update [simp]: "has_key (AList.update k v m) j \<longleftrightarrow> j = k \<or> has_key m j"
  by (auto simp: has_key_def update_conv')

lemma has_key_delete [simp]: "has_key (AList.delete k m) j \<longleftrightarrow> j \<noteq> k \<and> has_key m j"
  by (auto simp: has_key_def delete_conv')

lemma set_sorted_keys [simp]: "set (sorted_keys m) = fst ` set m"
  by (simp add: sorted_keys_def)

lemma in_sorted_keys_iff: "k \<in> set (sorted_keys m) \<longleftrightarrow> has_key m k"
  by (simp add: has_key_iff)

lemma sorted_sorted_keys [simp]: "sorted (sorted_keys m)"
  by (simp add: sorted_keys_def)

lemma distinct_sorted_keys [simp]: "distinct (sorted_keys m)"
  by (simp add: sorted_keys_def)

lemma sorted_keys_Nil [simp]: "sorted_keys [] = []"
  by (simp add: sorted_keys_def)

lemma length_sorted_keys [simp]: "length (sorted_keys m) = map_len m"
  by (simp add: sorted_keys_def map_len_def)

lemma sorted_keys_cong:
  assumes "fst ` set a = fst ` set b"
  shows "sorted_keys a = sorted_keys b"
  using assms by (intro sorted_distinct_set_unique) auto

lemma map_len_Nil [simp]: "map_len [] = 0"
  by (simp add: map_len_def)

lemma map_len_card: "map_len m = card (fst ` set m)"
  by (simp add: map_len_def length_remdups_card_conv)

lemma map_len_wf: "wf_map m \<Longrightarrow> map_len m = length m"
  by (simp add: map_len_def wf_map_def distinct_remdups_id)

lemma get_or_update [simp]:
  "get_or z (AList.update k v m) j = (if j = k then v else get_or z m j)"
  by (simp add: get_or_def update_conv')

lemma get_or_absent: "\<not> has_key m k \<Longrightarrow> get_or z m k = z"
  by (auto simp: get_or_def has_key_def)

lemma wf_map_Nil [simp, wf_intros]: "wf_map []"
  by (simp add: wf_map_def)

lemma wf_map_update [simp, wf_intros]: "wf_map m \<Longrightarrow> wf_map (AList.update k v m)"
  by (simp add: wf_map_def distinct_update)

lemma wf_map_delete [simp, wf_intros]: "wf_map m \<Longrightarrow> wf_map (AList.delete k m)"
  by (simp add: wf_map_def distinct_delete)

lemma map_deep_eq_iff: "map_deep_eq a b \<longleftrightarrow> map_of a = map_of b"
proof
  assume eq: "map_deep_eq a b"
  show "map_of a = map_of b"
  proof
    fix k
    show "map_of a k = map_of b k"
    proof (cases "k \<in> fst ` set a \<union> fst ` set b")
      case True
      then show ?thesis using eq by (auto simp: map_deep_eq_def list_all_iff)
    next
      case False
      then have "map_of a k = None" "map_of b k = None"
        by (auto simp: map_of_eq_None_iff)
      then show ?thesis by simp
    qed
  qed
qed (simp add: map_deep_eq_def list_all_iff)

lemma map_deep_eq_refl [simp]: "map_deep_eq m m"
  by (simp add: map_deep_eq_iff)

lemma map_deep_eq_keys: "map_deep_eq a b \<Longrightarrow> fst ` set a = fst ` set b"
  by (metis dom_map_of_conv_image_fst map_deep_eq_iff)

lemma map_of_map_copy:
  "map_of (map_copy dst src) = map_of dst ++ map_of (rev src)"
  by (induction src arbitrary: dst)
    (auto simp: map_copy_def update_conv' fun_eq_iff map_add_def split: option.splits)

lemma map_of_rev_wf: "wf_map m \<Longrightarrow> map_of (rev m) = map_of m"
  by (simp add: wf_map_def map_of_inject_set flip: rev_map)

section \<open>Sorted lists of strings\<close>

lemma sorted_map_filter: "sorted (map f xs) \<Longrightarrow> sorted (map f (filter P xs))"
  by (induction xs) auto

end
