(* ===== verification/Go_Strings.thy ===== *)
theory Go_Strings
  imports Prelude
begin

text \<open>
  The functions of Go's \<open>strings\<close>, \<open>strconv\<close> and \<open>encoding/hex\<close> that the source uses, on
  byte strings: a Go string is a list of bytes and a \<open>char\<close> is a byte, so that \<open>length\<close> is
  \<open>len\<close>. Separators and character sets in the source are ASCII, where working on bytes and on
  runes agree. Unicode white space is recognised by its UTF-8 encodings.
\<close>

section \<open>Character classes\<close>

definition is_lower_alpha :: "char \<Rightarrow> bool" where
  "is_lower_alpha c \<longleftrightarrow> CHR ''a'' \<le> c \<and> c \<le> CHR ''z''"

definition is_upper_alpha :: "char \<Rightarrow> bool" where
  "is_upper_alpha c \<longleftrightarrow> CHR ''A'' \<le> c \<and> c \<le> CHR ''Z''"

definition is_alpha :: "char \<Rightarrow> bool" where
  "is_alpha c \<longleftrightarrow> is_lower_alpha c \<or> is_upper_alpha c"

definition is_digit :: "char \<Rightarrow> bool" where
  "is_digit c \<longleftrightarrow> CHR ''0'' \<le> c \<and> c \<le> CHR ''9''"

definition is_lower_hex :: "char \<Rightarrow> bool" where
  "is_lower_hex c \<longleftrightarrow> is_digit c \<or> CHR ''a'' \<le> c \<and> c \<le> CHR ''f''"

definition is_hex :: "char \<Rightarrow> bool" where
  "is_hex c \<longleftrightarrow> is_lower_hex c \<or> CHR ''A'' \<le> c \<and> c \<le> CHR ''F''"

abbreviation newline :: char where "newline \<equiv> CHR 0x0A"
abbreviation carriage_return :: char where "carriage_return \<equiv> CHR 0x0D"
abbreviation tab :: char where "tab \<equiv> CHR 0x09"
abbreviation nul :: char where "nul \<equiv> CHR 0x00"
abbreviation backslash :: char where "backslash \<equiv> CHR 0x5C"
abbreviation dquote :: char where "dquote \<equiv> CHR 0x22"

lemmas char_class_defs = is_lower_alpha_def is_upper_alpha_def is_alpha_def is_digit_def
  is_lower_hex_def is_hex_def

section \<open>Prefixes, suffixes, substrings\<close>

definition has_prefix :: "string \<Rightarrow> string \<Rightarrow> bool" where
  "has_prefix s p \<longleftrightarrow> take (length p) s = p"

definition has_suffix :: "string \<Rightarrow> string \<Rightarrow> bool" where
  "has_suffix s p \<longleftrightarrow> length p \<le> length s \<and> drop (length s - length p) s = p"

definition trim_prefix :: "string \<Rightarrow> string \<Rightarrow> string" where
  "trim_prefix s p = (if has_prefix s p then drop (length p) s else s)"

definition trim_suffix :: "string \<Rightarrow> string \<Rightarrow> string" where
  "trim_suffix s p = (if has_suffix s p then take (length s - length p) s else s)"

fun contains :: "string \<Rightarrow> string \<Rightarrow> bool" where
  "contains [] p = (p = [])"
| "contains (c # s) p = (has_prefix (c # s) p \<or> contains s p)"

definition contains_any :: "string \<Rightarrow> string \<Rightarrow> bool" where
  "contains_any s cs \<longleftrightarrow> list_ex (\<lambda>c. c \<in> set cs) s"

lemma has_prefix_iff: "has_prefix s p \<longleftrightarrow> (\<exists>t. s = p @ t)"
proof
  assume "has_prefix s p"
  then have "s = p @ drop (length p) s"
    by (metis append_take_drop_id has_prefix_def)
  then show "\<exists>t. s = p @ t" ..
qed (auto simp: has_prefix_def)

lemma has_suffix_iff: "has_suffix s p \<longleftrightarrow> (\<exists>t. s = t @ p)"
proof
  assume "has_suffix s p"
  then have "s = take (length s - length p) s @ p"
    by (metis append_take_drop_id has_suffix_def)
  then show "\<exists>t. s = t @ p" ..
qed (auto simp: has_suffix_def)

lemma contains_iff: "contains s p \<longleftrightarrow> (\<exists>a b. s = a @ p @ b)"
proof (induction s)
  case (Cons c s)
  have "(\<exists>a b. c # s = a @ p @ b) \<longleftrightarrow> (\<exists>b. c # s = p @ b) \<or> (\<exists>a b. s = a @ p @ b)"
    by (metis append_Cons append_eq_Cons_conv append_Nil)
  with Cons show ?case by (simp add: has_prefix_iff)
qed simp

lemma contains_any_iff: "contains_any s cs \<longleftrightarrow> set s \<inter> set cs \<noteq> {}"
  by (auto simp: contains_any_def list_ex_iff)

section \<open>Splitting and joining\<close>

text \<open>\<open>strings.Split\<close> with a one-byte separator, and \<open>strings.Join\<close>.\<close>

fun split_on :: "char \<Rightarrow> string \<Rightarrow> string list" where
  "split_on sep [] = [[]]"
| "split_on sep (c # s) =
     (if c = sep then [] # split_on sep s
      else (case split_on sep s of [] \<Rightarrow> [[c]] | p # ps \<Rightarrow> (c # p) # ps))"

fun join :: "string \<Rightarrow> string list \<Rightarrow> string" where
  "join sep [] = []"
| "join sep [p] = p"
| "join sep (p # q # ps) = p @ sep @ join sep (q # ps)"

definition replace_char :: "char \<Rightarrow> char \<Rightarrow> string \<Rightarrow> string" where
  "replace_char a b = map (\<lambda>c. if c = a then b else c)"

lemma split_on_nonempty [simp]: "split_on sep s \<noteq> []"
  by (cases s) (auto split: list.splits)

lemma join_Cons: "ps \<noteq> [] \<Longrightarrow> join sep (p # ps) = p @ sep @ join sep ps"
  by (cases ps) auto

lemma join_split_on: "join [sep] (split_on sep s) = s"
proof (induction s)
  case (Cons c s)
  obtain p ps where split: "split_on sep s = p # ps"
    by (cases "split_on sep s") auto
  show ?case
  proof (cases "c = sep")
    case True
    with Cons show ?thesis by (simp add: join_Cons)
  next
    case False
    with Cons split show ?thesis by (cases ps) auto
  qed
qed simp

lemma split_on_no_sep: "p \<in> set (split_on sep s) \<Longrightarrow> sep \<notin> set p"
  by (induction s arbitrary: p) (auto split: list.splits if_splits)

lemma split_on_prefix:
  "sep \<notin> set p \<Longrightarrow> split_on sep (p @ sep # s) = p # split_on sep s"
  by (induction p) auto

lemma split_on_absent: "sep \<notin> set s \<Longrightarrow> split_on sep s = [s]"
  by (induction s) auto

section \<open>White space\<close>

text \<open>
  The number of bytes of a leading white-space rune (0 when there is none), read off the UTF-8
  encodings of the runes \<open>unicode.IsSpace\<close> accepts.
\<close>

definition is_ascii_space :: "char \<Rightarrow> bool" where
  "is_ascii_space c \<longleftrightarrow> c \<in> {CHR 0x09, CHR 0x0A, CHR 0x0B, CHR 0x0C, CHR 0x0D, CHR 0x20}"

definition is_space_2 :: "char \<Rightarrow> char \<Rightarrow> bool" where
  "is_space_2 a b \<longleftrightarrow> a = CHR 0xC2 \<and> (b = CHR 0x85 \<or> b = CHR 0xA0)"

definition is_space_3 :: "char \<Rightarrow> char \<Rightarrow> char \<Rightarrow> bool" where
  "is_space_3 a b c \<longleftrightarrow>
     a = CHR 0xE1 \<and> b = CHR 0x9A \<and> c = CHR 0x80 \<or>
     a = CHR 0xE2 \<and> b = CHR 0x80 \<and>
       (CHR 0x80 \<le> c \<and> c \<le> CHR 0x8A \<or> c = CHR 0xA8 \<or> c = CHR 0xA9 \<or> c = CHR 0xAF) \<or>
     a = CHR 0xE2 \<and> b = CHR 0x81 \<and> c = CHR 0x9F \<or>
     a = CHR 0xE3 \<and> b = CHR 0x80 \<and> c = CHR 0x80"

fun space_len :: "string \<Rightarrow> nat" where
  "space_len (a # b # c # s) =
     (if is_ascii_space a then 1 else if is_space_2 a b then 2
      else if is_space_3 a b c then 3 else 0)"
| "space_len [a, b] = (if is_ascii_space a then 1 else if is_space_2 a b then 2 else 0)"
| "space_len [a] = (if is_ascii_space a then 1 else 0)"
| "space_len [] = 0"

text \<open>\<open>strings.Fields\<close>: the maximal runs of bytes outside white space.\<close>

function fields_from :: "string \<Rightarrow> string \<Rightarrow> string list" where
  "fields_from cur s =
     (if s = [] then (if cur = [] then [] else [rev cur])
      else if space_len s = 0 then fields_from (hd s # cur) (tl s)
      else (if cur = [] then [] else [rev cur]) @ fields_from [] (drop (space_len s) s))"
  by pat_completeness auto
termination
  by (relation "measure (\<lambda>(cur, s). length s)") (auto simp: neq_Nil_conv)

declare fields_from.simps [simp del]

definition string_fields :: "string \<Rightarrow> string list" where
  "string_fields s = fields_from [] s"

lemmas string_fields_eval =
  string_fields_def fields_from.simps is_ascii_space_def is_space_2_def is_space_3_def

text \<open>\<open>strings.TrimSpace(s) == ""\<close>: nothing but white space.\<close>

definition is_blank :: "string \<Rightarrow> bool" where
  "is_blank s \<longleftrightarrow> string_fields s = []"

lemma is_blank_Nil [simp]: "is_blank []"
  by (simp add: is_blank_def string_fields_def fields_from.simps)

lemma fields_from_cur_nonempty: "cur \<noteq> [] \<Longrightarrow> fields_from cur s \<noteq> []"
proof (induction cur s rule: fields_from.induct)
  case (1 cur s)
  then show ?case by (subst fields_from.simps) auto
qed

lemma is_blank_Cons:
  "is_blank (c # s) \<longleftrightarrow> space_len (c # s) \<noteq> 0 \<and> is_blank (drop (space_len (c # s)) (c # s))"
  unfolding is_blank_def string_fields_def
  by (subst fields_from.simps) (simp add: fields_from_cur_nonempty)

lemma alnum_code: "is_alpha c \<or> is_digit c \<Longrightarrow> 48 \<le> (of_char c :: nat) \<and> (of_char c :: nat) \<le> 122"
  by (auto simp: char_class_defs less_eq_char_def)

lemma space_code:
  "is_ascii_space c \<Longrightarrow> (of_char c :: nat) \<le> 32"
  "is_space_2 c d \<Longrightarrow> 128 \<le> (of_char c :: nat)"
  "is_space_3 c d e \<Longrightarrow> 128 \<le> (of_char c :: nat)"
  by (auto simp: is_ascii_space_def is_space_2_def is_space_3_def)

lemma space_len_alnum: "is_alpha c \<or> is_digit c \<Longrightarrow> space_len (c # s) = 0"
proof -
  assume "is_alpha c \<or> is_digit c"
  note code = alnum_code[OF this]
  have "\<not> is_ascii_space c" using code space_code(1)[of c] by linarith
  moreover have "\<not> is_space_2 c d" for d using code space_code(2)[of c d] by linarith
  moreover have "\<not> is_space_3 c d e" for d e using code space_code(3)[of c d e] by linarith
  ultimately show ?thesis by (cases s rule: list.exhaust; cases "tl s") auto
qed

lemma not_blank_alnum: "is_alpha c \<or> is_digit c \<Longrightarrow> \<not> is_blank (c # s)"
  by (subst is_blank_Cons) (simp add: space_len_alnum)

section \<open>Hexadecimal and decimal\<close>

definition hex_digit :: "nat \<Rightarrow> char" where
  "hex_digit n = (if n < 10 then char_of (48 + n) else char_of (87 + n))"

definition hex_byte :: "char \<Rightarrow> string" where
  "hex_byte c = [hex_digit (of_char c div 16), hex_digit (of_char c mod 16)]"

text \<open>\<open>hex.EncodeToString\<close>, which is also \<open>fmt.Sprintf("%x", b)\<close>.\<close>

definition hex_encode :: "string \<Rightarrow> string" where
  "hex_encode bs = concat (map hex_byte bs)"

lemma length_hex_encode [simp]: "length (hex_encode bs) = 2 * length bs"
  by (induction bs) (auto simp: hex_encode_def hex_byte_def)

lemma is_lower_hex_hex_digit: "n < 16 \<Longrightarrow> is_lower_hex (hex_digit n)"
  by (auto simp: hex_digit_def is_lower_hex_def is_digit_def less_eq_char_def)

lemma hex_encode_lower_hex: "list_all is_lower_hex (hex_encode bs)"
  by (auto simp: hex_encode_def hex_byte_def list_all_iff is_lower_hex_hex_digit
      less_mult_imp_div_less)

fun show_nat :: "nat \<Rightarrow> string" where
  "show_nat n = (if n < 10 then [char_of (48 + n)]
     else show_nat (n div 10) @ [char_of (48 + n mod 10)])"

declare show_nat.simps [simp del]

text \<open>\<open>strconv.Itoa\<close> and \<open>strconv.FormatInt(n, 10)\<close>.\<close>

definition show_int :: "int \<Rightarrow> string" where
  "show_int i = (if i < 0 then CHR ''-'' # show_nat (nat (- i)) else show_nat (nat i))"

definition digit_value :: "char \<Rightarrow> nat" where
  "digit_value c = of_char c - 48"

definition digits_value :: "string \<Rightarrow> nat" where
  "digits_value s = foldl (\<lambda>n c. 10 * n + digit_value c) 0 s"

text \<open>
  \<open>strconv.ParseInt(s, 10, 64)\<close>: an optional sign, at least one digit, nothing else, and a value
  in the range of int64. \<open>None\<close> is its error.
\<close>

definition parse_int :: "string \<Rightarrow> int option" where
  "parse_int s =
     (case s of [] \<Rightarrow> None
      | c # t \<Rightarrow>
        (let neg = (c = CHR ''-''); ds = (if c = CHR ''-'' \<or> c = CHR ''+'' then t else s)
         in if ds = [] \<or> \<not> list_all is_digit ds then None
            else (let v = (if neg then - int (digits_value ds) else int (digits_value ds))
                  in if v < min_int64 \<or> max_int64 < v then None else Some v)))"

lemma show_nat_nonempty [simp]: "show_nat n \<noteq> []"
  by (subst show_nat.simps) auto

lemma is_digit_char_of: "n < 10 \<Longrightarrow> is_digit (char_of (48 + (n :: nat)))"
  by (simp add: is_digit_def less_eq_char_def)

lemma show_nat_digits: "list_all is_digit (show_nat n)"
proof (induction n rule: show_nat.induct)
  case (1 n)
  then show ?case
    by (subst show_nat.simps) (simp add: is_digit_char_of)
qed

lemma digits_value_snoc: "digits_value (s @ [c]) = 10 * digits_value s + digit_value c"
  by (simp add: digits_value_def)

lemma digit_value_char_of: "n < 10 \<Longrightarrow> digit_value (char_of (48 + n)) = n"
  by (simp add: digit_value_def)

lemma digits_value_show_nat: "digits_value (show_nat n) = n"
proof (induction n rule: show_nat.induct)
  case (1 n)
  show ?case
  proof (cases "n < 10")
    case True
    then have "show_nat n = [] @ [char_of (48 + n)]" by (subst show_nat.simps) simp
    with True show ?thesis
      by (simp only: digits_value_snoc digit_value_char_of) (simp add: digits_value_def)
  next
    case False
    with 1 show ?thesis
      by (subst show_nat.simps) (simp add: digits_value_snoc digit_value_char_of)
  qed
qed

lemma parse_int_show_int:
  assumes "0 \<le> i" and "i \<le> max_int64"
  shows "parse_int (show_int i) = Some i"
proof -
  obtain c t where shown: "show_nat (nat i) = c # t"
    by (cases "show_nat (nat i)") auto
  have digits: "list_all is_digit (c # t)"
    using show_nat_digits[of "nat i"] shown by simp
  then have "c \<noteq> CHR ''-''" "c \<noteq> CHR ''+''"
    by (auto simp: is_digit_def less_eq_char_def)
  moreover have "digits_value (c # t) = nat i"
    using digits_value_show_nat[of "nat i"] shown by simp
  ultimately show ?thesis
    using assms shown digits by (simp add: parse_int_def show_int_def Let_def)
qed

section \<open>Booleans and quoting\<close>

definition show_bool :: "bool \<Rightarrow> string" where
  "show_bool b = (if b then ''true'' else ''false'')"

text \<open>
  \<open>strconv.Quote\<close>, the verb \<open>%q\<close>, on ASCII strings; the source quotes hexadecimal composition
  identities only. Bytes above the ASCII range are kept as they are.
\<close>

definition quote_char :: "char \<Rightarrow> string" where
  "quote_char c =
     (if c = dquote then [backslash, dquote]
      else if c = backslash then [backslash, backslash]
      else if c = CHR 0x07 then [backslash, CHR ''a'']
      else if c = CHR 0x08 then [backslash, CHR ''b'']
      else if c = CHR 0x0C then [backslash, CHR ''f'']
      else if c = newline then [backslash, CHR ''n'']
      else if c = carriage_return then [backslash, CHR ''r'']
      else if c = tab then [backslash, CHR ''t'']
      else if c = CHR 0x0B then [backslash, CHR ''v'']
      else if c < CHR 0x20 \<or> c = CHR 0x7F then [backslash, CHR ''x''] @ hex_byte c
      else [c])"

definition quote :: "string \<Rightarrow> string" where
  "quote s = dquote # concat (map quote_char s) @ [dquote]"

lemma lower_hex_code:
  "is_lower_hex c \<Longrightarrow> 48 \<le> (of_char c :: nat) \<and> (of_char c :: nat) \<le> 57 \<or>
     97 \<le> (of_char c :: nat) \<and> (of_char c :: nat) \<le> 102"
  by (auto simp: char_class_defs less_eq_char_def)

lemma quote_char_hex:
  assumes "is_lower_hex c"
  shows "quote_char c = [c]"
proof -
  have code: "48 \<le> (of_char c :: nat)" "of_char c \<noteq> (92 :: nat)" "of_char c \<noteq> (127 :: nat)"
    using lower_hex_code[OF assms] by auto
  then have "c \<noteq> d" if "of_char d < (48 :: nat) \<or> d = backslash \<or> d = CHR 0x7F" for d
    using that by auto
  moreover have "\<not> c < CHR 0x20"
    using code by (simp add: less_char_def)
  ultimately show ?thesis by (simp add: quote_char_def)
qed

lemma quote_hex: "list_all is_lower_hex s \<Longrightarrow> quote s = dquote # s @ [dquote]"
  by (induction s) (auto simp: quote_def quote_char_hex)

end
