(* ===== verification/Go_Time.thy ===== *)
theory Go_Time
  imports Go_Strings
begin

text \<open>
  \<open>time.ParseDuration\<close> and \<open>Duration.String\<close> of Go's standard library. The fraction of a
  duration is scaled in float64 arithmetic there; the model computes each of its three roundings
  exactly, on ratios of natural numbers rounded to 53 bits, half to even.
\<close>

section \<open>The float64 arithmetic of a fraction\<close>

fun bit_length :: "nat \<Rightarrow> nat" where
  "bit_length n = (if n = 0 then 0 else Suc (bit_length (n div 2)))"

declare bit_length.simps [simp del]

text \<open>The quotient of two natural numbers rounded to the nearest, half to even.\<close>

definition round_half_even :: "nat \<Rightarrow> nat \<Rightarrow> nat" where
  "round_half_even p q =
     (let d = p div q; r = p mod q
      in if 2 * r < q \<or> (2 * r = q \<and> even d) then d else Suc d)"

text \<open>
  A positive float64 is a pair \<open>(m, e)\<close> that stands for \<open>m * 2 ^ e\<close>; the nearest one to
  \<open>p / q\<close> has a significand of 53 bits.
\<close>

definition float_of_ratio :: "nat \<Rightarrow> nat \<Rightarrow> nat \<times> int" where
  "float_of_ratio p q =
     (let s = 53 - (int (bit_length p) - int (bit_length q));
          quot = (\<lambda>s. if 0 \<le> s then (p * 2 ^ nat s, q) else (p, q * 2 ^ nat (- s)));
          (n, d) = quot s;
          s' = (if n div d \<ge> 2 ^ 53 then s - 1 else s);
          (n', d') = quot s'
      in (round_half_even n' d', - s'))"

definition float_mult :: "nat \<times> int \<Rightarrow> nat \<times> int \<Rightarrow> nat \<times> int" where
  "float_mult a b =
     (let (m, e) = float_of_ratio (fst a * fst b) 1 in (m, e + snd a + snd b))"

definition float_floor :: "nat \<times> int \<Rightarrow> nat" where
  "float_floor a = (if 0 \<le> snd a then fst a * 2 ^ nat (snd a) else fst a div 2 ^ nat (- snd a))"

text \<open>\<open>uint64(float64(f) * (float64(unit) / scale))\<close> for a positive fraction \<open>f\<close>.\<close>

definition scaled_fraction :: "nat \<Rightarrow> nat \<Rightarrow> nat \<Rightarrow> nat" where
  "scaled_fraction f scale unit =
     float_floor (float_mult (float_of_ratio f 1) (float_of_ratio unit scale))"

section \<open>time.ParseDuration\<close>

definition unit_table :: "nat gomap" where
  "unit_table =
     [(''ns'', 1), (''us'', 1000), ([CHR 0xC2, CHR 0xB5, CHR ''s''], 1000),
      ([CHR 0xCE, CHR 0xBC, CHR ''s''], 1000), (''ms'', 1000000), (''s'', 1000000000),
      (''m'', 60000000000), (''h'', 3600000000000)]"

text \<open>\<open>leadingInt\<close>: the value of the digits, an error past \<open>2 ^ 63\<close>.\<close>

fun leading_int :: "nat \<Rightarrow> string \<Rightarrow> (nat \<times> string) option" where
  "leading_int v [] = Some (v, [])"
| "leading_int v (c # s) =
     (if \<not> is_digit c then Some (v, c # s)
      else if v > 2 ^ 63 div 10 then None
      else (let v' = v * 10 + digit_value c
            in if v' > 2 ^ 63 then None else leading_int v' s))"

text \<open>\<open>leadingFraction\<close>: digits past an overflow are read and ignored.\<close>

fun leading_fraction :: "nat \<Rightarrow> nat \<Rightarrow> bool \<Rightarrow> string \<Rightarrow> nat \<times> nat \<times> string" where
  "leading_fraction f scale overflow [] = (f, scale, [])"
| "leading_fraction f scale overflow (c # s) =
     (if \<not> is_digit c then (f, scale, c # s)
      else if overflow \<or> f > (2 ^ 63 - 1) div 10 then leading_fraction f scale True s
      else (let f' = f * 10 + digit_value c
            in if f' > 2 ^ 63 then leading_fraction f scale True s
               else leading_fraction f' (scale * 10) False s))"

definition is_unit_char :: "char \<Rightarrow> bool" where
  "is_unit_char c \<longleftrightarrow> c \<noteq> CHR ''.'' \<and> \<not> is_digit c"

text \<open>\<open>(\.[0-9]*)?\<close>: the fraction, its scale, the rest, and whether it had a digit.\<close>

definition parse_point :: "string \<Rightarrow> nat \<times> nat \<times> string \<times> bool" where
  "parse_point s =
     (case s of [] \<Rightarrow> (0, 1, s, False)
      | c # t \<Rightarrow>
        if c = CHR ''.'' then
          (let (f, scale, r) = leading_fraction 0 1 False t
           in (f, scale, r, length r \<noteq> length t))
        else (0, 1, s, False))"

text \<open>The value in nanoseconds of \<open>v\<close> units and a fraction, an error past \<open>2 ^ 63\<close>.\<close>

definition segment_value :: "nat \<Rightarrow> nat \<Rightarrow> nat \<Rightarrow> nat \<Rightarrow> nat option" where
  "segment_value v f scale unit =
     (if v > 2 ^ 63 div unit then None
      else if f > 0 then
        (let w = v * unit + scaled_fraction f scale unit in if w > 2 ^ 63 then None else Some w)
      else Some (v * unit))"

text \<open>One number with its unit: the nanoseconds it stands for and the rest of the text.\<close>

definition parse_unit :: "nat \<Rightarrow> nat \<Rightarrow> nat \<Rightarrow> string \<Rightarrow> (nat \<times> string) option" where
  "parse_unit v f scale s =
     (let u = takeWhile is_unit_char s
      in if u = [] then None
         else case map_of unit_table u of None \<Rightarrow> None
         | Some unit \<Rightarrow>
           map_option (\<lambda>n. (n, dropWhile is_unit_char s)) (segment_value v f scale unit))"

definition parse_segment :: "string \<Rightarrow> (nat \<times> string) option" where
  "parse_segment s =
     (if s = [] \<or> (hd s \<noteq> CHR ''.'' \<and> \<not> is_digit (hd s)) then None
      else case leading_int 0 s of None \<Rightarrow> None
      | Some (v, s1) \<Rightarrow>
        (case parse_point s1 of (f, scale, s2, post) \<Rightarrow>
           if length s1 = length s \<and> \<not> post then None else parse_unit v f scale s2))"

lemma leading_int_length: "leading_int v s = Some (v', s') \<Longrightarrow> length s' \<le> length s"
  by (induction v s rule: leading_int.induct) (auto simp: Let_def split: if_splits)

lemma leading_fraction_length:
  "leading_fraction f sc ov s = (f', sc', s') \<Longrightarrow> length s' \<le> length s"
  by (induction f sc ov s rule: leading_fraction.induct) (auto simp: Let_def split: if_splits)

lemma dropWhile_length: "takeWhile P s \<noteq> [] \<Longrightarrow> length (dropWhile P s) < length s"
  by (cases s) (auto simp: le_imp_less_Suc length_dropWhile_le split: if_splits)

lemma parse_point_length: "parse_point s = (f, sc, s', post) \<Longrightarrow> length s' \<le> length s"
  using leading_fraction_length[of 0 1 False "tl s"]
  by (auto simp: parse_point_def split: list.splits if_splits prod.splits intro: le_SucI)

lemma parse_unit_length: "parse_unit v f sc s = Some (n, s') \<Longrightarrow> length s' < length s"
  by (auto simp: parse_unit_def Let_def dropWhile_length split: if_splits option.splits)

lemma parse_segment_length: "parse_segment s = Some (n, s') \<Longrightarrow> length s' < length s"
  by (auto simp: parse_segment_def split: if_splits option.splits prod.splits
      dest!: leading_int_length parse_point_length parse_unit_length)

function parse_segments :: "nat \<Rightarrow> string \<Rightarrow> nat option" where
  "parse_segments d s =
     (if s = [] then Some d
      else case parse_segment s of None \<Rightarrow> None
      | Some (v, s') \<Rightarrow> if d + v > 2 ^ 63 then None else parse_segments (d + v) s')"
  by pat_completeness auto
termination
  by (relation "measure (\<lambda>(d, s). length s)") (auto simp: parse_segment_length)

declare parse_segments.simps [simp del]

definition parse_duration :: "string \<Rightarrow> duration option" where
  "parse_duration s =
     (let neg = (s \<noteq> [] \<and> hd s = CHR ''-'');
          t = (if s \<noteq> [] \<and> (hd s = CHR ''-'' \<or> hd s = CHR ''+'') then tl s else s)
      in if t = ''0'' then Some 0
         else if t = [] then None
         else case parse_segments 0 t of None \<Rightarrow> None
         | Some d \<Rightarrow> if neg then Some (- int d)
                     else if d > 2 ^ 63 - 1 then None else Some (int d))"

text \<open>The equations that evaluate \<open>parse_duration\<close> on a literal.\<close>

lemmas parse_duration_eval =
  parse_duration_def parse_segments.simps parse_segment_def parse_point_def parse_unit_def
  segment_value_def unit_table_def is_unit_char_def is_digit_def less_eq_char_def digit_value_def

section \<open>Duration.String\<close>

text \<open>
  \<open>fmtFrac\<close>: the last \<open>prec\<close> decimal digits as a fraction, without trailing zeros, and without
  the point when nothing is left.
\<close>

fun fmt_frac :: "nat \<Rightarrow> nat \<Rightarrow> bool \<Rightarrow> string \<Rightarrow> string" where
  "fmt_frac v 0 seen acc = (if seen then CHR ''.'' # acc else acc)"
| "fmt_frac v (Suc prec) seen acc =
     (let digit = v mod 10; seen' = (seen \<or> digit \<noteq> 0)
      in fmt_frac (v div 10) prec seen'
           (if seen' then char_of (48 + digit) # acc else acc))"

definition show_duration :: "duration \<Rightarrow> string" where
  "show_duration d =
     (let u = nat \<bar>d\<bar>;
          body =
            (if u = 0 then ''0s''
             else if u < 1000 then show_nat u @ ''ns''
             else if u < 1000000 then
               show_nat (u div 1000) @ fmt_frac u 3 False [CHR 0xC2, CHR 0xB5, CHR ''s'']
             else if u < 1000000000 then show_nat (u div 1000000) @ fmt_frac u 6 False ''ms''
             else
               (let secs = u div 1000000000; mins = secs div 60; hours = mins div 60;
                    stail = show_nat (secs mod 60) @ fmt_frac u 9 False ''s''
                in if mins = 0 then stail
                   else if hours = 0 then show_nat (mins mod 60) @ ''m'' @ stail
                   else show_nat hours @ ''h'' @ show_nat (mins mod 60) @ ''m'' @ stail))
      in if d < 0 then CHR ''-'' # body else body)"

section \<open>Printing a whole number of seconds and reading it back\<close>

lemma foldl_digits_ge: "v \<le> foldl (\<lambda>n c. 10 * n + digit_value c) v ds"
proof (induction ds arbitrary: v)
  case (Cons c ds)
  have "v \<le> 10 * v + digit_value c" by simp
  also have "\<dots> \<le> foldl (\<lambda>n c. 10 * n + digit_value c) (10 * v + digit_value c) ds"
    by (rule Cons.IH)
  finally show ?case by simp
qed simp

lemma leading_int_append:
  assumes "list_all is_digit ds" and "foldl (\<lambda>n c. 10 * n + digit_value c) v ds \<le> 2 ^ 63"
    and "r = [] \<or> \<not> is_digit (hd r)"
  shows "leading_int v (ds @ r) = Some (foldl (\<lambda>n c. 10 * n + digit_value c) v ds, r)"
  using assms
proof (induction ds arbitrary: v)
  case Nil
  then show ?case by (cases r) auto
next
  case (Cons c ds)
  let ?f = "\<lambda>n c. 10 * n + digit_value c"
  from foldl_digits_ge[of "?f v c" ds] Cons.prems(2) have "?f v c \<le> 2 ^ 63" by simp
  with Cons show ?case by (simp add: Let_def mult.commute)
qed

lemma leading_int_show_nat:
  "n \<le> 2 ^ 63 \<Longrightarrow> r = [] \<or> \<not> is_digit (hd r) \<Longrightarrow> leading_int 0 (show_nat n @ r) = Some (n, r)"
  using leading_int_append[of "show_nat n" 0 r] show_nat_digits digits_value_show_nat[of n]
  by (simp add: digits_value_def)

lemma is_unit_char_not_digit: "is_unit_char c \<Longrightarrow> \<not> is_digit c \<and> c \<noteq> CHR ''.''"
  by (simp add: is_unit_char_def)

lemma takeWhile_unit:
  assumes "list_all is_unit_char u" and "r = [] \<or> is_digit (hd r)"
  shows "takeWhile is_unit_char (u @ r) = u" and "dropWhile is_unit_char (u @ r) = r"
proof -
  from assms(2) have r: "takeWhile is_unit_char r = []" "dropWhile is_unit_char r = r"
    by (cases r; simp add: is_unit_char_def)+
  from assms(1) show "takeWhile is_unit_char (u @ r) = u" "dropWhile is_unit_char (u @ r) = r"
    by (induction u) (simp_all add: r)
qed

lemma parse_segment_show:
  assumes "map_of unit_table u = Some unit" and "list_all is_unit_char u" and "u \<noteq> []"
    and "0 < unit" and "n * unit \<le> 2 ^ 63" and "r = [] \<or> is_digit (hd r)"
  shows "parse_segment (show_nat n @ u @ r) = Some (n * unit, r)"
proof -
  have hd_u: "\<not> is_digit (hd (u @ r))" "hd (u @ r) \<noteq> CHR ''.''" "u @ r \<noteq> []"
    using assms(2,3) by (cases u; auto dest: is_unit_char_not_digit)+
  have "n \<le> 2 ^ 63 div unit" using assms(4,5) by (simp add: less_eq_div_iff_mult_less_eq)
  then have "n \<le> 2 ^ 63" by (rule order_trans) simp
  then have int: "leading_int 0 (show_nat n @ u @ r) = Some (n, u @ r)"
    using hd_u leading_int_show_nat by blast
  have point: "parse_point (u @ r) = (0, 1, u @ r, False)"
    using hd_u by (auto simp: parse_point_def split: list.splits)
  have hd_n: "is_digit (hd (show_nat n @ u @ r))"
    using show_nat_digits[of n] by (cases "show_nat n") (auto simp: hd_append)
  show ?thesis
    using hd_n int point assms(1,3) \<open>n \<le> 2 ^ 63 div unit\<close>
    by (simp add: parse_segment_def parse_unit_def segment_value_def Let_def
        takeWhile_unit[OF assms(2,6)])
qed

lemma parse_segments_show:
  assumes "map_of unit_table u = Some unit" and "list_all is_unit_char u" and "u \<noteq> []"
    and "0 < unit" and "d + n * unit \<le> 2 ^ 63" and "r = [] \<or> is_digit (hd r)"
  shows "parse_segments d (show_nat n @ u @ r) = parse_segments (d + n * unit) r"
proof -
  have "parse_segment (show_nat n @ u @ r) = Some (n * unit, r)"
    using assms by (intro parse_segment_show) auto
  then show ?thesis
    using assms(5) by (subst parse_segments.simps) simp
qed

lemma parse_segments_Nil [simp]: "parse_segments d [] = Some d"
  by (simp add: parse_segments.simps)

lemma parse_hours:
  "d + n * 3600000000000 \<le> 2 ^ 63 \<Longrightarrow> r = [] \<or> is_digit (hd r) \<Longrightarrow>
     parse_segments d (show_nat n @ CHR ''h'' # r) = parse_segments (d + n * 3600000000000) r"
  using parse_segments_show[of "''h''" 3600000000000 d n r]
  by (simp add: unit_table_def is_unit_char_def is_digit_def)

lemma parse_minutes:
  "d + n * 60000000000 \<le> 2 ^ 63 \<Longrightarrow> r = [] \<or> is_digit (hd r) \<Longrightarrow>
     parse_segments d (show_nat n @ CHR ''m'' # r) = parse_segments (d + n * 60000000000) r"
  using parse_segments_show[of "''m''" 60000000000 d n r]
  by (simp add: unit_table_def is_unit_char_def is_digit_def)

lemma parse_seconds:
  "d + n * 1000000000 \<le> 2 ^ 63 \<Longrightarrow> r = [] \<or> is_digit (hd r) \<Longrightarrow>
     parse_segments d (show_nat n @ CHR ''s'' # r) = parse_segments (d + n * 1000000000) r"
  using parse_segments_show[of "''s''" 1000000000 d n r]
  by (simp add: unit_table_def is_unit_char_def is_digit_def)

lemma fmt_frac_zero: "10 ^ n dvd v \<Longrightarrow> fmt_frac v n False acc = acc"
proof (induction n arbitrary: v)
  case (Suc n)
  then obtain w where v: "v = 10 * (10 ^ n * w)"
    by (auto elim!: dvdE simp: mult.assoc)
  have "fmt_frac (10 ^ n * w) n False acc = acc"
    by (rule Suc.IH) simp
  with v show ?case by (simp add: Let_def)
qed simp

lemma hd_show_nat: "is_digit (hd (show_nat n))" "is_digit (hd (show_nat n @ r))"
  using show_nat_digits[of n] by (cases "show_nat n"; auto simp: hd_append)+

text \<open>The text of a duration of \<open>s\<close> whole seconds reads back as its nanoseconds.\<close>

lemma parse_hms:
  assumes "s * 1000000000 \<le> 2 ^ 63"
  shows "parse_segments 0 (show_nat (s div 60 div 60) @ CHR ''h'' # show_nat (s div 60 mod 60) @
    CHR ''m'' # show_nat (s mod 60) @ ''s'') = Some (s * 1000000000)"
proof -
  define h m c where "h = s div 60 div 60" and "m = s div 60 mod 60" and "c = s mod 60"
  have "s = (h * 60 + m) * 60 + c"
    by (simp only: h_def m_def c_def div_mult_mod_eq)
  then have sum: "h * 3600000000000 + m * 60000000000 + c * 1000000000 = s * 1000000000"
    by simp
  then have le: "0 + h * 3600000000000 \<le> 2 ^ 63" "0 + h * 3600000000000 + m * 60000000000 \<le> 2 ^ 63"
    "0 + h * 3600000000000 + m * 60000000000 + c * 1000000000 \<le> 2 ^ 63"
    using assms by linarith+
  have "parse_segments 0 (show_nat h @ CHR ''h'' # show_nat m @ CHR ''m'' # show_nat c @ ''s'') =
      parse_segments (0 + h * 3600000000000) (show_nat m @ CHR ''m'' # show_nat c @ ''s'')"
    by (rule parse_hours[OF le(1)]) (simp add: hd_show_nat)
  also have "\<dots> = parse_segments (0 + h * 3600000000000 + m * 60000000000) (show_nat c @ ''s'')"
    by (rule parse_minutes[OF le(2)]) (simp add: hd_show_nat)
  also have "\<dots> = Some (s * 1000000000)"
    by (subst parse_seconds[OF le(3)]) (simp_all add: sum)
  finally show ?thesis by (simp only: h_def m_def c_def)
qed

lemma parse_ms:
  assumes "s * 1000000000 \<le> 2 ^ 63"
  shows "parse_segments 0 (show_nat (s div 60) @ CHR ''m'' # show_nat (s mod 60) @ ''s'')
    = Some (s * 1000000000)"
proof -
  define m c where "m = s div 60" and "c = s mod 60"
  have "s = m * 60 + c" by (simp only: m_def c_def div_mult_mod_eq)
  then have sum: "m * 60000000000 + c * 1000000000 = s * 1000000000" by simp
  then have le: "0 + m * 60000000000 \<le> 2 ^ 63" "0 + m * 60000000000 + c * 1000000000 \<le> 2 ^ 63"
    using assms by linarith+
  have "parse_segments 0 (show_nat m @ CHR ''m'' # show_nat c @ ''s'') =
      parse_segments (0 + m * 60000000000) (show_nat c @ ''s'')"
    by (rule parse_minutes[OF le(1)]) (simp add: hd_show_nat)
  also have "\<dots> = Some (s * 1000000000)"
    by (subst parse_seconds[OF le(2)]) (simp_all add: sum)
  finally show ?thesis by (simp only: m_def c_def)
qed

lemma parse_s: "s * 1000000000 \<le> 2 ^ 63 \<Longrightarrow> parse_segments 0 (show_nat s @ ''s'') = Some (s * 1000000000)"
  by (simp add: parse_seconds)

lemma show_duration_seconds:
  assumes "0 < s"
  shows "show_duration (int (s * 1000000000)) =
    (if s div 60 = 0 then show_nat s @ ''s''
     else if s div 60 div 60 = 0 then show_nat (s div 60) @ CHR ''m'' # show_nat (s mod 60) @ ''s''
     else show_nat (s div 60 div 60) @ CHR ''h'' # show_nat (s div 60 mod 60) @ CHR ''m'' #
       show_nat (s mod 60) @ ''s'')"
proof -
  let ?u = "s * 1000000000"
  have frac: "fmt_frac ?u 9 False ''s'' = ''s''"
    by (rule fmt_frac_zero) simp
  have u: "nat \<bar>int ?u\<bar> = ?u" "\<not> int ?u < 0" "?u \<noteq> 0" "\<not> ?u < 1000" "\<not> ?u < 1000000"
    "\<not> ?u < 1000000000" "?u div 1000000000 = s"
    using assms by simp_all
  consider "s div 60 = 0" "s mod 60 = s" | "s div 60 \<noteq> 0" "s div 60 div 60 = 0" "s div 60 mod 60 = s div 60"
    | "s div 60 \<noteq> 0" "s div 60 div 60 \<noteq> 0"
    by (metis div_eq_0_iff mod_less zero_neq_numeral)
  then show ?thesis
    unfolding show_duration_def Let_def u(1) u(7) frac
    by cases (simp_all only: u if_False if_True append_Cons append_Nil append_assoc simp_thms)
qed

lemma show_duration_nonsign:
  assumes "0 < s"
  shows "is_digit (hd (show_duration (int (s * 1000000000))))"
    and "show_duration (int (s * 1000000000)) \<noteq> []"
    and "show_duration (int (s * 1000000000)) \<noteq> ''0''"
  unfolding show_duration_seconds[OF assms]
  by (auto simp: hd_show_nat append_eq_Cons_conv simp del: hd_append2)

theorem parse_show_duration:
  assumes "0 < s" and "s * 1000000000 \<le> 2 ^ 63 - 1"
  shows "parse_duration (show_duration (int (s * 1000000000))) = Some (int (s * 1000000000))"
proof -
  let ?t = "show_duration (int (s * 1000000000))"
  have le: "s * 1000000000 \<le> 2 ^ 63" using assms(2) by simp
  have "parse_segments 0 ?t = Some (s * 1000000000)"
    unfolding show_duration_seconds[OF assms(1)]
    using parse_hms[OF le] parse_ms[OF le] parse_s[OF le] by simp
  moreover have "hd ?t \<noteq> CHR ''-''" "hd ?t \<noteq> CHR ''+''"
    using show_duration_nonsign(1)[OF assms(1)] by (auto simp: is_digit_def)
  ultimately show ?thesis
    using show_duration_nonsign(2,3)[OF assms(1)] assms(2)
    by (simp add: parse_duration_def Let_def)
qed

end
