(* ===== verification/Go_Url.thy ===== *)
theory Go_Url
  imports Go_Strings
begin

text \<open>
  \<open>net/url\<close> as far as the program uses it: \<open>url.Parse\<close> followed by \<open>Host\<close> and \<open>Hostname\<close>.
  \<open>parse_url\<close> gives the scheme and the host of a URL that parses; paths, queries, fragments and
  user information are only checked for what makes \<open>Parse\<close> fail. A bracketed IPv6 literal with a
  zone is rejected here, the one kind of host the library accepts that this model does not.
\<close>

section \<open>Cutting strings\<close>

definition cut_at :: "char \<Rightarrow> string \<Rightarrow> string \<times> string" where
  "cut_at c s = (takeWhile (\<lambda>x. x \<noteq> c) s, drop 1 (dropWhile (\<lambda>x. x \<noteq> c) s))"

definition last_index :: "char \<Rightarrow> string \<Rightarrow> nat option" where
  "last_index c s =
     (if c \<in> set s then Some (length s - 1 - length (takeWhile (\<lambda>x. x \<noteq> c) (rev s))) else None)"

section \<open>Escapes\<close>

fun escapes_ok :: "string \<Rightarrow> bool" where
  "escapes_ok [] = True"
| "escapes_ok (c # s) =
     (if c = CHR ''%'' then
        (case s of a # b # r \<Rightarrow> is_hex a \<and> is_hex b \<and> escapes_ok r | _ \<Rightarrow> False)
      else escapes_ok s)"

definition hex_value :: "char \<Rightarrow> nat" where
  "hex_value c =
     (if is_digit c then of_char c - 48
      else if is_lower_alpha c then of_char c - 87 else of_char c - 55)"

definition host_char :: "char \<Rightarrow> bool" where
  "host_char c \<longleftrightarrow>
     (128::nat) \<le> of_char c \<or> is_alpha c \<or> is_digit c \<or>
     c \<in> set ''-_.~!$&()*+,;=:[]<>'' \<or> c = CHR 0x22 \<or> c = CHR 0x27"

text \<open>\<open>unescape(s, encodeHost)\<close>: only non-ASCII bytes and a percent sign may be escaped.\<close>

fun unescape_host :: "string \<Rightarrow> string option" where
  "unescape_host [] = Some []"
| "unescape_host (c # s) =
     (if c = CHR ''%'' then
        (case s of a # b # r \<Rightarrow>
           if \<not> is_hex a \<or> \<not> is_hex b \<or> hex_value a < 8 \<and> [a, b] \<noteq> ''25'' then None
           else map_option (Cons (char_of (16 * hex_value a + hex_value b))) (unescape_host r)
         | _ \<Rightarrow> None)
      else if host_char c then map_option (Cons c) (unescape_host s) else None)"

section \<open>Hosts\<close>

definition validOptionalPort :: "string \<Rightarrow> bool" where
  "validOptionalPort s \<longleftrightarrow> s = [] \<or> hd s = CHR '':'' \<and> list_all is_digit (tl s)"

definition decimal_byte :: "string \<Rightarrow> bool" where
  "decimal_byte s \<longleftrightarrow>
     s \<noteq> [] \<and> length s \<le> 3 \<and> list_all is_digit s \<and> (length s = 1 \<or> hd s \<noteq> CHR ''0'') \<and>
     digits_value s < 256"

definition dotted_quad :: "string \<Rightarrow> bool" where
  "dotted_quad s \<longleftrightarrow> length (split_on CHR ''.'' s) = 4 \<and> list_all decimal_byte (split_on CHR ''.'' s)"

definition hex_group :: "string \<Rightarrow> bool" where
  "hex_group g \<longleftrightarrow> g \<noteq> [] \<and> length g \<le> 4 \<and> list_all is_hex g"

text \<open>The number of 16-bit groups of one side of an IPv6 address; the last may be dotted.\<close>

definition group_count :: "bool \<Rightarrow> string \<Rightarrow> nat option" where
  "group_count last_side s =
     (if s = [] then Some 0
      else let gs = split_on CHR '':'' s in
        if list_all hex_group gs then Some (length gs)
        else if last_side \<and> list_all hex_group (butlast gs) \<and> dotted_quad (last gs)
        then Some (length gs + 1) else None)"

fun cut_ellipsis :: "string \<Rightarrow> string \<Rightarrow> (string \<times> string) option" where
  "cut_ellipsis before (a # b # s) =
     (if a = CHR '':'' \<and> b = CHR '':'' then Some (rev before, s) else cut_ellipsis (a # before) (b # s))"
| "cut_ellipsis before s = None"

definition ipv6_literal :: "string \<Rightarrow> bool" where
  "ipv6_literal s =
     (case cut_ellipsis [] s of
        None \<Rightarrow> group_count True s = Some 8
      | Some (l, r) \<Rightarrow>
          (case (group_count False l, group_count True r) of
             (Some m, Some n) \<Rightarrow> m + n \<le> 7
           | _ \<Rightarrow> False))"

definition parseHost :: "string \<Rightarrow> string option" where
  "parseHost host =
     (if host \<noteq> [] \<and> hd host = CHR ''['' then
        (case last_index CHR '']'' host of
           None \<Rightarrow> None
         | Some i \<Rightarrow>
             let port = drop (i + 1) host; inner = take (i - 1) (tl host) in
             if validOptionalPort port \<and> ipv6_literal inner then Some host else None)
      else if CHR ''['' \<in> set host then None
      else if \<not> validOptionalPort (dropWhile (\<lambda>c. c \<noteq> CHR '':'') host) then None
      else unescape_host host)"

definition userinfo_char :: "char \<Rightarrow> bool" where
  "userinfo_char c \<longleftrightarrow> is_alpha c \<or> is_digit c \<or> c \<in> set ''-._:~!$&()*+,;=%@'' \<or> c = CHR 0x27"

definition parseAuthority :: "string \<Rightarrow> string option" where
  "parseAuthority authority =
     (case last_index CHR ''@'' authority of
        None \<Rightarrow> parseHost authority
      | Some i \<Rightarrow>
          (case parseHost (drop (i + 1) authority) of
             None \<Rightarrow> None
           | Some host \<Rightarrow>
               let user = take i authority; (name, password) = cut_at CHR '':'' user in
               if list_all userinfo_char user \<and> escapes_ok name \<and> escapes_ok password
               then Some host else None))"

section \<open>URLs\<close>

definition scheme_char :: "char \<Rightarrow> bool" where
  "scheme_char c \<longleftrightarrow> is_digit c \<or> c \<in> set ''+-.''"

text \<open>\<open>getScheme\<close>: the lower-cased scheme (empty when there is none) and the rest.\<close>

fun scheme_from :: "string \<Rightarrow> string \<Rightarrow> string \<Rightarrow> (string \<times> string) option" where
  "scheme_from raw before [] = Some ([], raw)"
| "scheme_from raw before (c # s) =
     (if is_alpha c then scheme_from raw (c # before) s
      else if scheme_char c then
        (if before = [] then Some ([], raw) else scheme_from raw (c # before) s)
      else if c = CHR '':'' then (if before = [] then None else Some (rev before, s))
      else Some ([], raw))"

definition lower_char :: "char \<Rightarrow> char" where
  "lower_char c = (if is_upper_alpha c then char_of ((of_char c :: nat) + 32) else c)"

definition getScheme :: "string \<Rightarrow> (string \<times> string) option" where
  "getScheme raw = map_option (\<lambda>(s, r). (map lower_char s, r)) (scheme_from raw [] raw)"

definition is_control :: "char \<Rightarrow> bool" where
  "is_control c \<longleftrightarrow> (of_char c :: nat) < 32 \<or> (of_char c :: nat) = 127"

definition parse_rest :: "string \<Rightarrow> string \<Rightarrow> (string \<times> string) option" where
  "parse_rest scheme rest =
     (let rest = fst (cut_at CHR ''?'' rest) in
      if \<not> has_prefix rest ''/'' \<and> scheme \<noteq> [] then Some (scheme, [])
      else if \<not> has_prefix rest ''/'' \<and> CHR '':'' \<in> set (fst (cut_at CHR ''/'' rest)) then None
      else if (scheme \<noteq> [] \<or> \<not> has_prefix rest ''///'') \<and> has_prefix rest ''//'' then
        (let authority = takeWhile (\<lambda>c. c \<noteq> CHR ''/'') (drop 2 rest);
             path = dropWhile (\<lambda>c. c \<noteq> CHR ''/'') (drop 2 rest)
         in case parseAuthority authority of
              None \<Rightarrow> None
            | Some host \<Rightarrow> if escapes_ok path then Some (scheme, host) else None)
      else if escapes_ok rest then Some (scheme, []) else None)"

text \<open>\<open>url.Parse(raw)\<close>: scheme and \<open>Host\<close>, or the error.\<close>

definition parse_url :: "string \<Rightarrow> (string \<times> string) option" where
  "parse_url raw =
     (let (u, fragment) = cut_at CHR ''#'' raw in
      if list_ex is_control u \<or> \<not> escapes_ok fragment then None
      else if u = ''*'' then Some ([], [])
      else case getScheme u of None \<Rightarrow> None | Some (scheme, rest) \<Rightarrow> parse_rest scheme rest)"

definition hostname_of :: "string \<Rightarrow> string" where
  "hostname_of hostport =
     (let host = (case last_index CHR '':'' hostport of
                    None \<Rightarrow> hostport
                  | Some i \<Rightarrow> if validOptionalPort (drop i hostport) then take i hostport else hostport)
      in if has_prefix host ''['' \<and> has_suffix host '']'' then butlast (tl host) else host)"

text \<open>\<open>u, err := url.Parse(raw); u.Hostname()\<close>\<close>

definition url_hostname :: "string \<Rightarrow> string option" where
  "url_hostname raw = map_option (\<lambda>(scheme, host). hostname_of host) (parse_url raw)"

lemmas url_eval =
  url_hostname_def parse_url_def parse_rest_def getScheme_def cut_at_def last_index_def
  hostname_of_def parseAuthority_def parseHost_def validOptionalPort_def host_char_def
  scheme_char_def is_control_def lower_char_def char_class_defs less_eq_char_def has_prefix_def
  has_suffix_def

lemma url_hostname_example:
  "url_hostname ''http://c-1.preview.example.com:8080/'' = Some ''c-1.preview.example.com''"
  "url_hostname ''c-1.preview.example.com'' = Some []"
  "url_hostname ''http://bad host/'' = None"
  by (simp_all add: url_eval)

lemma url_hostname_ipv6: "url_hostname ''https://[2001:db8::1]:443'' = Some ''2001:db8::1''"
  by code_simp

end
