(* ===== verification/Go_Sha256.thy ===== *)
theory Go_Sha256
  imports Go_Strings "HOL-Library.Word"
begin

unbundle bit_operations_syntax

text \<open>
  \<open>crypto/sha256\<close> of Go's standard library: the digest of a byte string, on 32-bit words. The
  source names resources after prefixes of these digests and compares them as fingerprints.
  The locale \<open>fixed_digest\<close> is what its callers rely on, a digest of fixed length; it is
  interpreted on \<open>sha256\<close> below.
\<close>

section \<open>SHA-256\<close>

type_synonym u32 = "32 word"

definition rotr :: "nat \<Rightarrow> u32 \<Rightarrow> u32" where
  "rotr n w = (drop_bit n w OR push_bit (32 - n) w)"

text \<open>The words of a number of \<open>32 * k\<close> bits, most significant first.\<close>

definition words_of_nat :: "nat \<Rightarrow> nat \<Rightarrow> u32 list" where
  "words_of_nat k n = map (\<lambda>i. of_nat (n div 2 ^ (32 * (k - 1 - i)) mod 2 ^ 32)) [0..<k]"

text \<open>The 64 round constants, eight to a number.\<close>

definition sha_k :: "u32 list" where
  "sha_k = concat (map (words_of_nat 8) [
     0x428a2f9871374491b5c0fbcfe9b5dba53956c25b59f111f1923f82a4ab1c5ed5,
     0xd807aa9812835b01243185be550c7dc372be5d7480deb1fe9bdc06a7c19bf174,
     0xe49b69c1efbe47860fc19dc6240ca1cc2de92c6f4a7484aa5cb0a9dc76f988da,
     0x983e5152a831c66db00327c8bf597fc7c6e00bf3d5a7914706ca635114292967,
     0x27b70a852e1b21384d2c6dfc53380d13650a7354766a0abb81c2c92e92722c85,
     0xa2bfe8a1a81a664bc24b8b70c76c51a3d192e819d6990624f40e3585106aa070,
     0x19a4c1161e376c082748774c34b0bcb5391c0cb34ed8aa4a5b9cca4f682e6ff3,
     0x748f82ee78a5636f84c878148cc7020890befffaa4506cebbef9a3f7c67178f2])"

definition sha_init :: "u32 list" where
  "sha_init = words_of_nat 8
     0x6a09e667bb67ae853c6ef372a54ff53a510e527f9b05688c1f83d9ab5be0cd19"

definition bytes_of_nat :: "nat \<Rightarrow> nat \<Rightarrow> string" where
  "bytes_of_nat k n = map (\<lambda>i. char_of (n div 256 ^ (k - 1 - i) mod 256)) [0..<k]"

text \<open>The message, a one bit, zeros up to 8 bytes short of a block, and the length in bits.\<close>

definition sha_pad :: "string \<Rightarrow> string" where
  "sha_pad m = m @ [CHR 0x80] @ replicate ((119 - length m mod 64) mod 64) nul @
     bytes_of_nat 8 (8 * length m mod 2 ^ 64)"

definition word_of_bytes :: "char \<Rightarrow> char \<Rightarrow> char \<Rightarrow> char \<Rightarrow> u32" where
  "word_of_bytes a b c d =
     word_of_nat (of_char a * 16777216 + of_char b * 65536 + of_char c * 256 + of_char d)"

fun words_of_bytes :: "string \<Rightarrow> u32 list" where
  "words_of_bytes (a # b # c # d # s) = word_of_bytes a b c d # words_of_bytes s"
| "words_of_bytes _ = []"

text \<open>The message schedule, latest word first, extended by \<open>n\<close> words.\<close>

fun sha_extend :: "nat \<Rightarrow> u32 list \<Rightarrow> u32 list" where
  "sha_extend 0 w = w"
| "sha_extend (Suc n) w =
     (let w15 = w ! 14; w2 = w ! 1;
          s0 = rotr 7 w15 XOR rotr 18 w15 XOR drop_bit 3 w15;
          s1 = rotr 17 w2 XOR rotr 19 w2 XOR drop_bit 10 w2
      in sha_extend n ((w ! 15 + s0 + w ! 6 + s1) # w))"

type_synonym sha_state = "u32 \<times> u32 \<times> u32 \<times> u32 \<times> u32 \<times> u32 \<times> u32 \<times> u32"

fun sha_round :: "sha_state \<Rightarrow> u32 \<times> u32 \<Rightarrow> sha_state" where
  "sha_round (a, b, c, d, e, f, g, h) (k, w) =
     (let s1 = rotr 6 e XOR rotr 11 e XOR rotr 25 e;
          ch = (e AND f) XOR (NOT e AND g);
          t1 = h + s1 + ch + k + w;
          s0 = rotr 2 a XOR rotr 13 a XOR rotr 22 a;
          maj = (a AND b) XOR (a AND c) XOR (b AND c)
      in (t1 + s0 + maj, a, b, c, d + t1, e, f, g))"

fun sha_add :: "sha_state \<Rightarrow> sha_state \<Rightarrow> sha_state" where
  "sha_add (a, b, c, d, e, f, g, h) (a', b', c', d', e', f', g', h') =
     (a + a', b + b', c + c', d + d', e + e', f + f', g + g', h + h')"

definition sha_block :: "sha_state \<Rightarrow> u32 list \<Rightarrow> sha_state" where
  "sha_block st ws =
     sha_add st (foldl sha_round st (zip sha_k (rev (sha_extend 48 (rev ws)))))"

fun sha_blocks :: "nat \<Rightarrow> sha_state \<Rightarrow> u32 list \<Rightarrow> sha_state" where
  "sha_blocks 0 st ws = st"
| "sha_blocks (Suc n) st ws = sha_blocks n (sha_block st (take 16 ws)) (drop 16 ws)"

fun state_words :: "sha_state \<Rightarrow> u32 list" where
  "state_words (a, b, c, d, e, f, g, h) = [a, b, c, d, e, f, g, h]"

definition sha256 :: "string \<Rightarrow> string" where
  "sha256 m =
     (let ws = words_of_bytes (sha_pad m);
          st = sha_blocks (length ws div 16)
            (0x6a09e667, 0xbb67ae85, 0x3c6ef372, 0xa54ff53a, 0x510e527f, 0x9b05688c,
             0x1f83d9ab, 0x5be0cd19) ws
      in concat (map (\<lambda>w. bytes_of_nat 4 (unat w)) (state_words st)))"

text \<open>\<open>hex.EncodeToString(sum[:])\<close> of the digest.\<close>

definition sha256_hex :: "string \<Rightarrow> string" where
  "sha256_hex m = hex_encode (sha256 m)"

lemma length_bytes_of_nat [simp]: "length (bytes_of_nat k n) = k"
  by (simp add: bytes_of_nat_def)

lemma length_state_words [simp]: "length (state_words st) = 8"
  by (cases st rule: state_words.cases) simp

lemma length_sha256: "length (sha256 m) = 32"
proof -
  have "length (concat (map (\<lambda>w. bytes_of_nat 4 (unat w)) ws)) = 4 * length ws" for ws :: "u32 list"
    by (induction ws) auto
  then show ?thesis by (simp add: sha256_def Let_def)
qed

section \<open>What the callers of a digest rely on\<close>

locale fixed_digest =
  fixes digest :: "string \<Rightarrow> string" and size :: nat
  assumes length_digest: "length (digest m) = size"
begin

definition hex :: "string \<Rightarrow> string" where
  "hex m = hex_encode (digest m)"

lemma length_hex: "length (hex m) = 2 * size"
  by (simp add: hex_def length_digest)

lemma hex_lower: "list_all is_lower_hex (hex m)"
  by (simp add: hex_def hex_encode_lower_hex)

text \<open>A name cut off a digest after \<open>n\<close> bytes has \<open>2 * n\<close> hexadecimal digits.\<close>

lemma length_short: "n \<le> size \<Longrightarrow> length (hex_encode (take n (digest m))) = 2 * n"
  by (simp add: length_digest)

end

interpretation sha: fixed_digest sha256 32
  rewrites "fixed_digest.hex sha256 = sha256_hex"
proof -
  show loc: "fixed_digest sha256 32" by unfold_locales (rule length_sha256)
  show "fixed_digest.hex sha256 = sha256_hex"
    by (rule ext) (simp add: fixed_digest.hex_def[OF loc] sha256_hex_def)
qed

end
