(* ===== verification/Go_Json.thy ===== *)
theory Go_Json
  imports Go_Strings Go_Time
begin

text \<open>
  \<open>encoding/json\<close>: the values the code marshals and their text as \<open>json.Marshal\<close> writes it.
  Objects keep the field order of the struct; \<open>JMap\<close> is the encoding of a Go map, whose keys
  are written in sorted order. \<open>omitempty\<close> drops a field whose value is false, zero, the
  empty string or a nil or empty map, slice or pointer.
\<close>

section \<open>Values\<close>

datatype json =
    JNull
  | JBool bool
  | JInt int
  | JStr string
  | JArr "json list"
  | JObj "(string \<times> json) list"

text \<open>The encoding of a nil or non-nil map: \<open>null\<close>, or its entries by sorted key.\<close>

definition JMap :: "('v \<Rightarrow> json) \<Rightarrow> 'v gomap \<Rightarrow> json" where
  "JMap f m = JObj (map (\<lambda>k. (k, case map_of m k of None \<Rightarrow> JNull | Some v \<Rightarrow> f v)) (sorted_keys m))"

definition JMapOpt :: "('v \<Rightarrow> json) \<Rightarrow> 'v gomap option \<Rightarrow> json" where
  "JMapOpt f m = (case m of None \<Rightarrow> JNull | Some m' \<Rightarrow> JMap f m')"

definition JStrs :: "string list \<Rightarrow> json" where
  "JStrs ss = JArr (map JStr ss)"

fun is_empty_json :: "json \<Rightarrow> bool" where
  "is_empty_json JNull = True"
| "is_empty_json (JBool b) = (\<not> b)"
| "is_empty_json (JInt n) = (n = 0)"
| "is_empty_json (JStr s) = (s = [])"
| "is_empty_json (JArr xs) = (xs = [])"
| "is_empty_json (JObj kvs) = (kvs = [])"

text \<open>A field tagged \<open>omitempty\<close>.\<close>

definition omit_empty :: "string \<Rightarrow> json \<Rightarrow> (string \<times> json) list" where
  "omit_empty k v = (if is_empty_json v then [] else [(k, v)])"

text \<open>A pointer field tagged \<open>omitempty\<close> is dropped only when it is nil.\<close>

definition omit_nil :: "string \<Rightarrow> ('v \<Rightarrow> json) \<Rightarrow> 'v option \<Rightarrow> (string \<times> json) list" where
  "omit_nil k f v = (case v of None \<Rightarrow> [] | Some x \<Rightarrow> [(k, f x)])"

section \<open>Strings\<close>

text \<open>The length of the well-formed UTF-8 sequence a string starts with, or 0.\<close>

definition is_cont :: "char \<Rightarrow> bool" where
  "is_cont c \<longleftrightarrow> 0x80 \<le> (of_char c :: nat) \<and> (of_char c :: nat) \<le> 0xBF"

definition utf8_second_ok :: "nat \<Rightarrow> nat \<Rightarrow> bool" where
  "utf8_second_ok a b \<longleftrightarrow>
     (if a = 0xE0 then 0xA0 else if a = 0xF0 then 0x90 else 0x80) \<le> b \<and>
     b \<le> (if a = 0xED then 0x9F else if a = 0xF4 then 0x8F else 0xBF)"

definition utf8_len :: "string \<Rightarrow> nat" where
  "utf8_len s =
     (case s of [] \<Rightarrow> 0
      | c # r \<Rightarrow>
          (let a = (of_char c :: nat) in
           if a < 0x80 then 1
           else if 0xC2 \<le> a \<and> a \<le> 0xDF \<and> 1 \<le> length r \<and> is_cont (r ! 0) then 2
           else if 0xE0 \<le> a \<and> a \<le> 0xEF \<and> 2 \<le> length r \<and>
             utf8_second_ok a (of_char (r ! 0)) \<and> is_cont (r ! 1) then 3
           else if 0xF0 \<le> a \<and> a \<le> 0xF4 \<and> 3 \<le> length r \<and>
             utf8_second_ok a (of_char (r ! 0)) \<and> is_cont (r ! 1) \<and> is_cont (r ! 2) then 4
           else 0))"

text \<open>One byte below 0x80, with the HTML-safe escapes \<open>Marshal\<close> uses.\<close>

definition json_ascii :: "char \<Rightarrow> string" where
  "json_ascii c =
     (if c = dquote \<or> c = backslash then [backslash, c]
      else if c = CHR 0x08 then backslash # ''b''
      else if c = CHR 0x0C then backslash # ''f''
      else if c = newline then backslash # ''n''
      else if c = carriage_return then backslash # ''r''
      else if c = tab then backslash # ''t''
      else if (of_char c :: nat) < 0x20 \<or> c = CHR ''<'' \<or> c = CHR ''>'' \<or> c = CHR ''&''
      then backslash # ''u00'' @ hex_byte c
      else [c])"

function json_chars :: "string \<Rightarrow> string" where
  "json_chars [] = []"
| "json_chars (c # r) =
     (let n = utf8_len (c # r) in
      if n = 0 then backslash # ''ufffd'' @ json_chars r
      else if n = 1 then json_ascii c @ json_chars r
      else (if take n (c # r) = [CHR 0xE2, CHR 0x80, CHR 0xA8] then backslash # ''u2028''
            else if take n (c # r) = [CHR 0xE2, CHR 0x80, CHR 0xA9] then backslash # ''u2029''
            else take n (c # r)) @ json_chars (drop n (c # r)))"
  by pat_completeness auto
termination
  by (relation "measure length") auto

definition json_string :: "string \<Rightarrow> string" where
  "json_string s = dquote # json_chars s @ [dquote]"

section \<open>Marshal\<close>

fun json_encode :: "json \<Rightarrow> string" where
  "json_encode JNull = ''null''"
| "json_encode (JBool b) = show_bool b"
| "json_encode (JInt n) = show_int n"
| "json_encode (JStr s) = json_string s"
| "json_encode (JArr xs) = ''['' @ join '','' (map json_encode xs) @ '']''"
| "json_encode (JObj kvs) =
     ''{'' @ join '','' (map (\<lambda>(k, v). json_string k @ '':'' @ json_encode v) kvs) @ ''}''"

section \<open>Times\<close>

text \<open>
  \<open>Time.MarshalJSON\<close> of a UTC time: RFC 3339 with the fraction of a second, its trailing zeros
  dropped. The civil date is computed from the days since 0000-03-01, the start of a 400-year
  era.
\<close>

definition civil_date :: "int \<Rightarrow> int \<times> int \<times> int" where
  "civil_date days =
     (let z = days + 306;
          era = z div 146097; doe = z mod 146097;
          yoe = (doe - doe div 1460 + doe div 36524 - doe div 146096) div 365;
          doy = doe - (365 * yoe + yoe div 4 - yoe div 100);
          mp = (5 * doy + 2) div 153;
          d = doy - (153 * mp + 2) div 5 + 1;
          m = (if mp < 10 then mp + 3 else mp - 9);
          y = yoe + era * 400 + (if m \<le> 2 then 1 else 0)
      in (y, m, d))"

definition pad_digits :: "nat \<Rightarrow> int \<Rightarrow> string" where
  "pad_digits w n = (let s = show_int n in replicate (w - length s) CHR ''0'' @ s)"

definition show_fraction :: "int \<Rightarrow> string" where
  "show_fraction ns =
     (if ns = 0 then [] else CHR ''.'' # rev (dropWhile (\<lambda>c. c = CHR ''0'') (rev (pad_digits 9 ns))))"

definition show_time :: "time \<Rightarrow> string" where
  "show_time t =
     (let days = t div (24 * hour); r = t mod (24 * hour); (y, m, d) = civil_date days
      in pad_digits 4 y @ ''-'' @ pad_digits 2 m @ ''-'' @ pad_digits 2 d @ ''T'' @
         pad_digits 2 (r div hour) @ '':'' @ pad_digits 2 (r mod hour div minute) @ '':'' @
         pad_digits 2 (r mod minute div second) @ show_fraction (r mod second) @ ''Z'')"

definition JTime :: "time \<Rightarrow> json" where
  "JTime t = JStr (show_time t)"

section \<open>Lemmas\<close>

lemma JMap_cong: "map_of a = map_of b \<Longrightarrow> JMap f a = JMap f b"
proof -
  assume eq: "map_of a = map_of b"
  then have "fst ` set a = fst ` set b" by (metis dom_map_of_conv_image_fst)
  from eq sorted_keys_cong[OF this] show ?thesis by (simp add: JMap_def)
qed

lemma omit_empty_JStr [simp]: "omit_empty k (JStr []) = []"
  by (simp add: omit_empty_def)

end
