(* ===== verification/Model.thy ===== *)
theory Model
  imports Go_Sha256 Go_Json Go_Time
begin

text \<open>
  The data model of \<open>internal/domain\<close>: errors, phases, the catalog (components, baselines,
  preview profiles), a composition with its observations and its runtime state, and the
  values that cross the provider interfaces. Each record has the fields of its Go struct in
  the same order, with a prefix of its own; a pointer is an \<open>option\<close>, a map of the code an
  association list. A map or slice that the code compares with nil is an \<open>option\<close>; elsewhere
  nil and empty are one value. JSON tags and fields that only decorate API output are the
  struct's own, and are not repeated here.
\<close>

section \<open>Errors\<close>

record domain_error =
  e_code :: string
  e_message :: string
  e_retryable :: bool
  e_project :: string
  e_composition :: string

text \<open>
  The error values of the control plane: the structured \<open>domain.Error\<close>, the sentinels it
  compares with \<open>errors.Is\<close>, \<open>errors.New\<close> and \<open>fmt.Errorf\<close> without an argument to wrap,
  \<open>fmt.Errorf("prefix%w")\<close> and \<open>fmt.Errorf("%w: suffix")\<close>, \<open>errors.Join\<close>, the error of a
  context that ended, and a provider's classified error with its \<open>ReconciliationCode\<close>.
\<close>

datatype go_error =
    Domain_Error domain_error
  | ErrStaleObservation
  | ErrNotLeader
  | ErrRoutesPending
  | ErrBaselineObservationPending
  | Context_Error string
  | Plain string
  | Wrapped string go_error
  | Suffixed go_error string
  | Joined "go_error list"
  | Classified string string

type_synonym 'a result = "go_error + 'a"

definition domain_err :: "string \<Rightarrow> string \<Rightarrow> domain_error" where
  "domain_err code message =
     \<lparr>e_code = code, e_message = message, e_retryable = False, e_project = [], e_composition = []\<rparr>"

definition Validation :: "string \<Rightarrow> go_error" where
  "Validation message = Domain_Error (domain_err ''validation_error'' message)"

definition NotFound :: "string \<Rightarrow> go_error" where
  "NotFound message = Domain_Error (domain_err ''not_found'' message)"

fun err_message :: "go_error \<Rightarrow> string" where
  "err_message (Domain_Error e) = e_message e"
| "err_message ErrStaleObservation = ''composition desired state changed''"
| "err_message ErrNotLeader = ''another reconciler holds the lease''"
| "err_message ErrRoutesPending = ''waiting for route controller acceptance''"
| "err_message ErrBaselineObservationPending =
     ''baseline observation is unavailable or changed; waiting for a fresh check''"
| "err_message (Context_Error m) = m"
| "err_message (Plain m) = m"
| "err_message (Wrapped p e) = p @ err_message e"
| "err_message (Suffixed e s) = err_message e @ s"
| "err_message (Joined es) = join [newline] (map err_message es)"
| "err_message (Classified code m) = m"

text \<open>\<open>errors.Is(err, target)\<close> for a sentinel target.\<close>

fun err_is :: "go_error \<Rightarrow> go_error \<Rightarrow> bool" where
  "err_is t (Wrapped p e) = err_is t e"
| "err_is t (Suffixed e s) = err_is t e"
| "err_is t (Joined es) = list_ex (err_is t) es"
| "err_is t e = (e = t)"

text \<open>\<open>errors.As(err, &de)\<close> for a \<open>*domain.Error\<close>.\<close>

fun as_domain :: "go_error \<Rightarrow> domain_error option" and
    as_domain_list :: "go_error list \<Rightarrow> domain_error option" where
  "as_domain (Domain_Error e) = Some e"
| "as_domain (Wrapped p e) = as_domain e"
| "as_domain (Suffixed e s) = as_domain e"
| "as_domain (Joined es) = as_domain_list es"
| "as_domain _ = None"
| "as_domain_list [] = None"
| "as_domain_list (e # es) =
     (case as_domain e of None \<Rightarrow> as_domain_list es | Some d \<Rightarrow> Some d)"

text \<open>The first error in the tree that has a \<open>ReconciliationCode\<close>.\<close>

fun reconciliation_code :: "go_error \<Rightarrow> string option" and
    reconciliation_code_list :: "go_error list \<Rightarrow> string option" where
  "reconciliation_code (Classified code m) = Some code"
| "reconciliation_code (Wrapped p e) = reconciliation_code e"
| "reconciliation_code (Suffixed e s) = reconciliation_code e"
| "reconciliation_code (Joined es) = reconciliation_code_list es"
| "reconciliation_code _ = None"
| "reconciliation_code_list [] = None"
| "reconciliation_code_list (e # es) =
     (case reconciliation_code e of None \<Rightarrow> reconciliation_code_list es | Some c \<Rightarrow> Some c)"

lemma err_message_Validation [simp]: "err_message (Validation m) = m"
  by (simp add: Validation_def domain_err_def)

section \<open>Phases\<close>

text \<open>\<open>Phase_Unset\<close> is the empty string of a zero \<open>Composition\<close>.\<close>

datatype phase =
    Phase_Unset
  | PhaseCreated
  | PhaseProvisioning
  | PhaseReady
  | PhaseCompleted
  | PhaseSuspended
  | PhaseCancelled
  | PhaseUpdating
  | PhaseFailed
  | PhaseDestroying
  | PhaseDestroyed

text \<open>Execution states and workload kinds stay the strings of the code: providers report them.\<close>

abbreviation WorkloadHTTP :: string where "WorkloadHTTP \<equiv> ''http''"
abbreviation WorkloadWorker :: string where "WorkloadWorker \<equiv> ''worker''"
abbreviation WorkloadJob :: string where "WorkloadJob \<equiv> ''job''"
abbreviation WorkloadScheduledJob :: string where "WorkloadScheduledJob \<equiv> ''scheduled-job''"

abbreviation ExecutionPending :: string where "ExecutionPending \<equiv> ''pending''"
abbreviation ExecutionRunning :: string where "ExecutionRunning \<equiv> ''running''"
abbreviation ExecutionReady :: string where "ExecutionReady \<equiv> ''ready''"
abbreviation ExecutionSucceeded :: string where "ExecutionSucceeded \<equiv> ''succeeded''"
abbreviation ExecutionFailed :: string where "ExecutionFailed \<equiv> ''failed''"
abbreviation ExecutionSuspended :: string where "ExecutionSuspended \<equiv> ''suspended''"
abbreviation ExecutionCancelled :: string where "ExecutionCancelled \<equiv> ''cancelled''"

section \<open>Catalog\<close>

record workload_execution =
  x_kind :: string
  x_dependencies :: "string list"
  x_timeout :: string
  x_retry_limit :: int
  x_schedule :: string
  x_max_runs :: int
  x_concurrency_policy :: string

record component =
  cp_execution :: "workload_execution option"
  cp_image_pull_secrets :: "string list"
  cp_profile :: string
  cp_readiness_path :: string
  cp_env :: "string gomap"
  cp_id :: string
  cp_project :: string
  cp_protocol :: string
  cp_port :: int
  cp_health_path :: string
  cp_overridable :: bool
  cp_repository :: string

record baseline_binding =
  bb_service_host :: string
  bb_port :: int
  bb_image :: string

record preview_selector =
  sel_header :: string

record baseline_routing =
  br_namespace :: string
  br_gateway :: string
  br_gateway_namespace :: string
  br_gateway_section_name :: string
  br_entry_component :: string
  br_preview_selector :: "preview_selector option"

record verification_contract =
  vc_kind :: string
  vc_chain :: "string list"
  vc_path :: string
  vc_expected_status :: int

record pubsub_consumer =
  pc_subscription :: string
  pc_component :: string
  pc_subscription_env :: string
  pc_filter :: string

record pubsub_topic =
  pt_topic :: string
  pt_publishers :: "string list"
  pt_consumers :: "pubsub_consumer gomap"

record baseline =
  b_pubsub :: "pubsub_topic gomap"
  b_routing :: baseline_routing
  b_verification :: verification_contract
  b_id :: string
  b_project :: string
  b_revision :: string
  b_endpoint :: string
  b_components :: "baseline_binding gomap"

record project =
  pj_id :: string
  pj_name :: string

record catalog_manifest =
  cm_api_version :: string
  cm_project :: project
  cm_components :: "component list"
  cm_baseline :: baseline

section \<open>Preview profiles\<close>

record preview_selection =
  ps_deployment :: string
  ps_container :: string
  ps_env :: "string gomap"
  ps_config_map_keys :: "string gomap gomap"

record preview_dependency =
  pd_kind :: string
  pd_name :: string
  pd_uid :: string
  pd_resource_version :: string

record preview_source =
  psrc_namespace :: string
  psrc_deployment :: string
  psrc_uid :: string
  psrc_resource_version :: string
  psrc_generation :: int
  psrc_container :: string

record composite_policy =
  cpp_revision :: int
  cpp_application_container :: string
  cpp_sidecars :: "string list"
  cpp_init_containers :: "string list"
  cpp_native_sidecars :: "string list"
  cpp_source_service_account :: string
  cpp_service_account :: string
  cpp_service_account_annotations :: "string gomap"
  cpp_shared_dependencies :: "string list"
  cpp_max_pod_cpu :: string
  cpp_max_pod_memory :: string

record preview_snapshot =
  sn_application_container :: string
  sn_composite_policy_key :: string
  sn_composite_policy :: "composite_policy option"
  sn_mesh_budget :: "string gomap"
  sn_source :: preview_source
  sn_dependencies :: "preview_dependency list"
  sn_template_json :: string
  sn_selection :: preview_selection
  sn_contract :: string
  sn_revision :: int

record preview_provenance =
  pv_shared_dependencies :: "string list"
  pv_revision :: int
  pv_source :: preview_source

section \<open>Builds and overrides\<close>

record build =
  bd_component :: string
  bd_revision :: string
  bd_image :: string
  bd_run_id :: string
  bd_attempt :: int
  bd_built_at :: time
  bd_id :: string
  bd_project :: string
  bd_repository :: string
  bd_github_repository :: string
  bd_run_url :: string

record component_override =
  o_image :: string
  o_build_id :: string
  o_source :: "build option"

record resource_override =
  ro_strategy :: string
  ro_source :: string

record message_subscription =
  ms_instance :: string
  ms_name :: string
  ms_topic :: string
  ms_component :: string
  ms_subscription_env :: string
  ms_filter :: string
  ms_retention :: string
  ms_expires_at :: time
  ms_ready :: bool
  ms_backlog_may_be_lost :: bool

record resolved_plan =
  rp_message_subscriptions :: "message_subscription list"
  rp_previews :: "preview_snapshot gomap"
  rp_baseline :: baseline
  rp_components :: "component gomap"
  rp_component :: component

section \<open>Requests\<close>

record principal =
  pr_kind :: string
  pr_id :: string
  pr_display_name :: string
  pr_email :: string

record request_identity =
  ri_principal :: principal
  ri_channel :: string
  ri_task :: string

record create_request =
  cr_message_isolation :: bool
  cr_expected_preview_revisions :: "int gomap"
  cr_expected_baseline_revision :: string
  cr_project :: string
  cr_baseline :: string
  cr_name :: string
  cr_overrides :: "component_override gomap option"
  cr_resources :: "resource_override gomap"
  cr_ttl :: string

record update_request =
  ur_expected_preview_revisions :: "int gomap"
  ur_expected_generation :: int
  ur_overrides :: "component_override gomap"
  ur_idempotency_key :: string
  ur_plan :: "resolved_plan option"

section \<open>Observations and evidence\<close>

record component_observation =
  co_source :: string
  co_status :: string
  co_image :: string
  co_workload_id :: string
  co_execution_id :: string
  co_execution_state :: string

record endpoint =
  ep_url :: string
  ep_ready :: bool

record condition =
  cond_type :: string
  cond_status :: bool
  cond_message :: string

record operation =
  op_id :: string
  op_kind :: string
  op_status :: string
  op_error :: "domain_error option"
  op_initiator :: "principal option"

record baseline_service_port =
  bsp_name :: string
  bsp_protocol :: string
  bsp_port :: int
  bsp_target_port :: string

record baseline_component_observation =
  bco_service_uid :: string
  bco_service_selector :: "string gomap option"
  bco_service_ports :: "baseline_service_port list"
  bco_execution_state :: string
  bco_deployment_uid :: string
  bco_deployment_generation :: int
  bco_template_fingerprint :: string
  bco_declared_images :: "string gomap option"
  bco_actual_image_ids :: "string list gomap option"
  bco_image_identity :: string

record baseline_observation =
  bo_installation :: string
  bo_project :: string
  bo_baseline :: string
  bo_state :: string
  bo_fingerprint :: string
  bo_observed_at :: time
  bo_components :: "baseline_component_observation gomap"
  bo_error :: "domain_error option"

record verification_workload =
  vw_image :: string
  vw_workload_id :: string

record verification_probe =
  vp_target :: string
  vp_expected_status :: int
  vp_observed_status :: int
  vp_request_id :: string

record verification_hop =
  vh_service :: string
  vh_version :: string
  vh_composition :: string
  vh_workload_id :: string
  vh_deployment_composition :: string

record verification_evidence =
  ve_baseline_fingerprint :: string
  ve_baseline_scope :: string
  ve_contract_fingerprint :: string
  ve_workloads :: "verification_workload gomap option"
  ve_freshness :: string
  ve_id :: string
  ve_composition :: string
  ve_generation :: int
  ve_kind :: string
  ve_outcome :: string
  ve_first_checked_at :: time
  ve_last_checked_at :: time
  ve_probes :: "verification_probe list"
  ve_hops :: "verification_hop list"
  ve_error :: "domain_error option"

section \<open>Compositions\<close>

record execution_ref =
  er_id :: string
  er_provider_id :: string
  er_spec_hash :: string
  er_generation :: int
  er_runs :: int
  er_state :: string
  er_started_at :: time
  er_finished_at :: time

record workload_ref =
  wr_kind :: string
  wr_namespace :: string
  wr_namespace_uid :: string
  wr_deployment :: string
  wr_deployment_uid :: string
  wr_service :: string
  wr_service_uid :: string
  wr_job :: string
  wr_job_uid :: string
  wr_cron_job :: string
  wr_cron_job_uid :: string
  wr_ownership_token :: string
  wr_deployment_generation :: int
  wr_max_runs :: int
  wr_image :: string
  wr_execution_fingerprint :: string

text \<open>
  \<open>PublishedOverrides\<close> is an option because \<open>Snapshot\<close> and the store distinguish the nil map
  of a record written before the field existed. \<open>Attempts\<close> only counts up from zero.
\<close>

record runtime_state =
  rt_executions :: "execution_ref gomap"
  rt_messaging_observed :: "bool gomap"
  rt_plan :: "resolved_plan option"
  rt_deletion_reason :: string
  rt_provision_started_at :: time
  rt_ownership_token :: string
  rt_workloads :: "workload_ref gomap"
  rt_published_overrides :: "component_override gomap option"
  rt_retiring_workloads :: "workload_ref gomap"
  rt_retirement_drain_until :: "time option"
  rt_workload :: workload_ref
  rt_routing_active :: bool
  rt_routes_removed :: bool
  rt_drain_until :: "time option"
  rt_attempts :: nat
  rt_next_attempt_at :: time

record composition =
  c_pending_verification :: "verification_evidence option"
  c_baseline_observation :: "baseline_observation option"
  c_pr_preview_id :: string
  c_message_isolation :: bool
  c_message_subscriptions :: "message_subscription list"
  c_preview_profiles :: "preview_provenance gomap"
  c_verification_level :: string
  c_id :: string
  c_project :: string
  c_baseline :: string
  c_baseline_revision :: string
  c_name :: string
  c_overrides :: "component_override gomap"
  c_generation :: int
  c_observed_generation :: int
  c_phase :: phase
  c_expires_at :: time
  c_created_at :: time
  c_updated_at :: time
  c_components :: "component_observation gomap"
  c_endpoints :: "endpoint gomap"
  c_conditions :: "condition list"
  c_latest_operation :: operation
  c_last_error :: "domain_error option"
  c_deletion_requested :: bool
  c_runtime :: runtime_state

section \<open>History\<close>

text \<open>
  \<open>Activity\<close> without its \<open>Changes\<close>, the JSON rendering of what a request changed, and without
  the columns the database assigns.
\<close>

record activity =
  act_occurred_at :: time
  act_actor :: principal
  act_channel :: string
  act_task :: string
  act_action :: string
  act_outcome :: string
  act_project :: string
  act_resource_type :: string
  act_resource_id :: string
  act_composition :: string
  act_operation :: string
  act_generation_from :: int
  act_generation_to :: int

record composition_revision =
  rv_composition :: string
  rv_project :: string
  rv_generation :: int
  rv_baseline :: string
  rv_baseline_revision :: string
  rv_overrides :: "component_override gomap"
  rv_created_at :: time
  rv_actor :: principal
  rv_channel :: string
  rv_operation :: string

section \<open>Sources and pull-request previews\<close>

record source_repository =
  sr_project :: string
  sr_id :: string
  sr_github_repository :: string
  sr_installation_id :: int
  sr_enabled :: bool
  sr_images :: "string gomap"

record pr_policy =
  pp_project :: string
  pp_repository :: string
  pp_github_repository_id :: int
  pp_enabled :: bool
  pp_baseline :: string
  pp_components :: "string list"
  pp_ttl :: string
  pp_workflow_id :: int

record pr_preview =
  pw_id :: string
  pw_version :: int
  pw_policy :: pr_policy
  pw_number :: int
  pw_pr_url :: string
  pw_lifecycle :: int
  pw_requested :: bool
  pw_terminal :: bool
  pw_restart_barrier_at :: time
  pw_last_stop_event_at :: time
  pw_requested_sha :: string
  pw_deployed_sha :: string
  pw_selected_sha :: string
  pw_builds :: "component_override gomap"
  pw_run_number :: int
  pw_attempt :: int
  pw_composition_id :: string
  pw_generation :: int
  pw_url :: string
  pw_expires_at :: time
  pw_status :: string
  pw_deployment_status :: string
  pw_reason :: string
  pw_updated_at :: time
  pw_comment_id :: int
  pw_deployment_id :: int
  pw_deployment_sha :: string
  pw_feedback_hash :: string
  pw_feedback_error :: string
  pw_retiring_deployment_ids :: "int list"

text \<open>What GitHub reports of a repository, a pull request and a workflow run.\<close>

record github_pr =
  gp_updated_at :: time
  gp_number :: int
  gp_state :: string
  gp_url :: string
  gp_head_sha :: string
  gp_head_repo :: int
  gp_base_repo :: int
  gp_labels :: "string list"

record github_run =
  gr_id :: int
  gr_workflow_id :: int
  gr_number :: int
  gr_attempt :: int
  gr_sha :: string
  gr_status :: string
  gr_conclusion :: string

record webhook_delivery =
  wd_event :: string
  wd_body :: string
  wd_processed_at :: "time option"
  wd_error :: string

record github_health =
  gh_reconciled_at :: "time option"
  gh_error :: string

record pr_preview_claim =
  cl_id :: string
  cl_version :: int

end
