(* ===== verification/Catalog.thy ===== *)
theory Catalog
  imports Model
begin

text \<open>
  Catalog helpers of \<open>internal/domain\<close> (\<open>catalog.go\<close>, \<open>model.go\<close>, \<open>preview.go\<close>,
  \<open>request_id.go\<close>, \<open>activity.go\<close>): identifiers, the names derived from them, the profiles and
  workloads of a plan, routing domains and the recorded preview provenance.
\<close>

section \<open>Zero values\<close>

definition zero_component :: component where
  "zero_component =
     \<lparr>cp_execution = None, cp_image_pull_secrets = [], cp_profile = [], cp_readiness_path = [],
      cp_env = [], cp_id = [], cp_project = [], cp_protocol = [], cp_port = 0,
      cp_health_path = [], cp_overridable = False, cp_repository = []\<rparr>"

definition zero_binding :: baseline_binding where
  "zero_binding = \<lparr>bb_service_host = [], bb_port = 0, bb_image = []\<rparr>"

definition zero_workload_ref :: workload_ref where
  "zero_workload_ref =
     \<lparr>wr_kind = [], wr_namespace = [], wr_namespace_uid = [], wr_deployment = [],
      wr_deployment_uid = [], wr_service = [], wr_service_uid = [], wr_job = [], wr_job_uid = [],
      wr_cron_job = [], wr_cron_job_uid = [], wr_ownership_token = [],
      wr_deployment_generation = 0, wr_max_runs = 0, wr_image = [],
      wr_execution_fingerprint = []\<rparr>"

definition zero_override :: component_override where
  "zero_override = \<lparr>o_image = [], o_build_id = [], o_source = None\<rparr>"

definition zero_endpoint :: endpoint where
  "zero_endpoint = \<lparr>ep_url = [], ep_ready = False\<rparr>"

definition zero_observation :: component_observation where
  "zero_observation =
     \<lparr>co_source = [], co_status = [], co_image = [], co_workload_id = [], co_execution_id = [],
      co_execution_state = []\<rparr>"

definition zero_execution_ref :: execution_ref where
  "zero_execution_ref =
     \<lparr>er_id = [], er_provider_id = [], er_spec_hash = [], er_generation = 0, er_runs = 0,
      er_state = [], er_started_at = 0, er_finished_at = 0\<rparr>"

definition zero_baseline :: baseline where
  "zero_baseline =
     \<lparr>b_pubsub = [],
      b_routing = \<lparr>br_namespace = [], br_gateway = [], br_gateway_namespace = [],
        br_gateway_section_name = [], br_entry_component = [], br_preview_selector = None\<rparr>,
      b_verification = \<lparr>vc_kind = [], vc_chain = [], vc_path = [], vc_expected_status = 0\<rparr>,
      b_id = [], b_project = [], b_revision = [], b_endpoint = [], b_components = []\<rparr>"

definition zero_plan :: resolved_plan where
  "zero_plan =
     \<lparr>rp_message_subscriptions = [], rp_previews = [], rp_baseline = zero_baseline,
      rp_components = [], rp_component = zero_component\<rparr>"

definition zero_operation :: operation where
  "zero_operation =
     \<lparr>op_id = [], op_kind = [], op_status = [], op_error = None, op_initiator = None\<rparr>"

definition zero_runtime :: runtime_state where
  "zero_runtime =
     \<lparr>rt_executions = [], rt_messaging_observed = [], rt_plan = None, rt_deletion_reason = [],
      rt_provision_started_at = 0, rt_ownership_token = [], rt_workloads = [],
      rt_published_overrides = None, rt_retiring_workloads = [], rt_retirement_drain_until = None,
      rt_workload = zero_workload_ref, rt_routing_active = False, rt_routes_removed = False,
      rt_drain_until = None, rt_attempts = 0, rt_next_attempt_at = 0\<rparr>"

definition zero_composition :: composition where
  "zero_composition =
     \<lparr>c_pending_verification = None, c_baseline_observation = None, c_pr_preview_id = [],
      c_message_isolation = False, c_message_subscriptions = [], c_preview_profiles = [],
      c_verification_level = [], c_id = [], c_project = [], c_baseline = [],
      c_baseline_revision = [], c_name = [], c_overrides = [], c_generation = 0,
      c_observed_generation = 0, c_phase = Phase_Unset, c_expires_at = 0, c_created_at = 0,
      c_updated_at = 0, c_components = [], c_endpoints = [], c_conditions = [],
      c_latest_operation = zero_operation, c_last_error = None, c_deletion_requested = False,
      c_runtime = zero_runtime\<rparr>"

section \<open>Identifiers\<close>

definition is_catalog_end :: "char \<Rightarrow> bool" where
  "is_catalog_end c \<longleftrightarrow> is_lower_alpha c \<or> is_digit c"

definition is_catalog_char :: "char \<Rightarrow> bool" where
  "is_catalog_char c \<longleftrightarrow> is_catalog_end c \<or> c = CHR ''-''"

text \<open>\<open>^[a-z][a-z0-9-]{0,61}[a-z0-9]$|^[a-z]$\<close>\<close>

definition ValidCatalogID :: "string \<Rightarrow> bool" where
  "ValidCatalogID s =
     (case s of
        [] \<Rightarrow> False
      | c # r \<Rightarrow> is_lower_alpha c \<and>
          (r = [] \<or> list_all is_catalog_char (butlast r) \<and> length (butlast r) \<le> 61 \<and>
             is_catalog_end (last r)))"

text \<open>\<open>^([A-Fa-f0-9]{16,64}|8-4-4-4-12 hexadecimal digits)$\<close>\<close>

definition ValidRequestID :: "string \<Rightarrow> bool" where
  "ValidRequestID s \<longleftrightarrow>
     list_all is_hex s \<and> 16 \<le> length s \<and> length s \<le> 64 \<or>
     (case split_on CHR ''-'' s of
        [a, b, c, d, e] \<Rightarrow>
          list_all (list_all is_hex) [a, b, c, d, e] \<and> map length [a, b, c, d, e] = [8, 4, 4, 4, 12]
      | _ \<Rightarrow> False)"

definition NamespaceForID :: "string \<Rightarrow> string" where
  "NamespaceForID i = ''envy-'' @ replace_char CHR ''_'' CHR ''-'' i"

definition MaxOverrides :: nat where
  "MaxOverrides = 3"

definition OverrideNames :: "component_override gomap \<Rightarrow> string list" where
  "OverrideNames overrides = sorted_keys overrides"

definition IsDeploymentProfile :: "string \<Rightarrow> bool" where
  "IsDeploymentProfile profile \<longleftrightarrow>
     profile = ''deployment'' \<or> profile = ''deployment-composite''"

section \<open>Profiles, workloads, routing domains\<close>

definition WorkloadKind :: "component \<Rightarrow> string" where
  "WorkloadKind c =
     (case cp_execution c of
        Some e \<Rightarrow> if x_kind e \<noteq> [] then x_kind e else WorkloadHTTP
      | None \<Rightarrow> WorkloadHTTP)"

definition HasEndpoint :: "component \<Rightarrow> bool" where
  "HasEndpoint c \<longleftrightarrow> WorkloadKind c = WorkloadHTTP"

definition Profiles :: "resolved_plan \<Rightarrow> component gomap" where
  "Profiles p =
     (if 0 < map_len (rp_components p) then rp_components p
      else if cp_id (rp_component p) \<noteq> [] then [(cp_id (rp_component p), rp_component p)]
      else [])"

definition WorkloadFor :: "runtime_state \<Rightarrow> string \<Rightarrow> workload_ref" where
  "WorkloadFor r component =
     (case map_of (rt_workloads r) component of
        Some ref \<Rightarrow> ref
      | None \<Rightarrow>
          if wr_deployment (rt_workload r) = component \<or> wr_service (rt_workload r) = component
          then rt_workload r else zero_workload_ref)"

record route_domain =
  rd_namespace :: string
  rd_gateway :: string
  rd_service_host :: string
  rd_aggregate_name :: string
  rd_gateway_namespace :: string
  rd_gateway_section_name :: string
  rd_port :: int

definition demo_service_host :: string where
  "demo_service_host = ''service-b.envy-baseline.svc.cluster.local''"

definition RouteDomain :: "baseline \<Rightarrow> string \<Rightarrow> route_domain" where
  "RouteDomain b component =
     (let binding = get_or zero_binding (b_components b) component;
          host = bb_service_host binding;
          name = ''envy-mesh-'' @ hex_encode (take 10 (sha256 host));
          name' = (if b_project b = ''demo'' \<and> b_id b = ''staging'' \<and>
                     component = ''service-b'' \<and> host = demo_service_host
                   then ''envy-service-b'' else name);
          r = b_routing b
      in \<lparr>rd_namespace = br_namespace r, rd_gateway = br_gateway r, rd_service_host = host,
          rd_aggregate_name = name', rd_gateway_namespace = br_gateway_namespace r,
          rd_gateway_section_name = br_gateway_section_name r, rd_port = bb_port binding\<rparr>)"

definition GatewayNS_routing :: "baseline_routing \<Rightarrow> string" where
  "GatewayNS_routing r =
     (if br_gateway_namespace r \<noteq> [] then br_gateway_namespace r else br_namespace r)"

definition GatewayNS_domain :: "route_domain \<Rightarrow> string" where
  "GatewayNS_domain d =
     (if rd_gateway_namespace d \<noteq> [] then rd_gateway_namespace d else rd_namespace d)"

section \<open>Preview provenance\<close>

definition provenance_of :: "preview_snapshot \<Rightarrow> preview_provenance" where
  "provenance_of s =
     \<lparr>pv_shared_dependencies =
        (case sn_composite_policy s of None \<Rightarrow> [] | Some p \<Rightarrow> cpp_shared_dependencies p),
      pv_revision = sn_revision s, pv_source = sn_source s\<rparr>"

fun provenance_for :: "preview_snapshot gomap \<Rightarrow> component_override gomap \<Rightarrow> preview_provenance gomap" where
  "provenance_for previews [] = []"
| "provenance_for previews ((component, v) # rest) =
     (case map_of previews component of
        Some snapshot \<Rightarrow>
          AList.update component (provenance_of snapshot) (provenance_for previews rest)
      | None \<Rightarrow> provenance_for previews rest)"

definition RefreshPreviewProvenance :: "composition \<Rightarrow> composition" where
  "RefreshPreviewProvenance c =
     c\<lparr>c_preview_profiles :=
        (case rt_plan (c_runtime c) of
           None \<Rightarrow> []
         | Some plan \<Rightarrow> provenance_for (rp_previews plan) (c_overrides c))\<rparr>"

section \<open>Requests\<close>

definition unknown_principal :: principal where
  "unknown_principal =
     \<lparr>pr_kind = ''unknown'', pr_id = ''unknown'', pr_display_name = [], pr_email = []\<rparr>"

text \<open>\<open>RequestIdentityFromContext\<close>: the identity the context carries, or an unknown one.\<close>

definition RequestIdentityFromContext :: "request_identity option \<Rightarrow> request_identity" where
  "RequestIdentityFromContext ctx =
     (case ctx of
        Some identity \<Rightarrow> identity
      | None \<Rightarrow> \<lparr>ri_principal = unknown_principal, ri_channel = ''unknown'', ri_task = []\<rparr>)"

section \<open>Lemmas\<close>

lemma is_catalog_end_char: "is_catalog_end c \<Longrightarrow> is_catalog_char c"
  by (simp add: is_catalog_char_def)

lemma lower_hex_catalog_end: "is_lower_hex c \<Longrightarrow> is_catalog_end c"
  unfolding is_lower_hex_def is_catalog_end_def is_digit_def is_lower_alpha_def
  by (auto simp: less_eq_char_def)

lemma ValidCatalogID_append:
  assumes "ValidCatalogID p" "list_all is_catalog_char q" "q = [] \<or> is_catalog_end (last q)"
    and "length p + length q \<le> 63"
  shows "ValidCatalogID (p @ q)"
proof (cases "q = []")
  case False
  with assms obtain c r where p: "p = c # r" and c: "is_lower_alpha c"
    by (auto simp: ValidCatalogID_def split: list.splits)
  have r: "list_all is_catalog_char r"
    using assms(1) p append_butlast_last_id[of r] is_catalog_end_char[of "last r"]
    by (cases "r = []") (auto simp: ValidCatalogID_def list_all_iff dest: in_set_butlastD
        intro: is_catalog_end_char,
      metis (no_types, lifting) Un_iff append_butlast_last_id empty_set insert_iff list.simps(15)
        set_append singletonD)
  have "list_all is_catalog_char (butlast (r @ q))"
    using r assms(2) False by (auto simp: butlast_append list_all_iff dest: in_set_butlastD)
  moreover have "length (butlast (r @ q)) \<le> 61"
    using assms(4) p False by (cases q) auto
  ultimately show ?thesis
    using p c assms(3) False by (simp add: ValidCatalogID_def)
qed (use assms in simp)

lemma ValidCatalogID_length: "ValidCatalogID s \<Longrightarrow> 0 < length s \<and> length s \<le> 63"
  by (cases s) (auto simp: ValidCatalogID_def)

lemma hex_catalog_chars: "list_all is_lower_hex s \<Longrightarrow> list_all is_catalog_char s"
  by (auto simp: list_all_iff intro: is_catalog_end_char lower_hex_catalog_end)

lemma map_of_provenance_for:
  "map_of (provenance_for previews m) k =
     (if has_key m k then map_option provenance_of (map_of previews k) else None)"
  by (induction previews m rule: provenance_for.induct)
    (auto simp: update_conv' split: option.splits)

end
