(* ===== verification/Dep_Graph.thy ===== *)
theory Dep_Graph
  imports Prelude
begin

text \<open>
  What a depth-first traversal shows of a dependency graph. A completion list, newest first,
  in which every node comes after all its dependencies (\<open>closed_order\<close>) contains no node of
  a cycle. The graph is any function from a node to the list of its dependencies that is
  empty outside a finite set of nodes; the two traversals of the control plane
  (\<open>ValidateExecutionGraph\<close>, \<open>orderedComponentNames\<close>) interpret it.
\<close>

definition dep_edges :: "('a \<Rightarrow> 'a list) \<Rightarrow> ('a \<times> 'a) set" where
  "dep_edges deps = {(i, d). d \<in> set (deps i)}"

fun closed_order :: "('a \<Rightarrow> 'a list) \<Rightarrow> 'a list \<Rightarrow> bool" where
  "closed_order deps [] = True"
| "closed_order deps (i # complete) = (set (deps i) \<subseteq> set complete \<and> closed_order deps complete)"

locale dep_graph =
  fixes deps :: "'a \<Rightarrow> 'a list" and nodes :: "'a set"
  assumes finite_nodes: "finite nodes"
    and deps_outside: "i \<notin> nodes \<Longrightarrow> deps i = []"
begin

lemma edge_source: "(i, d) \<in> (dep_edges deps)\<^sup>+ \<Longrightarrow> i \<in> nodes"
proof (induction rule: trancl_induct)
  case (base y)
  then show ?case using deps_outside[of i] by (force simp: dep_edges_def)
qed

lemma reach_closed:
  assumes "closed_order deps complete" and "(i, d) \<in> (dep_edges deps)\<^sup>+" and "i \<in> set complete"
  shows "d \<in> set complete"
proof -
  have step: "y \<in> set complete \<Longrightarrow> z \<in> set (deps y) \<Longrightarrow> z \<in> set complete" for y z
    using assms(1) by (induction complete) auto
  show ?thesis using assms(2,3)
    by (induction rule: trancl_induct) (auto simp: dep_edges_def intro: step)
qed

lemma no_cycle_closed:
  assumes "closed_order deps complete" "i \<in> set complete"
  shows "(i, i) \<notin> (dep_edges deps)\<^sup>+"
  using assms
proof (induction complete)
  case (Cons j complete)
  show ?case
  proof (cases "i \<in> set complete")
    case False
    with Cons.prems have ij: "i = j" by simp
    show ?thesis
    proof
      assume "(i, i) \<in> (dep_edges deps)\<^sup>+"
      then obtain d where d: "(i, d) \<in> dep_edges deps" "(d, i) \<in> (dep_edges deps)\<^sup>*"
        by (meson tranclD)
      then have dc: "d \<in> set complete" using Cons.prems(1) ij by (auto simp: dep_edges_def)
      with d(2) have "i \<in> set complete"
        using reach_closed[of complete d i] Cons.prems(1) by (auto dest: rtranclD)
      with False show False by simp
    qed
  qed (use Cons in auto)
qed simp

lemma acyclic_closed:
  assumes "closed_order deps complete" "nodes \<subseteq> set complete"
  shows "acyclic (dep_edges deps)"
  unfolding acyclic_def using assms no_cycle_closed edge_source by blast

text \<open>Every dependency of a node of the order comes before it in the oldest-first order.\<close>

lemma deps_before:
  assumes "closed_order deps complete" "rev complete = xs @ i # ys" "d \<in> set (deps i)"
  shows "d \<in> set xs"
proof -
  have eq: "complete = rev ys @ i # rev xs"
    using assms(2) by (metis append.assoc append_Cons append_Nil rev.simps(2) rev_append rev_rev_ident)
  have "closed_order deps (zs @ i # rev xs) \<Longrightarrow> set (deps i) \<subseteq> set xs" for zs
    by (induction zs) auto
  with assms eq show ?thesis by auto
qed

end

end
