(* ===== verification/Workload.thy ===== *)
theory Workload
  imports Catalog Dep_Graph
begin

text \<open>
  \<open>internal/domain/workload.go\<close>: execution identities, the bounds on an execution
  declaration, and the dependency graph of the selected components.

  The depth-first \<open>visit\<close> of \<open>ValidateExecutionGraph\<close> keeps two maps. \<open>visiting\<close> holds
  exactly the components on the current path, since every return without an error deletes the
  one it added; it is the list \<open>path\<close>. \<open>complete\<close> only grows; it is the list \<open>complete\<close>, newest
  first. The locale \<open>dep_graph\<close> states what a completion list shows of a graph; it is
  interpreted on the declared dependencies.
\<close>

section \<open>Execution identity\<close>

definition execution_json :: "workload_execution \<Rightarrow> json" where
  "execution_json e = JObj
     (omit_empty ''kind'' (JStr (x_kind e)) @
      omit_empty ''dependencies'' (JStrs (x_dependencies e)) @
      omit_empty ''timeout'' (JStr (x_timeout e)) @
      omit_empty ''retry_limit'' (JInt (x_retry_limit e)) @
      omit_empty ''schedule'' (JStr (x_schedule e)) @
      omit_empty ''max_runs'' (JInt (x_max_runs e)) @
      omit_empty ''concurrency_policy'' (JStr (x_concurrency_policy e)))"

definition component_json :: "component \<Rightarrow> json" where
  "component_json c = JObj
     (omit_nil ''execution'' execution_json (cp_execution c) @
      omit_empty ''image_pull_secrets'' (JStrs (cp_image_pull_secrets c)) @
      [(''profile'', JStr (cp_profile c)), (''readiness_path'', JStr (cp_readiness_path c))] @
      omit_empty ''env'' (JMap JStr (cp_env c)) @
      [(''id'', JStr (cp_id c)), (''project'', JStr (cp_project c)),
       (''protocol'', JStr (cp_protocol c)), (''port'', JInt (cp_port c)),
       (''health_path'', JStr (cp_health_path c)), (''overridable'', JBool (cp_overridable c))] @
      omit_empty ''repository'' (JStr (cp_repository c)))"

definition ExecutionID :: "component \<Rightarrow> string \<Rightarrow> string \<times> string" where
  "ExecutionID c img =
     (let payload = json_encode (JObj [(''Component'', component_json c), (''Image'', JStr img)]);
          encoded = sha256_hex payload
      in (take 20 encoded, encoded))"

section \<open>Bounds on one declaration\<close>

definition en_dash :: string where
  "en_dash = [CHR 0xE2, CHR 0x80, CHR 0x93]"

definition validateFiniteExecution :: "workload_execution \<Rightarrow> go_error option" where
  "validateFiniteExecution e =
     (case parse_duration (x_timeout e) of
        None \<Rightarrow> Some (Validation ''finite workloads require a timeout from 1s through 24h'')
      | Some d \<Rightarrow>
          if d < second \<or> 24 * hour < d
          then Some (Validation ''finite workloads require a timeout from 1s through 24h'')
          else if x_retry_limit e < 0 \<or> 10 < x_retry_limit e
          then Some (Validation ''finite workloads require retry_limit from 0 through 10'')
          else None)"

definition declares_schedule :: "workload_execution \<Rightarrow> bool" where
  "declares_schedule e \<longleftrightarrow> x_schedule e \<noteq> [] \<or> x_max_runs e \<noteq> 0 \<or> x_concurrency_policy e \<noteq> []"

definition declares_limits :: "workload_execution \<Rightarrow> bool" where
  "declares_limits e \<longleftrightarrow> x_timeout e \<noteq> [] \<or> x_retry_limit e \<noteq> 0 \<or> declares_schedule e"

fun validate_dependencies :: "string \<Rightarrow> string list \<Rightarrow> string list \<Rightarrow> go_error option" where
  "validate_dependencies self seen [] = None"
| "validate_dependencies self seen (d # ds) =
     (if \<not> ValidCatalogID d \<or> d = self \<or> d \<in> set seen
      then Some (Validation ''execution dependencies must be distinct component IDs other than self'')
      else validate_dependencies self (d # seen) ds)"

definition ValidateExecution :: "component \<Rightarrow> go_error option" where
  "ValidateExecution c =
     (case cp_execution c of
        None \<Rightarrow> None
      | Some e \<Rightarrow>
          (let kind = WorkloadKind c;
               bounds =
                 (if kind = WorkloadHTTP then
                    if declares_limits e
                    then Some (Validation ''HTTP workloads cannot declare execution scheduling settings'')
                    else None
                  else if kind = WorkloadWorker then
                    if declares_limits e
                    then Some (Validation ''workers cannot declare finite-job or schedule settings'')
                    else None
                  else if kind = WorkloadJob then
                    if declares_schedule e then Some (Validation ''jobs cannot declare a schedule'')
                    else validateFiniteExecution e
                  else if kind = WorkloadScheduledJob then
                    (case validateFiniteExecution e of
                       Some err \<Rightarrow> Some err
                     | None \<Rightarrow>
                         if length (string_fields (x_schedule e)) \<noteq> 5 \<or> 128 < length (x_schedule e)
                         then Some (Validation ''scheduled jobs require a bounded five-field cron schedule'')
                         else if x_max_runs e < 1 \<or> 1000 < x_max_runs e \<or>
                           x_concurrency_policy e \<noteq> ''forbid''
                         then Some (Validation (''scheduled jobs require max_runs of 1'' @ en_dash @
                                ''1000 and forbid concurrency''))
                         else None)
                  else Some (Validation ''execution kind must be http, worker, job, or scheduled-job''))
           in case bounds of
                Some err \<Rightarrow> Some err
              | None \<Rightarrow> validate_dependencies (cp_id c) [] (x_dependencies e)))"

section \<open>The dependency graph\<close>

definition dependencies :: "component gomap \<Rightarrow> string \<Rightarrow> string list" where
  "dependencies cs i =
     (case cp_execution (get_or zero_component cs i) of None \<Rightarrow> [] | Some e \<Rightarrow> x_dependencies e)"

text \<open>The first pass: every declaration is valid, every dependency registered.\<close>

fun check_registered :: "component gomap \<Rightarrow> string list \<Rightarrow> go_error option" where
  "check_registered cs [] = None"
| "check_registered cs (d # ds) =
     (if has_key cs d then check_registered cs ds
      else Some (Validation (''execution dependency is not registered: '' @ d)))"

fun check_components :: "component gomap \<Rightarrow> component gomap \<Rightarrow> go_error option" where
  "check_components cs [] = None"
| "check_components cs ((i, c) # rest) =
     (case (case cp_execution c of None \<Rightarrow> None | Some e \<Rightarrow> check_registered cs (x_dependencies e)) of
        Some err \<Rightarrow> Some err
      | None \<Rightarrow>
          (case ValidateExecution c of
             Some err \<Rightarrow> Some (Wrapped (i @ '': '') err)
           | None \<Rightarrow> check_components cs rest))"

text \<open>The second pass.\<close>

function visit :: "component gomap \<Rightarrow> string list \<Rightarrow> string list \<Rightarrow> string \<Rightarrow> string list result"
  and visit_all :: "component gomap \<Rightarrow> string list \<Rightarrow> string list \<Rightarrow> string list \<Rightarrow> string list result"
where
  "visit cs path complete i =
     (if i \<in> set path then Inl (Validation ''execution dependencies contain a cycle'')
      else if i \<in> set complete then Inr complete
      else case cp_execution (get_or zero_component cs i) of
             None \<Rightarrow> Inr (i # complete)
           | Some e \<Rightarrow>
               (case visit_all cs (i # path) complete (x_dependencies e) of
                  Inl err \<Rightarrow> Inl err
                | Inr complete' \<Rightarrow> Inr (i # complete')))"
| "visit_all cs path complete [] = Inr complete"
| "visit_all cs path complete (d # ds) =
     (case visit cs path complete d of
        Inl err \<Rightarrow> Inl err
      | Inr complete' \<Rightarrow> visit_all cs path complete' ds)"
  by pat_completeness auto

lemma executing_is_key:
  assumes "cp_execution (get_or zero_component cs i) = Some e"
  shows "i \<in> fst ` set cs"
proof (cases "map_of cs i")
  case None
  with assms show ?thesis by (simp add: get_or_def zero_component_def)
next
  case (Some c)
  then show ?thesis using map_of_SomeD image_eqI[of i fst] by fastforce
qed

lemma card_path_less:
  assumes "i \<in> fst ` set cs" "i \<notin> set path"
  shows "card (fst ` set cs - set (i # path)) < card (fst ` set cs - set path)"
  using assms by (intro psubset_card_mono) auto

termination visit
  by (relation "measures
        [\<lambda>x. case x of Inl (cs, path, complete, i) \<Rightarrow> card (fst ` set cs - set path)
                | Inr (cs, path, complete, ds) \<Rightarrow> card (fst ` set cs - set path),
         \<lambda>x. case x of Inl (cs, path, complete, i) \<Rightarrow> 0
                | Inr (cs, path, complete, ds) \<Rightarrow> Suc (length ds)]")
    (simp_all add: card_path_less[OF executing_is_key] del: list.set)

declare visit.simps [simp del]

definition ValidateExecutionGraph :: "component gomap \<Rightarrow> go_error option" where
  "ValidateExecutionGraph cs =
     (case check_components cs cs of
        Some err \<Rightarrow> Some err
      | None \<Rightarrow>
          (case visit_all cs [] [] (map_keys cs) of Inl err \<Rightarrow> Some err | Inr complete \<Rightarrow> None))"

section \<open>What the traversal shows\<close>

lemma dependencies_execution:
  "cp_execution (get_or zero_component cs i) = Some e \<Longrightarrow> dependencies cs i = x_dependencies e"
  "cp_execution (get_or zero_component cs i) = None \<Longrightarrow> dependencies cs i = []"
  by (simp_all add: dependencies_def)

interpretation wg: dep_graph "dependencies cs" "fst ` set cs" for cs
proof unfold_locales
  fix i assume "i \<notin> fst ` set cs"
  then show "dependencies cs i = []"
    using executing_is_key[of cs i] by (auto simp: dependencies_def split: option.splits)
qed simp

lemma visit_sound:
  "visit cs path complete i = Inr complete' \<Longrightarrow> closed_order (dependencies cs) complete \<Longrightarrow>
     closed_order (dependencies cs) complete' \<and> insert i (set complete) \<subseteq> set complete'"
  "visit_all cs path complete ds = Inr complete' \<Longrightarrow> closed_order (dependencies cs) complete \<Longrightarrow>
     closed_order (dependencies cs) complete' \<and> set ds \<union> set complete \<subseteq> set complete'"
proof (induction cs path complete i and cs path complete ds
    arbitrary: complete' and complete' rule: visit_visit_all.induct)
  case (1 cs path complete i)
  from "1.prems" have path: "i \<notin> set path" by (auto simp: visit.simps)
  show ?case
  proof (cases "i \<in> set complete")
    case True
    with "1.prems" path show ?thesis by (simp add: visit.simps)
  next
    case fresh: False
    show ?thesis
    proof (cases "cp_execution (get_or zero_component cs i)")
      case None
      with "1.prems" path fresh show ?thesis
        by (auto simp: visit.simps dependencies_execution(2)[OF None])
    next
      case (Some e)
      with "1.prems" path fresh obtain cm where cm: "complete' = i # cm"
        and all: "visit_all cs (i # path) complete (x_dependencies e) = Inr cm"
        by (auto simp: visit.simps split: sum.splits)
      from "1.IH"[OF path fresh Some all "1.prems"(2)] cm dependencies_execution(1)[OF Some]
      show ?thesis by auto
    qed
  qed
next
  case (3 cs path complete d ds)
  then obtain cm where cm: "visit cs path complete d = Inr cm" "visit_all cs path cm ds = Inr complete'"
    by (auto split: sum.splits)
  from "3.IH"(1)[OF cm(1) "3.prems"(2)] "3.IH"(2)[OF cm] show ?case by auto
qed simp

lemma visit_fails:
  "visit cs path complete i = Inl err \<Longrightarrow> \<forall>v\<in>set path. (v, i) \<in> (dep_edges (dependencies cs))\<^sup>+ \<Longrightarrow>
     err = Validation ''execution dependencies contain a cycle'' \<and> \<not> acyclic (dep_edges (dependencies cs))"
  "visit_all cs path complete ds = Inl err \<Longrightarrow>
     \<forall>v\<in>set path. \<forall>d\<in>set ds. (v, d) \<in> (dep_edges (dependencies cs))\<^sup>+ \<Longrightarrow>
     err = Validation ''execution dependencies contain a cycle'' \<and> \<not> acyclic (dep_edges (dependencies cs))"
proof (induction cs path complete i and cs path complete ds rule: visit_visit_all.induct)
  case (1 cs path complete i)
  show ?case
  proof (cases "i \<in> set path")
    case True
    with "1.prems" show ?thesis by (auto simp: visit.simps acyclic_def)
  next
    case path: False
    with "1.prems" obtain e where fresh: "i \<notin> set complete"
      and Some: "cp_execution (get_or zero_component cs i) = Some e"
      and all: "visit_all cs (i # path) complete (x_dependencies e) = Inl err"
      by (auto simp: visit.simps split: if_splits option.splits sum.splits)
    have edge: "d \<in> set (x_dependencies e) \<Longrightarrow> (i, d) \<in> dep_edges (dependencies cs)" for d
      by (simp add: dep_edges_def dependencies_execution(1)[OF Some])
    from "1.IH"[OF path fresh Some all] show ?thesis
      using "1.prems"(2) edge by (auto intro: trancl_into_trancl)
  qed
next
  case (3 cs path complete d ds)
  then show ?case by (auto split: sum.splits)
qed simp

lemma visit_roots:
  "(\<exists>complete. visit_all cs [] [] (map_keys cs) = Inr complete) \<longleftrightarrow> acyclic (dep_edges (dependencies cs))"
proof (cases "visit_all cs [] [] (map_keys cs)")
  case (Inl err)
  then show ?thesis using visit_fails(2)[OF Inl] by simp
next
  case (Inr complete)
  from visit_sound(2)[OF Inr] have "closed_order (dependencies cs) complete"
    "fst ` set cs \<subseteq> set complete" by (auto simp: map_keys_def)
  then show ?thesis using wg.acyclic_closed Inr by auto
qed

lemma check_registered_iff: "check_registered cs ds = None \<longleftrightarrow> (\<forall>d\<in>set ds. has_key cs d)"
  by (induction ds) auto

definition component_accepted :: "component gomap \<Rightarrow> component \<Rightarrow> bool" where
  "component_accepted cs c \<longleftrightarrow> ValidateExecution c = None \<and>
     (\<forall>e. cp_execution c = Some e \<longrightarrow> (\<forall>d\<in>set (x_dependencies e). has_key cs d))"

lemma component_accepted_alt:
  "component_accepted cs c \<longleftrightarrow> ValidateExecution c = None \<and> list_all (has_key cs)
     (case cp_execution c of None \<Rightarrow> [] | Some e \<Rightarrow> x_dependencies e)"
  by (cases "cp_execution c") (auto simp: component_accepted_def list_all_iff)

lemma check_components_iff:
  "check_components cs rest = None \<longleftrightarrow> (\<forall>(i, c)\<in>set rest. component_accepted cs c)"
  by (induction cs rest rule: check_components.induct)
    (auto simp: component_accepted_def simp flip: check_registered_iff split: option.splits)

lemma dependencies_cong: "map_of a = map_of b \<Longrightarrow> dependencies a = dependencies b"
  by (rule ext) (simp add: dependencies_def get_or_def)

lemma check_components_cong:
  assumes "wf_map a" "wf_map b" "map_of a = map_of b"
  shows "check_components a a = None \<longleftrightarrow> check_components b b = None"
proof -
  have "set a = set b" using assms by (simp add: wf_map_def map_of_inject_set)
  moreover have "component_accepted a = component_accepted b"
    using assms(3) by (simp add: component_accepted_def has_key_def fun_eq_iff)
  ultimately show ?thesis by (simp add: check_components_iff)
qed

lemma ValidateExecutionGraph_None:
  "ValidateExecutionGraph cs = None \<longleftrightarrow>
     (\<forall>(i, c)\<in>set cs. component_accepted cs c) \<and> acyclic (dep_edges (dependencies cs))"
proof -
  have "ValidateExecutionGraph cs = None \<longleftrightarrow>
      check_components cs cs = None \<and> (\<exists>complete. visit_all cs [] [] (map_keys cs) = Inr complete)"
    by (auto simp: ValidateExecutionGraph_def split: option.splits sum.splits)
  then show ?thesis by (simp add: check_components_iff visit_roots)
qed

section \<open>Properties\<close>

text \<open>
  C38: \<open>ValidateExecutionGraph\<close> accepts a set of components exactly when every declaration is
  valid on its own, every dependency names a registered component, and the dependency
  relation has no cycle.
\<close>

theorem execution_graph_accepts_iff:
  "ValidateExecutionGraph cs = None \<longleftrightarrow>
     list_all (\<lambda>(i, c). ValidateExecution c = None) cs \<and>
     list_all (\<lambda>(i, c). list_all (has_key cs)
       (case cp_execution c of None \<Rightarrow> [] | Some e \<Rightarrow> x_dependencies e)) cs \<and>
     acyclic {(i, d). d \<in> set (dependencies cs i)}"
  unfolding ValidateExecutionGraph_None component_accepted_alt list_all_iff[of _ cs] dep_edges_def
  by (simp only: split_def ball_conj_distrib conj_assoc)

text \<open>
  The verdict does not depend on the order in which Go iterates over the map of
  components: two orders of one map are both accepted or both rejected.
\<close>

theorem execution_graph_order_independent:
  assumes "wf_map a" "wf_map b" "map_of a = map_of b"
  shows "(ValidateExecutionGraph a = None) = (ValidateExecutionGraph b = None)"
proof -
  have "set a = set b" using assms by (simp add: wf_map_def map_of_inject_set)
  moreover have "component_accepted a = component_accepted b"
    using assms(3) by (simp add: component_accepted_def has_key_def fun_eq_iff)
  ultimately show ?thesis
    using dependencies_cong[OF assms(3)] by (simp add: ValidateExecutionGraph_None)
qed

definition worker_after :: "string \<Rightarrow> string list \<Rightarrow> component" where
  "worker_after i ds = zero_component\<lparr>cp_id := i, cp_execution := Some
     \<lparr>x_kind = WorkloadWorker, x_dependencies = ds, x_timeout = [], x_retry_limit = 0,
      x_schedule = [], x_max_runs = 0, x_concurrency_policy = []\<rparr>\<rparr>"

lemma execution_graph_order_independent_witness:
  "ValidateExecutionGraph [(''a'', worker_after ''a'' [''b'']), (''b'', worker_after ''b'' [])] = None \<and>
   ValidateExecutionGraph [(''b'', worker_after ''b'' []), (''a'', worker_after ''a'' [''b''])] = None"
proof -
  have "ValidateExecutionGraph [(''b'', worker_after ''b'' []), (''a'', worker_after ''a'' [''b''])] = None"
    by code_simp
  with execution_graph_order_independent[of
      "[(''a'', worker_after ''a'' [''b'']), (''b'', worker_after ''b'' [])]"
      "[(''b'', worker_after ''b'' []), (''a'', worker_after ''a'' [''b''])]"]
  show ?thesis by (simp add: wf_map_def fun_eq_iff)
qed

text \<open>
  A finite workload that is accepted has a timeout between one second and a day and at
  most ten retries, so that its attempts take at most 264 hours together; a scheduled job
  moreover runs at most a thousand times and never concurrently with itself.
\<close>

theorem finite_execution_bounded:
  assumes "ValidateExecution c = None"
    and "WorkloadKind c = WorkloadJob \<or> WorkloadKind c = WorkloadScheduledJob"
  shows "\<exists>e d. cp_execution c = Some e \<and> parse_duration (x_timeout e) = Some d \<and>
     second \<le> d \<and> d \<le> 24 * hour \<and> 0 \<le> x_retry_limit e \<and>
     (x_retry_limit e + 1) * d \<le> 264 * hour \<and>
     (WorkloadKind c = WorkloadScheduledJob \<longrightarrow>
        1 \<le> x_max_runs e \<and> x_max_runs e \<le> 1000 \<and> x_concurrency_policy e = ''forbid'')"
proof -
  obtain e where e: "cp_execution c = Some e"
    using assms(2) by (cases "cp_execution c") (auto simp: WorkloadKind_def)
  have "validateFiniteExecution e = None"
    using assms e by (auto simp: ValidateExecution_def Let_def split: option.splits if_splits)
  then obtain d where d: "parse_duration (x_timeout e) = Some d" "second \<le> d" "d \<le> 24 * hour"
    "0 \<le> x_retry_limit e" "x_retry_limit e \<le> 10"
    by (auto simp: validateFiniteExecution_def split: option.splits if_splits)
  have "(x_retry_limit e + 1) * d \<le> 11 * (24 * hour)"
    using d by (intro mult_mono) auto
  moreover have "WorkloadKind c = WorkloadScheduledJob \<longrightarrow>
      1 \<le> x_max_runs e \<and> x_max_runs e \<le> 1000 \<and> x_concurrency_policy e = ''forbid''"
    using assms e by (auto simp: ValidateExecution_def Let_def split: option.splits if_splits)
  ultimately show ?thesis using e d by auto
qed

definition nightly_job :: component where
  "nightly_job = zero_component\<lparr>cp_id := ''report'', cp_execution := Some
     \<lparr>x_kind = WorkloadScheduledJob, x_dependencies = [], x_timeout = ''90m'', x_retry_limit = 2,
      x_schedule = ''0 3 * * *'', x_max_runs = 7, x_concurrency_policy = ''forbid''\<rparr>\<rparr>"

lemma finite_execution_bounded_witness:
  "\<exists>e d. cp_execution nightly_job = Some e \<and> parse_duration (x_timeout e) = Some d \<and>
     second \<le> d \<and> (x_retry_limit e + 1) * d \<le> 264 * hour"
proof -
  have "ValidateExecution nightly_job = None" "WorkloadKind nightly_job = WorkloadScheduledJob"
    by (simp_all add: nightly_job_def zero_component_def ValidateExecution_def WorkloadKind_def
        validateFiniteExecution_def declares_schedule_def parse_duration_eval string_fields_eval)
  from finite_execution_bounded[OF this(1) disjI2[OF this(2)]] show ?thesis by blast
qed

end
