(* ===== verification/Messaging.thy ===== *)
theory Messaging
  imports Catalog
begin

text \<open>
  \<open>internal/domain/messaging.go\<close>: the registered Pub/Sub topics of a baseline, their
  validation, the subscriptions derived for one composition and the environment that binds a
  workload to them. The three \<open>map[string]bool\<close> of \<open>messagingValidation\<close> are lists of the
  keys that are true.
\<close>

section \<open>Filters\<close>

definition BaselineMessageFilter :: string where
  "BaselineMessageFilter = ''NOT attributes:envy_composition''"

definition MessageFilter :: "string \<Rightarrow> string \<Rightarrow> string" where
  "MessageFilter base business =
     (if business = [] then base else ''('' @ base @ '') AND ('' @ business @ '')'')"

text \<open>
  The scan of \<open>balancedFilter\<close>. It runs over runes; the bytes of a longer rune are none of
  the four characters it tests, so bytes give the same answer.
\<close>

fun balanced_from :: "int \<Rightarrow> bool \<Rightarrow> bool \<Rightarrow> string \<Rightarrow> bool" where
  "balanced_from depth quoted escaped [] = (depth = 0 \<and> \<not> quoted)"
| "balanced_from depth quoted escaped (r # s) =
     (if quoted then
        if escaped then balanced_from depth True False s
        else if r = backslash then balanced_from depth True True s
        else if r = dquote then balanced_from depth False escaped s
        else balanced_from depth True escaped s
      else if r = dquote then balanced_from depth True escaped s
      else if r = CHR ''('' then balanced_from (depth + 1) False escaped s
      else if r = CHR '')'' then
        if depth - 1 < 0 then False else balanced_from (depth - 1) False escaped s
      else balanced_from depth False escaped s)"

definition balancedFilter :: "string \<Rightarrow> bool" where
  "balancedFilter flt = balanced_from 0 False False flt"

section \<open>Validation\<close>

definition is_project_char :: "char \<Rightarrow> bool" where
  "is_project_char c \<longleftrightarrow> is_alpha c \<or> is_digit c \<or> c \<in> set ''.:-''"

definition is_resource_char :: "char \<Rightarrow> bool" where
  "is_resource_char c \<longleftrightarrow> is_alpha c \<or> is_digit c \<or> c \<in> set ''._~+%-''"

definition pubsubResource :: "string \<Rightarrow> bool" where
  "pubsubResource s =
     (case split_on CHR ''/'' s of
        [a, p, k, n] \<Rightarrow>
          a = ''projects'' \<and>
          p \<noteq> [] \<and> (is_alpha (hd p) \<or> is_digit (hd p)) \<and> list_all is_project_char (tl p) \<and>
          (k = ''topics'' \<or> k = ''subscriptions'') \<and>
          n \<noteq> [] \<and> is_alpha (hd n) \<and> list_all is_resource_char (tl n) \<and>
          2 \<le> length (tl n) \<and> length (tl n) \<le> 254
      | _ \<Rightarrow> False)"

definition messageEnv :: "string \<Rightarrow> bool" where
  "messageEnv s \<longleftrightarrow>
     s \<noteq> [] \<and> (is_alpha (hd s) \<or> hd s = CHR ''_'') \<and>
     list_all (\<lambda>c. is_alpha c \<or> is_digit c \<or> c = CHR ''_'') (tl s) \<and> length (tl s) \<le> 127"

record messaging_validation =
  mv_topics :: "string list"
  mv_subscriptions :: "string list"
  mv_environments :: "string list"
  mv_consumer_count :: nat

definition placeholder_filter :: string where
  "placeholder_filter =
     ''attributes.envy_composition = '' @ [dquote] @ replicate 32 CHR ''0'' @ [dquote]"

definition validateConsumer ::
  "baseline \<Rightarrow> string \<Rightarrow> pubsub_consumer \<Rightarrow> messaging_validation \<Rightarrow> messaging_validation result"
where
  "validateConsumer b i consumer st =
     (let st = st\<lparr>mv_consumer_count := mv_consumer_count st + 1\<rparr> in
      if \<not> ValidCatalogID i \<or> \<not> pubsubResource (pc_subscription consumer) \<or>
         \<not> contains (pc_subscription consumer) ''/subscriptions/'' \<or>
         pc_subscription consumer \<in> set (mv_subscriptions st)
      then Inl (Validation ''Pub/Sub consumers require unique fully qualified subscription names and logical DNS IDs'')
      else
      let st = st\<lparr>mv_subscriptions := pc_subscription consumer # mv_subscriptions st\<rparr> in
      if \<not> has_key (b_components b) (pc_component consumer)
      then Inl (Validation ''Pub/Sub consumer must be a bound component'')
      else
      let key = pc_component consumer @ ''/'' @ pc_subscription_env consumer in
      if \<not> messageEnv (pc_subscription_env consumer) \<or>
         has_prefix (pc_subscription_env consumer) ''ENVY_'' \<or>
         pc_subscription_env consumer = ''POD_UID'' \<or> key \<in> set (mv_environments st)
      then Inl (Validation ''Pub/Sub subscription environment keys must be valid, nonreserved and unique per component'')
      else
      let st = st\<lparr>mv_environments := key # mv_environments st\<rparr> in
      if \<not> balancedFilter (pc_filter consumer) \<or> contains (pc_filter consumer) ''envy_composition'' \<or>
         256 < length (MessageFilter placeholder_filter (pc_filter consumer)) \<or>
         contains_any (pc_filter consumer) [carriage_return, newline, nul]
      then Inl (Validation ''Pub/Sub business filter is invalid or exceeds the 256-byte composed filter limit'')
      else Inr st)"

fun validate_consumers ::
  "baseline \<Rightarrow> pubsub_consumer gomap \<Rightarrow> messaging_validation \<Rightarrow> messaging_validation result"
where
  "validate_consumers b [] st = Inr st"
| "validate_consumers b ((i, consumer) # rest) st =
     (case validateConsumer b i consumer st of
        Inl err \<Rightarrow> Inl err
      | Inr st' \<Rightarrow> validate_consumers b rest st')"

fun validatePublishers :: "baseline \<Rightarrow> string list \<Rightarrow> string list \<Rightarrow> go_error option" where
  "validatePublishers b seen [] = None"
| "validatePublishers b seen (p # ps) =
     (if \<not> has_key (b_components b) p \<or> p \<in> set seen
      then Some (Validation ''Pub/Sub publishers must be distinct bound components'')
      else validatePublishers b (p # seen) ps)"

definition validateTopic ::
  "baseline \<Rightarrow> string \<Rightarrow> pubsub_topic \<Rightarrow> messaging_validation \<Rightarrow> messaging_validation result"
where
  "validateTopic b name topic st =
     (if \<not> ValidCatalogID name \<or> \<not> pubsubResource (pt_topic topic) \<or>
         \<not> contains (pt_topic topic) ''/topics/'' \<or> pt_topic topic \<in> set (mv_topics st)
      then Inl (Validation ''Pub/Sub topics require unique fully qualified topic names and logical DNS IDs'')
      else
      let st = st\<lparr>mv_topics := pt_topic topic # mv_topics st\<rparr> in
      if pt_publishers topic = [] \<or> map_len (pt_consumers topic) = 0
      then Inl (Validation ''Pub/Sub topics require publishers and consumer bindings'')
      else
      case validatePublishers b [] (pt_publishers topic) of
        Some err \<Rightarrow> Inl err
      | None \<Rightarrow> validate_consumers b (pt_consumers topic) st)"

fun validate_topics ::
  "baseline \<Rightarrow> pubsub_topic gomap \<Rightarrow> messaging_validation \<Rightarrow> messaging_validation result"
where
  "validate_topics b [] st = Inr st"
| "validate_topics b ((name, topic) # rest) st =
     (case validateTopic b name topic st of
        Inl err \<Rightarrow> Inl err
      | Inr st' \<Rightarrow> validate_topics b rest st')"

definition ValidateMessaging :: "baseline \<Rightarrow> go_error option" where
  "ValidateMessaging b =
     (if 20 < map_len (b_pubsub b) then Some (Validation ''at most twenty Pub/Sub topics are supported'')
      else
      case validate_topics b (b_pubsub b)
        \<lparr>mv_topics = [], mv_subscriptions = [], mv_environments = [], mv_consumer_count = 0\<rparr> of
        Inl err \<Rightarrow> Some err
      | Inr st \<Rightarrow>
          if 40 < mv_consumer_count st
          then Some (Validation ''at most forty Pub/Sub consumer bindings are supported'')
          else None)"

section \<open>Subscriptions of a composition\<close>

definition composition_filter :: "string \<Rightarrow> string" where
  "composition_filter i = ''attributes.envy_composition = '' @ quote i"

text \<open>\<open>None\<close> is the panic of an index out of range: a topic name without a slash.\<close>

definition subscription_for ::
  "string \<Rightarrow> string \<Rightarrow> time \<Rightarrow> string \<Rightarrow> pubsub_topic \<Rightarrow> string \<Rightarrow> pubsub_consumer \<Rightarrow>
   message_subscription option"
where
  "subscription_for installation i expiry name t consumer c =
     (let hash = sha256 (installation @ ''/'' @ i @ ''/'' @ name @ ''/'' @ consumer) in
      case split_on CHR ''/'' (pt_topic t) of
        (_ # project # _) \<Rightarrow> Some
          \<lparr>ms_instance = [],
           ms_name = ''projects/'' @ project @ ''/subscriptions/envy-'' @ hex_encode (take 20 hash),
           ms_topic = pt_topic t, ms_component = pc_component c,
           ms_subscription_env = pc_subscription_env c,
           ms_filter = MessageFilter (composition_filter i) (pc_filter c),
           ms_retention = ''604800s'', ms_expires_at = expiry, ms_ready = False,
           ms_backlog_may_be_lost = False\<rparr>
      | _ \<Rightarrow> None)"

definition bindings :: "pubsub_topic gomap \<Rightarrow> (string \<times> pubsub_topic \<times> string \<times> pubsub_consumer) list" where
  "bindings ts = concat (map (\<lambda>(name, t). map (\<lambda>(consumer, c). (name, t, consumer, c)) (pt_consumers t)) ts)"

definition ResolveMessaging ::
  "baseline \<Rightarrow> string \<Rightarrow> string \<Rightarrow> time \<Rightarrow> message_subscription list option"
where
  "ResolveMessaging b installation i expiry =
     map_option (sort_key ms_name)
       (those (map (\<lambda>(name, t, consumer, c). subscription_for installation i expiry name t consumer c)
          (bindings (b_pubsub b))))"

definition MessagingEnvironment ::
  "baseline \<Rightarrow> string \<Rightarrow> bool \<Rightarrow> message_subscription list \<Rightarrow> string gomap"
where
  "MessagingEnvironment b component isolated subscriptions =
     (let env = [(''ENVY_MESSAGE_ISOLATION'', show_bool isolated)];
          env = fold (\<lambda>(name, t, consumer, c) env.
              if pc_component c = component
              then AList.update (pc_subscription_env c) '''' env else env)
            (bindings (b_pubsub b)) env
      in if isolated
         then fold (\<lambda>s env. if ms_component s = component
              then AList.update (ms_subscription_env s) (ms_name s) env else env)
            subscriptions env
         else env)"

section \<open>Groups of a filter\<close>

text \<open>
  How Pub/Sub reads a parenthesised group: the text up to the parenthesis that closes the
  group, quotes and escapes respected, and what follows it. \<open>split_conjunction\<close> reads a whole
  filter as the conjunction of two groups.
\<close>

definition add_char :: "char \<Rightarrow> (string \<times> string) option \<Rightarrow> (string \<times> string) option" where
  "add_char r g = map_option (\<lambda>(content, rest). (r # content, rest)) g"

fun close_group :: "int \<Rightarrow> bool \<Rightarrow> bool \<Rightarrow> string \<Rightarrow> (string \<times> string) option" where
  "close_group depth quoted escaped [] = None"
| "close_group depth quoted escaped (r # s) =
     (if quoted then
        add_char r
          (if escaped then close_group depth True False s
           else if r = backslash then close_group depth True True s
           else close_group depth (r \<noteq> dquote) False s)
      else if r = CHR '')'' \<and> depth = 0 then Some ([], s)
      else add_char r
        (if r = dquote then close_group depth True False s
         else if r = CHR ''('' then close_group (depth + 1) False False s
         else if r = CHR '')'' then close_group (depth - 1) False False s
         else close_group depth False False s))"

definition split_conjunction :: "string \<Rightarrow> (string \<times> string) option" where
  "split_conjunction s =
     (if \<not> has_prefix s ''('' then None
      else case close_group 0 False False (drop 1 s) of
        None \<Rightarrow> None
      | Some (left, r) \<Rightarrow>
          if \<not> has_prefix r '' AND ('' then None
          else case close_group 0 False False (drop 6 r) of
            None \<Rightarrow> None
          | Some (right, rest) \<Rightarrow> if rest = [] then Some (left, right) else None)"

lemma add_char_simps [simp]:
  "add_char r g = Some ([], rest) \<longleftrightarrow> False"
  "add_char r g = Some (c # content, rest) \<longleftrightarrow> r = c \<and> g = Some (content, rest)"
  by (auto simp: add_char_def split: prod.splits)

lemma close_group_iff:
  assumes "0 \<le> depth" and "escaped \<longrightarrow> quoted"
  shows "close_group depth quoted escaped (f @ CHR '')'' # rest) = Some (f, rest) \<longleftrightarrow>
    balanced_from depth quoted escaped f"
  using assms by (induction depth quoted escaped f rule: balanced_from.induct) auto

lemma split_conjunction_filter:
  assumes "balancedFilter base" "business \<noteq> []"
  shows "split_conjunction (MessageFilter base business) = Some (base, business) \<longleftrightarrow>
    balancedFilter business"
proof -
  have base: "close_group 0 False False (base @ CHR '')'' # r) = Some (base, r)" for r
    using close_group_iff[of 0 False False base r] assms(1) by (simp add: balancedFilter_def)
  have "split_conjunction (MessageFilter base business) = Some (base, business) \<longleftrightarrow>
      close_group 0 False False (business @ '')'') = Some (business, [])"
    using assms(2) base[of "'' AND ('' @ business @ '')''"]
    by (auto simp: split_conjunction_def MessageFilter_def has_prefix_def split: option.splits)
  then show ?thesis
    using close_group_iff[of 0 False False business "[]"] by (simp add: balancedFilter_def)
qed

section \<open>The filter of a composition\<close>

definition plain_char :: "char \<Rightarrow> bool" where
  "plain_char c \<longleftrightarrow> c \<noteq> dquote \<and> c \<noteq> backslash \<and> c \<noteq> CHR ''('' \<and> c \<noteq> CHR '')''"

lemma balanced_plain:
  "list_all plain_char p \<Longrightarrow> balanced_from d q False (p @ s) = balanced_from d q False s"
  by (induction p) (auto simp: plain_char_def)

lemma lower_hex_plain: "is_lower_hex c \<Longrightarrow> plain_char c"
  using lower_hex_code[of c] by (auto simp: plain_char_def)

lemma balanced_composition_filter:
  assumes "list_all is_lower_hex i"
  shows "balancedFilter (composition_filter i)"
proof -
  have plain: "list_all plain_char ''attributes.envy_composition = ''" "list_all plain_char i"
    using assms lower_hex_plain by (simp add: plain_char_def, simp add: list_all_iff)
  have "balancedFilter (composition_filter i) = balanced_from 0 True False (i @ [dquote])"
    unfolding balancedFilter_def composition_filter_def quote_hex[OF assms]
      balanced_plain[OF plain(1)] by simp
  also have "\<dots>" unfolding balanced_plain[OF plain(2)] by simp
  finally show ?thesis by simp
qed

lemma length_composition_filter:
  "list_all is_lower_hex i \<Longrightarrow> length i \<le> 32 \<Longrightarrow>
     length (composition_filter i) \<le> length placeholder_filter"
  by (simp add: composition_filter_def placeholder_filter_def quote_hex)

lemma length_MessageFilter_mono:
  "length a \<le> length b \<Longrightarrow> length (MessageFilter a f) \<le> length (MessageFilter b f)"
  by (simp add: MessageFilter_def)

section \<open>What validation establishes\<close>

definition binding_ok :: "baseline \<Rightarrow> pubsub_topic \<Rightarrow> pubsub_consumer \<Rightarrow> bool" where
  "binding_ok b t c \<longleftrightarrow>
     pubsubResource (pt_topic t) \<and> has_key (b_components b) (pc_component c) \<and>
     messageEnv (pc_subscription_env c) \<and> \<not> has_prefix (pc_subscription_env c) ''ENVY_'' \<and>
     balancedFilter (pc_filter c) \<and> \<not> contains (pc_filter c) ''envy_composition'' \<and>
     length (MessageFilter placeholder_filter (pc_filter c)) \<le> 256"

lemma validateConsumer_ok:
  "validateConsumer b i c st = Inr st' \<Longrightarrow> pubsubResource (pt_topic t) \<Longrightarrow> binding_ok b t c"
  by (auto simp: validateConsumer_def binding_ok_def Let_def split: if_splits)

lemma validate_consumers_ok:
  "validate_consumers b cs st = Inr st' \<Longrightarrow> pubsubResource (pt_topic t) \<Longrightarrow>
     \<forall>(i, c)\<in>set cs. binding_ok b t c"
  by (induction b cs st rule: validate_consumers.induct)
    (auto split: sum.splits dest: validateConsumer_ok)

lemma validate_topics_ok:
  "validate_topics b ts st = Inr st' \<Longrightarrow>
     \<forall>(name, t)\<in>set ts. \<forall>(i, c)\<in>set (pt_consumers t). binding_ok b t c"
proof (induction b ts st rule: validate_topics.induct)
  case (2 b name t rest st)
  then obtain st1 where t: "validateTopic b name t st = Inr st1" "validate_topics b rest st1 = Inr st'"
    by (auto split: sum.splits)
  from t(1) have res: "pubsubResource (pt_topic t)"
    and "\<exists>st0. validate_consumers b (pt_consumers t) st0 = Inr st1"
    by (auto simp: validateTopic_def Let_def split: if_splits option.splits)
  then have "\<forall>(i, c)\<in>set (pt_consumers t). binding_ok b t c"
    using validate_consumers_ok by blast
  with "2.IH"[OF t] show ?case by auto
qed simp

lemma bindings_ok:
  assumes "ValidateMessaging b = None" "(name, t, consumer, c) \<in> set (bindings (b_pubsub b))"
  shows "binding_ok b t c"
proof -
  have "(name, t) \<in> set (b_pubsub b)" "(consumer, c) \<in> set (pt_consumers t)"
    using assms(2) by (auto simp: bindings_def)
  moreover obtain st st' where "validate_topics b (b_pubsub b) st = Inr st'"
    using assms(1) by (auto simp: ValidateMessaging_def split: if_splits sum.splits)
  ultimately show ?thesis using validate_topics_ok by fastforce
qed

section \<open>Derived subscriptions\<close>

lemma those_Some_iff: "those xs = Some ys \<longleftrightarrow> xs = map Some ys"
proof (induction xs arbitrary: ys)
  case (Cons x xs)
  then show ?case by (cases x; cases ys) (auto simp: map_eq_Cons_conv)
qed auto

lemma those_total: "\<forall>x\<in>set xs. x \<noteq> None \<Longrightarrow> \<exists>ys. those xs = Some ys"
  by (induction xs) auto

lemma subscription_for_total:
  "pubsubResource (pt_topic t) \<Longrightarrow> \<exists>s. subscription_for inst i expiry name t consumer c = Some s"
  by (auto simp: subscription_for_def pubsubResource_def Let_def split: list.splits)

lemma subscription_for_fields:
  "subscription_for inst i expiry name t consumer c = Some s \<Longrightarrow>
     ms_component s = pc_component c \<and> ms_subscription_env s = pc_subscription_env c \<and>
     ms_filter s = MessageFilter (composition_filter i) (pc_filter c) \<and> ms_topic s = pt_topic t \<and>
     ms_expires_at s = expiry"
  by (auto simp: subscription_for_def Let_def split: list.splits)

lemma ResolveMessaging_member:
  assumes "ResolveMessaging b inst i expiry = Some subs"
  shows "s \<in> set subs \<longleftrightarrow> (\<exists>name t consumer c. (name, t, consumer, c) \<in> set (bindings (b_pubsub b)) \<and>
    subscription_for inst i expiry name t consumer c = Some s)"
proof -
  let ?f = "\<lambda>(name, t, consumer, c). subscription_for inst i expiry name t consumer c"
  obtain ss where ss: "map ?f (bindings (b_pubsub b)) = map Some ss" "subs = sort_key ms_name ss"
    using assms by (auto simp: ResolveMessaging_def those_Some_iff)
  have "s \<in> set subs \<longleftrightarrow> Some s \<in> set (map Some ss)" using ss(2) by auto
  also have "\<dots> \<longleftrightarrow> Some s \<in> ?f ` set (bindings (b_pubsub b))" by (simp flip: ss(1))
  finally show ?thesis by force
qed

section \<open>Environments\<close>

definition blanked :: "string \<Rightarrow> (string \<times> pubsub_topic \<times> string \<times> pubsub_consumer) list \<Rightarrow>
    string gomap \<Rightarrow> string gomap" where
  "blanked component bs env = fold (\<lambda>(name, t, consumer, c) env.
     if pc_component c = component then AList.update (pc_subscription_env c) [] env else env) bs env"

definition bound :: "string \<Rightarrow> message_subscription list \<Rightarrow> string gomap \<Rightarrow> string gomap" where
  "bound component ss env = fold (\<lambda>s env.
     if ms_component s = component then AList.update (ms_subscription_env s) (ms_name s) env else env)
     ss env"

lemma MessagingEnvironment_eq:
  "MessagingEnvironment b component isolated subs =
     (let env = blanked component (bindings (b_pubsub b)) [(''ENVY_MESSAGE_ISOLATION'', show_bool isolated)]
      in if isolated then bound component subs env else env)"
  by (simp add: MessagingEnvironment_def blanked_def bound_def Let_def)

lemma blanked_Cons [simp]:
  "blanked k [] env = env"
  "blanked k ((name, t, consumer, c) # bs) env =
     blanked k bs (if pc_component c = k then AList.update (pc_subscription_env c) [] env else env)"
  by (simp_all add: blanked_def)

lemma bound_Cons [simp]:
  "bound k [] env = env"
  "bound k (s # ss) env =
     bound k ss (if ms_component s = k then AList.update (ms_subscription_env s) (ms_name s) env else env)"
  by (simp_all add: bound_def)

lemma map_of_blanked:
  "map_of (blanked k bs env) key =
     (if \<exists>(name, t, consumer, c)\<in>set bs. pc_component c = k \<and> pc_subscription_env c = key
      then Some [] else map_of env key)"
  by (induction bs arbitrary: env) (auto simp: update_conv' split: prod.splits)

lemma map_of_bound:
  "(\<exists>s\<in>set ss. ms_component s = k \<and> ms_subscription_env s = key \<and>
      map_of (bound k ss env) key = Some (ms_name s)) \<or>
   (\<not> (\<exists>s\<in>set ss. ms_component s = k \<and> ms_subscription_env s = key) \<and>
      map_of (bound k ss env) key = map_of env key)"
proof (induction ss arbitrary: env)
  case (Cons s ss)
  show ?case
    using Cons.IH[of "if ms_component s = k then AList.update (ms_subscription_env s) (ms_name s) env else env"]
    by (auto simp: update_conv' split: if_splits)
qed simp

section \<open>Properties\<close>

text \<open>
  C39: The parenthesis that \<open>MessageFilter\<close> appends after a business predicate closes the
  group it opened exactly when \<open>balancedFilter\<close> accepts the predicate. So no accepted
  predicate escapes the conjunction with the isolation predicate, and every rejected one
  would break it.
\<close>

theorem balanced_filter_iff_conjunction:
  assumes "list_all is_lower_hex i" and "business \<noteq> []"
  shows "split_conjunction (MessageFilter (composition_filter i) business) =
      Some (composition_filter i, business) \<longleftrightarrow> balancedFilter business"
  by (rule split_conjunction_filter[OF balanced_composition_filter[OF assms(1)] assms(2)])

lemma balanced_filter_iff_conjunction_witness:
  "split_conjunction (MessageFilter (composition_filter ''0af3'') ''hasPrefix(attributes.kind, a)'') =
     Some (composition_filter ''0af3'', ''hasPrefix(attributes.kind, a)'') \<and>
   split_conjunction (MessageFilter (composition_filter ''0af3'') ''a) OR (b'') \<noteq>
     Some (composition_filter ''0af3'', ''a) OR (b'')"
  using balanced_filter_iff_conjunction[of "''0af3''" "''hasPrefix(attributes.kind, a)''"]
    balanced_filter_iff_conjunction[of "''0af3''" "''a) OR (b''"]
  by (simp add: is_lower_hex_def is_digit_def less_eq_char_def balancedFilter_def)

text \<open>
  For a baseline that \<open>ValidateMessaging\<close> accepts and the identifier of a composition,
  \<open>ResolveMessaging\<close> never indexes past the end of a split topic name, returns its
  subscriptions sorted by name, and gives each a filter of at most 256 bytes that is either
  the isolation predicate or its conjunction with one business predicate.
\<close>

theorem resolved_messaging_isolated:
  assumes "ValidateMessaging b = None" "list_all is_lower_hex i" "length i \<le> 32"
  shows "\<exists>subs. ResolveMessaging b installation i expiry = Some subs \<and>
    sorted (map ms_name subs) \<and>
    list_all (\<lambda>s. length (ms_filter s) \<le> 256 \<and>
      (ms_filter s = composition_filter i \<or>
       (\<exists>business. split_conjunction (ms_filter s) = Some (composition_filter i, business)))) subs"
proof -
  obtain subs where subs: "ResolveMessaging b installation i expiry = Some subs"
    using bindings_ok[OF assms(1)]
      those_total[of "map (\<lambda>(name, t, consumer, c). subscription_for installation i expiry name t consumer c)
        (bindings (b_pubsub b))"] subscription_for_total
    unfolding ResolveMessaging_def binding_ok_def by fastforce
  have "length (ms_filter s) \<le> 256 \<and> (ms_filter s = composition_filter i \<or>
      (\<exists>business. split_conjunction (ms_filter s) = Some (composition_filter i, business)))"
    if mem: "s \<in> set subs" for s
  proof -
    obtain name t consumer c where c: "(name, t, consumer, c) \<in> set (bindings (b_pubsub b))"
      "subscription_for installation i expiry name t consumer c = Some s"
      using mem unfolding ResolveMessaging_member[OF subs] by blast
    have f: "ms_filter s = MessageFilter (composition_filter i) (pc_filter c)"
      using subscription_for_fields[OF c(2)] by simp
    from bindings_ok[OF assms(1) c(1)] have ok: "balancedFilter (pc_filter c)"
      "length (MessageFilter placeholder_filter (pc_filter c)) \<le> 256"
      by (simp_all add: binding_ok_def)
    have "length (ms_filter s) \<le> 256"
      using f ok(2) length_MessageFilter_mono[OF length_composition_filter[OF assms(2,3)],
          of "pc_filter c"] by simp
    moreover have "pc_filter c = [] \<Longrightarrow> ms_filter s = composition_filter i"
      using f by (simp add: MessageFilter_def)
    ultimately show ?thesis
      using f ok(1) split_conjunction_filter[OF balanced_composition_filter[OF assms(2)]] by metis
  qed
  moreover have "sorted (map ms_name subs)"
    using subs by (auto simp: ResolveMessaging_def)
  ultimately show ?thesis using subs by (auto simp: list_all_iff)
qed

definition demo_messaging :: baseline where
  "demo_messaging =
     \<lparr>b_pubsub = [(''orders'',
        \<lparr>pt_topic = ''projects/demo/topics/orders'', pt_publishers = [''api''],
         pt_consumers = [(''billing'',
           \<lparr>pc_subscription = ''projects/demo/subscriptions/billing'', pc_component = ''billing'',
            pc_subscription_env = ''ORDERS'', pc_filter = ''attributes:kind''\<rparr>)]\<rparr>)],
      b_routing = \<lparr>br_namespace = ''base'', br_gateway = ''gw'', br_gateway_namespace = [],
        br_gateway_section_name = [], br_entry_component = ''api'', br_preview_selector = None\<rparr>,
      b_verification = \<lparr>vc_kind = ''none'', vc_chain = [], vc_path = [], vc_expected_status = 0\<rparr>,
      b_id = ''staging'', b_project = ''demo'', b_revision = ''1'',
      b_endpoint = ''http://base.localhost'',
      b_components = [(''api'', \<lparr>bb_service_host = ''api.base'', bb_port = 80, bb_image = ''api''\<rparr>),
        (''billing'', \<lparr>bb_service_host = ''billing.base'', bb_port = 80, bb_image = ''billing''\<rparr>)]\<rparr>"

lemma demo_messaging_valid: "ValidateMessaging demo_messaging = None"
  by code_simp

lemma resolved_messaging_isolated_witness:
  "\<exists>subs. ResolveMessaging demo_messaging ''local'' ''0af3'' 0 = Some subs \<and> sorted (map ms_name subs)"
  using resolved_messaging_isolated[OF demo_messaging_valid, of "''0af3''" "''local''" 0]
  by (auto simp: is_lower_hex_def is_digit_def less_eq_char_def)

text \<open>
  A workload copied into a preview never inherits a baseline subscription. For every
  registered consumer binding of its component the environment overrides the subscription
  variable: with the empty string when isolation is off, and with the name of the
  composition's own subscription for that variable when it is on.
\<close>

theorem messaging_environment_no_fallback:
  assumes "(name, t, consumer, c) \<in> set (bindings (b_pubsub b))"
    and "ResolveMessaging b installation i expiry = Some subs"
  shows "map_of (MessagingEnvironment b (pc_component c) False subs) (pc_subscription_env c) = Some [] \<and>
    (\<exists>s. s \<in> set subs \<and> ms_component s = pc_component c \<and>
      ms_subscription_env s = pc_subscription_env c \<and>
      map_of (MessagingEnvironment b (pc_component c) True subs) (pc_subscription_env c) =
        Some (ms_name s))"
proof -
  let ?f = "\<lambda>(name, t, consumer, c). subscription_for installation i expiry name t consumer c"
  obtain ss where ss: "map ?f (bindings (b_pubsub b)) = map Some ss"
    using assms(2) by (auto simp: ResolveMessaging_def those_Some_iff)
  have "?f (name, t, consumer, c) \<in> ?f ` set (bindings (b_pubsub b))"
    by (rule imageI[OF assms(1)])
  then have "?f (name, t, consumer, c) \<in> set (map Some ss)"
    by (simp only: ss flip: set_map)
  then obtain x where x: "subscription_for installation i expiry name t consumer c = Some x"
    by auto
  have "x \<in> set subs" unfolding ResolveMessaging_member[OF assms(2)] using x assms(1) by blast
  with subscription_for_fields[OF x]
  have own: "\<exists>s\<in>set subs. ms_component s = pc_component c \<and>
      ms_subscription_env s = pc_subscription_env c" by blast
  have "\<exists>(n, t', k, c')\<in>set (bindings (b_pubsub b)). pc_component c' = pc_component c \<and>
      pc_subscription_env c' = pc_subscription_env c"
    by (rule bexI[OF _ assms(1)]) simp
  then have "map_of (MessagingEnvironment b (pc_component c) False subs) (pc_subscription_env c) = Some []"
    by (simp only: MessagingEnvironment_eq Let_def map_of_blanked if_True if_False)
  moreover have "\<exists>s\<in>set subs. ms_component s = pc_component c \<and>
      ms_subscription_env s = pc_subscription_env c \<and>
      map_of (MessagingEnvironment b (pc_component c) True subs) (pc_subscription_env c) = Some (ms_name s)"
    unfolding MessagingEnvironment_eq Let_def if_True
    using own map_of_bound[of subs "pc_component c" "pc_subscription_env c"] by blast
  ultimately show ?thesis by blast
qed

lemma messaging_environment_no_fallback_witness:
  "\<exists>subs. ResolveMessaging demo_messaging ''local'' ''0af3'' 0 = Some subs \<and>
     map_of (MessagingEnvironment demo_messaging ''billing'' False subs) ''ORDERS'' = Some []"
proof -
  let ?t = "\<lparr>pt_topic = ''projects/demo/topics/orders'', pt_publishers = [''api''],
    pt_consumers = [(''billing'',
      \<lparr>pc_subscription = ''projects/demo/subscriptions/billing'', pc_component = ''billing'',
       pc_subscription_env = ''ORDERS'', pc_filter = ''attributes:kind''\<rparr>)]\<rparr>"
  let ?c = "\<lparr>pc_subscription = ''projects/demo/subscriptions/billing'', pc_component = ''billing'',
    pc_subscription_env = ''ORDERS'', pc_filter = ''attributes:kind''\<rparr>"
  have mem: "(''orders'', ?t, ''billing'', ?c) \<in> set (bindings (b_pubsub demo_messaging))"
    by (simp add: demo_messaging_def bindings_def)
  obtain subs where subs: "ResolveMessaging demo_messaging ''local'' ''0af3'' 0 = Some subs"
    by (simp add: ResolveMessaging_def demo_messaging_def bindings_def subscription_for_def Let_def)
  show ?thesis using messaging_environment_no_fallback[OF mem subs] subs by simp
qed

end
