(* ===== verification/Evidence.thy ===== *)
theory Evidence
  imports Catalog "HOL-Library.Product_Lexorder"
begin

text \<open>
  Fingerprints and freshness of \<open>internal/domain\<close>: \<open>baseline_observation.go\<close> (the identity
  that a baseline observation is reduced to), \<open>verification_identity.go\<close> and
  \<open>evidence_freshness.go\<close> (whether recorded evidence still covers what is observed now).
\<close>

section \<open>Fingerprints\<close>

definition port_json :: "baseline_service_port \<Rightarrow> json" where
  "port_json p = JObj (omit_empty ''name'' (JStr (bsp_name p)) @
     [(''protocol'', JStr (bsp_protocol p)), (''port'', JInt (bsp_port p)),
      (''target_port'', JStr (bsp_target_port p))])"

text \<open>A nil slice is \<open>null\<close>; \<open>append\<close> of no element to nil stays nil.\<close>

definition ports_json :: "baseline_service_port list \<Rightarrow> json" where
  "ports_json ports =
     (if ports = [] then JNull
      else JArr (map port_json (sort_key (\<lambda>p. (bsp_port p, bsp_name p)) ports)))"

definition execution_identity_json :: "baseline_component_observation \<Rightarrow> json" where
  "execution_identity_json v = JObj
     [(''ServiceUID'', JStr (bco_service_uid v)),
      (''ServiceSelector'', JMapOpt JStr (bco_service_selector v)),
      (''ServicePorts'', ports_json (bco_service_ports v)),
      (''ExecutionState'', JStr (bco_execution_state v)),
      (''DeploymentUID'', JStr (bco_deployment_uid v)),
      (''TemplateFingerprint'', JStr (bco_template_fingerprint v)),
      (''DeclaredImages'', JMapOpt JStr (bco_declared_images v)),
      (''ActualImageIDs'', JMapOpt JStrs (bco_actual_image_ids v))]"

definition fingerprint_json :: "baseline_observation \<Rightarrow> json" where
  "fingerprint_json o' = JObj
     [(''Installation'', JStr (bo_installation o')), (''Project'', JStr (bo_project o')),
      (''Baseline'', JStr (bo_baseline o')),
      (''Components'', JMap execution_identity_json (bo_components o'))]"

definition CalculateFingerprint :: "baseline_observation \<Rightarrow> baseline_observation" where
  "CalculateFingerprint o' =
     o'\<lparr>bo_fingerprint := sha256_hex (json_encode (fingerprint_json o'))\<rparr>"

definition contract_json :: "verification_contract \<Rightarrow> json" where
  "contract_json v = JObj ([(''kind'', JStr (vc_kind v))] @
     omit_empty ''chain'' (JStrs (vc_chain v)) @ omit_empty ''path'' (JStr (vc_path v)) @
     omit_empty ''expected_status'' (JInt (vc_expected_status v)))"

definition VerificationContractFingerprint :: "verification_contract \<Rightarrow> string" where
  "VerificationContractFingerprint contract = sha256_hex (json_encode (contract_json contract))"

definition component_coverage_known :: "baseline_component_observation \<Rightarrow> bool" where
  "component_coverage_known v \<longleftrightarrow>
     \<not> (bco_service_uid v = [] \<or> bco_execution_state v = ''unknown'') \<and>
     \<not> (bco_execution_state v = ''observed'' \<and> bco_image_identity v \<noteq> ''known'')"

definition BaselineCoverageKnown :: "baseline_observation \<Rightarrow> bool" where
  "BaselineCoverageKnown o' = list_all (\<lambda>(k, v). component_coverage_known v) (bo_components o')"

section \<open>Freshness\<close>

definition BaselineObservationMaxAge :: duration where
  "BaselineObservationMaxAge = 2 * minute"

definition baselineEvidenceFreshness :: "composition \<Rightarrow> verification_evidence \<Rightarrow> time \<Rightarrow> string" where
  "baselineEvidenceFreshness c e now =
     (case c_baseline_observation c of
        None \<Rightarrow> ''unavailable''
      | Some observed \<Rightarrow>
          if bo_state observed \<noteq> ''current'' \<or> is_zero_time (bo_observed_at observed) \<or>
             BaselineObservationMaxAge < time_sub now (bo_observed_at observed)
          then ''unavailable''
          else if ve_baseline_scope e = [] \<or>
             ve_baseline_scope e \<noteq> bo_installation observed @ ''/'' @ bo_project observed @ ''/'' @
               bo_baseline observed
          then ''unknown_coverage''
          else if ve_baseline_fingerprint e \<noteq> bo_fingerprint observed then ''stale''
          else if \<not> BaselineCoverageKnown observed then ''unknown_coverage''
          else [])"

fun workload_freshness ::
  "component_observation gomap \<Rightarrow> verification_workload gomap \<Rightarrow> component_override gomap \<Rightarrow> string"
where
  "workload_freshness components workloads [] = []"
| "workload_freshness components workloads ((name, selected) # rest) =
     (case map_of workloads name of
        None \<Rightarrow> ''unknown_coverage''
      | Some checked \<Rightarrow>
          if vw_image checked = [] \<or> vw_workload_id checked = [] then ''unknown_coverage''
          else
          (case map_of components name of
             None \<Rightarrow> ''stale''
           | Some observed \<Rightarrow>
               if co_image observed \<noteq> vw_image checked \<or>
                  co_workload_id observed \<noteq> vw_workload_id checked \<or>
                  o_image selected \<noteq> vw_image checked
               then ''stale''
               else workload_freshness components workloads rest))"

definition selectedWorkloadFreshness :: "composition \<Rightarrow> verification_evidence \<Rightarrow> string" where
  "selectedWorkloadFreshness c e = workload_freshness (c_components c) (nil_map (ve_workloads e)) (c_overrides c)"

definition EvidenceFreshnessAt :: "composition \<Rightarrow> verification_evidence \<Rightarrow> time \<Rightarrow> string" where
  "EvidenceFreshnessAt c e now =
     (if ve_baseline_fingerprint e = [] \<or> ve_contract_fingerprint e = [] then ''unknown_coverage''
      else if ve_generation e \<noteq> c_generation c then ''stale''
      else if baselineEvidenceFreshness c e now \<noteq> [] then baselineEvidenceFreshness c e now
      else
      case rt_plan (c_runtime c) of
        None \<Rightarrow> ''unknown_coverage''
      | Some plan \<Rightarrow>
          if ve_contract_fingerprint e \<noteq>
             VerificationContractFingerprint (b_verification (rp_baseline plan))
          then ''stale''
          else if selectedWorkloadFreshness c e \<noteq> [] then selectedWorkloadFreshness c e
          else if ve_outcome e \<noteq> ''passed'' then ''failed''
          else ''current'')"

section \<open>Lemmas\<close>

lemma JMap_cong_values:
  assumes "\<And>k. map_option f (map_of a k) = map_option f (map_of b k)"
  shows "JMap f a = JMap f b"
proof -
  have "map_of a k = None \<longleftrightarrow> map_of b k = None" for k
    using assms[of k] by (metis option.map_disc_iff)
  then have "fst ` set a = fst ` set b" by (metis equalityI map_of_eq_None_iff subsetI)
  note keys = sorted_keys_cong[OF this]
  have "(case map_of a k of None \<Rightarrow> JNull | Some v \<Rightarrow> f v) =
      (case map_of b k of None \<Rightarrow> JNull | Some v \<Rightarrow> f v)" for k
    using assms[of k] by (cases "map_of a k"; cases "map_of b k") auto
  then show ?thesis by (simp add: JMap_def keys)
qed

text \<open>An observation without the fields that a rollout of replicas changes.\<close>

definition rollout_free :: "baseline_component_observation \<Rightarrow> baseline_component_observation" where
  "rollout_free v = v\<lparr>bco_deployment_generation := 0, bco_image_identity := []\<rparr>"

lemma execution_identity_rollout:
  "rollout_free v = rollout_free w \<Longrightarrow> execution_identity_json v = execution_identity_json w"
  by (cases v; cases w) (simp add: rollout_free_def execution_identity_json_def)

definition workload_matches :: "composition \<Rightarrow> verification_evidence \<Rightarrow> string \<times> component_override \<Rightarrow> bool" where
  "workload_matches c e = (\<lambda>(name, selected). \<exists>checked observed.
     map_of (nil_map (ve_workloads e)) name = Some checked \<and> vw_image checked \<noteq> [] \<and>
     vw_workload_id checked \<noteq> [] \<and> map_of (c_components c) name = Some observed \<and>
     co_image observed = vw_image checked \<and> co_workload_id observed = vw_workload_id checked \<and>
     o_image selected = vw_image checked)"

lemma selectedWorkloadFreshness_iff:
  "selectedWorkloadFreshness c e = [] \<longleftrightarrow> list_all (workload_matches c e) (c_overrides c)"
proof -
  have "workload_freshness (c_components c) (nil_map (ve_workloads e)) os = [] \<longleftrightarrow>
      list_all (workload_matches c e) os" for os
    by (induction os) (auto simp: workload_matches_def split: option.splits if_splits)
  then show ?thesis by (simp add: selectedWorkloadFreshness_def)
qed

lemma baselineEvidenceFreshness_iff:
  "baselineEvidenceFreshness c e now = [] \<longleftrightarrow> (\<exists>observed. c_baseline_observation c = Some observed \<and>
     bo_state observed = ''current'' \<and> bo_observed_at observed \<noteq> 0 \<and>
     now - bo_observed_at observed \<le> BaselineObservationMaxAge \<and>
     ve_baseline_scope e = bo_installation observed @ ''/'' @ bo_project observed @ ''/'' @ bo_baseline observed \<and>
     ve_baseline_fingerprint e = bo_fingerprint observed \<and> BaselineCoverageKnown observed)"
  using time_sub_gt_iff[of BaselineObservationMaxAge now]
  by (auto simp: baselineEvidenceFreshness_def is_zero_time_def BaselineObservationMaxAge_def
      split: option.splits)

lemma freshness_not_current:
  "baselineEvidenceFreshness c e now \<noteq> ''current''" "selectedWorkloadFreshness c e \<noteq> ''current''"
proof -
  show "baselineEvidenceFreshness c e now \<noteq> ''current''"
    by (simp add: baselineEvidenceFreshness_def split: option.splits)
  have "workload_freshness cs ws os \<noteq> ''current''" for cs ws os
    by (induction cs ws os rule: workload_freshness.induct) (simp_all split: option.splits)
  then show "selectedWorkloadFreshness c e \<noteq> ''current''" by (simp add: selectedWorkloadFreshness_def)
qed

section \<open>Properties\<close>

text \<open>
  Evidence is \<open>current\<close> exactly when all of the following hold: it was recorded for the
  current generation with both fingerprints, the baseline was observed as current at most two
  minutes ago under the same scope and fingerprint with known coverage, the verification
  contract of the plan has the recorded fingerprint, every selected override was checked with
  the image and workload that are observed and selected now, and the check passed.
\<close>

theorem evidence_current_iff:
  "EvidenceFreshnessAt c e now = ''current'' \<longleftrightarrow>
     ve_baseline_fingerprint e \<noteq> [] \<and> ve_contract_fingerprint e \<noteq> [] \<and>
     ve_generation e = c_generation c \<and>
     (\<exists>observed. c_baseline_observation c = Some observed \<and>
        bo_state observed = ''current'' \<and> bo_observed_at observed \<noteq> 0 \<and>
        now - bo_observed_at observed \<le> 2 * minute \<and>
        ve_baseline_scope e =
          bo_installation observed @ ''/'' @ bo_project observed @ ''/'' @ bo_baseline observed \<and>
        ve_baseline_fingerprint e = bo_fingerprint observed \<and> BaselineCoverageKnown observed) \<and>
     (\<exists>plan. rt_plan (c_runtime c) = Some plan \<and>
        ve_contract_fingerprint e = VerificationContractFingerprint (b_verification (rp_baseline plan))) \<and>
     list_all (workload_matches c e) (c_overrides c) \<and> ve_outcome e = ''passed''"
  unfolding EvidenceFreshnessAt_def baselineEvidenceFreshness_iff[symmetric, unfolded BaselineObservationMaxAge_def]
    selectedWorkloadFreshness_iff[symmetric]
  using freshness_not_current by (simp split: option.splits)

text \<open>
  The baseline fingerprint depends only on the execution identity of the components: two
  observations of the same baseline whose components differ at most in deployment generation
  and image classification, in any map order, have the same fingerprint, whenever they were
  taken and whatever state they report. A rollout of replicas cannot invalidate evidence.
\<close>

theorem fingerprint_ignores_rollout:
  assumes "bo_installation a = bo_installation b" "bo_project a = bo_project b"
    and "bo_baseline a = bo_baseline b"
    and "\<And>k. map_option rollout_free (map_of (bo_components a) k) =
      map_option rollout_free (map_of (bo_components b) k)"
  shows "bo_fingerprint (CalculateFingerprint a) = bo_fingerprint (CalculateFingerprint b)"
proof -
  have "map_option execution_identity_json (map_of (bo_components a) k) =
      map_option execution_identity_json (map_of (bo_components b) k)" for k
    using assms(4)[of k]
    by (cases "map_of (bo_components a) k"; cases "map_of (bo_components b) k")
      (auto intro: execution_identity_rollout)
  then have "JMap execution_identity_json (bo_components a) = JMap execution_identity_json (bo_components b)"
    by (rule JMap_cong_values)
  with assms(1-3) show ?thesis by (simp add: CalculateFingerprint_def fingerprint_json_def)
qed

definition observed_service :: "int \<Rightarrow> baseline_component_observation" where
  "observed_service generation =
     \<lparr>bco_service_uid = ''u1'', bco_service_selector = Some [(''app'', ''api'')],
      bco_service_ports = [], bco_execution_state = ''observed'', bco_deployment_uid = ''d1'',
      bco_deployment_generation = generation, bco_template_fingerprint = ''t1'',
      bco_declared_images = None, bco_actual_image_ids = None, bco_image_identity = ''known''\<rparr>"

definition observed_baseline :: "time \<Rightarrow> int \<Rightarrow> baseline_observation" where
  "observed_baseline at generation =
     \<lparr>bo_installation = ''local'', bo_project = ''demo'', bo_baseline = ''staging'',
      bo_state = ''current'', bo_fingerprint = [], bo_observed_at = at,
      bo_components = [(''api'', observed_service generation)], bo_error = None\<rparr>"

lemma fingerprint_ignores_rollout_witness:
  "bo_fingerprint (CalculateFingerprint (observed_baseline 10 1)) =
   bo_fingerprint (CalculateFingerprint (observed_baseline 99 2))"
  by (rule fingerprint_ignores_rollout)
    (simp_all add: observed_baseline_def observed_service_def rollout_free_def)

end
