(* ===== verification/Diagnosis.thy ===== *)
theory Diagnosis
  imports Evidence Dep_Graph
begin

text \<open>
  \<open>internal/domain/diagnosis.go\<close>: the read-time explanation of a composition. The helpers that
  append to \<open>d.Blockers\<close> and \<open>d.Notes\<close> return the diagnosis updated. \<open>EvidenceFreshness\<close>
  reads the clock, so \<open>Diagnose\<close> takes the current time.

  The maps \<open>visited\<close> and \<open>active\<close> of \<open>orderedComponentNames\<close> are the lists \<open>ordered\<close> (a name
  is marked visited when it is appended; newest first here) and \<open>active\<close> (the current path).
\<close>

section \<open>Data\<close>

record finding =
  f_code :: string
  f_scope :: string
  f_message :: string
  f_next_step :: string
  f_observed_at :: time
  f_depends_on :: "string list"

record diagnosis =
  d_composition :: string
  d_generation :: int
  d_phase :: phase
  d_observed_at :: time
  d_state :: string
  d_blockers :: "finding list"
  d_notes :: "finding list"
  d_verification :: string
  d_evidence_id :: string

definition finding_of :: "string \<Rightarrow> string \<Rightarrow> string \<Rightarrow> string \<Rightarrow> time \<Rightarrow> finding" where
  "finding_of code scope message next_step observed =
     \<lparr>f_code = code, f_scope = scope, f_message = message, f_next_step = next_step,
      f_observed_at = observed, f_depends_on = []\<rparr>"

definition add_blocker :: "finding \<Rightarrow> diagnosis \<Rightarrow> diagnosis" where
  "add_blocker f d = d\<lparr>d_blockers := d_blockers d @ [f]\<rparr>"

definition add_note :: "finding \<Rightarrow> diagnosis \<Rightarrow> diagnosis" where
  "add_note f d = d\<lparr>d_notes := d_notes d @ [f]\<rparr>"

definition nonempty :: "string \<Rightarrow> string \<Rightarrow> string" where
  "nonempty value fallback = (if value \<noteq> [] then value else fallback)"

definition findingHasMessage :: "finding list \<Rightarrow> string \<Rightarrow> bool" where
  "findingHasMessage fs message = list_ex (\<lambda>f. f_message f = message) fs"

definition hasWorkloadBlocker :: "finding list \<Rightarrow> bool" where
  "hasWorkloadBlocker fs = list_ex (\<lambda>f. has_prefix (f_code f) ''workload_'') fs"

section \<open>Dependencies between components\<close>

definition declaredDependencies :: "composition \<Rightarrow> string \<Rightarrow> string list" where
  "declaredDependencies c name =
     (case rt_plan (c_runtime c) of
        None \<Rightarrow> []
      | Some plan \<Rightarrow>
          (case map_of (Profiles plan) name of
             None \<Rightarrow> []
           | Some profile \<Rightarrow>
               (case cp_execution profile of None \<Rightarrow> [] | Some e \<Rightarrow> x_dependencies e)))"

text \<open>The declared dependencies of a component that are themselves observed, sorted.\<close>

definition observed_dependencies ::
  "component gomap \<Rightarrow> component_observation gomap \<Rightarrow> string \<Rightarrow> string list option"
where
  "observed_dependencies profiles components name =
     (case map_of profiles name of
        None \<Rightarrow> None
      | Some profile \<Rightarrow>
          (case cp_execution profile of
             None \<Rightarrow> None
           | Some e \<Rightarrow> Some (filter (has_key components) (sort (x_dependencies e)))))"

lemma observed_dependencies_key:
  "observed_dependencies profiles components name = Some ds \<Longrightarrow> name \<in> fst ` set profiles"
  by (auto simp: observed_dependencies_def split: option.splits dest: map_of_SomeD intro: rev_image_eqI)

function order_visit ::
  "component gomap \<Rightarrow> component_observation gomap \<Rightarrow> string list \<Rightarrow> string list \<Rightarrow> string \<Rightarrow> string list"
  and order_visit_all ::
  "component gomap \<Rightarrow> component_observation gomap \<Rightarrow> string list \<Rightarrow> string list \<Rightarrow> string list \<Rightarrow> string list"
where
  "order_visit profiles components active ordered name =
     (if name \<in> set ordered \<or> name \<in> set active then ordered
      else case observed_dependencies profiles components name of
             None \<Rightarrow> name # ordered
           | Some ds \<Rightarrow> name # order_visit_all profiles components (name # active) ordered ds)"
| "order_visit_all profiles components active ordered [] = ordered"
| "order_visit_all profiles components active ordered (d # ds) =
     order_visit_all profiles components active
       (order_visit profiles components active ordered d) ds"
  by pat_completeness auto

lemma card_active_less:
  assumes "i \<in> fst ` set ps" "i \<notin> set active"
  shows "card (fst ` set ps - set (i # active)) < card (fst ` set ps - set active)"
  using assms by (intro psubset_card_mono) auto

termination order_visit
  by (relation "measures
        [\<lambda>x. case x of Inl (ps, cs, active, ordered, i) \<Rightarrow> card (fst ` set ps - set active)
                | Inr (ps, cs, active, ordered, ds) \<Rightarrow> card (fst ` set ps - set active),
         \<lambda>x. case x of Inl (ps, cs, active, ordered, i) \<Rightarrow> 0
                | Inr (ps, cs, active, ordered, ds) \<Rightarrow> Suc (length ds)]")
    (simp_all add: card_active_less[OF observed_dependencies_key] del: list.set)

declare order_visit.simps [simp del]

definition orderedComponentNames :: "composition \<Rightarrow> string list" where
  "orderedComponentNames c =
     (let names = sorted_keys (c_components c) in
      case rt_plan (c_runtime c) of
        None \<Rightarrow> names
      | Some plan \<Rightarrow> rev (order_visit_all (Profiles plan) (c_components c) [] [] names))"

section \<open>Findings\<close>

definition diagnoseCleanup :: "composition \<Rightarrow> diagnosis \<Rightarrow> diagnosis" where
  "diagnoseCleanup c d =
     (let d = d\<lparr>d_state := ''cleanup''\<rparr> in
      if c_phase c \<noteq> PhaseDestroying then d
      else case c_last_error c of
        Some e \<Rightarrow> add_blocker (finding_of ''cleanup_failed'' ''composition'' (e_message e)
          ''Inspect cleanup events and retry the controller operation.'' (c_updated_at c)) d
      | None \<Rightarrow> add_note (finding_of ''cleanup_pending'' ''composition''
          ''Resource removal has not been confirmed.''
          ''Wait for the destroyed phase or inspect lifecycle events.'' (c_updated_at c)) d)"

definition diagnoseBaseline :: "composition \<Rightarrow> diagnosis \<Rightarrow> diagnosis" where
  "diagnoseBaseline c d =
     (case c_baseline_observation c of
        None \<Rightarrow> d
      | Some observed \<Rightarrow>
          if bo_state observed \<noteq> ''current'' then
            add_blocker (finding_of ''baseline_unavailable'' ''baseline''
              ''The inherited baseline execution cannot be observed; verification is unavailable.''
              ''Restore baseline observation and wait for a fresh check.'' (bo_observed_at observed)) d
          else if \<not> BaselineCoverageKnown observed then
            add_note (finding_of ''baseline_identity_unknown'' ''baseline''
              ''At least one inherited execution identity is unknown.''
              ''Inspect registered Service and Pod identity before relying on baseline comparison.''
              (bo_observed_at observed)) d
          else d)"

definition diagnoseEvidence ::
  "composition \<Rightarrow> verification_evidence option \<Rightarrow> time \<Rightarrow> diagnosis \<Rightarrow> diagnosis"
where
  "diagnoseEvidence c latest now d =
     (let d = (case latest of
          None \<Rightarrow> d
        | Some e \<Rightarrow>
            (let d = d\<lparr>d_evidence_id := ve_id e, d_verification := EvidenceFreshnessAt c e now\<rparr> in
             if d_verification d = ''stale'' \<or> d_verification d = ''unavailable'' then
               add_blocker (finding_of ''verification_not_current'' ''verification''
                 ''The latest verification does not cover the currently observed composition.''
                 ''Wait for a fresh verification check and inspect its result.'' (ve_last_checked_at e)) d
             else if d_verification d = ''failed'' then
               (let message = (case ve_error e of
                    Some err \<Rightarrow> nonempty (e_message err) ''The latest verification check failed.''
                  | None \<Rightarrow> ''The latest verification check failed.'')
                in add_blocker (finding_of ''verification_failed'' ''verification'' message
                     ''Inspect the probe result and application logs; a failed check does not identify an application root cause.''
                     (ve_last_checked_at e)) d)
             else d))
      in if d_verification d = ''unknown_coverage'' then
           add_note (finding_of ''verification_coverage_unknown'' ''verification''
             ''Current fingerprint coverage could not be confirmed.''
             ''Inspect verification history and wait for a supported fresh check.'' (c_updated_at c)) d
         else d)"

definition workload_message :: "composition \<Rightarrow> string \<Rightarrow> string" where
  "workload_message c name =
     (case filter (\<lambda>k. cond_type k = ''WorkloadReady/'' @ name \<and> cond_message k \<noteq> []) (c_conditions c) of
        [] \<Rightarrow> ''Workload has not reported readiness.''
      | k # ks \<Rightarrow> cond_message k)"

definition workload_settled :: "component_observation \<Rightarrow> bool" where
  "workload_settled o' \<longleftrightarrow>
     co_status o' = ''ready'' \<or> co_status o' = ''succeeded'' \<or>
     co_source o' \<noteq> ''override'' \<and> co_execution_id o' = []"

definition diagnose_workload :: "composition \<Rightarrow> string \<Rightarrow> diagnosis \<Rightarrow> diagnosis" where
  "diagnose_workload c name d =
     (let component = get_or zero_observation (c_components c) name in
      if workload_settled component then d
      else
      let (code, step) =
        (if co_status component = ''failed'' \<or> co_execution_state component = ExecutionFailed then
           (''workload_failed'', ''Inspect workload events, image access and bounded application logs.'')
         else if co_status component = ''suspended'' \<or> co_execution_state component = ExecutionSuspended then
           (''workload_suspended'', ''Inspect execution prerequisites and schedule policy.'')
         else (''workload_pending'', ''Inspect workload events and bounded application logs.''))
      in add_blocker ((finding_of code (''component/'' @ name) (workload_message c name) step
           (c_updated_at c))\<lparr>f_depends_on := declaredDependencies c name\<rparr>) d)"

definition diagnoseWorkloads :: "composition \<Rightarrow> diagnosis \<Rightarrow> diagnosis" where
  "diagnoseWorkloads c d = fold (diagnose_workload c) (orderedComponentNames c) d"

definition diagnose_condition :: "composition \<Rightarrow> condition \<Rightarrow> diagnosis \<Rightarrow> diagnosis" where
  "diagnose_condition c k d =
     (if cond_status k then d
      else if cond_type k = ''MessagingReady'' then
        add_blocker (finding_of ''messaging_pending'' ''messaging''
          (nonempty (cond_message k) ''Isolated messaging is not ready.'')
          ''Inspect the owned subscription and operator-approved binding.'' (c_updated_at c)) d
      else if cond_type k = ''RoutesConfigured'' then
        if d_blockers d = [] \<or> \<not> hasWorkloadBlocker (d_blockers d) then
          add_blocker (finding_of ''routing_pending'' ''routing''
            (nonempty (cond_message k) ''Routes are not configured.'')
            ''Inspect route acceptance and destination readiness.'' (c_updated_at c)) d
        else d
      else if cond_type k = ''RouteVerified'' then
        if c_phase c = PhaseReady \<and> c_verification_level c = ''reachability'' then
          add_note (finding_of ''reachability_only'' ''routing''
            ''HTTP reachability has passed, but override selection and service hops were not observed.''
            ''Use a routing-aware verification contract for hop evidence.'' (c_updated_at c)) d
        else if d_blockers d = [] then
          add_blocker (finding_of ''verification_pending'' ''routing''
            (nonempty (cond_message k) ''Routing has not been verified.'')
            ''Inspect route evidence and rerun verification after prerequisites recover.'' (c_updated_at c)) d
        else d
      else d)"

definition diagnoseConditions :: "composition \<Rightarrow> diagnosis \<Rightarrow> diagnosis" where
  "diagnoseConditions c d = fold (diagnose_condition c) (c_conditions c) d"

definition diagnose_dependency :: "composition \<Rightarrow> string \<Rightarrow> diagnosis \<Rightarrow> diagnosis" where
  "diagnose_dependency c name d =
     (case map_of (c_preview_profiles c) name of
        None \<Rightarrow> d
      | Some p \<Rightarrow>
          if pv_shared_dependencies p = [] then d
          else add_note (finding_of ''dependency_unverified'' (''component/'' @ name)
            (''Shared dependencies are declared but have no authoritative readiness observation: '' @
             join '', '' (pv_shared_dependencies p) @ ''.'')
            ''Inspect the operator-provided dependency and its external telemetry.'' (c_updated_at c)) d)"

definition diagnoseDeclaredDependencies :: "composition \<Rightarrow> diagnosis \<Rightarrow> diagnosis" where
  "diagnoseDeclaredDependencies c d = fold (diagnose_dependency c) (sorted_keys (c_preview_profiles c)) d"

definition diagnose_last_error :: "composition \<Rightarrow> diagnosis \<Rightarrow> diagnosis" where
  "diagnose_last_error c d =
     (case c_last_error c of
        Some e \<Rightarrow>
          if \<not> findingHasMessage (d_blockers d) (e_message e)
          then add_blocker (finding_of ''operation_failed'' ''composition'' (e_message e)
            ''Inspect the latest operation and lifecycle events.'' (c_updated_at c)) d
          else d
      | None \<Rightarrow> d)"

definition is_settled_phase :: "phase \<Rightarrow> bool" where
  "is_settled_phase p \<longleftrightarrow> p = PhaseReady \<or> p = PhaseCompleted \<or> p = PhaseSuspended"

definition Diagnose :: "composition \<Rightarrow> verification_evidence option \<Rightarrow> time \<Rightarrow> diagnosis" where
  "Diagnose c latest now =
     (let d = \<lparr>d_composition = c_id c, d_generation = c_generation c, d_phase = c_phase c,
               d_observed_at = c_updated_at c, d_state = ''unknown'', d_blockers = [], d_notes = [],
               d_verification = ''unknown_coverage'', d_evidence_id = []\<rparr> in
      if c_phase c = PhaseDestroying \<or> c_phase c = PhaseDestroyed then diagnoseCleanup c d
      else
      let d = diagnose_last_error c (diagnoseDeclaredDependencies c (diagnoseConditions c
                (diagnoseWorkloads c (diagnoseEvidence c latest now (diagnoseBaseline c d)))));
          state = (if d_blockers d \<noteq> [] then ''blocked''
             else if is_settled_phase (c_phase c) \<and>
               (d_verification d = ''current'' \<or> c_verification_level c = ''none'') then ''healthy''
             else if is_settled_phase (c_phase c) then ''unknown''
             else ''pending'')
      in d\<lparr>d_state := state\<rparr>)"

section \<open>The order of the components\<close>

definition order_deps :: "component gomap \<Rightarrow> component_observation gomap \<Rightarrow> string \<Rightarrow> string list" where
  "order_deps profiles components name =
     (case observed_dependencies profiles components name of None \<Rightarrow> [] | Some ds \<Rightarrow> ds)"

interpretation og: dep_graph "order_deps profiles components" "fst ` set profiles" for profiles components
proof unfold_locales
  fix i assume "i \<notin> fst ` set profiles"
  then show "order_deps profiles components i = []"
    using observed_dependencies_key[of profiles components i] by (auto simp: order_deps_def split: option.splits)
qed simp

text \<open>What one visit adds: only observed names, each once, none that is on the path.\<close>

definition visit_extends :: "string list \<Rightarrow> string set \<Rightarrow> string list \<Rightarrow> string list \<Rightarrow> bool" where
  "visit_extends active names ordered ordered' \<longleftrightarrow>
     set ordered \<subseteq> set ordered' \<and> names \<subseteq> set ordered' \<union> set active \<and>
     (distinct ordered \<and> set ordered \<inter> set active = {} \<longrightarrow>
        distinct ordered' \<and> set ordered' \<inter> set active = {})"

lemma order_visit_extends:
  "visit_extends active {name} ordered (order_visit profiles components active ordered name)"
  "visit_extends active (set ds) ordered (order_visit_all profiles components active ordered ds)"
proof (induction profiles components active ordered name and profiles components active ordered ds
    rule: order_visit_order_visit_all.induct)
  case (1 profiles components active ordered name)
  show ?case
  proof (cases "name \<in> set ordered \<or> name \<in> set active")
    case True
    then show ?thesis by (auto simp: order_visit.simps visit_extends_def)
  next
    case False
    then show ?thesis
      using "1.IH"[OF False] by (auto simp: order_visit.simps visit_extends_def split: option.splits)
  qed
next
  case (3 profiles components active ordered d ds)
  then show ?case unfolding order_visit_all.simps visit_extends_def by auto
qed (simp add: visit_extends_def)

lemma order_visit_keys:
  "name \<in> fst ` set components \<Longrightarrow> set ordered \<subseteq> fst ` set components \<Longrightarrow>
     set (order_visit profiles components active ordered name) \<subseteq> fst ` set components"
  "set ds \<subseteq> fst ` set components \<Longrightarrow> set ordered \<subseteq> fst ` set components \<Longrightarrow>
     set (order_visit_all profiles components active ordered ds) \<subseteq> fst ` set components"
proof (induction profiles components active ordered name and profiles components active ordered ds
    rule: order_visit_order_visit_all.induct)
  case (1 profiles components active ordered name)
  have "observed_dependencies profiles components name = Some ds \<Longrightarrow>
      set ds \<subseteq> fst ` set components" for ds
    by (auto simp: observed_dependencies_def has_key_iff split: option.splits)
  with 1 show ?case
    by (auto simp: order_visit.simps split: option.splits if_splits dest!: subsetD)
qed auto

lemma order_visit_closed:
  "acyclic (dep_edges (order_deps profiles components)) \<Longrightarrow>
     closed_order (order_deps profiles components) ordered \<Longrightarrow>
     \<forall>v\<in>set active. (v, name) \<in> (dep_edges (order_deps profiles components))\<^sup>+ \<Longrightarrow>
     closed_order (order_deps profiles components) (order_visit profiles components active ordered name) \<and>
     name \<in> set (order_visit profiles components active ordered name)"
  "acyclic (dep_edges (order_deps profiles components)) \<Longrightarrow>
     closed_order (order_deps profiles components) ordered \<Longrightarrow>
     \<forall>v\<in>set active. \<forall>d\<in>set ds. (v, d) \<in> (dep_edges (order_deps profiles components))\<^sup>+ \<Longrightarrow>
     closed_order (order_deps profiles components) (order_visit_all profiles components active ordered ds) \<and>
     set ds \<subseteq> set (order_visit_all profiles components active ordered ds)"
proof (induction profiles components active ordered name and profiles components active ordered ds
    rule: order_visit_order_visit_all.induct)
  case (1 profiles components active ordered name)
  have act: "name \<notin> set active" using "1.prems" by (auto simp: acyclic_def)
  show ?case
  proof (cases "name \<in> set ordered")
    case True
    with "1.prems" show ?thesis by (simp add: order_visit.simps)
  next
    case False
    with act have new: "\<not> (name \<in> set ordered \<or> name \<in> set active)" by simp
    show ?thesis
    proof (cases "observed_dependencies profiles components name")
      case None
      with "1.prems" new show ?thesis by (simp add: order_visit.simps order_deps_def)
    next
      case (Some ds)
      then have ds: "order_deps profiles components name = ds" by (simp add: order_deps_def)
      have "\<forall>v\<in>set (name # active). \<forall>d\<in>set ds. (v, d) \<in> (dep_edges (order_deps profiles components))\<^sup>+"
        using "1.prems"(3) ds by (auto simp: dep_edges_def intro: trancl_into_trancl)
      from "1.IH"[OF new Some "1.prems"(1,2) this] ds new Some show ?thesis
        by (simp add: order_visit.simps)
    qed
  qed
next
  case (3 profiles components active ordered d ds)
  from "3.IH"(1)[OF "3.prems"(1,2)] "3.prems"(3)
  have d: "closed_order (order_deps profiles components) (order_visit profiles components active ordered d)"
    "d \<in> set (order_visit profiles components active ordered d)" by auto
  from "3.IH"(2)[OF "3.prems"(1) d(1)] "3.prems"(3) d(2) show ?case
    using order_visit_extends(2)[of active ds "order_visit profiles components active ordered d" profiles components]
    by (auto simp: visit_extends_def)
qed simp

lemma orderedComponentNames_permutation:
  "distinct (orderedComponentNames c)" "set (orderedComponentNames c) = fst ` set (c_components c)"
proof -
  have "distinct (orderedComponentNames c) \<and> set (orderedComponentNames c) = fst ` set (c_components c)"
  proof (cases "rt_plan (c_runtime c)")
    case (Some plan)
    let ?v = "order_visit_all (Profiles plan) (c_components c) [] [] (sorted_keys (c_components c))"
    have "visit_extends [] (set (sorted_keys (c_components c))) [] ?v" by (rule order_visit_extends(2))
    moreover have "set ?v \<subseteq> fst ` set (c_components c)" by (rule order_visit_keys(2)) simp_all
    ultimately show ?thesis using Some by (auto simp: orderedComponentNames_def visit_extends_def)
  qed (simp add: orderedComponentNames_def)
  then show "distinct (orderedComponentNames c)"
    "set (orderedComponentNames c) = fst ` set (c_components c)" by simp_all
qed

section \<open>When nothing blocks\<close>

lemma add_blocker_sel [simp]:
  "d_blockers (add_blocker f d) = d_blockers d @ [f]" "d_verification (add_blocker f d) = d_verification d"
  "d_blockers (add_note f d) = d_blockers d" "d_verification (add_note f d) = d_verification d"
  by (simp_all add: add_blocker_def add_note_def)

lemma fold_blockers:
  "(\<And>x d. d_blockers (f x d) = [] \<longleftrightarrow> d_blockers d = [] \<and> P x) \<Longrightarrow>
     d_blockers (fold f xs d) = [] \<longleftrightarrow> d_blockers d = [] \<and> list_all P xs"
  by (induction xs arbitrary: d) auto

lemma fold_verification:
  "(\<And>x d. d_verification (f x d) = d_verification d) \<Longrightarrow> d_verification (fold f xs d) = d_verification d"
  by (induction xs arbitrary: d) auto

definition condition_fine :: "composition \<Rightarrow> condition \<Rightarrow> bool" where
  "condition_fine c k \<longleftrightarrow> cond_status k \<or>
     cond_type k \<noteq> ''MessagingReady'' \<and> cond_type k \<noteq> ''RoutesConfigured'' \<and>
     (cond_type k = ''RouteVerified'' \<longrightarrow>
        c_phase c = PhaseReady \<and> c_verification_level c = ''reachability'')"

lemma diagnose_condition_blockers:
  "d_blockers (diagnose_condition c k d) = [] \<longleftrightarrow> d_blockers d = [] \<and> condition_fine c k"
  by (simp add: diagnose_condition_def condition_fine_def)

lemma diagnose_workload_blockers:
  "d_blockers (diagnose_workload c name d) = [] \<longleftrightarrow>
     d_blockers d = [] \<and> workload_settled (get_or zero_observation (c_components c) name)"
  by (simp add: diagnose_workload_def Let_def split: prod.splits)

lemma diagnose_dependency_blockers:
  "d_blockers (diagnose_dependency c name d) = [] \<longleftrightarrow> d_blockers d = [] \<and> True"
  by (simp add: diagnose_dependency_def split: option.splits)

lemma diagnose_last_error_blockers:
  "d_blockers (diagnose_last_error c d) = [] \<longleftrightarrow> d_blockers d = [] \<and> c_last_error c = None"
  by (auto simp: diagnose_last_error_def findingHasMessage_def split: option.splits)

definition freshness_of :: "composition \<Rightarrow> verification_evidence option \<Rightarrow> time \<Rightarrow> string" where
  "freshness_of c latest now =
     (case latest of None \<Rightarrow> ''unknown_coverage'' | Some e \<Rightarrow> EvidenceFreshnessAt c e now)"

lemma diagnoseEvidence_blockers:
  assumes "d_verification d = ''unknown_coverage''"
  shows "d_blockers (diagnoseEvidence c latest now d) = [] \<longleftrightarrow>
      d_blockers d = [] \<and> freshness_of c latest now \<notin> {''stale'', ''unavailable'', ''failed''}"
    and "d_verification (diagnoseEvidence c latest now d) = freshness_of c latest now"
  using assms by (auto simp: diagnoseEvidence_def freshness_of_def Let_def split: option.splits)

lemma diagnoseBaseline_blockers:
  "d_blockers (diagnoseBaseline c d) = [] \<longleftrightarrow>
     d_blockers d = [] \<and> (\<forall>o'. c_baseline_observation c = Some o' \<longrightarrow> bo_state o' = ''current'')"
  "d_verification (diagnoseBaseline c d) = d_verification d"
  by (auto simp: diagnoseBaseline_def split: option.splits)

lemma stage_verification:
  "d_verification (diagnoseWorkloads c d) = d_verification d"
  "d_verification (diagnoseConditions c d) = d_verification d"
  "d_verification (diagnoseDeclaredDependencies c d) = d_verification d"
  "d_verification (diagnose_last_error c d) = d_verification d"
  unfolding diagnoseWorkloads_def diagnoseConditions_def diagnoseDeclaredDependencies_def
  by (rule fold_verification; simp add: diagnose_workload_def diagnose_condition_def
      diagnose_dependency_def Let_def split: option.splits prod.splits)+
    (simp add: diagnose_last_error_def split: option.splits)

lemma stage_blockers:
  "d_blockers (diagnoseWorkloads c d) = [] \<longleftrightarrow> d_blockers d = [] \<and>
     list_all (\<lambda>name. workload_settled (get_or zero_observation (c_components c) name)) (orderedComponentNames c)"
  "d_blockers (diagnoseConditions c d) = [] \<longleftrightarrow> d_blockers d = [] \<and>
     list_all (condition_fine c) (c_conditions c)"
  "d_blockers (diagnoseDeclaredDependencies c d) = [] \<longleftrightarrow> d_blockers d = []"
  unfolding diagnoseWorkloads_def diagnoseConditions_def diagnoseDeclaredDependencies_def
  using fold_blockers[of "diagnose_dependency c", OF diagnose_dependency_blockers]
  by (simp_all add: fold_blockers[OF diagnose_workload_blockers] fold_blockers[OF diagnose_condition_blockers]
      list_all_iff)

section \<open>Properties\<close>

text \<open>
  \<open>orderedComponentNames\<close> lists every component of the composition exactly once, and when
  the declared dependencies among the observed components have no cycle, each component comes
  after every component it depends on.
\<close>

theorem ordered_components_topological:
  assumes "rt_plan (c_runtime c) = Some plan"
    and "acyclic (dep_edges (order_deps (Profiles plan) (c_components c)))"
  shows "distinct (orderedComponentNames c) \<and>
    set (orderedComponentNames c) = fst ` set (c_components c) \<and>
    (orderedComponentNames c = xs @ i # ys \<longrightarrow>
       set (order_deps (Profiles plan) (c_components c) i) \<subseteq> set xs)"
proof -
  have "closed_order (order_deps (Profiles plan) (c_components c))
      (order_visit_all (Profiles plan) (c_components c) [] [] (sorted_keys (c_components c)))"
    using order_visit_closed(2)[OF assms(2)] by simp
  from og.deps_before[OF this, of xs i ys] show ?thesis
    using assms(1) by (auto simp: orderedComponentNames_permutation)
      (simp add: orderedComponentNames_def Let_def)
qed

definition layered :: composition where
  "layered = zero_composition
     \<lparr>c_components := [(''api'', zero_observation), (''db'', zero_observation)],
      c_runtime := zero_runtime\<lparr>rt_plan := Some (zero_plan\<lparr>rp_components :=
        [(''api'', zero_component\<lparr>cp_execution := Some
           \<lparr>x_kind = [], x_dependencies = [''db''], x_timeout = [], x_retry_limit = 0,
            x_schedule = [], x_max_runs = 0, x_concurrency_policy = []\<rparr>\<rparr>),
         (''db'', zero_component)]\<rparr>)\<rparr>\<rparr>"

lemma ordered_components_topological_witness:
  "set (order_deps (Profiles (the (rt_plan (c_runtime layered)))) (c_components layered) ''api'') \<subseteq> {''db''}"
proof -
  let ?plan = "the (rt_plan (c_runtime layered))"
  let ?deps = "order_deps (Profiles ?plan) (c_components layered)"
  have plan: "rt_plan (c_runtime layered) = Some ?plan" by (simp add: layered_def)
  have deps: "?deps i = (if i = ''api'' then [''db''] else [])" for i
    by (auto simp: layered_def order_deps_def observed_dependencies_def Profiles_def zero_plan_def
        map_len_def zero_component_def)
  have "dep_edges ?deps \<subseteq> {(''api'', ''db'')}" by (auto simp: dep_edges_def deps split: if_splits)
  then have "acyclic (dep_edges ?deps)" by (rule acyclic_subset[rotated]) (simp add: acyclic_insert, simp add: acyclic_def)
  moreover have "orderedComponentNames layered = [''db''] @ ''api'' # []" by code_simp
  ultimately show ?thesis
    using ordered_components_topological[OF plan, of "[''db'']" "''api''" "[]"] by simp
qed

text \<open>
  \<open>Diagnose\<close> calls a composition healthy exactly when it is not being destroyed, is in a
  settled phase with current evidence or no verification at all, and nothing recorded
  contradicts it: the baseline is observed as current, the latest evidence is neither stale,
  unavailable nor failed, every owned workload is ready or has succeeded, every condition
  holds that routing, messaging and verification need, and no operation error is recorded.
\<close>

theorem diagnose_healthy_iff:
  "d_state (Diagnose c latest now) = ''healthy'' \<longleftrightarrow>
     is_settled_phase (c_phase c) \<and>
     (freshness_of c latest now = ''current'' \<or> c_verification_level c = ''none'') \<and>
     freshness_of c latest now \<notin> {''stale'', ''unavailable'', ''failed''} \<and>
     (case c_baseline_observation c of None \<Rightarrow> True | Some o' \<Rightarrow> bo_state o' = ''current'') \<and>
     list_all (\<lambda>name. workload_settled (get_or zero_observation (c_components c) name))
       (map fst (c_components c)) \<and>
     list_all (condition_fine c) (c_conditions c) \<and> c_last_error c = None"
proof (cases "c_phase c = PhaseDestroying \<or> c_phase c = PhaseDestroyed")
  case True
  have "d_state (Diagnose c latest now) = ''cleanup''"
    using True by (auto simp: Diagnose_def diagnoseCleanup_def add_blocker_def add_note_def Let_def
        split: option.splits)
  with True show ?thesis by (auto simp: is_settled_phase_def)
next
  case False
  let ?d0 = "\<lparr>d_composition = c_id c, d_generation = c_generation c, d_phase = c_phase c,
    d_observed_at = c_updated_at c, d_state = ''unknown'', d_blockers = [], d_notes = [],
    d_verification = ''unknown_coverage'', d_evidence_id = []\<rparr>"
  let ?d = "diagnose_last_error c (diagnoseDeclaredDependencies c (diagnoseConditions c
    (diagnoseWorkloads c (diagnoseEvidence c latest now (diagnoseBaseline c ?d0)))))"
  have v: "d_verification ?d = freshness_of c latest now"
    by (simp add: stage_verification diagnoseEvidence_blockers diagnoseBaseline_blockers)
  have "list_all (\<lambda>name. workload_settled (get_or zero_observation (c_components c) name))
      (orderedComponentNames c) \<longleftrightarrow>
    list_all (\<lambda>name. workload_settled (get_or zero_observation (c_components c) name))
      (map fst (c_components c))"
    unfolding list_all_iff by (simp add: orderedComponentNames_permutation)
  then have b: "d_blockers ?d = [] \<longleftrightarrow>
      freshness_of c latest now \<notin> {''stale'', ''unavailable'', ''failed''} \<and>
      (case c_baseline_observation c of None \<Rightarrow> True | Some o' \<Rightarrow> bo_state o' = ''current'') \<and>
      list_all (\<lambda>name. workload_settled (get_or zero_observation (c_components c) name))
        (map fst (c_components c)) \<and>
      list_all (condition_fine c) (c_conditions c) \<and> c_last_error c = None"
    by (auto simp: stage_blockers diagnose_last_error_blockers diagnoseEvidence_blockers
        diagnoseBaseline_blockers split: option.splits)
  have "d_state (Diagnose c latest now) = ''healthy'' \<longleftrightarrow> d_blockers ?d = [] \<and>
      is_settled_phase (c_phase c) \<and> (d_verification ?d = ''current'' \<or> c_verification_level c = ''none'')"
    using False by (simp add: Diagnose_def Let_def)
  then show ?thesis unfolding b v by blast
qed

end
