(* ===== verification/Store.thy ===== *)
theory Store
  imports Catalog
begin

text \<open>
  The PostgreSQL store of compositions: \<open>internal/persistence/postgres\<close>, \<open>store.go\<close> with
  \<open>activity.go\<close>, \<open>verification.go\<close>, \<open>builds.go\<close> and the guard of \<open>github_preview.go\<close>, and the
  statements that \<open>sqlc\<close> generates for them.

  A \<open>db\<close> holds the tables these operations touch. An operation runs in one transaction, which
  the code serialises with row locks and advisory locks, so it is a function on the database;
  an operation that returns an error rolls back and leaves the database as it was. A statement
  the database does not carry out is named by the action that its \<open>unavailable\<close> error reports:
  \<open>cx_fault\<close> of the call is the first such action. The call also supplies what the code takes
  from its context: the request identity, the claim of the preview controller, the clock, and
  the random bytes it reads (\<open>None\<close> when the read fails).

  A row stores the JSON body of a composition, which leaves out \<open>PendingVerification\<close>,
  \<open>DeletionRequested\<close> and \<open>Runtime\<close>, beside its runtime state; decoding what was encoded gives
  the same value. The time columns are compared at the clock's resolution.
\<close>

section \<open>Tables\<close>

record composition_row =
  row_project :: string
  row_baseline :: string
  row_generation :: int
  row_deletion_requested :: bool
  row_phase :: phase
  row_expires_at :: time
  row_body :: composition
  row_runtime :: runtime_state

record db =
  db_compositions :: "composition_row gomap"
  db_idempotency :: "(string \<times> string) gomap"
  db_operations :: "(string \<times> operation) gomap"
  db_update_idempotency :: "((string \<times> string) \<times> (string \<times> string)) list"
  db_revisions :: "((string \<times> int) \<times> composition_revision) list"
  db_activity :: "activity list"
  db_verification :: "(int \<times> string \<times> verification_evidence) list"
  db_builds :: "((string \<times> string) \<times> build) list"
  db_repositories :: "((string \<times> string) \<times> source_repository) list"
  db_previews :: "pr_preview gomap"
  db_policies :: "((string \<times> string) \<times> pr_policy) list"
  db_preview_history :: "((string \<times> int) \<times> pr_preview) list"
  db_projects :: "project gomap"
  db_components :: "((string \<times> string) \<times> component) list"
  db_baselines :: "((string \<times> string) \<times> baseline) list"
  db_claims :: "(string \<times> string) gomap"
  db_deliveries :: "webhook_delivery gomap"
  db_github_health :: "github_health option"
  db_source_claims :: "((string \<times> string) \<times> string) list"

definition empty_db :: db where
  "empty_db =
     \<lparr>db_compositions = [], db_idempotency = [], db_operations = [], db_update_idempotency = [],
      db_revisions = [], db_activity = [], db_verification = [], db_builds = [],
      db_repositories = [], db_previews = [], db_policies = [],
      db_preview_history = [], db_projects = [], db_components = [], db_baselines = [], db_claims = [],
      db_deliveries = [], db_github_health = None, db_source_claims = []\<rparr>"

record call =
  cx_identity :: "request_identity option"
  cx_claim :: "pr_preview_claim option"
  cx_now :: time
  cx_random :: "nat \<Rightarrow> string option"
  cx_fault :: "string option"

section \<open>Transactions\<close>

type_synonym 'a tx = "call \<Rightarrow> db \<Rightarrow> go_error + 'a \<times> db"

definition unavailable :: "string \<Rightarrow> go_error" where
  "unavailable action = Domain_Error
     \<lparr>e_code = ''unavailable'', e_message = action @ '': database unavailable'', e_retryable = True,
      e_project = [], e_composition = []\<rparr>"

definition tx_return :: "'a \<Rightarrow> 'a tx" where
  "tx_return a cx d = Inr (a, d)"

definition tx_fail :: "go_error \<Rightarrow> 'a tx" where
  "tx_fail e cx d = Inl e"

definition tx_bind :: "'a tx \<Rightarrow> ('a \<Rightarrow> 'b tx) \<Rightarrow> 'b tx" where
  "tx_bind m f cx d = (case m cx d of Inl e \<Rightarrow> Inl e | Inr (a, d') \<Rightarrow> f a cx d')"

definition tx_seq :: "unit tx \<Rightarrow> 'b tx \<Rightarrow> 'b tx" where
  "tx_seq m n = tx_bind m (\<lambda>_. n)"

definition tx_read :: "(db \<Rightarrow> 'a) \<Rightarrow> 'a tx" where
  "tx_read f cx d = Inr (f d, d)"

definition tx_call :: "(call \<Rightarrow> 'a) \<Rightarrow> 'a tx" where
  "tx_call f cx d = Inr (f cx, d)"

definition tx_write :: "(db \<Rightarrow> db) \<Rightarrow> unit tx" where
  "tx_write f cx d = Inr ((), f d)"

text \<open>A statement whose failure is reported as \<open>unavailable(action)\<close>.\<close>

definition attempt :: "string \<Rightarrow> 'a tx \<Rightarrow> 'a tx" where
  "attempt action m cx d = (if cx_fault cx = Some action then Inl (unavailable action) else m cx d)"

text \<open>The statements of a transaction and its \<open>Commit\<close>; every error rolls back.\<close>

definition commit_tx :: "string \<Rightarrow> 'a tx \<Rightarrow> call \<Rightarrow> db \<Rightarrow> 'a result \<times> db" where
  "commit_tx commit_action m cx d =
     (case m cx d of
        Inl e \<Rightarrow> (Inl e, d)
      | Inr (a, d') \<Rightarrow>
          if cx_fault cx = Some commit_action then (Inl (unavailable commit_action), d) else (Inr a, d'))"

definition transaction :: "string \<Rightarrow> string \<Rightarrow> 'a tx \<Rightarrow> call \<Rightarrow> db \<Rightarrow> 'a result \<times> db" where
  "transaction begin_action commit_action m = commit_tx commit_action (attempt begin_action m)"

section \<open>Rows\<close>

definition copyOverrides :: "component_override gomap \<Rightarrow> component_override gomap" where
  "copyOverrides overrides = map_copy [] overrides"

definition encode_body :: "composition \<Rightarrow> composition" where
  "encode_body c = c\<lparr>c_pending_verification := None, c_deletion_requested := False,
     c_runtime := zero_runtime\<rparr>"

definition decodeComposition :: "composition_row \<Rightarrow> composition" where
  "decodeComposition row =
     (let c = (row_body row)\<lparr>c_runtime := row_runtime row,
                c_deletion_requested := row_deletion_requested row\<rparr>;
          c = RefreshPreviewProvenance c
      in if rt_published_overrides (c_runtime c) = None
         then c\<lparr>c_runtime := (c_runtime c)\<lparr>rt_published_overrides := Some (copyOverrides (c_overrides c))\<rparr>\<rparr>
         else c)"

definition live_row :: "composition_row \<Rightarrow> bool" where
  "live_row row \<longleftrightarrow> row_phase row \<noteq> PhaseDestroyed"

text \<open>The composition with this id, \<open>NotFound\<close> when there is no row.\<close>

definition read_composition :: "string \<Rightarrow> string \<Rightarrow> composition tx" where
  "read_composition action i = attempt action (\<lambda>cx d.
     case map_of (db_compositions d) i of
       None \<Rightarrow> Inl (NotFound ''composition not found'')
     | Some row \<Rightarrow> Inr (decodeComposition row, d))"

definition put_row :: "string \<Rightarrow> composition_row \<Rightarrow> db \<Rightarrow> db" where
  "put_row i row d = d\<lparr>db_compositions := AList.update i row (db_compositions d)\<rparr>"

section \<open>History\<close>

definition activityIdentity :: "request_identity option \<Rightarrow> request_identity" where
  "activityIdentity ctx =
     (let identity = RequestIdentityFromContext ctx;
          identity = (if pr_id (ri_principal identity) = []
            then identity\<lparr>ri_principal := unknown_principal\<rparr> else identity)
      in if ri_channel identity = [] then identity\<lparr>ri_channel := ''unknown''\<rparr> else identity)"

text \<open>\<open>ON CONFLICT (operation_id, outcome) WHERE operation_id <> '' DO NOTHING\<close>.\<close>

definition add_activity :: "activity \<Rightarrow> db \<Rightarrow> db" where
  "add_activity a d =
     (if act_operation a \<noteq> [] \<and>
        list_ex (\<lambda>b. act_operation b = act_operation a \<and> act_outcome b = act_outcome a) (db_activity d)
      then d else d\<lparr>db_activity := db_activity d @ [a]\<rparr>)"

definition insertActivity :: "request_identity option \<Rightarrow> activity \<Rightarrow> unit tx" where
  "insertActivity ctx event = attempt ''persist activity'' (\<lambda>cx d.
     (let identity = activityIdentity ctx;
          event = event\<lparr>act_actor := ri_principal identity, act_channel := ri_channel identity,
            act_task := ri_task identity, act_occurred_at := cx_now cx\<rparr>
      in Inr ((), add_activity event d)))"

definition composition_activity ::
  "string \<Rightarrow> string \<Rightarrow> composition \<Rightarrow> int \<Rightarrow> activity"
where
  "composition_activity action outcome c from =
     \<lparr>act_occurred_at = 0, act_actor = unknown_principal, act_channel = [], act_task = [],
      act_action = action, act_outcome = outcome, act_project = c_project c,
      act_resource_type = ''composition'', act_resource_id = c_id c, act_composition = c_id c,
      act_operation = op_id (c_latest_operation c), act_generation_from = from,
      act_generation_to = c_generation c\<rparr>"

definition revision_of :: "request_identity \<Rightarrow> time \<Rightarrow> composition \<Rightarrow> composition_revision" where
  "revision_of identity now c =
     \<lparr>rv_composition = c_id c, rv_project = c_project c, rv_generation = c_generation c,
      rv_baseline = c_baseline c, rv_baseline_revision = c_baseline_revision c,
      rv_overrides = c_overrides c, rv_created_at = now, rv_actor = ri_principal identity,
      rv_channel = ri_channel identity, rv_operation = op_id (c_latest_operation c)\<rparr>"

text \<open>\<open>ON CONFLICT DO NOTHING\<close> on the primary key (composition, generation).\<close>

definition add_revision :: "composition_revision \<Rightarrow> db \<Rightarrow> db" where
  "add_revision r d =
     (if map_of (db_revisions d) (rv_composition r, rv_generation r) = None
      then d\<lparr>db_revisions := db_revisions d @ [((rv_composition r, rv_generation r), r)]\<rparr> else d)"

definition insertRevision :: "request_identity option \<Rightarrow> composition \<Rightarrow> unit tx" where
  "insertRevision ctx c = attempt ''persist composition revision'' (\<lambda>cx d.
     Inr ((), add_revision (revision_of (activityIdentity ctx) (cx_now cx) c) d))"

text \<open>\<open>ON CONFLICT (id) DO UPDATE SET body\<close>.\<close>

definition upsert_operation :: "string \<Rightarrow> operation \<Rightarrow> db \<Rightarrow> db" where
  "upsert_operation cid o' d =
     d\<lparr>db_operations := AList.update (op_id o')
        (case map_of (db_operations d) (op_id o') of Some (owner, old) \<Rightarrow> (owner, o') | None \<Rightarrow> (cid, o'))
        (db_operations d)\<rparr>"

definition saveOperation :: "composition \<Rightarrow> unit tx" where
  "saveOperation c = attempt ''persist operation'' (tx_write (upsert_operation (c_id c) (c_latest_operation c)))"

section \<open>The guard of a pull-request preview\<close>

definition conflict :: "string \<Rightarrow> string \<Rightarrow> go_error" where
  "conflict message cid = Domain_Error
     \<lparr>e_code = ''conflict'', e_message = message, e_retryable = False, e_project = [],
      e_composition = cid\<rparr>"

abbreviation no_rows :: go_error where "no_rows \<equiv> Plain ''no rows in result set''"

text \<open>The preview that owns a composition; the column is NULL when there is none.\<close>

definition owner_of :: "string \<Rightarrow> db \<Rightarrow> pr_preview option" where
  "owner_of cid d =
     (if cid = [] then None else List.find (\<lambda>p. pw_composition_id p = cid) (map snd (db_previews d)))"

definition stop_preview :: "time \<Rightarrow> pr_preview \<Rightarrow> db \<Rightarrow> db" where
  "stop_preview now p d =
     d\<lparr>db_previews := AList.update (pw_id p)
        (p\<lparr>pw_terminal := True, pw_restart_barrier_at := now, pw_status := ''stopped'',
           pw_reason := ''Stopped explicitly'', pw_version := pw_version p + 1\<rparr>) (db_previews d)\<rparr>"

definition guardPRPreview :: "string \<Rightarrow> string \<Rightarrow> unit tx" where
  "guardPRPreview cid op cx d =
     (case cx_claim cx of
        Some claim \<Rightarrow>
          (case map_of (db_previews d) (cl_id claim) of
             None \<Rightarrow> Inl no_rows
           | Some p \<Rightarrow>
               if cl_version claim \<noteq> pw_version p \<or> op \<noteq> ''destroy'' \<and> pw_terminal p
               then Inl (conflict ''PR preview lifecycle changed'' [])
               else if op \<noteq> ''destroy'' then
                 (case map_of (db_policies d) (pp_project (pw_policy p), pp_repository (pw_policy p)) of
                    None \<Rightarrow> Inl no_rows
                  | Some policy \<Rightarrow>
                      if \<not> pp_enabled policy then Inl (conflict ''PR preview policy was disabled'' [])
                      else Inr ((), d))
               else Inr ((), d))
      | None \<Rightarrow>
          (case owner_of cid d of
             None \<Rightarrow> Inr ((), d)
           | Some p \<Rightarrow>
               if op = ''update''
               then Inl (conflict (''PR preview is managed automatically; stop it and create an '' @
                      ''independent environment to edit builds'') [])
               else if op = ''destroy'' then Inr ((), stop_preview (cx_now cx) p d)
               else Inr ((), d)))"

section \<open>Builds behind overrides\<close>

definition checkBuildRepository :: "build \<Rightarrow> unit tx" where
  "checkBuildRepository b = attempt ''read source repository'' (\<lambda>cx d.
     case map_of (db_repositories d) (bd_project b, bd_repository b) of
       None \<Rightarrow> Inl (NotFound ''repository not registered in project'')
     | Some r \<Rightarrow>
         if \<not> sr_enabled r then Inl (conflict ''repository is disabled'' [])
         else if sr_github_repository r \<noteq> bd_github_repository b \<or>
           hd (split_on CHR ''@'' (bd_image b)) \<noteq> get_or [] (sr_images r) (bd_component b)
         then Inl (Validation ''build does not match approved repository mapping'')
         else Inr ((), d))"

definition read_build :: "string \<Rightarrow> string \<Rightarrow> build tx" where
  "read_build project i = attempt ''read build'' (\<lambda>cx d.
     case map_of (db_builds d) (project, i) of
       None \<Rightarrow> Inl (NotFound ''build not found in project'')
     | Some b \<Rightarrow> Inr (b, d))"

fun validate_builds :: "string \<Rightarrow> component_override gomap \<Rightarrow> string list \<Rightarrow> unit tx" where
  "validate_builds project overrides [] = tx_return ()"
| "validate_builds project overrides (component # rest) =
     (let o' = get_or zero_override overrides component in
      if o_build_id o' = [] then validate_builds project overrides rest
      else tx_bind (read_build project (o_build_id o')) (\<lambda>b.
        if bd_component b \<noteq> component \<or> bd_image b \<noteq> o_image o' \<or> o_source o' = None
        then tx_fail (Validation ''resolved build does not match override'')
        else tx_seq (checkBuildRepository b) (validate_builds project overrides rest)))"

definition validateBuildOverrides :: "string \<Rightarrow> component_override gomap \<Rightarrow> unit tx" where
  "validateBuildOverrides project overrides = validate_builds project overrides (OverrideNames overrides)"

section \<open>Reading\<close>

definition Get :: "string \<Rightarrow> call \<Rightarrow> db \<Rightarrow> composition result" where
  "Get i cx d =
     (case read_composition ''read composition'' i cx d of Inl e \<Rightarrow> Inl e | Inr (c, d') \<Rightarrow> Inr c)"

definition rows_by_id :: "db \<Rightarrow> (string \<times> composition_row) list" where
  "rows_by_id d = sort_key fst (db_compositions d)"

definition List_page :: "string \<Rightarrow> string \<Rightarrow> nat \<Rightarrow> call \<Rightarrow> db \<Rightarrow> (composition list \<times> string) result" where
  "List_page project after limit cx d =
     (if cx_fault cx = Some ''list compositions'' then Inl (unavailable ''list compositions'')
      else
      let rows = take (limit + 1) (filter (\<lambda>(i, row).
            (project = [] \<or> row_project row = project) \<and> after < i) (rows_by_id d));
          items = map (\<lambda>(i, row). decodeComposition row) rows
      in if limit < length items
         then Inr (take limit items, c_id (last (take limit items)))
         else Inr (items, []))"

definition Active :: "call \<Rightarrow> db \<Rightarrow> composition list result" where
  "Active cx d =
     (if cx_fault cx = Some ''scan active compositions'' then Inl (unavailable ''scan active compositions'')
      else Inr (map (\<lambda>(i, row). decodeComposition row) (filter (\<lambda>(i, row). live_row row) (rows_by_id d))))"

definition ActiveDomain :: "string \<Rightarrow> string \<Rightarrow> call \<Rightarrow> db \<Rightarrow> composition list result" where
  "ActiveDomain project baseline cx d =
     (if cx_fault cx = Some ''read routing domain'' then Inl (unavailable ''read routing domain'')
      else Inr (map (\<lambda>(i, row). decodeComposition row)
        (filter (\<lambda>(i, row). row_project row = project \<and> row_baseline row = baseline \<and> live_row row)
          (rows_by_id d))))"

section \<open>Create\<close>

text \<open>The answer of a request that was already accepted under the same idempotency key.\<close>

definition create_replay :: "string \<Rightarrow> string \<Rightarrow> call \<Rightarrow> db \<Rightarrow> composition result option" where
  "create_replay key hash cx d =
     (if key = [] then None
      else if cx_fault cx = Some ''read idempotency key'' then Some (Inl (unavailable ''read idempotency key''))
      else case map_of (db_idempotency d) key of
        None \<Rightarrow> None
      | Some (request_hash, cid) \<Rightarrow> Some
          (if request_hash \<noteq> hash
           then Inl (conflict ''idempotency key was already used with a different request'' [])
           else Get cid cx d))"

definition count_active :: "db \<Rightarrow> nat" where
  "count_active d = length (filter (\<lambda>(i, row). live_row row) (db_compositions d))"

definition row_of :: "composition \<Rightarrow> composition_row" where
  "row_of c =
     \<lparr>row_project = c_project c, row_baseline = c_baseline c, row_generation = c_generation c,
      row_deletion_requested = c_deletion_requested c, row_phase = c_phase c,
      row_expires_at = c_expires_at c, row_body = encode_body c, row_runtime = c_runtime c\<rparr>"

definition insert_composition :: "composition \<Rightarrow> unit tx" where
  "insert_composition c = attempt ''persist composition'' (\<lambda>cx d.
     if has_key (db_compositions d) (c_id c) \<or> c_generation c < 1
     then Inl (unavailable ''persist composition'')
     else Inr ((), d\<lparr>db_compositions := db_compositions d @ [(c_id c, row_of c)]\<rparr>))"

definition insert_key :: "string \<Rightarrow> string \<Rightarrow> string \<Rightarrow> unit tx" where
  "insert_key key hash cid =
     (if key = [] then tx_return ()
      else attempt ''persist idempotency key'' (\<lambda>cx d.
        if has_key (db_idempotency d) key then Inl (unavailable ''persist idempotency key'')
        else Inr ((), d\<lparr>db_idempotency := db_idempotency d @ [(key, hash, cid)]\<rparr>)))"

text \<open>\<open>SET composition_id = $2 WHERE id = $1 AND composition_id IS NULL\<close>.\<close>

definition link_preview :: "string \<Rightarrow> unit tx" where
  "link_preview cid cx d =
     (case cx_claim cx of
        None \<Rightarrow> Inr ((), d)
      | Some claim \<Rightarrow>
          (case map_of (db_previews d) (cl_id claim) of
             Some p \<Rightarrow>
               if pw_composition_id p = []
               then Inr ((), d\<lparr>db_previews := AList.update (cl_id claim)
                      (p\<lparr>pw_composition_id := cid\<rparr>) (db_previews d)\<rparr>)
               else Inl (conflict ''PR preview already owns a composition'' [])
           | None \<Rightarrow> Inl (conflict ''PR preview already owns a composition'' [])))"

definition create_body :: "composition \<Rightarrow> string \<Rightarrow> string \<Rightarrow> nat \<Rightarrow> composition tx" where
  "create_body c key hash max_live =
     tx_seq (validateBuildOverrides (c_project c) (c_overrides c))
    (tx_bind (attempt ''check composition capacity'' (tx_read count_active)) (\<lambda>count.
     if max_live \<le> count
     then tx_fail (Domain_Error \<lparr>e_code = ''capacity_exceeded'',
            e_message = ''live composition limit reached'', e_retryable = True, e_project = [],
            e_composition = []\<rparr>)
     else
       tx_seq (insert_composition c)
      (tx_seq (insert_key key hash (c_id c))
      (tx_seq (link_preview (c_id c))
      (tx_seq (saveOperation c)
      (tx_bind (tx_call cx_identity) (\<lambda>ctx.
       tx_seq (insertRevision ctx c)
      (tx_seq (insertActivity ctx (composition_activity ''composition.create'' ''accepted'' c 0))
      (tx_return c)))))))))"

definition Create :: "composition \<Rightarrow> string \<Rightarrow> string \<Rightarrow> nat \<Rightarrow> call \<Rightarrow> db \<Rightarrow> composition result \<times> db" where
  "Create c key hash max_live cx d =
     (let c = (case cx_claim cx of None \<Rightarrow> c | Some claim \<Rightarrow> c\<lparr>c_pr_preview_id := cl_id claim\<rparr>) in
      case attempt ''begin create'' (tx_seq (guardPRPreview [] ''create'')
             (attempt ''lock create'' (tx_return ()))) cx d of
        Inl e \<Rightarrow> (Inl e, d)
      | Inr _ \<Rightarrow>
          (case create_replay key hash cx d of
             Some r \<Rightarrow> (r, d)
           | None \<Rightarrow> commit_tx ''commit composition'' (create_body c key hash max_live) cx d))"

section \<open>SaveObservation\<close>

text \<open>
  Evidence as it is stored and read back. The workloads field is \<open>omitempty\<close>: an empty map is
  left out and decodes as nil.
\<close>

definition encode_evidence :: "verification_evidence \<Rightarrow> verification_evidence" where
  "encode_evidence e =
     e\<lparr>ve_workloads := (case ve_workloads e of Some [] \<Rightarrow> None | w \<Rightarrow> w)\<rparr>"

text \<open>\<open>reflect.DeepEqual\<close> after both check times are cleared; a nil map is not an empty one.\<close>

definition workloads_deep_eq ::
  "verification_workload gomap option \<Rightarrow> verification_workload gomap option \<Rightarrow> bool"
where
  "workloads_deep_eq a b =
     (case (a, b) of
        (None, None) \<Rightarrow> True
      | (Some m, Some n) \<Rightarrow> map_deep_eq m n
      | _ \<Rightarrow> False)"

definition evidence_deep_eq :: "verification_evidence \<Rightarrow> verification_evidence \<Rightarrow> bool" where
  "evidence_deep_eq a b \<longleftrightarrow>
     workloads_deep_eq (ve_workloads a) (ve_workloads b) \<and>
     a\<lparr>ve_workloads := None, ve_first_checked_at := 0, ve_last_checked_at := 0\<rparr> =
     b\<lparr>ve_workloads := None, ve_first_checked_at := 0, ve_last_checked_at := 0\<rparr>"

definition latest_verification :: "string \<Rightarrow> db \<Rightarrow> (int \<times> verification_evidence) option" where
  "latest_verification cid d =
     map_option (\<lambda>(i, k, e). (i, e)) (List.find (\<lambda>(i, k, e). k = cid) (rev (db_verification d)))"

definition next_verification_id :: "db \<Rightarrow> int" where
  "next_verification_id d = 1 + fold (\<lambda>(i, k, e). max i) (db_verification d) 0"

definition insert_verification :: "string \<Rightarrow> verification_evidence \<Rightarrow> db \<Rightarrow> db" where
  "insert_verification cid e d =
     d\<lparr>db_verification := db_verification d @ [(next_verification_id d, cid, encode_evidence e)]\<rparr>"

definition update_verification :: "int \<Rightarrow> verification_evidence \<Rightarrow> db \<Rightarrow> db" where
  "update_verification i e d =
     d\<lparr>db_verification := map (\<lambda>(j, k, x). if j = i then (j, k, encode_evidence e) else (j, k, x))
        (db_verification d)\<rparr>"

definition saveVerification :: "composition \<Rightarrow> unit tx" where
  "saveVerification c cx d =
     (case c_pending_verification c of
        None \<Rightarrow> Inr ((), d)
      | Some next \<Rightarrow>
          if ve_generation next \<noteq> c_generation c then Inr ((), d)
          else
          (case latest_verification (c_id c) d of
             None \<Rightarrow> Inr ((), insert_verification (c_id c) next d)
           | Some (i, old) \<Rightarrow>
               if evidence_deep_eq old next then
                 (let next' = next\<lparr>ve_first_checked_at := ve_first_checked_at old,
                        ve_last_checked_at := max (ve_last_checked_at next) (ve_last_checked_at old)\<rparr>
                  in Inr ((), update_verification i next' d))
               else Inr ((), insert_verification (c_id c) next d)))"

text \<open>\<open>UPDATE ... WHERE id = $1 AND generation = $5 AND deletion_requested = $6\<close>.\<close>

definition update_observation :: "composition \<Rightarrow> unit tx" where
  "update_observation c = attempt ''persist observation'' (\<lambda>cx d.
     case map_of (db_compositions d) (c_id c) of
       None \<Rightarrow> Inl ErrStaleObservation
     | Some row \<Rightarrow>
         if row_generation row = c_generation c \<and> row_deletion_requested row = c_deletion_requested c
         then Inr ((), put_row (c_id c) (row\<lparr>row_phase := c_phase c, row_body := encode_body c,
                row_runtime := c_runtime c\<rparr>) d)
         else Inl ErrStaleObservation)"

definition system_identity :: "string \<Rightarrow> string \<Rightarrow> request_identity" where
  "system_identity i name =
     \<lparr>ri_principal = \<lparr>pr_kind = ''system'', pr_id = i, pr_display_name = name, pr_email = []\<rparr>,
      ri_channel = ''system'', ri_task = []\<rparr>"

definition observation_body :: "composition \<Rightarrow> unit tx" where
  "observation_body c =
     tx_seq (update_observation c)
    (tx_seq (saveVerification c)
    (tx_seq (saveOperation c)
    (let status = op_status (c_latest_operation c) in
     if status = ''succeeded'' \<or> status = ''failed''
     then insertActivity (Some (system_identity ''reconciler'' ''Reconciler''))
       (composition_activity (''composition.'' @ op_kind (c_latest_operation c)) status c 0)
     else tx_return ())))"

definition SaveObservation :: "composition \<Rightarrow> call \<Rightarrow> db \<Rightarrow> unit result \<times> db" where
  "SaveObservation c cx d =
     (let c = c\<lparr>c_updated_at := cx_now cx\<rparr>
      in transaction ''begin observation'' ''commit observation'' (observation_body c) cx d)"

section \<open>Destroy and Expire\<close>

definition close_endpoints :: "composition \<Rightarrow> composition" where
  "close_endpoints c =
     c\<lparr>c_endpoints := map (\<lambda>(key, e). (key, e\<lparr>ep_ready := False\<rparr>)) (c_endpoints c)\<rparr>"

text \<open>\<open>requestDeletion\<close> after it has read the bytes of the operation's identifier.\<close>

definition deletion_requested :: "time \<Rightarrow> string \<Rightarrow> string \<Rightarrow> composition \<Rightarrow> composition" where
  "deletion_requested now reason bytes c =
     close_endpoints (c\<lparr>c_generation := c_generation c + 1, c_deletion_requested := True,
       c_phase := PhaseDestroying, c_verification_level := ''none'', c_updated_at := now,
       c_last_error := None,
       c_latest_operation := \<lparr>op_id = hex_encode bytes, op_kind = ''destroy'', op_status = ''pending'',
         op_error = None, op_initiator = None\<rparr>,
       c_runtime := (c_runtime c)\<lparr>rt_deletion_reason := reason, rt_attempts := 0,
         rt_next_attempt_at := 0\<rparr>\<rparr>)"

definition requestDeletion :: "time \<Rightarrow> string \<Rightarrow> nat \<Rightarrow> composition \<Rightarrow> composition tx" where
  "requestDeletion now reason n c cx d =
     (case cx_random cx n of
        None \<Rightarrow> Inl (Domain_Error \<lparr>e_code = ''unavailable'',
          e_message = ''secure identity generation unavailable'', e_retryable = True, e_project = [],
          e_composition = []\<rparr>)
      | Some bytes \<Rightarrow> Inr (deletion_requested now reason bytes c, d))"

definition set_initiator :: "request_identity option \<Rightarrow> composition \<Rightarrow> composition" where
  "set_initiator ctx c = c\<lparr>c_latest_operation := (c_latest_operation c)
     \<lparr>op_initiator := Some (ri_principal (activityIdentity ctx))\<rparr>\<rparr>"

text \<open>\<open>UPDATE ... SET generation, deletion_requested = true, phase, body, runtime WHERE id\<close>.\<close>

definition update_deletion :: "composition \<Rightarrow> db \<Rightarrow> db" where
  "update_deletion c d =
     (case map_of (db_compositions d) (c_id c) of
        None \<Rightarrow> d
      | Some row \<Rightarrow> put_row (c_id c) (row\<lparr>row_generation := c_generation c,
          row_deletion_requested := True, row_phase := c_phase c, row_body := encode_body c,
          row_runtime := c_runtime c\<rparr>) d)"

definition writeDeletion :: "composition \<Rightarrow> unit tx" where
  "writeDeletion c = tx_seq (attempt ''persist deletion'' (tx_write (update_deletion c))) (saveOperation c)"

definition delete_one :: "request_identity option \<Rightarrow> time \<Rightarrow> string \<Rightarrow> string \<Rightarrow> nat \<Rightarrow> composition \<Rightarrow> composition tx" where
  "delete_one ctx now reason action n c =
     tx_bind (requestDeletion now reason n c) (\<lambda>c'.
     let c' = set_initiator ctx c' in
       tx_seq (writeDeletion c')
      (tx_seq (insertRevision ctx c')
      (tx_seq (insertActivity ctx (composition_activity action ''accepted'' c' (c_generation c)))
      (tx_return c'))))"

definition destroy_body :: "string \<Rightarrow> composition tx" where
  "destroy_body i =
     tx_seq (guardPRPreview i ''destroy'')
    (tx_bind (read_composition ''read composition'' i) (\<lambda>c.
     if c_deletion_requested c \<or> c_phase c = PhaseDestroyed then tx_return c
     else tx_bind (tx_call (\<lambda>cx. (cx_identity cx, cx_now cx))) (\<lambda>(ctx, now).
       delete_one ctx now ''requested'' ''composition.destroy'' 0 c)))"

definition Destroy :: "string \<Rightarrow> call \<Rightarrow> db \<Rightarrow> composition result \<times> db" where
  "Destroy i = transaction ''begin destroy'' ''commit destroy'' (destroy_body i)"

text \<open>\<open>expires_at <= $1 AND NOT deletion_requested AND phase <> 'destroyed'\<close>.\<close>

definition row_expired :: "time \<Rightarrow> composition_row \<Rightarrow> bool" where
  "row_expired now row \<longleftrightarrow>
     row_expires_at row \<le> now \<and> \<not> row_deletion_requested row \<and> live_row row"

definition expired_rows :: "time \<Rightarrow> db \<Rightarrow> composition list" where
  "expired_rows now d =
     map (\<lambda>(i, row). decodeComposition row) (filter (\<lambda>(i, row). row_expired now row) (db_compositions d))"

fun expire_all :: "time \<Rightarrow> nat \<Rightarrow> composition list \<Rightarrow> unit tx" where
  "expire_all now n [] = tx_return ()"
| "expire_all now n (c # cs) =
     tx_bind (delete_one (Some (system_identity ''expiry-controller'' ''Expiry controller'')) now
       ''expired'' ''composition.expire'' n c) (\<lambda>_. expire_all now (n + 1) cs)"

definition Expire :: "time \<Rightarrow> call \<Rightarrow> db \<Rightarrow> unit result \<times> db" where
  "Expire now = transaction ''begin expiry'' ''commit expiry''
     (tx_bind (attempt ''scan expired compositions'' (tx_read (expired_rows now)))
       (expire_all now 0))"

section \<open>Update\<close>

definition build_json :: "build \<Rightarrow> json" where
  "build_json b = JObj
     [(''component'', JStr (bd_component b)), (''revision'', JStr (bd_revision b)),
      (''image'', JStr (bd_image b)), (''run_id'', JStr (bd_run_id b)),
      (''attempt'', JInt (bd_attempt b)), (''built_at'', JTime (bd_built_at b)),
      (''id'', JStr (bd_id b)), (''project'', JStr (bd_project b)),
      (''repository'', JStr (bd_repository b)), (''github_repository'', JStr (bd_github_repository b)),
      (''run_url'', JStr (bd_run_url b))]"

definition override_json :: "component_override \<Rightarrow> json" where
  "override_json o' = JObj (omit_empty ''image'' (JStr (o_image o')) @
     omit_empty ''build_id'' (JStr (o_build_id o')) @ omit_nil ''source'' build_json (o_source o'))"

definition update_hash :: "update_request \<Rightarrow> string" where
  "update_hash req = sha256_hex (json_encode (JObj
     (omit_empty ''expected_preview_revisions'' (JMap JInt (ur_expected_preview_revisions req)) @
      [(''expected_generation'', JInt (ur_expected_generation req)),
       (''overrides'', JMap override_json (ur_overrides req))])))"

text \<open>The answer of an update that was already accepted under the same key.\<close>

definition update_replay :: "string \<Rightarrow> update_request \<Rightarrow> call \<Rightarrow> db \<Rightarrow> composition result option" where
  "update_replay i req cx d =
     (if ur_idempotency_key req = [] then None
      else if cx_fault cx = Some ''read update idempotency''
      then Some (Inl (unavailable ''read update idempotency''))
      else case map_of (db_update_idempotency d) (i, ur_idempotency_key req) of
        None \<Rightarrow> None
      | Some (previous_hash, op) \<Rightarrow> Some
          (if previous_hash \<noteq> update_hash req
           then Inl (conflict ''idempotency key was already used with a different update'' i)
           else
           if cx_fault cx = Some ''read idempotent update''
           then Inl (unavailable ''read idempotent update'')
           else case map_of (db_compositions d) i of
             None \<Rightarrow> Inl (unavailable ''read idempotent update'')
           | Some row \<Rightarrow> Inr (decodeComposition row)))"

definition updated_conditions :: "bool \<Rightarrow> condition list" where
  "updated_conditions routing_active =
     [\<lparr>cond_type = ''WorkloadsReady'', cond_status = False, cond_message = ''waiting for updated workload''\<rparr>,
      \<lparr>cond_type = ''RoutesConfigured'', cond_status = routing_active, cond_message = []\<rparr>,
      \<lparr>cond_type = ''RouteVerified'', cond_status = False,
       cond_message = ''waiting for updated ingress verification''\<rparr>]"

text \<open>The desired state of the next generation.\<close>

definition apply_update ::
  "update_request \<Rightarrow> string \<Rightarrow> time \<Rightarrow> request_identity option \<Rightarrow> composition \<Rightarrow> composition"
where
  "apply_update req op now ctx c =
     (let c = c\<lparr>c_generation := c_generation c + 1, c_overrides := ur_overrides req\<rparr>;
          c = (case ur_plan req of
                 None \<Rightarrow> c
               | Some plan \<Rightarrow>
                   RefreshPreviewProvenance (c\<lparr>c_runtime := (c_runtime c)\<lparr>rt_plan := Some plan\<rparr>\<rparr>));
          c = c\<lparr>c_phase := PhaseUpdating, c_verification_level := ''none'', c_updated_at := now,
                c_last_error := None,
                c_latest_operation := \<lparr>op_id = op, op_kind = ''update'', op_status = ''pending'',
                  op_error = None, op_initiator = Some (ri_principal (activityIdentity ctx))\<rparr>,
                c_runtime := (c_runtime c)\<lparr>rt_provision_started_at := now, rt_attempts := 0,
                  rt_next_attempt_at := 0\<rparr>\<rparr>
      in (close_endpoints c)\<lparr>c_conditions := updated_conditions (rt_routing_active (c_runtime c))\<rparr>)"

definition update_allowed :: "string \<Rightarrow> update_request \<Rightarrow> time \<Rightarrow> composition \<Rightarrow> go_error option" where
  "update_allowed i req now c =
     (if c_generation c \<noteq> ur_expected_generation req
      then Some (conflict ''expected_generation does not match current generation'' i)
      else if c_deletion_requested c \<or> \<not> now < c_expires_at c \<or>
        c_phase c \<noteq> PhaseReady \<and> c_phase c \<noteq> PhaseFailed
      then Some (conflict ''only ready or failed, unexpired compositions can be updated'' i)
      else None)"

text \<open>\<open>UPDATE ... SET generation, phase, body, runtime WHERE id\<close>.\<close>

definition update_desired :: "composition \<Rightarrow> db \<Rightarrow> db" where
  "update_desired c d =
     (case map_of (db_compositions d) (c_id c) of
        None \<Rightarrow> d
      | Some row \<Rightarrow> put_row (c_id c) (row\<lparr>row_generation := c_generation c, row_phase := c_phase c,
          row_body := encode_body c, row_runtime := c_runtime c\<rparr>) d)"

definition insert_update_key :: "string \<Rightarrow> update_request \<Rightarrow> string \<Rightarrow> unit tx" where
  "insert_update_key i req op =
     (if ur_idempotency_key req = [] then tx_return ()
      else attempt ''persist update idempotency'' (\<lambda>cx d.
        if map_of (db_update_idempotency d) (i, ur_idempotency_key req) \<noteq> None
        then Inl (unavailable ''persist update idempotency'')
        else Inr ((), d\<lparr>db_update_idempotency := db_update_idempotency d @
               [((i, ur_idempotency_key req), (update_hash req, op))]\<rparr>)))"

definition update_body :: "string \<Rightarrow> update_request \<Rightarrow> string \<Rightarrow> composition tx" where
  "update_body i req op =
     tx_bind (read_composition ''read composition'' i) (\<lambda>c.
     tx_bind (tx_call (\<lambda>cx. (cx_identity cx, cx_now cx))) (\<lambda>(ctx, now).
     case update_allowed i req now c of
       Some e \<Rightarrow> tx_fail e
     | None \<Rightarrow>
         tx_seq (validateBuildOverrides (c_project c) (ur_overrides req))
         (let c' = apply_update req op now ctx c in
          tx_seq (attempt ''persist update'' (tx_write (update_desired c')))
         (tx_seq (saveOperation c')
         (tx_seq (insert_update_key (c_id c') req (op_id (c_latest_operation c')))
         (tx_seq (insertRevision ctx c')
         (tx_seq (insertActivity ctx (composition_activity ''composition.update'' ''accepted'' c'
            (ur_expected_generation req)))
         (tx_return c'))))))))"

definition Update :: "string \<Rightarrow> update_request \<Rightarrow> string \<Rightarrow> call \<Rightarrow> db \<Rightarrow> composition result \<times> db" where
  "Update i req op cx d =
     (case attempt ''begin update'' (tx_seq (guardPRPreview i ''update'')
             (attempt ''lock update'' (tx_return ()))) cx d of
        Inl e \<Rightarrow> (Inl e, d)
      | Inr _ \<Rightarrow>
          (case update_replay i req cx d of
             Some r \<Rightarrow> (r, d)
           | None \<Rightarrow> commit_tx ''commit update'' (update_body i req op) cx d))"

end
