(* ===== verification/Store_Facts.thy ===== *)
theory Store_Facts
  imports Store
begin

text \<open>
  What the operations of the store do to its tables: the rules that take a successful
  transaction apart, the tables each statement leaves alone, the well-formedness of the table of
  compositions and its preservation, and the row each operation writes.
\<close>

section \<open>Taking a transaction apart\<close>

named_theorems tx_elims "when a statement or a sequence of statements succeeds"

lemma tx_bind_Inr [tx_elims]:
  "tx_bind m f cx d = Inr x \<longleftrightarrow> (\<exists>a d1. m cx d = Inr (a, d1) \<and> f a cx d1 = Inr x)"
  by (simp add: tx_bind_def split: sum.splits)

lemma tx_seq_Inr [tx_elims]:
  "tx_seq m n cx d = Inr x \<longleftrightarrow> (\<exists>d1. m cx d = Inr ((), d1) \<and> n cx d1 = Inr x)"
  by (simp add: tx_seq_def tx_bind_Inr)

lemma attempt_Inr [tx_elims]:
  "attempt l m cx d = Inr x \<longleftrightarrow> cx_fault cx \<noteq> Some l \<and> m cx d = Inr x"
  by (simp add: attempt_def)

lemma tx_basic_Inr [tx_elims]:
  "tx_return a cx d = Inr (b, d') \<longleftrightarrow> b = a \<and> d' = d"
  "tx_fail e cx d = Inr x \<longleftrightarrow> False"
  "tx_read f cx d = Inr (b, d') \<longleftrightarrow> b = f d \<and> d' = d"
  "tx_call g cx d = Inr (b, d') \<longleftrightarrow> b = g cx \<and> d' = d"
  "tx_write h cx d = Inr (u, d') \<longleftrightarrow> d' = h d"
  by (auto simp: tx_return_def tx_fail_def tx_read_def tx_call_def tx_write_def)

lemma commit_tx_Inr:
  "commit_tx l m cx d = (Inr a, d') \<Longrightarrow> m cx d = Inr (a, d')"
  by (auto simp: commit_tx_def split: sum.splits if_splits)

lemma commit_tx_Inl:
  "commit_tx l m cx d = (Inl e, d') \<Longrightarrow> d' = d"
  by (auto simp: commit_tx_def split: sum.splits if_splits)

lemma transaction_Inr:
  "transaction b l m cx d = (Inr a, d') \<Longrightarrow> m cx d = Inr (a, d')"
  by (auto simp: transaction_def attempt_Inr dest: commit_tx_Inr)

lemma transaction_Inl:
  "transaction b l m cx d = (Inl e, d') \<Longrightarrow> d' = d"
  by (auto simp: transaction_def dest: commit_tx_Inl)

section \<open>Tables a statement leaves alone\<close>

definition keeps :: "(db \<Rightarrow> 'x) \<Rightarrow> 'a tx \<Rightarrow> bool" where
  "keeps sel m \<longleftrightarrow> (\<forall>cx d a d'. m cx d = Inr (a, d') \<longrightarrow> sel d' = sel d)"

named_theorems frame "statements keep the tables they do not write"

lemma keepsD: "keeps sel m \<Longrightarrow> m cx d = Inr (a, d') \<Longrightarrow> sel d' = sel d"
  by (simp add: keeps_def)

lemma keeps_basic [frame]:
  "keeps sel (tx_return a)" "keeps sel (tx_fail e)" "keeps sel (tx_read f)" "keeps sel (tx_call g)"
  by (auto simp: keeps_def tx_elims)

lemma keeps_bind [frame]: "keeps sel m \<Longrightarrow> (\<And>a. keeps sel (f a)) \<Longrightarrow> keeps sel (tx_bind m f)"
  unfolding keeps_def tx_bind_Inr by metis

lemma keeps_seq [frame]: "keeps sel m \<Longrightarrow> keeps sel n \<Longrightarrow> keeps sel (tx_seq m n)"
  unfolding tx_seq_def by (rule keeps_bind)

lemma keeps_attempt [frame]: "keeps sel m \<Longrightarrow> keeps sel (attempt l m)"
  unfolding keeps_def attempt_Inr by blast

lemma table_simps [simp]:
  "db_compositions (upsert_operation cid o' d) = db_compositions d"
  "db_compositions (add_activity a d) = db_compositions d"
  "db_compositions (add_revision r d) = db_compositions d"
  "db_compositions (insert_verification cid e d) = db_compositions d"
  "db_compositions (update_verification n e d) = db_compositions d"
  "db_compositions (stop_preview now p d) = db_compositions d"
  "db_compositions (put_row i row d) = AList.update i row (db_compositions d)"
  "db_revisions (upsert_operation cid o' d) = db_revisions d"
  "db_revisions (add_activity a d) = db_revisions d"
  "db_revisions (insert_verification cid e d) = db_revisions d"
  "db_revisions (update_verification n e d) = db_revisions d"
  "db_revisions (stop_preview now p d) = db_revisions d"
  "db_revisions (put_row i row d) = db_revisions d"
  "db_idempotency (upsert_operation cid o' d) = db_idempotency d"
  "db_idempotency (add_activity a d) = db_idempotency d"
  "db_idempotency (add_revision r d) = db_idempotency d"
  "db_idempotency (insert_verification cid e d) = db_idempotency d"
  "db_idempotency (update_verification n e d) = db_idempotency d"
  "db_idempotency (stop_preview now p d) = db_idempotency d"
  "db_idempotency (put_row i row d) = db_idempotency d"
  by (simp_all add: upsert_operation_def add_activity_def add_revision_def insert_verification_def
      update_verification_def stop_preview_def put_row_def)

lemma keeps_builds [frame]: "keeps sel (validateBuildOverrides project overrides)"
proof -
  have "keeps sel (validate_builds project overrides names)" for names
    by (induction project overrides names rule: validate_builds.induct)
      (auto simp: keeps_def tx_elims checkBuildRepository_def read_build_def Let_def
        split: option.splits if_splits)
  then show ?thesis by (simp add: validateBuildOverrides_def)
qed

lemma keeps_rows [frame]:
  "keeps db_compositions (guardPRPreview i op)"
  "keeps db_compositions (saveOperation c)"
  "keeps db_compositions (insertActivity ctx a)"
  "keeps db_compositions (insertRevision ctx c)"
  "keeps db_compositions (insert_key key hash i)"
  "keeps db_compositions (link_preview i)"
  "keeps db_compositions (saveVerification c)"
  "keeps db_compositions (insert_update_key i req op')"
  by (auto simp: keeps_def tx_elims guardPRPreview_def saveOperation_def insertActivity_def
      insertRevision_def insert_key_def link_preview_def saveVerification_def insert_update_key_def
      Let_def split: option.splits if_splits)

lemma keeps_revisions [frame]:
  "keeps db_revisions (guardPRPreview i op)"
  "keeps db_revisions (saveOperation c)"
  "keeps db_revisions (insertActivity ctx a)"
  "keeps db_revisions (insert_key key hash i)"
  "keeps db_revisions (link_preview i)"
  "keeps db_revisions (saveVerification c)"
  "keeps db_revisions (insert_update_key i req op')"
  by (auto simp: keeps_def tx_elims guardPRPreview_def saveOperation_def insertActivity_def
      insert_key_def link_preview_def saveVerification_def insert_update_key_def
      Let_def split: option.splits if_splits)

lemma keeps_idempotency [frame]:
  "keeps db_idempotency (guardPRPreview i op)"
  "keeps db_idempotency (saveOperation c)"
  "keeps db_idempotency (insertActivity ctx a)"
  "keeps db_idempotency (insertRevision ctx c)"
  "keeps db_idempotency (link_preview i)"
  "keeps db_idempotency (saveVerification c)"
  "keeps db_idempotency (insert_update_key i req op')"
  by (auto simp: keeps_def tx_elims guardPRPreview_def saveOperation_def insertActivity_def
      insertRevision_def link_preview_def saveVerification_def insert_update_key_def
      Let_def split: option.splits if_splits)

lemmas rows_kept = keeps_rows[THEN keepsD]
lemmas revisions_kept = keeps_revisions[THEN keepsD]

lemma insertRevision_Inr:
  "insertRevision ctx c cx d = Inr (u, d') \<Longrightarrow>
     d' = add_revision (revision_of (activityIdentity ctx) (cx_now cx) c) d"
  by (auto simp: insertRevision_def tx_elims)

section \<open>Well-formed tables\<close>

text \<open>A row agrees with the body it stores on identity, generation and phase; identifiers are unique.\<close>

definition row_ok :: "string \<Rightarrow> composition_row \<Rightarrow> bool" where
  "row_ok i row \<longleftrightarrow>
     c_id (row_body row) = i \<and> row_generation row = c_generation (row_body row) \<and>
     row_phase row = c_phase (row_body row) \<and> 1 \<le> row_generation row"

definition wf_db :: "db \<Rightarrow> bool" where
  "wf_db d \<longleftrightarrow> wf_map (db_compositions d) \<and> list_all (\<lambda>(i, row). row_ok i row) (db_compositions d)"

lemma wf_dbD: "wf_db d \<Longrightarrow> map_of (db_compositions d) i = Some row \<Longrightarrow> row_ok i row"
  by (auto simp: wf_db_def list_all_iff dest: map_of_SomeD)

lemma wf_db_empty [wf_intros]: "wf_db empty_db"
  by (simp add: wf_db_def empty_db_def)

lemma wf_db_update [wf_intros]:
  assumes "wf_db d" "row_ok i row" "db_compositions d' = AList.update i row (db_compositions d)"
  shows "wf_db d'"
proof -
  have mem: "x \<in> set (AList.update i row m) \<Longrightarrow> x = (i, row) \<or> x \<in> set m" for x m
    by (induction m) (auto split: if_splits)
  have "case x of (i, row) \<Rightarrow> row_ok i row" if "x \<in> set (AList.update i row (db_compositions d))" for x
    using mem[OF that] assms(1,2) by (auto simp: wf_db_def list_all_iff)
  with assms show ?thesis by (simp add: wf_db_def list_all_iff)
qed

lemma wf_db_insert [wf_intros]:
  assumes "wf_db d" "row_ok i row" "\<not> has_key (db_compositions d) i"
    and "db_compositions d' = db_compositions d @ [(i, row)]"
  shows "wf_db d'"
  using assms by (auto simp: wf_db_def wf_map_def has_key_iff image_iff list_all_iff)

lemma RefreshPreviewProvenance_sel [simp]:
  "c_id (RefreshPreviewProvenance c) = c_id c"
  "c_project (RefreshPreviewProvenance c) = c_project c"
  "c_baseline (RefreshPreviewProvenance c) = c_baseline c"
  "c_overrides (RefreshPreviewProvenance c) = c_overrides c"
  "c_generation (RefreshPreviewProvenance c) = c_generation c"
  "c_phase (RefreshPreviewProvenance c) = c_phase c"
  "c_expires_at (RefreshPreviewProvenance c) = c_expires_at c"
  "c_endpoints (RefreshPreviewProvenance c) = c_endpoints c"
  "c_deletion_requested (RefreshPreviewProvenance c) = c_deletion_requested c"
  "c_latest_operation (RefreshPreviewProvenance c) = c_latest_operation c"
  "c_runtime (RefreshPreviewProvenance c) = c_runtime c"
  by (simp_all add: RefreshPreviewProvenance_def)

lemma decodeComposition_sel [simp]:
  "c_id (decodeComposition row) = c_id (row_body row)"
  "c_project (decodeComposition row) = c_project (row_body row)"
  "c_baseline (decodeComposition row) = c_baseline (row_body row)"
  "c_overrides (decodeComposition row) = c_overrides (row_body row)"
  "c_generation (decodeComposition row) = c_generation (row_body row)"
  "c_phase (decodeComposition row) = c_phase (row_body row)"
  "c_expires_at (decodeComposition row) = c_expires_at (row_body row)"
  "c_endpoints (decodeComposition row) = c_endpoints (row_body row)"
  "c_deletion_requested (decodeComposition row) = row_deletion_requested row"
  "rt_plan (c_runtime (decodeComposition row)) = rt_plan (row_runtime row)"
  by (simp_all add: decodeComposition_def Let_def)

lemma encode_body_sel [simp]:
  "c_id (encode_body c) = c_id c" "c_project (encode_body c) = c_project c"
  "c_baseline (encode_body c) = c_baseline c" "c_overrides (encode_body c) = c_overrides c"
  "c_generation (encode_body c) = c_generation c" "c_phase (encode_body c) = c_phase c"
  "c_expires_at (encode_body c) = c_expires_at c" "c_endpoints (encode_body c) = c_endpoints c"
  by (simp_all add: encode_body_def)

section \<open>Rows the operations write\<close>

lemma close_endpoints_sel [simp]:
  "c_id (close_endpoints c) = c_id c" "c_project (close_endpoints c) = c_project c"
  "c_baseline (close_endpoints c) = c_baseline c" "c_overrides (close_endpoints c) = c_overrides c"
  "c_generation (close_endpoints c) = c_generation c" "c_phase (close_endpoints c) = c_phase c"
  "c_expires_at (close_endpoints c) = c_expires_at c" "c_runtime (close_endpoints c) = c_runtime c"
  "c_deletion_requested (close_endpoints c) = c_deletion_requested c"
  "c_latest_operation (close_endpoints c) = c_latest_operation c"
  "list_all (\<lambda>(k, e). \<not> ep_ready e) (c_endpoints (close_endpoints c))"
  by (simp_all add: close_endpoints_def list_all_iff split_def)

lemma deletion_requested_sel [simp]:
  "c_id (deletion_requested now reason b c) = c_id c"
  "c_project (deletion_requested now reason b c) = c_project c"
  "c_baseline (deletion_requested now reason b c) = c_baseline c"
  "c_overrides (deletion_requested now reason b c) = c_overrides c"
  "c_generation (deletion_requested now reason b c) = c_generation c + 1"
  "c_phase (deletion_requested now reason b c) = PhaseDestroying"
  "c_expires_at (deletion_requested now reason b c) = c_expires_at c"
  "c_deletion_requested (deletion_requested now reason b c) = True"
  "rt_plan (c_runtime (deletion_requested now reason b c)) = rt_plan (c_runtime c)"
  "list_all (\<lambda>(k, e). \<not> ep_ready e) (c_endpoints (deletion_requested now reason b c))"
  by (simp_all add: deletion_requested_def)

lemma set_initiator_sel [simp]:
  "c_id (set_initiator ctx c) = c_id c" "c_project (set_initiator ctx c) = c_project c"
  "c_baseline (set_initiator ctx c) = c_baseline c" "c_overrides (set_initiator ctx c) = c_overrides c"
  "c_generation (set_initiator ctx c) = c_generation c" "c_phase (set_initiator ctx c) = c_phase c"
  "c_expires_at (set_initiator ctx c) = c_expires_at c" "c_runtime (set_initiator ctx c) = c_runtime c"
  "c_deletion_requested (set_initiator ctx c) = c_deletion_requested c"
  "c_endpoints (set_initiator ctx c) = c_endpoints c"
  by (simp_all add: set_initiator_def)

lemma apply_update_sel [simp]:
  "c_id (apply_update req op now ctx c) = c_id c"
  "c_project (apply_update req op now ctx c) = c_project c"
  "c_baseline (apply_update req op now ctx c) = c_baseline c"
  "c_overrides (apply_update req op now ctx c) = ur_overrides req"
  "c_generation (apply_update req op now ctx c) = c_generation c + 1"
  "c_phase (apply_update req op now ctx c) = PhaseUpdating"
  "c_expires_at (apply_update req op now ctx c) = c_expires_at c"
  "c_deletion_requested (apply_update req op now ctx c) = c_deletion_requested c"
  "rt_plan (c_runtime (apply_update req op now ctx c)) =
     (case ur_plan req of None \<Rightarrow> rt_plan (c_runtime c) | Some plan \<Rightarrow> Some plan)"
  by (simp_all add: apply_update_def Let_def split: option.splits)

lemma apply_update_endpoints:
  "list_all (\<lambda>(k, e). \<not> ep_ready e) (c_endpoints (apply_update req op now ctx c))"
  using close_endpoints_sel(11) by (simp add: apply_update_def Let_def)

lemma create_body_Inr:
  assumes "create_body c key hash n cx d = Inr (r, d')"
  shows "r = c \<and> \<not> has_key (db_compositions d) (c_id c) \<and> 1 \<le> c_generation c \<and> count_active d < n \<and>
    db_compositions d' = db_compositions d @ [(c_id c, row_of c)] \<and>
    (\<exists>ident now. db_revisions d' = db_revisions (add_revision (revision_of ident now c) d))"
proof -
  from assms obtain d1 d2 d3 d4 d5 d6 d7 ctx where steps:
    "validateBuildOverrides (c_project c) (c_overrides c) cx d = Inr ((), d1)" "\<not> n \<le> count_active d1"
    "insert_composition c cx d1 = Inr ((), d2)" "insert_key key hash (c_id c) cx d2 = Inr ((), d3)"
    "link_preview (c_id c) cx d3 = Inr ((), d4)" "saveOperation c cx d4 = Inr ((), d5)"
    "insertRevision ctx c cx d5 = Inr ((), d6)"
    "insertActivity ctx (composition_activity ''composition.create'' ''accepted'' c 0) cx d6 = Inr ((), d7)"
    "r = c" "d' = d7"
    by (auto simp: create_body_def tx_elims split: if_splits)
  have tables: "db_compositions d1 = db_compositions d" "db_compositions d3 = db_compositions d2"
    "db_compositions d4 = db_compositions d3" "db_compositions d5 = db_compositions d4"
    "db_compositions d6 = db_compositions d5" "db_compositions d7 = db_compositions d6"
    "db_revisions d1 = db_revisions d" "db_revisions d3 = db_revisions d2"
    "db_revisions d4 = db_revisions d3" "db_revisions d5 = db_revisions d4"
    "db_revisions d7 = db_revisions d6"
    by (rule rows_kept revisions_kept keeps_builds[THEN keepsD], rule steps)+
  have "db_revisions d2 = db_revisions d1"
    using steps(3) by (auto simp: insert_composition_def tx_elims split: if_splits)
  with steps(9,10) tables insertRevision_Inr[OF steps(7)]
  have "db_revisions d' = db_revisions (add_revision (revision_of (activityIdentity ctx) (cx_now cx) c) d)"
    by (simp add: add_revision_def)
  then have "\<exists>ident now. db_revisions d' = db_revisions (add_revision (revision_of ident now c) d)" by blast
  with steps tables show ?thesis
    by (auto simp: insert_composition_def count_active_def tx_elims split: if_splits)
qed

lemma delete_one_Inr:
  assumes "delete_one ctx now reason action n c cx d = Inr (c', d')"
  shows "\<exists>bytes. cx_random cx n = Some bytes \<and>
    c' = set_initiator ctx (deletion_requested now reason bytes c) \<and>
    db_compositions d' = db_compositions (update_deletion c' d) \<and>
    db_revisions d' = db_revisions (add_revision (revision_of (activityIdentity ctx) (cx_now cx) c') d)"
proof -
  from assms obtain bytes d1 d2 d3 where steps: "cx_random cx n = Some bytes"
    "c' = set_initiator ctx (deletion_requested now reason bytes c)"
    "saveOperation c' cx (update_deletion c' d) = Inr ((), d1)"
    "insertRevision ctx c' cx d1 = Inr ((), d2)"
    "insertActivity ctx (composition_activity action ''accepted'' c' (c_generation c)) cx d2 = Inr ((), d3)"
    "d' = d3"
    by (auto simp: delete_one_def requestDeletion_def writeDeletion_def tx_elims Let_def
        split: option.splits if_splits)
  have tables: "db_compositions d1 = db_compositions (update_deletion c' d)"
    "db_compositions d2 = db_compositions d1" "db_compositions d3 = db_compositions d2"
    "db_revisions d1 = db_revisions (update_deletion c' d)" "db_revisions d3 = db_revisions d2"
    by (rule rows_kept revisions_kept, rule steps)+
  have "db_revisions (update_deletion c' d) = db_revisions d"
    by (simp add: update_deletion_def split: option.splits)
  with steps tables insertRevision_Inr[OF steps(4)] show ?thesis
    by (auto simp: add_revision_def)
qed

lemma observation_body_Inr:
  assumes "observation_body c cx d = Inr (u, d')"
  shows "\<exists>row. map_of (db_compositions d) (c_id c) = Some row \<and>
    row_generation row = c_generation c \<and> row_deletion_requested row = c_deletion_requested c \<and>
    db_compositions d' = AList.update (c_id c) (row\<lparr>row_phase := c_phase c,
      row_body := encode_body c, row_runtime := c_runtime c\<rparr>) (db_compositions d) \<and>
    db_revisions d' = db_revisions d"
proof -
  let ?last = "let status = op_status (c_latest_operation c) in
     if status = ''succeeded'' \<or> status = ''failed''
     then insertActivity (Some (system_identity ''reconciler'' ''Reconciler''))
       (composition_activity (''composition.'' @ op_kind (c_latest_operation c)) status c 0)
     else tx_return ()"
  from assms obtain d1 d2 d3 where steps: "update_observation c cx d = Inr ((), d1)"
    "saveVerification c cx d1 = Inr ((), d2)" "saveOperation c cx d2 = Inr ((), d3)"
    "?last cx d3 = Inr (u, d')"
    unfolding observation_body_def tx_seq_Inr by blast
  have last: "keeps db_compositions ?last" "keeps db_revisions ?last"
    by (auto simp: Let_def intro: frame)
  have tables: "db_compositions d2 = db_compositions d1" "db_revisions d2 = db_revisions d1"
    "db_compositions d3 = db_compositions d2" "db_revisions d3 = db_revisions d2"
    by (rule rows_kept revisions_kept, rule steps)+
  show ?thesis
    using steps(1) tables keepsD[OF last(1) steps(4)] keepsD[OF last(2) steps(4)]
    by (auto simp: update_observation_def tx_elims split: option.splits if_splits)
qed

lemma update_body_Inr:
  assumes "update_body i req op cx d = Inr (c', d')"
  shows "\<exists>row c ctx now. map_of (db_compositions d) i = Some row \<and> c = decodeComposition row \<and>
    now = cx_now cx \<and> ctx = cx_identity cx \<and> update_allowed i req now c = None \<and>
    c' = apply_update req op now ctx c \<and>
    db_compositions d' = db_compositions (update_desired c' d) \<and>
    db_revisions d' = db_revisions (add_revision (revision_of (activityIdentity ctx) now c') d)"
proof -
  define now ctx where "now = cx_now cx" and "ctx = cx_identity cx"
  from assms obtain row d1 where row: "map_of (db_compositions d) i = Some row"
    "update_allowed i req now (decodeComposition row) = None"
    "validateBuildOverrides (c_project (row_body row)) (ur_overrides req) cx d = Inr ((), d1)"
    and rest: "(let c' = apply_update req op now ctx (decodeComposition row) in
          tx_seq (attempt ''persist update'' (tx_write (update_desired c')))
         (tx_seq (saveOperation c')
         (tx_seq (insert_update_key (c_id c') req (op_id (c_latest_operation c')))
         (tx_seq (insertRevision ctx c')
         (tx_seq (insertActivity ctx (composition_activity ''composition.update'' ''accepted'' c'
            (ur_expected_generation req)))
         (tx_return c')))))) cx d1 = Inr (c', d')"
    unfolding update_body_def read_composition_def now_def ctx_def
    by (auto simp: tx_elims split: option.splits)
  have d1: "d1 = d"
    by (rule keepsD[OF keeps_builds row(3), of "\<lambda>d. d"])
  from rest obtain d2 d3 d4 d5 where steps: "c' = apply_update req op now ctx (decodeComposition row)"
    "saveOperation c' cx (update_desired c' d) = Inr ((), d2)"
    "insert_update_key (c_id c') req (op_id (c_latest_operation c')) cx d2 = Inr ((), d3)"
    "insertRevision ctx c' cx d3 = Inr ((), d4)"
    "insertActivity ctx (composition_activity ''composition.update'' ''accepted'' c'
            (ur_expected_generation req)) cx d4 = Inr ((), d5)" "d' = d5"
    unfolding Let_def tx_seq_Inr attempt_Inr tx_basic_Inr d1 by blast
  have tables: "db_compositions d2 = db_compositions (update_desired c' d)"
    "db_compositions d3 = db_compositions d2" "db_compositions d4 = db_compositions d3"
    "db_compositions d5 = db_compositions d4"
    "db_revisions d2 = db_revisions (update_desired c' d)"
    "db_revisions d3 = db_revisions d2" "db_revisions d5 = db_revisions d4"
    by (rule rows_kept revisions_kept, rule steps)+
  have "db_revisions (update_desired c' d) = db_revisions d"
    by (simp add: update_desired_def split: option.splits)
  with steps(1,6) row tables insertRevision_Inr[OF steps(4)] show ?thesis
    unfolding now_def[symmetric] ctx_def[symmetric] by (auto simp: add_revision_def now_def)
qed

end
