(* ===== verification/Desired.thy ===== *)
theory Desired
  imports Store_Facts
begin

text \<open>
  The contract of the store: a map from identifiers to desired states, in which a state appears
  once, is replaced only by an update or a deletion, and each replacement raises its generation
  by one (\<open>desired_step\<close>). The operations of \<open>Store\<close> refine it, the observations of the
  reconciler do not change it, and the locale \<open>observation_store\<close> is what the reconciler relies
  on when it saves.
\<close>

section \<open>The abstract machine\<close>

record desired =
  ds_project :: string
  ds_baseline :: string
  ds_generation :: int
  ds_deleted :: bool
  ds_overrides :: "component_override gomap"
  ds_plan :: "resolved_plan option"
  ds_expires_at :: time

definition desired_of_row :: "composition_row \<Rightarrow> desired" where
  "desired_of_row row =
     \<lparr>ds_project = row_project row, ds_baseline = row_baseline row,
      ds_generation = row_generation row, ds_deleted = row_deletion_requested row,
      ds_overrides = c_overrides (row_body row), ds_plan = rt_plan (row_runtime row),
      ds_expires_at = row_expires_at row\<rparr>"

definition desired_map :: "db \<Rightarrow> string \<Rightarrow> desired option" where
  "desired_map d i = map_option desired_of_row (map_of (db_compositions d) i)"

inductive desired_step :: "(string \<Rightarrow> desired option) \<Rightarrow> (string \<Rightarrow> desired option) \<Rightarrow> bool" where
  created: "m i = None \<Longrightarrow> 1 \<le> ds_generation s \<Longrightarrow> desired_step m (m(i \<mapsto> s))"
| updated: "m i = Some s \<Longrightarrow> \<not> ds_deleted s \<Longrightarrow>
    desired_step m (m(i \<mapsto> s\<lparr>ds_generation := ds_generation s + 1, ds_overrides := os, ds_plan := p\<rparr>))"
| deleted: "m i = Some s \<Longrightarrow> \<not> ds_deleted s \<Longrightarrow>
    desired_step m (m(i \<mapsto> s\<lparr>ds_generation := ds_generation s + 1, ds_deleted := True\<rparr>))"

inductive_cases desired_stepE: "desired_step m m'"

text \<open>How the desired state of one identifier may develop.\<close>

definition grows :: "desired \<Rightarrow> desired \<Rightarrow> bool" where
  "grows s s' \<longleftrightarrow> s' = s \<or> \<not> ds_deleted s \<and> ds_generation s < ds_generation s' \<and>
     ds_project s' = ds_project s \<and> ds_baseline s' = ds_baseline s \<and>
     ds_expires_at s' = ds_expires_at s"

lemma grows_refl [simp]: "grows s s"
  by (simp add: grows_def)

lemma grows_trans: "grows s s' \<Longrightarrow> grows s' s'' \<Longrightarrow> grows s s''"
  by (auto simp: grows_def)

lemma desired_step_grows:
  assumes "desired_step m m'" "m i = Some s"
  shows "\<exists>s'. m' i = Some s' \<and> grows s s'"
  using assms(1) by (cases rule: desired_stepE) (auto simp: grows_def assms(2))

lemma desired_steps_grow:
  assumes "desired_step\<^sup>*\<^sup>* m m'" "m i = Some s"
  shows "\<exists>s'. m' i = Some s' \<and> grows s s'"
  using assms by (induction rule: rtranclp_induct) (auto, meson desired_step_grows grows_trans)

section \<open>What the reconciler relies on\<close>

text \<open>
  \<open>save\<close> writes an observation, \<open>stored\<close> is the desired state of an identifier. A save is
  accepted only for the stored generation and deletion mark, leaves every desired state as it
  is when the observer keeps the intent it read, and changes nothing when it fails.
\<close>

definition keeps_intent :: "composition \<Rightarrow> desired \<Rightarrow> bool" where
  "keeps_intent c s \<longleftrightarrow> c_overrides c = ds_overrides s \<and> rt_plan (c_runtime c) = ds_plan s"

locale observation_store =
  fixes save :: "composition \<Rightarrow> 'd \<Rightarrow> go_error option \<times> 'd"
    and stored :: "'d \<Rightarrow> string \<Rightarrow> desired option"
  assumes save_fenced: "save c d = (None, d') \<Longrightarrow> \<exists>s. stored d (c_id c) = Some s \<and>
      ds_generation s = c_generation c \<and> ds_deleted s = c_deletion_requested c"
    and save_intent: "save c d = (None, d') \<Longrightarrow> stored d (c_id c) = Some s \<Longrightarrow>
      keeps_intent c s \<Longrightarrow> stored d' = stored d"
    and save_failed: "save c d = (Some e, d') \<Longrightarrow> d' = d"
begin

text \<open>An observer that read \<open>s\<close> saves; others have changed the store in between.\<close>

lemma save_after_change:
  assumes "desired_step\<^sup>*\<^sup>* (stored d) (stored d1)" "stored d (c_id c) = Some s"
    and "c_generation c = ds_generation s" "save c d1 = (None, d')"
  shows "stored d1 (c_id c) = Some s"
proof -
  obtain s1 where s1: "stored d1 (c_id c) = Some s1" "grows s s1"
    using desired_steps_grow[OF assms(1,2)] by blast
  with save_fenced[OF assms(4)] assms(3) show ?thesis by (auto simp: grows_def)
qed

lemma stale_save_changes_nothing:
  assumes "stored d (c_id c) = Some s" "ds_generation s \<noteq> c_generation c"
  shows "\<exists>e. save c d = (Some e, d)"
proof (cases "save c d")
  case (Pair r d')
  then show ?thesis using save_fenced save_failed assms by (cases r) fastforce+
qed

text \<open>All the saves of one reconciliation: each keeps the intent that was read.\<close>

lemma saves_keep_desired:
  assumes "\<And>c s. c \<in> set cs \<Longrightarrow> stored d (c_id c) = Some s \<Longrightarrow>
    c_generation c = ds_generation s \<Longrightarrow> keeps_intent c s"
  shows "stored (fold (\<lambda>c d. snd (save c d)) cs d) = stored d"
  using assms
proof (induction cs arbitrary: d)
  case (Cons c cs)
  have eq: "stored (snd (save c d)) = stored d"
  proof (cases "save c d")
    case (Pair r d')
    show ?thesis
    proof (cases r)
      case None
      with Pair obtain s where s: "stored d (c_id c) = Some s" "ds_generation s = c_generation c"
        using save_fenced by blast
      with Cons.prems[of c s] None Pair show ?thesis using save_intent by auto
    qed (use Pair save_failed in auto)
  qed
  have "stored (fold (\<lambda>c d. snd (save c d)) cs (snd (save c d))) = stored (snd (save c d))"
    by (rule Cons.IH) (use Cons.prems eq in auto)
  with eq show ?case by simp
qed simp

end

section \<open>Refinement\<close>

lemma desired_map_update:
  "db_compositions d' = AList.update i row (db_compositions d) \<Longrightarrow>
     desired_map d' = (desired_map d)(i \<mapsto> desired_of_row row)"
  by (rule ext) (simp add: desired_map_def update_conv')

lemma desired_map_insert:
  "db_compositions d' = db_compositions d @ [(i, row)] \<Longrightarrow> \<not> has_key (db_compositions d) i \<Longrightarrow>
     desired_map d' = (desired_map d)(i \<mapsto> desired_of_row row)"
  by (rule ext) (auto simp: desired_map_def has_key_def map_add_def split: option.splits)

lemma desired_mapD: "desired_map d i = Some s \<Longrightarrow>
    \<exists>row. map_of (db_compositions d) i = Some row \<and> s = desired_of_row row"
  by (auto simp: desired_map_def)

definition save_result :: "unit result \<times> db \<Rightarrow> go_error option \<times> db" where
  "save_result r = (case fst r of Inl e \<Rightarrow> (Some e, snd r) | Inr u \<Rightarrow> (None, snd r))"

lemma SaveObservation_Inr:
  assumes "SaveObservation c cx d = (Inr u, d')"
  shows "\<exists>row. map_of (db_compositions d) (c_id c) = Some row \<and>
    row_generation row = c_generation c \<and> row_deletion_requested row = c_deletion_requested c \<and>
    db_compositions d' = AList.update (c_id c) (row\<lparr>row_phase := c_phase c,
      row_body := encode_body (c\<lparr>c_updated_at := cx_now cx\<rparr>), row_runtime := c_runtime c\<rparr>) (db_compositions d) \<and>
    db_revisions d' = db_revisions d"
  using observation_body_Inr[OF transaction_Inr[OF assms[unfolded SaveObservation_def Let_def]]] by simp

interpretation obs: observation_store "\<lambda>c d. save_result (SaveObservation c cx d)" desired_map for cx
proof unfold_locales
  fix c d d' assume "save_result (SaveObservation c cx d) = (None, d')"
  then have ok: "SaveObservation c cx d = (Inr (), d')"
    by (cases "SaveObservation c cx d") (auto simp: save_result_def split: sum.splits)
  from SaveObservation_Inr[OF ok] show "\<exists>s. desired_map d (c_id c) = Some s \<and>
      ds_generation s = c_generation c \<and> ds_deleted s = c_deletion_requested c"
    by (auto simp: desired_map_def desired_of_row_def)
  fix s assume s: "desired_map d (c_id c) = Some s" "keeps_intent c s"
  from SaveObservation_Inr[OF ok] s show "desired_map d' = desired_map d"
    by (auto simp: desired_map_def desired_of_row_def keeps_intent_def fun_eq_iff update_conv')
next
  fix c d d' e assume "save_result (SaveObservation c cx d) = (Some e, d')"
  then have "SaveObservation c cx d = (Inl e, d')"
    by (cases "SaveObservation c cx d") (auto simp: save_result_def split: sum.splits)
  then show "d' = d" unfolding SaveObservation_def Let_def by (rule transaction_Inl)
qed

section \<open>The other operations\<close>

lemma row_ok_row_of [wf_intros]: "1 \<le> c_generation c \<Longrightarrow> row_ok (c_id c) (row_of c)"
  by (simp add: row_ok_def row_of_def)

lemma Create_cases:
  assumes "Create c key hash n cx d = (r, d')"
  shows "d' = d \<or> (\<exists>c'. r = Inr c' \<and> c_id c' = c_id c \<and> 1 \<le> c_generation c' \<and>
    c_overrides c' = c_overrides c \<and> c_generation c' = c_generation c \<and>
    \<not> has_key (db_compositions d) (c_id c') \<and> count_active d < n \<and> create_replay key hash cx d = None \<and>
    create_body c' key hash n cx d = Inr (c', d') \<and>
    db_compositions d' = db_compositions d @ [(c_id c', row_of c')])"
proof -
  define c' where "c' = (case cx_claim cx of None \<Rightarrow> c | Some claim \<Rightarrow> c\<lparr>c_pr_preview_id := cl_id claim\<rparr>)"
  have sel: "c_id c' = c_id c" "c_overrides c' = c_overrides c" "c_generation c' = c_generation c"
    by (simp_all add: c'_def split: option.splits)
  from assms consider "d' = d"
    | "create_replay key hash cx d = None" "commit_tx ''commit composition'' (create_body c' key hash n) cx d = (r, d')"
    by (auto simp: Create_def c'_def[symmetric] Let_def split: sum.splits option.splits)
  then show ?thesis
  proof cases
    case 2
    show ?thesis
    proof (cases r)
      case (Inl e)
      with 2 show ?thesis using commit_tx_Inl[where m = "create_body c' key hash n"] by blast
    next
      case (Inr a)
      with 2 have body: "create_body c' key hash n cx d = Inr (a, d')" using commit_tx_Inr[where m = "create_body c' key hash n"] by blast
      note eff = create_body_Inr[OF body]
      then have "a = c'" by simp
      with eff body Inr 2(1) sel show ?thesis by blast
    qed
  qed simp
qed

lemma Create_refines:
  assumes "wf_db d" "Create c key hash n cx d = (r, d')"
  shows "wf_db d' \<and> desired_step\<^sup>*\<^sup>* (desired_map d) (desired_map d')"
  using Create_cases[OF assms(2)]
proof (elim disjE exE conjE)
  fix c' assume new: "1 \<le> c_generation c'" "\<not> has_key (db_compositions d) (c_id c')"
    "db_compositions d' = db_compositions d @ [(c_id c', row_of c')]"
  have "desired_map d (c_id c') = None" using new(2) by (simp add: desired_map_def has_key_def)
  moreover have "1 \<le> ds_generation (desired_of_row (row_of c'))"
    using new(1) by (simp add: desired_of_row_def row_of_def)
  ultimately have "desired_step (desired_map d) (desired_map d')"
    unfolding desired_map_insert[OF new(3,2)] by (rule created)
  moreover have "wf_db d'"
    by (rule wf_db_insert[OF assms(1) row_ok_row_of[OF new(1)] new(2,3)])
  ultimately show ?thesis by blast
qed (use assms in simp)

text \<open>One deletion, of a composition decoded from its current row.\<close>

lemma delete_one_refines:
  assumes "wf_db d" "map_of (db_compositions d) i = Some row" "c = decodeComposition row"
    and "\<not> row_deletion_requested row"
    and "delete_one ctx now reason action n c cx d = Inr (c', d')"
  shows "wf_db d'" and "desired_step (desired_map d) (desired_map d')"
    and "db_compositions d' = AList.update i (row\<lparr>row_generation := row_generation row + 1,
      row_deletion_requested := True, row_phase := PhaseDestroying, row_body := encode_body c',
      row_runtime := c_runtime c'\<rparr>) (db_compositions d)"
proof -
  from delete_one_Inr[OF assms(5)] obtain bytes where c':
    "c' = set_initiator ctx (deletion_requested now reason bytes c)"
    and comps: "db_compositions d' = db_compositions (update_deletion c' d)" by blast
  have ok: "row_ok i row" by (rule wf_dbD[OF assms(1,2)])
  let ?row = "row\<lparr>row_generation := row_generation row + 1, row_deletion_requested := True,
    row_phase := PhaseDestroying, row_body := encode_body c', row_runtime := c_runtime c'\<rparr>"
  have id: "c_id c' = i" "c_generation c' = row_generation row + 1" "c_phase c' = PhaseDestroying"
    "c_overrides c' = c_overrides (row_body row)" "rt_plan (c_runtime c') = rt_plan (row_runtime row)"
    using ok c' assms(3) by (simp_all add: row_ok_def)
  show comps': "db_compositions d' = AList.update i ?row (db_compositions d)"
    using comps assms(2) id by (simp add: update_deletion_def)
  have "row_ok i ?row" using ok id by (simp add: row_ok_def)
  then show "wf_db d'" by (rule wf_db_update[OF assms(1) _ comps'])
  have s: "desired_of_row ?row = (desired_of_row row)\<lparr>ds_generation := ds_generation (desired_of_row row) + 1,
      ds_deleted := True\<rparr>" using id by (simp add: desired_of_row_def)
  show "desired_step (desired_map d) (desired_map d')"
    unfolding desired_map_update[OF comps'] s
    by (rule deleted) (use assms(2,4) in \<open>simp_all add: desired_map_def desired_of_row_def\<close>)
qed

lemma guard_rows:
  "guardPRPreview i op cx d = Inr (u, d') \<Longrightarrow> db_compositions d' = db_compositions d"
  by (rule keepsD[OF keeps_rows(1)])

lemma wf_db_same: "wf_db d \<Longrightarrow> db_compositions d' = db_compositions d \<Longrightarrow> wf_db d'"
  by (simp add: wf_db_def)

lemma desired_map_same: "db_compositions d' = db_compositions d \<Longrightarrow> desired_map d' = desired_map d"
  by (rule ext) (simp add: desired_map_def)

lemma destroy_body_Inr:
  assumes "destroy_body i cx d = Inr (c', d')"
  obtains d1 row where "db_compositions d1 = db_compositions d" "db_revisions d1 = db_revisions d"
    "map_of (db_compositions d) i = Some row"
    "(row_deletion_requested row \<or> c_phase (row_body row) = PhaseDestroyed) \<and>
        c' = decodeComposition row \<and> d' = d1 \<or>
     \<not> row_deletion_requested row \<and> c_phase (row_body row) \<noteq> PhaseDestroyed \<and>
        delete_one (cx_identity cx) (cx_now cx) ''requested'' ''composition.destroy'' 0
          (decodeComposition row) cx d1 = Inr (c', d')"
proof -
  from assms obtain d1 row where g: "guardPRPreview i ''destroy'' cx d = Inr ((), d1)"
    "map_of (db_compositions d1) i = Some row"
    "(if row_deletion_requested row \<or> c_phase (row_body row) = PhaseDestroyed
      then tx_return (decodeComposition row)
      else tx_bind (tx_call (\<lambda>cx. (cx_identity cx, cx_now cx))) (\<lambda>(ctx, now).
        delete_one ctx now ''requested'' ''composition.destroy'' 0 (decodeComposition row))) cx d1 = Inr (c', d')"
    by (auto simp: destroy_body_def read_composition_def tx_elims split: option.splits)
  have "db_compositions d1 = db_compositions d" "db_revisions d1 = db_revisions d"
    using keepsD[OF keeps_rows(1) g(1)] keepsD[OF keeps_revisions(1) g(1)] by simp_all
  with g that[of d1 row] show ?thesis
    by (cases "row_deletion_requested row \<or> c_phase (row_body row) = PhaseDestroyed")
      (auto simp: tx_elims)
qed

lemma Destroy_refines:
  assumes "wf_db d" "Destroy i cx d = (r, d')"
  shows "wf_db d' \<and> desired_step\<^sup>*\<^sup>* (desired_map d) (desired_map d')"
proof (cases r)
  case (Inl e)
  with assms have "d' = d" unfolding Destroy_def using transaction_Inl[where m = "destroy_body i"] by blast
  with assms show ?thesis by simp
next
  case (Inr c')
  with assms have body: "destroy_body i cx d = Inr (c', d')" unfolding Destroy_def using transaction_Inr[where m = "destroy_body i"] by blast
  then show ?thesis
  proof (rule destroy_body_Inr)
    fix d1 row assume d1: "db_compositions d1 = db_compositions d" "map_of (db_compositions d) i = Some row"
      and alt: "(row_deletion_requested row \<or> c_phase (row_body row) = PhaseDestroyed) \<and>
        c' = decodeComposition row \<and> d' = d1 \<or>
     \<not> row_deletion_requested row \<and> c_phase (row_body row) \<noteq> PhaseDestroyed \<and>
        delete_one (cx_identity cx) (cx_now cx) ''requested'' ''composition.destroy'' 0
          (decodeComposition row) cx d1 = Inr (c', d')"
    have wf1: "wf_db d1" by (rule wf_db_same[OF assms(1) d1(1)])
    have row1: "map_of (db_compositions d1) i = Some row" using d1 by simp
    from alt show ?thesis
    proof (elim disjE conjE)
      assume "\<not> row_deletion_requested row" and del: "delete_one (cx_identity cx) (cx_now cx)
        ''requested'' ''composition.destroy'' 0 (decodeComposition row) cx d1 = Inr (c', d')"
      from delete_one_refines[OF wf1 row1 refl this] show ?thesis
        using desired_map_same[OF d1(1)] by auto
    qed (use wf1 desired_map_same[OF d1(1)] in auto)
  qed
qed

section \<open>Expiry\<close>

text \<open>The compositions of a list are decoded from distinct current rows that are not deleted.\<close>

definition current_rows :: "composition list \<Rightarrow> db \<Rightarrow> bool" where
  "current_rows cs d \<longleftrightarrow> distinct (map c_id cs) \<and> (\<forall>c\<in>set cs. \<exists>row.
     map_of (db_compositions d) (c_id c) = Some row \<and> c = decodeComposition row \<and>
     \<not> row_deletion_requested row)"

lemma expire_all_refines:
  assumes "wf_db d" "current_rows cs d" "expire_all now n cs cx d = Inr (u, d')"
  shows "wf_db d' \<and> desired_step\<^sup>*\<^sup>* (desired_map d) (desired_map d') \<and>
    (\<forall>i. i \<notin> c_id ` set cs \<longrightarrow> map_of (db_compositions d') i = map_of (db_compositions d) i) \<and>
    (\<forall>i\<in>c_id ` set cs. \<exists>row'. map_of (db_compositions d') i = Some row' \<and> row_deletion_requested row')"
  using assms
proof (induction cs arbitrary: n d)
  case Nil
  then show ?case by (simp add: tx_elims)
next
  case (Cons c cs)
  let ?ctx = "Some (system_identity ''expiry-controller'' ''Expiry controller'')"
  from Cons.prems(3) obtain c' d1 where one:
    "delete_one ?ctx now ''expired'' ''composition.expire'' n c cx d = Inr (c', d1)"
    "expire_all now (n + 1) cs cx d1 = Inr (u, d')" by (auto simp: tx_elims)
  from Cons.prems(2) obtain row where row: "map_of (db_compositions d) (c_id c) = Some row"
    "c = decodeComposition row" "\<not> row_deletion_requested row" by (auto simp: current_rows_def)
  note first = delete_one_refines[OF Cons.prems(1) row(1,2,3) one(1)]
  have other: "i \<noteq> c_id c \<Longrightarrow> map_of (db_compositions d1) i = map_of (db_compositions d) i" for i
    by (simp add: first(3) update_conv')
  have cur: "current_rows cs d1"
    using Cons.prems(2) other unfolding current_rows_def by (auto simp: image_iff)
  have self: "\<exists>row'. map_of (db_compositions d1) (c_id c) = Some row' \<and> row_deletion_requested row'"
    by (simp add: first(3) update_conv')
  have notin: "c_id c \<notin> c_id ` set cs" using Cons.prems(2) by (auto simp: current_rows_def)
  note IH = Cons.IH[OF first(1) cur one(2)]
  have "desired_step\<^sup>*\<^sup>* (desired_map d) (desired_map d')"
    using first(2) IH by (meson converse_rtranclp_into_rtranclp)
  moreover have "map_of (db_compositions d') i = map_of (db_compositions d) i"
    if "i \<notin> c_id ` set (c # cs)" for i using IH other[of i] that by simp
  moreover have "\<exists>row'. map_of (db_compositions d') i = Some row' \<and> row_deletion_requested row'"
    if "i \<in> c_id ` set (c # cs)" for i
    using that IH self notin by (cases "i = c_id c") auto
  ultimately show ?case using IH by blast
qed

lemma expired_rows_current:
  assumes "wf_db d"
  shows "current_rows (expired_rows now d) d"
    and "c_id ` set (expired_rows now d) =
      {i. \<exists>row. map_of (db_compositions d) i = Some row \<and> row_expired now row}"
proof -
  let ?rows = "filter (\<lambda>(i, row). row_expired now row) (db_compositions d)"
  have ids: "map c_id (expired_rows now d) = map fst ?rows"
    using assms by (auto simp: expired_rows_def wf_db_def row_ok_def list_all_iff)
  have map_of: "map_of (db_compositions d) i = Some row \<longleftrightarrow> (i, row) \<in> set (db_compositions d)" for i row
    using assms by (simp add: wf_db_def wf_map_def)
  have "distinct (map fst ?rows)"
    using assms by (simp add: wf_db_def wf_map_def distinct_map_filter)
  moreover have "\<exists>row. map_of (db_compositions d) (c_id c) = Some row \<and> c = decodeComposition row \<and>
      \<not> row_deletion_requested row" if c: "c \<in> set (expired_rows now d)" for c
  proof -
    from c obtain i row where r: "(i, row) \<in> set (db_compositions d)" "row_expired now row"
      "c = decodeComposition row" by (auto simp: expired_rows_def)
    then have "map_of (db_compositions d) i = Some row" using map_of by simp
    with wf_dbD[OF assms this] r show ?thesis by (auto simp: row_ok_def row_expired_def)
  qed
  ultimately show "current_rows (expired_rows now d) d" by (auto simp: current_rows_def ids)
  have "c_id ` set (expired_rows now d) = set (map c_id (expired_rows now d))" by simp
  also have "\<dots> = {i. \<exists>row. map_of (db_compositions d) i = Some row \<and> row_expired now row}"
    unfolding ids map_of by force
  finally show "c_id ` set (expired_rows now d) =
      {i. \<exists>row. map_of (db_compositions d) i = Some row \<and> row_expired now row}" .
qed

lemma Expire_Inr:
  assumes "Expire now cx d = (Inr u, d')"
  shows "expire_all now 0 (expired_rows now d) cx d = Inr (u, d')"
  using transaction_Inr[OF assms[unfolded Expire_def]] by (auto simp: tx_elims)

lemma Expire_refines:
  assumes "wf_db d" "Expire now cx d = (r, d')"
  shows "wf_db d' \<and> desired_step\<^sup>*\<^sup>* (desired_map d) (desired_map d')"
proof (cases r)
  case (Inl e)
  with assms have "d' = d" unfolding Expire_def by (auto dest: transaction_Inl)
  with assms show ?thesis by simp
next
  case (Inr u)
  with assms have "expire_all now 0 (expired_rows now d) cx d = Inr (u, d')" using Expire_Inr by simp
  from expire_all_refines[OF assms(1) expired_rows_current(1)[OF assms(1)] this] show ?thesis by blast
qed

section \<open>Updates and observations\<close>

lemma update_body_refines:
  assumes "wf_db d" "update_body i req op cx d = Inr (c', d')"
  obtains row where "map_of (db_compositions d) i = Some row"
    "update_allowed i req (cx_now cx) (decodeComposition row) = None"
    "c' = apply_update req op (cx_now cx) (cx_identity cx) (decodeComposition row)"
    "db_compositions d' = AList.update i (row\<lparr>row_generation := row_generation row + 1,
       row_phase := PhaseUpdating, row_body := encode_body c', row_runtime := c_runtime c'\<rparr>) (db_compositions d)"
    "wf_db d'" "desired_step (desired_map d) (desired_map d')"
proof -
  from update_body_Inr[OF assms(2)] obtain row where row: "map_of (db_compositions d) i = Some row"
    "update_allowed i req (cx_now cx) (decodeComposition row) = None"
    "c' = apply_update req op (cx_now cx) (cx_identity cx) (decodeComposition row)"
    "db_compositions d' = db_compositions (update_desired c' d)" by blast
  have ok: "row_ok i row" by (rule wf_dbD[OF assms(1) row(1)])
  let ?row = "row\<lparr>row_generation := row_generation row + 1, row_phase := PhaseUpdating,
    row_body := encode_body c', row_runtime := c_runtime c'\<rparr>"
  have id: "c_id c' = i" "c_generation c' = row_generation row + 1" "c_phase c' = PhaseUpdating"
    "c_overrides c' = ur_overrides req"
    using ok row(3) by (simp_all add: row_ok_def)
  have comps: "db_compositions d' = AList.update i ?row (db_compositions d)"
    using row(1,4) id by (simp add: update_desired_def)
  have "row_ok i ?row" using ok id by (simp add: row_ok_def)
  then have wf: "wf_db d'" by (rule wf_db_update[OF assms(1) _ comps])
  have s: "desired_of_row ?row = (desired_of_row row)\<lparr>ds_generation := ds_generation (desired_of_row row) + 1,
      ds_overrides := ur_overrides req, ds_plan := rt_plan (c_runtime c')\<rparr>"
    using id by (simp add: desired_of_row_def)
  have "\<not> row_deletion_requested row" using row(2) by (auto simp: update_allowed_def split: if_splits)
  then have "desired_step (desired_map d) (desired_map d')"
    unfolding desired_map_update[OF comps] s
    by (intro updated) (use row(1) in \<open>simp_all add: desired_map_def desired_of_row_def\<close>)
  with that row comps wf show ?thesis by blast
qed

lemma Update_cases:
  assumes "Update i req op cx d = (r, d')"
  shows "d' = d \<or> (\<exists>c'. r = Inr c' \<and> update_replay i req cx d = None \<and>
    update_body i req op cx d = Inr (c', d'))"
proof -
  from assms consider "d' = d"
    | "update_replay i req cx d = None" "commit_tx ''commit update'' (update_body i req op) cx d = (r, d')"
    by (auto simp: Update_def split: sum.splits option.splits)
  then show ?thesis
  proof cases
    case 2
    then show ?thesis
      using commit_tx_Inl[where m = "update_body i req op"] commit_tx_Inr[where m = "update_body i req op"]
      by (cases r) blast+
  qed simp
qed

lemma Update_refines:
  assumes "wf_db d" "Update i req op cx d = (r, d')"
  shows "wf_db d' \<and> desired_step\<^sup>*\<^sup>* (desired_map d) (desired_map d')"
  using Update_cases[OF assms(2)]
proof (elim disjE exE conjE)
  fix c' assume "update_body i req op cx d = Inr (c', d')"
  then show ?thesis by (rule update_body_refines[OF assms(1)]) blast
qed (use assms in simp)

lemma SaveObservation_wf:
  assumes "wf_db d" "SaveObservation c cx d = (r, d')"
  shows "wf_db d'"
proof (cases r)
  case (Inl e)
  with assms show ?thesis unfolding SaveObservation_def Let_def by (auto dest: transaction_Inl)
next
  case (Inr u)
  with assms(2) obtain row where row: "map_of (db_compositions d) (c_id c) = Some row"
    "row_generation row = c_generation c"
    and comps: "db_compositions d' = AList.update (c_id c) (row\<lparr>row_phase := c_phase c,
      row_body := encode_body (c\<lparr>c_updated_at := cx_now cx\<rparr>), row_runtime := c_runtime c\<rparr>) (db_compositions d)"
    using SaveObservation_Inr by blast
  have "row_ok (c_id c) row" by (rule wf_dbD[OF assms(1) row(1)])
  then show ?thesis using row by (intro wf_db_update[OF assms(1) _ comps]) (simp add: row_ok_def)
qed

end
