(* ===== verification/Store_Props.thy ===== *)
theory Store_Props
  imports Desired
begin

text \<open>
  Runs of the store and what they preserve: operations of the API, the expiry sweep and the
  saves of the reconciler interleave in any order, each one atomic.
\<close>

section \<open>Runs\<close>

datatype store_op =
    Op_Create composition string string nat
  | Op_Update string update_request string
  | Op_Destroy string
  | Op_Expire time
  | Op_Observe composition

fun exec :: "store_op \<Rightarrow> call \<Rightarrow> db \<Rightarrow> db" where
  "exec (Op_Create c key hash n) cx d = snd (Create c key hash n cx d)"
| "exec (Op_Update i req op) cx d = snd (Update i req op cx d)"
| "exec (Op_Destroy i) cx d = snd (Destroy i cx d)"
| "exec (Op_Expire now) cx d = snd (Expire now cx d)"
| "exec (Op_Observe c) cx d = snd (SaveObservation c cx d)"

fun run :: "(store_op \<times> call) list \<Rightarrow> db \<Rightarrow> db" where
  "run [] d = d"
| "run ((op, cx) # ops) d = run ops (exec op cx d)"

text \<open>The reconciler keeps the intent it read: it never edits overrides or plan.\<close>

fun honest :: "store_op \<Rightarrow> db \<Rightarrow> bool" where
  "honest (Op_Observe c) d = (\<forall>s. desired_map d (c_id c) = Some s \<longrightarrow>
     c_generation c = ds_generation s \<longrightarrow> keeps_intent c s)"
| "honest op d = True"

fun honest_run :: "(store_op \<times> call) list \<Rightarrow> db \<Rightarrow> bool" where
  "honest_run [] d = True"
| "honest_run ((op, cx) # ops) d = (honest op d \<and> honest_run ops (exec op cx d))"

lemma exec_wf: "wf_db d \<Longrightarrow> wf_db (exec op cx d)"
  by (cases op) (metis exec.simps prod.collapse Create_refines Update_refines Destroy_refines
      Expire_refines SaveObservation_wf)+

lemma run_wf: "wf_db d \<Longrightarrow> wf_db (run ops d)"
  by (induction ops d rule: run.induct) (simp_all add: exec_wf)

lemma observe_desired:
  assumes "honest (Op_Observe c) d"
  shows "desired_map (exec (Op_Observe c) cx d) = desired_map d"
proof -
  have "desired_map (fold (\<lambda>c d. snd (save_result (SaveObservation c cx d))) [c] d) = desired_map d"
    by (rule obs.saves_keep_desired) (use assms in auto)
  then show ?thesis by (simp add: save_result_def split: sum.splits)
qed

lemma exec_refines:
  assumes "wf_db d" "honest op d"
  shows "desired_step\<^sup>*\<^sup>* (desired_map d) (desired_map (exec op cx d))"
proof (cases op)
  case (Op_Create c key hash n)
  then show ?thesis using Create_refines[OF assms(1)] by (metis exec.simps(1) prod.collapse)
next
  case (Op_Update i req op')
  then show ?thesis using Update_refines[OF assms(1)] by (metis exec.simps(2) prod.collapse)
next
  case (Op_Destroy i)
  then show ?thesis using Destroy_refines[OF assms(1)] by (metis exec.simps(3) prod.collapse)
next
  case (Op_Expire now)
  then show ?thesis using Expire_refines[OF assms(1)] by (metis exec.simps(4) prod.collapse)
next
  case (Op_Observe c)
  with assms(2) show ?thesis using observe_desired[of c d cx] by simp
qed

lemma run_refines:
  assumes "wf_db d" "honest_run ops d"
  shows "desired_step\<^sup>*\<^sup>* (desired_map d) (desired_map (run ops d))"
  using assms
proof (induction ops d rule: run.induct)
  case (2 op cx ops d)
  from "2.prems" have "desired_step\<^sup>*\<^sup>* (desired_map d) (desired_map (exec op cx d))"
    using exec_refines by simp
  with "2.IH"[OF exec_wf[OF "2.prems"(1)]] "2.prems"(2) show ?case by simp
qed simp

text \<open>Without any assumption on the observer: the columns that fence it only grow.\<close>

definition row_grows :: "composition_row \<Rightarrow> composition_row \<Rightarrow> bool" where
  "row_grows row row' \<longleftrightarrow>
     row_generation row \<le> row_generation row' \<and>
     (row_deletion_requested row \<longrightarrow> row_deletion_requested row' \<and> row_generation row' = row_generation row) \<and>
     row_expires_at row' = row_expires_at row \<and> row_project row' = row_project row"

lemma row_grows_refl [simp]: "row_grows row row"
  by (simp add: row_grows_def)

lemma row_grows_trans: "row_grows a b \<Longrightarrow> row_grows b c \<Longrightarrow> row_grows a c"
  by (auto simp: row_grows_def)

lemma desired_steps_row_grows:
  assumes "desired_step\<^sup>*\<^sup>* (desired_map d) (desired_map d')"
    and "map_of (db_compositions d) i = Some row"
  shows "\<exists>row'. map_of (db_compositions d') i = Some row' \<and> row_grows row row'"
  using desired_steps_grow[OF assms(1), of i "desired_of_row row"] assms(2)
  by (auto simp: desired_map_def grows_def row_grows_def desired_of_row_def)

lemma exec_row_grows:
  assumes "wf_db d" "map_of (db_compositions d) i = Some row"
  shows "\<exists>row'. map_of (db_compositions (exec op cx d)) i = Some row' \<and> row_grows row row'"
proof (cases "\<exists>c. op = Op_Observe c")
  case False
  then have "honest op d" by (cases op) auto
  from desired_steps_row_grows[OF exec_refines[OF assms(1) this] assms(2)] show ?thesis .
next
  case True
  then obtain c where c: "op = Op_Observe c" by blast
  show ?thesis
  proof (cases "fst (SaveObservation c cx d)")
    case (Inl e)
    then have "snd (SaveObservation c cx d) = d"
      unfolding SaveObservation_def Let_def by (metis prod.collapse transaction_Inl)
    with c assms(2) show ?thesis by simp
  next
    case (Inr u)
    then have "SaveObservation c cx d = (Inr u, snd (SaveObservation c cx d))" by (metis prod.collapse)
    from SaveObservation_Inr[OF this] c assms(2) show ?thesis
      by (cases "c_id c = i") (auto simp: update_conv' row_grows_def)
  qed
qed

lemma run_row_grows:
  assumes "wf_db d" "map_of (db_compositions d) i = Some row"
  shows "\<exists>row'. map_of (db_compositions (run ops d)) i = Some row' \<and> row_grows row row'"
  using assms
proof (induction ops d arbitrary: row rule: run.induct)
  case (2 op cx ops d)
  from exec_row_grows[OF "2.prems"] obtain r where
    "map_of (db_compositions (exec op cx d)) i = Some r" "row_grows row r" by blast
  with "2.IH"[OF exec_wf[OF "2.prems"(1)]] show ?case using row_grows_trans by fastforce
qed simp

section \<open>Complete history\<close>

text \<open>
  Compositions start at generation 1. Every generation a composition has had is recorded as one
  revision, and no other generation is.
\<close>

definition history_complete :: "db \<Rightarrow> bool" where
  "history_complete d \<longleftrightarrow> (\<forall>i g. map_of (db_revisions d) (i, g) \<noteq> None \<longleftrightarrow>
     (\<exists>row. map_of (db_compositions d) i = Some row \<and> 1 \<le> g \<and> g \<le> row_generation row))"

lemma history_keep:
  assumes "history_complete d" "db_revisions d' = db_revisions d"
    and "\<And>i. map_option row_generation (map_of (db_compositions d') i) =
      map_option row_generation (map_of (db_compositions d) i)"
  shows "history_complete d'"
proof -
  have "(\<exists>row. map_of (db_compositions d') i = Some row \<and> 1 \<le> g \<and> g \<le> row_generation row) \<longleftrightarrow>
      (\<exists>row. map_of (db_compositions d) i = Some row \<and> 1 \<le> g \<and> g \<le> row_generation row)" for i g
    using assms(3)[of i]
    by (cases "map_of (db_compositions d) i"; cases "map_of (db_compositions d') i") auto
  with assms(1,2) show ?thesis by (simp add: history_complete_def)
qed

lemma history_next:
  assumes "history_complete d" "wf_db d"
    and "db_revisions d' = db_revisions (add_revision r d)"
    and "rv_composition r = i" "rv_generation r = row_generation row'"
    and "row_generation row' = (case map_of (db_compositions d) i of None \<Rightarrow> 1 | Some row \<Rightarrow> row_generation row + 1)"
    and "map_of (db_compositions d') = (map_of (db_compositions d))(i \<mapsto> row')"
  shows "history_complete d'"
proof -
  have pos: "map_of (db_compositions d) i = Some row \<Longrightarrow> 1 \<le> row_generation row" for row
    using wf_dbD[OF assms(2), of i row] unfolding row_ok_def by blast
  have new: "map_of (db_revisions d) (i, row_generation row') = None"
  proof -
    have "\<not> (\<exists>row. map_of (db_compositions d) i = Some row \<and> 1 \<le> row_generation row' \<and>
        row_generation row' \<le> row_generation row)"
      using assms(6) by (auto split: option.splits)
    with assms(1) show ?thesis unfolding history_complete_def by blast
  qed
  have "map_of (db_revisions d') (j, g) \<noteq> None \<longleftrightarrow>
      map_of (db_revisions d) (j, g) \<noteq> None \<or> j = i \<and> g = row_generation row'" for j g
    using assms(3-5) new by (auto simp: add_revision_def map_add_def split: option.splits)
  moreover have "(\<exists>row. map_of (db_compositions d') j = Some row \<and> 1 \<le> g \<and> g \<le> row_generation row) \<longleftrightarrow>
      (\<exists>row. map_of (db_compositions d) j = Some row \<and> 1 \<le> g \<and> g \<le> row_generation row) \<or>
      j = i \<and> g = row_generation row'" for j g
    using assms(6,7) pos by (auto split: option.splits)
  ultimately show ?thesis using assms(1) unfolding history_complete_def by simp
qed

text \<open>Compositions are created at generation 1, as \<open>Service.Create\<close> does.\<close>

fun fresh_creates :: "store_op \<Rightarrow> bool" where
  "fresh_creates (Op_Create c key hash n) = (c_generation c = 1)"
| "fresh_creates op = True"

lemma delete_one_history:
  assumes "wf_db d" "history_complete d" "map_of (db_compositions d) i = Some row"
    and "c = decodeComposition row" "\<not> row_deletion_requested row"
    and "delete_one ctx now reason action n c cx d = Inr (c', d')"
  shows "history_complete d'"
proof -
  note eff = delete_one_refines[OF assms(1,3,4,5,6)]
  from delete_one_Inr[OF assms(6)] obtain bytes where c':
    "c' = set_initiator ctx (deletion_requested now reason bytes c)"
    and rev: "db_revisions d' = db_revisions (add_revision (revision_of (activityIdentity ctx) (cx_now cx) c') d)"
    by blast
  have ok: "row_ok i row" by (rule wf_dbD[OF assms(1,3)])
  then have "c_id c' = i" "c_generation c' = row_generation row + 1"
    using c' assms(4) by (simp_all add: row_ok_def)
  then show ?thesis
    by (intro history_next[OF assms(2,1) rev, of i "row\<lparr>row_generation := row_generation row + 1,
      row_deletion_requested := True, row_phase := PhaseDestroying, row_body := encode_body c',
      row_runtime := c_runtime c'\<rparr>"])
      (simp_all add: revision_of_def assms(3) eff(3) update_conv')
qed

lemma expire_all_history:
  assumes "wf_db d" "history_complete d" "current_rows cs d" "expire_all now n cs cx d = Inr (u, d')"
  shows "history_complete d'"
  using assms
proof (induction cs arbitrary: n d)
  case Nil
  then show ?case by (simp add: tx_elims)
next
  case (Cons c cs)
  let ?ctx = "Some (system_identity ''expiry-controller'' ''Expiry controller'')"
  from Cons.prems(4) obtain c' d1 where one:
    "delete_one ?ctx now ''expired'' ''composition.expire'' n c cx d = Inr (c', d1)"
    "expire_all now (n + 1) cs cx d1 = Inr (u, d')" by (auto simp: tx_elims)
  from Cons.prems(3) obtain row where row: "map_of (db_compositions d) (c_id c) = Some row"
    "c = decodeComposition row" "\<not> row_deletion_requested row" by (auto simp: current_rows_def)
  note first = delete_one_refines[OF Cons.prems(1) row(1,2,3) one(1)]
  have "current_rows cs d1"
    using Cons.prems(3) unfolding current_rows_def by (auto simp: image_iff first(3) update_conv')
  with Cons.IH[OF first(1) _ _ one(2)] show ?case
    using delete_one_history[OF Cons.prems(1,2) row(1,2,3) one(1)] by blast
qed

lemma Create_history:
  assumes "wf_db d" "history_complete d" "c_generation c = 1" "Create c key hash n cx d = (r, d')"
  shows "history_complete d'"
  using Create_cases[OF assms(4)]
proof (elim disjE exE conjE)
  fix c' assume new: "c_generation c' = c_generation c" "\<not> has_key (db_compositions d) (c_id c')"
    "create_body c' key hash n cx d = Inr (c', d')" "db_compositions d' = db_compositions d @ [(c_id c', row_of c')]"
  obtain ident now where rev: "db_revisions d' = db_revisions (add_revision (revision_of ident now c') d)"
    using create_body_Inr[OF new(3)] by blast
  have none: "map_of (db_compositions d) (c_id c') = None" using new(2) by (simp add: has_key_def)
  show ?thesis
    by (rule history_next[OF assms(2,1) rev, of "c_id c'" "row_of c'"])
      (use new(1,4) assms(3) none in \<open>auto simp: revision_of_def row_of_def map_add_def fun_eq_iff
          split: option.splits\<close>)
qed (use assms in simp)

lemma Update_history:
  assumes "wf_db d" "history_complete d" "Update i req op cx d = (r, d')"
  shows "history_complete d'"
  using Update_cases[OF assms(3)]
proof (elim disjE exE conjE)
  fix c' assume body: "update_body i req op cx d = Inr (c', d')"
  from update_body_Inr[OF body] obtain ctx now where rev:
    "db_revisions d' = db_revisions (add_revision (revision_of (activityIdentity ctx) now c') d)" by blast
  show ?thesis using body
  proof (rule update_body_refines[OF assms(1)])
    fix row assume row: "map_of (db_compositions d) i = Some row"
      "c' = apply_update req op (cx_now cx) (cx_identity cx) (decodeComposition row)"
      "db_compositions d' = AList.update i (row\<lparr>row_generation := row_generation row + 1,
         row_phase := PhaseUpdating, row_body := encode_body c', row_runtime := c_runtime c'\<rparr>) (db_compositions d)"
    have "c_id c' = i" "c_generation c' = row_generation row + 1"
      using row(2) wf_dbD[OF assms(1) row(1)] by (simp_all add: row_ok_def)
    then show ?thesis
      by (intro history_next[OF assms(2,1) rev, of i "row\<lparr>row_generation := row_generation row + 1,
         row_phase := PhaseUpdating, row_body := encode_body c', row_runtime := c_runtime c'\<rparr>"])
        (simp_all add: revision_of_def row(1,3) update_conv')
  qed
qed (use assms in simp)

lemma Destroy_history:
  assumes "wf_db d" "history_complete d" "Destroy i cx d = (r, d')"
  shows "history_complete d'"
proof (cases r)
  case (Inl e)
  with assms have "d' = d" unfolding Destroy_def using transaction_Inl[where m = "destroy_body i"] by blast
  with assms show ?thesis by simp
next
  case (Inr c')
  with assms have body: "destroy_body i cx d = Inr (c', d')"
    unfolding Destroy_def using transaction_Inr[where m = "destroy_body i"] by blast
  then show ?thesis
  proof (rule destroy_body_Inr)
    fix d1 row assume d1: "db_compositions d1 = db_compositions d" "db_revisions d1 = db_revisions d"
      and row: "map_of (db_compositions d) i = Some row"
      and alt: "(row_deletion_requested row \<or> c_phase (row_body row) = PhaseDestroyed) \<and>
        c' = decodeComposition row \<and> d' = d1 \<or>
     \<not> row_deletion_requested row \<and> c_phase (row_body row) \<noteq> PhaseDestroyed \<and>
        delete_one (cx_identity cx) (cx_now cx) ''requested'' ''composition.destroy'' 0
          (decodeComposition row) cx d1 = Inr (c', d')"
    have h1: "history_complete d1" by (rule history_keep[OF assms(2) d1(2)]) (simp add: d1(1))
    from alt show ?thesis
      using h1 delete_one_history[OF wf_db_same[OF assms(1) d1(1)] h1, of i row] d1(1) row by auto
  qed
qed

lemma exec_history:
  assumes "wf_db d" "history_complete d" "fresh_creates op"
  shows "history_complete (exec op cx d)"
proof (cases op)
  case (Op_Create c key hash n)
  with assms show ?thesis using Create_history[OF assms(1,2)] by (metis exec.simps(1) fresh_creates.simps(1) prod.collapse)
next
  case (Op_Update i req op')
  with assms show ?thesis using Update_history[OF assms(1,2)] by (metis exec.simps(2) prod.collapse)
next
  case (Op_Destroy i)
  with assms show ?thesis using Destroy_history[OF assms(1,2)] by (metis exec.simps(3) prod.collapse)
next
  case (Op_Expire now)
  show ?thesis
  proof (cases "Expire now cx d")
    case (Pair r d')
    show ?thesis
    proof (cases r)
      case (Inl e)
      with Pair have "d' = d" unfolding Expire_def by (auto dest: transaction_Inl)
      with Pair Op_Expire assms(2) show ?thesis by simp
    next
      case (Inr u)
      with Pair have "expire_all now 0 (expired_rows now d) cx d = Inr (u, d')" using Expire_Inr by simp
      from expire_all_history[OF assms(1,2) expired_rows_current(1)[OF assms(1)] this] Pair Op_Expire
      show ?thesis by simp
    qed
  qed
next
  case (Op_Observe c)
  show ?thesis
  proof (cases "SaveObservation c cx d")
    case (Pair r d')
    show ?thesis
    proof (cases r)
      case (Inl e)
      with Pair have "d' = d" unfolding SaveObservation_def Let_def by (auto dest: transaction_Inl)
      with Pair Op_Observe assms(2) show ?thesis by simp
    next
      case (Inr u)
      from SaveObservation_Inr[OF Pair[unfolded Inr]] have "history_complete d'"
        by (auto intro!: history_keep[OF assms(2)] simp: update_conv')
      with Pair Op_Observe show ?thesis by simp
    qed
  qed
qed

section \<open>Idempotency keys\<close>

lemma keeps_idempotency_bodies:
  "keeps db_idempotency (delete_one ctx now reason action n c)"
  "keeps db_idempotency (destroy_body i)"
  "keeps db_idempotency (expire_all now n cs)"
  "keeps db_idempotency (update_body i req op)"
  "keeps db_idempotency (observation_body c)"
proof -
  have basic: "keeps db_idempotency (requestDeletion now reason n c)"
    "keeps db_idempotency (writeDeletion c)" "keeps db_idempotency (read_composition a i)"
    "keeps db_idempotency (update_observation c)"
    "keeps db_idempotency (tx_write (update_desired c))" for now reason n c a i
    by (auto simp: keeps_def tx_elims requestDeletion_def writeDeletion_def saveOperation_def
        update_deletion_def update_desired_def read_composition_def update_observation_def
        split: option.splits if_splits)
  show del: "keeps db_idempotency (delete_one ctx now reason action n c)" for ctx now reason action n c
    unfolding delete_one_def Let_def by (intro frame basic)
  show "keeps db_idempotency (destroy_body i)"
    unfolding destroy_body_def by (auto intro!: frame basic del)
  show "keeps db_idempotency (expire_all now n cs)"
    by (induction cs arbitrary: n) (auto intro!: frame del)
  show "keeps db_idempotency (update_body i req op)"
    unfolding update_body_def Let_def
    by (auto intro!: frame basic split: option.splits)
  show "keeps db_idempotency (observation_body c)"
    unfolding observation_body_def Let_def by (auto intro!: frame basic)
qed

lemma transaction_keeps:
  assumes "keeps sel m"
  shows "sel (snd (transaction b l m cx d)) = sel d"
proof (cases "transaction b l m cx d")
  case (Pair r d')
  then show ?thesis
    using assms transaction_Inl[of b l m cx d] transaction_Inr[of b l m cx d]
    by (cases r) (auto simp: keeps_def)
qed

lemma create_body_key:
  assumes "create_body c key hash n cx d = Inr (r, d')" "create_replay key hash cx d = None"
  shows "map_of (db_idempotency d') k =
    (if key \<noteq> [] \<and> k = key then Some (hash, c_id c) else map_of (db_idempotency d) k)"
proof -
  from assms(1) obtain d1 d2 d3 d4 d5 d6 ctx where steps:
    "validateBuildOverrides (c_project c) (c_overrides c) cx d = Inr ((), d1)"
    "insert_composition c cx d1 = Inr ((), d2)" "insert_key key hash (c_id c) cx d2 = Inr ((), d3)"
    "link_preview (c_id c) cx d3 = Inr ((), d4)" "saveOperation c cx d4 = Inr ((), d5)"
    "insertRevision ctx c cx d5 = Inr ((), d6)"
    "insertActivity ctx (composition_activity ''composition.create'' ''accepted'' c 0) cx d6 = Inr ((), d')"
    by (auto simp: create_body_def tx_elims split: if_splits)
  have tables: "db_idempotency d1 = db_idempotency d" "db_idempotency d4 = db_idempotency d3"
    "db_idempotency d5 = db_idempotency d4" "db_idempotency d6 = db_idempotency d5"
    "db_idempotency d' = db_idempotency d6"
    by (rule keeps_idempotency[THEN keepsD] keeps_builds[THEN keepsD], rule steps)+
  have "db_idempotency d2 = db_idempotency d1"
    using steps(2) by (auto simp: insert_composition_def tx_elims split: if_splits)
  then show ?thesis
    using steps(3) tables
    by (auto simp: insert_key_def tx_elims has_key_def map_add_def split: if_splits option.splits)
qed

lemma exec_keeps_key:
  assumes "map_of (db_idempotency d) k = Some v"
  shows "map_of (db_idempotency (exec op cx d)) k = Some v"
proof (cases op)
  case (Op_Create c key hash n)
  show ?thesis
  proof (cases "Create c key hash n cx d")
    case (Pair r d')
    from Create_cases[OF Pair] show ?thesis
    proof (elim disjE exE conjE)
      fix c' assume body: "create_body c' key hash n cx d = Inr (c', d')" "create_replay key hash cx d = None"
      have "key = [] \<or> map_of (db_idempotency d) key = None"
        using body(2) by (auto simp: create_replay_def split: if_splits option.splits)
      with create_body_key[OF body] assms Pair Op_Create show ?thesis by auto
    qed (use assms Pair Op_Create in simp)
  qed
next
  case (Op_Update i req op')
  show ?thesis
  proof (cases "Update i req op' cx d")
    case (Pair r d')
    with Update_cases[OF Pair] keeps_idempotency_bodies(4)[THEN keepsD] assms Op_Update
    show ?thesis by fastforce
  qed
next
  case (Op_Destroy i)
  with assms transaction_keeps[OF keeps_idempotency_bodies(2)] show ?thesis by (simp add: Destroy_def)
next
  case (Op_Expire now)
  have "keeps db_idempotency (tx_bind (attempt ''scan expired compositions'' (tx_read (expired_rows now)))
      (expire_all now 0))"
    by (intro frame keeps_idempotency_bodies)
  from transaction_keeps[OF this] Op_Expire assms show ?thesis by (simp add: Expire_def)
next
  case (Op_Observe c)
  with assms transaction_keeps[OF keeps_idempotency_bodies(5)] show ?thesis
    by (simp add: SaveObservation_def Let_def)
qed

lemma run_keeps_key:
  "map_of (db_idempotency d) k = Some v \<Longrightarrow> map_of (db_idempotency (run ops d)) k = Some v"
  by (induction ops d rule: run.induct) (auto simp: exec_keeps_key)

section \<open>A sample database\<close>

definition demo_call :: call where
  "demo_call = \<lparr>cx_identity = None, cx_claim = None, cx_now = 100, cx_random = (\<lambda>n. Some ''bytes''),
     cx_fault = None\<rparr>"

definition demo_composition :: composition where
  "demo_composition = zero_composition
     \<lparr>c_id := ''c1'', c_project := ''demo'', c_baseline := ''staging'', c_generation := 1,
      c_phase := PhaseReady, c_expires_at := 1000,
      c_latest_operation := zero_operation\<lparr>op_id := ''op1'', op_kind := ''create''\<rparr>\<rparr>"

definition demo_db :: db where
  "demo_db = empty_db\<lparr>db_compositions := [(''c1'', row_of demo_composition)],
     db_idempotency := [(''k1'', ''h1'', ''c1'')]\<rparr>"

lemma demo_db_wf: "wf_db demo_db"
  by (simp add: wf_db_def demo_db_def empty_db_def wf_map_def row_ok_def row_of_def demo_composition_def)

lemma demo_row: "map_of (db_compositions demo_db) ''c1'' = Some (row_of demo_composition)"
  by (simp add: demo_db_def)

lemma demo_db_saved: "map_of (db_compositions demo_db) (c_id demo_composition) = Some (row_of demo_composition)"
  by (simp add: demo_db_def demo_composition_def)

text \<open>A save that the fence admits succeeds when the database answers.\<close>

lemma SaveObservation_accepts:
  assumes "map_of (db_compositions d) (c_id c) = Some row"
    and "row_generation row = c_generation c" "row_deletion_requested row = c_deletion_requested c"
    and "cx_fault cx = None"
  shows "\<exists>d'. SaveObservation c cx d = (Inr (), d')"
proof -
  have verification: "\<exists>d'. saveVerification c' cx d = Inr ((), d')" for c' d
    by (simp add: saveVerification_def Let_def split: option.splits)
  have "\<exists>d1. update_observation (c\<lparr>c_updated_at := cx_now cx\<rparr>) cx d = Inr ((), d1)"
    using assms by (simp add: update_observation_def attempt_def)
  moreover have "\<exists>d'. saveOperation c' cx d = Inr ((), d')" "\<exists>d'. insertActivity ctx a cx d = Inr ((), d')"
    for c' d ctx a
    using assms(4) by (simp_all add: saveOperation_def insertActivity_def attempt_def tx_write_def Let_def)
  ultimately have "\<exists>d'. observation_body (c\<lparr>c_updated_at := cx_now cx\<rparr>) cx d = Inr ((), d')"
    unfolding observation_body_def tx_seq_Inr Let_def
    using verification by (auto simp: tx_return_def; meson)
  then show ?thesis
    using assms(4) by (auto simp: SaveObservation_def transaction_def commit_tx_def attempt_def)
qed

section \<open>Properties\<close>

text \<open>
  C4: Every operation of the store refines the abstract machine of desired states: it leaves
  the desired states as they are, or adds one, or replaces the live one of an identifier by an
  update or a deletion that raises its generation by one. An observation that keeps the intent
  it read changes no desired state. The table of compositions stays well formed.
\<close>

theorem store_refines_contract:
  assumes "wf_db d" "honest op d"
  shows "desired_step\<^sup>*\<^sup>* (desired_map d) (desired_map (exec op cx d)) \<and> wf_db (exec op cx d)"
  using exec_refines[OF assms] exec_wf[OF assms(1)] by blast

lemma store_refines_contract_witness:
  "wf_db (exec (Op_Destroy ''c1'') demo_call demo_db) \<and> honest (Op_Destroy ''c1'') demo_db"
  using store_refines_contract[OF demo_db_wf, of "Op_Destroy ''c1''" demo_call] by simp

text \<open>
  C34: In every interleaving of creations, updates, deletions, expiry sweeps and observations,
  even observations that a misbehaving observer makes up, a composition never disappears, its
  generation never decreases, its expiry never changes, and once its deletion is requested the
  mark and the generation stay for good.
\<close>

theorem generation_monotone:
  assumes "wf_db d" "map_of (db_compositions d) i = Some row"
  shows "\<exists>row'. map_of (db_compositions (run ops d)) i = Some row' \<and>
    row_generation row \<le> row_generation row' \<and> row_expires_at row' = row_expires_at row \<and>
    (row_deletion_requested row \<longrightarrow>
       row_deletion_requested row' \<and> row_generation row' = row_generation row)"
  using run_row_grows[OF assms] by (auto simp: row_grows_def)

lemma generation_monotone_witness:
  "\<exists>row'. map_of (db_compositions (run [(Op_Destroy ''c1'', demo_call)] demo_db)) ''c1'' = Some row' \<and>
    1 \<le> row_generation row'"
  using generation_monotone[OF demo_db_wf demo_row, of "[(Op_Destroy ''c1'', demo_call)]"]
  by (auto simp: row_of_def demo_composition_def)

text \<open>
  C3: No lost update. A reconciler that read a composition and saves an observation of that
  generation, after any operations in between, is accepted only if the desired state is still
  the one it read; and the save leaves every desired state as it is.
\<close>

theorem observation_never_reverts_intent:
  assumes "wf_db d" "honest_run ops d"
    and "map_of (db_compositions d) (c_id c) = Some row"
    and "c_generation c = row_generation row" "keeps_intent c (desired_of_row row)"
    and "SaveObservation c cx (run ops d) = (Inr u, d')"
  shows "desired_map (run ops d) (c_id c) = Some (desired_of_row row) \<and>
    desired_map d' = desired_map (run ops d)"
proof -
  have saved: "save_result (SaveObservation c cx (run ops d)) = (None, d')"
    using assms(6) by (simp add: save_result_def)
  have "desired_map (run ops d) (c_id c) = Some (desired_of_row row)"
    by (rule obs.save_after_change[OF run_refines[OF assms(1,2)] _ _ saved])
      (use assms(3,4) in \<open>simp_all add: desired_map_def desired_of_row_def\<close>)
  with obs.save_intent[OF saved this assms(5)] show ?thesis by simp
qed

lemma observation_never_reverts_intent_witness:
  "desired_map (snd (SaveObservation demo_composition demo_call demo_db)) = desired_map demo_db"
proof -
  have "\<exists>d'. SaveObservation demo_composition demo_call demo_db = (Inr (), d')"
    by (rule SaveObservation_accepts[OF demo_db_saved]) (simp_all add: demo_call_def row_of_def)
  then have "SaveObservation demo_composition demo_call (run [] demo_db) =
      (Inr (), snd (SaveObservation demo_composition demo_call demo_db))" by fastforce
  from observation_never_reverts_intent[OF demo_db_wf _ demo_db_saved _ _ this]
  show ?thesis by (simp add: row_of_def keeps_intent_def desired_of_row_def)
qed

text \<open>
  The fence. When the stored generation or deletion mark is not the one an observation was
  made for, saving it fails with \<open>ErrStaleObservation\<close> and writes nothing.
\<close>

theorem stale_observation_rejected:
  assumes "map_of (db_compositions d) (c_id c) = Some row" "cx_fault cx = None"
    and "row_generation row \<noteq> c_generation c \<or> row_deletion_requested row \<noteq> c_deletion_requested c"
  shows "SaveObservation c cx d = (Inl ErrStaleObservation, d)"
  using assms
  by (auto simp: SaveObservation_def transaction_def commit_tx_def attempt_def observation_body_def
      tx_seq_def tx_bind_def update_observation_def Let_def)

lemma stale_observation_rejected_witness:
  "SaveObservation (demo_composition\<lparr>c_generation := 7\<rparr>) demo_call demo_db = (Inl ErrStaleObservation, demo_db)"
  by (rule stale_observation_rejected[of _ _ "row_of demo_composition"])
    (simp_all add: demo_db_def demo_composition_def demo_call_def row_of_def)

text \<open>
  The history of a database that started empty is complete and exact: after any run in
  which compositions are created at generation 1, a revision of a composition is recorded for
  every generation from 1 to its current one, and for no other.
\<close>

theorem revision_history_complete:
  assumes "list_all (\<lambda>(op, cx). fresh_creates op) ops"
  shows "(map_of (db_revisions (run ops empty_db)) (i, g) \<noteq> None) =
    (\<exists>row. map_of (db_compositions (run ops empty_db)) i = Some row \<and> 1 \<le> g \<and> g \<le> row_generation row)"
proof -
  have "wf_db d \<Longrightarrow> history_complete d \<Longrightarrow> list_all (\<lambda>(op, cx). fresh_creates op) ops \<Longrightarrow>
      history_complete (run ops d)" for d
    by (induction ops d rule: run.induct) (simp_all add: exec_wf exec_history)
  moreover have "history_complete empty_db" by (simp add: history_complete_def empty_db_def)
  ultimately have "history_complete (run ops empty_db)" using assms wf_db_empty by blast
  then show ?thesis by (simp add: history_complete_def)
qed

lemma revision_history_complete_witness:
  "map_of (db_revisions (run [(Op_Create demo_composition [] [] 5, demo_call)] empty_db)) (''c1'', 1) \<noteq> None"
proof -
  have "list_all (\<lambda>(op, cx). fresh_creates op) [(Op_Create demo_composition [] [] 5, demo_call)]"
    by (simp add: demo_composition_def)
  note recorded = revision_history_complete[OF this, of "''c1''" 1]
  have "\<exists>row. map_of (db_compositions (run [(Op_Create demo_composition [] [] 5, demo_call)] empty_db)) ''c1'' =
      Some row \<and> (1::int) \<le> 1 \<and> 1 \<le> row_generation row"
    by (simp add: Create_def Let_def demo_call_def attempt_def tx_seq_def tx_bind_def guardPRPreview_def
        owner_of_def empty_db_def create_replay_def commit_tx_def create_body_def validateBuildOverrides_def
        demo_composition_def zero_composition_def OverrideNames_def tx_return_def tx_read_def tx_call_def
        count_active_def insert_composition_def insert_key_def link_preview_def saveOperation_def tx_write_def
        insertRevision_def insertActivity_def row_of_def encode_body_def)
  with recorded show ?thesis by blast
qed

text \<open>
  Capacity. A creation that stores a composition does so only below the limit, so at most
  \<open>n\<close> compositions are live afterwards; it is stored under its own identifier exactly as given.
\<close>

theorem create_respects_capacity:
  assumes "Create c key hash n cx d = (Inr c', d')" "create_replay key hash cx d = None"
  shows "count_active d' \<le> n \<and> (\<exists>row. map_of (db_compositions d') (c_id c) = Some row \<and>
    row_generation row = c_generation c \<and> c_overrides (row_body row) = c_overrides c)"
proof -
  define c1 where "c1 = (case cx_claim cx of None \<Rightarrow> c | Some claim \<Rightarrow> c\<lparr>c_pr_preview_id := cl_id claim\<rparr>)"
  have sel: "c_id c1 = c_id c" "c_overrides c1 = c_overrides c" "c_generation c1 = c_generation c"
    by (simp_all add: c1_def split: option.splits)
  have "commit_tx ''commit composition'' (create_body c1 key hash n) cx d = (Inr c', d')"
    using assms by (auto simp: Create_def c1_def[symmetric] Let_def split: sum.splits)
  from create_body_Inr[OF commit_tx_Inr[where m = "create_body c1 key hash n", OF this]]
  have eff: "\<not> has_key (db_compositions d) (c_id c1)" "count_active d < n"
    "db_compositions d' = db_compositions d @ [(c_id c1, row_of c1)]" by auto
  have "count_active d' \<le> Suc (count_active d)" by (simp add: count_active_def eff(3))
  moreover have "map_of (db_compositions d') (c_id c) = Some (row_of c1)"
    using eff(1,3) sel by (simp add: has_key_def map_add_def)
  ultimately show ?thesis using eff(2) sel by (simp add: row_of_def)
qed

lemma demo_create:
  "Create demo_composition [] [] 5 demo_call empty_db =
     (Inr demo_composition, snd (Create demo_composition [] [] 5 demo_call empty_db))"
  by (simp add: Create_def Let_def demo_call_def attempt_def tx_seq_def tx_bind_def guardPRPreview_def
      owner_of_def empty_db_def create_replay_def commit_tx_def create_body_def validateBuildOverrides_def
      demo_composition_def zero_composition_def OverrideNames_def tx_return_def tx_read_def tx_call_def
      count_active_def insert_composition_def insert_key_def link_preview_def saveOperation_def tx_write_def
      insertRevision_def insertActivity_def)

lemma create_respects_capacity_witness:
  "count_active (snd (Create demo_composition [] [] 5 demo_call empty_db)) \<le> 5"
  using create_respects_capacity[OF demo_create] by (simp add: create_replay_def)

text \<open>The key of an accepted creation stays with its composition, whatever the store runs next.\<close>

lemma created_key_kept:
  assumes "wf_db d" "Create c key hash n cx d = (Inr c1, d1)" "create_replay key hash cx d = None" "key \<noteq> []"
  shows "\<exists>row. map_of (db_idempotency (run ops d1)) key = Some (hash, c_id c) \<and>
    map_of (db_compositions (run ops d1)) (c_id c) = Some row \<and> c_id (row_body row) = c_id c"
proof -
  define c' where "c' = (case cx_claim cx of None \<Rightarrow> c | Some claim \<Rightarrow> c\<lparr>c_pr_preview_id := cl_id claim\<rparr>)"
  have id: "c_id c' = c_id c" by (simp add: c'_def split: option.splits)
  have "commit_tx ''commit composition'' (create_body c' key hash n) cx d = (Inr c1, d1)"
    using assms(2,3) by (auto simp: Create_def c'_def[symmetric] Let_def split: sum.splits)
  then have body: "create_body c' key hash n cx d = Inr (c1, d1)"
    by (rule commit_tx_Inr[where m = "create_body c' key hash n"])
  have row: "map_of (db_compositions d1) (c_id c) = Some (row_of c')"
    using create_body_Inr[OF body] id by (auto simp: has_key_def map_add_def)
  have wf1: "wf_db d1" using Create_refines[OF assms(1,2)] by blast
  have key: "map_of (db_idempotency (run ops d1)) key = Some (hash, c_id c)"
    using run_keeps_key create_body_key[OF body assms(3)] assms(4) id by simp
  obtain row' where row': "map_of (db_compositions (run ops d1)) (c_id c) = Some row'"
    using run_row_grows[OF wf1 row] by blast
  have "c_id (row_body row') = c_id c"
    using wf_dbD[OF run_wf[OF wf1] row'] by (simp add: row_ok_def)
  then show ?thesis using key row' by blast
qed

text \<open>
  Idempotent creation. Once a creation has been accepted under a key, repeating it with the
  same request hash, after any run of the store, returns the composition stored under the
  identifier of the first and creates nothing; the key with another hash is a conflict.
\<close>

theorem create_idempotent:
  assumes "wf_db d" "Create c key hash n cx d = (Inr c1, d1)" "create_replay key hash cx d = None"
    and "key \<noteq> []" "cx_fault cx2 = None" "cx_claim cx2 = None"
  shows "snd (Create c2 key hash2 m cx2 (run ops d1)) = run ops d1 \<and>
    (hash2 = hash \<longrightarrow> (\<exists>again. fst (Create c2 key hash2 m cx2 (run ops d1)) = Inr again \<and>
       c_id again = c_id c)) \<and>
    (hash2 \<noteq> hash \<longrightarrow> fst (Create c2 key hash2 m cx2 (run ops d1)) =
       Inl (conflict ''idempotency key was already used with a different request'' []))"
proof -
  obtain row' where kept: "map_of (db_idempotency (run ops d1)) key = Some (hash, c_id c)"
    "map_of (db_compositions (run ops d1)) (c_id c) = Some row'" "c_id (row_body row') = c_id c"
    using created_key_kept[OF assms(1-4)] by blast
  then show ?thesis
    using assms(4-6)
    by (simp add: Create_def attempt_def tx_seq_def tx_bind_def guardPRPreview_def owner_of_def tx_return_def
        create_replay_def Get_def read_composition_def)
qed

lemma create_idempotent_witness:
  "\<exists>again. fst (Create demo_composition ''k9'' ''h'' 5 demo_call
     (run [] (snd (Create demo_composition ''k9'' ''h'' 5 demo_call empty_db)))) = Inr again \<and>
     c_id again = c_id demo_composition"
proof -
  have "Create demo_composition ''k9'' ''h'' 5 demo_call empty_db =
     (Inr demo_composition, snd (Create demo_composition ''k9'' ''h'' 5 demo_call empty_db))"
    by (simp add: Create_def Let_def demo_call_def attempt_def tx_seq_def tx_bind_def guardPRPreview_def
        owner_of_def empty_db_def create_replay_def commit_tx_def create_body_def validateBuildOverrides_def
        demo_composition_def zero_composition_def OverrideNames_def tx_return_def tx_read_def tx_call_def
        count_active_def insert_composition_def insert_key_def link_preview_def saveOperation_def tx_write_def
        insertRevision_def insertActivity_def)
  from create_idempotent[OF wf_db_empty this, of demo_call demo_composition "''h''" 5 "[]"]
  show ?thesis by (simp add: create_replay_def empty_db_def demo_call_def)
qed

text \<open>
  Optimistic concurrency. An accepted update has seen the current generation of a live,
  unexpired, ready or failed composition; the row it writes is the next generation, updating,
  with the requested overrides and every endpoint closed.
\<close>

theorem update_accepted:
  assumes "wf_db d" "Update i req op cx d = (Inr c', d')" "update_replay i req cx d = None"
  shows "\<exists>row row'. map_of (db_compositions d) i = Some row \<and> map_of (db_compositions d') i = Some row' \<and>
    row_generation row = ur_expected_generation req \<and> \<not> row_deletion_requested row \<and>
    (row_phase row = PhaseReady \<or> row_phase row = PhaseFailed) \<and>
    row_generation row' = ur_expected_generation req + 1 \<and> row_phase row' = PhaseUpdating \<and>
    c_overrides (row_body row') = ur_overrides req \<and>
    list_all (\<lambda>(k, e). \<not> ep_ready e) (c_endpoints (row_body row'))"
proof -
  have "commit_tx ''commit update'' (update_body i req op) cx d = (Inr c', d')"
    using assms(2,3) by (auto simp: Update_def split: sum.splits)
  then have "update_body i req op cx d = Inr (c', d')"
    by (rule commit_tx_Inr[where m = "update_body i req op"])
  then show ?thesis
  proof (rule update_body_refines[OF assms(1)])
    fix row assume row: "map_of (db_compositions d) i = Some row"
      "update_allowed i req (cx_now cx) (decodeComposition row) = None"
      "c' = apply_update req op (cx_now cx) (cx_identity cx) (decodeComposition row)"
      "db_compositions d' = AList.update i (row\<lparr>row_generation := row_generation row + 1,
         row_phase := PhaseUpdating, row_body := encode_body c', row_runtime := c_runtime c'\<rparr>) (db_compositions d)"
    have ok: "c_generation (row_body row) = row_generation row" "c_phase (row_body row) = row_phase row"
      using wf_dbD[OF assms(1) row(1)] by (simp_all add: row_ok_def)
    have "row_generation row = ur_expected_generation req" "\<not> row_deletion_requested row"
      "row_phase row = PhaseReady \<or> row_phase row = PhaseFailed"
      using row(2) ok by (auto simp: update_allowed_def split: if_splits)
    then show ?thesis
      using row apply_update_endpoints by (simp add: update_conv')
  qed
qed

lemma demo_update:
  "\<exists>c'. Update ''c1'' \<lparr>ur_expected_preview_revisions = [], ur_expected_generation = 1, ur_overrides = [],
     ur_idempotency_key = [], ur_plan = None\<rparr> ''op2'' demo_call demo_db =
   (Inr c', snd (Update ''c1'' \<lparr>ur_expected_preview_revisions = [], ur_expected_generation = 1, ur_overrides = [],
     ur_idempotency_key = [], ur_plan = None\<rparr> ''op2'' demo_call demo_db))"
  by (simp add: Update_def Let_def demo_call_def attempt_def tx_seq_def tx_bind_def guardPRPreview_def
      owner_of_def demo_db_def empty_db_def update_replay_def commit_tx_def update_body_def
      validateBuildOverrides_def read_composition_def tx_call_def update_allowed_def row_of_def
      demo_composition_def zero_composition_def OverrideNames_def tx_return_def saveOperation_def
      tx_write_def insert_update_key_def insertRevision_def insertActivity_def)

lemma update_accepted_witness:
  "\<exists>row'. map_of (db_compositions (snd (Update ''c1'' \<lparr>ur_expected_preview_revisions = [],
     ur_expected_generation = 1, ur_overrides = [], ur_idempotency_key = [], ur_plan = None\<rparr> ''op2''
     demo_call demo_db))) ''c1'' = Some row' \<and> row_generation row' = 2"
proof -
  obtain c' where "Update ''c1'' \<lparr>ur_expected_preview_revisions = [], ur_expected_generation = 1, ur_overrides = [],
     ur_idempotency_key = [], ur_plan = None\<rparr> ''op2'' demo_call demo_db =
   (Inr c', snd (Update ''c1'' \<lparr>ur_expected_preview_revisions = [], ur_expected_generation = 1, ur_overrides = [],
     ur_idempotency_key = [], ur_plan = None\<rparr> ''op2'' demo_call demo_db))"
    using demo_update by blast
  from update_accepted[OF demo_db_wf this] show ?thesis by (auto simp: update_replay_def)
qed

text \<open>
  Two updates made for the same generation cannot both be accepted: after one has been, any
  later one that expects that generation is refused and changes nothing, whatever happened in
  between.
\<close>

theorem update_accepted_once:
  assumes "wf_db d" "Update i req op cx d = (Inr c1, d1)" "update_replay i req cx d = None"
    and "ur_expected_generation req2 = ur_expected_generation req" "ur_idempotency_key req2 = []"
  shows "snd (Update i req2 op2 cx2 (run ops d1)) = run ops d1 \<and>
    (\<exists>e. fst (Update i req2 op2 cx2 (run ops d1)) = Inl e)"
proof -
  have "commit_tx ''commit update'' (update_body i req op) cx d = (Inr c1, d1)"
    using assms(2,3) by (auto simp: Update_def split: sum.splits)
  then have body: "update_body i req op cx d = Inr (c1, d1)"
    by (rule commit_tx_Inr[where m = "update_body i req op"])
  have wf1: "wf_db d1" using Update_refines[OF assms(1,2)] by blast
  obtain row1 where row1: "map_of (db_compositions d1) i = Some row1"
    "row_generation row1 = ur_expected_generation req + 1"
    using body
  proof (rule update_body_refines[OF assms(1)])
    fix row assume "map_of (db_compositions d) i = Some row"
      "update_allowed i req (cx_now cx) (decodeComposition row) = None"
      "db_compositions d1 = AList.update i (row\<lparr>row_generation := row_generation row + 1,
         row_phase := PhaseUpdating, row_body := encode_body c1, row_runtime := c_runtime c1\<rparr>) (db_compositions d)"
    moreover from this(1) have "c_generation (row_body row) = row_generation row"
      using wf_dbD[OF assms(1)] by (simp add: row_ok_def)
    ultimately show thesis
      using that by (auto simp: update_conv' update_allowed_def split: if_splits)
  qed
  obtain row2 where row2: "map_of (db_compositions (run ops d1)) i = Some row2"
    "ur_expected_generation req < row_generation row2"
    using run_row_grows[OF wf1 row1(1)] row1(2) by (fastforce simp: row_grows_def)
  have "c_generation (row_body row2) = row_generation row2"
    using wf_dbD[OF run_wf[OF wf1] row2(1)] by (simp add: row_ok_def)
  then have "update_body i req2 op2 cx2 (run ops d1) \<noteq> Inr x" for x
    using update_body_Inr[of i req2 op2 cx2 "run ops d1"] row2 assms(4)
    by (cases x) (force simp: update_allowed_def split: if_splits)
  then obtain e where "update_body i req2 op2 cx2 (run ops d1) = Inl e"
    by (cases "update_body i req2 op2 cx2 (run ops d1)") auto
  then show ?thesis
    using assms(5) by (auto simp: Update_def update_replay_def commit_tx_def split: sum.splits)
qed

lemma update_accepted_once_witness:
  "\<exists>e. fst (Update ''c1'' \<lparr>ur_expected_preview_revisions = [], ur_expected_generation = 1,
     ur_overrides = [], ur_idempotency_key = [], ur_plan = None\<rparr> ''op3'' demo_call
     (run [] (snd (Update ''c1'' \<lparr>ur_expected_preview_revisions = [], ur_expected_generation = 1,
       ur_overrides = [], ur_idempotency_key = [], ur_plan = None\<rparr> ''op2'' demo_call demo_db)))) = Inl e"
proof -
  let ?req = "\<lparr>ur_expected_preview_revisions = [], ur_expected_generation = 1, ur_overrides = [],
     ur_idempotency_key = [], ur_plan = None\<rparr>"
  obtain c' where "Update ''c1'' ?req ''op2'' demo_call demo_db =
      (Inr c', snd (Update ''c1'' ?req ''op2'' demo_call demo_db))"
    using demo_update by blast
  from update_accepted_once[OF demo_db_wf this, of ?req "''op3''" demo_call "[]"]
  show ?thesis by (simp add: update_replay_def)
qed

text \<open>
  The expiry sweep is complete and exact. After it commits, no live composition without a
  deletion mark has reached its expiry; exactly the ones that had now carry the mark, and every
  other row is unchanged.
\<close>

theorem expire_complete:
  assumes "wf_db d" "Expire now cx d = (Inr u, d')"
  shows "list_all (\<lambda>(i, row). \<not> row_expired now row) (db_compositions d') \<and>
    (case map_of (db_compositions d) i of
       None \<Rightarrow> map_of (db_compositions d') i = None
     | Some row \<Rightarrow>
         if row_expired now row
         then \<exists>row'. map_of (db_compositions d') i = Some row' \<and> row_deletion_requested row'
         else map_of (db_compositions d') i = Some row)"
proof -
  have run: "expire_all now 0 (expired_rows now d) cx d = Inr (u, d')" by (rule Expire_Inr[OF assms(2)])
  note eff = expire_all_refines[OF assms(1) expired_rows_current(1)[OF assms(1)] run]
  note ids = expired_rows_current(2)[OF assms(1), of now]
  have wf': "wf_db d'" using eff by blast
  have per: "case map_of (db_compositions d) i of
       None \<Rightarrow> map_of (db_compositions d') i = None
     | Some row \<Rightarrow>
         if row_expired now row
         then \<exists>row'. map_of (db_compositions d') i = Some row' \<and> row_deletion_requested row'
         else map_of (db_compositions d') i = Some row" for i
    using eff ids by (auto split: option.splits)
  have "\<not> row_expired now row'" if "(i, row') \<in> set (db_compositions d')" for i row'
  proof -
    have "map_of (db_compositions d') i = Some row'"
      using that wf' by (simp add: wf_db_def wf_map_def)
    with per[of i] show ?thesis
      by (auto simp: row_expired_def split: option.splits if_splits)
  qed
  with per[of i] show ?thesis by (auto simp: list_all_iff)
qed

lemma expire_complete_witness:
  "\<exists>row'. map_of (db_compositions (snd (Expire 2000 demo_call demo_db))) ''c1'' = Some row' \<and>
     row_deletion_requested row'"
proof -
  have "Expire 2000 demo_call demo_db = (Inr (), snd (Expire 2000 demo_call demo_db))"
    by (simp add: Expire_def transaction_def commit_tx_def attempt_def tx_bind_def tx_read_def
        demo_call_def demo_db_def empty_db_def expired_rows_def row_expired_def live_row_def row_of_def
        demo_composition_def zero_composition_def delete_one_def requestDeletion_def Let_def tx_seq_def
        writeDeletion_def tx_write_def saveOperation_def insertRevision_def insertActivity_def tx_return_def)
  from expire_complete[OF demo_db_wf this, of "''c1''"] demo_row show ?thesis
    by (simp add: row_expired_def row_of_def live_row_def demo_composition_def zero_composition_def)
qed

section \<open>Pagination\<close>

text \<open>A client that follows the cursors of \<open>List\<close> until there is none, at most \<open>fuel\<close> pages.\<close>

fun follow_pages :: "nat \<Rightarrow> string \<Rightarrow> string \<Rightarrow> nat \<Rightarrow> call \<Rightarrow> db \<Rightarrow> composition list option" where
  "follow_pages 0 project after limit cx d = None"
| "follow_pages (Suc fuel) project after limit cx d =
     (case List_page project after limit cx d of
        Inl e \<Rightarrow> None
      | Inr (items, next) \<Rightarrow>
          if next = [] then Some items
          else map_option ((@) items) (follow_pages fuel project next limit cx d))"

definition project_rows :: "string \<Rightarrow> string \<Rightarrow> db \<Rightarrow> (string \<times> composition_row) list" where
  "project_rows project after d =
     filter (\<lambda>(i, row). (project = [] \<or> row_project row = project) \<and> after < i) (rows_by_id d)"

lemma strict_rows:
  assumes "wf_db d"
  shows "sorted_wrt (\<lambda>a b. fst a < fst b) (project_rows project after d)"
proof -
  have "distinct (map fst (rows_by_id d))"
    using assms by (simp add: rows_by_id_def wf_db_def wf_map_def distinct_map)
  moreover have "sorted (map fst (rows_by_id d))" by (simp add: rows_by_id_def)
  ultimately have "sorted_wrt (<) (map fst (rows_by_id d))" by (simp add: strict_sorted_iff)
  then show ?thesis by (simp add: project_rows_def sorted_wrt_map sorted_wrt_filter)
qed

lemma filter_after_last:
  fixes ys zs :: "('a :: linorder \<times> 'b) list"
  assumes "sorted_wrt (\<lambda>a b. fst a < fst b) (ys @ zs)" "ys \<noteq> []"
  shows "filter (\<lambda>x. fst (last ys) < fst x) (ys @ zs) = zs"
proof -
  from assms(2) obtain us y where us: "ys = us @ [y]" by (meson rev_exhaust)
  have "\<forall>x\<in>set ys. \<not> fst y < fst x" "\<forall>x\<in>set zs. fst y < fst x"
    using assms(1) us by (auto simp: sorted_wrt_append dest: less_asym)
  with us show ?thesis by (simp add: filter_empty_conv filter_id_conv)
qed

lemma project_rows_next:
  assumes "wf_db d" "project_rows project after d = ys @ zs" "ys \<noteq> []"
  shows "project_rows project (fst (last ys)) d = zs"
proof -
  have le: "after < fst (last ys)"
  proof -
    have "last ys \<in> set (project_rows project after d)" using assms(2,3) by simp
    then show ?thesis by (auto simp: project_rows_def)
  qed
  have "project_rows project (fst (last ys)) d =
      filter (\<lambda>x. fst (last ys) < fst x) (project_rows project after d)"
    using le by (auto simp: project_rows_def intro!: filter_cong dest: less_trans)
  also have "\<dots> = zs"
    using filter_after_last[OF _ assms(3), of zs] strict_rows[OF assms(1), of project after] assms(2) by simp
  finally show ?thesis .
qed

lemma decode_id:
  assumes "wf_db d" "(i, row) \<in> set (project_rows project after d)"
  shows "c_id (decodeComposition row) = i"
  using assms by (auto simp: project_rows_def rows_by_id_def wf_db_def list_all_iff row_ok_def)

lemma Nil_less_string:
  assumes "a \<noteq> []"
  shows "[] < (a :: string)"
  using assms by (cases a) simp_all

lemma follow_pages_from:
  assumes "wf_db d" "\<not> has_key (db_compositions d) []" "0 < limit" "cx_fault cx = None"
  shows "length (project_rows project after d) < fuel \<Longrightarrow>
    follow_pages fuel project after limit cx d =
      Some (map (\<lambda>(i, row). decodeComposition row) (project_rows project after d))"
proof (induction fuel arbitrary: after)
  case (Suc fuel)
  let ?rows = "project_rows project after d"
  let ?dec = "\<lambda>(i, row). decodeComposition row"
  show ?case
  proof (cases "length ?rows \<le> limit")
    case True
    then show ?thesis
      using assms(4) by (simp add: List_page_def project_rows_def[symmetric] Let_def)
  next
    case False
    define ys zs where "ys = take limit ?rows" and "zs = drop limit ?rows"
    have split: "?rows = ys @ zs" and ys: "ys \<noteq> []"
      using False assms(3) by (auto simp: ys_def zs_def)
    have last: "c_id (last (map ?dec ys)) = fst (last ys)"
      using decode_id[OF assms(1), of "fst (last ys)" "snd (last ys)" project after] ys split
      by (simp add: last_map split_def)
    have "last ys \<in> set ?rows" using split ys by simp
    then have "has_key (db_compositions d) (fst (last ys))"
      by (auto simp: project_rows_def rows_by_id_def has_key_iff intro: rev_image_eqI)
    then have next_ne: "fst (last ys) \<noteq> []" using assms(2) by metis
    have page: "List_page project after limit cx d = Inr (map ?dec ys, fst (last ys))"
      using False assms(4) last
      by (simp add: List_page_def project_rows_def[symmetric] Let_def ys_def take_map)
    have next_rows: "project_rows project (fst (last ys)) d = zs"
      by (rule project_rows_next[OF assms(1) split ys])
    have "length zs < fuel" using Suc.prems split ys by (cases ys) auto
    then have "follow_pages fuel project (fst (last ys)) limit cx d = Some (map ?dec zs)"
      using Suc.IH[of "fst (last ys)"] next_rows by simp
    with page next_ne split show ?thesis by simp
  qed
qed simp

text \<open>
  Following the cursors of \<open>List\<close> with any positive page size ends after at most one page
  per stored composition, and returns every composition of the project exactly once, in the
  order of the identifiers.
\<close>

theorem list_pages_complete:
  assumes "wf_db d" "\<not> has_key (db_compositions d) []" "0 < limit" "cx_fault cx = None"
  shows "follow_pages (Suc (length (db_compositions d))) project [] limit cx d =
    Some (map (\<lambda>(i, row). decodeComposition row)
      (filter (\<lambda>(i, row). project = [] \<or> row_project row = project) (rows_by_id d)))"
proof -
  have "project_rows project [] d =
      filter (\<lambda>(i, row). project = [] \<or> row_project row = project) (rows_by_id d)"
  proof -
    have "[] < fst r" if "r \<in> set (rows_by_id d)" for r
      using that assms(2) by (intro Nil_less_string) (auto simp: rows_by_id_def has_key_iff image_iff)
    then show ?thesis unfolding project_rows_def by (intro filter_cong) auto
  qed
  moreover have "length (project_rows project [] d) \<le> length (db_compositions d)"
    by (metis length_filter_le length_sort project_rows_def rows_by_id_def)
  ultimately show ?thesis
    using follow_pages_from[OF assms, of project "[]" "Suc (length (db_compositions d))"]
    by (simp del: follow_pages.simps)
qed

lemma list_pages_complete_witness:
  "follow_pages 2 [] [] 1 demo_call demo_db = Some [decodeComposition (row_of demo_composition)]"
  using list_pages_complete[OF demo_db_wf, of 1 demo_call "[]"]
  by (simp add: demo_db_def rows_by_id_def demo_call_def numeral_2_eq_2)

section \<open>Evidence rows\<close>

definition evidence_count :: "db \<Rightarrow> nat" where
  "evidence_count d = length (db_verification d)"

lemma saveVerification_count:
  assumes "c_pending_verification c = Some e" "ve_generation e = c_generation c"
    and "saveVerification c cx d = Inr (u, d')"
  shows "evidence_count d' = evidence_count d +
    (case latest_verification (c_id c) d of
       None \<Rightarrow> 1 | Some (i, old) \<Rightarrow> if evidence_deep_eq old e then 0 else 1)"
  using assms by (auto simp: saveVerification_def evidence_count_def insert_verification_def
      update_verification_def Let_def split: option.splits if_splits)

lemma saveVerification_accepts:
  "\<exists>d'. saveVerification c cx d = Inr ((), d')"
  by (simp add: saveVerification_def Let_def split: option.splits)

lemma latest_after_insert:
  "latest_verification cid (insert_verification cid e d) = Some (next_verification_id d, encode_evidence e)"
  by (simp add: latest_verification_def insert_verification_def)

text \<open>
  A composition without overrides never coalesces its evidence. Its checked workloads are an
  empty map, which is stored as nothing and read back as nil; \<open>reflect.DeepEqual\<close> tells nil from
  empty, so a check that repeats the last one adds a row instead of advancing the last check
  time.
\<close>

theorem empty_workloads_never_coalesce:
  assumes "c_pending_verification c = Some e" "ve_generation e = c_generation c"
    and "ve_workloads e = Some []" "saveVerification c cx d = Inr (u, d1)"
    and "evidence_count d < evidence_count d1" "saveVerification c cx2 d1 = Inr (u2, d2)"
  shows "evidence_count d2 = evidence_count d1 + 1"
proof -
  have "d1 = insert_verification (c_id c) e d"
    using assms(1,2,4,5) by (auto simp: saveVerification_def evidence_count_def insert_verification_def
        update_verification_def Let_def split: option.splits if_splits)
  then have "latest_verification (c_id c) d1 = Some (next_verification_id d, encode_evidence e)"
    by (simp add: latest_after_insert)
  moreover have "\<not> evidence_deep_eq (encode_evidence e) e"
    using assms(3) by (simp add: evidence_deep_eq_def encode_evidence_def workloads_deep_eq_def)
  ultimately show ?thesis using saveVerification_count[OF assms(1,2,6)] by simp
qed

definition demo_evidence :: verification_evidence where
  "demo_evidence =
     \<lparr>ve_baseline_fingerprint = [], ve_baseline_scope = [], ve_contract_fingerprint = [],
      ve_workloads = Some [], ve_freshness = [], ve_id = [], ve_composition = ''c1'',
      ve_generation = 1, ve_kind = ''envy-chain'', ve_outcome = ''passed'', ve_first_checked_at = 5,
      ve_last_checked_at = 5, ve_probes = [], ve_hops = [], ve_error = None\<rparr>"

definition checked_composition :: composition where
  "checked_composition = demo_composition\<lparr>c_pending_verification := Some demo_evidence\<rparr>"

lemma empty_workloads_never_coalesce_witness:
  "\<exists>d1 d2. saveVerification checked_composition demo_call demo_db = Inr ((), d1) \<and>
     saveVerification checked_composition demo_call d1 = Inr ((), d2) \<and>
     evidence_count d2 = evidence_count d1 + 1"
proof -
  obtain d1 where d1: "saveVerification checked_composition demo_call demo_db = Inr ((), d1)"
    "evidence_count demo_db < evidence_count d1"
    by (simp add: saveVerification_def checked_composition_def demo_composition_def demo_evidence_def
        latest_verification_def demo_db_def empty_db_def insert_verification_def evidence_count_def)
  obtain d2 where d2: "saveVerification checked_composition demo_call d1 = Inr ((), d2)"
    using saveVerification_accepts by blast
  have "c_pending_verification checked_composition = Some demo_evidence"
    "ve_generation demo_evidence = c_generation checked_composition" "ve_workloads demo_evidence = Some []"
    by (simp_all add: checked_composition_def demo_evidence_def demo_composition_def)
  from empty_workloads_never_coalesce[OF this d1 d2] d1 d2 show ?thesis by blast
qed

end
