(* ===== verification/Routes.thy ===== *)
theory Routes
  imports Catalog Go_Url
begin

text \<open>
  The routing snapshot of \<open>internal/reconciler/reconciler.go\<close>: which ingress, mesh and selector
  entries a set of stored compositions asks for, with the host names it allocates. \<open>Snapshot\<close>
  reads the clock once per composition; \<open>clock i\<close> is what the read for the \<open>i\<close>-th composition
  gives. On an error the code returns the entries it had collected, which no caller uses: the
  model returns the error alone.
\<close>

section \<open>Snapshots\<close>

record route_entry =
  re_message_isolation :: bool
  re_domain :: route_domain
  re_composition :: string
  re_host :: string
  re_destination_host :: string
  re_ownership_token :: string
  re_selector_header :: string
  re_port :: int

record route_snapshot =
  sp_domains :: "route_domain list"
  sp_mesh :: "route_entry list"
  sp_ingress :: "route_entry list"
  sp_selector :: "route_entry list"
  sp_owned :: "string gomap"

definition empty_snapshot :: route_snapshot where
  "empty_snapshot =
     \<lparr>sp_domains = [], sp_mesh = [], sp_ingress = [], sp_selector = [], sp_owned = []\<rparr>"

text \<open>\<open>reflect.DeepEqual\<close> of two snapshots.\<close>

definition snapshot_deep_eq :: "route_snapshot \<Rightarrow> route_snapshot \<Rightarrow> bool" where
  "snapshot_deep_eq a b \<longleftrightarrow>
     sp_domains a = sp_domains b \<and> sp_mesh a = sp_mesh b \<and> sp_ingress a = sp_ingress b \<and>
     sp_selector a = sp_selector b \<and> map_deep_eq (sp_owned a) (sp_owned b)"

definition parsed_host :: "string \<Rightarrow> string \<Rightarrow> string result" where
  "parsed_host message raw =
     (case url_hostname raw of
        None \<Rightarrow> Inl (Plain message)
      | Some h \<Rightarrow> if h = [] then Inl (Plain message) else Inr h)"

definition endpointHost :: "composition \<Rightarrow> string result" where
  "endpointHost c = parsed_host ''composition has no valid allocated endpoint''
     (ep_url (get_or zero_endpoint (c_endpoints c) ''public''))"

definition baselineHost :: "baseline \<Rightarrow> string result" where
  "baselineHost b = parsed_host ''baseline has no valid endpoint'' (b_endpoint b)"

definition cluster_host :: "workload_ref \<Rightarrow> string" where
  "cluster_host ref = wr_service ref @ ''.'' @ wr_namespace ref @ ''.svc.cluster.local''"

section \<open>The entries of one composition\<close>

text \<open>Its routes exist in the mesh until they are removed.\<close>

definition routed :: "composition \<Rightarrow> bool" where
  "routed c \<longleftrightarrow>
     rt_routing_active (c_runtime c) \<and> \<not> rt_routes_removed (c_runtime c) \<and>
     c_phase c \<noteq> PhaseDestroyed"

text \<open>Its host name is open at the ingress until it is deleted or expires.\<close>

definition open_at :: "time \<Rightarrow> composition \<Rightarrow> bool" where
  "open_at now c \<longleftrightarrow> routed c \<and> \<not> c_deletion_requested c \<and> now < c_expires_at c"

definition selected_overrides :: "composition \<Rightarrow> component_override gomap" where
  "selected_overrides c =
     (case rt_published_overrides (c_runtime c) of None \<Rightarrow> c_overrides c | Some p \<Rightarrow> p)"

definition mesh_entry :: "composition \<Rightarrow> route_domain \<Rightarrow> workload_ref \<Rightarrow> component \<Rightarrow> route_entry" where
  "mesh_entry c d ref profile =
     \<lparr>re_message_isolation = False, re_domain = d, re_composition = c_id c, re_host = [],
      re_destination_host = cluster_host ref, re_ownership_token = rt_ownership_token (c_runtime c),
      re_selector_header = [], re_port = cp_port profile\<rparr>"

fun snapshot_components ::
  "composition \<Rightarrow> resolved_plan \<Rightarrow> string list \<Rightarrow> route_snapshot \<Rightarrow> route_snapshot result"
where
  "snapshot_components c plan [] s = Inr s"
| "snapshot_components c plan (component # rest) s =
     (case map_of (Profiles plan) component of
        None \<Rightarrow> Inl (Plain (''missing profile for '' @ component))
      | Some profile \<Rightarrow>
          if cp_id profile \<noteq> component then Inl (Plain (''missing profile for '' @ component))
          else if \<not> HasEndpoint profile then snapshot_components c plan rest s
          else
            let d = RouteDomain (rp_baseline plan) component;
                s = s\<lparr>sp_domains := sp_domains s @ [d]\<rparr>;
                ref = WorkloadFor (c_runtime c) component
            in if \<not> routed c then snapshot_components c plan rest s
               else if wr_namespace ref \<noteq> NamespaceForID (c_id c) \<or> wr_service ref \<noteq> component
               then Inl (Plain (''active routing intent has no valid workload reference for '' @ component))
               else snapshot_components c plan rest
                      (s\<lparr>sp_mesh := sp_mesh s @ [mesh_entry c d ref profile]\<rparr>))"

definition ingress_entry :: "composition \<Rightarrow> resolved_plan \<Rightarrow> string \<Rightarrow> route_entry" where
  "ingress_entry c plan host =
     (let b = rp_baseline plan; r = b_routing b; component = br_entry_component r;
          binding = get_or zero_binding (b_components b) component;
          e = \<lparr>re_message_isolation = c_message_isolation c, re_domain = RouteDomain b component,
               re_composition = c_id c, re_host = host,
               re_destination_host = bb_service_host binding,
               re_ownership_token = rt_ownership_token (c_runtime c), re_selector_header = [],
               re_port = bb_port binding\<rparr>;
          e = (case map_of (Profiles plan) component of
                 None \<Rightarrow> e
               | Some profile \<Rightarrow>
                   e\<lparr>re_destination_host := cluster_host (WorkloadFor (c_runtime c) component),
                     re_port := cp_port profile\<rparr>)
      in case br_preview_selector r of
           None \<Rightarrow> e
         | Some selector \<Rightarrow> e\<lparr>re_selector_header := sel_header selector\<rparr>)"

definition snapshot_ingress ::
  "time \<Rightarrow> composition \<Rightarrow> resolved_plan \<Rightarrow> route_snapshot \<Rightarrow> route_snapshot result"
where
  "snapshot_ingress now c plan s =
     (if \<not> open_at now c then Inr s
      else case endpointHost c of
        Inl e \<Rightarrow> Inl e
      | Inr host \<Rightarrow>
          let e = ingress_entry c plan host; s = s\<lparr>sp_ingress := sp_ingress s @ [e]\<rparr>
          in case br_preview_selector (b_routing (rp_baseline plan)) of
               None \<Rightarrow> Inr s
             | Some selector \<Rightarrow>
                 (case baselineHost (rp_baseline plan) of
                    Inl err \<Rightarrow> Inl err
                  | Inr base \<Rightarrow>
                      Inr (s\<lparr>sp_selector := sp_selector s @
                        [e\<lparr>re_host := base, re_selector_header := sel_header selector\<rparr>]\<rparr>)))"

definition snapshot_one :: "time \<Rightarrow> composition \<Rightarrow> route_snapshot \<Rightarrow> route_snapshot result" where
  "snapshot_one now c s =
     (let s = s\<lparr>sp_owned := AList.update (c_id c) (rt_ownership_token (c_runtime c)) (sp_owned s)\<rparr>
      in case rt_plan (c_runtime c) of
           None \<Rightarrow> Inl (Plain ''composition has no resolved catalog plan'')
         | Some plan \<Rightarrow>
             (case snapshot_components c plan (OverrideNames (selected_overrides c)) s of
                Inl e \<Rightarrow> Inl e
              | Inr s \<Rightarrow> snapshot_ingress now c plan s))"

fun snapshot_all :: "(nat \<Rightarrow> time) \<Rightarrow> nat \<Rightarrow> composition list \<Rightarrow> route_snapshot \<Rightarrow> route_snapshot result" where
  "snapshot_all clock i [] s = Inr s"
| "snapshot_all clock i (c # cs) s =
     (case snapshot_one (clock i) c s of
        Inl e \<Rightarrow> Inl e
      | Inr s \<Rightarrow> snapshot_all clock (i + 1) cs s)"

definition Snapshot :: "(nat \<Rightarrow> time) \<Rightarrow> composition list \<Rightarrow> route_snapshot result" where
  "Snapshot clock compositions =
     snapshot_all clock 0 (sort_key c_id compositions) empty_snapshot"

section \<open>Overrides and plans\<close>

text \<open>\<open>reflect.DeepEqual\<close> of the published and the desired selection, nil when nothing was published.\<close>

definition overridesEqual :: "component_override gomap option \<Rightarrow> component_override gomap \<Rightarrow> bool" where
  "overridesEqual a b = (case a of None \<Rightarrow> False | Some a' \<Rightarrow> map_deep_eq a' b)"

definition cloneOverrides :: "component_override gomap \<Rightarrow> component_override gomap" where
  "cloneOverrides m = map_copy [] m"

definition planForOverrides :: "resolved_plan \<Rightarrow> component_override gomap \<Rightarrow> resolved_plan" where
  "planForOverrides plan overrides =
     plan\<lparr>rp_components := filter (\<lambda>(k, p). has_key overrides k) (Profiles plan),
          rp_component := zero_component\<rparr>"

definition setReady :: "composition \<Rightarrow> bool \<Rightarrow> composition" where
  "setReady c ready =
     (let c = (if ready then c else c\<lparr>c_verification_level := ''none''\<rparr>)
      in c\<lparr>c_endpoints := map (\<lambda>(key, e). (key, e\<lparr>ep_ready := ready\<rparr>)) (c_endpoints c)\<rparr>)"

end
