(* ===== verification/Routes_Props.thy ===== *)
theory Routes_Props
  imports Routes "HOL-Library.Multiset"
begin

text \<open>
  What a routing snapshot contains, as equations over the compositions it was made of; that the
  order in which the database returns them does not matter; that requesting the deletion of a
  composition withdraws its ingress entries and nothing else; and what the entry of a
  composition looks like whose entry component is being retired.
\<close>

section \<open>The contents of a snapshot\<close>

definition profile_of :: "composition \<Rightarrow> string \<Rightarrow> component option" where
  "profile_of c component =
     (case rt_plan (c_runtime c) of None \<Rightarrow> None | Some plan \<Rightarrow> map_of (Profiles plan) component)"

definition is_endpoint :: "composition \<Rightarrow> string \<Rightarrow> bool" where
  "is_endpoint c component =
     (case profile_of c component of None \<Rightarrow> False | Some p \<Rightarrow> HasEndpoint p)"

text \<open>The selected components of a composition that have an endpoint, in order.\<close>

definition endpoint_names :: "composition \<Rightarrow> string list" where
  "endpoint_names c = filter (is_endpoint c) (OverrideNames (selected_overrides c))"

definition domain_of :: "composition \<Rightarrow> string \<Rightarrow> route_domain" where
  "domain_of c component =
     (case rt_plan (c_runtime c) of
        None \<Rightarrow> RouteDomain zero_baseline component
      | Some plan \<Rightarrow> RouteDomain (rp_baseline plan) component)"

definition mesh_of :: "composition \<Rightarrow> string \<Rightarrow> route_entry" where
  "mesh_of c component =
     mesh_entry c (domain_of c component) (WorkloadFor (c_runtime c) component)
       (case profile_of c component of None \<Rightarrow> zero_component | Some p \<Rightarrow> p)"

definition own_reference :: "composition \<Rightarrow> string \<Rightarrow> bool" where
  "own_reference c component \<longleftrightarrow>
     wr_namespace (WorkloadFor (c_runtime c) component) = NamespaceForID (c_id c) \<and>
     wr_service (WorkloadFor (c_runtime c) component) = component"

lemma snapshot_components_Inr:
  assumes "rt_plan (c_runtime c) = Some plan" "snapshot_components c plan names s = Inr s'"
  shows "s' = s\<lparr>sp_domains := sp_domains s @ map (domain_of c) (filter (is_endpoint c) names),
      sp_mesh := sp_mesh s @ (if routed c then map (mesh_of c) (filter (is_endpoint c) names) else [])\<rparr> \<and>
    (routed c \<longrightarrow> list_all (own_reference c) (filter (is_endpoint c) names))"
  using assms(2)
proof (induction names arbitrary: s)
  case (Cons component rest)
  obtain profile where profile: "map_of (Profiles plan) component = Some profile"
    using Cons.prems by (auto split: option.splits)
  have views: "profile_of c component = Some profile" "is_endpoint c component = HasEndpoint profile"
    "domain_of c component = RouteDomain (rp_baseline plan) component"
    using assms(1) profile by (simp_all add: profile_of_def is_endpoint_def domain_of_def)
  show ?case
  proof (cases "HasEndpoint profile")
    case False
    with Cons.prems profile have "snapshot_components c plan rest s = Inr s'"
      by (auto split: if_splits)
    then show ?thesis using Cons.IH[of s] views False by simp
  next
    case True
    show ?thesis
    proof (cases "routed c")
      case False
      with Cons.prems profile True
      have "snapshot_components c plan rest
          (s\<lparr>sp_domains := sp_domains s @ [domain_of c component]\<rparr>) = Inr s'"
        by (auto simp: Let_def views split: if_splits)
      then show ?thesis using Cons.IH[of "s\<lparr>sp_domains := sp_domains s @ [domain_of c component]\<rparr>"]
          views True False by simp
    next
      case routed: True
      with Cons.prems profile True
      have "own_reference c component"
        and "snapshot_components c plan rest (s\<lparr>sp_domains := sp_domains s @ [domain_of c component],
            sp_mesh := sp_mesh s @ [mesh_of c component]\<rparr>) = Inr s'"
        by (auto simp: Let_def views own_reference_def mesh_of_def split: if_splits)
      then show ?thesis
        using Cons.IH[of "s\<lparr>sp_domains := sp_domains s @ [domain_of c component],
            sp_mesh := sp_mesh s @ [mesh_of c component]\<rparr>"] views True routed by simp
    qed
  qed
qed simp

definition plan_of :: "composition \<Rightarrow> resolved_plan" where
  "plan_of c = (case rt_plan (c_runtime c) of None \<Rightarrow> zero_plan | Some p \<Rightarrow> p)"

definition host_or :: "string result \<Rightarrow> string" where
  "host_or r = (case r of Inl e \<Rightarrow> [] | Inr h \<Rightarrow> h)"

definition ingress_of :: "composition \<Rightarrow> route_entry" where
  "ingress_of c = ingress_entry c (plan_of c) (host_or (endpointHost c))"

definition selector_of :: "composition \<Rightarrow> route_entry list" where
  "selector_of c =
     (case br_preview_selector (b_routing (rp_baseline (plan_of c))) of
        None \<Rightarrow> []
      | Some selector \<Rightarrow> [(ingress_of c)\<lparr>re_host := host_or (baselineHost (rp_baseline (plan_of c))),
          re_selector_header := sel_header selector\<rparr>])"

text \<open>A composition whose part of the snapshot can be computed at this time.\<close>

definition publishable :: "time \<Rightarrow> composition \<Rightarrow> bool" where
  "publishable now c \<longleftrightarrow> (\<exists>s. snapshot_one now c empty_snapshot = Inr s)"

definition snapshot_part :: "time \<Rightarrow> composition \<Rightarrow> route_snapshot \<Rightarrow> route_snapshot" where
  "snapshot_part now c s =
     \<lparr>sp_domains = sp_domains s @ map (domain_of c) (endpoint_names c),
      sp_mesh = sp_mesh s @ (if routed c then map (mesh_of c) (endpoint_names c) else []),
      sp_ingress = sp_ingress s @ (if open_at now c then [ingress_of c] else []),
      sp_selector = sp_selector s @ (if open_at now c then selector_of c else []),
      sp_owned = AList.update (c_id c) (rt_ownership_token (c_runtime c)) (sp_owned s)\<rparr>"

lemma snapshot_ingress_Inr:
  assumes "rt_plan (c_runtime c) = Some plan" "snapshot_ingress now c plan s = Inr s'"
  shows "s' = s\<lparr>sp_ingress := sp_ingress s @ (if open_at now c then [ingress_of c] else []),
      sp_selector := sp_selector s @ (if open_at now c then selector_of c else [])\<rparr>"
  using assms by (auto simp: snapshot_ingress_def ingress_of_def selector_of_def plan_of_def
      host_or_def Let_def split: if_splits sum.splits option.splits)

lemma snapshot_one_Inr:
  assumes "snapshot_one now c s = Inr s'"
  shows "s' = snapshot_part now c s \<and> (routed c \<longrightarrow> list_all (own_reference c) (endpoint_names c))"
proof -
  obtain plan where plan: "rt_plan (c_runtime c) = Some plan"
    using assms by (auto simp: snapshot_one_def Let_def split: option.splits)
  define s1 where "s1 = s\<lparr>sp_owned := AList.update (c_id c) (rt_ownership_token (c_runtime c)) (sp_owned s)\<rparr>"
  obtain s2 where s2: "snapshot_components c plan (OverrideNames (selected_overrides c)) s1 = Inr s2"
    "snapshot_ingress now c plan s2 = Inr s'"
    using assms plan by (auto simp: snapshot_one_def Let_def s1_def split: sum.splits)
  show ?thesis
    using snapshot_components_Inr[OF plan s2(1)] snapshot_ingress_Inr[OF plan s2(2)]
    by (simp add: s1_def snapshot_part_def endpoint_names_def)
qed

fun snapshot_parts :: "(nat \<Rightarrow> time) \<Rightarrow> nat \<Rightarrow> composition list \<Rightarrow> route_snapshot \<Rightarrow> route_snapshot" where
  "snapshot_parts clock i [] s = s"
| "snapshot_parts clock i (c # cs) s = snapshot_parts clock (i + 1) cs (snapshot_part (clock i) c s)"

lemma snapshot_all_Inr:
  "snapshot_all clock i cs s = Inr s' \<Longrightarrow> s' = snapshot_parts clock i cs s \<and>
     list_all (\<lambda>c. routed c \<longrightarrow> list_all (own_reference c) (endpoint_names c)) cs"
  by (induction clock i cs s rule: snapshot_all.induct)
    (auto split: sum.splits dest!: snapshot_one_Inr)

text \<open>The compositions that are open when their turn comes.\<close>

fun open_ones :: "(nat \<Rightarrow> time) \<Rightarrow> nat \<Rightarrow> composition list \<Rightarrow> composition list" where
  "open_ones clock i [] = []"
| "open_ones clock i (c # cs) =
     (if open_at (clock i) c then [c] else []) @ open_ones clock (i + 1) cs"

lemma snapshot_parts_sel:
  "sp_mesh (snapshot_parts clock i cs s) =
     sp_mesh s @ concat (map (\<lambda>c. map (mesh_of c) (endpoint_names c)) (filter routed cs))"
  "sp_domains (snapshot_parts clock i cs s) =
     sp_domains s @ concat (map (\<lambda>c. map (domain_of c) (endpoint_names c)) cs)"
  "sp_ingress (snapshot_parts clock i cs s) = sp_ingress s @ map ingress_of (open_ones clock i cs)"
  "sp_selector (snapshot_parts clock i cs s) =
     sp_selector s @ concat (map selector_of (open_ones clock i cs))"
  by (induction clock i cs s rule: snapshot_parts.induct) (auto simp: snapshot_part_def)

lemma mesh_of_own:
  "own_reference c component \<Longrightarrow>
     re_destination_host (mesh_of c component) =
       component @ ''.'' @ NamespaceForID (c_id c) @ ''.svc.cluster.local''"
  by (simp add: mesh_of_def mesh_entry_def cluster_host_def own_reference_def)

lemma mesh_of_sel [simp]:
  "re_composition (mesh_of c component) = c_id c"
  "re_ownership_token (mesh_of c component) = rt_ownership_token (c_runtime c)"
  "re_domain (mesh_of c component) = domain_of c component"
  by (simp_all add: mesh_of_def mesh_entry_def)

lemma ingress_of_sel [simp]: "re_composition (ingress_of c) = c_id c"
  by (simp add: ingress_of_def ingress_entry_def Let_def split: option.splits)

lemma selector_of_composition: "e \<in> set (selector_of c) \<Longrightarrow> re_composition e = c_id c"
  by (auto simp: selector_of_def split: option.splits)

text \<open>
  C10: A snapshot holds, for the compositions in the order of their identifiers, exactly one mesh
  entry per selected endpoint component of a composition with live routes, which leads to that
  component's service in the composition's own namespace under the composition's own token, and
  exactly one ingress entry per composition that is open: routed, not being deleted and not
  expired.
\<close>

theorem snapshot_entries:
  assumes "Snapshot clock cs = Inr s"
  shows "map (\<lambda>e. (re_composition e, re_ownership_token e, re_destination_host e)) (sp_mesh s) =
      concat (map (\<lambda>c. map (\<lambda>component. (c_id c, rt_ownership_token (c_runtime c),
          component @ ''.'' @ NamespaceForID (c_id c) @ ''.svc.cluster.local'')) (endpoint_names c))
        (filter routed (sort_key c_id cs))) \<and>
    map re_composition (sp_ingress s) = map c_id (open_ones clock 0 (sort_key c_id cs))"
proof
  let ?cs = "sort_key c_id cs"
  note parts = snapshot_all_Inr[OF assms[unfolded Snapshot_def]]
  have s: "s = snapshot_parts clock 0 ?cs empty_snapshot" using parts by simp
  have own: "routed c \<Longrightarrow> c \<in> set ?cs \<Longrightarrow> component \<in> set (endpoint_names c) \<Longrightarrow> own_reference c component"
    for c component using parts unfolding list_all_iff by blast
  show "map re_composition (sp_ingress s) = map c_id (open_ones clock 0 ?cs)"
    by (simp add: s snapshot_parts_sel empty_snapshot_def comp_def)
  show "map (\<lambda>e. (re_composition e, re_ownership_token e, re_destination_host e)) (sp_mesh s) =
      concat (map (\<lambda>c. map (\<lambda>component. (c_id c, rt_ownership_token (c_runtime c),
          component @ ''.'' @ NamespaceForID (c_id c) @ ''.svc.cluster.local'')) (endpoint_names c))
        (filter routed ?cs))"
    unfolding s snapshot_parts_sel
    by (auto simp: empty_snapshot_def map_concat comp_def mesh_of_own own
        intro!: arg_cong[where f = concat] map_cong)
qed

lemma open_ones_set: "c \<in> set (open_ones clock i cs) \<Longrightarrow> c \<in> set cs"
  by (induction clock i cs rule: open_ones.induct) (auto split: if_splits)

section \<open>The order of the compositions\<close>

text \<open>
  The snapshot does not depend on the order in which the database returns the compositions,
  so that two scans of one state give the same routes.
\<close>

theorem snapshot_order_independent:
  assumes "mset cs = mset cs'" "distinct (map c_id cs)"
  shows "Snapshot clock cs = Snapshot clock cs'"
proof -
  have "sort_key c_id cs = sort_key c_id cs'"
    using assms by (intro sort_key_eq_sort_key) (simp_all add: distinct_map)
  then show ?thesis by (simp add: Snapshot_def)
qed

section \<open>Closing a composition\<close>

text \<open>What a request to delete changes of what a snapshot reads: the flag and the phase.\<close>

definition request_deletion_of :: "string \<Rightarrow> composition \<Rightarrow> composition" where
  "request_deletion_of i c =
     (if c_id c = i then c\<lparr>c_deletion_requested := True,
        c_phase := (if c_phase c = PhaseDestroyed then PhaseDestroyed else PhaseDestroying)\<rparr> else c)"

lemma request_deletion_of_sel [simp]:
  "c_id (request_deletion_of i c) = c_id c"
  "c_runtime (request_deletion_of i c) = c_runtime c"
  "c_overrides (request_deletion_of i c) = c_overrides c"
  "routed (request_deletion_of i c) = routed c"
  "selected_overrides (request_deletion_of i c) = selected_overrides c"
  by (simp_all add: request_deletion_of_def routed_def selected_overrides_def split: option.splits)

text \<open>The snapshot without the ingress and selector entries of a composition.\<close>

definition closed_of :: "string \<Rightarrow> route_snapshot \<Rightarrow> route_snapshot" where
  "closed_of i s =
     s\<lparr>sp_ingress := filter (\<lambda>e. re_composition e \<noteq> i) (sp_ingress s),
       sp_selector := filter (\<lambda>e. re_composition e \<noteq> i) (sp_selector s)\<rparr>"

lemma mesh_entry_deletion [simp]:
  "mesh_entry (request_deletion_of i c) d ref profile = mesh_entry c d ref profile"
  by (simp add: mesh_entry_def)

lemma filter_selector_of [simp]:
  "filter (\<lambda>e. re_composition e \<noteq> c_id c) (selector_of c) = []"
  by (auto simp: filter_empty_conv dest: selector_of_composition)

lemma closed_of_updates [simp]:
  "closed_of i (s\<lparr>sp_domains := x\<rparr>) = (closed_of i s)\<lparr>sp_domains := x\<rparr>"
  "closed_of i (s\<lparr>sp_mesh := y\<rparr>) = (closed_of i s)\<lparr>sp_mesh := y\<rparr>"
  "closed_of i (s\<lparr>sp_owned := z\<rparr>) = (closed_of i s)\<lparr>sp_owned := z\<rparr>"
  "sp_domains (closed_of i s) = sp_domains s"
  "sp_mesh (closed_of i s) = sp_mesh s"
  "sp_owned (closed_of i s) = sp_owned s"
  by (simp_all add: closed_of_def)

lemma closed_components:
  "snapshot_components c plan names s = Inr s1 \<Longrightarrow>
     snapshot_components (request_deletion_of i c) plan names (closed_of i s) = Inr (closed_of i s1)"
  by (induction c plan names s rule: snapshot_components.induct)
    (auto simp: Let_def split: option.splits if_splits)

lemma closed_ingress:
  assumes "rt_plan (c_runtime c) = Some plan" "snapshot_ingress now c plan s = Inr s1"
  shows "snapshot_ingress now (request_deletion_of i c) plan (closed_of i s) = Inr (closed_of i s1)"
proof (cases "c_id c = i")
  case True
  then show ?thesis
    using snapshot_ingress_Inr[OF assms]
    by (auto simp: snapshot_ingress_def open_at_def closed_of_def request_deletion_of_def)
next
  case False
  have mark: "request_deletion_of i c = c" using False by (simp add: request_deletion_of_def)
  have sel: "re_composition (ingress_entry c plan h) = c_id c" for h
    by (simp add: ingress_entry_def Let_def split: option.splits)
  show ?thesis using assms(2) False unfolding mark
    by (auto simp: snapshot_ingress_def closed_of_def Let_def sel split: if_splits sum.splits option.splits)
qed

lemma closed_one:
  assumes "snapshot_one now c s = Inr s1"
  shows "snapshot_one now (request_deletion_of i c) (closed_of i s) = Inr (closed_of i s1)"
proof -
  obtain plan where plan: "rt_plan (c_runtime c) = Some plan"
    using assms by (auto simp: snapshot_one_def Let_def split: option.splits)
  define s0 where "s0 = s\<lparr>sp_owned := AList.update (c_id c) (rt_ownership_token (c_runtime c)) (sp_owned s)\<rparr>"
  obtain s2 where s2: "snapshot_components c plan (OverrideNames (selected_overrides c)) s0 = Inr s2"
    "snapshot_ingress now c plan s2 = Inr s1"
    using assms plan by (auto simp: snapshot_one_def Let_def s0_def split: sum.splits)
  show ?thesis
    using closed_components[OF s2(1), of i] closed_ingress[OF plan s2(2), of i] plan
    by (simp add: snapshot_one_def Let_def s0_def)
qed

lemma closed_all:
  "snapshot_all clock n cs s = Inr s1 \<Longrightarrow>
     snapshot_all clock n (map (request_deletion_of i) cs) (closed_of i s) = Inr (closed_of i s1)"
proof (induction clock n cs s rule: snapshot_all.induct)
  case (2 clock n c cs s)
  then obtain s2 where s2: "snapshot_one (clock n) c s = Inr s2" "snapshot_all clock (n + 1) cs s2 = Inr s1"
    by (auto split: sum.splits)
  then show ?case using closed_one[OF s2(1)] 2(1)[OF s2] by simp
qed simp

lemma insort_key_map:
  "(\<And>x. f (g x) = f x) \<Longrightarrow> insort_key f (g x) (map g xs) = map g (insort_key f x xs)"
  by (induction xs) auto

lemma sort_key_map:
  "(\<And>x. f (g x) = f x) \<Longrightarrow> sort_key f (map g xs) = map g (sort_key f xs)"
  by (induction xs) (auto simp: insort_key_map)

text \<open>
  C31: Requesting the deletion of a composition withdraws its ingress and selector entries from
  the next snapshot and changes nothing else: the snapshot still exists, its domains, mesh
  entries and owners are the same, and so are the entries of every other composition. New
  requests stop before running ones lose their way through the mesh.
\<close>

theorem deletion_closes_ingress_only:
  assumes "Snapshot clock cs = Inr s"
  shows "Snapshot clock (map (request_deletion_of i) cs) = Inr (s
    \<lparr>sp_ingress := filter (\<lambda>e. re_composition e \<noteq> i) (sp_ingress s),
     sp_selector := filter (\<lambda>e. re_composition e \<noteq> i) (sp_selector s)\<rparr>)"
proof -
  have "closed_of i empty_snapshot = empty_snapshot"
    by (simp add: closed_of_def empty_snapshot_def)
  then show ?thesis
    using closed_all[OF assms[unfolded Snapshot_def], of i]
    by (simp add: Snapshot_def sort_key_map) (simp add: closed_of_def)
qed

section \<open>An entry component that is being retired\<close>

text \<open>
  After an update that drops the override of the entry component, the plan still has its
  profile but its workload is no longer among the composition's workloads. The ingress entry of
  the composition then leads to the host name \<open>..svc.cluster.local\<close> of an empty reference, not
  to the baseline's service.
\<close>

theorem retired_entry_has_no_host:
  assumes "Snapshot clock [c] = Inr s" "open_at (clock 0) c" "rt_plan (c_runtime c) = Some plan"
    and "br_entry_component (b_routing (rp_baseline plan)) = component"
    and "has_key (Profiles plan) component" "\<not> has_key (rt_workloads (c_runtime c)) component"
    and "wr_deployment (rt_workload (c_runtime c)) \<noteq> component"
    and "wr_service (rt_workload (c_runtime c)) \<noteq> component"
  shows "map re_destination_host (sp_ingress s) = [''..svc.cluster.local'']"
proof -
  have "snapshot_all clock 0 [c] empty_snapshot = Inr s"
    using assms(1) by (simp add: Snapshot_def)
  from snapshot_all_Inr[OF this] have "sp_ingress s = [ingress_of c]"
    using assms(2) by (simp add: snapshot_part_def empty_snapshot_def)
  moreover have "WorkloadFor (c_runtime c) component = zero_workload_ref"
    using assms(6-8) by (simp add: WorkloadFor_def has_key_def)
  ultimately show ?thesis
    using assms(3-5) by (auto simp: ingress_of_def ingress_entry_def plan_of_def Let_def
        has_key_def cluster_host_def zero_workload_ref_def split: option.splits)
qed

section \<open>A composition with routes\<close>

definition web_profile :: component where
  "web_profile = zero_component\<lparr>cp_id := ''web'', cp_port := 8080\<rparr>"

definition api_profile :: component where
  "api_profile = zero_component\<lparr>cp_id := ''api'', cp_port := 9090\<rparr>"

definition shop_baseline :: baseline where
  "shop_baseline = zero_baseline
     \<lparr>b_id := ''staging'', b_project := ''shop'', b_endpoint := ''http://shop.example.com'',
      b_routing := \<lparr>br_namespace = ''base'', br_gateway = ''gw'', br_gateway_namespace = [],
        br_gateway_section_name = [], br_entry_component = ''web'', br_preview_selector = None\<rparr>,
      b_verification := \<lparr>vc_kind = ''http'', vc_chain = [], vc_path = ''/'', vc_expected_status = 200\<rparr>,
      b_components := [(''web'', \<lparr>bb_service_host = ''web.base'', bb_port = 80, bb_image = ''i''\<rparr>),
        (''api'', \<lparr>bb_service_host = ''api.base'', bb_port = 81, bb_image = ''i''\<rparr>)]\<rparr>"

definition shop_plan :: resolved_plan where
  "shop_plan = zero_plan
     \<lparr>rp_baseline := shop_baseline, rp_components := [(''web'', web_profile), (''api'', api_profile)]\<rparr>"

definition api_workload :: workload_ref where
  "api_workload = zero_workload_ref
     \<lparr>wr_namespace := ''envy-c1'', wr_service := ''api'', wr_deployment := ''api'',
      wr_ownership_token := ''token''\<rparr>"

text \<open>It overrides \<open>api\<close> only; the profile of \<open>web\<close> is left over from an earlier selection.\<close>

definition shop_composition :: composition where
  "shop_composition = zero_composition
     \<lparr>c_id := ''c1'', c_project := ''shop'', c_baseline := ''staging'', c_generation := 2,
      c_phase := PhaseReady, c_expires_at := 100,
      c_overrides := [(''api'', zero_override\<lparr>o_image := ''api:2''\<rparr>)],
      c_endpoints := [(''public'', \<lparr>ep_url = ''http://c1.example.com'', ep_ready = True\<rparr>)],
      c_runtime := zero_runtime
        \<lparr>rt_plan := Some shop_plan, rt_ownership_token := ''token'', rt_routing_active := True,
         rt_workloads := [(''api'', api_workload)],
         rt_published_overrides := Some [(''api'', zero_override\<lparr>o_image := ''api:2''\<rparr>)]\<rparr>\<rparr>"

lemmas shop_defs = web_profile_def api_profile_def shop_baseline_def shop_plan_def api_workload_def
  shop_composition_def zero_component_def zero_override_def zero_composition_def zero_runtime_def
  zero_plan_def zero_baseline_def zero_workload_ref_def

lemma shop_host: "endpointHost shop_composition = Inr ''c1.example.com''"
  by (simp add: endpointHost_def parsed_host_def shop_defs get_or_def url_eval)

lemma shop_names: "OverrideNames (selected_overrides shop_composition) = [''api'']"
  by (simp add: OverrideNames_def sorted_keys_def selected_overrides_def shop_defs)

lemma shop_snapshot: "\<exists>s. Snapshot (\<lambda>_. 10) [shop_composition] = Inr s"
proof -
  have plan: "rt_plan (c_runtime shop_composition) = Some shop_plan" by (simp add: shop_defs)
  have profile: "map_of (Profiles shop_plan) ''api'' = Some api_profile"
    by (simp add: shop_defs Profiles_def map_len_def)
  have ref: "WorkloadFor (c_runtime shop_composition) ''api'' = api_workload"
    by (simp add: WorkloadFor_def) (simp add: shop_defs)
  have api: "cp_id api_profile = ''api''" "HasEndpoint api_profile"
    by (simp_all add: HasEndpoint_def WorkloadKind_def shop_defs)
  have own: "wr_namespace api_workload = NamespaceForID (c_id shop_composition)" "wr_service api_workload = ''api''"
    by (simp_all add: shop_defs NamespaceForID_def replace_char_def)
  have sel: "br_preview_selector (b_routing (rp_baseline shop_plan)) = None"
    by (simp add: shop_defs)
  show ?thesis
    by (simp add: Snapshot_def snapshot_one_def plan shop_names profile ref api own
        snapshot_ingress_def shop_host sel Let_def)
qed

lemma shop_open: "open_at 10 shop_composition"
  by (simp add: open_at_def routed_def shop_defs)

lemma snapshot_entries_witness:
  "\<exists>s. Snapshot (\<lambda>_. 10) [shop_composition] = Inr s \<and>
     map (\<lambda>e. (re_composition e, re_ownership_token e, re_destination_host e)) (sp_mesh s) =
       [(''c1'', ''token'', ''api.envy-c1.svc.cluster.local'')] \<and>
     map re_composition (sp_ingress s) = [''c1'']"
proof -
  obtain s where s: "Snapshot (\<lambda>_. 10) [shop_composition] = Inr s"
    using shop_snapshot by blast
  have "is_endpoint shop_composition ''api''"
    by (simp add: is_endpoint_def profile_of_def Profiles_def map_len_def HasEndpoint_def
        WorkloadKind_def shop_defs)
  then have "endpoint_names shop_composition = [''api'']"
    by (simp add: endpoint_names_def shop_names)
  moreover have "routed shop_composition" using shop_open by (simp add: open_at_def)
  moreover have "c_id shop_composition = ''c1''" "rt_ownership_token (c_runtime shop_composition) = ''token''"
    by (simp_all add: shop_defs)
  ultimately show ?thesis
    using snapshot_entries[OF s] s shop_open by (simp add: NamespaceForID_def replace_char_def)
qed

lemma snapshot_order_independent_witness:
  "Snapshot (\<lambda>_. 10) [shop_composition, zero_composition] = Snapshot (\<lambda>_. 10) [zero_composition, shop_composition]"
  by (rule snapshot_order_independent) (simp_all add: shop_composition_def zero_composition_def)

lemma deletion_closes_ingress_only_witness:
  "\<exists>s. Snapshot (\<lambda>_. 10) [shop_composition] = Inr s \<and>
     Snapshot (\<lambda>_. 10) (map (request_deletion_of ''c1'') [shop_composition]) = Inr (s
       \<lparr>sp_ingress := filter (\<lambda>e. re_composition e \<noteq> ''c1'') (sp_ingress s),
        sp_selector := filter (\<lambda>e. re_composition e \<noteq> ''c1'') (sp_selector s)\<rparr>)"
  using shop_snapshot deletion_closes_ingress_only[of "\<lambda>_. 10" "[shop_composition]" _ "''c1''"] by blast

lemma retired_entry_has_no_host_witness:
  "\<exists>s. Snapshot (\<lambda>_. 10) [shop_composition] = Inr s \<and>
     map re_destination_host (sp_ingress s) = [''..svc.cluster.local'']"
proof -
  obtain s where s: "Snapshot (\<lambda>_. 10) [shop_composition] = Inr s"
    using shop_snapshot by blast
  have plan: "rt_plan (c_runtime shop_composition) = Some shop_plan"
    and entry: "br_entry_component (b_routing (rp_baseline shop_plan)) = ''web''"
    and profile: "has_key (Profiles shop_plan) ''web''"
    and absent: "\<not> has_key (rt_workloads (c_runtime shop_composition)) ''web''"
    and legacy: "wr_deployment (rt_workload (c_runtime shop_composition)) \<noteq> ''web''"
      "wr_service (rt_workload (c_runtime shop_composition)) \<noteq> ''web''"
    by (simp_all add: Profiles_def map_len_def has_key_def shop_defs)
  have "map re_destination_host (sp_ingress s) = [''..svc.cluster.local'']"
    by (rule retired_entry_has_no_host[where clock = "\<lambda>_. 10",
        OF s shop_open plan entry profile absent legacy])
  then show ?thesis by (intro exI[of _ s] conjI s)
qed

end
