(* ===== verification/Verification.thy ===== *)
theory Verification
  imports Catalog Go_Url
begin

text \<open>
  The verifier of \<open>internal/verification\<close> (\<open>demo.go\<close>, \<open>http.go\<close>) with the protocol of
  \<open>demo/protocol\<close>: it sends requests through the ingress and compares the hops it observes with
  the registered contract.

  What the ingress answers is a value of the model: \<open>in_reply n host path\<close> is the outcome of the
  \<open>n\<close>-th request of one check, an error or a response with its status, the two headers the code
  reads and its decoded body. \<open>in_order\<close> ranks the keys of a map for one iteration over it. The
  ingress URL was parsed when the verifier was built, so constructing a request does not fail.
\<close>

section \<open>Observations\<close>

record hop =
  hp_service :: string
  hp_version :: string
  hp_composition :: string
  hp_workload_id :: string
  hp_deployment :: string

record verification_result =
  vr_probes :: "verification_probe list"
  vr_baseline :: "hop list"
  vr_composition :: "hop list"

definition empty_verification :: verification_result where
  "empty_verification = \<lparr>vr_probes = [], vr_baseline = [], vr_composition = []\<rparr>"

text \<open>The body of a response: not the protocol's JSON, JSON with more content behind it, or a chain.\<close>

datatype reply_body = Undecodable string | Trailing_Content | Chain "hop list"

record http_reply =
  hr_status :: int
  hr_request_id :: string
  hr_route :: string
  hr_body :: reply_body

record ingress =
  in_reply :: "nat \<Rightarrow> string \<Rightarrow> string \<Rightarrow> string + http_reply"
  in_order :: "string \<Rightarrow> nat"

type_synonym 'a attempted = "'a \<times> go_error option"

definition observedRequestID :: "string \<Rightarrow> string" where
  "observedRequestID v = (if ValidRequestID v then v else [])"

section \<open>Requests\<close>

definition requestWithID :: "ingress \<Rightarrow> nat \<Rightarrow> string \<Rightarrow> (int \<times> hop list \<times> string) attempted" where
  "requestWithID w n host =
     (case in_reply w n host ''/'' of
        Inl m \<Rightarrow> ((0, [], []), Some (Wrapped ''preview ingress unavailable: '' (Plain m)))
      | Inr r \<Rightarrow>
          let request_id = observedRequestID (hr_request_id r) in
          if hr_status r \<noteq> 200 then ((hr_status r, [], request_id), None)
          else case hr_body r of
            Undecodable m \<Rightarrow>
              ((hr_status r, [], request_id),
               Some (Wrapped ''decode demo verification response: '' (Plain m)))
          | Trailing_Content \<Rightarrow>
              ((hr_status r, [], request_id),
               Some (Plain ''demo verification response has trailing content''))
          | Chain hops \<Rightarrow> ((hr_status r, hops, request_id), None))"

definition request :: "ingress \<Rightarrow> nat \<Rightarrow> string \<Rightarrow> (int \<times> hop list) attempted" where
  "request w n host = (case requestWithID w n host of ((code, hops, i), err) \<Rightarrow> ((code, hops), err))"

definition valid_path :: "string \<Rightarrow> bool" where
  "valid_path path \<longleftrightarrow>
     (case parse_url path of
        None \<Rightarrow> False
      | Some (scheme, host) \<Rightarrow>
          has_prefix path ''/'' \<and> \<not> has_prefix path ''//'' \<and> host = [] \<and>
          snd (cut_at CHR ''?'' (fst (cut_at CHR ''#'' path))) = [] \<and>
          snd (cut_at CHR ''#'' path) = [])"

definition statusWithID :: "ingress \<Rightarrow> nat \<Rightarrow> string \<Rightarrow> string \<Rightarrow> (int \<times> string \<times> string) attempted" where
  "statusWithID w n host path =
     (if \<not> valid_path path then ((0, [], []), Some (Plain ''invalid verification path''))
      else case in_reply w n host path of
        Inl m \<Rightarrow> ((0, [], []), Some (Wrapped ''ingress request failed: '' (Plain m)))
      | Inr r \<Rightarrow> ((hr_status r, hr_route r, observedRequestID (hr_request_id r)), None))"

definition status :: "ingress \<Rightarrow> nat \<Rightarrow> string \<Rightarrow> string \<Rightarrow> (int \<times> string) attempted" where
  "status w n host path = (case statusWithID w n host path of ((code, route, i), err) \<Rightarrow> ((code, route), err))"

section \<open>Chains\<close>

fun validate_hops :: "hop list \<Rightarrow> string \<Rightarrow> string list \<Rightarrow> string gomap \<Rightarrow> go_error option" where
  "validate_hops (h # chain) i (name # names) overrides =
     (if hp_service h \<noteq> name \<or> hp_composition h \<noteq> i \<or> hp_workload_id h = [] \<or> hp_version h = []
      then Some (Plain (''unexpected identity or context at '' @ name))
      else if hp_deployment h \<noteq> (if has_key overrides (hp_service h) \<and> i \<noteq> [] then i else ''baseline'')
      then Some (Plain (''unexpected deployment identity at '' @ name))
      else validate_hops chain i names overrides)"
| "validate_hops chain i names overrides = None"

definition validate :: "hop list \<Rightarrow> string \<Rightarrow> string list \<Rightarrow> string gomap \<Rightarrow> go_error option" where
  "validate chain i names overrides =
     (if length chain \<noteq> length names
      then Some (Plain (''expected '' @ show_int (int (length names)) @ '' registered hops, got '' @
             show_int (int (length chain))))
      else validate_hops chain i names overrides)"

text \<open>\<open>baseline[i]\<close>: the chains have the length of the contract when this runs.\<close>

fun verifyWorkloadIdentity :: "hop list \<Rightarrow> hop list \<Rightarrow> string gomap \<Rightarrow> go_error option" where
  "verifyWorkloadIdentity (h # chain) (b # baseline) workloads =
     (case map_of workloads (hp_service h) of
        Some workload \<Rightarrow>
          if hp_workload_id h \<noteq> workload
          then Some (Plain (hp_service h @ '' did not reach the observed override pod''))
          else verifyWorkloadIdentity chain baseline workloads
      | None \<Rightarrow>
          if hp_workload_id h \<noteq> hp_workload_id b \<or> hp_version h \<noteq> hp_version b
          then Some (Plain (''inherited '' @ hp_service h @ '' did not use the observed baseline''))
          else verifyWorkloadIdentity chain baseline workloads)"
| "verifyWorkloadIdentity chain baseline workloads = None"

fun require_identities ::
  "(string \<Rightarrow> bool) \<Rightarrow> string gomap \<Rightarrow> string list \<Rightarrow> go_error option"
where
  "require_identities missing workloads [] = None"
| "require_identities missing workloads (component # rest) =
     (if missing component \<or> get_or [] workloads component = []
      then Some (Plain (''observed workload identity required for '' @ component))
      else require_identities missing workloads rest)"

definition iterate :: "ingress \<Rightarrow> 'v gomap \<Rightarrow> string list" where
  "iterate w m = sort_key (in_order w) (sorted_keys m)"

definition validateChainRequest ::
  "ingress \<Rightarrow> string \<Rightarrow> string \<Rightarrow> string gomap \<Rightarrow> resolved_plan \<Rightarrow> go_error option"
where
  "validateChainRequest w i host workloads plan =
     (let contract = b_verification (rp_baseline plan); profiles = Profiles plan in
      if vc_kind contract \<noteq> ''envy-chain'' \<or> vc_chain contract = [] \<or>
         map_len workloads \<noteq> map_len profiles
      then Some (Plain ''invalid registered verification contract'')
      else if i = [] \<or> host = []
      then Some (Plain ''composition identity and hostname are required'')
      else require_identities (\<lambda>component. component \<notin> set (vc_chain contract)) workloads
             (iterate w profiles))"

text \<open>The verifier's own \<open>baselineHost\<close>, empty when the endpoint does not parse.\<close>

definition contract_host :: "baseline \<Rightarrow> string" where
  "contract_host b = (case url_hostname (b_endpoint b) of None \<Rightarrow> [] | Some h \<Rightarrow> h)"

section \<open>The HTTP contract\<close>

definition success_status :: "int \<Rightarrow> bool" where
  "success_status s \<longleftrightarrow> 200 \<le> s \<and> s \<le> 299"

definition checkHTTP :: "ingress \<Rightarrow> nat \<Rightarrow> string \<Rightarrow> verification_contract \<Rightarrow> go_error option" where
  "checkHTTP w n host contract =
     (if vc_path contract = [] \<or> \<not> success_status (vc_expected_status contract)
      then Some (Plain ''invalid HTTP verification contract'')
      else case status w n host (vc_path contract) of
        (_, Some e) \<Rightarrow> Some e
      | ((code, route), None) \<Rightarrow>
          if code \<noteq> vc_expected_status contract
          then Some (Plain (''ingress '' @ host @ '' at '' @ vc_path contract @ '' returned HTTP '' @
                 show_int code @ ''; expected '' @ show_int (vc_expected_status contract)))
          else None)"

definition probe :: "string \<Rightarrow> int \<Rightarrow> int \<Rightarrow> string \<Rightarrow> verification_probe" where
  "probe target expected code request_id =
     \<lparr>vp_target = target, vp_expected_status = expected, vp_observed_status = code,
      vp_request_id = request_id\<rparr>"

fun probe_targets ::
  "ingress \<Rightarrow> nat \<Rightarrow> verification_contract \<Rightarrow> (string \<times> string) list \<Rightarrow> verification_probe list \<Rightarrow>
     (verification_probe list) attempted"
where
  "probe_targets w n contract [] probes = (probes, None)"
| "probe_targets w n contract ((target, host) # rest) probes =
     (case statusWithID w n host (vc_path contract) of
        ((code, route, request_id), err) \<Rightarrow>
          let probes = probes @ [probe target (vc_expected_status contract) code request_id] in
          case err of
            Some e \<Rightarrow> (probes, Some (Wrapped (target @ '': '') e))
          | None \<Rightarrow>
              if code \<noteq> vc_expected_status contract
              then (probes, Some (Plain (target @ '' returned HTTP '' @ show_int code @ ''; expected '' @
                      show_int (vc_expected_status contract))))
              else probe_targets w (n + 1) contract rest probes)"

definition verifyHTTP ::
  "ingress \<Rightarrow> string \<Rightarrow> string \<Rightarrow> string gomap \<Rightarrow> resolved_plan \<Rightarrow> verification_result attempted"
where
  "verifyHTTP w i host workloads plan =
     (let contract = b_verification (rp_baseline plan) in
      if \<not> success_status (vc_expected_status contract)
      then (empty_verification, Some (Plain ''invalid HTTP verification contract''))
      else if i = [] \<or> host = [] \<or> map_len workloads \<noteq> map_len (Profiles plan) \<or> map_len workloads = 0
      then (empty_verification,
            Some (Plain ''HTTP verification requires observed workloads and composition identity''))
      else case require_identities (\<lambda>_. False) workloads (iterate w (Profiles plan)) of
        Some e \<Rightarrow> (empty_verification, Some e)
      | None \<Rightarrow>
          (case probe_targets w 0 contract
                  [(''baseline'', contract_host (rp_baseline plan)), (''preview'', host)] [] of
             (probes, err) \<Rightarrow> (empty_verification\<lparr>vr_probes := probes\<rparr>, err)))"

section \<open>Checks\<close>

definition http_error :: "string \<Rightarrow> int \<Rightarrow> go_error" where
  "http_error who code = Plain (who @ '' ingress returned HTTP '' @ show_int code)"

definition verify_preview ::
  "ingress \<Rightarrow> string \<Rightarrow> string \<Rightarrow> string gomap \<Rightarrow> resolved_plan \<Rightarrow> verification_result \<Rightarrow>
     verification_result attempted"
where
  "verify_preview w i host workloads plan result =
     (case requestWithID w 1 host of
        ((code, chain, request_id), err) \<Rightarrow>
          let result = result\<lparr>vr_probes := vr_probes result @ [probe ''preview'' 200 code request_id],
                         vr_composition := chain\<rparr>
          in case err of
               Some e \<Rightarrow> (result, Some e)
             | None \<Rightarrow>
                 if code \<noteq> 200 then (result, Some (http_error ''composition'' code))
                 else case validate chain i (vc_chain (b_verification (rp_baseline plan))) workloads of
                   Some e \<Rightarrow> (result, Some (Wrapped ''composition: '' e))
                 | None \<Rightarrow> (result, verifyWorkloadIdentity chain (vr_baseline result) workloads))"

definition Verify ::
  "ingress \<Rightarrow> string \<Rightarrow> string \<Rightarrow> string gomap \<Rightarrow> resolved_plan \<Rightarrow> verification_result attempted"
where
  "Verify w i host workloads plan =
     (if vc_kind (b_verification (rp_baseline plan)) = ''http'' then verifyHTTP w i host workloads plan
      else case validateChainRequest w i host workloads plan of
        Some e \<Rightarrow> (empty_verification, Some e)
      | None \<Rightarrow>
          (case requestWithID w 0 (contract_host (rp_baseline plan)) of
             ((code, baseline, request_id), err) \<Rightarrow>
               let result = empty_verification
                     \<lparr>vr_probes := [probe ''baseline'' 200 code request_id], vr_baseline := baseline\<rparr>
               in case err of
                    Some e \<Rightarrow> (result, Some e)
                  | None \<Rightarrow>
                      if code \<noteq> 200 then (result, Some (http_error ''baseline'' code))
                      else case validate baseline [] (vc_chain (b_verification (rp_baseline plan)))
                                  workloads of
                        Some e \<Rightarrow> (result, Some (Wrapped ''baseline: '' e))
                      | None \<Rightarrow> verify_preview w i host workloads plan result))"

text \<open>\<open>Absent\<close>: the ingress no longer knows the host name.\<close>

definition Absent :: "ingress \<Rightarrow> string \<Rightarrow> go_error option" where
  "Absent w host =
     (case status w 0 host ''/'' of
        (_, Some e) \<Rightarrow> Some e
      | ((code, route), None) \<Rightarrow>
          if code \<noteq> 404 \<or> route \<noteq> []
          then Some (Plain (''hostname withdrawal not observed: HTTP '' @ show_int code))
          else None)"

definition ValidateBaseline :: "ingress \<Rightarrow> baseline \<Rightarrow> go_error option" where
  "ValidateBaseline w b =
     (if vc_kind (b_verification b) = ''http'' then
        (case checkHTTP w 0 (contract_host b) (b_verification b) of
           Some e \<Rightarrow> Some (Validation (''baseline HTTP check failed: '' @ err_message e))
         | None \<Rightarrow> None)
      else case request w 0 (contract_host b) of
        (_, Some e) \<Rightarrow> Some e
      | ((code, chain), None) \<Rightarrow>
          if code \<noteq> 200 then Some (Validation (''baseline ingress returned HTTP '' @ show_int code))
          else case validate chain [] (vc_chain (b_verification b)) [] of
            Some e \<Rightarrow> Some (Validation (''baseline propagation check failed: '' @ err_message e))
          | None \<Rightarrow> None)"

section \<open>Properties\<close>

text \<open>A hop that shows the right identity at its place of the chain.\<close>

definition hop_identified :: "string \<Rightarrow> string gomap \<Rightarrow> hop \<Rightarrow> string \<Rightarrow> bool" where
  "hop_identified i workloads h name \<longleftrightarrow>
     hp_service h = name \<and> hp_composition h = i \<and> hp_workload_id h \<noteq> [] \<and> hp_version h \<noteq> [] \<and>
     hp_deployment h = (if has_key workloads name \<and> i \<noteq> [] then i else ''baseline'')"

text \<open>An overridden hop reached the override's pod, an inherited one the pod of the baseline.\<close>

definition hop_served :: "string gomap \<Rightarrow> hop \<Rightarrow> hop \<Rightarrow> bool" where
  "hop_served workloads h b \<longleftrightarrow>
     (case map_of workloads (hp_service h) of
        Some pod \<Rightarrow> hp_workload_id h = pod
      | None \<Rightarrow> hp_workload_id h = hp_workload_id b \<and> hp_version h = hp_version b)"

lemma validate_hops_iff:
  "length chain = length names \<Longrightarrow>
     validate_hops chain i names overrides = None \<longleftrightarrow> list_all2 (hop_identified i overrides) chain names"
  by (induction chain i names overrides rule: validate_hops.induct) (auto simp: hop_identified_def)

lemma validate_iff:
  "validate chain i names overrides = None \<longleftrightarrow> list_all2 (hop_identified i overrides) chain names"
  by (auto simp: validate_def validate_hops_iff list_all2_lengthD)

lemma verifyWorkloadIdentity_iff:
  "length chain = length baseline \<Longrightarrow>
     verifyWorkloadIdentity chain baseline workloads = None \<longleftrightarrow> list_all2 (hop_served workloads) chain baseline"
  by (induction chain baseline workloads rule: verifyWorkloadIdentity.induct)
    (auto simp: hop_served_def split: option.splits)

lemma require_identities_iff:
  "require_identities missing workloads names = None \<longleftrightarrow>
     list_all (\<lambda>component. \<not> missing component \<and> get_or [] workloads component \<noteq> []) names"
  by (induction missing workloads names rule: require_identities.induct) auto

lemma requestWithID_ok:
  "requestWithID w n host = ((code, hops, i), None) \<and> code = 200 \<longleftrightarrow>
     (\<exists>r. in_reply w n host ''/'' = Inr r \<and> hr_status r = 200 \<and> hr_body r = Chain hops \<and>
        code = 200 \<and> i = observedRequestID (hr_request_id r))"
  by (auto simp: requestWithID_def Let_def split: sum.splits reply_body.splits)

text \<open>The chain an ingress shows in answer to one request, if it shows one.\<close>

definition chain_reply :: "ingress \<Rightarrow> nat \<Rightarrow> string \<Rightarrow> hop list option" where
  "chain_reply w n host =
     (case in_reply w n host ''/'' of
        Inl m \<Rightarrow> None
      | Inr r \<Rightarrow> (case hr_body r of Chain hops \<Rightarrow> if hr_status r = 200 then Some hops else None | _ \<Rightarrow> None))"

lemma requestWithID_cases:
  "(chain_reply w n host = Some hops \<and> (\<exists>i. requestWithID w n host = ((200, hops, i), None))) \<or>
   (chain_reply w n host = None \<and>
      (\<exists>code hs i err. requestWithID w n host = ((code, hs, i), err) \<and> (err = None \<longrightarrow> code \<noteq> 200)))"
  if "chain_reply w n host = None \<or> chain_reply w n host = Some hops"
  using that by (auto simp: chain_reply_def requestWithID_def Let_def split: sum.splits reply_body.splits if_splits)

lemma verify_preview_iff:
  assumes "length (vr_baseline result) = length (vc_chain (b_verification (rp_baseline plan)))"
  shows "(\<exists>r. verify_preview w i host workloads plan result = (r, None)) \<longleftrightarrow>
     (\<exists>c. chain_reply w 1 host = Some c \<and>
        list_all2 (hop_identified i workloads) c (vc_chain (b_verification (rp_baseline plan))) \<and>
        list_all2 (hop_served workloads) c (vr_baseline result))"
proof (cases "chain_reply w 1 host")
  case None
  then show ?thesis using requestWithID_cases[of w 1 host "[]"]
    by (auto simp: verify_preview_def Let_def split: option.splits)
next
  case (Some c)
  then obtain i' where req: "requestWithID w 1 host = ((200, c, i'), None)"
    using requestWithID_cases[of w 1 host c] by auto
  let ?names = "vc_chain (b_verification (rp_baseline plan))"
  show ?thesis
  proof (cases "validate c i ?names workloads")
    case None
    then have ids: "list_all2 (hop_identified i workloads) c ?names" by (simp add: validate_iff)
    have "(\<exists>r. verify_preview w i host workloads plan result = (r, None)) \<longleftrightarrow>
        verifyWorkloadIdentity c (vr_baseline result) workloads = None"
      using None req by (simp add: verify_preview_def Let_def)
    then show ?thesis
      using verifyWorkloadIdentity_iff[of c "vr_baseline result" workloads] ids assms
        list_all2_lengthD[OF ids] Some by simp
  next
    case (Some e)
    then have "\<not> list_all2 (hop_identified i workloads) c ?names"
      by (simp add: validate_iff[symmetric])
    then show ?thesis using \<open>chain_reply w 1 host = Some c\<close> req Some
      by (simp add: verify_preview_def Let_def)
  qed
qed

text \<open>
  C11: A check of a chain contract passes exactly when the request is well formed, the baseline
  host and the preview host both answer with a chain of the registered services under the right
  identities, every overridden service was served by the pod observed for its override, and every
  inherited one by the pod and version that served the baseline.
\<close>

theorem chain_verified_iff:
  assumes "vc_kind (b_verification (rp_baseline plan)) \<noteq> ''http''"
  shows "(\<exists>result. Verify w i host workloads plan = (result, None)) \<longleftrightarrow>
    validateChainRequest w i host workloads plan = None \<and>
    (\<exists>b c. chain_reply w 0 (contract_host (rp_baseline plan)) = Some b \<and> chain_reply w 1 host = Some c \<and>
       list_all2 (hop_identified [] workloads) b (vc_chain (b_verification (rp_baseline plan))) \<and>
       list_all2 (hop_identified i workloads) c (vc_chain (b_verification (rp_baseline plan))) \<and>
       list_all2 (hop_served workloads) c b)"
proof (cases "validateChainRequest w i host workloads plan")
  case (Some e)
  then show ?thesis using assms by (simp add: Verify_def)
next
  case valid: None
  let ?host = "contract_host (rp_baseline plan)"
  let ?names = "vc_chain (b_verification (rp_baseline plan))"
  show ?thesis
  proof (cases "chain_reply w 0 ?host")
    case None
    then show ?thesis using requestWithID_cases[of w 0 ?host "[]"] assms valid
      by (auto simp: Verify_def Let_def split: option.splits)
  next
    case (Some b)
    then obtain i' where req: "requestWithID w 0 ?host = ((200, b, i'), None)"
      using requestWithID_cases[of w 0 ?host b] by auto
    show ?thesis
    proof (cases "validate b [] ?names workloads")
      case (Some e)
      then have "\<not> list_all2 (hop_identified [] workloads) b ?names"
        by (simp add: validate_iff[symmetric])
      then show ?thesis using \<open>chain_reply w 0 ?host = Some b\<close> req assms valid Some
        by (simp add: Verify_def Let_def)
    next
      case None
      then have ids: "list_all2 (hop_identified [] workloads) b ?names" by (simp add: validate_iff)
      define result where "result = empty_verification
        \<lparr>vr_probes := [probe ''baseline'' 200 200 i'], vr_baseline := b\<rparr>"
      have b: "vr_baseline result = b" by (simp add: result_def)
      have "Verify w i host workloads plan = verify_preview w i host workloads plan result"
        using req assms valid None by (simp add: Verify_def Let_def result_def)
      then show ?thesis
        using verify_preview_iff[of result plan w i host workloads] ids valid
          \<open>chain_reply w 0 ?host = Some b\<close> b list_all2_lengthD[OF ids] by simp
    qed
  qed
qed

definition shop_hop :: "string \<Rightarrow> string \<Rightarrow> string \<Rightarrow> string \<Rightarrow> hop" where
  "shop_hop service pod i deployment =
     \<lparr>hp_service = service, hp_version = ''1'', hp_composition = i, hp_workload_id = pod,
      hp_deployment = deployment\<rparr>"

text \<open>The first request is answered by the baseline, the second through the preview route.\<close>

definition shop_ingress :: ingress where
  "shop_ingress =
     \<lparr>in_reply = (\<lambda>n host path. Inr \<lparr>hr_status = 200, hr_request_id = [], hr_route = [],
        hr_body = Chain (if n = 0 then [shop_hop ''web'' ''w0'' [] ''baseline'', shop_hop ''api'' ''a0'' [] ''baseline'']
          else [shop_hop ''web'' ''w0'' ''c1'' ''baseline'', shop_hop ''api'' ''a1'' ''c1'' ''c1''])\<rparr>),
      in_order = (\<lambda>_. 0)\<rparr>"

definition chain_plan :: resolved_plan where
  "chain_plan = zero_plan
     \<lparr>rp_baseline := zero_baseline\<lparr>b_verification :=
        \<lparr>vc_kind = ''envy-chain'', vc_chain = [''web'', ''api''], vc_path = [], vc_expected_status = 0\<rparr>\<rparr>,
      rp_components := [(''api'', zero_component\<lparr>cp_id := ''api''\<rparr>)]\<rparr>"

lemma chain_verified_iff_witness:
  "\<exists>result. Verify shop_ingress ''c1'' ''c1.example.com'' [(''api'', ''a1'')] chain_plan = (result, None)"
proof -
  have kind: "vc_kind (b_verification (rp_baseline chain_plan)) \<noteq> ''http''"
    by (simp add: chain_plan_def zero_plan_def zero_baseline_def)
  have names: "vc_chain (b_verification (rp_baseline chain_plan)) = [''web'', ''api'']"
    "Profiles chain_plan = [(''api'', zero_component\<lparr>cp_id := ''api''\<rparr>)]"
    by (simp_all add: chain_plan_def zero_plan_def zero_baseline_def Profiles_def map_len_def)
  have "validateChainRequest shop_ingress ''c1'' ''c1.example.com'' [(''api'', ''a1'')] chain_plan = None"
    by (simp add: validateChainRequest_def names iterate_def sorted_keys_def get_or_def Let_def map_len_def)
      (simp add: chain_plan_def zero_plan_def zero_baseline_def)
  moreover have "chain_reply shop_ingress 0 h = Some [shop_hop ''web'' ''w0'' [] ''baseline'', shop_hop ''api'' ''a0'' [] ''baseline'']"
    "chain_reply shop_ingress 1 h = Some [shop_hop ''web'' ''w0'' ''c1'' ''baseline'', shop_hop ''api'' ''a1'' ''c1'' ''c1'']"
    for h by (simp_all add: chain_reply_def shop_ingress_def)
  ultimately show ?thesis
    unfolding chain_verified_iff[OF kind] names(1)
    by (simp add: hop_identified_def hop_served_def shop_hop_def has_key_def)
qed

end
