(* ===== verification/Effects.thy ===== *)
theory Effects
  imports Routes Verification Workload Messaging Evidence
begin

text \<open>
  The world of the reconciler: the values that cross its interfaces (\<open>Store\<close>, \<open>Runtime\<close>,
  \<open>RoutingProvider\<close>, \<open>MessagingProvider\<close>, \<open>Verifier\<close>, the leadership guard and the clock) and
  the programs that call them.

  A call appends an \<open>effect\<close> to the log, latest first, and its answer is a function of the log
  that ends with it. A \<open>world\<close> fixes these functions: quantifying over worlds covers every
  behaviour of the providers, of the database and of concurrent writers. A program keeps the
  changes it made to its composition when it returns an error, as the code mutates \<open>*c\<close>.
\<close>

section \<open>Values that cross the interfaces\<close>

record workload_spec =
  ws_execution :: "execution_ref option"
  ws_schedule_active :: bool
  ws_desired_components :: "string list"
  ws_baseline_namespace :: string
  ws_messaging_env :: "string gomap"
  ws_preview :: "preview_snapshot option"
  ws_previews :: "preview_snapshot gomap"
  ws_composition :: string
  ws_project :: string
  ws_component :: string
  ws_image :: string
  ws_ownership_token :: string
  ws_profile :: component
  ws_workload_count :: nat

record workload_observation =
  wo_state :: string
  wo_runs :: int
  wo_ready :: bool
  wo_failed :: bool
  wo_message :: string
  wo_image :: string
  wo_workload_id :: string

definition zero_workload_observation :: workload_observation where
  "zero_workload_observation =
     \<lparr>wo_state = [], wo_runs = 0, wo_ready = False, wo_failed = False, wo_message = [],
      wo_image = [], wo_workload_id = []\<rparr>"

record route_observation =
  rto_ready :: bool
  rto_message :: string

record messaging_spec =
  mg_composition :: string
  mg_ownership_token :: string
  mg_subscriptions :: "message_subscription list"

datatype effect =
    E_Guard
  | E_Expire time
  | E_Active
  | E_Active_Domain string string
  | E_Get string
  | E_Watch
  | E_Save composition
  | E_Msg_Validate baseline
  | E_Msg_Ensure messaging_spec
  | E_Msg_Delete messaging_spec
  | E_Ensure workload_spec
  | E_Observe workload_ref
  | E_Delete workload_ref
  | E_Absent workload_ref
  | E_Delete_Workload workload_ref
  | E_Workload_Absent workload_ref
  | E_Observe_Baseline baseline "component_override gomap"
  | E_Routes route_snapshot
  | E_Verify string string "string gomap" resolved_plan
  | E_Host_Absent string

type_synonym trace = "effect list"

section \<open>Worlds\<close>

text \<open>
  \<open>w_now n\<close> is the \<open>n\<close>-th reading of the reconciler's clock; \<open>w_wall\<close> are the readings
  \<open>Snapshot\<close> takes of the wall clock; \<open>w_order\<close> ranks the keys of a map for one iteration over
  it; \<open>w_jitter\<close> is the random number behind a backoff. \<open>w_observes_baseline\<close> tells whether the
  runtime implements \<open>baselineObserver\<close>, \<open>w_messaging\<close> whether a messaging provider is
  configured, \<open>w_watches\<close> whether there are informers to start. The three durations are those of \<open>Config\<close>.
\<close>

record world =
  w_context :: "trace \<Rightarrow> go_error option"
  w_guard :: "trace \<Rightarrow> go_error option"
  w_expire :: "trace \<Rightarrow> go_error option"
  w_active :: "trace \<Rightarrow> composition list result"
  w_active_domain :: "trace \<Rightarrow> composition list result"
  w_get :: "trace \<Rightarrow> composition result"
  w_watch :: "trace \<Rightarrow> go_error option"
  w_save :: "trace \<Rightarrow> go_error option"
  w_msg_validate :: "trace \<Rightarrow> go_error option"
  w_msg_ensure :: "trace \<Rightarrow> (message_subscription list) attempted"
  w_msg_delete :: "trace \<Rightarrow> bool attempted"
  w_ensure :: "trace \<Rightarrow> workload_ref attempted"
  w_observe :: "trace \<Rightarrow> workload_observation attempted"
  w_delete :: "trace \<Rightarrow> go_error option"
  w_absent :: "trace \<Rightarrow> bool attempted"
  w_delete_workload :: "trace \<Rightarrow> go_error option"
  w_workload_absent :: "trace \<Rightarrow> bool attempted"
  w_observe_baseline :: "trace \<Rightarrow> baseline_observation attempted"
  w_routes :: "trace \<Rightarrow> route_observation attempted"
  w_verify :: "trace \<Rightarrow> verification_result attempted"
  w_host_absent :: "trace \<Rightarrow> go_error option"
  w_now :: "nat \<Rightarrow> time"
  w_wall :: "trace \<Rightarrow> nat \<Rightarrow> time"
  w_order :: "trace \<Rightarrow> string \<Rightarrow> nat"
  w_jitter :: "trace \<Rightarrow> nat"
  w_has_guard :: bool
  w_observes_baseline :: bool
  w_messaging :: bool
  w_watches :: bool
  w_interval :: duration
  w_provision_timeout :: duration
  w_drain_timeout :: duration

text \<open>
  The composition a reconciliation works on, the log, the number of clock readings, and the route
  cycle: \<open>None\<close> outside a scan, else the snapshot applied in it.
\<close>

record rstate =
  rs_comp :: composition
  rs_log :: trace
  rs_reads :: nat
  rs_cycle :: "route_snapshot option option"

section \<open>Programs\<close>

type_synonym 'a rx = "world \<Rightarrow> rstate \<Rightarrow> 'a result \<times> rstate"

definition rx_return :: "'a \<Rightarrow> 'a rx" where
  "rx_return a w s = (Inr a, s)"

definition rx_fail :: "go_error \<Rightarrow> 'a rx" where
  "rx_fail e w s = (Inl e, s)"

definition rx_bind :: "'a rx \<Rightarrow> ('a \<Rightarrow> 'b rx) \<Rightarrow> 'b rx" where
  "rx_bind m f w s = (case m w s of (Inl e, s') \<Rightarrow> (Inl e, s') | (Inr a, s') \<Rightarrow> f a w s')"

definition rx_seq :: "unit rx \<Rightarrow> 'b rx \<Rightarrow> 'b rx" where
  "rx_seq m n = rx_bind m (\<lambda>_. n)"

definition rx_when :: "bool \<Rightarrow> unit rx \<Rightarrow> unit rx" where
  "rx_when b m = (if b then m else rx_return ())"

text \<open>The error of a program as a value.\<close>

definition rx_catch :: "unit rx \<Rightarrow> go_error option rx" where
  "rx_catch m w s = (case m w s of (Inl e, s') \<Rightarrow> (Inr (Some e), s') | (Inr _, s') \<Rightarrow> (Inr None, s'))"

definition rx_require :: "go_error option \<Rightarrow> unit rx" where
  "rx_require e = (case e of None \<Rightarrow> rx_return () | Some err \<Rightarrow> rx_fail err)"

text \<open>Reading and changing the composition, the world, and the route cycle.\<close>

definition rx_comp :: "composition rx" where
  "rx_comp w s = (Inr (rs_comp s), s)"

definition rx_modify :: "(composition \<Rightarrow> composition) \<Rightarrow> unit rx" where
  "rx_modify f w s = (Inr (), s\<lparr>rs_comp := f (rs_comp s)\<rparr>)"

definition rx_config :: "(world \<Rightarrow> 'a) \<Rightarrow> 'a rx" where
  "rx_config f w s = (Inr (f w), s)"

definition rx_cycle :: "route_snapshot option option rx" where
  "rx_cycle w s = (Inr (rs_cycle s), s)"

definition rx_set_cycle :: "route_snapshot option option \<Rightarrow> unit rx" where
  "rx_set_cycle c w s = (Inr (), s\<lparr>rs_cycle := c\<rparr>)"

text \<open>What the world answers without an effect: the clocks, a map's order, the context.\<close>

definition rx_now :: "time rx" where
  "rx_now w s = (Inr (w_now w (rs_reads s)), s\<lparr>rs_reads := Suc (rs_reads s)\<rparr>)"

definition rx_ask :: "(world \<Rightarrow> trace \<Rightarrow> 'a) \<Rightarrow> 'a rx" where
  "rx_ask f w s = (Inr (f w (rs_log s)), s)"

definition rx_range :: "'v gomap \<Rightarrow> string list rx" where
  "rx_range m = rx_bind (rx_ask w_order) (\<lambda>order. rx_return (sort_key order (sorted_keys m)))"

text \<open>Calls.\<close>

definition rx_call :: "effect \<Rightarrow> (world \<Rightarrow> trace \<Rightarrow> 'a) \<Rightarrow> 'a rx" where
  "rx_call e f w s = (Inr (f w (e # rs_log s)), s\<lparr>rs_log := e # rs_log s\<rparr>)"

definition rx_do :: "effect \<Rightarrow> (world \<Rightarrow> trace \<Rightarrow> go_error option) \<Rightarrow> unit rx" where
  "rx_do e f = rx_bind (rx_call e f) rx_require"

text \<open>A call whose error is wrapped with a prefix.\<close>

definition rx_do_as :: "string \<Rightarrow> effect \<Rightarrow> (world \<Rightarrow> trace \<Rightarrow> go_error option) \<Rightarrow> unit rx" where
  "rx_do_as label e f = rx_bind (rx_call e f) (\<lambda>err. rx_require (map_option (Wrapped label) err))"

definition rx_save :: "unit rx" where
  "rx_save = rx_bind rx_comp (\<lambda>c. rx_do (E_Save c) w_save)"

end
