(* ===== verification/Reconciler.thy ===== *)
theory Reconciler
  imports Effects
begin

text \<open>
  The reconciler of \<open>internal/reconciler/reconciler.go\<close>, one program per function, in the order
  of the code. \<open>step\<close> is the body of the code's \<open>step\<close>; its stages, which the code writes one
  after the other, are programs of their own that end by running the next.
\<close>

section \<open>Updating a composition\<close>

definition on_runtime :: "(runtime_state \<Rightarrow> runtime_state) \<Rightarrow> composition \<Rightarrow> composition" where
  "on_runtime f c = c\<lparr>c_runtime := f (c_runtime c)\<rparr>"

definition on_operation :: "(operation \<Rightarrow> operation) \<Rightarrow> composition \<Rightarrow> composition" where
  "on_operation f c = c\<lparr>c_latest_operation := f (c_latest_operation c)\<rparr>"

definition cond :: "string \<Rightarrow> bool \<Rightarrow> string \<Rightarrow> condition" where
  "cond kind st message = \<lparr>cond_type = kind, cond_status = st, cond_message = message\<rparr>"

definition set_condition :: "nat \<Rightarrow> condition \<Rightarrow> composition \<Rightarrow> composition" where
  "set_condition i x c = c\<lparr>c_conditions := (c_conditions c)[i := x]\<rparr>"

definition on_condition :: "nat \<Rightarrow> (condition \<Rightarrow> condition) \<Rightarrow> composition \<Rightarrow> composition" where
  "on_condition i f c = c\<lparr>c_conditions := (c_conditions c)[i := f (c_conditions c ! i)]\<rparr>"

definition add_condition :: "condition \<Rightarrow> composition \<Rightarrow> composition" where
  "add_condition x c = c\<lparr>c_conditions := c_conditions c @ [x]\<rparr>"

definition set_execution :: "string \<Rightarrow> execution_ref \<Rightarrow> composition \<Rightarrow> composition" where
  "set_execution component e =
     on_runtime (\<lambda>rt. rt\<lparr>rt_executions := AList.update component e (rt_executions rt)\<rparr>)"

definition operation_succeeded :: "composition \<Rightarrow> composition" where
  "operation_succeeded c = on_operation (\<lambda>p. p\<lparr>op_status := ''succeeded'', op_error := None\<rparr>)
     (c\<lparr>c_last_error := None\<rparr>)"

definition plan_or_zero :: "composition \<Rightarrow> resolved_plan" where
  "plan_or_zero c = (case rt_plan (c_runtime c) of None \<Rightarrow> zero_plan | Some p \<Rightarrow> p)"

abbreviation contract_of :: "composition \<Rightarrow> verification_contract" where
  "contract_of c \<equiv> b_verification (rp_baseline (plan_or_zero c))"

definition provision_started :: "composition \<Rightarrow> time" where
  "provision_started c =
     (if is_zero_time (rt_provision_started_at (c_runtime c)) then c_created_at c
      else rt_provision_started_at (c_runtime c))"

section \<open>Publishing routes\<close>

definition syncRoutes :: "unit rx" where
  "syncRoutes =
     rx_seq (rx_do E_Guard w_guard)
     (rx_bind (rx_call E_Active w_active) (\<lambda>all.
        case all of
          Inl e \<Rightarrow> rx_fail (Wrapped ''load aggregate routes: '' e)
        | Inr compositions \<Rightarrow>
            rx_bind (rx_ask w_wall) (\<lambda>clock.
              case Snapshot clock compositions of
                Inl e \<Rightarrow> rx_fail e
              | Inr snapshot \<Rightarrow>
                  rx_bind rx_cycle (\<lambda>cycle.
                    if (case cycle of Some (Some applied) \<Rightarrow> snapshot_deep_eq applied snapshot | _ \<Rightarrow> False)
                    then rx_return ()
                    else
                      rx_seq (rx_set_cycle (map_option (\<lambda>_. None) cycle))
                      (rx_bind (rx_call (E_Routes snapshot) w_routes) (\<lambda>(observed, err).
                         case err of
                           Some e \<Rightarrow> rx_fail (Wrapped ''configure routes: '' e)
                         | None \<Rightarrow>
                             if \<not> rto_ready observed
                             then rx_fail (Suffixed ErrRoutesPending ('': '' @ rto_message observed))
                             else rx_set_cycle (map_option (\<lambda>_. Some snapshot) cycle)))))))"

section \<open>Observing the baseline\<close>

definition unavailable_baseline :: "baseline_observation \<Rightarrow> composition \<Rightarrow> time \<Rightarrow> go_error \<Rightarrow> baseline_observation" where
  "unavailable_baseline observed c now e =
     \<lparr>bo_installation = bo_installation observed, bo_project = c_project c, bo_baseline = c_baseline c,
      bo_state = ''unavailable'', bo_fingerprint = [], bo_observed_at = now, bo_components = [],
      bo_error = Some \<lparr>e_code = ''unavailable'', e_message = err_message e, e_retryable = True,
        e_project = [], e_composition = []\<rparr>\<rparr>"

definition observeBaseline :: "unit rx" where
  "observeBaseline =
     rx_bind rx_comp (\<lambda>c.
     rx_bind (rx_config w_observes_baseline) (\<lambda>observes.
       if vc_kind (contract_of c) = ''none'' \<or> \<not> observes then rx_return ()
       else
         rx_bind (rx_call (E_Observe_Baseline (rp_baseline (plan_or_zero c)) (c_overrides c))
           w_observe_baseline) (\<lambda>(observed, err).
           case err of
             Some e \<Rightarrow>
               rx_bind rx_now (\<lambda>now.
               rx_seq (rx_modify (\<lambda>c. c\<lparr>c_baseline_observation :=
                 Some (unavailable_baseline observed c now e)\<rparr>))
               (rx_fail ErrBaselineObservationPending))
           | None \<Rightarrow>
               if is_zero_time (bo_observed_at observed) then
                 rx_bind rx_now (\<lambda>now. rx_modify (\<lambda>c. c\<lparr>c_baseline_observation :=
                   Some (observed\<lparr>bo_observed_at := now\<rparr>)\<rparr>))
               else rx_modify (\<lambda>c. c\<lparr>c_baseline_observation := Some observed\<rparr>))))"

section \<open>Retiring workloads\<close>

text \<open>Moves the workloads of overrides that were published and are no longer desired.\<close>

definition retire_component :: "string \<Rightarrow> composition \<Rightarrow> composition" where
  "retire_component component c =
     (if has_key (c_overrides c) component then c
      else
        let ref = WorkloadFor (c_runtime c) component in
        if wr_namespace ref = [] then c
        else on_runtime (\<lambda>rt. rt
               \<lparr>rt_retiring_workloads := AList.update component ref (rt_retiring_workloads rt),
                rt_workloads := AList.delete component (rt_workloads rt)\<rparr>) c)"

definition retire_dropped :: "composition \<Rightarrow> composition" where
  "retire_dropped c =
     on_runtime (\<lambda>rt. rt\<lparr>rt_published_overrides := Some (cloneOverrides (c_overrides c))\<rparr>)
       (fold retire_component (sorted_keys (nil_map (rt_published_overrides (c_runtime c)))) c)"

text \<open>
  Deletes the retiring workloads one by one; the result is whether one is still there. An entry of
  the range may name a workload that is no longer in the map only if the map changed meanwhile,
  which nothing does.
\<close>

fun retire_all :: "string list \<Rightarrow> bool rx" where
  "retire_all [] = rx_return False"
| "retire_all (component # rest) =
     rx_bind rx_comp (\<lambda>c.
       let ref = get_or zero_workload_ref (rt_retiring_workloads (c_runtime c)) component in
       rx_seq (rx_do_as (''retire '' @ component @ '': '') (E_Delete_Workload ref) w_delete_workload)
       (rx_bind (rx_call (E_Workload_Absent ref) w_workload_absent) (\<lambda>(absent, err).
          case err of
            Some e \<Rightarrow> rx_fail (Wrapped (''confirm retirement for '' @ component @ '': '') e)
          | None \<Rightarrow>
              if \<not> absent then
                rx_seq (rx_modify (add_condition
                  (cond ''RetiringWorkloads'' False ''waiting for retired workload deletion'')))
                (rx_return True)
              else
                rx_seq (rx_modify (on_runtime (\<lambda>rt. rt\<lparr>rt_retiring_workloads :=
                  AList.delete component (rt_retiring_workloads rt)\<rparr>)))
                (retire_all rest))))"

definition retire_retiring :: "bool rx" where
  "retire_retiring =
     rx_bind rx_comp (\<lambda>c. rx_bind (rx_range (rt_retiring_workloads (c_runtime c))) retire_all)"

definition retireEndpointFree :: "bool rx" where
  "retireEndpointFree =
     rx_bind rx_comp (\<lambda>c.
       rx_seq (rx_when (\<not> overridesEqual (rt_published_overrides (c_runtime c)) (c_overrides c))
                 (rx_seq (rx_modify retire_dropped) rx_save))
       retire_retiring)"

section \<open>Becoming ready\<close>

text \<open>The last stage: every check passed.\<close>

definition ready_conditions :: "composition \<Rightarrow> composition" where
  "ready_conditions c =
     (let c = on_condition 2 (\<lambda>x. x\<lparr>cond_status := True,
                cond_message := ''override pod and shared baseline hops observed through ingress''\<rparr>)
                (c\<lparr>c_phase := PhaseReady\<rparr>);
          c = c\<lparr>c_verification_level := ''routing''\<rparr>;
          c = (if vc_kind (contract_of c) = ''http'' then
                 set_condition 2 (cond ''RouteVerified'' False
                   ''HTTP reachability does not prove context propagation or override selection'')
                   (c\<lparr>c_verification_level := ''reachability''\<rparr>)
               else c)
      in operation_succeeded (add_condition
           (cond ''IngressReachable'' True ''baseline and composition ingress probes passed'') c))"

definition step_ready :: "unit rx" where
  "step_ready =
     rx_seq (rx_modify ready_conditions)
     (rx_bind rx_now (\<lambda>now.
      rx_bind (rx_config w_interval) (\<lambda>interval.
      rx_modify (\<lambda>c. setReady (on_runtime (\<lambda>rt. rt
        \<lparr>rt_published_overrides := Some (cloneOverrides (c_overrides c)), rt_attempts := 0,
         rt_next_attempt_at := now + interval\<rparr>) c) True))))"

definition drain_condition :: "string \<Rightarrow> condition" where
  "drain_condition message = cond ''RetiringWorkloads'' False message"

definition step_retire :: "unit rx" where
  "step_retire =
     rx_bind rx_comp (\<lambda>c.
       if rt_retiring_workloads (c_runtime c) = [] then step_ready
       else case rt_retirement_drain_until (c_runtime c) of
         None \<Rightarrow>
           rx_bind rx_now (\<lambda>now.
           rx_bind (rx_config w_drain_timeout) (\<lambda>timeout.
           rx_modify (\<lambda>c. add_condition (drain_condition ''waiting for retired override drain'')
             (on_runtime (\<lambda>rt. rt\<lparr>rt_retirement_drain_until := Some (now + timeout)\<rparr>) c))))
       | Some until \<Rightarrow>
           rx_bind rx_now (\<lambda>now.
             if now < until
             then rx_modify (add_condition (drain_condition ''draining retired override requests''))
             else
               rx_bind retire_retiring (\<lambda>waiting.
                 if waiting then rx_return ()
                 else
                   rx_seq (rx_modify (on_runtime (\<lambda>rt. rt\<lparr>rt_retirement_drain_until := None\<rparr>)))
                   step_ready)))"

section \<open>Verifying\<close>

definition record_hop :: "hop \<Rightarrow> composition \<Rightarrow> composition" where
  "record_hop h c =
     (let old = get_or zero_observation (c_components c) (hp_service h);
          old = old\<lparr>co_status := ''ready'', co_workload_id := hp_workload_id h\<rparr>;
          old = (if has_key (c_overrides c) (hp_service h) then old else old\<lparr>co_source := ''baseline''\<rparr>)
      in c\<lparr>c_components := AList.update (hp_service h) old (c_components c)\<rparr>)"

definition evidence_hop :: "hop \<Rightarrow> verification_hop" where
  "evidence_hop h =
     \<lparr>vh_service = hp_service h, vh_version = hp_version h, vh_composition = hp_composition h,
      vh_workload_id = hp_workload_id h, vh_deployment_composition = hp_deployment h\<rparr>"

definition baseline_scope :: "baseline_observation \<Rightarrow> string" where
  "baseline_scope o' = bo_installation o' @ ''/'' @ bo_project o' @ ''/'' @ bo_baseline o'"

definition new_evidence ::
  "composition \<Rightarrow> string gomap \<Rightarrow> verification_result \<Rightarrow> go_error option \<Rightarrow> time \<Rightarrow> time \<Rightarrow>
     verification_evidence"
where
  "new_evidence c pods verified err first last_time =
     \<lparr>ve_baseline_fingerprint =
        (case c_baseline_observation c of None \<Rightarrow> [] | Some o' \<Rightarrow> bo_fingerprint o'),
      ve_baseline_scope = (case c_baseline_observation c of None \<Rightarrow> [] | Some o' \<Rightarrow> baseline_scope o'),
      ve_contract_fingerprint = VerificationContractFingerprint (contract_of c),
      ve_workloads = Some (map (\<lambda>(component, selected).
        (component, \<lparr>vw_image = o_image selected, vw_workload_id = get_or [] pods component\<rparr>))
        (c_overrides c)),
      ve_freshness = [], ve_id = [], ve_composition = c_id c, ve_generation = c_generation c,
      ve_kind = vc_kind (contract_of c),
      ve_outcome = (case err of None \<Rightarrow> ''passed'' | Some e \<Rightarrow> ''failed''),
      ve_first_checked_at = first, ve_last_checked_at = last_time,
      ve_probes = vr_probes verified, ve_hops = map evidence_hop (vr_composition verified),
      ve_error = map_option (\<lambda>e. domain_err ''verification_failed'' (err_message e)) err\<rparr>"

text \<open>After the verifier answered, the baseline must still be the one that was checked.\<close>

definition confirm_baseline :: "unit rx" where
  "confirm_baseline =
     rx_bind rx_comp (\<lambda>c.
       case c_baseline_observation c of
         None \<Rightarrow> rx_return ()
       | Some before \<Rightarrow>
           rx_bind (rx_catch observeBaseline) (\<lambda>err.
           rx_bind rx_comp (\<lambda>c.
             if err \<noteq> None \<or>
                map_option bo_fingerprint (c_baseline_observation c) \<noteq> Some (bo_fingerprint before)
             then rx_fail ErrBaselineObservationPending else rx_return ())))"

definition step_verified :: "time \<Rightarrow> verification_result \<Rightarrow> go_error option \<Rightarrow> unit rx" where
  "step_verified started verified err =
     (case err of
        Some e \<Rightarrow>
          rx_seq (rx_modify (on_condition 2 (\<lambda>x. x\<lparr>cond_message := err_message e\<rparr>)))
          (rx_bind rx_comp (\<lambda>c.
             if op_status (c_latest_operation c) = ''succeeded''
             then rx_fail (Wrapped ''verify request routing: '' e)
             else
               rx_bind rx_now (\<lambda>now.
               rx_bind (rx_config w_provision_timeout) (\<lambda>timeout.
                 if time_sub now started < timeout
                 then rx_modify (\<lambda>c. c\<lparr>c_last_error := None\<rparr>)
                 else rx_fail (Wrapped ''verify request routing: '' e)))))
      | None \<Rightarrow> rx_seq (rx_modify (fold record_hop (vr_composition verified))) step_retire)"

definition step_verify :: "time \<Rightarrow> string gomap \<Rightarrow> unit rx" where
  "step_verify started pods =
     rx_seq (rx_modify (on_condition 1 (\<lambda>x. x\<lparr>cond_status := True\<rparr>)))
     (rx_bind rx_comp (\<lambda>c.
        case endpointHost c of
          Inl e \<Rightarrow> rx_fail e
        | Inr host \<Rightarrow>
            rx_bind (rx_call (E_Verify (c_id c) host pods (planForOverrides (plan_or_zero c) (c_overrides c)))
              w_verify) (\<lambda>(verified, err).
            rx_seq confirm_baseline
            (rx_bind rx_now (\<lambda>first.
             rx_bind rx_now (\<lambda>last_time.
             rx_seq (rx_modify (\<lambda>c. c\<lparr>c_pending_verification :=
               Some (new_evidence c pods verified err first last_time)\<rparr>))
             (step_verified started verified err)))))))"

section \<open>Publishing\<close>

definition publish_selection :: "unit rx" where
  "publish_selection =
     rx_bind rx_comp (\<lambda>c.
       rx_when (\<not> overridesEqual (rt_published_overrides (c_runtime c)) (c_overrides c))
         (rx_seq (rx_modify retire_dropped) (rx_seq rx_save syncRoutes)))"

definition step_publish :: "time \<Rightarrow> string gomap \<Rightarrow> unit rx" where
  "step_publish started pods =
     rx_bind rx_comp (\<lambda>c.
       let new_intent = \<not> rt_routing_active (c_runtime c) in
       rx_seq (rx_modify (on_runtime (\<lambda>rt. rt\<lparr>rt_routing_active := True\<rparr>)))
       (rx_seq (rx_when new_intent rx_save)
       (rx_seq syncRoutes
       (rx_seq publish_selection
        (step_verify started pods)))))"

section \<open>Without endpoints, and without ready workloads\<close>

definition no_endpoint_done :: "bool \<Rightarrow> composition \<Rightarrow> composition" where
  "no_endpoint_done completed c =
     operation_succeeded
       (set_condition 2 (cond ''RouteVerified'' True ''no endpoint routes required'')
       (set_condition 1 (cond ''RoutesConfigured'' True ''no endpoint routes required'')
       (c\<lparr>c_phase := (if completed then PhaseCompleted else PhaseReady), c_verification_level := ''none''\<rparr>)))"

definition step_no_endpoint :: "bool \<Rightarrow> unit rx" where
  "step_no_endpoint completed =
     rx_bind retireEndpointFree (\<lambda>retiring.
       if retiring then rx_return ()
       else
         rx_seq (rx_modify (no_endpoint_done completed))
         (rx_bind rx_now (\<lambda>now.
          rx_bind (rx_config w_interval) (\<lambda>interval.
          rx_modify (on_runtime (\<lambda>rt. rt\<lparr>rt_attempts := 0, rt_next_attempt_at := now + interval\<rparr>))))))"

text \<open>What the loop over the overridden components has found so far.\<close>

record progress =
  pg_all_ready :: bool
  pg_all_completed :: bool
  pg_any_suspended :: bool
  pg_waiting_for_other :: bool
  pg_has_endpoint :: bool
  pg_failed :: bool
  pg_messages :: "string list"
  pg_failures :: "go_error list"
  pg_pods :: "string gomap"

definition suspended_done :: "composition \<Rightarrow> composition" where
  "suspended_done c =
     operation_succeeded
       (set_condition 2 (cond ''RouteVerified'' True ''schedule remains suspended pending an execution gate'')
       (set_condition 1 (cond ''RoutesConfigured'' True ''no endpoint routes required'')
       (c\<lparr>c_phase := PhaseSuspended, c_verification_level := ''none''\<rparr>)))"

definition step_not_ready :: "time \<Rightarrow> progress \<Rightarrow> unit rx" where
  "step_not_ready started pg =
     (if pg_any_suspended pg \<and> \<not> pg_waiting_for_other pg \<and> \<not> pg_failed pg \<and> pg_failures pg = [] then
        rx_seq (rx_modify suspended_done)
        (rx_bind rx_now (\<lambda>now.
         rx_bind (rx_config w_interval) (\<lambda>interval.
         rx_modify (on_runtime (\<lambda>rt. rt\<lparr>rt_next_attempt_at := now + interval\<rparr>)))))
      else
        rx_bind rx_comp (\<lambda>c.
        rx_seq (rx_when (rt_routing_active (c_runtime c))
                  (rx_seq syncRoutes (rx_modify (on_condition 1 (\<lambda>x. x\<lparr>cond_status := True\<rparr>)))))
        (if pg_failures pg \<noteq> [] then rx_fail (Joined (pg_failures pg))
         else
           rx_bind (if pg_failed pg then rx_return True
                    else rx_bind rx_now (\<lambda>now. rx_bind (rx_config w_provision_timeout) (\<lambda>timeout.
                      rx_return (timeout \<le> time_sub now started)))) (\<lambda>give_up.
             if give_up
             then rx_fail (Plain (''components are not ready: '' @ join ''; '' (pg_messages pg)))
             else rx_modify (\<lambda>c. on_runtime (\<lambda>rt. rt\<lparr>rt_attempts := 0\<rparr>) (c\<lparr>c_last_error := None\<rparr>))))))"

section \<open>One component\<close>

definition is_finite :: "component \<Rightarrow> bool" where
  "is_finite profile \<longleftrightarrow> WorkloadKind profile = WorkloadJob \<or> WorkloadKind profile = WorkloadScheduledJob"

definition fresh_execution :: "component \<Rightarrow> string \<Rightarrow> int \<Rightarrow> execution_ref" where
  "fresh_execution profile img generation =
     zero_execution_ref\<lparr>er_id := fst (ExecutionID profile img), er_spec_hash := snd (ExecutionID profile img),
       er_generation := generation, er_state := ExecutionPending\<rparr>"

definition execution_active :: "component \<Rightarrow> execution_ref \<Rightarrow> bool" where
  "execution_active profile e \<longleftrightarrow>
     er_state e = ExecutionPending \<or> er_state e = ExecutionRunning \<or>
     WorkloadKind profile = WorkloadScheduledJob \<and> er_state e = ExecutionReady"

text \<open>The execution of a finite workload, recorded before the provider can create it.\<close>

definition resolve_execution :: "component \<Rightarrow> string \<Rightarrow> string \<Rightarrow> execution_ref option rx" where
  "resolve_execution profile component img =
     (if \<not> is_finite profile then rx_return None
      else
        rx_bind rx_comp (\<lambda>c.
          let fresh = fresh_execution profile img (c_generation c);
              record_fresh = rx_seq (rx_modify (set_execution component fresh))
                (rx_seq rx_save (rx_return (Some fresh)))
          in case map_of (rt_executions (c_runtime c)) component of
               None \<Rightarrow> record_fresh
             | Some persisted \<Rightarrow>
                 if er_spec_hash persisted \<noteq> er_spec_hash fresh \<and> execution_active profile persisted
                 then rx_fail (Plain (''cannot replace active Job '' @ component @
                        ''; wait for it to finish or delete the composition''))
                 else if er_spec_hash persisted \<noteq> er_spec_hash fresh then record_fresh
                 else rx_return (Some persisted)))"

definition workload_spec_of ::
  "composition \<Rightarrow> string list \<Rightarrow> component \<Rightarrow> string \<Rightarrow> string \<Rightarrow> execution_ref option \<Rightarrow> workload_spec"
where
  "workload_spec_of c names profile component img execution =
     (let plan = plan_or_zero c in
      \<lparr>ws_execution = execution, ws_schedule_active = False, ws_desired_components = names,
       ws_baseline_namespace = br_namespace (b_routing (rp_baseline plan)),
       ws_messaging_env = MessagingEnvironment (rp_baseline plan) component (c_message_isolation c)
         (c_message_subscriptions c),
       ws_preview = map_of (rp_previews plan) component, ws_previews = rp_previews plan,
       ws_composition = c_id c, ws_project = c_project c, ws_component = component,
       ws_image = img,
       ws_ownership_token = rt_ownership_token (c_runtime c), ws_profile = profile,
       ws_workload_count =
         max 1 (max (length names) (map_len (nil_map (rt_published_overrides (c_runtime c)))))\<rparr>)"

text \<open>\<open>Ensure\<close>, then \<open>Observe\<close> when it succeeded.\<close>

definition ensure_workload ::
  "workload_spec \<Rightarrow> (workload_ref \<times> workload_observation) attempted rx"
where
  "ensure_workload spec =
     rx_bind (rx_call (E_Ensure spec) w_ensure) (\<lambda>(ref, err).
       rx_seq (rx_when (wr_namespace ref \<noteq> []) (rx_modify (on_runtime (\<lambda>rt. rt
         \<lparr>rt_workloads := AList.update (ws_component spec) ref (rt_workloads rt)\<rparr>))))
       (case err of
          Some e \<Rightarrow> rx_return ((ref, zero_workload_observation), Some e)
        | None \<Rightarrow>
            rx_bind (rx_call (E_Observe ref) w_observe) (\<lambda>(observation, err).
              rx_return ((ref, observation), err))))"

definition observed_state :: "workload_observation \<Rightarrow> string" where
  "observed_state observation =
     (if wo_state observation = [] then ExecutionPending else wo_state observation)"

definition provider_id :: "workload_ref \<Rightarrow> string" where
  "provider_id ref = (if wr_cron_job_uid ref \<noteq> [] then wr_cron_job_uid ref else wr_job_uid ref)"

definition note_execution ::
  "string \<Rightarrow> workload_ref \<Rightarrow> workload_observation \<Rightarrow> composition \<Rightarrow> composition"
where
  "note_execution component ref observation c =
     set_execution component
       ((get_or zero_execution_ref (rt_executions (c_runtime c)) component)
          \<lparr>er_state := observed_state observation, er_runs := wo_runs observation,
           er_provider_id := provider_id ref\<rparr>) c"

definition component_state ::
  "string \<Rightarrow> execution_ref option \<Rightarrow> workload_observation \<Rightarrow> component_observation"
where
  "component_state img execution observation =
     (let st = \<lparr>co_source = ''override'', co_status = ''provisioning'', co_image = img,
                co_workload_id = wo_workload_id observation, co_execution_id = [],
                co_execution_state = []\<rparr>;
          st = (case execution of
                  None \<Rightarrow> st
                | Some e \<Rightarrow> st\<lparr>co_execution_id := er_id e, co_execution_state := observed_state observation,
                              co_status := observed_state observation\<rparr>);
          st = (if wo_image observation \<noteq> [] then st\<lparr>co_image := wo_image observation\<rparr> else st)
      in if \<not> wo_ready observation then st
         else if execution \<noteq> None \<and> wo_state observation = ExecutionSucceeded
         then st\<lparr>co_status := ExecutionSucceeded\<rparr>
         else st\<lparr>co_status := ''ready''\<rparr>)"

definition advance ::
  "progress \<Rightarrow> string \<Rightarrow> execution_ref option \<Rightarrow> workload_observation \<Rightarrow> progress"
where
  "advance pg component execution observation =
     (let pg = (if wo_ready observation
                then pg\<lparr>pg_pods := AList.update component (wo_workload_id observation) (pg_pods pg)\<rparr>
                else
                  let suspended = (wo_state observation = ExecutionSuspended) in
                  pg\<lparr>pg_all_ready := False, pg_any_suspended := pg_any_suspended pg \<or> suspended,
                     pg_waiting_for_other := pg_waiting_for_other pg \<or> \<not> suspended,
                     pg_messages := pg_messages pg @ [component @ '': '' @ wo_message observation]\<rparr>)
      in pg\<lparr>pg_failed := pg_failed pg \<or> wo_failed observation,
            pg_all_completed := pg_all_completed pg \<and>
              \<not> (execution \<noteq> None \<and> wo_state observation \<noteq> ExecutionSucceeded)\<rparr>)"

definition missing_profile :: "string \<Rightarrow> go_error" where
  "missing_profile component = Plain (''missing resolved profile for '' @ component)"

definition step_component :: "string list \<Rightarrow> string \<Rightarrow> progress \<Rightarrow> progress rx" where
  "step_component names component pg =
     rx_bind rx_comp (\<lambda>c.
       case map_of (Profiles (plan_or_zero c)) component of
         None \<Rightarrow> rx_fail (missing_profile component)
       | Some profile \<Rightarrow>
           if cp_id profile \<noteq> component then rx_fail (missing_profile component)
           else
             let img = o_image (get_or zero_override (c_overrides c) component);
                 pg = pg\<lparr>pg_has_endpoint := pg_has_endpoint pg \<or> HasEndpoint profile\<rparr>
             in
             rx_bind (resolve_execution profile component img) (\<lambda>execution.
             rx_bind rx_comp (\<lambda>c.
             rx_bind (ensure_workload (workload_spec_of c names profile component img execution))
               (\<lambda>((ref, observation), err).
               let pg = (case err of None \<Rightarrow> pg | Some e \<Rightarrow>
                           pg\<lparr>pg_failures := pg_failures pg @ [Wrapped (component @ '': '') e]\<rparr>);
                   observation = (case err of None \<Rightarrow> observation | Some e \<Rightarrow>
                           observation\<lparr>wo_message := err_message e\<rparr>)
               in
               rx_seq (rx_when (execution \<noteq> None) (rx_modify (note_execution component ref observation)))
               (rx_seq (rx_modify (\<lambda>c. add_condition
                   (cond (''WorkloadReady/'' @ component) (wo_ready observation) (wo_message observation))
                   (c\<lparr>c_components := AList.update component (component_state img execution observation)
                        (c_components c)\<rparr>)))
               (rx_return (advance pg component execution observation)))))))"

fun step_components :: "string list \<Rightarrow> string list \<Rightarrow> progress \<Rightarrow> progress rx" where
  "step_components names [] pg = rx_return pg"
| "step_components names (component # rest) pg =
     rx_bind (step_component names component pg) (step_components names rest)"

section \<open>Message isolation\<close>

definition desired_subscription ::
  "bool gomap \<Rightarrow> message_subscription list \<Rightarrow> message_subscription \<Rightarrow> message_subscription"
where
  "desired_subscription seen olds d =
     fold (\<lambda>old d. if ms_name old = ms_name d
             then d\<lparr>ms_ready := ms_ready old \<or> get_or False seen (ms_name old),
                    ms_backlog_may_be_lost := ms_backlog_may_be_lost old,
                    ms_instance := ms_instance old\<rparr>
             else d)
       olds (d\<lparr>ms_ready := get_or False seen (ms_name d)\<rparr>)"

definition note_ready :: "message_subscription list \<Rightarrow> composition \<Rightarrow> composition" where
  "note_ready subs =
     on_runtime (\<lambda>rt. rt\<lparr>rt_messaging_observed :=
       fold (\<lambda>m seen. if ms_ready m then AList.update (ms_name m) True seen else seen) subs
         (rt_messaging_observed rt)\<rparr>)"

definition messaging_spec_of :: "composition \<Rightarrow> message_subscription list \<Rightarrow> messaging_spec" where
  "messaging_spec_of c subs =
     \<lparr>mg_composition = c_id c, mg_ownership_token = rt_ownership_token (c_runtime c),
      mg_subscriptions = subs\<rparr>"

definition messaging_conditions :: "composition \<Rightarrow> composition" where
  "messaging_conditions c =
     (let c = set_condition 3 (cond ''MessagingReady'' True
                ''filtered subscriptions ready; application propagation requires separate verification'') c
      in if list_ex ms_backlog_may_be_lost (c_message_subscriptions c)
         then add_condition (cond ''MessagingBacklogLost'' True
                ''a subscription was recreated; previously queued messages may be lost'') c
         else c)"

definition unready_subscriptions :: "composition \<Rightarrow> composition" where
  "unready_subscriptions c =
     c\<lparr>c_message_subscriptions := map (\<lambda>m. m\<lparr>ms_ready := False\<rparr>) (c_message_subscriptions c)\<rparr>"

definition require_subscriptions :: "message_subscription list \<Rightarrow> unit rx" where
  "require_subscriptions subs =
     (case List.find (\<lambda>m. \<not> ms_ready m) subs of
        None \<Rightarrow> rx_return ()
      | Some m \<Rightarrow> rx_fail (Plain (''Pub/Sub subscription is not ready: '' @ ms_name m)))"

definition step_messaging :: "unit rx" where
  "step_messaging =
     rx_bind rx_comp (\<lambda>c.
       if \<not> c_message_isolation c then rx_return ()
       else
         rx_seq (rx_modify (add_condition (cond ''MessagingReady'' False [])))
         (rx_bind (rx_config w_messaging) (\<lambda>configured.
          if \<not> configured then rx_fail (Plain ''Pub/Sub provider unavailable'')
          else
            rx_bind (rx_call (E_Msg_Validate (rp_baseline (plan_or_zero c))) w_msg_validate) (\<lambda>err.
            case err of
              Some e \<Rightarrow> rx_seq (rx_modify unready_subscriptions) (rx_fail e)
            | None \<Rightarrow>
                let desired = map (desired_subscription (rt_messaging_observed (c_runtime c))
                      (c_message_subscriptions c)) (rp_message_subscriptions (plan_or_zero c))
                in
                rx_bind (rx_call (E_Msg_Ensure (messaging_spec_of c desired)) w_msg_ensure)
                  (\<lambda>(subs, err).
                rx_seq (rx_modify (\<lambda>c. note_ready subs (c\<lparr>c_message_subscriptions := subs\<rparr>)))
                (rx_seq (rx_require err)
                (rx_seq (require_subscriptions subs)
                (rx_seq (rx_modify messaging_conditions) rx_save))))))))"

section \<open>The step\<close>

definition begin_step :: "composition \<Rightarrow> composition" where
  "begin_step c =
     (let c = c\<lparr>c_phase := (if op_kind (c_latest_operation c) = ''update'' then PhaseUpdating
                           else PhaseProvisioning)\<rparr>;
          c = setReady c False
      in if op_status (c_latest_operation c) = ''succeeded'' then c
         else on_operation (\<lambda>p. p\<lparr>op_status := ''running'', op_error := None\<rparr>) c)"

definition initial_conditions :: "condition list" where
  "initial_conditions =
     [cond ''WorkloadsReady'' False [], cond ''RoutesConfigured'' False [], cond ''RouteVerified'' False []]"

definition initial_progress :: "composition \<Rightarrow> progress" where
  "initial_progress c =
     \<lparr>pg_all_ready = True, pg_all_completed = True, pg_any_suspended = False,
      pg_waiting_for_other = False, pg_has_endpoint = (vc_kind (contract_of c) \<noteq> ''none''),
      pg_failed = False, pg_messages = [], pg_failures = [], pg_pods = []\<rparr>"

text \<open>After the loop over the components.\<close>

definition step_outcome :: "time \<Rightarrow> progress \<Rightarrow> unit rx" where
  "step_outcome started pg =
     rx_seq (rx_modify (set_condition 0
       (cond ''WorkloadsReady'' (pg_all_ready pg) (join ''; '' (pg_messages pg)))))
     (if \<not> pg_all_ready pg then step_not_ready started pg
      else if \<not> pg_has_endpoint pg then step_no_endpoint (pg_all_completed pg)
      else step_publish started (pg_pods pg))"

definition step_prepared :: "composition \<Rightarrow> unit rx" where
  "step_prepared c =
     (if rt_plan (c_runtime c) = None
      then rx_fail (Plain ''persisted composition has no resolved catalog plan'')
      else
        rx_seq observeBaseline
        (if MaxOverrides < length (OverrideNames (c_overrides c))
         then rx_fail (Plain ''persisted overrides and profiles do not match'')
         else
           rx_seq (rx_modify (\<lambda>c. c\<lparr>c_conditions := initial_conditions\<rparr>))
           (rx_seq step_messaging
           (rx_bind (step_components (OverrideNames (c_overrides c)) (OverrideNames (c_overrides c))
              (initial_progress c)) (step_outcome (provision_started c))))))"

definition step_provision :: "unit rx" where
  "step_provision = rx_bind rx_comp (\<lambda>c. rx_seq (rx_modify begin_step) (step_prepared c))"

section \<open>Destroying\<close>

definition begin_destroy :: "composition \<Rightarrow> composition" where
  "begin_destroy c = on_operation (\<lambda>p. p\<lparr>op_status := ''running''\<rparr>)
     (setReady (c\<lparr>c_phase := PhaseDestroying\<rparr>) False)"

definition owned_workloads :: "runtime_state \<Rightarrow> workload_ref gomap" where
  "owned_workloads rt = map_copy (map_copy [] (rt_workloads rt)) (rt_retiring_workloads rt)"

text \<open>
  The namespace to delete, with the UID of the recorded workloads, which must agree on it. The
  result does not depend on the order in which the code ranges over them.
\<close>

fun agree_on_namespace :: "workload_ref list \<Rightarrow> workload_ref \<Rightarrow> workload_ref option" where
  "agree_on_namespace [] ref = Some ref"
| "agree_on_namespace (o' # rest) ref =
     (if wr_namespace o' = [] then agree_on_namespace rest ref
      else if wr_namespace o' \<noteq> wr_namespace ref \<or> wr_ownership_token o' \<noteq> wr_ownership_token ref \<or>
        wr_namespace_uid ref \<noteq> [] \<and> wr_namespace_uid o' \<noteq> [] \<and>
        wr_namespace_uid ref \<noteq> wr_namespace_uid o'
      then None
      else agree_on_namespace rest
        (if wr_namespace_uid o' \<noteq> [] then ref\<lparr>wr_namespace_uid := wr_namespace_uid o'\<rparr> else ref))"

definition owned_namespace :: "composition \<Rightarrow> workload_ref option" where
  "owned_namespace c =
     (let owned = owned_workloads (c_runtime c) in
      agree_on_namespace (map (\<lambda>k. get_or zero_workload_ref owned k) (sorted_keys owned))
        (zero_workload_ref\<lparr>wr_namespace := NamespaceForID (c_id c),
           wr_ownership_token := rt_ownership_token (c_runtime c)\<rparr>))"

definition destroyed :: "composition \<Rightarrow> composition" where
  "destroyed c =
     on_runtime (\<lambda>rt. rt\<lparr>rt_attempts := 0\<rparr>) (operation_succeeded (c\<lparr>c_phase := PhaseDestroyed,
       c_conditions := [cond ''WorkloadsReady'' False ''owned workloads removed'',
         cond ''RoutesConfigured'' False ''composition routes removed'',
         cond ''RouteVerified'' False ''composition endpoint withdrawn'']\<rparr>))"

definition destroy_messaging :: "unit rx" where
  "destroy_messaging =
     rx_bind rx_comp (\<lambda>c.
     rx_bind (rx_config w_messaging) (\<lambda>configured.
       if \<not> c_message_isolation c then rx_modify destroyed
       else case rt_plan (c_runtime c) of
         None \<Rightarrow> rx_fail (Plain ''Pub/Sub cleanup requires provider and resolved plan'')
       | Some plan \<Rightarrow>
           if \<not> configured
           then rx_fail (Plain ''Pub/Sub cleanup requires provider and resolved plan'')
           else
             rx_bind (rx_call (E_Msg_Delete (messaging_spec_of c (rp_message_subscriptions plan)))
               w_msg_delete) (\<lambda>(absent, err).
             case err of
               Some e \<Rightarrow> rx_fail e
             | None \<Rightarrow>
                 if \<not> absent then rx_return ()
                 else rx_seq (rx_modify unready_subscriptions) (rx_modify destroyed))))"

definition destroy_workloads :: "unit rx" where
  "destroy_workloads =
     rx_bind rx_comp (\<lambda>c.
       case owned_namespace c of
         None \<Rightarrow> rx_fail (Plain ''workload namespace ownership identities disagree'')
       | Some ref \<Rightarrow>
           rx_seq (rx_do_as ''delete owned workload: '' (E_Delete ref) w_delete)
           (rx_bind (rx_call (E_Absent ref) w_absent) (\<lambda>(absent, err).
              case err of
                Some e \<Rightarrow> rx_fail (Wrapped ''confirm workload cleanup: '' e)
              | None \<Rightarrow>
                  if \<not> absent then
                    rx_bind rx_now (\<lambda>now. rx_bind (rx_config w_interval) (\<lambda>interval.
                      rx_modify (on_runtime (\<lambda>rt. rt\<lparr>rt_next_attempt_at := now + interval\<rparr>))))
                  else destroy_messaging)))"

text \<open>Drains a composition that has routes; the result is whether its workloads may go now.\<close>

definition destroy_routes :: "bool rx" where
  "destroy_routes =
     rx_bind rx_comp (\<lambda>c.
       if \<not> (rt_routing_active (c_runtime c) \<and> \<not> rt_routes_removed (c_runtime c)) then rx_return True
       else case endpointHost c of
         Inl e \<Rightarrow> rx_fail e
       | Inr host \<Rightarrow>
           rx_seq (rx_do (E_Host_Absent host) w_host_absent)
           (case rt_drain_until (c_runtime c) of
              None \<Rightarrow>
                rx_bind rx_now (\<lambda>now. rx_bind (rx_config w_drain_timeout) (\<lambda>timeout.
                rx_seq (rx_modify (\<lambda>c. on_runtime (\<lambda>rt. rt\<lparr>rt_drain_until := Some (now + timeout)\<rparr>)
                  (c\<lparr>c_last_error := None\<rparr>))) (rx_return False)))
            | Some until \<Rightarrow>
                rx_bind rx_now (\<lambda>now.
                  if now < until then rx_return False
                  else
                    rx_seq (rx_modify (on_runtime (\<lambda>rt. rt\<lparr>rt_routes_removed := True\<rparr>)))
                    (rx_seq rx_save (rx_seq syncRoutes (rx_return True))))))"

definition destroy :: "unit rx" where
  "destroy =
     rx_seq (rx_modify begin_destroy)
     (rx_seq syncRoutes
     (rx_bind destroy_routes (\<lambda>gone. if gone then destroy_workloads else rx_return ())))"

definition step :: "unit rx" where
  "step = rx_bind rx_comp (\<lambda>c. if c_deletion_requested c then destroy else step_provision)"

section \<open>Failures and route acceptance\<close>

definition backoff :: "nat \<Rightarrow> nat \<Rightarrow> duration" where
  "backoff attempts jitter =
     (let delay = second * 2 ^ min (attempts - 1) 5
      in min (delay + int jitter mod (delay div 4 + 1)) (30 * second))"

definition failure_error :: "composition \<Rightarrow> go_error \<Rightarrow> domain_error" where
  "failure_error c e =
     \<lparr>e_code = (case reconciliation_code e of None \<Rightarrow> ''reconciliation_failed'' | Some code \<Rightarrow> code),
      e_message = take 1000 (err_message e), e_retryable = True, e_project = [],
      e_composition = c_id c\<rparr>"

definition failed_composition :: "go_error \<Rightarrow> composition \<Rightarrow> composition" where
  "failed_composition e c =
     (let c = (if c_deletion_requested c then c else c\<lparr>c_phase := PhaseFailed\<rparr>);
          c = setReady c False;
          c = c\<lparr>c_last_error := Some (failure_error c e)\<rparr>;
          c = (if op_status (c_latest_operation c) = ''succeeded'' then c
               else on_operation (\<lambda>p. p\<lparr>op_status := ''failed'', op_error := c_last_error c\<rparr>) c)
      in on_runtime (\<lambda>rt. rt\<lparr>rt_attempts := Suc (rt_attempts rt)\<rparr>) c)"

definition failure :: "go_error \<Rightarrow> unit rx" where
  "failure e =
     rx_seq (rx_modify (failed_composition e))
     (rx_bind (rx_ask w_jitter) (\<lambda>jitter.
      rx_bind rx_now (\<lambda>now.
      rx_modify (on_runtime (\<lambda>rt. rt\<lparr>rt_next_attempt_at := now + backoff (rt_attempts rt) jitter\<rparr>)))))"

definition pending_conditions :: "condition list" where
  "pending_conditions =
     [cond ''WorkloadsReady'' False ''waiting for baseline observation'',
      cond ''RoutesConfigured'' False ''routing state is not current'',
      cond ''RouteVerified'' False ''prior verification is not current'']"

text \<open>The error that is left of a step's outcome once waiting is not an error.\<close>

definition pendingRoutes :: "go_error option \<Rightarrow> go_error option rx" where
  "pendingRoutes err =
     (case err of
        None \<Rightarrow> rx_return None
      | Some e \<Rightarrow>
          if err_is ErrBaselineObservationPending e then
            rx_seq (rx_modify (\<lambda>c. c\<lparr>c_last_error := None,
              c_conditions := pending_conditions @ [cond ''BaselineObserved'' False (err_message e)]\<rparr>))
            (rx_return None)
          else if \<not> err_is ErrRoutesPending e then rx_return (Some e)
          else
            rx_bind rx_comp (\<lambda>c.
            rx_bind (if c_deletion_requested c then rx_return False
                     else rx_bind rx_now (\<lambda>now. rx_bind (rx_config w_provision_timeout) (\<lambda>timeout.
                       rx_return (timeout \<le> time_sub now (provision_started c))))) (\<lambda>late.
              if late then rx_return (Some e)
              else
                rx_seq (rx_modify (\<lambda>c. (if 1 < length (c_conditions c)
                    then on_condition 1 (\<lambda>x. x\<lparr>cond_status := False, cond_message := err_message e\<rparr>) c
                    else c)\<lparr>c_last_error := None\<rparr>))
                (rx_return None))))"

section \<open>Reconciling\<close>

definition publishObservation :: "unit rx" where
  "publishObservation =
     rx_bind rx_comp (\<lambda>c.
     rx_bind (rx_call (E_Save c) w_save) (\<lambda>err.
       case err of
         None \<Rightarrow> rx_return ()
       | Some e \<Rightarrow> if err_is ErrStaleObservation e then rx_return ()
                   else rx_fail (Wrapped ''save composition observation: '' e)))"

definition set_next_attempt :: "time \<Rightarrow> composition \<Rightarrow> composition" where
  "set_next_attempt t = on_runtime (\<lambda>rt. rt\<lparr>rt_next_attempt_at := t\<rparr>)"

text \<open>The \<open>switch\<close> over the outcome of the step.\<close>

definition settle :: "bool \<Rightarrow> go_error option \<Rightarrow> unit rx" where
  "settle event err =
     (case err of
        Some e \<Rightarrow> failure e
      | None \<Rightarrow>
          rx_bind rx_comp (\<lambda>c.
          if event \<and> c_phase c = PhaseReady
          then rx_bind rx_now (\<lambda>now. rx_modify (set_next_attempt (now + 30 * second)))
          else
            rx_bind rx_now (\<lambda>now.
              if now < rt_next_attempt_at (c_runtime c) then rx_return ()
              else rx_bind rx_now (\<lambda>now. rx_bind (rx_config w_interval) (\<lambda>interval.
                rx_modify (set_next_attempt (now + interval)))))))"

definition observe_generation :: "composition \<Rightarrow> composition" where
  "observe_generation c = c\<lparr>c_observed_generation := c_generation c\<rparr>"

definition after_step :: "bool \<Rightarrow> go_error option \<Rightarrow> unit rx" where
  "after_step event err =
     (if (case err of None \<Rightarrow> False | Some e \<Rightarrow> err_is ErrStaleObservation e) then rx_return ()
      else
        rx_bind (rx_ask w_context) (\<lambda>ended.
        rx_seq (rx_require ended)
        (rx_seq (rx_do_as ''leadership lost: '' E_Guard w_guard)
        (rx_bind (pendingRoutes err) (\<lambda>err.
         rx_seq (settle event err)
         (rx_seq (rx_modify observe_generation) publishObservation))))))"

definition due :: "bool \<Rightarrow> time \<Rightarrow> composition \<Rightarrow> bool" where
  "due event now c \<longleftrightarrow>
     \<not> (now < rt_next_attempt_at (c_runtime c) \<and> (\<not> event \<or> 0 < rt_attempts (c_runtime c)))"

definition reconcile :: "bool \<Rightarrow> unit rx" where
  "reconcile event =
     rx_bind (rx_ask w_context) (\<lambda>ended.
     rx_seq (rx_require ended)
     (rx_bind rx_comp (\<lambda>c.
      rx_bind rx_now (\<lambda>now.
        if \<not> due event now c then rx_return ()
        else
          rx_seq (rx_do_as ''check leadership: '' E_Guard w_guard)
          (rx_bind (rx_catch step) (after_step event))))))"

fun reconcile_each :: "bool \<Rightarrow> composition list \<Rightarrow> unit rx" where
  "reconcile_each event [] = rx_return ()"
| "reconcile_each event (c # cs) =
     rx_seq (rx_modify (\<lambda>_. c)) (rx_seq (reconcile event) (reconcile_each event cs))"

text \<open>One scan. The route cycle ends with it, whatever its outcome.\<close>

definition scan :: "unit rx" where
  "scan =
     rx_bind (rx_config w_has_guard) (\<lambda>has_guard.
     if \<not> has_guard then rx_fail (Plain ''reconciler requires a leadership guard'')
     else
       rx_seq (rx_do_as ''check leadership: '' E_Guard w_guard)
       (rx_bind rx_now (\<lambda>now.
        rx_seq (rx_do_as ''persist expirations: '' (E_Expire now) w_expire)
        (rx_bind (rx_call E_Active w_active) (\<lambda>all.
           case all of
             Inl e \<Rightarrow> rx_fail (Wrapped ''scan desired compositions: '' e)
           | Inr compositions \<Rightarrow> reconcile_each False compositions)))))"

definition Tick :: "unit rx" where
  "Tick w s =
     (case scan w (s\<lparr>rs_cycle := Some None\<rparr>) of (r, s') \<Rightarrow> (r, s'\<lparr>rs_cycle := None\<rparr>))"

section \<open>Configuration\<close>

text \<open>The defaults \<open>New\<close> gives the durations of a \<open>Config\<close>.\<close>

definition default_duration :: "duration \<Rightarrow> duration \<Rightarrow> duration" where
  "default_duration d configured = (if configured \<le> 0 then d else configured)"

definition New :: "world \<Rightarrow> world" where
  "New w =
     w\<lparr>w_interval := default_duration second (w_interval w),
       w_provision_timeout := default_duration (60 * second) (w_provision_timeout w),
       w_drain_timeout := default_duration (10 * second) (w_drain_timeout w)\<rparr>"

section \<open>A routing domain of the queue\<close>

text \<open>
  \<open>reconcileDomain\<close> of \<open>queue.go\<close>: reconciles the compositions of one baseline and returns the
  delay after which the queue looks at the domain again, if it has any. \<open>time.Until\<close> saturates.
\<close>

definition next_delay :: "(nat \<Rightarrow> time) \<Rightarrow> duration \<Rightarrow> composition list \<Rightarrow> duration" where
  "next_delay clock interval rows =
     fold (\<lambda>(i, c) delay.
        min (max (time_sub (rt_next_attempt_at (c_runtime c)) (clock i)) interval) delay)
       (enumerate 0 rows) (30 * second)"

definition reconcileDomain :: "string \<Rightarrow> string \<Rightarrow> duration option rx" where
  "reconcileDomain project base =
     rx_bind (rx_call (E_Active_Domain project base) w_active_domain) (\<lambda>rows.
     case rows of
       Inl e \<Rightarrow> rx_fail e
     | Inr rows \<Rightarrow>
         rx_seq (reconcile_each True rows)
         (rx_bind (rx_call (E_Active_Domain project base) w_active_domain) (\<lambda>rows.
          case rows of
            Inl e \<Rightarrow> rx_fail e
          | Inr rows \<Rightarrow>
              rx_bind (rx_ask w_wall) (\<lambda>clock.
              rx_bind (rx_config w_interval) (\<lambda>interval.
                rx_return (if rows = [] then None else Some (next_delay clock interval rows)))))))"

end
