(* ===== verification/Rx_Logic.thy ===== *)
theory Rx_Logic
  imports Reconciler
begin

text \<open>
  Reasoning about the programs of the reconciler: \<open>triple w P m Q E\<close> says that \<open>m\<close>, started in a
  state with \<open>P\<close> in the world \<open>w\<close>, returns a value with \<open>Q\<close> or an error with \<open>E\<close>. The rules of
  \<open>rx_rules\<close> follow the shape of a program. The locales collect what an invariant must tolerate
  to survive the stages of a reconciliation, and prove once, stage by stage, that it does; the
  properties interpret them.
\<close>

section \<open>Triples\<close>

definition triple ::
  "world \<Rightarrow> (rstate \<Rightarrow> bool) \<Rightarrow> 'a rx \<Rightarrow> ('a \<Rightarrow> rstate \<Rightarrow> bool) \<Rightarrow> (go_error \<Rightarrow> rstate \<Rightarrow> bool) \<Rightarrow> bool"
where
  "triple w P m Q E \<longleftrightarrow>
     (\<forall>s. P s \<longrightarrow> (case m w s of (Inl e, s') \<Rightarrow> E e s' | (Inr a, s') \<Rightarrow> Q a s'))"

named_theorems rx_rules "triples for the constructs of a program"

lemma triple_Inr: "triple w P m Q E \<Longrightarrow> P s \<Longrightarrow> m w s = (Inr a, s') \<Longrightarrow> Q a s'"
  by (force simp: triple_def)

lemma triple_Inl: "triple w P m Q E \<Longrightarrow> P s \<Longrightarrow> m w s = (Inl e, s') \<Longrightarrow> E e s'"
  by (force simp: triple_def)

lemma triple_any:
  "triple w P m (\<lambda>_. Q) (\<lambda>_. Q) \<Longrightarrow> P s \<Longrightarrow> Q (snd (m w s))"
  by (cases "m w s") (auto simp: triple_def split: sum.splits)

lemma triple_weaken:
  assumes "triple w P' m Q' E'" "\<And>s. P s \<Longrightarrow> P' s" "\<And>a s. Q' a s \<Longrightarrow> Q a s" "\<And>e s. E' e s \<Longrightarrow> E e s"
  shows "triple w P m Q E"
  using assms unfolding triple_def by (fastforce split: prod.splits sum.splits)

lemma triple_assume: "(\<And>s. P s \<Longrightarrow> triple w P m Q E) \<Longrightarrow> triple w P m Q E"
  by (auto simp: triple_def)

lemma triple_bind [rx_rules]:
  "triple w P m Q E \<Longrightarrow> (\<And>a. triple w (Q a) (f a) R E) \<Longrightarrow> triple w P (rx_bind m f) R E"
  unfolding triple_def rx_bind_def by (fastforce split: prod.splits sum.splits)

lemma triple_seq [rx_rules]:
  "triple w P m (\<lambda>_. Q) E \<Longrightarrow> triple w Q n R E \<Longrightarrow> triple w P (rx_seq m n) R E"
  unfolding rx_seq_def by (rule triple_bind)

lemma triple_return: "(\<And>s. P s \<Longrightarrow> Q a s) \<Longrightarrow> triple w P (rx_return a) Q E"
  by (simp add: triple_def rx_return_def)

lemma triple_fail: "(\<And>s. P s \<Longrightarrow> E e s) \<Longrightarrow> triple w P (rx_fail e) Q E"
  by (simp add: triple_def rx_fail_def)

lemma triple_modify:
  "(\<And>s. P s \<Longrightarrow> Q () (s\<lparr>rs_comp := f (rs_comp s)\<rparr>)) \<Longrightarrow> triple w P (rx_modify f) Q E"
  by (simp add: triple_def rx_modify_def)

lemma triple_call:
  "(\<And>s. P s \<Longrightarrow> Q (f w (e # rs_log s)) (s\<lparr>rs_log := e # rs_log s\<rparr>)) \<Longrightarrow> triple w P (rx_call e f) Q E"
  by (simp add: triple_def rx_call_def)

lemma triple_comp: "(\<And>s. P s \<Longrightarrow> Q (rs_comp s) s) \<Longrightarrow> triple w P rx_comp Q E"
  by (simp add: triple_def rx_comp_def)

lemma triple_catch:
  "triple w P m (\<lambda>_. Q None) (\<lambda>e. Q (Some e)) \<Longrightarrow> triple w P (rx_catch m) Q E"
  unfolding triple_def rx_catch_def by (fastforce split: prod.splits sum.splits)

lemma triple_if:
  "(b \<Longrightarrow> triple w P m Q E) \<Longrightarrow> (\<not> b \<Longrightarrow> triple w P n Q E) \<Longrightarrow> triple w P (if b then m else n) Q E"
  by simp

lemma triple_when:
  "(b \<Longrightarrow> triple w P m Q E) \<Longrightarrow> (\<And>s. \<not> b \<Longrightarrow> P s \<Longrightarrow> Q () s) \<Longrightarrow> triple w P (rx_when b m) Q E"
  by (simp add: rx_when_def triple_return)

lemma triple_option:
  "(x = None \<Longrightarrow> triple w P m Q E) \<Longrightarrow> (\<And>y. x = Some y \<Longrightarrow> triple w P (f y) Q E) \<Longrightarrow>
     triple w P (case x of None \<Rightarrow> m | Some y \<Rightarrow> f y) Q E"
  by (cases x) simp_all

lemma triple_sum:
  "(\<And>y. x = Inl y \<Longrightarrow> triple w P (g y) Q E) \<Longrightarrow> (\<And>y. x = Inr y \<Longrightarrow> triple w P (f y) Q E) \<Longrightarrow>
     triple w P (case x of Inl y \<Rightarrow> g y | Inr y \<Rightarrow> f y) Q E"
  by (cases x) simp_all

lemma triple_prod:
  "(\<And>a b. x = (a, b) \<Longrightarrow> triple w P (f a b) Q E) \<Longrightarrow> triple w P (case x of (a, b) \<Rightarrow> f a b) Q E"
  by (cases x) simp

lemma triple_with_comp: "(\<And>c. triple w P (f c) Q E) \<Longrightarrow> triple w P (rx_bind rx_comp f) Q E"
  by (rule triple_bind[OF triple_comp[where Q = "\<lambda>_. P"]]) simp_all

lemma triple_prod_app:
  "(\<And>a b. x = (a, b) \<Longrightarrow> triple w P (f a b y) Q E) \<Longrightarrow> triple w P ((case x of (a, b) \<Rightarrow> f a b) y) Q E"
  by (cases x) simp

lemma catch_outcome:
  "rx_catch m w s = (Inr (case fst (m w s) of Inl e \<Rightarrow> Some e | Inr _ \<Rightarrow> None), snd (m w s))"
  by (cases "m w s"; cases "fst (m w s)") (auto simp: rx_catch_def)

section \<open>Reading programs\<close>

text \<open>Programs that change nothing but the count of clock readings.\<close>

definition reads :: "'a rx \<Rightarrow> bool" where
  "reads m \<longleftrightarrow> (\<forall>w s. \<exists>a n. m w s = (Inr a, s\<lparr>rs_reads := n\<rparr>))"

lemma same_reads: "\<exists>n. s = s\<lparr>rs_reads := n\<rparr>"
  by (rule exI[of _ "rs_reads s"]) simp

lemma reads_basic [simp]:
  "reads (rx_return a)" "reads rx_comp" "reads (rx_config g)" "reads rx_cycle" "reads rx_now" "reads (rx_ask f)"
  by (auto simp: reads_def rx_return_def rx_comp_def rx_config_def rx_cycle_def rx_now_def rx_ask_def
      intro: same_reads)

lemma reads_bind: "reads m \<Longrightarrow> (\<And>a. reads (f a)) \<Longrightarrow> reads (rx_bind m f)"
proof -
  assume m: "reads m" and f: "\<And>a. reads (f a)"
  show "reads (rx_bind m f)"
    unfolding reads_def
  proof (intro allI)
    fix w s
    obtain a n where 1: "m w s = (Inr a, s\<lparr>rs_reads := n\<rparr>)" using m unfolding reads_def by blast
    obtain b n' where 2: "f a w (s\<lparr>rs_reads := n\<rparr>) = (Inr b, s\<lparr>rs_reads := n\<rparr>\<lparr>rs_reads := n'\<rparr>)"
      using f[of a] unfolding reads_def by blast
    show "\<exists>a n. rx_bind m f w s = (Inr a, s\<lparr>rs_reads := n\<rparr>)"
      using 1 2 by (auto simp: rx_bind_def)
  qed
qed

lemma reads_range [simp]: "reads (rx_range m)"
  by (simp add: rx_range_def reads_bind)

lemma reads_if [simp]: "reads m \<Longrightarrow> reads n \<Longrightarrow> reads (if b then m else n)"
  by simp

lemma triple_reads:
  assumes "reads m" "\<And>s n. P s \<Longrightarrow> P (s\<lparr>rs_reads := n\<rparr>)"
  shows "triple w P m (\<lambda>_. P) E"
proof (unfold triple_def, intro allI impI)
  fix s assume "P s"
  moreover obtain a n where "m w s = (Inr a, s\<lparr>rs_reads := n\<rparr>)"
    using assms(1) unfolding reads_def by blast
  ultimately show "case m w s of (Inl e, s') \<Rightarrow> E e s' | (Inr a, s') \<Rightarrow> P s'"
    using assms(2) by simp
qed

end
