(* ===== verification/Stages.thy ===== *)
theory Stages
  imports Rx_Logic
begin

text \<open>
  The stages of a reconciliation preserve what does not depend on the observations they record.
  An invariant is a relation \<open>I\<close> between a \<open>view\<close> of the composition and the log; after an error
  a weaker \<open>J\<close> may be left. The locales ask for more and more of the view: \<open>quiet\<close> that it sees
  only the \<open>core\<close> of a composition, \<open>stable\<close> how leadership checks act on the invariant,
  \<open>stable_phase\<close>, \<open>stable_settle\<close> and \<open>stable_exec\<close> that it ignores the phase, the endpoints'
  readiness and the recorded executions; \<open>stable_step\<close> asks for all of it and yields the step,
  \<open>stable_all\<close> in addition that errors leave the invariant, and yields a whole reconciliation.
\<close>

section \<open>What the stages record\<close>

text \<open>A composition without the fields that only report progress.\<close>

definition core :: "composition \<Rightarrow> composition" where
  "core c = c
     \<lparr>c_pending_verification := None, c_baseline_observation := None, c_message_subscriptions := [],
      c_verification_level := [], c_observed_generation := 0, c_components := [],
      c_conditions := [], c_latest_operation := zero_operation, c_last_error := None,
      c_runtime := (c_runtime c)
        \<lparr>rt_messaging_observed := [], rt_workloads := [], rt_published_overrides := None,
         rt_retiring_workloads := [], rt_retirement_drain_until := None, rt_routing_active := False,
         rt_routes_removed := False, rt_drain_until := None, rt_attempts := 0,
         rt_next_attempt_at := 0\<rparr>\<rparr>"

named_theorems core_simps "updates that do not change the core"

lemma core_fields [core_simps]:
  "core (c\<lparr>c_pending_verification := x1\<rparr>) = core c"
  "core (c\<lparr>c_baseline_observation := x2\<rparr>) = core c"
  "core (c\<lparr>c_message_subscriptions := x3\<rparr>) = core c"
  "core (c\<lparr>c_verification_level := x4\<rparr>) = core c"
  "core (c\<lparr>c_observed_generation := x5\<rparr>) = core c"
  "core (c\<lparr>c_components := x6\<rparr>) = core c"
  "core (c\<lparr>c_conditions := x7\<rparr>) = core c"
  "core (c\<lparr>c_latest_operation := x8\<rparr>) = core c"
  "core (c\<lparr>c_last_error := x9\<rparr>) = core c"
  by (simp_all add: core_def)

lemma core_runtime [core_simps]:
  "core (on_runtime (\<lambda>rt. rt\<lparr>rt_messaging_observed := f1 rt\<rparr>) c) = core c"
  "core (on_runtime (\<lambda>rt. rt\<lparr>rt_workloads := f2 rt\<rparr>) c) = core c"
  "core (on_runtime (\<lambda>rt. rt\<lparr>rt_published_overrides := f3 rt\<rparr>) c) = core c"
  "core (on_runtime (\<lambda>rt. rt\<lparr>rt_retiring_workloads := f4 rt\<rparr>) c) = core c"
  "core (on_runtime (\<lambda>rt. rt\<lparr>rt_retiring_workloads := f4 rt, rt_workloads := f2 rt\<rparr>) c) = core c"
  "core (on_runtime (\<lambda>rt. rt\<lparr>rt_retirement_drain_until := f5 rt\<rparr>) c) = core c"
  "core (on_runtime (\<lambda>rt. rt\<lparr>rt_routing_active := f6 rt\<rparr>) c) = core c"
  "core (on_runtime (\<lambda>rt. rt\<lparr>rt_routes_removed := f7 rt\<rparr>) c) = core c"
  "core (on_runtime (\<lambda>rt. rt\<lparr>rt_drain_until := f8 rt\<rparr>) c) = core c"
  "core (on_runtime (\<lambda>rt. rt\<lparr>rt_attempts := f9 rt\<rparr>) c) = core c"
  "core (on_runtime (\<lambda>rt. rt\<lparr>rt_next_attempt_at := f10 rt\<rparr>) c) = core c"
  "core (on_runtime (\<lambda>rt. rt\<lparr>rt_attempts := f9 rt, rt_next_attempt_at := f10 rt\<rparr>) c) = core c"
  "core (on_runtime (\<lambda>rt. rt\<lparr>rt_published_overrides := f3 rt, rt_attempts := f9 rt,
     rt_next_attempt_at := f10 rt\<rparr>) c) = core c"
  by (simp_all add: core_def on_runtime_def)

lemma core_helpers [core_simps]:
  "core (on_operation g c) = core c"
  "core (set_condition i x c) = core c"
  "core (on_condition i h c) = core c"
  "core (add_condition x c) = core c"
  "core (operation_succeeded c) = core c"
  "core (record_hop hp c) = core c"
  "core (unready_subscriptions c) = core c"
  "core (observe_generation c) = core c"
  "core (set_next_attempt t c) = core c"
  by (simp_all add: on_operation_def set_condition_def on_condition_def add_condition_def
      operation_succeeded_def record_hop_def unready_subscriptions_def observe_generation_def
      set_next_attempt_def core_simps Let_def)

lemma core_note_ready [core_simps]: "core (note_ready subs c) = core c"
  by (simp add: note_ready_def core_simps)

lemma core_messaging_conditions [core_simps]: "core (messaging_conditions c) = core c"
  by (simp add: messaging_conditions_def Let_def core_simps)

lemma core_retire_component [core_simps]: "core (retire_component k c) = core c"
  by (simp add: retire_component_def Let_def core_simps)

lemma core_fold: "(\<And>x c. core (f x c) = core c) \<Longrightarrow> core (fold f xs c) = core c"
  by (induction xs arbitrary: c) simp_all

lemma core_retire_dropped [core_simps]: "core (retire_dropped c) = core c"
  by (simp add: retire_dropped_def core_simps core_fold)

lemma core_record_hops [core_simps]: "core (fold record_hop hops c) = core c"
  by (simp add: core_fold core_simps)

lemma core_core [core_simps]: "core (core c) = core c"
  by (simp add: core_def)

section \<open>Invariants\<close>

definition ok :: "(composition \<Rightarrow> 'v) \<Rightarrow> ('v \<Rightarrow> trace \<Rightarrow> bool) \<Rightarrow> rstate \<Rightarrow> bool" where
  "ok view I s \<longleftrightarrow> I (view (rs_comp s)) (rs_log s)"

definition preserving ::
  "world \<Rightarrow> (composition \<Rightarrow> 'v) \<Rightarrow> ('v \<Rightarrow> trace \<Rightarrow> bool) \<Rightarrow> ('v \<Rightarrow> trace \<Rightarrow> bool) \<Rightarrow> 'a rx \<Rightarrow> bool"
where
  "preserving w view I J m \<longleftrightarrow> triple w (ok view I) m (\<lambda>_. ok view I) (\<lambda>_. ok view J)"

named_theorems keep_rules "programs that preserve an invariant"

lemma keep_bind [keep_rules]:
  "preserving w view I J m \<Longrightarrow> (\<And>a. preserving w view I J (f a)) \<Longrightarrow> preserving w view I J (rx_bind m f)"
  unfolding preserving_def by (rule triple_bind)

lemma keep_seq [keep_rules]:
  "preserving w view I J m \<Longrightarrow> preserving w view I J n \<Longrightarrow> preserving w view I J (rx_seq m n)"
  unfolding preserving_def by (rule triple_seq)

lemma keep_reads: "reads m \<Longrightarrow> preserving w view I J m"
  unfolding preserving_def by (rule triple_reads) (simp_all add: ok_def)

lemmas keep_reading [keep_rules] = reads_basic[THEN keep_reads] keep_reads[OF reads_range]

lemma keep_set_cycle [keep_rules]: "preserving w view I J (rx_set_cycle c)"
  by (simp add: preserving_def triple_def rx_set_cycle_def ok_def)

lemma keep_if [keep_rules]:
  "(b \<Longrightarrow> preserving w view I J m) \<Longrightarrow> (\<not> b \<Longrightarrow> preserving w view I J n) \<Longrightarrow>
     preserving w view I J (if b then m else n)"
  by simp

lemma keep_when [keep_rules]:
  "(b \<Longrightarrow> preserving w view I J m) \<Longrightarrow> preserving w view I J (rx_when b m)"
  by (simp add: rx_when_def keep_reads)

lemma keep_option [keep_rules]:
  "(x = None \<Longrightarrow> preserving w view I J m) \<Longrightarrow> (\<And>y. x = Some y \<Longrightarrow> preserving w view I J (f y)) \<Longrightarrow>
     preserving w view I J (case x of None \<Rightarrow> m | Some y \<Rightarrow> f y)"
  by (cases x) simp_all

lemma keep_sum [keep_rules]:
  "(\<And>y. x = Inl y \<Longrightarrow> preserving w view I J (g y)) \<Longrightarrow> (\<And>y. x = Inr y \<Longrightarrow> preserving w view I J (f y)) \<Longrightarrow>
     preserving w view I J (case x of Inl y \<Rightarrow> g y | Inr y \<Rightarrow> f y)"
  by (cases x) simp_all

lemma keep_prod [keep_rules]:
  "(\<And>a b. x = (a, b) \<Longrightarrow> preserving w view I J (f a b)) \<Longrightarrow>
     preserving w view I J (case x of (a, b) \<Rightarrow> f a b)"
  by (cases x) simp

lemma keep_prod_app [keep_rules]:
  "(\<And>a b. x = (a, b) \<Longrightarrow> preserving w view I J (f a b y)) \<Longrightarrow>
     preserving w view I J ((case x of (a, b) \<Rightarrow> f a b) y)"
  by (cases x) simp

lemma keep_catch [keep_rules]: "preserving w view I I m \<Longrightarrow> preserving w view I J (rx_catch m)"
  unfolding preserving_def by (rule triple_catch)

text \<open>Calls other than saving, checking leadership and creating a workload.\<close>

fun ordinary :: "effect \<Rightarrow> bool" where
  "ordinary E_Guard = False"
| "ordinary (E_Save c) = False"
| "ordinary (E_Ensure spec) = False"
| "ordinary e = True"

section \<open>Stages without leadership checks\<close>

locale quiet =
  fixes w :: world and view :: "composition \<Rightarrow> 'v" and I :: "'v \<Rightarrow> trace \<Rightarrow> bool"
  assumes view_core: "view (core c) = view c"
    and call: "ordinary e \<Longrightarrow> I v log \<Longrightarrow> I v (e # log)"
    and save: "I (view c) log \<Longrightarrow> I (view c) (E_Save c # log)"
begin

lemma view_eq: "core c = core c' \<Longrightarrow> view c = view c'"
  by (metis view_core)

lemma keep_view: "(\<And>c. view (f c) = view c) \<Longrightarrow> preserving w view I J (rx_modify f)"
  unfolding preserving_def by (rule triple_modify) (simp add: ok_def)

lemma keep_modify [keep_rules]:
  "(\<And>c. core (f c) = core c) \<Longrightarrow> preserving w view I J (rx_modify f)"
  by (intro keep_view view_eq)

lemma keep_call [keep_rules]: "ordinary e \<Longrightarrow> preserving w view I J (rx_call e f)"
  unfolding preserving_def by (rule triple_call) (simp add: ok_def call)

lemma keep_fail [keep_rules]: "preserving w view I I (rx_fail e)"
  unfolding preserving_def by (rule triple_fail)

lemma keep_require [keep_rules]: "preserving w view I I (rx_require e)"
  unfolding rx_require_def by (intro keep_rules)

lemma keep_do [keep_rules]: "ordinary e \<Longrightarrow> preserving w view I I (rx_do e f)"
  unfolding rx_do_def by (intro keep_rules)

lemma keep_do_as [keep_rules]: "ordinary e \<Longrightarrow> preserving w view I I (rx_do_as l e f)"
  unfolding rx_do_as_def by (intro keep_rules)

lemma keep_save [keep_rules]: "preserving w view I I rx_save"
  by (auto simp: preserving_def triple_def rx_save_def rx_do_def rx_bind_def rx_comp_def rx_call_def
      rx_require_def rx_return_def rx_fail_def ok_def save split: option.splits)

lemma keep_observeBaseline [keep_rules]: "preserving w view I I observeBaseline"
  unfolding observeBaseline_def by (intro keep_rules) (simp_all add: core_simps)

lemma keep_confirm_baseline [keep_rules]: "preserving w view I I confirm_baseline"
  unfolding confirm_baseline_def by (intro keep_rules)

lemma keep_retire_all [keep_rules]: "preserving w view I I (retire_all names)"
proof (induction names)
  case (Cons name names)
  show ?case unfolding retire_all.simps Let_def
    by (intro keep_rules Cons.IH) (simp_all add: core_simps)
qed (simp add: keep_reads)

lemma keep_retire_retiring [keep_rules]: "preserving w view I I retire_retiring"
  unfolding retire_retiring_def by (intro keep_rules)

lemma keep_retireEndpointFree [keep_rules]: "preserving w view I I retireEndpointFree"
  unfolding retireEndpointFree_def by (intro keep_rules) (simp add: core_simps)

lemma keep_step_messaging [keep_rules]: "preserving w view I I step_messaging"
  unfolding step_messaging_def require_subscriptions_def Let_def
  by (intro keep_rules) (simp_all add: core_simps)

lemma keep_pendingRoutes [keep_rules]: "preserving w view I I (pendingRoutes err)"
  unfolding pendingRoutes_def by (intro keep_rules) (simp_all add: core_simps)

lemma keep_publishObservation [keep_rules]: "preserving w view I I publishObservation"
  by (auto simp: preserving_def triple_def publishObservation_def rx_bind_def rx_comp_def rx_call_def
      rx_return_def rx_fail_def ok_def save split: option.splits)

end

section \<open>Stages with leadership checks\<close>

locale stable = quiet +
  fixes J :: "'v \<Rightarrow> trace \<Rightarrow> bool"
  assumes weaken: "I v log \<Longrightarrow> J v log"
    and guard_kept: "I v log \<Longrightarrow> w_guard w (E_Guard # log) = None \<Longrightarrow> I v (E_Guard # log)"
    and guard_lost: "I v log \<Longrightarrow> w_guard w (E_Guard # log) = Some e \<Longrightarrow> J v (E_Guard # log)"
begin

lemma keep_quiet: "preserving w view I I m \<Longrightarrow> preserving w view I J m"
  unfolding preserving_def by (erule triple_weaken) (auto simp: ok_def weaken)

lemmas keep_quiet_stages [keep_rules] =
  keep_fail[THEN keep_quiet] keep_require[THEN keep_quiet] keep_do[THEN keep_quiet]
  keep_do_as[THEN keep_quiet] keep_save[THEN keep_quiet] keep_observeBaseline[THEN keep_quiet]
  keep_confirm_baseline[THEN keep_quiet] keep_retire_all[THEN keep_quiet]
  keep_retire_retiring[THEN keep_quiet] keep_retireEndpointFree[THEN keep_quiet]
  keep_step_messaging[THEN keep_quiet] keep_pendingRoutes[THEN keep_quiet]
  keep_publishObservation[THEN keep_quiet]

lemma keep_guard [keep_rules]: "preserving w view I J (rx_do E_Guard w_guard)"
  by (auto simp: preserving_def triple_def rx_do_def rx_bind_def rx_call_def rx_require_def
      rx_return_def rx_fail_def ok_def guard_kept guard_lost split: option.splits)

lemma keep_guard_as [keep_rules]: "preserving w view I J (rx_do_as l E_Guard w_guard)"
  by (auto simp: preserving_def triple_def rx_do_as_def rx_bind_def rx_call_def rx_require_def
      rx_return_def rx_fail_def ok_def guard_kept guard_lost split: option.splits)

lemma keep_syncRoutes [keep_rules]: "preserving w view I J syncRoutes"
  unfolding syncRoutes_def by (intro keep_rules) simp_all

lemma keep_publish_selection [keep_rules]: "preserving w view I J publish_selection"
  unfolding publish_selection_def by (intro keep_rules) (simp add: core_simps)

lemma keep_destroy_routes [keep_rules]: "preserving w view I J destroy_routes"
  unfolding destroy_routes_def by (intro keep_rules) (simp_all add: core_simps)

lemma keep_set_next_attempt [keep_rules]: "preserving w view I J (rx_modify (set_next_attempt t))"
  by (intro keep_rules) (simp add: core_simps)

end

section \<open>Stages that end in another phase\<close>

locale stable_phase = stable +
  assumes view_phase: "view (c\<lparr>c_phase := p\<rparr>) = view c"
begin

lemma view_core_phase: "core (f c) = core (c\<lparr>c_phase := p\<rparr>) \<Longrightarrow> view (f c) = view c"
  using view_eq view_phase by metis

lemma core_done:
  "core (suspended_done c) = core (c\<lparr>c_phase := PhaseSuspended\<rparr>)"
  "core (no_endpoint_done completed c) =
     core (c\<lparr>c_phase := (if completed then PhaseCompleted else PhaseReady)\<rparr>)"
  "core (destroyed c) = core (c\<lparr>c_phase := PhaseDestroyed\<rparr>)"
  by (simp_all add: suspended_done_def no_endpoint_done_def destroyed_def core_simps)

lemma keep_done [keep_rules]:
  "preserving w view I J (rx_modify suspended_done)"
  "preserving w view I J (rx_modify (no_endpoint_done completed))"
  "preserving w view I J (rx_modify destroyed)"
  using core_done by (auto intro!: keep_view view_core_phase)

lemma keep_step_not_ready [keep_rules]: "preserving w view I J (step_not_ready started pg)"
  unfolding step_not_ready_def by (intro keep_rules) (simp_all add: core_simps)

lemma keep_step_no_endpoint [keep_rules]: "preserving w view I J (step_no_endpoint completed)"
  unfolding step_no_endpoint_def by (intro keep_rules) (simp_all add: core_simps)

lemma keep_destroy_messaging [keep_rules]: "preserving w view I J destroy_messaging"
  unfolding destroy_messaging_def by (intro keep_rules) (simp_all add: core_simps)

lemma keep_destroy_workloads [keep_rules]: "preserving w view I J destroy_workloads"
  unfolding destroy_workloads_def by (intro keep_rules) (simp_all add: core_simps)

end

section \<open>Stages that open or close endpoints\<close>

locale stable_settle = stable_phase +
  assumes view_ready: "view (setReady c b) = view c"
begin

lemma view_setReady: "view (f c) = view c \<Longrightarrow> view (setReady (f c) b) = view c"
  by (simp add: view_ready)

lemma view_operation [simp]: "view (on_operation g c) = view c"
  by (rule view_eq) (simp add: core_simps)

lemma view_ready_conditions [simp]: "view (ready_conditions c) = view c"
  by (rule view_core_phase[where p = PhaseReady]) (simp add: ready_conditions_def Let_def core_simps)

lemma view_begin [simp]: "view (begin_step c) = view c" "view (begin_destroy c) = view c"
  by (simp_all add: begin_step_def begin_destroy_def Let_def view_ready view_phase)

lemma view_failed [simp]: "view (failed_composition e c) = view c"
proof -
  have "view (on_runtime (\<lambda>rt. rt\<lparr>rt_attempts := Suc (rt_attempts rt)\<rparr>) x) = view x" for x
    by (rule view_eq) (simp add: core_simps)
  moreover have "view (x\<lparr>c_last_error := y\<rparr>) = view x" for x y
    by (rule view_eq) (simp add: core_simps)
  ultimately show ?thesis
    by (simp add: failed_composition_def Let_def view_ready view_phase)
qed

lemma keep_step_ready [keep_rules]: "preserving w view I J step_ready"
  unfolding step_ready_def
  by (intro keep_rules keep_view view_ready_conditions) (simp add: view_ready, rule view_eq, simp add: core_simps)

lemma keep_step_retire [keep_rules]: "preserving w view I J step_retire"
  unfolding step_retire_def by (intro keep_rules) (simp_all add: core_simps)

lemma keep_step_verified [keep_rules]: "preserving w view I J (step_verified started verified err)"
  unfolding step_verified_def by (intro keep_rules) (simp_all add: core_simps)

lemma keep_step_verify [keep_rules]: "preserving w view I J (step_verify started pods)"
  unfolding step_verify_def by (intro keep_rules) (simp_all add: core_simps)

lemma keep_step_publish [keep_rules]: "preserving w view I J (step_publish started pods)"
  unfolding step_publish_def Let_def by (intro keep_rules) (simp_all add: core_simps)

lemma keep_step_outcome [keep_rules]: "preserving w view I J (step_outcome started pg)"
  unfolding step_outcome_def by (intro keep_rules) (simp_all add: core_simps)

lemma keep_begin [keep_rules]:
  "preserving w view I J (rx_modify begin_step)" "preserving w view I J (rx_modify begin_destroy)"
  by (intro keep_view view_begin)+

lemma keep_destroy [keep_rules]: "preserving w view I J destroy"
  unfolding destroy_def by (intro keep_rules)

lemma keep_failure [keep_rules]: "preserving w view I J (failure e)"
proof -
  have failed: "preserving w view I J (rx_modify (failed_composition e))"
    by (rule keep_view) simp
  show ?thesis unfolding failure_def by (intro failed keep_rules) (simp add: core_simps)
qed

lemma keep_settle [keep_rules]: "preserving w view I J (settle event err)"
  unfolding settle_def by (intro keep_rules) (simp_all add: core_simps)

lemma keep_after_step [keep_rules]: "preserving w view I J (after_step event err)"
  unfolding after_step_def by (intro keep_rules) (simp_all add: core_simps)

end

section \<open>Creating workloads\<close>

locale stable_exec = stable +
  assumes view_exec: "view (set_execution k e c) = view c"
    and ensure: "I v log \<Longrightarrow> I v (E_Ensure spec # log)"
begin

lemma keep_ensure [keep_rules]: "preserving w view I J (rx_call (E_Ensure spec) f)"
  unfolding preserving_def by (rule triple_call) (simp add: ok_def ensure)

lemma keep_set_execution [keep_rules]:
  "preserving w view I J (rx_modify (set_execution k e))"
  "preserving w view I J (rx_modify (note_execution k ref observation))"
  by (intro keep_view; simp add: view_exec note_execution_def)+

lemma keep_resolve_execution [keep_rules]: "preserving w view I J (resolve_execution profile k img)"
  unfolding resolve_execution_def Let_def by (intro keep_rules)

lemma keep_ensure_workload [keep_rules]: "preserving w view I J (ensure_workload spec)"
  unfolding ensure_workload_def by (intro keep_rules) (simp_all add: core_simps)

lemma keep_step_component [keep_rules]: "preserving w view I J (step_component names k pg)"
  unfolding step_component_def Let_def by (intro keep_rules) (simp_all add: core_simps)

lemma keep_step_components [keep_rules]: "preserving w view I J (step_components names ks pg)"
proof (induction ks arbitrary: pg)
  case (Cons k ks)
  show ?case unfolding step_components.simps by (intro keep_rules Cons.IH)
qed (simp add: keep_reads)

end

section \<open>Whole reconciliations\<close>

locale stable_step = stable_settle + stable_exec
begin

lemma keep_step_prepared [keep_rules]: "preserving w view I J (step_prepared c)"
  unfolding step_prepared_def by (intro keep_rules) (simp_all add: core_simps)

lemma keep_step [keep_rules]: "preserving w view I J step"
  unfolding step_def step_provision_def by (intro keep_rules)

end

locale stable_all = stable_step +
  assumes error_kept: "J = I"
begin

lemma keep_reconcile [keep_rules]: "preserving w view I J (reconcile event)"
  using keep_step error_kept unfolding reconcile_def by (intro keep_rules) simp_all

end

end
