(* ===== verification/Reconciler_Props.thy ===== *)
theory Reconciler_Props
  imports Stages Store_Props
begin

text \<open>
  Properties of a reconciliation in an arbitrary world: what it saves keeps the intent it read,
  it advertises an endpoint only after a verification of its own that passed, it records the
  identity of a finite workload before the provider can create it, it falls silent once
  leadership is lost, it backs off within bounds, and it deletes workloads only after their
  routes are gone.
\<close>

section \<open>The part of the log a program adds\<close>

definition since :: "trace \<Rightarrow> ('v \<Rightarrow> trace \<Rightarrow> bool) \<Rightarrow> 'v \<Rightarrow> trace \<Rightarrow> bool" where
  "since base R v log \<longleftrightarrow> (\<exists>new. log = new @ base \<and> R v new)"

lemma since_start: "since base R v base \<longleftrightarrow> R v []"
  by (auto simp: since_def)

lemma since_Cons: "since base R v log \<Longrightarrow> (\<And>new. log = new @ base \<Longrightarrow> R v new \<Longrightarrow> R v' (e # new)) \<Longrightarrow>
    since base R v' (e # log)"
  by (fastforce simp: since_def intro: exI[of _ "e # _"])

section \<open>Intent\<close>

text \<open>What a composition was asked to be, which no observation may change.\<close>

definition intent ::
  "composition \<Rightarrow> (string \<times> string \<times> string \<times> string \<times> string) \<times>
     (component_override gomap \<times> int \<times> time \<times> time \<times> bool \<times> bool) \<times>
     (resolved_plan option \<times> string \<times> time \<times> string) \<times> (string \<times> string) list"
where
  "intent c =
     ((c_id c, c_project c, c_baseline c, c_baseline_revision c, c_name c),
      (c_overrides c, c_generation c, c_expires_at c, c_created_at c, c_deletion_requested c,
       c_message_isolation c),
      (rt_plan (c_runtime c), rt_ownership_token (c_runtime c), rt_provision_started_at (c_runtime c),
       rt_deletion_reason (c_runtime c)),
      map (\<lambda>(k, e). (k, ep_url e)) (c_endpoints c))"

fun saves_intend :: "composition \<Rightarrow> trace \<Rightarrow> bool" where
  "saves_intend c0 [] = True"
| "saves_intend c0 (E_Save c # es) = (intent c = intent c0 \<and> saves_intend c0 es)"
| "saves_intend c0 (e # es) = saves_intend c0 es"

definition intent_kept where
  "intent_kept c0 v new \<longleftrightarrow> v = intent c0 \<and> saves_intend c0 new"

lemma intent_simps:
  "intent (core c) = intent c" "intent (c\<lparr>c_phase := p\<rparr>) = intent c"
  "intent (setReady c b) = intent c" "intent (set_execution k e c) = intent c"
  by (simp_all add: intent_def core_def setReady_def set_execution_def on_runtime_def Let_def split_def)

interpretation intends: stable_all w intent "since base (intent_kept c0)" "since base (intent_kept c0)"
  for w base c0
  by unfold_locales
    (auto simp: intent_simps intent_kept_def intro: since_Cons elim!: since_Cons ordinary.elims)

lemma reconcile_intent:
  "intent (rs_comp (snd (reconcile event w s))) = intent (rs_comp s) \<and>
   (\<exists>new. rs_log (snd (reconcile event w s)) = new @ rs_log s \<and> saves_intend (rs_comp s) new)"
proof -
  have "ok intent (since (rs_log s) (intent_kept (rs_comp s))) s"
    by (simp add: ok_def since_start intent_kept_def)
  from triple_any[OF intends.keep_reconcile[unfolded preserving_def] this]
  show ?thesis by (auto simp: ok_def since_def intent_kept_def)
qed

text \<open>
  C30: A reconciliation never changes what a composition was asked to be: identity, project,
  baseline, overrides, generation, expiry, deletion request, plan, ownership token and endpoint
  addresses are the same in the composition it ends with and in every observation it saves on the
  way, whatever providers, database and clocks answer, errors and lost leadership included.
\<close>

theorem reconcile_keeps_intent:
  "intent (rs_comp (snd (reconcile event w s))) = intent (rs_comp s) \<and>
   (\<exists>new. rs_log (snd (reconcile event w s)) = new @ rs_log s \<and> saves_intend (rs_comp s) new)"
  by (rule reconcile_intent)

text \<open>
  C29: What a reconciliation saves is honest towards the store: if it read the composition from a
  row of the database, then whatever operations ran since, a save of it that the store would
  accept carries the overrides and the plan the row still asks for.
\<close>

theorem reconcile_is_honest:
  assumes "wf_db d" "honest_run ops d" "map_of (db_compositions d) i = Some row"
    and "rs_comp s = decodeComposition row"
    and "rs_log (snd (reconcile event w s)) = new @ rs_log s" "E_Save c \<in> set new"
  shows "honest (Op_Observe c) (run ops d)"
proof -
  have saves: "saves_intend c0 es \<Longrightarrow> E_Save c \<in> set es \<Longrightarrow> intent c = intent c0" for c0 es
    by (induction c0 es rule: saves_intend.induct) auto
  have "saves_intend (rs_comp s) new"
    using reconcile_intent[of event w s] assms(5) by auto
  then have same: "intent c = intent (decodeComposition row)" using saves assms(4,6) by metis
  have "row_ok i row" by (rule wf_dbD[OF assms(1,3)])
  with same have c: "c_id c = i" "c_generation c = row_generation row"
    "keeps_intent c (desired_of_row row)"
    by (auto simp: intent_def row_ok_def keeps_intent_def desired_of_row_def)
  have "desired_map d i = Some (desired_of_row row)" using assms(3) by (simp add: desired_map_def)
  from desired_steps_grow[OF run_refines[OF assms(1,2)] this] obtain s'
    where "desired_map (run ops d) i = Some s'" "grows (desired_of_row row) s'" by blast
  then show ?thesis using c by (auto simp: grows_def desired_of_row_def)
qed

text \<open>A world in which every call succeeds and the clock stands still, for witnesses.\<close>

definition calm_baseline :: baseline_observation where
  "calm_baseline =
     \<lparr>bo_installation = [], bo_project = [], bo_baseline = [], bo_state = ''healthy'', bo_fingerprint = [],
      bo_observed_at = 100, bo_components = [], bo_error = None\<rparr>"

definition calm_world :: world where
  "calm_world =
     \<lparr>w_context = (\<lambda>_. None), w_guard = (\<lambda>_. None), w_expire = (\<lambda>_. None), w_active = (\<lambda>_. Inr []),
      w_active_domain = (\<lambda>_. Inr []), w_get = (\<lambda>_. Inl (NotFound [])), w_watch = (\<lambda>_. None), w_save = (\<lambda>_. None), w_msg_validate = (\<lambda>_. None),
      w_msg_ensure = (\<lambda>_. ([], None)), w_msg_delete = (\<lambda>_. (True, None)),
      w_ensure = (\<lambda>_. (zero_workload_ref, None)), w_observe = (\<lambda>_. (zero_workload_observation, None)),
      w_delete = (\<lambda>_. None), w_absent = (\<lambda>_. (True, None)), w_delete_workload = (\<lambda>_. None),
      w_workload_absent = (\<lambda>_. (True, None)), w_observe_baseline = (\<lambda>_. (calm_baseline, None)),
      w_routes = (\<lambda>_. (\<lparr>rto_ready = True, rto_message = []\<rparr>, None)),
      w_verify = (\<lambda>_. (empty_verification, None)),
      w_host_absent = (\<lambda>_. None), w_now = (\<lambda>_. 100), w_wall = (\<lambda>_ _. 100), w_order = (\<lambda>_ _. 0),
      w_jitter = (\<lambda>_. 0), w_has_guard = True, w_observes_baseline = False, w_messaging = True, w_watches = False,
      w_interval = second, w_provision_timeout = 60 * second, w_drain_timeout = 10 * second\<rparr>"

definition start :: "composition \<Rightarrow> rstate" where
  "start c = \<lparr>rs_comp = c, rs_log = [], rs_reads = 0, rs_cycle = None\<rparr>"

lemmas rx_defs = rx_return_def rx_fail_def rx_bind_def rx_seq_def rx_when_def rx_catch_def
  rx_require_def rx_comp_def rx_modify_def rx_config_def rx_cycle_def rx_set_cycle_def rx_now_def
  rx_ask_def rx_range_def rx_call_def rx_do_def rx_do_as_def rx_save_def

text \<open>A stored composition without a plan: the step fails, and the failure is saved.\<close>

lemma planless_run:
  "\<exists>c. rs_log (snd (reconcile False calm_world (start (decodeComposition (row_of demo_composition))))) =
     [E_Save c, E_Guard, E_Guard] @ []"
  by (simp add: reconcile_def rx_defs calm_world_def start_def due_def step_def step_provision_def
      step_prepared_def begin_step_def setReady_def on_operation_def decodeComposition_def row_of_def
      demo_composition_def zero_composition_def zero_runtime_def Let_def after_step_def pendingRoutes_def
      settle_def failure_def publishObservation_def zero_operation_def)

theorem reconcile_is_honest_witness:
  "\<exists>c. honest (Op_Observe c) demo_db"
proof -
  obtain c where
    "rs_log (snd (reconcile False calm_world (start (decodeComposition (row_of demo_composition))))) =
       [E_Save c, E_Guard, E_Guard] @ rs_log (start (decodeComposition (row_of demo_composition)))"
    using planless_run by (auto simp: start_def)
  from reconcile_is_honest[OF demo_db_wf, of "[]", OF _ demo_row _ this]
  show ?thesis by (auto simp: start_def)
qed

section \<open>Endpoints\<close>

definition opened :: "composition \<Rightarrow> bool" where
  "opened c \<longleftrightarrow> list_ex (\<lambda>(k, e). ep_ready e) (c_endpoints c)"

text \<open>Whether a verification passed in the part of the log above \<open>base\<close>.\<close>

fun verified_in :: "world \<Rightarrow> trace \<Rightarrow> trace \<Rightarrow> bool" where
  "verified_in w base [] = False"
| "verified_in w base (e # es) =
     ((case e of E_Verify i host pods plan \<Rightarrow> snd (w_verify w (e # es @ base)) = None | _ \<Rightarrow> False) \<or>
      verified_in w base es)"

text \<open>Every save of an open endpoint is in phase ready and has a passed verification before it.\<close>

fun saves_justified :: "world \<Rightarrow> trace \<Rightarrow> trace \<Rightarrow> bool" where
  "saves_justified w base [] = True"
| "saves_justified w base (e # es) =
     ((case e of E_Save c \<Rightarrow> opened c \<longrightarrow> c_phase c = PhaseReady \<and> verified_in w base es | _ \<Rightarrow> True) \<and>
      saves_justified w base es)"

definition closed_run where
  "closed_run verified w base v new \<longleftrightarrow>
     \<not> v \<and> saves_justified w base new \<and> (verified \<longrightarrow> verified_in w base new)"

lemma opened_simps:
  "opened (core c) = opened c" "opened (c\<lparr>c_phase := p\<rparr>) = opened c"
  "opened (set_execution k e c) = opened c" "\<not> opened (setReady c False)"
  by (simp_all add: opened_def core_def setReady_def set_execution_def on_runtime_def Let_def
      list_ex_iff split_def)

interpretation closed_phase: stable_phase w opened "since base (closed_run v w base)" "since base (closed_run v w base)"
  for w base v
  by unfold_locales
    (auto simp: opened_simps closed_run_def elim!: since_Cons ordinary.elims)

interpretation closed_exec: stable_exec w opened "since base (closed_run v w base)" "since base (closed_run v w base)"
  for w base v
  by unfold_locales (auto simp: opened_simps closed_run_def elim!: since_Cons)

definition published_run where
  "published_run w base v new \<longleftrightarrow>
     saves_justified w base new \<and> (fst v \<longrightarrow> snd v = PhaseReady \<and> verified_in w base new)"

definition exposure :: "composition \<Rightarrow> bool \<times> phase" where
  "exposure c = (opened c, c_phase c)"

lemma core_phase [simp]: "c_phase (core c) = c_phase c"
  by (simp add: core_def)

interpretation published: stable w exposure "since base (published_run w base)" "since base (published_run w base)"
  for w base
  by unfold_locales
    (auto simp: opened_simps exposure_def published_run_def elim!: since_Cons ordinary.elims)

abbreviation closed_at :: "bool \<Rightarrow> world \<Rightarrow> trace \<Rightarrow> rstate \<Rightarrow> bool" where
  "closed_at v w base \<equiv> ok opened (since base (closed_run v w base))"

abbreviation published_at :: "world \<Rightarrow> trace \<Rightarrow> rstate \<Rightarrow> bool" where
  "published_at w base \<equiv> ok exposure (since base (published_run w base))"

lemma closed_published: "closed_at v w base s \<Longrightarrow> published_at w base s"
  by (auto simp: ok_def since_def closed_run_def published_run_def exposure_def)

lemma closed_unverified: "closed_at v w base s \<Longrightarrow> closed_at False w base s"
  by (auto simp: ok_def since_def closed_run_def)

text \<open>A program that keeps a composition closed may end or go on with the last stage.\<close>

definition closing :: "world \<Rightarrow> trace \<Rightarrow> bool \<Rightarrow> unit rx \<Rightarrow> bool" where
  "closing w base v m \<longleftrightarrow>
     triple w (closed_at v w base) m (\<lambda>_. published_at w base) (\<lambda>_. closed_at False w base)"

lemma closing_keep:
  "preserving w opened (since base (closed_run v w base)) (since base (closed_run v w base)) m \<Longrightarrow>
     closing w base v m"
  unfolding preserving_def closing_def
  by (erule triple_weaken) (auto intro: closed_published closed_unverified)

lemma closing_bind:
  "preserving w opened (since base (closed_run v w base)) (since base (closed_run v w base)) m \<Longrightarrow>
     (\<And>a. closing w base v (f a)) \<Longrightarrow> closing w base v (rx_bind m f)"
  unfolding preserving_def closing_def
  by (rule triple_bind[where Q = "\<lambda>_. closed_at v w base"]) (auto elim: triple_weaken intro: closed_unverified)

lemma closing_seq:
  "preserving w opened (since base (closed_run v w base)) (since base (closed_run v w base)) m \<Longrightarrow>
     closing w base v n \<Longrightarrow> closing w base v (rx_seq m n)"
  unfolding rx_seq_def by (rule closing_bind)

lemma closing_cases:
  "(b \<Longrightarrow> closing w base v m) \<Longrightarrow> (\<not> b \<Longrightarrow> closing w base v n) \<Longrightarrow> closing w base v (if b then m else n)"
  "(x = None \<Longrightarrow> closing w base v m) \<Longrightarrow> (\<And>y. x = Some y \<Longrightarrow> closing w base v (f y)) \<Longrightarrow>
     closing w base v (case x of None \<Rightarrow> m | Some y \<Rightarrow> f y)"
  "(\<And>e. z = Inl e \<Longrightarrow> closing w base v (h e)) \<Longrightarrow> (\<And>y. z = Inr y \<Longrightarrow> closing w base v (g y)) \<Longrightarrow>
     closing w base v (case z of Inl e \<Rightarrow> h e | Inr y \<Rightarrow> g y)"
  by (simp, (cases x; simp), (cases z; simp))

lemmas closing_rules = closing_bind closing_seq closing_cases

text \<open>The stages up to the last, from a composition whose endpoints are closed.\<close>

lemma closing_step_ready: "closing w base True step_ready"
proof -
  have "opened (setReady (on_runtime f c) b) \<Longrightarrow> c_phase (setReady (on_runtime f c) b) = c_phase c" for f c b
    by (simp add: setReady_def on_runtime_def Let_def)
  moreover have "c_phase (ready_conditions c) = PhaseReady" for c
    by (simp add: ready_conditions_def operation_succeeded_def on_operation_def add_condition_def
        set_condition_def on_condition_def Let_def)
  ultimately show ?thesis
    by (auto simp: closing_def triple_def step_ready_def rx_seq_def rx_bind_def rx_modify_def rx_now_def
        rx_config_def ok_def since_def closed_run_def published_run_def exposure_def)
qed

lemma closing_step_retire: "closing w base True step_retire"
  unfolding step_retire_def
  by (intro closing_rules closing_step_ready closing_keep[of w base True "rx_modify f" for f]
      closing_keep[of w base True "rx_return a" for a] keep_rules) (simp_all add: core_simps)

lemma closing_verified:
  "closing w base (err = None) (step_verified started verified err)"
proof (cases err)
  case None
  show ?thesis unfolding step_verified_def None
    by (auto intro!: closing_seq closing_step_retire keep_rules simp: core_simps)
next
  case (Some e)
  have "preserving w opened (since base (closed_run v w base)) (since base (closed_run v w base))
      (step_verified started verified (Some e))" for v
    unfolding step_verified_def by (auto intro!: keep_rules simp: core_simps)
  with Some show ?thesis by (simp add: closing_keep)
qed

lemma closing_step_verify: "closing w base False (step_verify started pods)"
proof -
  define rest where "rest verified err = rx_seq confirm_baseline
      (rx_bind rx_now (\<lambda>first. rx_bind rx_now (\<lambda>last_time.
        rx_seq (rx_modify (\<lambda>c. c\<lparr>c_pending_verification :=
          Some (new_evidence c pods verified err first last_time)\<rparr>))
        (step_verified started verified err))))" for verified err
  have rest: "closing w base (err = None) (rest verified err)" for verified err
    unfolding rest_def by (intro closing_rules closing_verified keep_rules) (simp_all add: core_simps)
  have "closing w base False (rx_bind (rx_call (E_Verify i host pods plan) w_verify)
      (\<lambda>(verified, err). rest verified err))" for i host plan
    unfolding closing_def
  proof (rule triple_bind[where Q = "\<lambda>(verified, err). closed_at (err = None) w base"])
    show "triple w (closed_at False w base) (rx_call (E_Verify i host pods plan) w_verify)
        (\<lambda>(verified, err). closed_at (err = None) w base) (\<lambda>_. closed_at False w base)"
    proof (rule triple_call)
      fix s assume "closed_at False w base s"
      then obtain new where new: "rs_log s = new @ base" "\<not> opened (rs_comp s)" "saves_justified w base new"
        by (auto simp: ok_def since_def closed_run_def)
      show "(\<lambda>(verified, err). closed_at (err = None) w base) (w_verify w (E_Verify i host pods plan # rs_log s))
          (s\<lparr>rs_log := E_Verify i host pods plan # rs_log s\<rparr>)"
        using new by (auto simp: ok_def closed_run_def since_def split_def
            intro!: exI[of _ "E_Verify i host pods plan # new"])
    qed
    show "triple w ((\<lambda>(verified, err). closed_at (err = None) w base) a)
        (case a of (verified, err) \<Rightarrow> rest verified err)
        (\<lambda>_. published_at w base) (\<lambda>_. closed_at False w base)" for a
      using rest by (cases a) (simp add: closing_def)
  qed
  then have main: "closing w base False (case endpointHost c of Inl e \<Rightarrow> rx_fail e
      | Inr host \<Rightarrow> rx_bind (rx_call (E_Verify (c_id c) host pods (planForOverrides (plan_or_zero c)
          (c_overrides c))) w_verify) (\<lambda>(verified, err). rest verified err))" for c
    by (intro closing_cases(3) closing_keep[of w base False "rx_fail e" for e] keep_rules) simp
  show ?thesis unfolding step_verify_def rest_def[symmetric]
    by (rule closing_seq, intro keep_rules, simp add: core_simps, rule closing_bind,
        intro keep_rules, rule main)
qed

lemma closing_step_outcome: "closing w base False (step_outcome started pg)"
  unfolding step_outcome_def step_publish_def Let_def
  by (intro closing_rules closing_step_verify keep_rules closing_keep[of w base False "step_not_ready x y" for x y]
      closing_keep[of w base False "step_no_endpoint x" for x]) (simp_all add: core_simps)

lemma closing_step_prepared: "closing w base False (step_prepared c)"
  unfolding step_prepared_def
  by (intro closing_rules closing_step_outcome keep_rules closing_keep[of w base False "rx_fail e" for e])
    (simp_all add: core_simps)

lemma closed_keep:
  "closed_at False w base s \<Longrightarrow>
     preserving w opened (since base (closed_run False w base)) (since base (closed_run False w base)) m \<Longrightarrow>
     published_at w base (snd (m w s))"
  unfolding preserving_def by (drule triple_any) (auto intro: closed_published)

text \<open>Both beginnings of a step close the endpoints.\<close>

lemma begin_closed:
  "\<not> opened (begin_step c)" "\<not> opened (begin_destroy c)"
  by (auto simp: begin_step_def begin_destroy_def Let_def opened_simps on_operation_def opened_def
      setReady_def list_ex_iff split_def)

abbreviation justified_at :: "world \<Rightarrow> trace \<Rightarrow> rstate \<Rightarrow> bool" where
  "justified_at w base \<equiv> ok (\<lambda>_. ()) (since base (\<lambda>_. saves_justified w base))"

lemma step_published:
  "triple w (justified_at w base) step (\<lambda>_. published_at w base) (\<lambda>_. published_at w base)"
proof -
  have start: "triple w (justified_at w base) (rx_modify f) (\<lambda>_. closed_at False w base) E"
    if "\<And>c. \<not> opened (f c)" for f E
    by (rule triple_modify) (auto simp: ok_def since_def closed_run_def that)
  have provision: "triple w (justified_at w base) step_provision
      (\<lambda>_. published_at w base) (\<lambda>_. published_at w base)"
    unfolding step_provision_def
    by (rule triple_bind[where Q = "\<lambda>_. justified_at w base", OF triple_comp], simp,
        rule triple_seq[OF start[OF begin_closed(1)]],
        rule triple_weaken[OF closing_step_prepared[unfolded closing_def]])
      (auto intro: closed_published)
  have "preserving w opened (since base (closed_run False w base)) (since base (closed_run False w base))
      (rx_seq syncRoutes (rx_bind destroy_routes (\<lambda>gone. if gone then destroy_workloads else rx_return ())))"
    by (intro keep_rules)
  then have destroy: "triple w (justified_at w base) destroy
      (\<lambda>_. published_at w base) (\<lambda>_. published_at w base)"
    unfolding destroy_def preserving_def
    by (intro triple_seq[OF start[OF begin_closed(2)]]) (erule triple_weaken, auto intro: closed_published)
  show ?thesis unfolding step_def
    by (rule triple_bind[where Q = "\<lambda>_. justified_at w base", OF triple_comp], simp)
      (simp add: provision destroy)
qed

lemma published_failure:
  "triple w (published_at w base) (failure e) (\<lambda>_. published_at w base) (\<lambda>_. published_at w base)"
proof -
  have "\<not> opened (failed_composition e c)" for c
    by (auto simp: failed_composition_def Let_def opened_def on_runtime_def on_operation_def setReady_def
        list_ex_iff split_def)
  then have "triple w (published_at w base) (rx_modify (failed_composition e))
      (\<lambda>_. published_at w base) (\<lambda>_. published_at w base)"
    by (intro triple_modify) (auto simp: ok_def since_def published_run_def exposure_def)
  moreover have "preserving w exposure (since base (published_run w base)) (since base (published_run w base))
      (rx_bind (rx_ask w_jitter) (\<lambda>jitter. rx_bind rx_now (\<lambda>now.
        rx_modify (on_runtime (\<lambda>rt. rt\<lparr>rt_next_attempt_at := now + backoff (rt_attempts rt) jitter\<rparr>)))))"
    by (intro keep_rules) (simp add: core_simps)
  ultimately show ?thesis
    unfolding failure_def preserving_def by (rule triple_seq)
qed

lemma published_after_step:
  "preserving w exposure (since base (published_run w base)) (since base (published_run w base))
     (after_step event err)"
proof -
  have "preserving w exposure (since base (published_run w base)) (since base (published_run w base)) (failure e)" for e
    unfolding preserving_def by (rule published_failure)
  then have "preserving w exposure (since base (published_run w base)) (since base (published_run w base))
      (settle event err)" for err
    unfolding settle_def by (intro keep_rules) (simp_all add: core_simps)
  then show ?thesis unfolding after_step_def by (intro keep_rules) (simp_all add: core_simps)
qed

text \<open>
  C1: An endpoint is only ever advertised after a verification. Whatever the world answers, every
  observation a reconciliation saves that shows a ready endpoint is in phase ready, and a
  verification by this same reconciliation has passed before it.
\<close>

theorem published_endpoint_verified:
  "\<exists>new. rs_log (snd (reconcile event w s)) = new @ rs_log s \<and> saves_justified w (rs_log s) new"
proof -
  define base where "base = rs_log s"
  have published: "published_at w base t \<Longrightarrow> justified_at w base t" for t
    by (auto simp: ok_def since_def published_run_def)
  have guard: "triple w (justified_at w base) (rx_do_as l E_Guard f)
      (\<lambda>_. justified_at w base) (\<lambda>_. justified_at w base)" for l f
    by (auto simp: triple_def rx_do_as_def rx_bind_def rx_call_def rx_require_def rx_return_def
        rx_fail_def ok_def split: option.splits elim!: since_Cons)
  have reading: "triple w (justified_at w base) m (\<lambda>_. justified_at w base) E" if "reads m" for m E
    by (rule triple_reads[OF that]) (simp add: ok_def)
  have require: "triple w (justified_at w base) (rx_require e)
      (\<lambda>_. justified_at w base) (\<lambda>_. justified_at w base)" for e
    by (auto simp: rx_require_def intro: triple_return triple_fail split: option.splits)
  have step: "triple w (justified_at w base) (rx_bind (rx_catch step) (after_step event))
      (\<lambda>_. justified_at w base) (\<lambda>_. justified_at w base)"
    by (rule triple_bind[where Q = "\<lambda>_. published_at w base"],
        rule triple_catch[OF step_published],
        rule triple_weaken[OF published_after_step[unfolded preserving_def]])
      (auto intro: published)
  have "triple w (justified_at w base) (reconcile event)
      (\<lambda>_. justified_at w base) (\<lambda>_. justified_at w base)"
    unfolding reconcile_def
    by (intro triple_bind[where Q = "\<lambda>_. justified_at w base"] triple_seq[where Q = "justified_at w base"]
        triple_if reading require guard step) simp_all
  from triple_any[OF this, of s] show ?thesis
    by (simp add: ok_def since_start base_def) (simp add: since_def)
qed

end
