(* ===== verification/Leadership.thy ===== *)
theory Leadership
  imports Reconciler_Props
begin

text \<open>
  Leadership: once the guard has answered that the lease is gone, and goes on answering so, the
  reconciler makes no further call but guard checks. What it had begun in a step is left to the
  next leader.
\<close>

definition lost_at :: "world \<Rightarrow> trace \<Rightarrow> bool" where
  "lost_at w log \<longleftrightarrow> (case log of E_Guard # _ \<Rightarrow> w_guard w log \<noteq> None | _ \<Rightarrow> False)"

text \<open>Whether a check failed in the part of the log above \<open>base\<close>, and whether only checks followed.\<close>

fun lost :: "world \<Rightarrow> trace \<Rightarrow> trace \<Rightarrow> bool" where
  "lost w base [] = False"
| "lost w base (e # es) = (lost_at w (e # es @ base) \<or> lost w base es)"

fun silent :: "world \<Rightarrow> trace \<Rightarrow> trace \<Rightarrow> bool" where
  "silent w base [] = True"
| "silent w base (e # es) = ((lost w base es \<longrightarrow> e = E_Guard) \<and> silent w base es)"

text \<open>A lease that is lost stays lost.\<close>

definition lease_final :: "world \<Rightarrow> bool" where
  "lease_final w \<longleftrightarrow>
     (\<forall>log more. w_guard w (E_Guard # log) \<noteq> None \<longrightarrow> w_guard w (E_Guard # more @ E_Guard # log) \<noteq> None)"

lemma lost_at_simps [simp]:
  "lost_at w (E_Guard # log) \<longleftrightarrow> w_guard w (E_Guard # log) \<noteq> None"
  "e \<noteq> E_Guard \<Longrightarrow> \<not> lost_at w (e # log)"
  by (cases e; simp add: lost_at_def)+

lemma lost_split: "lost w base new \<Longrightarrow> \<exists>newer older. new = newer @ E_Guard # older \<and>
    w_guard w (E_Guard # older @ base) \<noteq> None"
proof (induction new)
  case (Cons e es)
  show ?case
  proof (cases "lost w base es")
    case True
    with Cons.IH obtain newer older where "es = newer @ E_Guard # older" "w_guard w (E_Guard # older @ base) \<noteq> None"
      by blast
    then show ?thesis by (intro exI[of _ "e # newer"] exI[of _ older]) simp
  next
    case False
    with Cons.prems have "lost_at w (e # es @ base)" by simp
    then have "e = E_Guard" "w_guard w (E_Guard # es @ base) \<noteq> None"
      by (auto simp: lost_at_def split: list.splits effect.splits)
    then show ?thesis by (intro exI[of _ "[]"] exI[of _ es]) simp
  qed
qed simp

lemma lost_fails: "lease_final w \<Longrightarrow> lost w base new \<Longrightarrow> w_guard w (E_Guard # new @ base) \<noteq> None"
  by (drule lost_split) (fastforce simp: lease_final_def)

definition led where "led w base v new \<longleftrightarrow> \<not> lost w base new"
definition hushed where "hushed w base v new \<longleftrightarrow> silent w base new"

lemma led_hushed: "\<not> lost w base new \<Longrightarrow> silent w base new"
  by (induction new) auto

interpretation leading: stable_step w c_id "since base (led w base)" "since base (hushed w base)"
  for w base
  by unfold_locales
    (auto simp: led_def hushed_def since_def core_def setReady_def set_execution_def on_runtime_def Let_def
      intro: led_hushed exI[of _ "_ # _"] elim!: ordinary.elims)

abbreviation hushed_at :: "world \<Rightarrow> trace \<Rightarrow> rstate \<Rightarrow> bool" where
  "hushed_at w base \<equiv> ok c_id (since base (hushed w base))"

abbreviation led_at :: "world \<Rightarrow> trace \<Rightarrow> rstate \<Rightarrow> bool" where
  "led_at w base \<equiv> ok c_id (since base (led w base))"

lemma led_at_hushed: "led_at w base s \<Longrightarrow> hushed_at w base s"
  by (auto simp: ok_def since_def led_def hushed_def led_hushed)

text \<open>A check that passes shows that the lease was never lost.\<close>

lemma guard_leads:
  assumes "lease_final w"
  shows "triple w (hushed_at w base) (rx_do_as l E_Guard w_guard) (\<lambda>_. led_at w base) (\<lambda>_. hushed_at w base)"
proof (unfold triple_def, intro allI impI)
  fix s assume "hushed_at w base s"
  then obtain new where new: "rs_log s = new @ base" "silent w base new"
    by (auto simp: ok_def since_def hushed_def)
  have "silent w base (E_Guard # new)" using new by simp
  moreover have "w_guard w (E_Guard # new @ base) = None \<Longrightarrow> \<not> lost w base (E_Guard # new)"
    using lost_fails[OF assms, of base new] by auto
  ultimately show "case rx_do_as l E_Guard w_guard w s of (Inl e, s') \<Rightarrow> hushed_at w base s'
      | (Inr a, s') \<Rightarrow> led_at w base s'"
    using new by (auto simp: rx_do_as_def rx_bind_def rx_call_def rx_require_def rx_return_def rx_fail_def
        ok_def since_def led_def hushed_def split: option.splits intro!: exI[of _ "E_Guard # new"])
qed

lemma hushed_reads: "reads m \<Longrightarrow> triple w (hushed_at w base) m (\<lambda>_. hushed_at w base) E"
  by (rule triple_reads) (simp_all add: ok_def)

lemma hushed_require: "triple w (hushed_at w base) (rx_require e) (\<lambda>_. hushed_at w base) (\<lambda>_. hushed_at w base)"
  by (auto simp: rx_require_def intro: triple_return triple_fail split: option.splits)

lemma hushed_modify: "triple w (hushed_at w base) (rx_modify f) (\<lambda>_. hushed_at w base) E"
  by (rule triple_modify) (simp add: ok_def since_def hushed_def)

lemma led_program:
  "preserving w c_id (since base (led w base)) (since base (hushed w base)) m \<Longrightarrow>
     triple w (led_at w base) m (\<lambda>_. hushed_at w base) (\<lambda>_. hushed_at w base)"
  unfolding preserving_def by (erule triple_weaken) (auto intro: led_at_hushed)

lemma hushed_after_step:
  assumes "lease_final w"
  shows "triple w (hushed_at w base) (after_step event err) (\<lambda>_. hushed_at w base) (\<lambda>_. hushed_at w base)"
  unfolding after_step_def
  by (intro triple_if triple_return triple_bind[where Q = "\<lambda>_. hushed_at w base"]
      triple_seq[where Q = "hushed_at w base"] triple_seq[OF guard_leads[OF assms]]
      hushed_reads hushed_require led_program keep_rules) (simp_all add: core_simps)

lemma hushed_reconcile:
  assumes "lease_final w"
  shows "triple w (hushed_at w base) (reconcile event) (\<lambda>_. hushed_at w base) (\<lambda>_. hushed_at w base)"
  unfolding reconcile_def
  by (intro triple_if triple_return triple_bind[where Q = "\<lambda>_. hushed_at w base"]
      triple_seq[where Q = "hushed_at w base"] triple_seq[OF guard_leads[OF assms]]
      hushed_reads hushed_require hushed_after_step[OF assms]
      triple_bind[OF triple_catch[where Q = "\<lambda>_. hushed_at w base"]] led_program keep_rules) simp_all

lemma hushed_reconcile_each:
  assumes "lease_final w"
  shows "triple w (hushed_at w base) (reconcile_each event cs) (\<lambda>_. hushed_at w base) (\<lambda>_. hushed_at w base)"
  by (induction cs) (auto intro!: triple_return triple_seq[where Q = "hushed_at w base"] hushed_modify
      hushed_reconcile[OF assms])

lemma hushed_scan:
  assumes "lease_final w"
  shows "triple w (hushed_at w base) scan (\<lambda>_. hushed_at w base) (\<lambda>_. hushed_at w base)"
proof -
  have active: "triple w (led_at w base) (rx_call E_Active w_active) (\<lambda>_. hushed_at w base) E" for E
    using leading.keep_call[where e = E_Active and f = w_active]
    by (auto simp: preserving_def triple_def rx_call_def intro: led_at_hushed)
  have fails: "triple w (hushed_at w base) (rx_fail e :: unit rx) Q (\<lambda>_. hushed_at w base)" for e Q
    by (rule triple_fail)
  have expire: "triple w (led_at w base) (rx_do_as l (E_Expire now) w_expire) (\<lambda>_. led_at w base)
      (\<lambda>_. hushed_at w base)" for l now
    by (rule leading.keep_do_as[THEN leading.keep_quiet, unfolded preserving_def]) simp
  have now: "triple w (led_at w base) rx_now (\<lambda>_. led_at w base) E" for E
    by (rule triple_reads) (simp_all add: ok_def)
  show ?thesis
    unfolding scan_def
    by (intro triple_if triple_sum fails hushed_reconcile_each[OF assms]
        triple_bind[where Q = "\<lambda>_. hushed_at w base"] triple_seq[OF guard_leads[OF assms]]
        triple_bind[OF now] triple_seq[OF expire] triple_bind[OF active] hushed_reads) simp_all
qed

text \<open>
  C9: Losing the lease silences the reconciler. If the lease, once lost, stays lost, then in one
  scan over all compositions every call after a failed leadership check is another check: no
  provider is called, no route written and nothing saved, so the next leader meets no competing
  write of this process.
\<close>

theorem lost_leadership_silences:
  assumes "lease_final w" "rs_log (snd (Tick w s)) = newer @ E_Guard # older @ rs_log s"
    and "w_guard w (E_Guard # older @ rs_log s) \<noteq> None"
  shows "set newer \<subseteq> {E_Guard}"
proof -
  have "hushed_at w (rs_log s) (s\<lparr>rs_cycle := Some None\<rparr>)"
    by (simp add: ok_def since_start hushed_def)
  from triple_any[OF hushed_scan[OF assms(1)] this]
  have "silent w (rs_log s) (newer @ E_Guard # older)"
    using assms(2) by (auto simp: Tick_def ok_def since_def hushed_def split_def)
  moreover have "lost w (rs_log s) (newer' @ E_Guard # older)" for newer'
    using assms(3) by (induction newer') simp_all
  ultimately show ?thesis by (induction newer) auto
qed

text \<open>A world whose lease is gone from the third check on, and a composition to destroy.\<close>

definition lapsed_world :: world where
  "lapsed_world = calm_world
     \<lparr>w_active := (\<lambda>_. Inr [demo_composition\<lparr>c_deletion_requested := True\<rparr>]),
      w_guard := (\<lambda>log. if length (filter ((=) E_Guard) log) \<le> 2 then None else Some (Plain ''not leader''))\<rparr>"

lemma lapsed_final: "lease_final lapsed_world"
  by (auto simp: lease_final_def lapsed_world_def)

theorem lost_leadership_silences_witness:
  "rs_log (snd (Tick lapsed_world (start demo_composition))) =
     [E_Guard] @ E_Guard # [E_Guard, E_Active, E_Expire 100, E_Guard] \<and> set [E_Guard] \<subseteq> {E_Guard}"
proof -
  have run: "rs_log (snd (Tick lapsed_world (start demo_composition))) =
      [E_Guard] @ E_Guard # [E_Guard, E_Active, E_Expire 100, E_Guard] @ rs_log (start demo_composition)"
    by (simp add: Tick_def scan_def reconcile_def rx_defs lapsed_world_def calm_world_def start_def due_def
        step_def destroy_def syncRoutes_def after_step_def demo_composition_def zero_composition_def
        zero_runtime_def)
  from lost_leadership_silences[OF lapsed_final run] run show ?thesis
    by (simp add: start_def lapsed_world_def)
qed

end
