(* ===== verification/Footprint.thy ===== *)
theory Footprint
  imports Reconciler_Props
begin

text \<open>
  Which calls a program can make at all, found by a syntactic walk over its constructs, and what
  follows: provisioning and destroying share no provider call.
\<close>

section \<open>The calls a program makes\<close>

definition emits :: "(effect \<Rightarrow> bool) \<Rightarrow> 'a rx \<Rightarrow> bool" where
  "emits A m \<longleftrightarrow> (\<forall>w s. \<exists>new. rs_log (snd (m w s)) = new @ rs_log s \<and> list_all A new)"

named_theorems emit_rules "calls of the constructs of a program"

lemma emits_same: "(\<And>w s. rs_log (snd (m w s)) = rs_log s) \<Longrightarrow> emits A m"
  by (simp add: emits_def)

lemma emits_bind [emit_rules]:
  assumes "emits A m" "\<And>a. emits A (f a)"
  shows "emits A (rx_bind m f)"
proof (unfold emits_def, intro allI)
  fix w s
  obtain new where new: "rs_log (snd (m w s)) = new @ rs_log s" "list_all A new"
    using assms(1) unfolding emits_def by blast
  show "\<exists>new. rs_log (snd (rx_bind m f w s)) = new @ rs_log s \<and> list_all A new"
  proof (cases "m w s")
    case (Pair r s')
    show ?thesis
    proof (cases r)
      case (Inl e)
      with Pair new show ?thesis by (auto simp: rx_bind_def)
    next
      case (Inr a)
      obtain new' where "rs_log (snd (f a w s')) = new' @ rs_log s'" "list_all A new'"
        using assms(2) unfolding emits_def by blast
      with Pair Inr new show ?thesis
        by (auto simp: rx_bind_def intro!: exI[of _ "new' @ new"])
    qed
  qed
qed

lemma emits_seq [emit_rules]: "emits A m \<Longrightarrow> emits A n \<Longrightarrow> emits A (rx_seq m n)"
  unfolding rx_seq_def by (rule emits_bind)

lemma emits_basic [emit_rules]:
  "emits A (rx_return a)" "emits A (rx_fail e)" "emits A rx_comp" "emits A (rx_modify f)"
  "emits A (rx_config g)" "emits A rx_cycle" "emits A (rx_set_cycle c)" "emits A rx_now" "emits A (rx_ask h)"
  by (rule emits_same, simp add: rx_defs)+

lemma emits_range [emit_rules]: "emits A (rx_range m)"
  by (rule emits_same) (simp add: rx_defs)

lemma emits_call [emit_rules]: "A e \<Longrightarrow> emits A (rx_call e f)"
  by (auto simp: emits_def rx_call_def)

lemma emits_require [emit_rules]: "emits A (rx_require e)"
  unfolding rx_require_def by (cases e) (auto intro: emits_basic)

lemma emits_do [emit_rules]: "A e \<Longrightarrow> emits A (rx_do e f)" "A e \<Longrightarrow> emits A (rx_do_as l e f)"
  unfolding rx_do_def rx_do_as_def by (intro emit_rules, assumption)+

lemma emits_save [emit_rules]: "(\<And>c. A (E_Save c)) \<Longrightarrow> emits A rx_save"
  unfolding rx_save_def by (intro emit_rules)

lemma emits_catch [emit_rules]: "emits A m \<Longrightarrow> emits A (rx_catch m)"
  by (simp add: emits_def catch_outcome)

lemma emits_when [emit_rules]: "(b \<Longrightarrow> emits A m) \<Longrightarrow> emits A (rx_when b m)"
  by (simp add: rx_when_def emits_basic)

lemma emits_if [emit_rules]:
  "(b \<Longrightarrow> emits A m) \<Longrightarrow> (\<not> b \<Longrightarrow> emits A n) \<Longrightarrow> emits A (if b then m else n)"
  by simp

lemma emits_option [emit_rules]:
  "(x = None \<Longrightarrow> emits A m) \<Longrightarrow> (\<And>y. x = Some y \<Longrightarrow> emits A (f y)) \<Longrightarrow>
     emits A (case x of None \<Rightarrow> m | Some y \<Rightarrow> f y)"
  by (cases x) simp_all

lemma emits_sum [emit_rules]:
  "(\<And>y. x = Inl y \<Longrightarrow> emits A (g y)) \<Longrightarrow> (\<And>y. x = Inr y \<Longrightarrow> emits A (f y)) \<Longrightarrow>
     emits A (case x of Inl y \<Rightarrow> g y | Inr y \<Rightarrow> f y)"
  by (cases x) simp_all

lemma emits_prod [emit_rules]:
  "(\<And>a b. x = (a, b) \<Longrightarrow> emits A (f a b)) \<Longrightarrow> emits A (case x of (a, b) \<Rightarrow> f a b)"
  by (cases x) simp

lemma emits_prod_app [emit_rules]:
  "(\<And>a b. x = (a, b) \<Longrightarrow> emits A (f a b y)) \<Longrightarrow> emits A ((case x of (a, b) \<Rightarrow> f a b) y)"
  by (cases x) simp

section \<open>Provisioning and destroying share no provider call\<close>

text \<open>Calls that create or check what a composition runs, and calls that remove it for good.\<close>

fun provisions :: "effect \<Rightarrow> bool" where
  "provisions (E_Ensure spec) = True"
| "provisions (E_Observe ref) = True"
| "provisions (E_Observe_Baseline b o') = True"
| "provisions (E_Verify i host pods plan) = True"
| "provisions (E_Msg_Validate b) = True"
| "provisions (E_Msg_Ensure spec) = True"
| "provisions (E_Delete_Workload ref) = True"
| "provisions (E_Workload_Absent ref) = True"
| "provisions e = False"

fun removes :: "effect \<Rightarrow> bool" where
  "removes (E_Delete ref) = True"
| "removes (E_Absent ref) = True"
| "removes (E_Host_Absent host) = True"
| "removes (E_Msg_Delete spec) = True"
| "removes e = False"

definition routine :: "effect \<Rightarrow> bool" where
  "routine e \<longleftrightarrow> \<not> provisions e \<and> \<not> removes e"

lemma emits_mono: "emits A m \<Longrightarrow> (\<And>e. A e \<Longrightarrow> B e) \<Longrightarrow> emits B m"
  unfolding emits_def by (meson list.pred_mono_strong)

lemma emits_syncRoutes: "emits routine syncRoutes"
  unfolding syncRoutes_def by (intro emit_rules) (simp_all add: routine_def)

lemma provision_emits:
  "emits (\<lambda>e. \<not> removes e) syncRoutes" "emits (\<lambda>e. \<not> removes e) observeBaseline"
  "emits (\<lambda>e. \<not> removes e) (retire_all names)" "emits (\<lambda>e. \<not> removes e) step_messaging"
proof -
  show "emits (\<lambda>e. \<not> removes e) syncRoutes"
    by (rule emits_mono[OF emits_syncRoutes]) (simp add: routine_def)
  show "emits (\<lambda>e. \<not> removes e) observeBaseline"
    unfolding observeBaseline_def by (intro emit_rules) simp_all
  show "emits (\<lambda>e. \<not> removes e) (retire_all names)"
  proof (induction names)
    case (Cons name names)
    show ?case unfolding retire_all.simps Let_def by (intro emit_rules Cons.IH) simp_all
  qed (simp add: emits_basic)
  show "emits (\<lambda>e. \<not> removes e) step_messaging"
    unfolding step_messaging_def require_subscriptions_def Let_def by (intro emit_rules) simp_all
qed

lemma provision_emits_end:
  "emits (\<lambda>e. \<not> removes e) (step_outcome started pg)"
  unfolding step_outcome_def step_not_ready_def step_no_endpoint_def retireEndpointFree_def retire_retiring_def
    step_publish_def publish_selection_def step_verify_def confirm_baseline_def step_verified_def
    step_retire_def step_ready_def Let_def
  by (intro emit_rules provision_emits) simp_all

lemma provision_emits_components: "emits (\<lambda>e. \<not> removes e) (step_components names ks pg)"
proof (induction ks arbitrary: pg)
  case (Cons k ks)
  show ?case
    unfolding step_components.simps step_component_def resolve_execution_def ensure_workload_def Let_def
    by (intro emit_rules Cons.IH) simp_all
qed (simp add: emits_basic)

lemma emits_provision: "emits (\<lambda>e. \<not> removes e) step_provision"
  unfolding step_provision_def step_prepared_def
  by (intro emit_rules provision_emits provision_emits_end provision_emits_components)

lemma emits_destroy: "emits (\<lambda>e. \<not> provisions e) destroy"
proof -
  have "emits (\<lambda>e. \<not> provisions e) syncRoutes"
    by (rule emits_mono[OF emits_syncRoutes]) (simp add: routine_def)
  then show ?thesis
    unfolding destroy_def destroy_routes_def destroy_workloads_def destroy_messaging_def
    by (intro emit_rules) simp_all
qed

lemma emits_after_step: "emits routine (after_step event err)"
  unfolding after_step_def pendingRoutes_def settle_def failure_def publishObservation_def
  by (intro emit_rules) (simp_all add: routine_def)

definition only :: "(effect \<Rightarrow> bool) \<Rightarrow> trace \<Rightarrow> rstate \<Rightarrow> bool" where
  "only A base s \<longleftrightarrow> (\<exists>new. rs_log s = new @ base \<and> list_all A new)"

lemma emits_only:
  assumes "emits A m"
  shows "triple w (only A base) m (\<lambda>_. only A base) (\<lambda>_. only A base)"
proof (unfold triple_def, intro allI impI)
  fix s assume "only A base s"
  moreover obtain new where "rs_log (snd (m w s)) = new @ rs_log s" "list_all A new"
    using assms unfolding emits_def by blast
  ultimately have "only A base (snd (m w s))" by (auto simp: only_def)
  then show "case m w s of (Inl e, s') \<Rightarrow> only A base s' | (Inr a, s') \<Rightarrow> only A base s'"
    by (cases "m w s") (simp split: sum.splits)
qed

definition allowed :: "composition \<Rightarrow> effect \<Rightarrow> bool" where
  "allowed c e \<longleftrightarrow> (if c_deletion_requested c then \<not> provisions e else \<not> removes e)"

lemma step_allowed:
  "triple w (\<lambda>s. rs_comp s = c \<and> only (allowed c) base s) step
     (\<lambda>_. only (allowed c) base) (\<lambda>_. only (allowed c) base)"
proof (cases "c_deletion_requested c")
  case True
  then have "emits (allowed c) destroy" using emits_mono[OF emits_destroy] by (simp add: allowed_def)
  then have "triple w (only (allowed c) base) destroy (\<lambda>_. only (allowed c) base) (\<lambda>_. only (allowed c) base)"
    by (rule emits_only)
  with True show ?thesis by (auto simp: triple_def step_def rx_bind_def rx_comp_def)
next
  case False
  then have "emits (allowed c) step_provision" using emits_mono[OF emits_provision] by (simp add: allowed_def)
  then have "triple w (only (allowed c) base) step_provision (\<lambda>_. only (allowed c) base) (\<lambda>_. only (allowed c) base)"
    by (rule emits_only)
  with False show ?thesis by (auto simp: triple_def step_def rx_bind_def rx_comp_def)
qed

text \<open>
  C28: Provisioning and destroying never mix. A reconciliation of a composition whose deletion was
  requested makes no call that creates, observes or verifies anything; a reconciliation of any
  other composition never deletes a namespace or a subscription.
\<close>

theorem provision_xor_destroy:
  "\<exists>new. rs_log (snd (reconcile event w s)) = new @ rs_log s \<and> list_all (allowed (rs_comp s)) new"
proof -
  let ?c = "rs_comp s" and ?P = "\<lambda>t. rs_comp t = rs_comp s \<and> only (allowed (rs_comp s)) (rs_log s) t"
  have same: "triple w ?P m (\<lambda>_. ?P) (\<lambda>_. only (allowed ?c) (rs_log s))"
    if "emits (allowed ?c) m" "\<And>w t. rs_comp (snd (m w t)) = rs_comp t" for m :: "'a rx"
  proof (unfold triple_def, intro allI impI)
    fix t assume "?P t"
    then have "only (allowed ?c) (rs_log s) (snd (m w t))"
      using triple_any[OF emits_only[OF that(1)]] by blast
    with \<open>?P t\<close> that(2) show "case m w t of (Inl e, s') \<Rightarrow> only (allowed ?c) (rs_log s) s' | (Inr a, s') \<Rightarrow> ?P s'"
      by (metis (mono_tags, lifting) old.prod.case prod.collapse sum.case_eq_if)
  qed
  have after: "triple w (only (allowed ?c) (rs_log s)) (after_step event err)
      (\<lambda>_. only (allowed ?c) (rs_log s)) (\<lambda>_. only (allowed ?c) (rs_log s))" for err
    by (intro emits_only emits_mono[OF emits_after_step]) (simp add: routine_def allowed_def)
  have guard: "rs_comp (snd (rx_do_as l E_Guard w_guard w t)) = rs_comp t" for l w t
    by (simp add: rx_defs split: option.splits)
  have "triple w ?P (reconcile event) (\<lambda>_. only (allowed ?c) (rs_log s)) (\<lambda>_. only (allowed ?c) (rs_log s))"
    unfolding reconcile_def
    by (intro triple_bind[OF same] triple_seq[OF same] triple_if triple_return
        triple_bind[OF triple_catch[OF step_allowed]] after emit_rules)
      (auto simp: guard rx_defs allowed_def split: option.splits)
  from triple_any[OF this, of s] show ?thesis by (simp add: only_def)
qed

end
