(* ===== verification/Job_Identity.thy ===== *)
theory Job_Identity
  imports Reconciler_Props
begin

text \<open>
  The identity of a finite workload is durable before the provider can create it: an execution
  that is handed to the runtime was read from the store or saved in this reconciliation first.
\<close>

definition executions :: "composition \<Rightarrow> execution_ref gomap" where
  "executions c = rt_executions (c_runtime c)"

definition known :: "execution_ref gomap \<Rightarrow> string \<Rightarrow> execution_ref \<Rightarrow> bool" where
  "known recorded k x \<longleftrightarrow>
     (\<exists>e. map_of recorded k = Some e \<and> er_id e = er_id x \<and> er_spec_hash e = er_spec_hash x)"

text \<open>Known from the start, or in a save above \<open>base\<close> that the store accepted.\<close>

fun durable :: "world \<Rightarrow> trace \<Rightarrow> execution_ref gomap \<Rightarrow> string \<Rightarrow> execution_ref \<Rightarrow> trace \<Rightarrow> bool" where
  "durable w base initial k x [] = known initial k x"
| "durable w base initial k x (e # es) =
     ((case e of E_Save c \<Rightarrow> w_save w (e # es @ base) = None \<and> known (executions c) k x | _ \<Rightarrow> False) \<or>
      durable w base initial k x es)"

definition execution_current :: "workload_spec \<Rightarrow> execution_ref \<Rightarrow> bool" where
  "execution_current spec x \<longleftrightarrow> er_spec_hash x = snd (ExecutionID (ws_profile spec) (ws_image spec))"

fun ensures_durable :: "world \<Rightarrow> trace \<Rightarrow> execution_ref gomap \<Rightarrow> trace \<Rightarrow> bool" where
  "ensures_durable w base initial [] = True"
| "ensures_durable w base initial (e # es) =
     ((case e of
         E_Ensure spec \<Rightarrow>
           (case ws_execution spec of
              None \<Rightarrow> True
            | Some x \<Rightarrow> execution_current spec x \<and> durable w base initial (ws_component spec) x es)
       | _ \<Rightarrow> True) \<and>
      ensures_durable w base initial es)"

lemma durable_split:
  "durable w base initial k x new \<Longrightarrow> known initial k x \<or>
     (\<exists>newer c older. new = newer @ E_Save c # older \<and> w_save w (E_Save c # older @ base) = None \<and>
        known (executions c) k x)"
proof (induction new)
  case (Cons e es)
  then consider c where "e = E_Save c" "w_save w (e # es @ base) = None" "known (executions c) k x"
    | "durable w base initial k x es" by (auto split: effect.splits)
  then show ?case
  proof cases
    case 1
    then show ?thesis by (intro disjI2 exI[of _ "[]"] exI[of _ c] exI[of _ es]) simp
  next
    case 2
    then have "known initial k x \<or> (\<exists>newer c older. es = newer @ E_Save c # older \<and>
        w_save w (E_Save c # older @ base) = None \<and> known (executions c) k x)" by (rule Cons.IH)
    then show ?thesis by (metis append_Cons)
  qed
qed simp

lemma ensures_durable_split:
  "ensures_durable w base initial (newer @ E_Ensure spec # older) \<Longrightarrow> ws_execution spec = Some x \<Longrightarrow>
     execution_current spec x \<and> durable w base initial (ws_component spec) x older"
  by (induction newer) auto

text \<open>Every recorded execution is durable; after an error only the log matters.\<close>

definition identified where
  "identified w base initial v new \<longleftrightarrow> ensures_durable w base initial new \<and>
     (\<forall>k x. map_of v k = Some x \<longrightarrow> durable w base initial k x new)"

definition ensured where
  "ensured w base initial v new \<longleftrightarrow> ensures_durable w base initial new"

text \<open>A component whose execution was resolved.\<close>

definition resolved where
  "resolved w base initial k x v new \<longleftrightarrow> identified w base initial v new \<and> (\<forall>e. x = Some e \<longrightarrow> map_of v k = Some e)"

lemma executions_simps [simp]:
  "executions (core c) = executions c" "executions (c\<lparr>c_phase := p\<rparr>) = executions c"
  "executions (setReady c b) = executions c"
  "executions (set_execution k e c) = AList.update k e (executions c)"
  by (simp_all add: executions_def core_def setReady_def set_execution_def on_runtime_def Let_def)

interpretation identity: stable_settle w executions "since base (identified w base initial)"
    "since base (ensured w base initial)" for w base initial
  by unfold_locales
    (auto simp: identified_def ensured_def since_def elim!: ordinary.elims)

interpretation resolving: quiet w executions "since base (resolved w base initial k x)" for w base initial k x
  by unfold_locales (auto simp: resolved_def identified_def elim!: since_Cons ordinary.elims)

abbreviation identified_at :: "world \<Rightarrow> trace \<Rightarrow> execution_ref gomap \<Rightarrow> rstate \<Rightarrow> bool" where
  "identified_at w base initial \<equiv> ok executions (since base (identified w base initial))"

abbreviation ensured_at :: "world \<Rightarrow> trace \<Rightarrow> execution_ref gomap \<Rightarrow> rstate \<Rightarrow> bool" where
  "ensured_at w base initial \<equiv> ok executions (since base (ensured w base initial))"

abbreviation resolved_at where
  "resolved_at w base initial k x \<equiv> ok executions (since base (resolved w base initial k x))"

lemma identified_ensured: "identified_at w base initial s \<Longrightarrow> ensured_at w base initial s"
  by (auto simp: ok_def since_def identified_def ensured_def)

lemma resolved_identified: "resolved_at w base initial k x s \<Longrightarrow> identified_at w base initial s"
  by (auto simp: ok_def since_def resolved_def)

section \<open>One component\<close>

lemma record_fresh_resolved:
  "triple w (identified_at w base initial)
     (rx_seq (rx_modify (set_execution k x)) (rx_seq rx_save (rx_return (Some x))))
     (\<lambda>r s. r = Some x \<and> resolved_at w base initial k r s) (\<lambda>_. ensured_at w base initial)"
proof (unfold triple_def, intro allI impI)
  fix s assume "identified_at w base initial s"
  then obtain new where new: "rs_log s = new @ base" "identified w base initial (executions (rs_comp s)) new"
    by (auto simp: ok_def since_def)
  let ?c = "set_execution k x (rs_comp s)"
  have "map_of (executions ?c) k = Some x" by (simp add: update_conv')
  moreover have "identified w base initial (executions ?c) (E_Save ?c # new)"
    if "w_save w (E_Save ?c # new @ base) = None"
    using new(2) that by (auto simp: identified_def known_def split: if_splits)
  ultimately show "case rx_seq (rx_modify (set_execution k x)) (rx_seq rx_save (rx_return (Some x))) w s of
      (Inl e, s') \<Rightarrow> ensured_at w base initial s'
    | (Inr r, s') \<Rightarrow> r = Some x \<and> resolved_at w base initial k r s'"
    using new by (auto simp: rx_defs ok_def since_def resolved_def ensured_def identified_def
        split: option.splits intro!: exI[of _ "E_Save ?c # new"])
qed

lemma resolve_resolved:
  "triple w (identified_at w base initial) (resolve_execution profile k img)
     (\<lambda>x s. resolved_at w base initial k x s \<and> (\<forall>e. x = Some e \<longrightarrow> er_spec_hash e = snd (ExecutionID profile img)))
     (\<lambda>_. ensured_at w base initial)"
proof -
  have none: "resolved_at w base initial k None s" if "identified_at w base initial s" for s
    using that by (auto simp: ok_def since_def resolved_def)
  have fresh: "er_spec_hash (fresh_execution profile img g) = snd (ExecutionID profile img)" for g
    by (simp add: fresh_execution_def)
  have old: "resolved_at w base initial k (Some e) s"
    if "identified_at w base initial s" "map_of (rt_executions (c_runtime (rs_comp s))) k = Some e" for s e
    using that by (auto simp: ok_def since_def resolved_def executions_def)
  show ?thesis
  proof (cases "is_finite profile")
    case False
    then show ?thesis by (simp add: resolve_execution_def triple_return none)
  next
    case True
    show ?thesis
      unfolding resolve_execution_def Let_def using True
      by (simp, intro triple_bind[where Q = "\<lambda>c s. c = rs_comp s \<and> identified_at w base initial s"] triple_comp
          triple_option triple_if triple_fail triple_return
          triple_weaken[OF record_fresh_resolved])
        (auto simp: fresh old identified_ensured)
  qed
qed

lemma ensure_resolved:
  assumes "ws_execution spec = x" "\<And>e. x = Some e \<Longrightarrow> execution_current spec e"
  shows "triple w (resolved_at w base initial (ws_component spec) x) (ensure_workload spec)
     (\<lambda>_. resolved_at w base initial (ws_component spec) x) (\<lambda>_. ensured_at w base initial)"
proof -
  have call: "triple w (resolved_at w base initial (ws_component spec) x) (rx_call (E_Ensure spec) w_ensure)
      (\<lambda>_. resolved_at w base initial (ws_component spec) x) E" for E
    by (rule triple_call) (auto simp: ok_def resolved_def identified_def assms elim!: since_Cons split: option.splits)
  have rest: "preserving w executions (since base (resolved w base initial (ws_component spec) x))
      (since base (resolved w base initial (ws_component spec) x)) (case r of (ref, err) \<Rightarrow>
       rx_seq (rx_when (wr_namespace ref \<noteq> []) (rx_modify (on_runtime (\<lambda>rt. rt
         \<lparr>rt_workloads := AList.update (ws_component spec) ref (rt_workloads rt)\<rparr>))))
       (case err of
          Some e \<Rightarrow> rx_return ((ref, zero_workload_observation), Some e)
        | None \<Rightarrow>
            rx_bind (rx_call (E_Observe ref) w_observe) (\<lambda>(observation, err).
              rx_return ((ref, observation), err))))" for r
    by (intro keep_rules) (simp_all add: core_simps)
  show ?thesis
    unfolding ensure_workload_def
    by (rule triple_bind[OF call], rule triple_weaken[OF rest[unfolded preserving_def]])
      (auto intro: resolved_identified identified_ensured)
qed

text \<open>Recording what was observed of an execution keeps its identity.\<close>

lemma note_identified:
  "triple w (resolved_at w base initial k x)
     (rx_when (x \<noteq> None) (rx_modify (note_execution k ref observation)))
     (\<lambda>_. identified_at w base initial) E"
proof (cases x)
  case None
  then show ?thesis by (simp add: rx_when_def triple_return resolved_identified)
next
  case (Some e)
  let ?e = "e\<lparr>er_state := observed_state observation, er_runs := wo_runs observation,
      er_provider_id := provider_id ref\<rparr>"
  have same: "durable w base initial k ?e new = durable w base initial k e new" for new
    by (induction new) (auto simp: known_def split: effect.splits)
  have noted: "executions (note_execution k ref observation c) = AList.update k ?e (executions c)"
    if "map_of (executions c) k = Some e" for c
    using that unfolding note_execution_def executions_simps by (simp add: executions_def get_or_def)
  show ?thesis
    using Some by (auto simp: rx_when_def ok_def since_def resolved_def identified_def noted update_conv' same
        intro!: triple_modify)
qed

lemma step_component_identified:
  "triple w (identified_at w base initial) (step_component names k pg)
     (\<lambda>_. identified_at w base initial) (\<lambda>_. ensured_at w base initial)"
proof -
  have spec: "ws_execution (workload_spec_of c names profile k img x) = x"
    "ws_component (workload_spec_of c names profile k img x) = k"
    "ws_profile (workload_spec_of c names profile k img x) = profile"
    "ws_image (workload_spec_of c names profile k img x) = img" for c profile img x
    by (simp_all add: workload_spec_of_def Let_def)
  have ensure: "triple w (resolved_at w base initial k x)
      (ensure_workload (workload_spec_of c names profile k img x))
      (\<lambda>_. resolved_at w base initial k x) (\<lambda>_. ensured_at w base initial)"
    if "\<forall>e. x = Some e \<longrightarrow> er_spec_hash e = snd (ExecutionID profile img)" for c profile img x
    using ensure_resolved[of "workload_spec_of c names profile k img x" x w base initial] that
    by (simp add: spec execution_current_def)
  have resolve: "triple w (identified_at w base initial) (rx_bind (resolve_execution profile k img) f)
      (\<lambda>_. identified_at w base initial) (\<lambda>_. ensured_at w base initial)"
    if "\<And>x. \<forall>e. x = Some e \<longrightarrow> er_spec_hash e = snd (ExecutionID profile img) \<Longrightarrow>
          triple w (resolved_at w base initial k x) (f x)
            (\<lambda>_. identified_at w base initial) (\<lambda>_. ensured_at w base initial)"
    for profile img and f :: "execution_ref option \<Rightarrow> progress rx"
    by (rule triple_bind[OF resolve_resolved], rule triple_assume,
        rule triple_weaken[where P' = "resolved_at w base initial k x" for x], rule that) auto
  have modify: "triple w (identified_at w base initial) (rx_modify f) (\<lambda>_. identified_at w base initial) E"
    if "\<And>c. core (f c) = core c" for f E
    using identity.keep_modify[OF that] by (auto simp: preserving_def triple_def rx_modify_def)
  show ?thesis
    unfolding step_component_def Let_def
    by (intro triple_with_comp triple_option triple_if resolve triple_bind[OF ensure] triple_prod triple_prod_app triple_seq[OF note_identified] triple_seq[OF modify] triple_return triple_fail)
      (simp_all add: core_simps identified_ensured)
qed

lemma step_components_identified:
  "triple w (identified_at w base initial) (step_components names ks pg)
     (\<lambda>_. identified_at w base initial) (\<lambda>_. ensured_at w base initial)"
proof (induction ks arbitrary: pg)
  case (Cons k ks)
  show ?case unfolding step_components.simps by (rule triple_bind[OF step_component_identified Cons.IH])
qed (simp add: triple_return)

section \<open>Reconciliations\<close>

lemma identified_program:
  "preserving w executions (since base (identified w base initial)) (since base (ensured w base initial)) m \<Longrightarrow>
     triple w (identified_at w base initial) m (\<lambda>_. ensured_at w base initial) (\<lambda>_. ensured_at w base initial)"
  unfolding preserving_def by (erule triple_weaken) (auto intro: identified_ensured)

lemma step_ensured:
  "triple w (identified_at w base initial) step (\<lambda>_. ensured_at w base initial) (\<lambda>_. ensured_at w base initial)"
proof -
  have keep: "triple w (identified_at w base initial) m (\<lambda>_. identified_at w base initial)
      (\<lambda>_. ensured_at w base initial)"
    if "preserving w executions (since base (identified w base initial)) (since base (ensured w base initial)) m"
    for m :: "'a rx"
    using that by (simp add: preserving_def)
  have fails: "triple w (identified_at w base initial) (rx_fail e) Q (\<lambda>_. ensured_at w base initial)"
    for e and Q :: "unit \<Rightarrow> rstate \<Rightarrow> bool"
    by (rule triple_fail) (rule identified_ensured)
  have prepared: "triple w (identified_at w base initial) (step_prepared c)
      (\<lambda>_. ensured_at w base initial) (\<lambda>_. ensured_at w base initial)" for c
    unfolding step_prepared_def
    by (intro triple_if fails triple_seq[OF keep] triple_bind[OF step_components_identified]
        identified_program keep_rules) (simp_all add: core_simps)
  show ?thesis
    unfolding step_def step_provision_def
    by (intro triple_with_comp triple_if identified_program identity.keep_destroy
        triple_seq[OF keep] prepared) (rule identity.keep_begin)
qed

text \<open>After an error nothing is created any more.\<close>

interpretation ensuring: stable_settle w c_id "since base (ensured w base initial)"
    "since base (ensured w base initial)" for w base initial
  by unfold_locales (auto simp: ensured_def core_def setReady_def Let_def since_def elim!: ordinary.elims)

lemma reconcile_ensured:
  "ensures_durable w base initial new \<Longrightarrow> rs_log s = new @ base \<Longrightarrow>
   (\<And>k x. map_of (executions (rs_comp s)) k = Some x \<Longrightarrow> durable w base initial k x new) \<Longrightarrow>
   \<exists>new'. rs_log (snd (reconcile event w s)) = new' @ base \<and> ensures_durable w base initial new'"
proof -
  assume "ensures_durable w base initial new" "rs_log s = new @ base"
    "\<And>k x. map_of (executions (rs_comp s)) k = Some x \<Longrightarrow> durable w base initial k x new"
  then have start: "identified_at w base initial s" by (auto simp: ok_def since_def identified_def)
  have after: "triple w (ensured_at w base initial) (after_step event err)
      (\<lambda>_. ensured_at w base initial) (\<lambda>_. ensured_at w base initial)" for err
    using ensuring.keep_after_step by (auto simp: preserving_def ok_def ensured_def since_def triple_def split: sum.splits)
  have keep: "triple w (identified_at w base initial) m (\<lambda>_. identified_at w base initial)
      (\<lambda>_. ensured_at w base initial)"
    if "preserving w executions (since base (identified w base initial)) (since base (ensured w base initial)) m"
    for m :: "'a rx"
    using that by (simp add: preserving_def)
  have "triple w (identified_at w base initial) (reconcile event)
      (\<lambda>_. ensured_at w base initial) (\<lambda>_. ensured_at w base initial)"
    unfolding reconcile_def
    by (intro triple_bind[OF keep[OF keep_reads]] triple_seq[OF keep] triple_if triple_return keep_rules
        triple_bind[OF triple_catch[OF step_ensured]] after)
      (simp_all add: identified_ensured)
  from triple_any[OF this start] show ?thesis by (auto simp: ok_def since_def ensured_def)
qed

text \<open>
  C8: A job's identity is durable before the job can exist. Whenever a reconciliation asks the
  runtime for a finite workload, the execution it hands over has the hash of the profile and
  image it runs, and it was already recorded under the same identifier and hash: in the
  composition it started from, or by a save earlier in this reconciliation that the store
  accepted. A crash after the call can therefore never orphan or duplicate a job.
\<close>

theorem job_identity_durable:
  assumes "rs_log (snd (reconcile event w s)) = newer @ E_Ensure spec # older @ rs_log s"
    and "ws_execution spec = Some x"
  shows "execution_current spec x \<and>
    (known (executions (rs_comp s)) (ws_component spec) x \<or>
     (\<exists>later c earlier. older = later @ E_Save c # earlier \<and>
        w_save w (E_Save c # earlier @ rs_log s) = None \<and> known (executions c) (ws_component spec) x))"
proof -
  have "durable w (rs_log s) (executions (rs_comp s)) k y []"
    if "map_of (executions (rs_comp s)) k = Some y" for k y
    using that by (simp add: known_def)
  from reconcile_ensured[of w "rs_log s" "executions (rs_comp s)" "[]" s event, OF _ _ this]
  have "ensures_durable w (rs_log s) (executions (rs_comp s)) (newer @ E_Ensure spec # older)"
    using assms(1) by auto
  from ensures_durable_split[OF this assms(2)] show ?thesis using durable_split by blast
qed

text \<open>A composition that runs one job.\<close>

definition report_profile :: component where
  "report_profile = zero_component\<lparr>cp_id := ''report'',
     cp_execution := Some \<lparr>x_kind = WorkloadJob, x_dependencies = [], x_timeout = ''1m'', x_retry_limit = 0,
       x_schedule = [], x_max_runs = 0, x_concurrency_policy = []\<rparr>\<rparr>"

definition report_composition :: composition where
  "report_composition = zero_composition
     \<lparr>c_id := ''c1'', c_generation := 1,
      c_overrides := [(''report'', zero_override\<lparr>o_image := ''img''\<rparr>)],
      c_runtime := zero_runtime\<lparr>rt_plan := Some (zero_plan
        \<lparr>rp_baseline := zero_baseline\<lparr>b_verification := (b_verification zero_baseline)\<lparr>vc_kind := ''none''\<rparr>\<rparr>,
         rp_components := [(''report'', report_profile)]\<rparr>)\<rparr>\<rparr>"

interpretation growing: stable_all w c_id "since base (\<lambda>_ _. True)" "since base (\<lambda>_ _. True)" for w base
  by unfold_locales (auto simp: since_def core_def setReady_def set_execution_def on_runtime_def Let_def)

lemma log_grows:
  assumes "\<And>base. preserving w c_id (since base (\<lambda>_ _. True)) (since base (\<lambda>_ _. True)) m"
  shows "\<exists>new. rs_log (snd (m w s)) = new @ rs_log s"
proof -
  have "ok c_id (since (rs_log s) (\<lambda>_ _. True)) s" by (simp add: ok_def since_def)
  from triple_any[OF assms[unfolded preserving_def] this] show ?thesis by (simp add: ok_def since_def)
qed

lemma fresh_job:
  assumes "map_of (Profiles (plan_or_zero (rs_comp s))) k = Some profile" "cp_id profile = k" "is_finite profile"
    and "map_of (executions (rs_comp s)) k = None"
  shows "\<exists>spec x c pg' s' ref. step_component names k pg calm_world s = (Inr pg', s') \<and>
    rs_log s' = E_Observe ref # E_Ensure spec # E_Save c # rs_log s \<and> ws_execution spec = Some x \<and>
    ws_component spec = k"
  using assms
  by (simp add: step_component_def rx_defs resolve_execution_def ensure_workload_def workload_spec_of_def
      calm_world_def executions_def Let_def)

lemma job_step:
  assumes "rt_plan (c_runtime c) = Some plan" "c_runtime c = c_runtime c0" "c_overrides c = c_overrides c0"
    "vc_kind (b_verification (rp_baseline plan)) = ''none''" "\<not> c_message_isolation c"
    "OverrideNames (c_overrides c) = [k]" "map_of (Profiles plan) k = Some profile" "cp_id profile = k"
    "is_finite profile" "executions c = []" "rs_comp s = c"
  shows "\<exists>newer spec x sv. rs_log (snd (step_prepared c0 calm_world s)) = newer @ E_Ensure spec # E_Save sv # rs_log s \<and>
    ws_execution spec = Some x \<and> ws_component spec = k"
proof -
  let ?s = "s\<lparr>rs_comp := c\<lparr>c_conditions := initial_conditions\<rparr>\<rparr>"
  have same: "plan_or_zero (c\<lparr>c_conditions := x\<rparr>) = plan" "executions (c\<lparr>c_conditions := x\<rparr>) = []" for x
    using assms(1,10) by (simp_all add: plan_or_zero_def executions_def)
  obtain spec x sv pg' s' ref where component:
    "step_component [k] k (initial_progress c0) calm_world ?s = (Inr pg', s')"
    "rs_log s' = E_Observe ref # E_Ensure spec # E_Save sv # rs_log ?s"
    "ws_execution spec = Some x" "ws_component spec = k"
    using fresh_job[of ?s k profile "[k]" "initial_progress c0"] assms(7-9) same by auto
  have outcome: "\<exists>new. rs_log (snd (step_outcome t pg' calm_world s')) = new @ rs_log s'" for t
    by (rule log_grows) (rule growing.keep_step_outcome)
  have "step_prepared c0 calm_world s = step_outcome (provision_started c0) pg' calm_world s'"
    using assms component(1)
    by (simp add: plan_or_zero_def step_prepared_def rx_defs observeBaseline_def step_messaging_def MaxOverrides_def same)
  with outcome[of "provision_started c0"] component show ?thesis by fastforce
qed

lemma report_run:
  "\<exists>newer spec x c. rs_log (snd (reconcile False calm_world (start report_composition))) =
     newer @ E_Ensure spec # [E_Save c, E_Guard] @ rs_log (start report_composition) \<and>
     ws_execution spec = Some x \<and> ws_component spec = ''report''"
proof -
  let ?c = "begin_step report_composition"
  let ?s = "\<lparr>rs_comp = ?c, rs_log = [E_Guard], rs_reads = 1, rs_cycle = None\<rparr>"
  have finite: "is_finite report_profile" "cp_id report_profile = ''report''"
    by (simp_all add: report_profile_def is_finite_def WorkloadKind_def)
  define plan where "plan = plan_or_zero report_composition"
  have plan: "rt_plan (c_runtime report_composition) = Some plan"
    "vc_kind (b_verification (rp_baseline plan)) = ''none''"
    "map_of (Profiles plan) ''report'' = Some report_profile"
    by (simp_all add: plan_def report_composition_def plan_or_zero_def Profiles_def map_len_def)
  have begun: "c_runtime ?c = c_runtime report_composition" "c_overrides ?c = c_overrides report_composition"
    "c_message_isolation ?c = c_message_isolation report_composition"
    by (simp_all add: begin_step_def setReady_def on_operation_def Let_def)
  have names: "OverrideNames (c_overrides report_composition) = [''report'']" "executions report_composition = []"
    "\<not> c_message_isolation report_composition" "\<not> c_deletion_requested report_composition"
    "rt_next_attempt_at (c_runtime report_composition) = 0"
    by (simp_all add: report_composition_def OverrideNames_def sorted_keys_def executions_def
        zero_composition_def zero_runtime_def)
  let ?step = "step_prepared report_composition calm_world ?s"
  obtain newer spec x sv where step: "rs_log (snd ?step) = newer @ E_Ensure spec # E_Save sv # rs_log ?s"
      "ws_execution spec = Some x" "ws_component spec = ''report''"
    using job_step[of ?c plan report_composition "''report''" report_profile ?s] plan names finite
    by (auto simp: begun executions_def)
  let ?err = "case fst ?step of Inl e \<Rightarrow> Some e | Inr _ \<Rightarrow> None"
  have "step calm_world (start report_composition\<lparr>rs_log := [E_Guard], rs_reads := 1\<rparr>) = ?step"
    using names by (simp add: step_def step_provision_def rx_defs start_def)
  then have "reconcile False calm_world (start report_composition) = after_step False ?err calm_world (snd ?step)"
    using names by (simp add: reconcile_def rx_bind_def rx_ask_def rx_seq_def rx_require_def rx_comp_def
        rx_now_def rx_return_def rx_do_as_def rx_call_def due_def start_def calm_world_def catch_outcome)
  moreover obtain new where "rs_log (snd (after_step False ?err calm_world (snd ?step))) = new @ rs_log (snd ?step)"
    using log_grows[OF growing.keep_after_step] by blast
  ultimately have "rs_log (snd (reconcile False calm_world (start report_composition))) =
      (new @ newer) @ E_Ensure spec # [E_Save sv, E_Guard] @ rs_log (start report_composition)"
    using step(1) by (simp add: start_def)
  with step(2,3) show ?thesis by blast
qed

theorem job_identity_durable_witness:
  "\<exists>spec x c. execution_current spec x \<and> ws_component spec = ''report'' \<and>
     w_save calm_world [E_Save c, E_Guard] = None \<and> known (executions c) ''report'' x"
proof -
  obtain newer spec x c where run: "rs_log (snd (reconcile False calm_world (start report_composition))) =
      newer @ E_Ensure spec # [E_Save c, E_Guard] @ rs_log (start report_composition)"
    "ws_execution spec = Some x" "ws_component spec = ''report''"
    using report_run by blast
  have "\<not> known (executions report_composition) ''report'' x"
    by (simp add: known_def executions_def report_composition_def zero_runtime_def)
  then have "execution_current spec x \<and> (\<exists>later c' earlier. [E_Save c, E_Guard] = later @ E_Save c' # earlier \<and>
      w_save calm_world (E_Save c' # earlier) = None \<and> known (executions c') ''report'' x)"
    using job_identity_durable[OF run(1,2)] run(3) by (simp add: start_def)
  then show ?thesis using run(3) by (auto simp: Cons_eq_append_conv)
qed

end
