(* ===== verification/Teardown.thy ===== *)
theory Teardown
  imports Footprint Job_Identity Routes_Props
begin

text \<open>
  Teardown: the order in which \<open>destroy\<close> makes its calls, and what a composition that is saved as
  destroyed has been confirmed to have lost.
\<close>

section \<open>The order of destroying\<close>

text \<open>
  Everything below is about the composition \<open>c\<close> the reconciliation started with: its own host, its
  own row and its own namespace. The ingress was seen to no longer know the host of \<open>c\<close>, in the
  part of the log above \<open>base\<close>.
\<close>

fun host_absent :: "world \<Rightarrow> trace \<Rightarrow> composition \<Rightarrow> trace \<Rightarrow> bool" where
  "host_absent w base c [] = False"
| "host_absent w base c (e # es) =
     ((case e of
         E_Host_Absent host \<Rightarrow> endpointHost c = Inr host \<and> w_host_absent w (e # es @ base) = None
       | _ \<Rightarrow> False) \<or>
      host_absent w base c es)"

definition drained :: "world \<Rightarrow> composition \<Rightarrow> bool" where
  "drained w c \<longleftrightarrow> (\<exists>until n. rt_drain_until (c_runtime c) = Some until \<and> until \<le> w_now w n)"

text \<open>What the destruction of \<open>c\<close> keeps of its composition.\<close>

definition kept :: "composition \<Rightarrow> composition \<Rightarrow> bool" where
  "kept c c' \<longleftrightarrow> c_id c' = c_id c \<and> rt_ownership_token (c_runtime c') = rt_ownership_token (c_runtime c)"

text \<open>The removal of the routes was stored, after the host was absent and the drain over.\<close>

fun withdrawn :: "world \<Rightarrow> trace \<Rightarrow> composition \<Rightarrow> trace \<Rightarrow> bool" where
  "withdrawn w base c [] = False"
| "withdrawn w base c (e # es) =
     ((case e of
         E_Save c' \<Rightarrow> w_save w (e # es @ base) = None \<and> kept c c' \<and> rt_routes_removed (c_runtime c') \<and>
           drained w c' \<and> host_absent w base c es
       | _ \<Rightarrow> False) \<or>
      withdrawn w base c es)"

definition routed_before :: "composition \<Rightarrow> bool" where
  "routed_before c \<longleftrightarrow> rt_routing_active (c_runtime c) \<and> \<not> rt_routes_removed (c_runtime c)"

definition own_ref :: "composition \<Rightarrow> workload_ref \<Rightarrow> bool" where
  "own_ref c ref \<longleftrightarrow> wr_namespace ref = NamespaceForID (c_id c) \<and>
     wr_ownership_token ref = rt_ownership_token (c_runtime c)"

fun deletes_ordered :: "world \<Rightarrow> trace \<Rightarrow> composition \<Rightarrow> trace \<Rightarrow> bool" where
  "deletes_ordered w base c [] = True"
| "deletes_ordered w base c (e # es) =
     ((case e of
         E_Delete ref \<Rightarrow> own_ref c ref \<and> (routed_before c \<longrightarrow> withdrawn w base c es)
       | _ \<Rightarrow> True) \<and>
      deletes_ordered w base c es)"

lemma deletes_ordered_append:
  "deletes_ordered w base c es \<Longrightarrow> list_all (\<lambda>e. \<forall>ref. e \<noteq> E_Delete ref) new \<Longrightarrow> deletes_ordered w base c (new @ es)"
  by (induction new) (auto split: effect.splits)

lemma withdrawn_append: "withdrawn w base c es \<Longrightarrow> withdrawn w base c (new @ es)"
  by (induction new) (auto split: effect.splits)

lemma agree_own: "agree_on_namespace refs ref = Some ref' \<Longrightarrow>
    wr_namespace ref' = wr_namespace ref \<and> wr_ownership_token ref' = wr_ownership_token ref"
  by (induction refs ref rule: agree_on_namespace.induct) (auto split: if_splits)

lemma owned_own: "owned_namespace c = Some ref \<Longrightarrow> own_ref c ref"
  unfolding owned_namespace_def Let_def own_ref_def by (drule agree_own) simp

text \<open>What the destruction of \<open>c\<close> keeps until the routes are gone, and what it needs of the log.\<close>

definition routes_kept :: "composition \<Rightarrow> composition \<Rightarrow> bool" where
  "routes_kept c c' \<longleftrightarrow> kept c c' \<and> endpointHost c' = endpointHost c \<and>
     rt_routing_active (c_runtime c') = rt_routing_active (c_runtime c) \<and>
     rt_routes_removed (c_runtime c') = rt_routes_removed (c_runtime c)"

lemma endpointHost_kept:
  "endpointHost (setReady c b) = endpointHost c" "endpointHost (on_operation f c) = endpointHost c"
  "endpointHost (on_runtime g c) = endpointHost c" "endpointHost (c\<lparr>c_phase := p\<rparr>) = endpointHost c"
proof -
  have "ep_url (get_or zero_endpoint (map (\<lambda>(k, e). (k, e\<lparr>ep_ready := r\<rparr>)) es) k) =
      ep_url (get_or zero_endpoint es k)" for es k r
    by (induction es) (auto simp: get_or_def)
  then show "endpointHost (setReady c b) = endpointHost c"
    by (simp add: endpointHost_def setReady_def Let_def)
qed (simp_all add: endpointHost_def on_operation_def on_runtime_def Let_def)

definition before_delete :: "world \<Rightarrow> trace \<Rightarrow> composition \<Rightarrow> (composition \<Rightarrow> bool) \<Rightarrow> (trace \<Rightarrow> bool) \<Rightarrow> rstate \<Rightarrow> bool" where
  "before_delete w base c fits seen s \<longleftrightarrow>
     (\<exists>new. rs_log s = new @ base \<and> deletes_ordered w base c new \<and> fits (rs_comp s) \<and> seen new)"

abbreviation ordered_at :: "world \<Rightarrow> trace \<Rightarrow> composition \<Rightarrow> rstate \<Rightarrow> bool" where
  "ordered_at w base c \<equiv> before_delete w base c (\<lambda>_. True) (\<lambda>_. True)"

definition deletes_nothing :: "effect \<Rightarrow> bool" where
  "deletes_nothing e \<longleftrightarrow> (\<forall>ref. e \<noteq> E_Delete ref)"

lemma before_delete_ordered: "before_delete w base c fits seen s \<Longrightarrow> ordered_at w base c s"
  by (auto simp: before_delete_def)

text \<open>A program that neither deletes nor changes the composition.\<close>

lemma undeleting:
  assumes "emits deletes_nothing m" "\<And>w t. rs_comp (snd (m w t)) = rs_comp t"
    and "\<And>new es. seen es \<Longrightarrow> seen (new @ es)"
  shows "triple w (before_delete w base c fits seen) m (\<lambda>_. before_delete w base c fits seen)
    (\<lambda>_. ordered_at w base c)"
proof (unfold triple_def, intro allI impI)
  fix t assume "before_delete w base c fits seen t"
  then obtain es where es: "rs_log t = es @ base" "deletes_ordered w base c es" "fits (rs_comp t)" "seen es"
    by (auto simp: before_delete_def)
  obtain new where new: "rs_log (snd (m w t)) = new @ rs_log t" "list_all deletes_nothing new"
    using assms(1) unfolding emits_def by blast
  have "deletes_ordered w base c (new @ es)"
    using deletes_ordered_append[OF es(2)] new(2) by (simp add: deletes_nothing_def[abs_def])
  then have "before_delete w base c fits seen (snd (m w t))"
    using es new(1) assms(2,3) by (auto simp: before_delete_def intro!: exI[of _ "new @ es"])
  then show "case m w t of (Inl e, s') \<Rightarrow> ordered_at w base c s'
      | (Inr a, s') \<Rightarrow> before_delete w base c fits seen s'"
    by (cases "m w t") (auto split: sum.splits intro: before_delete_ordered)
qed

text \<open>A program that does not delete any more.\<close>

lemma done_deleting:
  "emits deletes_nothing m \<Longrightarrow> triple w (before_delete w base c fits seen) m (\<lambda>_. ordered_at w base c)
    (\<lambda>_. ordered_at w base c)"
proof (unfold triple_def, intro allI impI)
  fix t assume m: "emits deletes_nothing m" and "before_delete w base c fits seen t"
  then obtain es where es: "rs_log t = es @ base" "deletes_ordered w base c es"
    by (auto simp: before_delete_def)
  obtain new where new: "rs_log (snd (m w t)) = new @ rs_log t" "list_all deletes_nothing new"
    using m unfolding emits_def by blast
  have "deletes_ordered w base c (new @ es)"
    using deletes_ordered_append[OF es(2)] new(2) by (simp add: deletes_nothing_def[abs_def])
  then have "ordered_at w base c (snd (m w t))"
    using es new(1) by (auto simp: before_delete_def intro!: exI[of _ "new @ es"])
  then show "case m w t of (Inl e, s') \<Rightarrow> ordered_at w base c s' | (Inr a, s') \<Rightarrow> ordered_at w base c s'"
    by (cases "m w t") (auto split: sum.splits)
qed

lemma syncRoutes_same: "rs_comp (snd (syncRoutes w t)) = rs_comp t"
  by (auto simp: syncRoutes_def rx_defs split: option.splits sum.splits prod.splits if_splits)

lemma syncRoutes_undeleting: "emits deletes_nothing syncRoutes"
  by (rule emits_mono[OF emits_syncRoutes]) (auto simp: routine_def deletes_nothing_def)

text \<open>\<open>destroy_routes\<close> lets the workloads go only when the routes are gone.\<close>

lemma host_seen:
  "triple w (\<lambda>s. rs_comp s = c' \<and> before_delete w base c fits seen s) (rx_do (E_Host_Absent host) w_host_absent)
     (\<lambda>_. before_delete w base c (\<lambda>x. x = c' \<and> fits x) (host_absent w base c)) (\<lambda>_. ordered_at w base c)"
  if "\<And>x. fits x \<Longrightarrow> endpointHost x = endpointHost c" "endpointHost c' = Inr host"
proof (unfold triple_def, intro allI impI)
  fix s assume "rs_comp s = c' \<and> before_delete w base c fits seen s"
  then obtain es where "rs_log s = es @ base" "deletes_ordered w base c es" "fits (rs_comp s)" "rs_comp s = c'"
    by (auto simp: before_delete_def)
  with that show "case rx_do (E_Host_Absent host) w_host_absent w s of
      (Inl e, s') \<Rightarrow> ordered_at w base c s'
    | (Inr a, s') \<Rightarrow> before_delete w base c (\<lambda>x. x = c' \<and> fits x) (host_absent w base c) s'"
    by (auto simp: rx_defs before_delete_def split: option.splits intro!: exI[of _ "E_Host_Absent host # es"])
qed

lemma removal_saved:
  assumes "rt_drain_until (c_runtime c') = Some until" "until \<le> w_now w n"
  shows "triple w (before_delete w base c (\<lambda>x. x = c' \<and> routes_kept c x) (host_absent w base c))
     (rx_seq (rx_modify (on_runtime (\<lambda>rt. rt\<lparr>rt_routes_removed := True\<rparr>))) rx_save)
     (\<lambda>_. before_delete w base c (kept c) (withdrawn w base c)) (\<lambda>_. ordered_at w base c)"
proof (unfold triple_def, intro allI impI)
  fix s assume "before_delete w base c (\<lambda>x. x = c' \<and> routes_kept c x) (host_absent w base c) s"
  then obtain es where es: "rs_log s = es @ base" "deletes_ordered w base c es" "rs_comp s = c'"
      "routes_kept c c'" "host_absent w base c es"
    by (auto simp: before_delete_def)
  let ?c = "on_runtime (\<lambda>rt. rt\<lparr>rt_routes_removed := True\<rparr>) c'"
  have "drained w ?c" "kept c ?c"
    using assms es(4) by (auto simp: drained_def on_runtime_def kept_def routes_kept_def)
  with es show "case rx_seq (rx_modify (on_runtime (\<lambda>rt. rt\<lparr>rt_routes_removed := True\<rparr>))) rx_save w s of
      (Inl e, s') \<Rightarrow> ordered_at w base c s'
    | (Inr a, s') \<Rightarrow> before_delete w base c (kept c) (withdrawn w base c) s'"
    by (auto simp: rx_defs before_delete_def on_runtime_def split: option.splits intro!: exI[of _ "E_Save ?c # es"])
qed

lemma triple_with_now:
  "(\<And>n. triple w P (f (w_now w n)) Q E) \<Longrightarrow> (\<And>s n. P s \<Longrightarrow> P (s\<lparr>rs_reads := n\<rparr>)) \<Longrightarrow>
     triple w P (rx_bind rx_now f) Q E"
  by (auto simp: triple_def rx_bind_def rx_now_def)

lemma before_delete_reads [simp]: "before_delete w base c fits seen (s\<lparr>rs_reads := n\<rparr>) = before_delete w base c fits seen s"
  by (simp add: before_delete_def)

lemma destroy_routes_ordered:
  "triple w (before_delete w base c (routes_kept c) (\<lambda>_. True)) destroy_routes
     (\<lambda>gone. if gone then before_delete w base c (kept c) (\<lambda>new. routed_before c \<longrightarrow> withdrawn w base c new)
             else ordered_at w base c)
     (\<lambda>_. ordered_at w base c)"
  (is "triple w ?P destroy_routes ?Q ?E")
proof -
  have rest: "triple w (before_delete w base c (\<lambda>x. x = c' \<and> routes_kept c x) (host_absent w base c))
     (case rt_drain_until (c_runtime c') of
        None \<Rightarrow>
          rx_bind rx_now (\<lambda>now. rx_bind (rx_config w_drain_timeout) (\<lambda>timeout.
          rx_seq (rx_modify (\<lambda>c. on_runtime (\<lambda>rt. rt\<lparr>rt_drain_until := Some (now + timeout)\<rparr>)
            (c\<lparr>c_last_error := None\<rparr>))) (rx_return False)))
      | Some until \<Rightarrow>
          rx_bind rx_now (\<lambda>now.
            if now < until then rx_return False
            else
              rx_seq (rx_modify (on_runtime (\<lambda>rt. rt\<lparr>rt_routes_removed := True\<rparr>)))
              (rx_seq rx_save (rx_seq syncRoutes (rx_return True))))) ?Q ?E" (is "triple w ?H ?m ?Q ?E") for c'
  proof (cases "rt_drain_until (c_runtime c')")
    case None
    then show ?thesis
      by (auto simp: triple_def rx_defs before_delete_def)
  next
    case (Some until)
    have tail: "triple w (before_delete w base c (kept c) (withdrawn w base c)) (rx_seq syncRoutes (rx_return True)) ?Q ?E"
      by (rule triple_seq[OF undeleting[where seen = "withdrawn w base c", OF syncRoutes_undeleting syncRoutes_same withdrawn_append]])
        (auto intro!: triple_return simp: before_delete_def)
    have assoc: "rx_seq a (rx_seq b d) = rx_seq (rx_seq a b) d" for a b and d :: "bool rx"
      by (auto simp: rx_seq_def rx_bind_def fun_eq_iff split: prod.splits sum.splits)
    have "triple w ?H (if w_now w n < until then rx_return False
            else
              rx_seq (rx_modify (on_runtime (\<lambda>rt. rt\<lparr>rt_routes_removed := True\<rparr>)))
              (rx_seq rx_save (rx_seq syncRoutes (rx_return True)))) ?Q ?E" for n
    proof (rule triple_if)
      show "triple w ?H (rx_return False) ?Q ?E"
        by (rule triple_return) (simp add: before_delete_ordered)
    next
      assume "\<not> w_now w n < until"
      then show "triple w ?H (rx_seq (rx_modify (on_runtime (\<lambda>rt. rt\<lparr>rt_routes_removed := True\<rparr>)))
          (rx_seq rx_save (rx_seq syncRoutes (rx_return True)))) ?Q ?E"
        by (subst assoc, intro triple_seq[OF removal_saved[OF Some, of _ n]] tail) simp
    qed
    with Some show ?thesis by (simp add: triple_with_now)
  qed
  have idle: "?Q True s" if "?P s" "\<not> routed_before (rs_comp s)" for s
    using that by (auto simp: before_delete_def routes_kept_def routed_before_def)
  have main: "triple w (\<lambda>s. rs_comp s = c' \<and> ?P s) (case endpointHost c' of Inl e \<Rightarrow> rx_fail e
      | Inr host \<Rightarrow> rx_seq (rx_do (E_Host_Absent host) w_host_absent) (m' :: bool rx)) ?Q ?E"
    if "triple w (before_delete w base c (\<lambda>x. x = c' \<and> routes_kept c x) (host_absent w base c)) m' ?Q ?E" for c' m'
    by (intro triple_sum triple_fail triple_seq[OF host_seen] that) (auto intro: before_delete_ordered simp: routes_kept_def)
  show ?thesis
    unfolding destroy_routes_def
  proof (rule triple_bind[OF triple_comp[where Q = "\<lambda>c' s. rs_comp s = c' \<and> ?P s"]], simp, rule triple_if)
    show "triple w (\<lambda>s. rs_comp s = c' \<and> ?P s) (rx_return True) ?Q ?E"
      if "\<not> (rt_routing_active (c_runtime c') \<and> \<not> rt_routes_removed (c_runtime c'))" for c'
      using that idle by (intro triple_return) (auto simp: routed_before_def)
    show "triple w (\<lambda>s. rs_comp s = c' \<and> ?P s) (case endpointHost c' of
          Inl e \<Rightarrow> rx_fail e
        | Inr host \<Rightarrow>
           rx_seq (rx_do (E_Host_Absent host) w_host_absent)
           (case rt_drain_until (c_runtime c') of
              None \<Rightarrow>
                rx_bind rx_now (\<lambda>now. rx_bind (rx_config w_drain_timeout) (\<lambda>timeout.
                rx_seq (rx_modify (\<lambda>c. on_runtime (\<lambda>rt. rt\<lparr>rt_drain_until := Some (now + timeout)\<rparr>)
                  (c\<lparr>c_last_error := None\<rparr>))) (rx_return False)))
            | Some until \<Rightarrow>
                rx_bind rx_now (\<lambda>now.
                  if now < until then rx_return False
                  else
                    rx_seq (rx_modify (on_runtime (\<lambda>rt. rt\<lparr>rt_routes_removed := True\<rparr>)))
                    (rx_seq rx_save (rx_seq syncRoutes (rx_return True)))))) ?Q ?E" for c'
      by (rule main) (rule rest)
  qed
qed

lemma own_delete:
  assumes "owned_namespace c' = Some ref" "kept c c'"
  shows "own_ref c ref"
  using owned_own[OF assms(1)] assms(2) by (simp add: own_ref_def kept_def)

lemma destroy_workloads_ordered:
  "triple w (before_delete w base c (kept c) (\<lambda>new. routed_before c \<longrightarrow> withdrawn w base c new)) destroy_workloads
     (\<lambda>_. ordered_at w base c) (\<lambda>_. ordered_at w base c)"
  (is "triple w ?P destroy_workloads _ _")
proof -
  have delete: "triple w (\<lambda>s. rs_comp s = c' \<and> ?P s) (rx_do_as l (E_Delete ref) w_delete) (\<lambda>_. ordered_at w base c)
      (\<lambda>_. ordered_at w base c)" if "owned_namespace c' = Some ref" for c' ref l
  proof (unfold triple_def, intro allI impI)
    fix s assume s: "rs_comp s = c' \<and> ?P s"
    then obtain es where es: "rs_log s = es @ base" "deletes_ordered w base c es" "kept c c'"
        "routed_before c \<longrightarrow> withdrawn w base c es"
      by (auto simp: before_delete_def)
    then have "deletes_ordered w base c (E_Delete ref # es)" using own_delete[OF that] by simp
    with es(1) show "case rx_do_as l (E_Delete ref) w_delete w s of (Inl e, s') \<Rightarrow> ordered_at w base c s'
        | (Inr a, s') \<Rightarrow> ordered_at w base c s'"
      by (auto simp: rx_defs before_delete_def split: option.splits intro!: exI[of _ "E_Delete ref # es"])
  qed
  have absent: "emits deletes_nothing (rx_bind (rx_call (E_Absent ref) w_absent) (\<lambda>(absent, err).
      case err of
        Some e \<Rightarrow> rx_fail (Wrapped ''confirm workload cleanup: '' e)
      | None \<Rightarrow>
          if \<not> absent then
            rx_bind rx_now (\<lambda>now. rx_bind (rx_config w_interval) (\<lambda>interval.
              rx_modify (on_runtime (\<lambda>rt. rt\<lparr>rt_next_attempt_at := now + interval\<rparr>))))
          else destroy_messaging))" for ref
    unfolding destroy_messaging_def by (intro emit_rules) (simp_all add: deletes_nothing_def)
  show ?thesis
    unfolding destroy_workloads_def
    by (rule triple_bind[OF triple_comp[where Q = "\<lambda>c' s. rs_comp s = c' \<and> ?P s"]], simp, rule triple_option,
        rule triple_fail, simp add: before_delete_def, blast,
        rule triple_seq[OF delete], assumption, rule done_deleting[OF absent])
qed

lemma destroy_ordered:
  "triple w (\<lambda>s. rs_comp s = c \<and> rs_log s = base) destroy (\<lambda>_. ordered_at w base c) (\<lambda>_. ordered_at w base c)"
proof -
  have start: "triple w (\<lambda>s. rs_comp s = c \<and> rs_log s = base) (rx_modify begin_destroy)
      (\<lambda>_. before_delete w base c (routes_kept c) (\<lambda>_. True)) E" for E
  proof (rule triple_modify)
    fix s :: rstate assume "rs_comp s = c \<and> rs_log s = base"
    moreover have "endpointHost (begin_destroy c) = endpointHost c"
      by (simp add: begin_destroy_def endpointHost_kept)
    moreover have "kept c (begin_destroy c)" "c_runtime (begin_destroy c) = c_runtime c"
      by (simp_all add: kept_def begin_destroy_def on_operation_def setReady_def Let_def)
    ultimately show "before_delete w base c (routes_kept c) (\<lambda>_. True) (s\<lparr>rs_comp := begin_destroy (rs_comp s)\<rparr>)"
      by (simp add: before_delete_def routes_kept_def)
  qed
  have sync: "triple w (before_delete w base c (routes_kept c) (\<lambda>_. True)) syncRoutes
      (\<lambda>_. before_delete w base c (routes_kept c) (\<lambda>_. True)) (\<lambda>_. ordered_at w base c)"
    by (rule undeleting[OF syncRoutes_undeleting syncRoutes_same]) simp
  have "triple w (if gone then before_delete w base c (kept c) (\<lambda>new. routed_before c \<longrightarrow> withdrawn w base c new)
      else ordered_at w base c) (if gone then destroy_workloads else rx_return ())
      (\<lambda>_. ordered_at w base c) (\<lambda>_. ordered_at w base c)" for gone
    by (cases gone) (simp_all add: destroy_workloads_ordered triple_return)
  then show ?thesis
    unfolding destroy_def by (intro triple_seq[OF start] triple_seq[OF sync] triple_bind[OF destroy_routes_ordered])
qed

lemma after_step_undeleting: "emits deletes_nothing (after_step event err)"
  by (rule emits_mono[OF emits_after_step]) (auto simp: routine_def deletes_nothing_def)

lemma step_ordered:
  "triple w (\<lambda>s. rs_comp s = c \<and> rs_log s = base) step (\<lambda>_. ordered_at w base c) (\<lambda>_. ordered_at w base c)"
proof (cases "c_deletion_requested c")
  case True
  then show ?thesis using destroy_ordered[of w c base] by (auto simp: triple_def step_def rx_bind_def rx_comp_def)
next
  case False
  have "emits deletes_nothing step_provision"
    by (rule emits_mono[OF emits_provision]) (auto simp: deletes_nothing_def)
  from done_deleting[OF this, of w base c "\<lambda>_. True" "\<lambda>_. True"] False show ?thesis
    by (auto simp: triple_def step_def rx_bind_def rx_comp_def before_delete_def)
qed

lemma deletes_ordered_prefix:
  "list_all deletes_nothing pre \<Longrightarrow> deletes_ordered w (pre @ base) c new \<Longrightarrow> deletes_ordered w base c (new @ pre)"
proof (induction new)
  case Nil
  then show ?case by (induction pre) (auto simp: deletes_nothing_def split: effect.splits)
next
  case (Cons e es)
  have "withdrawn w (pre @ base) c es \<Longrightarrow> withdrawn w base c (es @ pre)" for es
  proof (induction es)
    case (Cons e es)
    have "host_absent w (pre @ base) c es \<Longrightarrow> host_absent w base c (es @ pre)" for es
      by (induction es) (auto split: effect.splits)
    with Cons show ?case by (auto split: effect.splits)
  qed simp
  with Cons show ?case by (auto split: effect.splits)
qed

lemma deletes_ordered_split:
  "deletes_ordered w base c (newer @ E_Delete ref # older) \<Longrightarrow>
     own_ref c ref \<and> (routed_before c \<longrightarrow> withdrawn w base c older)"
  by (induction newer) auto

lemma host_absent_split: "host_absent w base c new \<Longrightarrow>
    \<exists>newer host older. new = newer @ E_Host_Absent host # older \<and> endpointHost c = Inr host \<and>
      w_host_absent w (E_Host_Absent host # older @ base) = None"
proof (induction new)
  case (Cons e es)
  then consider host where "e = E_Host_Absent host" "endpointHost c = Inr host" "w_host_absent w (e # es @ base) = None"
    | "host_absent w base c es" by (auto split: effect.splits)
  then show ?case
  proof cases
    case 1
    then show ?thesis by (intro exI[of _ "[]"] exI[of _ host] exI[of _ es]) simp
  next
    case 2
    then show ?thesis using Cons.IH by (metis append_Cons)
  qed
qed simp

lemma withdrawn_split: "withdrawn w base c new \<Longrightarrow>
    \<exists>newer c' older. new = newer @ E_Save c' # older \<and> w_save w (E_Save c' # older @ base) = None \<and> kept c c' \<and>
      rt_routes_removed (c_runtime c') \<and> drained w c' \<and> host_absent w base c older"
proof (induction new)
  case (Cons e es)
  then consider c' where "e = E_Save c'" "w_save w (e # es @ base) = None" "kept c c'" "rt_routes_removed (c_runtime c')"
      "drained w c'" "host_absent w base c es"
    | "withdrawn w base c es" by (auto split: effect.splits)
  then show ?case
  proof cases
    case 1
    then show ?thesis by (intro exI[of _ "[]"] exI[of _ c'] exI[of _ es]) simp
  next
    case 2
    then show ?thesis using Cons.IH by (metis append_Cons)
  qed
qed simp

lemma reconcile_ordered: "ordered_at w (rs_log s) (rs_comp s) (snd (reconcile event w s))"
proof -
  let ?c = "rs_comp s" and ?P = "\<lambda>t. rs_comp t = rs_comp s \<and> only deletes_nothing (rs_log s) t"
  let ?O = "ordered_at w (rs_log s) (rs_comp s)"
  have quiet: "?O t" if none: "only deletes_nothing (rs_log s) t" for t
  proof -
    obtain new where "rs_log t = new @ rs_log s" "list_all deletes_nothing new"
      using none unfolding only_def by blast
    then show ?thesis
      using deletes_ordered_append[of w "rs_log s" ?c "[]" new]
      by (auto simp: before_delete_def deletes_nothing_def[abs_def])
  qed
  have same: "triple w ?P m (\<lambda>_. ?P) (\<lambda>_. ?O)"
    if "emits deletes_nothing m" "\<And>w t. rs_comp (snd (m w t)) = rs_comp t" for m :: "'a rx"
  proof (unfold triple_def, intro allI impI)
    fix t assume "?P t"
    then have "only deletes_nothing (rs_log s) (snd (m w t))"
      using triple_any[OF emits_only[OF that(1)]] by blast
    with \<open>?P t\<close> that(2)[of w t] quiet show "case m w t of (Inl e, s') \<Rightarrow> ?O s' | (Inr a, s') \<Rightarrow> ?P s'"
      by (cases "m w t") (auto split: sum.splits)
  qed
  have step: "triple w ?P step (\<lambda>_. ?O) (\<lambda>_. ?O)"
  proof (unfold triple_def, intro allI impI)
    fix t assume "?P t"
    then obtain pre where pre: "rs_log t = pre @ rs_log s" "list_all deletes_nothing pre" "rs_comp t = ?c"
      by (auto simp: only_def)
    from triple_any[OF step_ordered, of t ?c "rs_log t"] pre
    obtain new where "rs_log (snd (step w t)) = new @ pre @ rs_log s"
        "deletes_ordered w (pre @ rs_log s) ?c new"
      by (auto simp: before_delete_def)
    then have "?O (snd (step w t))"
      using deletes_ordered_prefix[OF pre(2)] by (auto simp: before_delete_def intro!: exI[of _ "new @ pre"])
    then show "case step w t of (Inl e, s') \<Rightarrow> ?O s' | (Inr a, s') \<Rightarrow> ?O s'"
      by (cases "step w t") (auto split: sum.splits)
  qed
  have guard: "rs_comp (snd (rx_do_as l E_Guard w_guard w t)) = rs_comp t" for l w t
    by (simp add: rx_defs split: option.splits)
  have "triple w ?P (reconcile event) (\<lambda>_. ?O) (\<lambda>_. ?O)"
    unfolding reconcile_def
    by (intro triple_bind[OF same] triple_seq[OF same] triple_if triple_return
        triple_bind[OF triple_catch[OF step]] done_deleting[OF after_step_undeleting] emit_rules)
      (auto simp: guard rx_defs deletes_nothing_def quiet split: option.splits)
  from triple_any[OF this, of s] show ?thesis by (simp add: only_def)
qed

text \<open>
  C2: Workloads go last. When a reconciliation deletes a namespace, it is the one that the
  identifier of the composition names, under its ownership token. If at the start of that
  reconciliation the routes of the composition were active and not yet recorded as removed, then
  the deletion is preceded, in the same reconciliation, by these two calls in this order: the
  ingress answered that it has forgotten the composition's own public host, and the store accepted
  this composition with its routes recorded as removed and its drain deadline reached.
\<close>

theorem namespace_deleted_last:
  assumes "rs_log (snd (reconcile event w s)) = newer @ E_Delete ref # older @ rs_log s"
  shows "own_ref (rs_comp s) ref \<and>
    (routed_before (rs_comp s) \<longrightarrow>
      (\<exists>later c between host earlier.
         older = later @ E_Save c # between @ E_Host_Absent host # earlier \<and>
         w_save w (E_Save c # between @ E_Host_Absent host # earlier @ rs_log s) = None \<and>
         kept (rs_comp s) c \<and> rt_routes_removed (c_runtime c) \<and> drained w c \<and>
         endpointHost (rs_comp s) = Inr host \<and>
         w_host_absent w (E_Host_Absent host # earlier @ rs_log s) = None))"
proof -
  have "deletes_ordered w (rs_log s) (rs_comp s) (newer @ E_Delete ref # older)"
    using reconcile_ordered[of w s event] assms by (auto simp: before_delete_def)
  note ordered = deletes_ordered_split[OF this]
  have "\<exists>later c between host earlier.
         older = later @ E_Save c # between @ E_Host_Absent host # earlier \<and>
         w_save w (E_Save c # between @ E_Host_Absent host # earlier @ rs_log s) = None \<and>
         kept (rs_comp s) c \<and> rt_routes_removed (c_runtime c) \<and> drained w c \<and>
         endpointHost (rs_comp s) = Inr host \<and>
         w_host_absent w (E_Host_Absent host # earlier @ rs_log s) = None"
    if "withdrawn w (rs_log s) (rs_comp s) older"
  proof -
    from withdrawn_split[OF that] obtain later c rest where c: "older = later @ E_Save c # rest"
        "w_save w (E_Save c # rest @ rs_log s) = None" "kept (rs_comp s) c" "rt_routes_removed (c_runtime c)"
        "drained w c" "host_absent w (rs_log s) (rs_comp s) rest" by blast
    from host_absent_split[OF c(6)] obtain between host earlier where
        "rest = between @ E_Host_Absent host # earlier" "endpointHost (rs_comp s) = Inr host"
        "w_host_absent w (E_Host_Absent host # earlier @ rs_log s) = None" by blast
    with c show ?thesis
      by (intro exI[of _ later] exI[of _ c] exI[of _ between] exI[of _ host] exI[of _ earlier]) simp
  qed
  with ordered show ?thesis by blast
qed

text \<open>The shop's composition, to be deleted, with its drain over.\<close>

definition leaving_composition :: composition where
  "leaving_composition = shop_composition\<lparr>c_deletion_requested := True,
     c_runtime := (c_runtime shop_composition)\<lparr>rt_drain_until := Some 50\<rparr>\<rparr>"

lemma leaving_fields:
  "c_deletion_requested leaving_composition" "rt_next_attempt_at (c_runtime leaving_composition) = 0"
  "\<not> c_message_isolation leaving_composition"
  by (simp_all add: leaving_composition_def shop_defs)

lemma leaving_routes:
  fixes c defines "c \<equiv> begin_destroy leaving_composition"
  shows "rt_routing_active (c_runtime c)" "\<not> rt_routes_removed (c_runtime c)" "rt_drain_until (c_runtime c) = Some 50"
    "endpointHost c = Inr ''c1.example.com''" "routed_before leaving_composition"
    "endpointHost leaving_composition = Inr ''c1.example.com''"
proof -
  have "c_runtime c = c_runtime leaving_composition" "map (\<lambda>(k, e). (k, ep_url e)) (c_endpoints c) = [(''public'', ''http://c1.example.com'')]"
    by (simp_all add: c_def begin_destroy_def leaving_composition_def setReady_def on_operation_def Let_def shop_composition_def)
  moreover have "endpointHost x = Inr ''c1.example.com''"
    if "map (\<lambda>(k, e). (k, ep_url e)) (c_endpoints x) = [(''public'', ''http://c1.example.com'')]" for x
    using that shop_host by (auto simp: endpointHost_def shop_composition_def get_or_def)
  ultimately show "rt_routing_active (c_runtime c)" "\<not> rt_routes_removed (c_runtime c)"
    "rt_drain_until (c_runtime c) = Some 50" "endpointHost c = Inr ''c1.example.com''" "routed_before leaving_composition"
    by (simp_all add: leaving_composition_def shop_composition_def routed_before_def zero_runtime_def)
  then show "endpointHost leaving_composition = Inr ''c1.example.com''"
    by (simp add: c_def begin_destroy_def endpointHost_kept)
qed

text \<open>
  A calm world in which, from a state on, the store lists no active composition: a route write is
  accepted, and within a scan the second of two equal ones is skipped.
\<close>

definition idle_from :: "world \<Rightarrow> rstate \<Rightarrow> bool" where
  "idle_from w s \<longleftrightarrow> (\<exists>a. w = calm_world\<lparr>w_active := a\<rparr> \<and> (\<forall>log. length (rs_log s) < length log \<longrightarrow> a log = Inr []))"

lemma idle_simps:
  assumes "idle_from w s"
  shows "w_context w = (\<lambda>_. None)" "w_guard w = (\<lambda>_. None)" "w_save w = (\<lambda>_. None)"
    "w_host_absent w = (\<lambda>_. None)" "w_now w = (\<lambda>_. 100)" "w_delete w = (\<lambda>_. None)"
    "w_absent w = (\<lambda>_. (True, None))" "w_interval w = second" "w_msg_delete w = (\<lambda>_. (True, None))"
    "w_routes w = (\<lambda>_. (\<lparr>rto_ready = True, rto_message = []\<rparr>, None))"
  using assms by (auto simp: idle_from_def calm_world_def)

lemma idle_sync:
  assumes "idle_from w s" "length (rs_log s) \<le> length (rs_log t)"
  shows "rs_cycle t \<in> {None, Some None} \<Longrightarrow> syncRoutes w t = (Inr (), t\<lparr>rs_log := E_Routes empty_snapshot # E_Active # E_Guard # rs_log t,
      rs_cycle := map_option (\<lambda>_. Some empty_snapshot) (rs_cycle t)\<rparr>)"
    "rs_cycle t = Some (Some empty_snapshot) \<Longrightarrow> syncRoutes w t = (Inr (), t\<lparr>rs_log := E_Active # E_Guard # rs_log t\<rparr>)"
proof -
  obtain a where a: "w = calm_world\<lparr>w_active := a\<rparr>" "\<And>log. length (rs_log s) < length log \<Longrightarrow> a log = Inr []"
    using assms(1) by (auto simp: idle_from_def)
  have quiet: "w_active w (E_Active # E_Guard # rs_log t) = Inr []" "w_guard w = (\<lambda>_. None)" "w_wall w = (\<lambda>_ _. 100)"
    "w_routes w = (\<lambda>_. (\<lparr>rto_ready = True, rto_message = []\<rparr>, None))"
    using a assms(2) by (simp_all add: calm_world_def)
  have empty: "Snapshot f [] = Inr empty_snapshot" for f by (simp add: Snapshot_def)
  show "rs_cycle t \<in> {None, Some None} \<Longrightarrow> syncRoutes w t = (Inr (), t\<lparr>rs_log := E_Routes empty_snapshot # E_Active # E_Guard # rs_log t,
      rs_cycle := map_option (\<lambda>_. Some empty_snapshot) (rs_cycle t)\<rparr>)"
    using quiet empty by (auto simp: syncRoutes_def rx_defs)
  show "rs_cycle t = Some (Some empty_snapshot) \<Longrightarrow> syncRoutes w t = (Inr (), t\<lparr>rs_log := E_Active # E_Guard # rs_log t\<rparr>)"
    using quiet empty by (simp add: syncRoutes_def rx_defs snapshot_deep_eq_def map_deep_eq_def empty_snapshot_def)
qed

lemma leaving_gone:
  fixes c defines "c \<equiv> on_runtime (\<lambda>rt. rt\<lparr>rt_routes_removed := True\<rparr>) (begin_destroy leaving_composition)"
  shows "\<exists>ref. owned_namespace c = Some ref" "\<not> c_message_isolation c"
proof -
  have kept: "c_id c = ''c1''" "rt_ownership_token (c_runtime c) = ''token''" "rt_retiring_workloads (c_runtime c) = []"
      "rt_workloads (c_runtime c) = [(''api'', api_workload)]"
    by (simp_all add: c_def on_runtime_def begin_destroy_def on_operation_def setReady_def Let_def
        leaving_composition_def shop_composition_def zero_runtime_def)
  have "owned_workloads (c_runtime c) = [(''api'', api_workload)]"
    by (simp add: owned_workloads_def kept map_copy_def)
  then show "\<exists>ref. owned_namespace c = Some ref" using kept
    by (simp add: owned_namespace_def Let_def sorted_keys_def get_or_def api_workload_def
        zero_workload_ref_def NamespaceForID_def replace_char_def)
  show "\<not> c_message_isolation c"
    by (simp add: c_def on_runtime_def begin_destroy_def on_operation_def setReady_def Let_def leaving_fields)
qed

lemma leaving_run:
  assumes "idle_from w s" "rs_comp s = leaving_composition" "rs_cycle s \<in> {None, Some None}"
  shows "\<exists>c ref c'. rs_log (snd (reconcile False w s)) =
     [E_Save c, E_Guard, E_Absent ref] @ E_Delete ref #
       (if rs_cycle s = None then [E_Routes empty_snapshot] else []) @ [E_Active, E_Guard, E_Save c',
        E_Host_Absent ''c1.example.com'', E_Routes empty_snapshot, E_Active, E_Guard, E_Guard] @ rs_log s \<and>
     c_phase c = PhaseDestroyed"
proof -
  let ?c = "begin_destroy leaving_composition"
  let ?c' = "on_runtime (\<lambda>rt. rt\<lparr>rt_routes_removed := True\<rparr>) ?c"
  obtain log n cycle where s: "s = \<lparr>rs_comp = leaving_composition, rs_log = log, rs_reads = n, rs_cycle = cycle\<rparr>"
    using assms(2) by (cases s) simp
  let ?begun = "\<lparr>rs_comp = leaving_composition, rs_log = E_Guard # log, rs_reads = Suc n, rs_cycle = cycle\<rparr>"
  define cycle' where "cycle' = map_option (\<lambda>_. Some empty_snapshot) cycle"
  define log1 where "log1 = [E_Routes empty_snapshot, E_Active, E_Guard, E_Guard] @ log"
  let ?synced = "\<lparr>rs_comp = ?c, rs_log = log1, rs_reads = Suc n, rs_cycle = cycle'\<rparr>"
  define log2 where "log2 = [E_Save ?c', E_Host_Absent ''c1.example.com''] @ log1"
  let ?saved = "\<lparr>rs_comp = ?c', rs_log = log2, rs_reads = Suc (Suc n), rs_cycle = cycle'\<rparr>"
  define log3 where "log3 = (if cycle = None then [E_Routes empty_snapshot] else []) @ [E_Active, E_Guard] @ log2"
  let ?gone = "\<lparr>rs_comp = ?c', rs_log = log3, rs_reads = Suc (Suc n), rs_cycle = cycle'\<rparr>"
  note idle = idle_simps[OF assms(1)] and sync = idle_sync[OF assms(1)]
  have first: "syncRoutes w (?begun\<lparr>rs_comp := ?c\<rparr>) = (Inr (), ?synced)"
    using assms(3) s by (subst sync(1)) (auto simp: log1_def cycle'_def)
  have again: "syncRoutes w ?saved = (Inr (), ?gone)"
    using assms(3) s sync(1)[of ?saved] sync(2)[of ?saved] by (auto simp: log1_def log2_def log3_def cycle'_def)
  have routes: "destroy_routes w ?synced = (Inr True, ?gone)"
    using leaving_routes again by (simp add: destroy_routes_def rx_defs idle log2_def)
  obtain ref where ref: "owned_namespace ?c' = Some ref" using leaving_gone(1) by blast
  let ?final = "?gone\<lparr>rs_comp := destroyed ?c', rs_log := E_Absent ref # E_Delete ref # log3\<rparr>"
  have workloads: "destroy_workloads w ?gone = (Inr (), ?final)"
    using ref leaving_gone(2) by (simp add: destroy_workloads_def destroy_messaging_def rx_defs idle)
  have step: "step w ?begun = (Inr (), ?final)"
    using leaving_fields routes first workloads
    by (simp add: step_def destroy_def rx_bind_def rx_comp_def rx_seq_def rx_modify_def)
  have "\<exists>c. rs_log (snd (after_step False None w ?final)) = E_Save c # E_Guard # rs_log ?final \<and> c_phase c = PhaseDestroyed"
    by (simp add: after_step_def pendingRoutes_def settle_def publishObservation_def rx_defs idle
        observe_generation_def set_next_attempt_def destroyed_def on_runtime_def operation_succeeded_def on_operation_def)
  moreover have "reconcile False w s = after_step False None w ?final"
    using leaving_fields step
    by (simp add: s reconcile_def rx_bind_def rx_ask_def rx_seq_def rx_require_def rx_comp_def
        rx_now_def rx_return_def rx_do_as_def rx_call_def due_def idle catch_outcome)
  ultimately obtain c where "rs_log (snd (reconcile False w s)) = E_Save c # E_Guard # rs_log ?final"
      "c_phase c = PhaseDestroyed" by auto
  then show ?thesis
    by (intro exI[of _ c] exI[of _ ref] exI[of _ ?c']) (simp add: s log1_def log2_def log3_def)
qed

lemma leaving_calm_run:
  "\<exists>c ref older. rs_log (snd (reconcile False calm_world (start leaving_composition))) =
     [E_Save c, E_Guard, E_Absent ref] @ E_Delete ref # older @ rs_log (start leaving_composition) \<and>
     c_phase c = PhaseDestroyed"
proof -
  have "idle_from calm_world (start leaving_composition)"
    by (auto simp: idle_from_def calm_world_def intro!: exI[of _ "\<lambda>_. Inr []"])
  from leaving_run[OF this] show ?thesis by (fastforce simp: start_def)
qed

theorem namespace_deleted_last_witness:
  "\<exists>newer ref later c between earlier.
     rs_log (snd (reconcile False calm_world (start leaving_composition))) =
       newer @ E_Delete ref # later @ E_Save c # between @ E_Host_Absent ''c1.example.com'' # earlier \<and>
     own_ref leaving_composition ref \<and> kept leaving_composition c \<and> rt_routes_removed (c_runtime c)"
proof -
  obtain newer ref older where run: "rs_log (snd (reconcile False calm_world (start leaving_composition))) =
      newer @ E_Delete ref # older @ rs_log (start leaving_composition)"
    using leaving_calm_run by blast
  from namespace_deleted_last[OF run] leaving_routes(5,6) run show ?thesis
    by (fastforce simp: start_def)
qed

section \<open>What a destroyed composition has lost\<close>

text \<open>
  The cleanup of one composition is judged against what destroying does not change:
  whether its messages are isolated, its identifier, its ownership token and its resolved plan.
\<close>

type_synonym cleanup_scope = "bool \<times> string \<times> string \<times> resolved_plan option"

definition cleanup_scope :: "composition \<Rightarrow> cleanup_scope" where
  "cleanup_scope c = (c_message_isolation c, c_id c, rt_ownership_token (c_runtime c), rt_plan (c_runtime c))"

fun owns_ref :: "cleanup_scope \<Rightarrow> workload_ref \<Rightarrow> bool" where
  "owns_ref (isolated, i, token, plan) ref \<longleftrightarrow> wr_namespace ref = NamespaceForID i \<and> wr_ownership_token ref = token"

fun owns_spec :: "cleanup_scope \<Rightarrow> messaging_spec \<Rightarrow> bool" where
  "owns_spec (isolated, i, token, plan) spec \<longleftrightarrow> mg_composition spec = i \<and> mg_ownership_token spec = token \<and>
     map_option rp_message_subscriptions plan = Some (mg_subscriptions spec)"

lemma owned_by_scope:
  "owned_namespace c = Some ref \<Longrightarrow> owns_ref (cleanup_scope c) ref"
  "rt_plan (c_runtime c) = Some plan \<Longrightarrow> owns_spec (cleanup_scope c) (messaging_spec_of c (rp_message_subscriptions plan))"
  "owns_ref (cleanup_scope c) ref \<longleftrightarrow> own_ref c ref"
  by (auto simp: cleanup_scope_def messaging_spec_of_def own_ref_def dest: owned_own[unfolded own_ref_def])

text \<open>The namespace was seen to be absent, and the subscriptions to be deleted.\<close>

fun absence_seen :: "world \<Rightarrow> trace \<Rightarrow> cleanup_scope \<Rightarrow> trace \<Rightarrow> bool" where
  "absence_seen w base m [] = False"
| "absence_seen w base m (e # es) =
     ((case e of E_Absent ref \<Rightarrow> owns_ref m ref \<and> w_absent w (e # es @ base) = (True, None) | _ \<Rightarrow> False) \<or>
      absence_seen w base m es)"

fun cleanup_seen :: "world \<Rightarrow> trace \<Rightarrow> cleanup_scope \<Rightarrow> trace \<Rightarrow> bool" where
  "cleanup_seen w base m [] = False"
| "cleanup_seen w base m (e # es) =
     ((case e of E_Msg_Delete spec \<Rightarrow> owns_spec m spec \<and> w_msg_delete w (e # es @ base) = (True, None) | _ \<Rightarrow> False) \<or>
      cleanup_seen w base m es)"

text \<open>The workloads are gone and, with message isolation, the subscriptions are.\<close>

definition confirmed :: "world \<Rightarrow> trace \<Rightarrow> cleanup_scope \<Rightarrow> trace \<Rightarrow> bool" where
  "confirmed w base m es \<longleftrightarrow> absence_seen w base m es \<and> (fst m \<longrightarrow> cleanup_seen w base m es)"

fun saves_confirmed :: "world \<Rightarrow> trace \<Rightarrow> cleanup_scope \<Rightarrow> trace \<Rightarrow> bool" where
  "saves_confirmed w base m [] = True"
| "saves_confirmed w base m (e # es) =
     ((case e of E_Save c \<Rightarrow> c_phase c = PhaseDestroyed \<longrightarrow> confirmed w base m es | _ \<Rightarrow> True) \<and>
      saves_confirmed w base m es)"

definition phase_view :: "composition \<Rightarrow> phase \<times> cleanup_scope" where
  "phase_view c = (c_phase c, cleanup_scope c)"

definition unfinished where
  "unfinished w base m v new \<longleftrightarrow>
     snd v = m \<and> fst v \<noteq> PhaseDestroyed \<and> saves_confirmed w base m new"

definition finished where
  "finished w base m v new \<longleftrightarrow>
     (fst v = PhaseDestroyed \<longrightarrow> confirmed w base m new) \<and> saves_confirmed w base m new"

lemma seen_more:
  "absence_seen w base m es \<Longrightarrow> absence_seen w base m (e # es)"
  "cleanup_seen w base m es \<Longrightarrow> cleanup_seen w base m (e # es)"
  "confirmed w base m es \<Longrightarrow> confirmed w base m (e # es)"
  by (auto simp: confirmed_def)

lemma phase_view_simps:
  "phase_view (core c) = phase_view c" "fst (phase_view c) = c_phase c" "snd (phase_view c) = cleanup_scope c"
  by (simp_all add: phase_view_def cleanup_scope_def core_def)

interpretation unfinished: stable w phase_view "since base (unfinished w base m)" "since base (unfinished w base m)"
  for w base m
  by unfold_locales
    (auto simp: phase_view_simps unfinished_def elim!: since_Cons ordinary.elims)

interpretation finished: stable w phase_view "since base (finished w base m)" "since base (finished w base m)"
  for w base m
  by unfold_locales
    (auto simp: phase_view_simps finished_def intro: seen_more elim!: since_Cons ordinary.elims)

abbreviation unfinished_at :: "world \<Rightarrow> trace \<Rightarrow> cleanup_scope \<Rightarrow> rstate \<Rightarrow> bool" where
  "unfinished_at w base m \<equiv> ok phase_view (since base (unfinished w base m))"

abbreviation finished_at :: "world \<Rightarrow> trace \<Rightarrow> cleanup_scope \<Rightarrow> rstate \<Rightarrow> bool" where
  "finished_at w base m \<equiv> ok phase_view (since base (finished w base m))"

lemma unfinished_finished: "unfinished_at w base m s \<Longrightarrow> finished_at w base m s"
  by (auto simp: ok_def since_def unfinished_def finished_def)

text \<open>With part of the cleanup seen.\<close>

definition unfinished_with :: "world \<Rightarrow> trace \<Rightarrow> cleanup_scope \<Rightarrow> (trace \<Rightarrow> bool) \<Rightarrow> rstate \<Rightarrow> bool" where
  "unfinished_with w base m seen s \<longleftrightarrow> cleanup_scope (rs_comp s) = m \<and> c_phase (rs_comp s) \<noteq> PhaseDestroyed \<and>
     (\<exists>new. rs_log s = new @ base \<and> saves_confirmed w base m new \<and> seen new)"

lemma unfinished_with_at: "unfinished_with w base m seen s \<Longrightarrow> finished_at w base m s"
  by (auto simp: ok_def since_def finished_def unfinished_with_def phase_view_simps)

lemma finish:
  "triple w (unfinished_with w base m (confirmed w base m)) (rx_modify destroyed) (\<lambda>_. finished_at w base m) E"
  by (rule triple_modify) (auto simp: unfinished_with_def ok_def since_def finished_def)

lemma msg_delete_seen:
  "triple w (unfinished_with w base m (absence_seen w base m)) (rx_call (E_Msg_Delete spec) w_msg_delete)
     (\<lambda>(absent, err). unfinished_with w base m (\<lambda>new. absent \<and> err = None \<longrightarrow> confirmed w base m new)) E"
  if "owns_spec m spec"
  using that by (intro triple_call) (auto simp: unfinished_with_def confirmed_def intro!: exI[of _ "E_Msg_Delete spec # _"])

lemma absent_seen:
  "triple w (unfinished_at w base m) (rx_call (E_Absent ref) w_absent)
     (\<lambda>(absent, err). unfinished_with w base m (\<lambda>new. absent \<and> err = None \<longrightarrow> absence_seen w base m new)) E"
  if "owns_ref m ref"
  using that by (intro triple_call) (auto simp: unfinished_with_def ok_def since_def unfinished_def phase_view_simps
      intro!: exI[of _ "E_Absent ref # _"])

lemma triple_comp_with:
  assumes "\<And>s. P s \<Longrightarrow> R (rs_comp s)" "\<And>c. R c \<Longrightarrow> triple w P (f c) Q E"
  shows "triple w P (rx_bind rx_comp f) Q E"
  using assms by (simp add: triple_def rx_bind_def rx_comp_def)

lemma triple_in_scope:
  "(\<And>c. cleanup_scope c = m \<Longrightarrow> triple w (unfinished_with w base m P) (f c) Q E) \<Longrightarrow>
     triple w (unfinished_with w base m P) (rx_bind rx_comp f) Q E"
  "(\<And>c. cleanup_scope c = m \<Longrightarrow> triple w (unfinished_at w base m) (f c) Q E) \<Longrightarrow>
     triple w (unfinished_at w base m) (rx_bind rx_comp f) Q E"
  by (rule triple_comp_with[where R = "\<lambda>c. cleanup_scope c = m"],
      auto simp: unfinished_with_def ok_def since_def unfinished_def phase_view_simps)+

lemma destroy_messaging_finished:
  "triple w (unfinished_with w base m (absence_seen w base m)) destroy_messaging
     (\<lambda>_. finished_at w base m) (\<lambda>_. finished_at w base m)"
proof -
  have quiet: "triple w (unfinished_with w base m P) (rx_return ()) (\<lambda>_. finished_at w base m) E"
    "triple w (unfinished_with w base m P) (rx_fail e :: unit rx) Q (\<lambda>_. finished_at w base m)" for P E e Q
    by (auto intro!: triple_return triple_fail intro: unfinished_with_at)
  have unready: "triple w (unfinished_with w base m P) (rx_modify unready_subscriptions)
      (\<lambda>_. unfinished_with w base m P) E" for P E
    by (rule triple_modify) (simp add: unfinished_with_def unready_subscriptions_def cleanup_scope_def)
  have delete: "triple w (unfinished_with w base m (absence_seen w base m))
     (rx_bind (rx_call (E_Msg_Delete spec) w_msg_delete) (\<lambda>(absent, err).
        case err of
          Some e \<Rightarrow> rx_fail e
        | None \<Rightarrow>
            if \<not> absent then rx_return ()
            else rx_seq (rx_modify unready_subscriptions) (rx_modify destroyed)))
     (\<lambda>_. finished_at w base m) (\<lambda>_. finished_at w base m)" if "owns_spec m spec" for spec
  proof (rule triple_bind[OF msg_delete_seen[OF that]])
    fix r :: "bool \<times> go_error option"
    obtain absent err where r: "r = (absent, err)" by fastforce
    show "triple w ((\<lambda>(absent, err). unfinished_with w base m (\<lambda>new. absent \<and> err = None \<longrightarrow> confirmed w base m new)) r)
       (case r of (absent, err) \<Rightarrow> case err of Some e \<Rightarrow> rx_fail e
        | None \<Rightarrow> if \<not> absent then rx_return () else rx_seq (rx_modify unready_subscriptions) (rx_modify destroyed))
       (\<lambda>_. finished_at w base m) (\<lambda>_. finished_at w base m)"
      by (cases err; cases absent) (simp_all add: r quiet triple_seq[OF unready finish])
  qed
  have direct: "triple w (unfinished_with w base m (absence_seen w base m)) (rx_modify destroyed)
      (\<lambda>_. finished_at w base m) E" if "\<not> c_message_isolation c" "cleanup_scope c = m" for c E
  proof (rule triple_modify)
    fix s assume "unfinished_with w base m (absence_seen w base m) s"
    moreover have "\<not> fst m" using that by (auto simp: cleanup_scope_def)
    ultimately show "finished_at w base m (s\<lparr>rs_comp := destroyed (rs_comp s)\<rparr>)"
      by (auto simp: unfinished_with_def ok_def since_def finished_def confirmed_def)
  qed
  show ?thesis
    unfolding destroy_messaging_def
  proof (rule triple_in_scope, rule triple_bind[OF triple_reads])
    fix c configured assume c: "cleanup_scope c = m"
    note own = owned_by_scope(2)[of c, unfolded c]
    show "triple w (unfinished_with w base m (absence_seen w base m))
      (if \<not> c_message_isolation c then rx_modify destroyed
       else case rt_plan (c_runtime c) of
         None \<Rightarrow> rx_fail (Plain ''Pub/Sub cleanup requires provider and resolved plan'')
       | Some plan \<Rightarrow>
           if \<not> configured then rx_fail (Plain ''Pub/Sub cleanup requires provider and resolved plan'')
           else rx_bind (rx_call (E_Msg_Delete (messaging_spec_of c (rp_message_subscriptions plan))) w_msg_delete)
             (\<lambda>(absent, err). case err of Some e \<Rightarrow> rx_fail e
              | None \<Rightarrow> if \<not> absent then rx_return ()
                  else rx_seq (rx_modify unready_subscriptions) (rx_modify destroyed)))
      (\<lambda>_. finished_at w base m) (\<lambda>_. finished_at w base m)"
      by (intro triple_if triple_option) (assumption | rule direct quiet(2) delete c own)+
  qed (simp_all add: unfinished_with_def)
qed

lemma destroy_workloads_finished:
  "triple w (unfinished_at w base m) destroy_workloads (\<lambda>_. finished_at w base m) (\<lambda>_. finished_at w base m)"
proof -
  have quiet: "triple w (unfinished_with w base m P) (rx_fail e :: unit rx) Q (\<lambda>_. finished_at w base m)" for P e Q
    by (auto intro!: triple_fail intro: unfinished_with_at)
  have later: "triple w (unfinished_with w base m P) (rx_bind rx_now (\<lambda>now. rx_bind (rx_config w_interval) (\<lambda>interval.
      rx_modify (on_runtime (\<lambda>rt. rt\<lparr>rt_next_attempt_at := now + interval\<rparr>))))) (\<lambda>_. finished_at w base m) E" for P E
    by (auto simp: triple_def rx_defs unfinished_with_def ok_def since_def finished_def phase_view_def cleanup_scope_def on_runtime_def)
  have absent: "triple w (unfinished_at w base m) (rx_bind (rx_call (E_Absent ref) w_absent) (\<lambda>(absent, err).
      case err of
        Some e \<Rightarrow> rx_fail (Wrapped ''confirm workload cleanup: '' e)
      | None \<Rightarrow>
          if \<not> absent then
            rx_bind rx_now (\<lambda>now. rx_bind (rx_config w_interval) (\<lambda>interval.
              rx_modify (on_runtime (\<lambda>rt. rt\<lparr>rt_next_attempt_at := now + interval\<rparr>))))
          else destroy_messaging)) (\<lambda>_. finished_at w base m) (\<lambda>_. finished_at w base m)"
    if "owns_ref m ref" for ref
  proof (rule triple_bind[OF absent_seen[OF that]])
    fix r :: "bool \<times> go_error option"
    obtain absent err where r: "r = (absent, err)" by fastforce
    show "triple w ((\<lambda>(absent, err). unfinished_with w base m (\<lambda>new. absent \<and> err = None \<longrightarrow> absence_seen w base m new)) r)
       (case r of (absent, err) \<Rightarrow> case err of
          Some e \<Rightarrow> rx_fail (Wrapped ''confirm workload cleanup: '' e)
        | None \<Rightarrow>
          if \<not> absent then
            rx_bind rx_now (\<lambda>now. rx_bind (rx_config w_interval) (\<lambda>interval.
              rx_modify (on_runtime (\<lambda>rt. rt\<lparr>rt_next_attempt_at := now + interval\<rparr>))))
          else destroy_messaging) (\<lambda>_. finished_at w base m) (\<lambda>_. finished_at w base m)"
      by (cases err; cases absent) (simp_all add: r quiet later destroy_messaging_finished)
  qed
  have delete: "triple w (unfinished_at w base m) (rx_do_as l (E_Delete ref) w_delete) (\<lambda>_. unfinished_at w base m)
      (\<lambda>_. finished_at w base m)" for l ref
    using unfinished.keep_do_as[of "E_Delete ref" w base m l w_delete]
    by (auto simp: preserving_def elim!: triple_weaken intro: unfinished_finished)
  show ?thesis
    unfolding destroy_workloads_def
  proof (rule triple_in_scope, intro triple_option triple_seq[OF delete] absent)
    show "owns_ref m ref" if "cleanup_scope c = m" "owned_namespace c = Some ref" for c ref
      using owned_by_scope(1)[OF that(2)] that(1) by simp
  qed (auto intro!: triple_fail intro: unfinished_finished)
qed

lemma destroy_finished:
  "triple w (\<lambda>s. cleanup_scope (rs_comp s) = m \<and> (\<exists>new. rs_log s = new @ base \<and> saves_confirmed w base m new))
     destroy (\<lambda>_. finished_at w base m) (\<lambda>_. finished_at w base m)"
proof -
  have start: "triple w (\<lambda>s. cleanup_scope (rs_comp s) = m \<and>
      (\<exists>new. rs_log s = new @ base \<and> saves_confirmed w base m new)) (rx_modify begin_destroy)
      (\<lambda>_. unfinished_at w base m) E" for E
    by (rule triple_modify) (auto simp: ok_def since_def unfinished_def phase_view_def cleanup_scope_def begin_destroy_def
        on_operation_def setReady_def Let_def)
  have keep: "triple w (unfinished_at w base m) n (\<lambda>_. unfinished_at w base m) (\<lambda>_. finished_at w base m)"
    if "preserving w phase_view (since base (unfinished w base m)) (since base (unfinished w base m)) n"
    for n :: "'a rx"
    using that by (auto simp: preserving_def elim!: triple_weaken intro: unfinished_finished)
  have "triple w (unfinished_at w base m) (if gone then destroy_workloads else rx_return ())
      (\<lambda>_. finished_at w base m) (\<lambda>_. finished_at w base m)" for gone
    by (cases gone) (simp_all add: destroy_workloads_finished triple_return unfinished_finished)
  then show ?thesis
    unfolding destroy_def
    by (intro triple_seq[OF start] triple_seq[OF keep] triple_bind[OF keep] keep_rules)
qed

lemma finished_failure:
  "preserving w phase_view (since base (finished w base m)) (since base (finished w base m)) (failure e)"
proof -
  have "triple w (finished_at w base m) (rx_modify (failed_composition e)) (\<lambda>_. finished_at w base m) E" for E
    by (rule triple_modify) (auto simp: ok_def since_def finished_def phase_view_def cleanup_scope_def failed_composition_def
        setReady_def on_operation_def on_runtime_def Let_def split: if_splits)
  moreover have "preserving w phase_view (since base (finished w base m)) (since base (finished w base m))
      (rx_bind (rx_ask w_jitter) (\<lambda>jitter. rx_bind rx_now (\<lambda>now.
        rx_modify (on_runtime (\<lambda>rt. rt\<lparr>rt_next_attempt_at := now + backoff (rt_attempts rt) jitter\<rparr>)))))"
    by (intro keep_rules) (simp add: core_simps)
  ultimately show ?thesis unfolding failure_def preserving_def by (rule triple_seq)
qed

lemma finished_after_step:
  "preserving w phase_view (since base (finished w base m)) (since base (finished w base m)) (after_step event err)"
proof -
  have "preserving w phase_view (since base (finished w base m)) (since base (finished w base m)) (settle event err)" for err
    unfolding settle_def by (intro keep_rules finished_failure) (simp_all add: core_simps)
  then show ?thesis unfolding after_step_def by (intro keep_rules) (simp_all add: core_simps)
qed

lemma reconcile_finished:
  assumes "c_deletion_requested (rs_comp s)"
  shows "\<exists>new. rs_log (snd (reconcile event w s)) = new @ rs_log s \<and>
    saves_confirmed w (rs_log s) (cleanup_scope (rs_comp s)) new"
proof -
  let ?m = "cleanup_scope (rs_comp s)" and ?base = "rs_log s"
  let ?P = "\<lambda>t. rs_comp t = rs_comp s \<and> (\<exists>new. rs_log t = new @ ?base \<and> saves_confirmed w ?base ?m new)"
  let ?Q = "\<lambda>t. \<exists>new. rs_log t = new @ ?base \<and> saves_confirmed w ?base ?m new"
  have weak: "finished_at w ?base ?m t \<Longrightarrow> ?Q t" for t by (auto simp: ok_def since_def finished_def)
  have step: "triple w ?P step (\<lambda>_. finished_at w ?base ?m) (\<lambda>_. finished_at w ?base ?m)"
    using destroy_finished[of w ?m ?base] assms by (fastforce simp: triple_def step_def rx_bind_def rx_comp_def)
  have reads: "triple w ?P m' (\<lambda>_. ?P) E" if "reads m'" for m' :: "'a rx" and E
    by (rule triple_reads[OF that]) simp
  have require: "triple w ?P (rx_require e) (\<lambda>_. ?P) (\<lambda>_. ?Q)" for e
    by (auto simp: rx_require_def intro!: triple_return triple_fail split: option.splits)
  have guard: "triple w ?P (rx_do_as l E_Guard w_guard) (\<lambda>_. ?P) (\<lambda>_. ?Q)" for l
  proof (unfold triple_def, intro allI impI)
    fix t :: rstate assume "?P t"
    then obtain new where "rs_comp t = rs_comp s" "rs_log t = new @ ?base" "saves_confirmed w ?base ?m new" by blast
    then show "case rx_do_as l E_Guard w_guard w t of (Inl e, s') \<Rightarrow> ?Q s' | (Inr a, s') \<Rightarrow> ?P s'"
      by (auto simp: rx_defs split: option.splits intro!: exI[of _ "E_Guard # new"])
  qed
  have after: "triple w (finished_at w ?base ?m) (after_step event err) (\<lambda>_. ?Q) (\<lambda>_. ?Q)" for err
    by (rule triple_weaken[OF finished_after_step[unfolded preserving_def]]) (auto intro: weak)
  have "triple w ?P (reconcile event) (\<lambda>_. ?Q) (\<lambda>_. ?Q)"
    unfolding reconcile_def
    by (intro triple_bind[OF reads] triple_seq[OF require] triple_if triple_return triple_seq[OF guard]
        triple_bind[OF triple_catch[OF step]] after) auto
  from triple_any[OF this, of s] show ?thesis by simp
qed

lemma saves_confirmed_split:
  "saves_confirmed w base m (newer @ E_Save c # older) \<Longrightarrow> c_phase c = PhaseDestroyed \<Longrightarrow> confirmed w base m older"
  by (induction newer) auto

lemma absence_split: "absence_seen w base m new \<Longrightarrow>
    \<exists>later ref earlier. new = later @ E_Absent ref # earlier \<and> owns_ref m ref \<and>
      w_absent w (E_Absent ref # earlier @ base) = (True, None)"
proof (induction new)
  case (Cons e es)
  then consider ref where "e = E_Absent ref" "owns_ref m ref" "w_absent w (e # es @ base) = (True, None)"
    | "absence_seen w base m es" by (auto split: effect.splits)
  then show ?case
  proof cases
    case 1
    then show ?thesis by (intro exI[of _ "[]"] exI[of _ ref] exI[of _ es]) simp
  next
    case 2
    then show ?thesis using Cons.IH by (metis append_Cons)
  qed
qed simp

lemma cleanup_split: "cleanup_seen w base m new \<Longrightarrow>
    \<exists>later spec earlier. new = later @ E_Msg_Delete spec # earlier \<and> owns_spec m spec \<and>
      w_msg_delete w (E_Msg_Delete spec # earlier @ base) = (True, None)"
proof (induction new)
  case (Cons e es)
  then consider spec where "e = E_Msg_Delete spec" "owns_spec m spec" "w_msg_delete w (e # es @ base) = (True, None)"
    | "cleanup_seen w base m es" by (auto split: effect.splits)
  then show ?case
  proof cases
    case 1
    then show ?thesis by (intro exI[of _ "[]"] exI[of _ spec] exI[of _ es]) simp
  next
    case 2
    then show ?thesis using Cons.IH by (metis append_Cons)
  qed
qed simp

text \<open>
  C27: A composition whose deletion was requested is only recorded as destroyed after its own
  cleanup was confirmed. When a reconciliation that started with a deletion request saves phase
  destroyed, then earlier in the same reconciliation the runtime answered that the namespace of
  this composition, under its ownership token, is absent; and with message isolation the
  messaging provider answered that the subscriptions of this composition's resolved plan, under
  its identifier and token, are gone.
\<close>

theorem destroyed_after_confirmation:
  assumes "c_deletion_requested (rs_comp s)"
    and "rs_log (snd (reconcile event w s)) = newer @ E_Save c # older @ rs_log s" "c_phase c = PhaseDestroyed"
  shows "(\<exists>later ref earlier. older = later @ E_Absent ref # earlier \<and>
      wr_namespace ref = NamespaceForID (c_id (rs_comp s)) \<and>
      wr_ownership_token ref = rt_ownership_token (c_runtime (rs_comp s)) \<and>
      w_absent w (E_Absent ref # earlier @ rs_log s) = (True, None)) \<and>
    (c_message_isolation (rs_comp s) \<longrightarrow>
      (\<exists>later plan spec earlier. older = later @ E_Msg_Delete spec # earlier \<and>
         rt_plan (c_runtime (rs_comp s)) = Some plan \<and>
         spec = messaging_spec_of (rs_comp s) (rp_message_subscriptions plan) \<and>
         w_msg_delete w (E_Msg_Delete spec # earlier @ rs_log s) = (True, None)))"
proof -
  let ?m = "cleanup_scope (rs_comp s)"
  have "saves_confirmed w (rs_log s) ?m (newer @ E_Save c # older)"
    using reconcile_finished[OF assms(1), of event w] assms(2) by auto
  from saves_confirmed_split[OF this assms(3)] have confirmed: "confirmed w (rs_log s) ?m older" .
  have spec: "\<exists>plan. rt_plan (c_runtime (rs_comp s)) = Some plan \<and>
      spec = messaging_spec_of (rs_comp s) (rp_message_subscriptions plan)" if "owns_spec ?m spec" for spec
    using that by (auto simp: cleanup_scope_def messaging_spec_of_def)
  have "absence_seen w (rs_log s) ?m older" using confirmed by (simp add: confirmed_def)
  from absence_split[OF this] have absent: "\<exists>later ref earlier. older = later @ E_Absent ref # earlier \<and>
      wr_namespace ref = NamespaceForID (c_id (rs_comp s)) \<and>
      wr_ownership_token ref = rt_ownership_token (c_runtime (rs_comp s)) \<and>
      w_absent w (E_Absent ref # earlier @ rs_log s) = (True, None)"
    by (simp add: owned_by_scope(3) own_ref_def)
  have "\<exists>later plan spec earlier. older = later @ E_Msg_Delete spec # earlier \<and>
         rt_plan (c_runtime (rs_comp s)) = Some plan \<and>
         spec = messaging_spec_of (rs_comp s) (rp_message_subscriptions plan) \<and>
         w_msg_delete w (E_Msg_Delete spec # earlier @ rs_log s) = (True, None)"
    if "c_message_isolation (rs_comp s)"
  proof -
    from confirmed that have "cleanup_seen w (rs_log s) ?m older" by (simp add: confirmed_def cleanup_scope_def)
    then obtain later spec0 earlier where "older = later @ E_Msg_Delete spec0 # earlier" "owns_spec ?m spec0"
        "w_msg_delete w (E_Msg_Delete spec0 # earlier @ rs_log s) = (True, None)"
      using cleanup_split by blast
    then show ?thesis using spec[of spec0] by blast
  qed
  with absent show ?thesis by blast
qed

theorem destroyed_after_confirmation_witness:
  "\<exists>c later ref earlier. c_phase c = PhaseDestroyed \<and> own_ref leaving_composition ref \<and>
     rs_log (snd (reconcile False calm_world (start leaving_composition))) =
       E_Save c # later @ E_Absent ref # earlier"
proof -
  obtain c ref older where run: "rs_log (snd (reconcile False calm_world (start leaving_composition))) =
      [] @ E_Save c # ([E_Guard, E_Absent ref] @ E_Delete ref # older) @ rs_log (start leaving_composition)"
      "c_phase c = PhaseDestroyed"
    using leaving_calm_run by auto
  have "c_deletion_requested (rs_comp (start leaving_composition))" by (simp add: start_def leaving_fields)
  from destroyed_after_confirmation[OF this run] obtain later ref' earlier where
      "[E_Guard, E_Absent ref] @ E_Delete ref # older = later @ E_Absent ref' # earlier" "own_ref leaving_composition ref'"
    by (auto simp: start_def own_ref_def)
  then show ?thesis using run
    by (intro exI[of _ c] exI[of _ later] exI[of _ ref'] exI[of _ earlier]) (simp add: start_def)
qed

end
