(* ===== verification/Recovery.thy ===== *)
theory Recovery
  imports Teardown
begin

text \<open>
  What a reconciliation leaves behind for the next one: after a failure a bounded backoff and an
  error a client can read, and after a published snapshot the right to skip an equal one.
\<close>

section \<open>Backoff\<close>

lemma shift_bound: "1 \<le> (2::int) ^ min n 5 \<and> (2::int) ^ min n 5 \<le> 32"
proof -
  have "min n 5 \<le> 5" by simp
  then have "(2::int) ^ min n 5 \<le> 2 ^ 5" by (intro power_increasing) auto
  then show ?thesis by simp
qed

lemma backoff_range:
  "second \<le> backoff n j \<and> backoff n j \<le> 30 * second \<and>
   min (second * 2 ^ min (n - 1) 5) (30 * second) \<le> backoff n j"
proof -
  define delay where "delay = second * 2 ^ min (n - 1) 5"
  have delay: "second \<le> delay" using shift_bound[of "n - 1"] by (simp add: delay_def)
  have "0 \<le> int j mod (delay div 4 + 1)" using delay by (intro pos_mod_sign) simp
  then have "second \<le> delay + int j mod (delay div 4 + 1)"
    "delay \<le> delay + int j mod (delay div 4 + 1)" using delay by linarith+
  moreover have "backoff n j = min (delay + int j mod (delay div 4 + 1)) (30 * second)"
    by (simp only: backoff_def Let_def delay_def)
  ultimately show ?thesis unfolding delay_def[symmetric] by linarith
qed

lemma failed_fields:
  "rt_attempts (c_runtime (failed_composition e c)) = Suc (rt_attempts (c_runtime c))"
  "c_phase (failed_composition e c) = (if c_deletion_requested c then c_phase c else PhaseFailed)"
  "c_last_error (failed_composition e c) = Some (failure_error c e)"
  "\<not> opened (failed_composition e c)"
  by (auto simp: failed_composition_def Let_def on_runtime_def on_operation_def setReady_def opened_def
      list_ex_iff split_def failure_error_def)

text \<open>
  C33: A failure always leads to a bounded retry. Whatever the error, the composition it leaves has
  one more attempt, no endpoint open, a retryable error of at most 1000 bytes, phase failed unless
  it is being deleted, and its next attempt between one and thirty seconds ahead, at least
  \<open>2^(attempts-1)\<close> seconds (at most 30): no failure can be forgotten and none can spin. The
  provider is not called.
\<close>

theorem failure_backs_off:
  "\<exists>c' d err. failure e w s = (Inr (), s\<lparr>rs_comp := c', rs_reads := Suc (rs_reads s)\<rparr>) \<and>
     rt_attempts (c_runtime c') = Suc (rt_attempts (c_runtime (rs_comp s))) \<and>
     rt_next_attempt_at (c_runtime c') = w_now w (rs_reads s) + d \<and>
     second \<le> d \<and> d \<le> 30 * second \<and>
     min (second * 2 ^ min (rt_attempts (c_runtime (rs_comp s))) 5) (30 * second) \<le> d \<and>
     c_last_error c' = Some err \<and> length (e_message err) \<le> 1000 \<and> e_retryable err \<and>
     c_phase c' = (if c_deletion_requested (rs_comp s) then c_phase (rs_comp s) else PhaseFailed) \<and>
     \<not> opened c'"
proof -
  define c where "c = failed_composition e (rs_comp s)"
  define j where "j = w_jitter w (rs_log s)"
  define d where "d = backoff (rt_attempts (c_runtime c)) j"
  define c' where "c' = on_runtime (\<lambda>rt. rt\<lparr>rt_next_attempt_at := w_now w (rs_reads s) + backoff (rt_attempts rt) j\<rparr>) c"
  have "failure e w s = (Inr (), s\<lparr>rs_comp := c', rs_reads := Suc (rs_reads s)\<rparr>)"
    by (simp add: failure_def rx_defs c_def c'_def j_def)
  moreover have "rt_attempts (c_runtime c') = rt_attempts (c_runtime c)"
    "rt_next_attempt_at (c_runtime c') = w_now w (rs_reads s) + d"
    "c_last_error c' = c_last_error c" "c_phase c' = c_phase c" "opened c' = opened c"
    by (simp_all add: c'_def d_def on_runtime_def opened_def)
  moreover have "second \<le> d" "d \<le> 30 * second" "min (second * 2 ^ min (rt_attempts (c_runtime c) - 1) 5) (30 * second) \<le> d"
    using backoff_range unfolding d_def by blast+
  ultimately show ?thesis
    using failed_fields[of e "rs_comp s"]
    by (intro exI[of _ c'] exI[of _ d] exI[of _ "failure_error (rs_comp s) e"])
      (simp add: c_def failure_error_def)
qed

section \<open>Route publication within a scan\<close>

text \<open>The snapshot of the latest route call, if the provider accepted it.\<close>

fun applied :: "world \<Rightarrow> trace \<Rightarrow> route_snapshot option" where
  "applied w [] = None"
| "applied w (e # es) =
     (case e of
        E_Routes snapshot \<Rightarrow>
          (case w_routes w (e # es) of
             (observed, None) \<Rightarrow> if rto_ready observed then Some snapshot else None
           | (observed, Some err) \<Rightarrow> None)
      | _ \<Rightarrow> applied w es)"

definition cycle_ok :: "world \<Rightarrow> rstate \<Rightarrow> bool" where
  "cycle_ok w s \<longleftrightarrow>
     (case rs_cycle s of Some (Some snapshot) \<Rightarrow> applied w (rs_log s) = Some snapshot | _ \<Rightarrow> True)"

lemma cycle_ok_state [simp]:
  "cycle_ok w (s\<lparr>rs_reads := n\<rparr>) = cycle_ok w s" "cycle_ok w (s\<lparr>rs_comp := c\<rparr>) = cycle_ok w s"
  by (simp_all add: cycle_ok_def split: option.splits)

text \<open>
  The provider's latest accepted snapshot is that of the compositions which were active at the
  latest look, in the part \<open>es\<close> of the log above \<open>base\<close>.
\<close>

definition routes_current :: "world \<Rightarrow> trace \<Rightarrow> trace \<Rightarrow> bool" where
  "routes_current w base es \<longleftrightarrow>
     (\<exists>later earlier compositions snapshot current.
        es = later @ E_Active # E_Guard # earlier \<and> E_Active \<notin> set later \<and>
        w_active w (E_Active # E_Guard # earlier @ base) = Inr compositions \<and>
        Snapshot (w_wall w (E_Active # E_Guard # earlier @ base)) compositions = Inr snapshot \<and>
        applied w (es @ base) = Some current \<and> (current = snapshot \<or> snapshot_deep_eq current snapshot))"

text \<open>Calls that are only right once the routes are: probing an ingress and removing workloads.\<close>

fun needs_routes :: "effect \<Rightarrow> bool" where
  "needs_routes (E_Verify i host pods plan) = True"
| "needs_routes (E_Host_Absent host) = True"
| "needs_routes (E_Delete ref) = True"
| "needs_routes e = False"

fun needs_met :: "world \<Rightarrow> trace \<Rightarrow> trace \<Rightarrow> bool" where
  "needs_met w base [] = True"
| "needs_met w base (e # es) = ((needs_routes e \<longrightarrow> routes_current w base es) \<and> needs_met w base es)"

definition tracked :: "world \<Rightarrow> trace \<Rightarrow> bool \<Rightarrow> rstate \<Rightarrow> bool" where
  "tracked w base current s \<longleftrightarrow> cycle_ok w s \<and>
     (\<exists>es. rs_log s = es @ base \<and> needs_met w base es \<and> (current \<longrightarrow> routes_current w base es))"

definition tracks :: "world \<Rightarrow> trace \<Rightarrow> bool \<Rightarrow> 'a rx \<Rightarrow> bool" where
  "tracks w base current m \<longleftrightarrow>
     triple w (tracked w base current) m (\<lambda>_. tracked w base current) (\<lambda>_. tracked w base False)"

lemma tracked_weaken: "tracked w base current s \<Longrightarrow> tracked w base False s"
  by (auto simp: tracked_def)

lemma routes_current_Cons:
  assumes "routes_current w base es" "e \<noteq> E_Active" "\<And>snapshot. e \<noteq> E_Routes snapshot"
  shows "routes_current w base (e # es)"
proof -
  from assms(1) obtain later earlier compositions snapshot current where
    "es = later @ E_Active # E_Guard # earlier" "E_Active \<notin> set later"
    "w_active w (E_Active # E_Guard # earlier @ base) = Inr compositions"
    "Snapshot (w_wall w (E_Active # E_Guard # earlier @ base)) compositions = Inr snapshot"
    "applied w (es @ base) = Some current" "current = snapshot \<or> snapshot_deep_eq current snapshot"
    unfolding routes_current_def by blast
  moreover have "applied w ((e # es) @ base) = applied w (es @ base)"
    using assms(3) by (cases e) auto
  ultimately show ?thesis
    using assms(2) unfolding routes_current_def
    by (intro exI[of _ "e # later"] exI[of _ earlier] exI[of _ compositions] exI[of _ snapshot] exI[of _ current]) simp
qed

subsection \<open>The constructs of a program\<close>

named_theorems track_rules "programs that call for routes only when they are current"

lemma tracks_bind [track_rules]:
  "tracks w base current m \<Longrightarrow> (\<And>a. tracks w base current (f a)) \<Longrightarrow> tracks w base current (rx_bind m f)"
  unfolding tracks_def by (rule triple_bind)

lemma tracks_seq [track_rules]:
  "tracks w base current m \<Longrightarrow> tracks w base current n \<Longrightarrow> tracks w base current (rx_seq m n)"
  unfolding tracks_def by (rule triple_seq)

lemma tracks_reads: "reads m \<Longrightarrow> tracks w base current m"
  unfolding tracks_def by (rule triple_reads) (simp_all add: tracked_def)

lemmas tracks_reading [track_rules] = reads_basic[THEN tracks_reads] tracks_reads[OF reads_range]

lemma tracks_modify [track_rules]: "tracks w base current (rx_modify f)"
  unfolding tracks_def by (rule triple_modify) (simp add: tracked_def)

lemma tracks_fail [track_rules]: "tracks w base current (rx_fail e)"
  unfolding tracks_def by (rule triple_fail) (rule tracked_weaken)

lemma tracks_call [track_rules]:
  assumes "needs_routes e \<Longrightarrow> current" "e = E_Active \<Longrightarrow> \<not> current" "\<And>snapshot. e \<noteq> E_Routes snapshot"
  shows "tracks w base current (rx_call e f)"
  unfolding tracks_def
proof (rule triple_call)
  fix s assume "tracked w base current s"
  then obtain es where "cycle_ok w s" "rs_log s = es @ base" "needs_met w base es" "current \<longrightarrow> routes_current w base es"
    by (auto simp: tracked_def)
  moreover have "applied w (e # rs_log s) = applied w (rs_log s)"
    using assms(3) by (cases e) auto
  ultimately show "tracked w base current (s\<lparr>rs_log := e # rs_log s\<rparr>)"
    using assms routes_current_Cons[of w base es e]
    by (auto simp: tracked_def cycle_ok_def split: option.splits intro!: exI[of _ "e # es"])
qed

lemma tracks_if [track_rules]:
  "(b \<Longrightarrow> tracks w base current m) \<Longrightarrow> (\<not> b \<Longrightarrow> tracks w base current n) \<Longrightarrow>
     tracks w base current (if b then m else n)"
  by simp

lemma tracks_when [track_rules]: "(b \<Longrightarrow> tracks w base current m) \<Longrightarrow> tracks w base current (rx_when b m)"
  by (simp add: rx_when_def tracks_reads)

lemma tracks_option [track_rules]:
  "(x = None \<Longrightarrow> tracks w base current m) \<Longrightarrow> (\<And>y. x = Some y \<Longrightarrow> tracks w base current (f y)) \<Longrightarrow>
     tracks w base current (case x of None \<Rightarrow> m | Some y \<Rightarrow> f y)"
  by (cases x) simp_all

lemma tracks_sum [track_rules]:
  "(\<And>y. x = Inl y \<Longrightarrow> tracks w base current (g y)) \<Longrightarrow> (\<And>y. x = Inr y \<Longrightarrow> tracks w base current (f y)) \<Longrightarrow>
     tracks w base current (case x of Inl y \<Rightarrow> g y | Inr y \<Rightarrow> f y)"
  by (cases x) simp_all

lemma tracks_prod [track_rules]:
  "(\<And>a b. x = (a, b) \<Longrightarrow> tracks w base current (f a b)) \<Longrightarrow> tracks w base current (case x of (a, b) \<Rightarrow> f a b)"
  "(\<And>a b. x = (a, b) \<Longrightarrow> tracks w base current (g a b y)) \<Longrightarrow> tracks w base current ((case x of (a, b) \<Rightarrow> g a b) y)"
  by (cases x; simp)+

lemma tracks_require [track_rules]: "tracks w base current (rx_require e)"
  unfolding rx_require_def by (intro track_rules)

lemma tracks_do [track_rules]:
  assumes "needs_routes e \<Longrightarrow> current" "e = E_Active \<Longrightarrow> \<not> current" "\<And>snapshot. e \<noteq> E_Routes snapshot"
  shows "tracks w base current (rx_do e f)" "tracks w base current (rx_do_as l e f)"
  unfolding rx_do_def rx_do_as_def using assms by (auto intro!: track_rules)

lemma tracks_save [track_rules]: "tracks w base current rx_save"
  unfolding rx_save_def by (intro track_rules) simp_all

lemma tracks_catch [track_rules]: "tracks w base False m \<Longrightarrow> tracks w base False (rx_catch m)"
  unfolding tracks_def by (rule triple_catch)

subsection \<open>Publishing\<close>

text \<open>
  \<open>syncRoutes\<close> on every path: after a refused or failed write nothing is remembered, so that a
  later call writes again; after a success the routes are current, written or skipped.
\<close>

lemma sync_cycle:
  assumes "cycle_ok w s"
  shows "cycle_ok w (snd (syncRoutes w s))"
  using assms
  by (auto simp: syncRoutes_def rx_defs cycle_ok_def split: option.splits sum.splits prod.splits if_splits)

lemma sync_current:
  assumes "cycle_ok w s" "syncRoutes w s = (Inr (), s')" "rs_log s = es @ base"
  shows "\<exists>new. rs_log s' = (new @ es) @ base \<and> list_all (\<lambda>e. \<not> needs_routes e) new \<and> routes_current w base (new @ es)"
proof -
  let ?log = "E_Active # E_Guard # es"
  obtain compositions where active: "w_active w (?log @ base) = Inr compositions"
    using assms(2,3) by (cases "w_active w (?log @ base)") (auto simp: syncRoutes_def rx_defs split: option.splits)
  obtain snapshot where snapshot: "Snapshot (w_wall w (?log @ base)) compositions = Inr snapshot"
    using assms(2,3) active by (cases "Snapshot (w_wall w (?log @ base)) compositions")
      (auto simp: syncRoutes_def rx_defs split: option.splits)
  have current: "routes_current w base (later @ ?log)"
    if "E_Active \<notin> set later" "applied w ((later @ ?log) @ base) = Some current"
      "current = snapshot \<or> snapshot_deep_eq current snapshot" for later current
    using that active snapshot unfolding routes_current_def
    by (intro exI[of _ later] exI[of _ es] exI[of _ compositions] exI[of _ snapshot] exI[of _ current]) simp
  show ?thesis
  proof (cases "\<exists>old. rs_cycle s = Some (Some old) \<and> snapshot_deep_eq old snapshot")
    case True
    then obtain old where old: "rs_cycle s = Some (Some old)" "snapshot_deep_eq old snapshot" by blast
    then have "rs_log s' = ([E_Active, E_Guard] @ es) @ base"
      using assms(2,3) active snapshot by (auto simp: syncRoutes_def rx_defs split: option.splits)
    moreover have "applied w (([] @ ?log) @ base) = Some old"
      using assms(1,3) old by (simp add: cycle_ok_def)
    ultimately show ?thesis using current[of "[]" old] old(2) by (intro exI[of _ "[E_Active, E_Guard]"]) simp
  next
    case False
    then have miss: "\<not> (case rs_cycle s of Some (Some old) \<Rightarrow> snapshot_deep_eq old snapshot | _ \<Rightarrow> False)"
      by (auto split: option.splits)
    obtain observed where routes: "w_routes w (E_Routes snapshot # ?log @ base) = (observed, None)" "rto_ready observed"
      using assms(2,3) active snapshot miss
      by (cases "w_routes w (E_Routes snapshot # ?log @ base)")
        (auto simp: syncRoutes_def rx_defs split: option.splits if_splits)
    then have "rs_log s' = ([E_Routes snapshot, E_Active, E_Guard] @ es) @ base"
      using assms(2,3) active snapshot miss
      by (auto simp: syncRoutes_def rx_defs split: option.splits if_splits)
    then show ?thesis
      using routes current[of "[E_Routes snapshot]" snapshot]
      by (intro exI[of _ "[E_Routes snapshot, E_Active, E_Guard]"]) simp
  qed
qed

lemma needs_met_append: "needs_met w base es \<Longrightarrow> list_all (\<lambda>e. \<not> needs_routes e) new \<Longrightarrow> needs_met w base (new @ es)"
  by (induction new) auto

lemma sync_tracked:
  "triple w (tracked w base False) syncRoutes (\<lambda>_. tracked w base True) (\<lambda>_. tracked w base False)"
proof (unfold triple_def, intro allI impI)
  fix s assume "tracked w base False s"
  then obtain es where es: "cycle_ok w s" "rs_log s = es @ base" "needs_met w base es" by (auto simp: tracked_def)
  obtain r s' where run: "syncRoutes w s = (r, s')" by fastforce
  have cycle: "cycle_ok w s'" using sync_cycle[OF es(1)] run by simp
  obtain new where new: "rs_log s' = new @ rs_log s" "list_all routine new"
    using emits_syncRoutes run unfolding emits_def by (metis snd_conv)
  then have "list_all (\<lambda>e. \<not> needs_routes e) new"
    by (auto simp: routine_def list_all_iff) (metis needs_routes.elims(2) provisions.simps(4) removes.simps(1,3))
  with new es have "tracked w base False s'"
    using cycle needs_met_append by (auto simp: tracked_def intro!: exI[of _ "new @ es"])
  moreover have "tracked w base True s'" if r: "r = Inr a" for a
  proof -
    obtain new where "rs_log s' = (new @ es) @ base" "list_all (\<lambda>e. \<not> needs_routes e) new" "routes_current w base (new @ es)"
      using sync_current[OF es(1) _ es(2), of s'] run r by auto
    then show ?thesis using cycle needs_met_append[OF es(3)] by (auto simp: tracked_def intro!: exI[of _ "new @ es"])
  qed
  ultimately show "case syncRoutes w s of (Inl e, s') \<Rightarrow> tracked w base False s' | (Inr a, s') \<Rightarrow> tracked w base True s'"
    using run by (cases r) auto
qed

lemma tracks_sync [track_rules]: "tracks w base current syncRoutes"
  unfolding tracks_def by (rule triple_weaken[OF sync_tracked]) (auto simp: tracked_def)

subsection \<open>The stages\<close>

text \<open>Once the routes are current, the error of a later stage leaves at least what was tracked.\<close>

lemma tracks_from_current:
  "tracks w base True m \<Longrightarrow> triple w (tracked w base True) m (\<lambda>_. tracked w base False) (\<lambda>_. tracked w base False)"
  unfolding tracks_def by (erule triple_weaken) (auto intro: tracked_weaken)

lemma tracks_plain_stages [track_rules]:
  "tracks w base current observeBaseline" "tracks w base current step_messaging" "tracks w base current (retire_all names)"
proof -
  show "tracks w base current observeBaseline"
    unfolding observeBaseline_def by (intro track_rules) simp_all
  show "tracks w base current step_messaging"
    unfolding step_messaging_def require_subscriptions_def Let_def by (intro track_rules) simp_all
  show "tracks w base current (retire_all names)"
  proof (induction names)
    case (Cons name names)
    show ?case unfolding retire_all.simps Let_def by (intro track_rules Cons.IH) simp_all
  qed (simp add: tracks_reads)
qed

lemma tracks_verify:
  "triple w (tracked w base True) (step_verify started pods) (\<lambda>_. tracked w base False) (\<lambda>_. tracked w base False)"
proof -
  have call: "triple w (tracked w base True) (rx_call (E_Verify i host pods plan) w_verify) (\<lambda>_. tracked w base False) E"
    for i host plan E
    using tracks_call[of "E_Verify i host pods plan" True w base w_verify]
    by (auto simp: tracks_def triple_def rx_call_def intro: tracked_weaken)
  have rest: "tracks w base False (
        rx_seq confirm_baseline
        (rx_bind rx_now (\<lambda>first.
         rx_bind rx_now (\<lambda>last_time.
         rx_seq (rx_modify (\<lambda>c. c\<lparr>c_pending_verification :=
           Some (new_evidence c pods verified err first last_time)\<rparr>))
         (step_verified started verified err)))))" for verified err
    unfolding confirm_baseline_def step_verified_def step_retire_def step_ready_def retire_retiring_def
    by (intro track_rules)
  show ?thesis
    unfolding step_verify_def
    by (rule triple_seq[OF tracks_modify[unfolded tracks_def]], rule triple_with_comp, rule triple_sum)
      (auto intro!: triple_fail triple_bind[OF call] rest[unfolded tracks_def] intro: tracked_weaken)
qed

lemma tracks_publish [track_rules]: "tracks w base False (step_publish started pods)"
proof -
  have "tracks w base True publish_selection"
    unfolding publish_selection_def by (intro track_rules)
  then have "triple w (tracked w base True) (rx_seq publish_selection (step_verify started pods))
      (\<lambda>_. tracked w base False) (\<lambda>_. tracked w base False)"
    unfolding tracks_def by (rule triple_seq) (rule tracks_verify)
  then have "tracks w base False (rx_seq syncRoutes (rx_seq publish_selection (step_verify started pods)))"
    unfolding tracks_def by (rule triple_seq[OF sync_tracked])
  note rest = this
  show ?thesis
    unfolding step_publish_def Let_def
    by (rule tracks_bind[OF tracks_reading(2)], rule tracks_seq[OF tracks_modify],
        rule tracks_seq[OF tracks_when[OF tracks_save] rest])
qed

lemma tracks_outcome [track_rules]: "tracks w base False (step_outcome started pg)"
  unfolding step_outcome_def step_not_ready_def step_no_endpoint_def retireEndpointFree_def retire_retiring_def
  by (intro track_rules)

lemma tracks_components [track_rules]: "tracks w base current (step_components names ks pg)"
proof (induction ks arbitrary: pg)
  case (Cons k ks)
  show ?case
    unfolding step_components.simps step_component_def resolve_execution_def ensure_workload_def Let_def
    by (intro track_rules Cons.IH) simp_all
qed (simp add: tracks_reads)

lemma tracks_destroy: "tracks w base False destroy"
proof -
  have "tracks w base True (rx_bind destroy_routes (\<lambda>gone. if gone then destroy_workloads else rx_return ()))"
    unfolding destroy_routes_def destroy_workloads_def destroy_messaging_def by (intro track_rules) simp_all
  then have "tracks w base False (rx_seq syncRoutes
      (rx_bind destroy_routes (\<lambda>gone. if gone then destroy_workloads else rx_return ())))"
    unfolding tracks_def[of w base False] by (rule triple_seq[OF sync_tracked tracks_from_current])
  then show ?thesis unfolding destroy_def by (rule tracks_seq[OF tracks_modify])
qed

lemma tracks_reconcile [track_rules]: "tracks w base False (reconcile event)"
proof -
  have "tracks w base False step"
    unfolding step_def step_provision_def step_prepared_def by (intro track_rules tracks_destroy)
  moreover have "tracks w base False (after_step event err)" for err
    unfolding after_step_def pendingRoutes_def settle_def failure_def publishObservation_def
    by (intro track_rules) simp_all
  ultimately show ?thesis unfolding reconcile_def by (intro track_rules) simp_all
qed

lemma tracks_each [track_rules]: "tracks w base False (reconcile_each event cs)"
  by (induction cs) (auto intro: track_rules)

lemma tracks_scan: "tracks w base False scan"
  unfolding scan_def by (intro track_rules) simp_all

text \<open>
  C32: Skipping a route write within a scan is safe. In a whole scan over any compositions,
  whatever the answers of the store and the providers, failed and refused route writes included:
  whenever the reconciler probes a composition's route, asks the ingress whether a host is gone or
  deletes a namespace, it has looked at the active compositions earlier in that scan, right after
  a leadership check, and at the latest such look the snapshot computed from them is, up to the
  equality by which the code compares snapshots, the one the route provider accepted last. No
  assumption about what the scan remembers is made: the scan starts with nothing remembered, and
  what it remembers is true on every path.
\<close>

theorem publication_current:
  assumes "rs_log (snd (Tick w s)) = newer @ e # older @ rs_log s" "needs_routes e"
  shows "\<exists>later earlier compositions snapshot current.
     older = later @ E_Active # E_Guard # earlier \<and> E_Active \<notin> set later \<and>
     w_active w (E_Active # E_Guard # earlier @ rs_log s) = Inr compositions \<and>
     Snapshot (w_wall w (E_Active # E_Guard # earlier @ rs_log s)) compositions = Inr snapshot \<and>
     applied w (older @ rs_log s) = Some current \<and> (current = snapshot \<or> snapshot_deep_eq current snapshot)"
proof -
  have "tracked w (rs_log s) False (s\<lparr>rs_cycle := Some None\<rparr>)"
    by (simp add: tracked_def cycle_ok_def)
  from triple_any[of w _ scan "tracked w (rs_log s) False", OF tracks_scan[unfolded tracks_def] this]
  have "needs_met w (rs_log s) (newer @ e # older)"
    using assms(1) by (auto simp: tracked_def Tick_def split_def)
  then have "routes_current w (rs_log s) older" using assms(2) by (induction newer) auto
  then show ?thesis unfolding routes_current_def .
qed

text \<open>
  A scan that destroys the shop's composition: the routes are written once, the second publication
  is skipped, and the namespace is deleted.
\<close>

definition leaving_world :: world where
  "leaving_world = calm_world\<lparr>w_active := (\<lambda>log. if length log = 3 then Inr [leaving_composition] else Inr [])\<rparr>"

lemma leaving_scan:
  "\<exists>newer ref c. rs_log (snd (Tick leaving_world (start demo_composition))) =
     newer @ E_Delete ref # [E_Active, E_Guard, E_Save c, E_Host_Absent ''c1.example.com'', E_Routes empty_snapshot,
       E_Active, E_Guard, E_Guard, E_Active, E_Expire 100, E_Guard] @ rs_log (start demo_composition)"
proof -
  let ?s = "\<lparr>rs_comp = leaving_composition, rs_log = [E_Active, E_Expire 100, E_Guard], rs_reads = 1, rs_cycle = Some None\<rparr>"
  have "idle_from leaving_world ?s" by (auto simp: idle_from_def leaving_world_def)
  from leaving_run[OF this] obtain c ref c' where run: "rs_log (snd (reconcile False leaving_world ?s)) =
      [E_Save c, E_Guard, E_Absent ref] @ E_Delete ref # [E_Active, E_Guard, E_Save c',
        E_Host_Absent ''c1.example.com'', E_Routes empty_snapshot, E_Active, E_Guard, E_Guard,
        E_Active, E_Expire 100, E_Guard]"
    by auto
  have "snd (Tick leaving_world (start demo_composition)) = (snd (reconcile False leaving_world ?s))\<lparr>rs_cycle := None\<rparr>"
    by (simp add: Tick_def scan_def start_def leaving_world_def calm_world_def rx_defs split: prod.splits sum.splits)
  with run show ?thesis
    by (intro exI[of _ "[E_Save c, E_Guard, E_Absent ref]"] exI[of _ ref] exI[of _ c']) (simp add: start_def)
qed

theorem publication_current_witness:
  "\<exists>newer ref older later earlier.
     rs_log (snd (Tick leaving_world (start demo_composition))) = newer @ E_Delete ref # older \<and>
     older = later @ E_Active # E_Guard # earlier \<and> E_Active \<notin> set later \<and>
     applied leaving_world older = Some empty_snapshot \<and> length (filter ((=) E_Active) older) = 3 \<and>
     length (filter ((=) (E_Routes empty_snapshot)) older) = 1"
proof -
  obtain newer ref c where run: "rs_log (snd (Tick leaving_world (start demo_composition))) =
     newer @ E_Delete ref # [E_Active, E_Guard, E_Save c, E_Host_Absent ''c1.example.com'', E_Routes empty_snapshot,
       E_Active, E_Guard, E_Guard, E_Active, E_Expire 100, E_Guard] @ rs_log (start demo_composition)"
    using leaving_scan by blast
  define older where "older = [E_Active, E_Guard, E_Save c, E_Host_Absent ''c1.example.com'', E_Routes empty_snapshot,
       E_Active, E_Guard, E_Guard, E_Active, E_Expire 100, E_Guard]"
  have routes: "w_routes leaving_world log = (\<lparr>rto_ready = True, rto_message = []\<rparr>, None)" for log
    by (simp add: leaving_world_def calm_world_def)
  have counts: "applied leaving_world older = Some empty_snapshot" "length (filter ((=) E_Active) older) = 3"
    "length (filter ((=) (E_Routes empty_snapshot)) older) = 1"
    by (simp_all add: older_def routes)
  have log: "rs_log (snd (Tick leaving_world (start demo_composition))) = newer @ E_Delete ref # older"
    using run by (simp add: older_def start_def)
  obtain later earlier where "older = later @ E_Active # E_Guard # earlier" "E_Active \<notin> set later"
    using publication_current[OF run] by (auto simp: older_def)
  with log counts show ?thesis by blast
qed

end
