(* ===== verification/Queue.thy ===== *)
theory Queue
  imports Reconciler_Props
begin

text \<open>
  The event-driven queue of \<open>internal/reconciler/queue.go\<close>: the index from namespaces to routing
  domains, the handlers that turn events into queue calls, and one worker's treatment of a domain.
  The rate-limiting workqueue itself is a library; its calls are recorded in order. Locks and
  goroutines are left out: every handler runs under the session's lock.
\<close>

section \<open>Sessions\<close>

type_synonym routing_key = "string \<times> string"

datatype queue_call =
    Q_Add routing_key
  | Q_Add_After routing_key duration
  | Q_Add_Rate_Limited routing_key
  | Q_Forget routing_key
  | Q_Done routing_key

record queue_session =
  qs_by_namespace :: "(string \<times> routing_key list) list"
  qs_calls :: "queue_call list"

definition routing_key_of :: "composition \<Rightarrow> routing_key" where
  "routing_key_of c = (c_project c, c_baseline c)"

definition indexed_namespaces :: "composition \<Rightarrow> string list" where
  "indexed_namespaces c = NamespaceForID (c_id c) #
     (case rt_plan (c_runtime c) of
        None \<Rightarrow> []
      | Some plan \<Rightarrow> [br_namespace (b_routing (rp_baseline plan)),
                       br_gateway_namespace (b_routing (rp_baseline plan))])"

definition add_call :: "queue_call \<Rightarrow> queue_session \<Rightarrow> queue_session" where
  "add_call x q = q\<lparr>qs_calls := qs_calls q @ [x]\<rparr>"

definition index_namespace ::
  "routing_key \<Rightarrow> string \<Rightarrow> (string \<times> routing_key list) list \<Rightarrow> (string \<times> routing_key list) list"
where
  "index_namespace key ns index = AList.update ns (List.insert key (get_or [] index ns)) index"

text \<open>\<open>index\<close>\<close>

definition index_composition :: "composition \<Rightarrow> queue_session \<Rightarrow> queue_session" where
  "index_composition c q = q\<lparr>qs_by_namespace :=
     fold (index_namespace (routing_key_of c)) (indexed_namespaces c) (qs_by_namespace q)\<rparr>"

definition enqueue_composition :: "composition \<Rightarrow> queue_session \<Rightarrow> queue_session" where
  "enqueue_composition c q = add_call (Q_Add (routing_key_of c)) (index_composition c q)"

section \<open>Events\<close>

definition sweep :: "queue_session \<Rightarrow> queue_session rx" where
  "sweep q =
     rx_bind (rx_call E_Active w_active) (\<lambda>all.
       case all of
         Inl e \<Rightarrow> rx_fail e
       | Inr compositions \<Rightarrow> rx_return (fold enqueue_composition compositions (q\<lparr>qs_by_namespace := []\<rparr>)))"

text \<open>The code ranges over maps here: the calls are made in some order, this is one of them.\<close>

definition namespaceChanged :: "string \<Rightarrow> queue_session \<Rightarrow> queue_session" where
  "namespaceChanged ns q =
     (if ns \<noteq> [] then fold (\<lambda>key. add_call (Q_Add key)) (get_or [] (qs_by_namespace q) ns) q
      else fold (\<lambda>(_, keys). fold (\<lambda>key. add_call (Q_Add key)) keys) (qs_by_namespace q) q)"

definition desiredChanged :: "string \<Rightarrow> queue_session \<Rightarrow> queue_session rx" where
  "desiredChanged i q =
     (if i = [] then
        (\<lambda>w s. case sweep q w s of (Inl e, s') \<Rightarrow> (Inr q, s') | (Inr q', s') \<Rightarrow> (Inr q', s'))
      else
        rx_bind (rx_call (E_Get i) w_get) (\<lambda>row.
          case row of
            Inl e \<Rightarrow> rx_return q
          | Inr c \<Rightarrow> rx_return (enqueue_composition c q)))"

section \<open>Workers\<close>

text \<open>One key: a failed reconciliation is retried with the queue's own rate limit.\<close>

definition process :: "routing_key \<Rightarrow> queue_session \<Rightarrow> queue_session rx" where
  "process key q w s =
     (case reconcileDomain (fst key) (snd key) w s of
        (Inl e, s') \<Rightarrow> (Inr (add_call (Q_Done key) (add_call (Q_Add_Rate_Limited key) q)), s')
      | (Inr delay, s') \<Rightarrow>
          (Inr (add_call (Q_Done key) (add_call (Q_Forget key)
             (case delay of None \<Rightarrow> q | Some d \<Rightarrow> add_call (Q_Add_After key d) q))), s'))"

section \<open>Timers and startup\<close>

datatype timer_event = Context_Done go_error | Recovery_Tick | Expiry_Tick

fun timers :: "timer_event list \<Rightarrow> queue_session \<Rightarrow> queue_session rx" where
  "timers [] q = rx_return q"
| "timers (Context_Done e # events) q = rx_fail e"
| "timers (Recovery_Tick # events) q = rx_bind (sweep q) (timers events)"
| "timers (Expiry_Tick # events) q =
     rx_seq (rx_do E_Guard w_guard)
     (rx_bind rx_now (\<lambda>now. rx_seq (rx_do (E_Expire now) w_expire) (timers events q)))"

definition empty_session :: queue_session where
  "empty_session = \<lparr>qs_by_namespace = [], qs_calls = []\<rparr>"

definition runQueue :: "timer_event list \<Rightarrow> queue_session rx" where
  "runQueue events =
     rx_bind (rx_config w_has_guard) (\<lambda>has_guard.
     if \<not> has_guard then rx_fail (Plain ''reconciler requires a leadership guard'')
     else
       rx_seq (rx_do E_Guard w_guard)
       (rx_bind rx_now (\<lambda>now.
        rx_seq (rx_do (E_Expire now) w_expire)
        (rx_bind (sweep empty_session) (\<lambda>q.
         rx_bind (rx_config w_watches) (\<lambda>watches.
         rx_seq (rx_when watches (rx_do E_Watch w_watch))
         (rx_bind rx_now (\<lambda>now.
          rx_seq (rx_do (E_Expire now) w_expire) (timers events q)))))))))"

section \<open>The index\<close>

definition indexed :: "queue_session \<Rightarrow> string \<Rightarrow> routing_key set" where
  "indexed q ns = set (get_or [] (qs_by_namespace q) ns)"

lemma index_namespace_get:
  "set (get_or [] (index_namespace key ns' index) ns) =
     (if ns = ns' then insert key (set (get_or [] index ns)) else set (get_or [] index ns))"
  by (auto simp: index_namespace_def get_or_def update_conv')

lemma index_namespaces_get:
  "set (get_or [] (fold (index_namespace key) nss index) ns) =
     (if ns \<in> set nss then insert key (set (get_or [] index ns)) else set (get_or [] index ns))"
  by (induction nss arbitrary: index) (auto simp: index_namespace_get)

lemma indexed_composition:
  "indexed (index_composition c q) ns =
     (if ns \<in> set (indexed_namespaces c) then insert (routing_key_of c) (indexed q ns) else indexed q ns)"
  by (simp add: indexed_def index_composition_def index_namespaces_get)

lemma enqueue_calls [simp]: "qs_calls (enqueue_composition c q) = qs_calls q @ [Q_Add (routing_key_of c)]"
  by (simp add: enqueue_composition_def add_call_def index_composition_def)

lemma enqueue_indexed [simp]: "indexed (enqueue_composition c q) ns =
    (if ns \<in> set (indexed_namespaces c) then insert (routing_key_of c) (indexed q ns) else indexed q ns)"
  unfolding indexed_composition[symmetric] by (simp add: enqueue_composition_def add_call_def indexed_def)

lemma enqueue_all:
  "qs_calls (fold enqueue_composition cs q) = qs_calls q @ map (Q_Add \<circ> routing_key_of) cs"
  "indexed (fold enqueue_composition cs q) ns =
     indexed q ns \<union> {routing_key_of c | c. c \<in> set cs \<and> ns \<in> set (indexed_namespaces c)}"
  by (induction cs arbitrary: q) auto

lemma add_keys: "qs_calls (fold (\<lambda>key. add_call (Q_Add key)) keys q) = qs_calls q @ map Q_Add keys"
  by (induction keys arbitrary: q) (simp_all add: add_call_def)

text \<open>
  Events reach exactly the right domains. After a successful sweep every active composition's
  domain has been queued, and an event of a namespace queues exactly the domains of the active
  compositions that live in it, through their own namespace, their baseline's or its gateway's;
  what the index held before the sweep is forgotten.
\<close>

theorem events_reach_domains:
  assumes "sweep q w s = (Inr q', s')" "w_active w (E_Active # rs_log s) = Inr compositions" "ns \<noteq> []"
  shows "qs_calls q' = qs_calls q @ map (Q_Add \<circ> routing_key_of) compositions \<and>
    (\<exists>keys. qs_calls (namespaceChanged ns q') = qs_calls q' @ map Q_Add keys \<and>
       set keys = {routing_key_of c | c. c \<in> set compositions \<and> ns \<in> set (indexed_namespaces c)})"
proof -
  have q': "q' = fold enqueue_composition compositions (q\<lparr>qs_by_namespace := []\<rparr>)"
    using assms(1,2) by (simp add: sweep_def rx_defs)
  have "indexed q' ns = {routing_key_of c | c. c \<in> set compositions \<and> ns \<in> set (indexed_namespaces c)}"
    unfolding q' enqueue_all by (simp add: indexed_def get_or_def)
  moreover have "qs_calls (namespaceChanged ns q') = qs_calls q' @ map Q_Add (get_or [] (qs_by_namespace q') ns)"
    using assms(3) by (simp add: namespaceChanged_def add_keys)
  ultimately show ?thesis
    using q' by (auto simp: enqueue_all indexed_def intro!: exI[of _ "get_or [] (qs_by_namespace q') ns"])
qed

theorem events_reach_domains_witness:
  "\<exists>q' keys. qs_calls q' = [Q_Add (''demo'', ''staging'')] \<and>
     qs_calls (namespaceChanged ''envy-c1'' q') = [Q_Add (''demo'', ''staging'')] @ map Q_Add keys \<and> set keys = {(''demo'', ''staging'')}"
proof -
  define w where "w = calm_world\<lparr>w_active := (\<lambda>_. Inr [demo_composition])\<rparr>"
  have demo: "routing_key_of demo_composition = (''demo'', ''staging'')" "''envy-c1'' \<in> set (indexed_namespaces demo_composition)"
    by (simp_all add: routing_key_of_def indexed_namespaces_def demo_composition_def zero_composition_def
        NamespaceForID_def replace_char_def)
  obtain q' s' where run: "sweep empty_session w (start demo_composition) = (Inr q', s')"
    by (simp add: sweep_def rx_defs w_def)
  have "w_active w (E_Active # rs_log (start demo_composition)) = Inr [demo_composition]" by (simp add: w_def)
  from events_reach_domains[OF run this, of "''envy-c1''"] demo show ?thesis
    by (intro exI[of _ q']) (auto simp: empty_session_def)
qed

section \<open>Requeueing\<close>

lemma min_fold:
  fixes f :: "'a \<Rightarrow> duration"
  shows "fold (\<lambda>x d. min (f x) d) xs d \<le> d \<and> (\<forall>x\<in>set xs. fold (\<lambda>x d. min (f x) d) xs d \<le> f x) \<and>
    ((\<forall>x\<in>set xs. b \<le> f x) \<longrightarrow> b \<le> d \<longrightarrow> b \<le> fold (\<lambda>x d. min (f x) d) xs d)"
  by (induction xs arbitrary: d) (auto, (smt (verit, best) min.coboundedI1 min.coboundedI2 min.absorb_iff1)+)

lemma next_delay_bounds:
  "next_delay clock interval rows \<le> 30 * second \<and> min interval (30 * second) \<le> next_delay clock interval rows"
proof -
  let ?f = "\<lambda>(i, c). max (time_sub (rt_next_attempt_at (c_runtime c)) (clock i)) interval"
  have "next_delay clock interval rows = fold (\<lambda>x d. min (?f x) d) (enumerate 0 rows) (30 * second)"
    by (simp add: next_delay_def split_def)
  moreover have "min interval (30 * second) \<le> ?f x" for x by (cases x) auto
  ultimately show ?thesis
    using min_fold[of ?f "enumerate 0 rows" "30 * second" "min interval (30 * second)"] by auto
qed

text \<open>
  C40: A worker never drops a domain that still has work. After one key is processed the key is
  given back exactly once, as its last call; a failed reconciliation is retried under the rate
  limit; a successful one is forgotten by the rate limiter, and looked at again after between the
  scan interval and thirty seconds unless the store answered that nothing of the domain is active.
\<close>

theorem worker_requeues:
  "\<exists>q' calls s'. process key q w s = (Inr q', s') \<and> qs_calls q' = qs_calls q @ calls @ [Q_Done key] \<and>
     qs_by_namespace q' = qs_by_namespace q \<and>
     (case fst (reconcileDomain (fst key) (snd key) w s) of
        Inl e \<Rightarrow> calls = [Q_Add_Rate_Limited key]
      | Inr None \<Rightarrow> calls = [Q_Forget key] \<and>
          (\<exists>log. w_active_domain w (E_Active_Domain (fst key) (snd key) # log) = Inr [])
      | Inr (Some d) \<Rightarrow> calls = [Q_Add_After key d, Q_Forget key] \<and>
          min (w_interval w) (30 * second) \<le> d \<and> d \<le> 30 * second)"
proof -
  let ?r = "reconcileDomain (fst key) (snd key) w s"
  have none: "\<exists>log. w_active_domain w (E_Active_Domain (fst key) (snd key) # log) = Inr []" if "fst ?r = Inr None"
    using that by (auto simp: reconcileDomain_def rx_defs split: sum.splits prod.splits if_splits)
  have some: "min (w_interval w) (30 * second) \<le> d \<and> d \<le> 30 * second" if "fst ?r = Inr (Some d)" for d
    using that next_delay_bounds
    by (auto simp: reconcileDomain_def rx_defs split: sum.splits prod.splits if_splits)
  obtain r s' where r: "?r = (r, s')" by (cases ?r)
  show ?thesis
  proof (cases r)
    case (Inl e)
    with r show ?thesis
      by (auto simp: process_def add_call_def intro!: exI[of _ "[Q_Add_Rate_Limited key]"])
  next
    case (Inr d)
    show ?thesis
    proof (cases d)
      case None
      with r Inr none show ?thesis
        by (auto simp: process_def add_call_def intro!: exI[of _ "[Q_Forget key]"])
    next
      case (Some x)
      with r Inr some[of x] show ?thesis
        by (auto simp: process_def add_call_def intro!: exI[of _ "[Q_Add_After key x, Q_Forget key]"])
    qed
  qed
qed

end
