(* ===== verification/Service.thy ===== *)
theory Service
  imports Store Messaging Workload Go_Url
begin

text \<open>
  The composition service of \<open>internal/application\<close> (\<open>service.go\<close>, with what it uses of
  \<open>preview.go\<close> and \<open>builds.go\<close>): it normalises and validates a request, resolves it against the
  catalog into a plan, and commits it to the store.

  The catalog reads, the preview discovery, GitHub, the image registry and the messaging provider
  are interfaces: their answers during one request are functions in \<open>catalog\<close> and
  \<open>service_config\<close>, an absent one is \<open>None\<close>. The composition store is the model's own.
\<close>

section \<open>Interfaces\<close>

record preview_profile =
  pf_project :: string
  pf_baseline :: string
  pf_component :: string
  pf_revision :: int
  pf_selection :: preview_selection
  pf_source_uid :: string
  pf_contract :: string
  pf_dependencies :: "preview_dependency list"

text \<open>The fields of a \<open>PreviewReport\<close> that decisions depend on.\<close>

record preview_report =
  rep_source :: preview_source
  rep_selection :: preview_selection
  rep_inspection :: string
  rep_contract :: string
  rep_dependencies :: "preview_dependency list"
  rep_blockers :: "string list"
  rep_snapshot :: preview_snapshot

record preview_approval =
  pa_selection :: preview_selection
  pa_inspection :: string
  pa_expected_revision :: int
  pa_confirm_connectivity :: bool

record catalog =
  ca_baseline :: "string \<Rightarrow> string \<Rightarrow> baseline result"
  ca_component :: "string \<Rightarrow> string \<Rightarrow> component result"
  ca_preview_profile :: "(string \<Rightarrow> string \<Rightarrow> string \<Rightarrow> preview_profile option result) option"
  ca_build :: "(string \<Rightarrow> string \<Rightarrow> build result) option"
  ca_repository :: "string \<Rightarrow> string \<Rightarrow> source_repository result"

record service_config =
  sc_default_ttl :: duration
  sc_max_ttl :: duration
  sc_max_compositions :: nat
  sc_preview_base_url :: string
  sc_installation :: string
  sc_approved_secrets :: "string list"
  sc_messaging :: "(baseline \<Rightarrow> go_error option) option"
  sc_discoverer :: "(baseline \<Rightarrow> component \<Rightarrow> preview_selection \<Rightarrow> preview_report result) option"
  sc_source_control :: "(source_repository \<Rightarrow> go_error option) option"
  sc_image_registry :: "(string \<Rightarrow> go_error option) option"

definition service_defaults :: "service_config \<Rightarrow> service_config" where
  "service_defaults cfg = cfg
     \<lparr>sc_default_ttl := (if sc_default_ttl cfg = 0 then 8 * hour else sc_default_ttl cfg),
      sc_max_ttl := (if sc_max_ttl cfg = 0 then 24 * hour else sc_max_ttl cfg),
      sc_max_compositions := (if sc_max_compositions cfg = 0 then 20 else sc_max_compositions cfg),
      sc_preview_base_url := (if sc_preview_base_url cfg = [] then ''http://envy.localhost:8080''
                              else sc_preview_base_url cfg)\<rparr>"

text \<open>An error with a code of its own, and the rest of \<open>if err := ...; err != nil { return }\<close>.\<close>

definition service_error :: "string \<Rightarrow> string \<Rightarrow> go_error" where
  "service_error code message = Domain_Error (domain_err code message)"

definition check_then :: "go_error option \<Rightarrow> 'a result \<Rightarrow> 'a result" where
  "check_then err r = (case err of None \<Rightarrow> r | Some e \<Rightarrow> Inl e)"

definition result_then :: "'a result \<Rightarrow> ('a \<Rightarrow> 'b result) \<Rightarrow> 'b result" where
  "result_then r f = (case r of Inl e \<Rightarrow> Inl e | Inr a \<Rightarrow> f a)"

lemma result_then_Inr: "result_then r f = Inr x \<longleftrightarrow> (\<exists>a. r = Inr a \<and> f a = Inr x)"
  by (cases r) (auto simp: result_then_def)

lemma check_then_Inr: "check_then e r = Inr x \<longleftrightarrow> e = None \<and> r = Inr x"
  by (cases e) (auto simp: check_then_def)

section \<open>Validation\<close>

definition ValidatePage :: "string \<Rightarrow> int \<Rightarrow> go_error option" where
  "ValidatePage after limit =
     (if limit < 1 \<or> 100 < limit then Some (Validation ''limit must be between 1 and 100'')
      else if 128 < length after \<or> contains_any after [CHR 0x00, carriage_return, newline]
      then Some (Validation ''invalid pagination cursor'')
      else None)"

definition validatePreviewGuards :: "int gomap \<Rightarrow> component_override gomap option \<Rightarrow> go_error option" where
  "validatePreviewGuards guards overrides =
     (if list_ex (\<lambda>(component, revision). \<not> has_key (nil_map overrides) component \<or> revision < 1) guards
      then Some (Validation ''expected_preview_revisions requires selected components and positive revisions'')
      else None)"

definition validate_override :: "string \<Rightarrow> component_override \<Rightarrow> go_error option" where
  "validate_override component o' =
     (if \<not> ValidCatalogID component then Some (Validation ''invalid override component ID'')
      else if o_source o' \<noteq> None then Some (Validation ''source provenance is read-only'')
      else if o_build_id o' \<noteq> [] then
        (if o_image o' \<noteq> [] \<or> length (o_build_id o') \<noteq> 64
         then Some (Validation ''select either image or build_id'')
         else if \<not> list_all is_hex (o_build_id o') then Some (Validation ''invalid build_id'')
         else None)
      else if is_blank (o_image o') \<or> 512 < length (o_image o') \<or>
        contains_any (o_image o') [CHR '' '', tab, carriage_return, newline]
      then Some (Validation ''image must be a nonempty container image reference without whitespace'')
      else None)"

fun validate_overrides :: "component_override gomap \<Rightarrow> string list \<Rightarrow> go_error option" where
  "validate_overrides m [] = None"
| "validate_overrides m (component # rest) =
     (case validate_override component (get_or zero_override m component) of
        Some e \<Rightarrow> Some e
      | None \<Rightarrow> validate_overrides m rest)"

definition ValidateOverrides :: "component_override gomap option \<Rightarrow> go_error option" where
  "ValidateOverrides overrides =
     (case overrides of
        None \<Rightarrow> Some (Validation ''between zero and three component overrides are required'')
      | Some m \<Rightarrow>
          if MaxOverrides < map_len m
          then Some (Validation ''between zero and three component overrides are required'')
          else validate_overrides m (OverrideNames m))"

section \<open>Normalisation\<close>

definition requested_ttl :: "string \<Rightarrow> duration \<Rightarrow> duration option" where
  "requested_ttl ttl default_ttl = (if ttl = [] then Some default_ttl else parse_duration ttl)"

definition NormalizeCreate :: "create_request \<Rightarrow> service_config \<Rightarrow> (create_request \<times> duration) result" where
  "NormalizeCreate req cfg =
     (if is_blank (cr_project req) \<or> is_blank (cr_baseline req)
      then Inl (Validation ''project and baseline are required'')
      else if is_blank (cr_name req) \<or> 128 < length (cr_name req)
      then Inl (Validation (''name must contain 1'' @ en_dash @ ''128 characters''))
      else check_then (validatePreviewGuards (cr_expected_preview_revisions req) (cr_overrides req))
       (check_then (ValidateOverrides (cr_overrides req))
        (if map_len (cr_resources req) \<noteq> 0
         then Inl (Validation ''resource overrides are not supported; baseline resources are inherited'')
         else
           let default_ttl = (if sc_default_ttl cfg = 0 then 8 * hour else sc_default_ttl cfg);
               max_ttl = (if sc_max_ttl cfg = 0 then 24 * hour else sc_max_ttl cfg)
           in case requested_ttl (cr_ttl req) default_ttl of
                None \<Rightarrow> Inl (Validation ''ttl must be a valid Go duration'')
              | Some ttl \<Rightarrow>
                  if ttl \<le> 0 \<or> max_ttl < ttl
                  then Inl (Validation (''ttl must be positive and no greater than '' @ show_duration max_ttl))
                  else Inr (req\<lparr>cr_resources := [], cr_ttl := show_duration ttl\<rparr>, ttl))))"

section \<open>Builds\<close>

definition sourceReady :: "service_config \<Rightarrow> go_error option" where
  "sourceReady cfg = (case sc_source_control cfg of
     None \<Rightarrow> Some (service_error ''unavailable'' ''GitHub App is not configured'') | Some _ \<Rightarrow> None)"

definition source_check :: "service_config \<Rightarrow> source_repository \<Rightarrow> go_error option" where
  "source_check cfg r = (case sc_source_control cfg of None \<Rightarrow> None | Some check \<Rightarrow> check r)"

definition eligibleRepository ::
  "catalog \<Rightarrow> service_config \<Rightarrow> string \<Rightarrow> string \<Rightarrow> source_repository result"
where
  "eligibleRepository ca cfg project i =
     (if ca_build ca = None then Inl (service_error ''unavailable'' ''build catalog is unavailable'')
      else result_then (ca_repository ca project i) (\<lambda>r.
        if \<not> sr_enabled r then Inl (service_error ''conflict'' ''repository is disabled'')
        else check_then (sourceReady cfg) (check_then (source_check cfg r) (Inr r))))"

definition checkImage :: "service_config \<Rightarrow> string \<Rightarrow> go_error option" where
  "checkImage cfg img = (case sc_image_registry cfg of
     None \<Rightarrow> Some (service_error ''unavailable'' ''image registry lookup is not configured'')
   | Some check \<Rightarrow> check img)"

definition resolve_build ::
  "catalog \<Rightarrow> service_config \<Rightarrow> string \<Rightarrow> string \<Rightarrow> component_override \<Rightarrow> component_override result"
where
  "resolve_build ca cfg project component o' =
     (if o_build_id o' = [] then Inr o'
      else case ca_build ca of
        None \<Rightarrow> Inl (service_error ''unavailable'' ''build catalog is unavailable'')
      | Some get_build \<Rightarrow>
          result_then (get_build project (o_build_id o')) (\<lambda>b.
          if bd_component b \<noteq> component
          then Inl (Validation ''build does not belong to the selected component'')
          else
            result_then (eligibleRepository ca cfg project (bd_repository b)) (\<lambda>r.
            if \<not> has_prefix (bd_image b) (get_or [] (sr_images r) component @ ''@sha256:'')
            then Inl (Validation ''build no longer matches repository image mapping'')
            else check_then (checkImage cfg (bd_image b))
              (Inr \<lparr>o_image = bd_image b, o_build_id = bd_id b, o_source = Some b\<rparr>))))"

fun resolve_builds ::
  "catalog \<Rightarrow> service_config \<Rightarrow> string \<Rightarrow> component_override gomap \<Rightarrow> component_override gomap \<Rightarrow>
     component_override gomap result"
where
  "resolve_builds ca cfg project [] out = Inr out"
| "resolve_builds ca cfg project ((component, o') # rest) out =
     result_then (resolve_build ca cfg project component o') (\<lambda>resolved.
       resolve_builds ca cfg project rest (AList.update component resolved out))"

definition resolveOverrides ::
  "catalog \<Rightarrow> service_config \<Rightarrow> string \<Rightarrow> component_override gomap \<Rightarrow> component_override gomap result"
where
  "resolveOverrides ca cfg project m = resolve_builds ca cfg project m []"

section \<open>Previews\<close>

text \<open>\<open>^[^\s@]+@sha256:[a-f0-9]{64}$\<close>\<close>

definition validPreviewImage :: "string \<Rightarrow> bool" where
  "validPreviewImage img \<longleftrightarrow>
     (let location = takeWhile (\<lambda>c. c \<noteq> CHR ''@'') img; digest = dropWhile (\<lambda>c. c \<noteq> CHR ''@'') img in
      location \<noteq> [] \<and> \<not> contains_any location [CHR '' '', tab, newline, CHR 0x0C, carriage_return] \<and>
      has_prefix digest ''@sha256:'' \<and> length (drop 8 digest) = 64 \<and> list_all is_lower_hex (drop 8 digest))"

definition DiscoverPreview ::
  "catalog \<Rightarrow> service_config \<Rightarrow> string \<Rightarrow> string \<Rightarrow> string \<Rightarrow> preview_selection \<Rightarrow> preview_report result"
where
  "DiscoverPreview ca cfg project base component selection =
     (case sc_discoverer cfg of
        None \<Rightarrow> Inl (service_error ''unavailable'' ''preview discovery is unavailable'')
      | Some discover \<Rightarrow>
          result_then (ca_baseline ca project base) (\<lambda>b.
          result_then (ca_component ca project component) (\<lambda>c.
          if \<not> cp_overridable c then Inl (Validation ''component does not permit overrides'')
          else if \<not> has_key (b_components b) component
          then Inl (Validation ''component is not bound in baseline'')
          else discover b c selection)))"

definition resolvePreview ::
  "catalog \<Rightarrow> service_config \<Rightarrow> baseline \<Rightarrow> component \<Rightarrow> int \<Rightarrow> preview_snapshot option result"
where
  "resolvePreview ca cfg b c expected =
     (case ca_preview_profile ca of
        None \<Rightarrow>
          if expected \<noteq> 0 \<or> IsDeploymentProfile (cp_profile c)
          then Inl (Validation ''no preview profile exists'') else Inr None
      | Some read_profile \<Rightarrow>
          result_then (read_profile (b_project b) (b_id b) (cp_id c)) (\<lambda>profile.
          case profile of
            None \<Rightarrow>
              if IsDeploymentProfile (cp_profile c)
              then Inl (Validation ''deployment-derived component requires preview discovery and approval'')
              else if expected \<noteq> 0 then Inl (Validation ''no preview profile exists'') else Inr None
          | Some p \<Rightarrow>
              if expected \<noteq> 0 \<and> expected \<noteq> pf_revision p
              then Inl (service_error ''conflict'' ''preview profile revision changed'')
              else
                result_then (DiscoverPreview ca cfg (b_project b) (b_id b) (cp_id c) (pf_selection p)) (\<lambda>report.
                if rep_blockers report \<noteq> [] \<or> psrc_uid (rep_source report) \<noteq> pf_source_uid p \<or>
                  rep_contract report \<noteq> pf_contract p
                then Inl (service_error ''conflict''
                  ''deployed workload no longer matches approved preview contract; discover and approve again'')
                else Inr (Some ((rep_snapshot report)\<lparr>sn_revision := pf_revision p\<rparr>)))))"

text \<open>\<open>ApprovePreview\<close> up to the store call: the profile it stores and the revision it expects.\<close>

definition ApprovePreview ::
  "catalog \<Rightarrow> service_config \<Rightarrow> string \<Rightarrow> string \<Rightarrow> string \<Rightarrow> preview_approval \<Rightarrow> (preview_profile \<times> int) result"
where
  "ApprovePreview ca cfg project base component a =
     (if \<not> pa_confirm_connectivity a \<or> pa_inspection a = [] \<or> pa_expected_revision a < 0
      then Inl (Validation ''approval requires inspection, expected_revision and confirmed service connectivity'')
      else
        result_then (DiscoverPreview ca cfg project base component (pa_selection a)) (\<lambda>report.
        if rep_inspection report \<noteq> pa_inspection a
        then Inl (service_error ''conflict'' ''source changed since discovery; discover again'')
        else if rep_blockers report \<noteq> []
        then Inl (Validation ''preview discovery has blockers; resolve them before approval'')
        else if ca_preview_profile ca = None
        then Inl (service_error ''unavailable'' ''preview profile storage unavailable'')
        else Inr (\<lparr>pf_project = project, pf_baseline = base, pf_component = component, pf_revision = 0,
          pf_selection = rep_selection report, pf_source_uid = psrc_uid (rep_source report),
          pf_contract = rep_contract report, pf_dependencies = rep_dependencies report\<rparr>,
          pa_expected_revision a)))"

end
