(* ===== verification/Compose.thy ===== *)
theory Compose
  imports Service
begin

text \<open>
  Creating and updating compositions, \<open>Create\<close>, \<open>prepareCreate\<close> and \<open>Update\<close> of
  \<open>internal/application/service.go\<close>: a request becomes a resolved plan, an endpoint and a
  composition, which the store commits. \<open>now\<close> is the service's clock; the identifiers are the
  first random reads of the call.
\<close>

section \<open>The digest of a request\<close>

definition resource_json :: "resource_override \<Rightarrow> json" where
  "resource_json r = JObj ((''strategy'', JStr (ro_strategy r)) # omit_empty ''source'' (JStr (ro_source r)))"

definition create_json :: "create_request \<Rightarrow> json" where
  "create_json req = JObj
     (omit_empty ''message_isolation'' (JBool (cr_message_isolation req)) @
      omit_empty ''expected_preview_revisions'' (JMap JInt (cr_expected_preview_revisions req)) @
      omit_empty ''expected_baseline_revision'' (JStr (cr_expected_baseline_revision req)) @
      [(''project'', JStr (cr_project req)), (''baseline'', JStr (cr_baseline req)),
       (''name'', JStr (cr_name req)), (''overrides'', JMapOpt override_json (cr_overrides req))] @
      omit_empty ''resources'' (JMap resource_json (cr_resources req)) @
      omit_empty ''ttl'' (JStr (cr_ttl req)))"

definition create_digest :: "create_request \<Rightarrow> string" where
  "create_digest req = sha256_hex (json_encode (create_json req))"

text \<open>\<open>ReplayCreate\<close>: the composition an earlier request with this key made, if there is one.\<close>

definition ReplayCreate :: "string \<Rightarrow> string \<Rightarrow> call \<Rightarrow> db \<Rightarrow> composition option result" where
  "ReplayCreate key hash cx d =
     (if cx_fault cx = Some ''read create retry'' then Inl (unavailable ''read create retry'')
      else case map_of (db_idempotency d) key of
        None \<Rightarrow> Inr None
      | Some (request_hash, cid) \<Rightarrow>
          if request_hash \<noteq> hash
          then Inl (conflict ''idempotency key was already used with a different request'' [])
          else result_then (Get cid cx d) (\<lambda>c. Inr (Some c)))"

section \<open>The preview base URL\<close>

record preview_url =
  pu_scheme :: string
  pu_host :: string
  pu_force_query :: bool

definition previewBaseURL :: "string \<Rightarrow> preview_url result" where
  "previewBaseURL raw =
     (let invalid = Inl (service_error ''unavailable'' ''preview base URL configuration is invalid'');
          (u, fragment) = cut_at CHR ''#'' raw
      in case (parse_url raw, getScheme u) of
        (Some (scheme, host), Some (_, rest)) \<Rightarrow>
          let (hier, query) = cut_at CHR ''?'' rest;
              authority = takeWhile (\<lambda>c. c \<noteq> CHR ''/'') (drop 2 hier);
              path = dropWhile (\<lambda>c. c \<noteq> CHR ''/'') (drop 2 hier)
          in if scheme \<noteq> ''http'' \<and> scheme \<noteq> ''https'' \<or> hostname_of host = [] \<or>
               CHR ''@'' \<in> set authority \<or> path \<noteq> [] \<and> path \<noteq> ''/'' \<or> query \<noteq> [] \<or> fragment \<noteq> []
             then invalid
             else Inr \<lparr>pu_scheme = scheme, pu_host = host, pu_force_query = CHR ''?'' \<in> set rest\<rparr>
      | _ \<Rightarrow> invalid)"

text \<open>\<open>escape(host, encodeHost)\<close>\<close>

definition upper_hex_digit :: "nat \<Rightarrow> char" where
  "upper_hex_digit n = (if n < 10 then char_of (48 + n) else char_of (55 + n))"

definition escape_host_char :: "char \<Rightarrow> string" where
  "escape_host_char c =
     (let n = (of_char c :: nat) in
      if n < 128 \<and> host_char c then [c]
      else [CHR ''%'', upper_hex_digit (n div 16), upper_hex_digit (n mod 16)])"

definition escape_host :: "string \<Rightarrow> string" where
  "escape_host h = concat (map escape_host_char h)"

text \<open>\<open>String()\<close> of the base URL once its host is set and its path is empty.\<close>

definition url_string :: "preview_url \<Rightarrow> string" where
  "url_string u = pu_scheme u @ ''://'' @ escape_host (pu_host u) @ (if pu_force_query u then ''?'' else [])"

definition allocated_url :: "preview_url \<Rightarrow> string \<Rightarrow> string" where
  "allocated_url u i = url_string (u\<lparr>pu_host := ''cmp-'' @ i @ ''.'' @ pu_host u\<rparr>)"

definition RandomID :: "nat \<Rightarrow> call \<Rightarrow> string result" where
  "RandomID n cx = (case cx_random cx n of
     None \<Rightarrow> Inl (Domain_Error ((domain_err ''unavailable'' ''secure identity generation is unavailable'')
               \<lparr>e_retryable := True\<rparr>))
   | Some bytes \<Rightarrow> Inr (hex_encode bytes))"

section \<open>Resolving a request\<close>

fun unapproved_secret :: "string list \<Rightarrow> string list \<Rightarrow> go_error option" where
  "unapproved_secret approved [] = None"
| "unapproved_secret approved (name # rest) =
     (if name \<in> set approved then unapproved_secret approved rest
      else Some (Validation (''image pull Secret is not operator-approved: '' @ name)))"

definition validatePullSecrets :: "service_config \<Rightarrow> component \<Rightarrow> go_error option" where
  "validatePullSecrets cfg c = unapproved_secret (sc_approved_secrets cfg) (cp_image_pull_secrets c)"

record create_preparation =
  prep_profiles :: "component gomap"
  prep_previews :: "preview_snapshot gomap"
  prep_provenance :: "preview_provenance gomap"
  prep_has_endpoint :: bool

definition override_image :: "component_override gomap \<Rightarrow> string \<Rightarrow> string" where
  "override_image m component = o_image (get_or zero_override m component)"

definition binding_port :: "baseline \<Rightarrow> string \<Rightarrow> int" where
  "binding_port b component = bb_port (get_or zero_binding (b_components b) component)"

text \<open>The profile of a selected component, its approved preview and what they add to the plan.\<close>

definition add_profile ::
  "baseline \<Rightarrow> string \<Rightarrow> component \<Rightarrow> preview_snapshot option \<Rightarrow> create_preparation \<Rightarrow> create_preparation"
where
  "add_profile b component profile snapshot prep =
     (let (profile, prep) = (case snapshot of
            None \<Rightarrow> (profile, prep)
          | Some s \<Rightarrow> (profile\<lparr>cp_port := binding_port b component\<rparr>,
              prep\<lparr>prep_previews := AList.update component s (prep_previews prep),
                prep_provenance := AList.update component
                  \<lparr>pv_shared_dependencies = [], pv_revision = sn_revision s, pv_source = sn_source s\<rparr>
                  (prep_provenance prep)\<rparr>))
      in prep\<lparr>prep_profiles := AList.update component profile (prep_profiles prep),
           prep_has_endpoint := (prep_has_endpoint prep \<or> HasEndpoint profile)\<rparr>)"

definition prepare_component ::
  "catalog \<Rightarrow> service_config \<Rightarrow> create_request \<Rightarrow> baseline \<Rightarrow> string \<Rightarrow> create_preparation \<Rightarrow>
     create_preparation result"
where
  "prepare_component ca cfg req b component prep =
     result_then (ca_component ca (cr_project req) component) (\<lambda>profile.
     check_then (validatePullSecrets cfg profile)
      (if \<not> cp_overridable profile
       then Inl (Validation (''component '' @ component @ '' does not allow image overrides''))
       else if \<not> has_key (b_components b) component
       then Inl (Validation (''baseline has no binding for '' @ component))
       else
         result_then (resolvePreview ca cfg b profile (get_or 0 (cr_expected_preview_revisions req) component))
          (\<lambda>snapshot.
           if snapshot \<noteq> None \<and> \<not> validPreviewImage (override_image (nil_map (cr_overrides req)) component)
           then Inl (Validation ''deployment-derived previews require digest-pinned images'')
           else Inr (add_profile b component profile snapshot prep))))"

fun prepare_components ::
  "catalog \<Rightarrow> service_config \<Rightarrow> create_request \<Rightarrow> baseline \<Rightarrow> string list \<Rightarrow> create_preparation \<Rightarrow>
     create_preparation result"
where
  "prepare_components ca cfg req b [] prep = Inr prep"
| "prepare_components ca cfg req b (component # rest) prep =
     result_then (prepare_component ca cfg req b component prep) (prepare_components ca cfg req b rest)"

fun missing_dependency :: "component gomap \<Rightarrow> string \<Rightarrow> string list \<Rightarrow> go_error option" where
  "missing_dependency profiles component [] = None"
| "missing_dependency profiles component (dependency # rest) =
     (if has_key profiles dependency then missing_dependency profiles component rest
      else Some (Validation (''component '' @ component @ '' requires selected dependency '' @ dependency)))"

fun missing_dependencies :: "component gomap \<Rightarrow> component gomap \<Rightarrow> go_error option" where
  "missing_dependencies profiles [] = None"
| "missing_dependencies profiles ((component, profile) # rest) =
     (case cp_execution profile of
        None \<Rightarrow> missing_dependencies profiles rest
      | Some x \<Rightarrow>
          (case missing_dependency profiles component (x_dependencies x) of
             None \<Rightarrow> missing_dependencies profiles rest
           | Some e \<Rightarrow> Some e))"

definition isolation_check :: "service_config \<Rightarrow> create_request \<Rightarrow> baseline \<Rightarrow> go_error option" where
  "isolation_check cfg req b =
     (if \<not> cr_message_isolation req then None
      else case sc_messaging cfg of
        Some validate \<Rightarrow>
          if b_pubsub b = []
          then Some (Validation (''message isolation requires registered Pub/Sub bindings and an enabled '' @
                 ''provider''))
          else validate b
      | None \<Rightarrow> Some (Validation (''message isolation requires registered Pub/Sub bindings and an enabled '' @
                 ''provider'')))"

definition prepareCreate ::
  "catalog \<Rightarrow> service_config \<Rightarrow> create_request \<Rightarrow> (baseline \<times> create_preparation) result"
where
  "prepareCreate ca cfg req =
     result_then (ca_baseline ca (cr_project req) (cr_baseline req)) (\<lambda>b.
     if cr_expected_baseline_revision req \<noteq> [] \<and> cr_expected_baseline_revision req \<noteq> b_revision b
     then Inl (Domain_Error ((domain_err ''conflict''
       ''baseline binding revision changed; inspect the current baseline before recreating'')
         \<lparr>e_project := cr_project req\<rparr>))
     else
       check_then (ValidateMessaging b)
      (check_then (isolation_check cfg req b)
      (result_then (prepare_components ca cfg req b (OverrideNames (nil_map (cr_overrides req)))
         \<lparr>prep_profiles = [], prep_previews = [], prep_provenance = [],
          prep_has_endpoint = (vc_kind (b_verification b) \<noteq> ''none'')\<rparr>) (\<lambda>prep.
       check_then (ValidateExecutionGraph (prep_profiles prep))
      (check_then (missing_dependencies (prep_profiles prep) (prep_profiles prep))
       (if prep_has_endpoint prep
        then result_then (previewBaseURL (sc_preview_base_url cfg)) (\<lambda>_. Inr (b, prep))
        else Inr (b, prep)))))))"

section \<open>Create\<close>

definition idempotency_key_error :: "string \<Rightarrow> go_error option" where
  "idempotency_key_error key =
     (if 128 < length key
      then Some (Validation ''idempotency key must be at most 128 printable ASCII characters'')
      else if list_ex (\<lambda>c. (of_char c :: nat) < 32 \<or> 126 < (of_char c :: nat)) key
      then Some (Validation ''idempotency key must contain printable ASCII characters'')
      else None)"

definition created_conditions :: "bool \<Rightarrow> condition list" where
  "created_conditions has_endpoint =
     \<lparr>cond_type = ''WorkloadsReady'', cond_status = False, cond_message = ''waiting for reconciliation''\<rparr> #
     (if has_endpoint then
        [\<lparr>cond_type = ''RoutesConfigured'', cond_status = False,
          cond_message = ''waiting for workload readiness''\<rparr>,
         \<lparr>cond_type = ''RouteVerified'', cond_status = False,
          cond_message = ''waiting for ingress verification''\<rparr>]
      else
        [\<lparr>cond_type = ''RoutesConfigured'', cond_status = True,
          cond_message = ''no endpoint routes required''\<rparr>,
         \<lparr>cond_type = ''RouteVerified'', cond_status = True,
          cond_message = ''no endpoint routes required''\<rparr>])"

definition inherited_observation :: "baseline_binding \<Rightarrow> component_observation" where
  "inherited_observation binding = zero_observation
     \<lparr>co_source := ''baseline'', co_status := ''inherited'', co_image := bb_image binding\<rparr>"

definition pending_observation :: "component_override \<Rightarrow> component_observation" where
  "pending_observation o' = zero_observation
     \<lparr>co_source := ''override'', co_status := ''pending'', co_image := o_image o'\<rparr>"

definition created_components ::
  "baseline \<Rightarrow> component_override gomap \<Rightarrow> component_observation gomap"
where
  "created_components b overrides =
     fold (\<lambda>(component, o'). AList.update component (pending_observation o')) overrides
       (fold (\<lambda>(name, binding). AList.update name (inherited_observation binding)) (b_components b) [])"

definition created_plan :: "baseline \<Rightarrow> create_preparation \<Rightarrow> message_subscription list \<Rightarrow> resolved_plan" where
  "created_plan b prep subscriptions = zero_plan
     \<lparr>rp_baseline := b, rp_components := prep_profiles prep, rp_previews := prep_previews prep,
      rp_message_subscriptions := subscriptions\<rparr>"

definition created_composition ::
  "create_request \<Rightarrow> duration \<Rightarrow> baseline \<Rightarrow> create_preparation \<Rightarrow> message_subscription list \<Rightarrow>
     endpoint gomap \<Rightarrow> string \<Rightarrow> string \<Rightarrow> string \<Rightarrow> request_identity option \<Rightarrow> time \<Rightarrow> composition"
where
  "created_composition req ttl b prep subscriptions endpoints i owner op ctx now = zero_composition
     \<lparr>c_message_isolation := cr_message_isolation req,
      c_message_subscriptions := subscriptions,
      c_preview_profiles := prep_provenance prep,
      c_verification_level := ''none'', c_id := i, c_project := cr_project req,
      c_baseline := cr_baseline req, c_baseline_revision := b_revision b, c_name := cr_name req,
      c_overrides := nil_map (cr_overrides req), c_generation := 1, c_phase := PhaseCreated,
      c_expires_at := now + ttl, c_created_at := now, c_updated_at := now,
      c_components := created_components b (nil_map (cr_overrides req)),
      c_endpoints := endpoints,
      c_conditions := created_conditions (prep_has_endpoint prep),
      c_latest_operation := \<lparr>op_id = op, op_kind = ''create'', op_status = ''pending'', op_error = None,
        op_initiator = Some (ri_principal (RequestIdentityFromContext ctx))\<rparr>,
      c_runtime := zero_runtime\<lparr>rt_ownership_token := owner,
        rt_plan := Some (created_plan b prep subscriptions),
        rt_published_overrides := Some []\<rparr>\<rparr>"

definition created_endpoints :: "service_config \<Rightarrow> bool \<Rightarrow> string \<Rightarrow> endpoint gomap result" where
  "created_endpoints cfg has_endpoint i =
     (if \<not> has_endpoint then Inr []
      else result_then (previewBaseURL (sc_preview_base_url cfg)) (\<lambda>u.
        Inr [(''public'', zero_endpoint\<lparr>ep_url := allocated_url u i\<rparr>)]))"

text \<open>
  The subscriptions of an isolated composition. The error stands for the panic of
  \<open>ResolveMessaging\<close> on a topic that \<open>ValidateMessaging\<close> rejects.
\<close>

definition created_subscriptions ::
  "service_config \<Rightarrow> create_request \<Rightarrow> baseline \<Rightarrow> string \<Rightarrow> time \<Rightarrow> message_subscription list result"
where
  "created_subscriptions cfg req b i expiry =
     (if \<not> cr_message_isolation req then Inr []
      else case ResolveMessaging b (sc_installation cfg) i expiry of
        None \<Rightarrow> Inl (Plain ''index out of range'')
      | Some subscriptions \<Rightarrow> Inr subscriptions)"

text \<open>From the canonical request to the composition that \<open>Create\<close> hands to the store.\<close>

definition new_composition ::
  "catalog \<Rightarrow> service_config \<Rightarrow> create_request \<Rightarrow> duration \<Rightarrow> time \<Rightarrow> call \<Rightarrow> composition result"
where
  "new_composition ca cfg req ttl now cx =
     result_then (prepareCreate ca cfg req) (\<lambda>(b, prep).
     result_then (RandomID 0 cx) (\<lambda>i.
     result_then (RandomID 1 cx) (\<lambda>owner.
     result_then (RandomID 2 cx) (\<lambda>op.
     result_then (created_endpoints cfg (prep_has_endpoint prep) i) (\<lambda>endpoints.
     result_then (created_subscriptions cfg req b i (now + ttl)) (\<lambda>subscriptions.
     Inr (created_composition req ttl b prep subscriptions endpoints i owner op (cx_identity cx) now)))))))"

text \<open>The canonical request with its builds resolved to images.\<close>

definition canonical_request ::
  "catalog \<Rightarrow> service_config \<Rightarrow> create_request \<Rightarrow> (create_request \<times> duration) result"
where
  "canonical_request ca cfg req =
     result_then (NormalizeCreate req cfg) (\<lambda>(req, ttl).
     result_then (resolveOverrides ca cfg (cr_project req) (nil_map (cr_overrides req))) (\<lambda>overrides.
     Inr (req\<lparr>cr_overrides := Some overrides\<rparr>, ttl)))"

definition create_replayed ::
  "string \<Rightarrow> create_request \<Rightarrow> call \<Rightarrow> db \<Rightarrow> composition option result"
where
  "create_replayed key req cx d =
     (if key = [] then Inr None else ReplayCreate key (create_digest req) cx d)"

definition CreateComposition ::
  "catalog \<Rightarrow> service_config \<Rightarrow> create_request \<Rightarrow> string \<Rightarrow> time \<Rightarrow> call \<Rightarrow> db \<Rightarrow> composition result \<times> db"
where
  "CreateComposition ca cfg req key now cx d =
     (case check_then (idempotency_key_error key) (canonical_request ca cfg req) of
        Inl e \<Rightarrow> (Inl e, d)
      | Inr (req, ttl) \<Rightarrow>
          (case create_replayed key req cx d of
             Inl e \<Rightarrow> (Inl e, d)
           | Inr (Some previous) \<Rightarrow> (Inr previous, d)
           | Inr None \<Rightarrow>
               (case new_composition ca cfg req ttl now cx of
                  Inl e \<Rightarrow> (Inl e, d)
                | Inr c \<Rightarrow> Create c key (create_digest req) (sc_max_compositions cfg) cx d)))"

section \<open>Update\<close>

text \<open>The answer of the checks on the preview revision the caller expects.\<close>

definition preview_guard ::
  "resolved_plan \<Rightarrow> update_request \<Rightarrow> component_override gomap \<Rightarrow> string \<Rightarrow> go_error option"
where
  "preview_guard plan req overrides component =
     (let expected = get_or 0 (ur_expected_preview_revisions req) component in
      case map_of (rp_previews plan) component of
        Some snapshot \<Rightarrow>
          if expected \<noteq> 0 \<and> expected \<noteq> sn_revision snapshot
          then Some (service_error ''conflict'' ''captured preview profile revision differs'')
          else if \<not> validPreviewImage (override_image overrides component)
          then Some (Validation ''deployment-derived previews require digest-pinned images'')
          else None
      | None \<Rightarrow>
          if expected \<noteq> 0 then Some (Validation ''composition has no captured preview profile'') else None)"

definition capture_profile ::
  "catalog \<Rightarrow> service_config \<Rightarrow> update_request \<Rightarrow> string \<Rightarrow> component \<Rightarrow> resolved_plan \<Rightarrow> resolved_plan result"
where
  "capture_profile ca cfg req component profile plan =
     (if has_key (rp_components plan) component then Inr plan
      else result_then (resolvePreview ca cfg (rp_baseline plan) profile
            (get_or 0 (ur_expected_preview_revisions req) component)) (\<lambda>snapshot.
        case snapshot of
          None \<Rightarrow> Inr (plan\<lparr>rp_components := AList.update component profile (rp_components plan)\<rparr>)
        | Some s \<Rightarrow> Inr (plan\<lparr>rp_previews := AList.update component s (rp_previews plan),
            rp_components := AList.update component
              (profile\<lparr>cp_port := binding_port (rp_baseline plan) component\<rparr>) (rp_components plan)\<rparr>)))"

definition update_component ::
  "catalog \<Rightarrow> service_config \<Rightarrow> string \<Rightarrow> update_request \<Rightarrow> component_override gomap \<Rightarrow> string \<Rightarrow>
     resolved_plan \<Rightarrow> resolved_plan result"
where
  "update_component ca cfg project req overrides component plan =
     result_then (ca_component ca project component) (\<lambda>profile.
     check_then (validatePullSecrets cfg profile)
      (if \<not> cp_overridable profile then Inl (Validation ''component does not allow image overrides'')
       else if \<not> has_key (b_components (rp_baseline plan)) component
       then Inl (Validation (''baseline has no binding for '' @ component))
       else result_then (capture_profile ca cfg req component profile plan) (\<lambda>plan.
         check_then (preview_guard plan req overrides component) (Inr plan))))"

fun update_components ::
  "catalog \<Rightarrow> service_config \<Rightarrow> string \<Rightarrow> update_request \<Rightarrow> component_override gomap \<Rightarrow> string list \<Rightarrow>
     resolved_plan \<Rightarrow> resolved_plan result"
where
  "update_components ca cfg project req overrides [] plan = Inr plan"
| "update_components ca cfg project req overrides (component # rest) plan =
     result_then (update_component ca cfg project req overrides component plan)
       (update_components ca cfg project req overrides rest)"

text \<open>Profiles of published components that the plan does not hold are kept if they can be read.\<close>

fun keep_published :: "catalog \<Rightarrow> string \<Rightarrow> component_override gomap \<Rightarrow> resolved_plan \<Rightarrow> resolved_plan" where
  "keep_published ca project [] plan = plan"
| "keep_published ca project ((component, o') # rest) plan =
     keep_published ca project rest
       (if has_key (rp_components plan) component then plan
        else case ca_component ca project component of
          Inl e \<Rightarrow> plan
        | Inr profile \<Rightarrow> plan\<lparr>rp_components := AList.update component profile (rp_components plan)\<rparr>)"

definition update_plan ::
  "catalog \<Rightarrow> service_config \<Rightarrow> update_request \<Rightarrow> component_override gomap \<Rightarrow> composition \<Rightarrow> resolved_plan \<Rightarrow>
     resolved_plan result"
where
  "update_plan ca cfg req overrides c stored =
     result_then (update_components ca cfg (c_project c) req overrides (OverrideNames overrides)
       (stored\<lparr>rp_previews := map_copy [] (rp_previews stored),
          rp_components := map_copy [] (Profiles stored)\<rparr>)) (\<lambda>plan.
     Inr (keep_published ca (c_project c) (nil_map (rt_published_overrides (c_runtime c))) plan))"

text \<open>The resolved request and the operation that \<open>Update\<close> hands to the store.\<close>

definition resolve_update ::
  "catalog \<Rightarrow> service_config \<Rightarrow> string \<Rightarrow> update_request \<Rightarrow> component_override gomap option \<Rightarrow> call \<Rightarrow> db \<Rightarrow>
     (update_request \<times> string) result"
where
  "resolve_update ca cfg i req overrides cx d =
     (if ur_expected_generation req < 1 then Inl (Validation ''expected_generation must be positive'')
      else
        check_then (validatePreviewGuards (ur_expected_preview_revisions req) overrides)
       (check_then (ValidateOverrides overrides)
       (result_then (Get i cx d) (\<lambda>c.
        result_then (resolveOverrides ca cfg (c_project c) (nil_map overrides)) (\<lambda>resolved.
        case rt_plan (c_runtime c) of
          None \<Rightarrow> Inl (conflict ''composition has no resolved baseline plan'' i)
        | Some stored \<Rightarrow>
            result_then (update_plan ca cfg req resolved c stored) (\<lambda>plan.
            result_then (RandomID 0 cx) (\<lambda>op.
            Inr (req\<lparr>ur_overrides := resolved, ur_plan := Some plan\<rparr>, op))))))))"

definition UpdateComposition ::
  "catalog \<Rightarrow> service_config \<Rightarrow> string \<Rightarrow> update_request \<Rightarrow> component_override gomap option \<Rightarrow> call \<Rightarrow> db \<Rightarrow>
     composition result \<times> db"
where
  "UpdateComposition ca cfg i req overrides cx d =
     (case resolve_update ca cfg i req overrides cx d of
        Inl e \<Rightarrow> (Inl e, d)
      | Inr (req, op) \<Rightarrow> Update i req op cx d)"

text \<open>\<open>List\<close> of the service: the page is validated before the store is read.\<close>

definition ListCompositions ::
  "string \<Rightarrow> string \<Rightarrow> int \<Rightarrow> call \<Rightarrow> db \<Rightarrow> (composition list \<times> string) result"
where
  "ListCompositions project after limit cx d =
     check_then (ValidatePage after limit) (List_page project after (nat limit) cx d)"

end
