(* ===== verification/Hosts.thy ===== *)
theory Hosts
  imports Compose Routes
begin

text \<open>
  Host names that the service allocates: the URL \<open>Create\<close> writes for a composition parses back to
  the composition's own host below the host of the preview base URL.
\<close>

section \<open>Characters of a host\<close>

lemma upper_hex_digit_code:
  "n < 10 \<Longrightarrow> of_char (upper_hex_digit n) = 48 + n"
  "10 \<le> n \<Longrightarrow> n < 16 \<Longrightarrow> of_char (upper_hex_digit n) = 55 + n"
  by (simp_all add: upper_hex_digit_def)

lemma upper_hex_digit_hex [simp]: "n < 16 \<Longrightarrow> is_hex (upper_hex_digit n)"
  using upper_hex_digit_code[of n] by (cases "n < 10") (auto simp: char_class_defs less_eq_char_def)

lemma hex_value_upper [simp]: "n < 16 \<Longrightarrow> hex_value (upper_hex_digit n) = n"
  using upper_hex_digit_code[of n]
  by (cases "n < 10") (auto simp: hex_value_def char_class_defs less_eq_char_def)

text \<open>What \<open>unescape\<close> can leave in a host.\<close>

definition decoded_char :: "char \<Rightarrow> bool" where
  "decoded_char c \<longleftrightarrow> host_char c \<or> c = CHR ''%''"

lemma hex_value_less: "is_hex c \<Longrightarrow> hex_value c < 16"
  by (auto simp: hex_value_def char_class_defs less_eq_char_def)

lemma unescape_host_induct [consumes 1, case_names Nil Escape Plain]:
  assumes "unescape_host s = Some h" and "P [] []"
    and "\<And>a b r t. is_hex a \<Longrightarrow> is_hex b \<Longrightarrow> 8 \<le> hex_value a \<or> [a, b] = ''25'' \<Longrightarrow> unescape_host r = Some t \<Longrightarrow>
      P r t \<Longrightarrow> P (CHR ''%'' # a # b # r) (char_of (16 * hex_value a + hex_value b) # t)"
    and "\<And>c r t. c \<noteq> CHR ''%'' \<Longrightarrow> host_char c \<Longrightarrow> unescape_host r = Some t \<Longrightarrow> P r t \<Longrightarrow> P (c # r) (c # t)"
  shows "P s h"
  using assms(1)
proof (induction s arbitrary: h rule: unescape_host.induct)
  case 1
  then show ?case using assms(2) by simp
next
  case (2 c s)
  show ?case
  proof (cases "c = CHR ''%''")
    case True
    with 2(3) obtain a b r t where s: "s = a # b # r" "is_hex a" "is_hex b"
      "8 \<le> hex_value a \<or> [a, b] = ''25''" "unescape_host r = Some t"
      "h = char_of (16 * hex_value a + hex_value b) # t"
      by (auto split: list.splits if_splits)
    then have "P r t" using 2(1)[OF True s(1) refl] by auto
    then show ?thesis using assms(3) s True by simp
  next
    case False
    with 2(3) obtain t where t: "host_char c" "unescape_host s = Some t" "h = c # t"
      by (auto split: if_splits)
    then have "P s t" using 2(2)[OF False] by blast
    then show ?thesis using assms(4) t False by simp
  qed
qed

lemma escaped_char:
  assumes "is_hex a" "is_hex b" "8 \<le> hex_value a \<or> [a, b] = ''25''"
  shows "let c = char_of (16 * hex_value a + hex_value b :: nat) in
    c = CHR ''%'' \<or> (128::nat) \<le> of_char c"
proof (cases "8 \<le> hex_value a")
  case True
  then show ?thesis using hex_value_less[OF assms(1)] hex_value_less[OF assms(2)] by (simp add: Let_def)
next
  case False
  with assms(3) have "a = CHR ''2''" "b = CHR ''5''" by auto
  moreover have "char_of (37 :: nat) = CHR ''%''" by code_simp
  ultimately show ?thesis by (simp add: hex_value_def char_class_defs less_eq_char_def Let_def)
qed

lemma unescaped_chars: "unescape_host s = Some h \<Longrightarrow> list_all decoded_char h"
  by (induction rule: unescape_host_induct)
    (use escaped_char in \<open>auto simp: decoded_char_def host_char_def Let_def\<close>)

lemma unescaped_in: "unescape_host s = Some h \<Longrightarrow> c \<in> set s \<Longrightarrow> \<not> is_hex c \<Longrightarrow> c \<noteq> CHR ''%'' \<Longrightarrow> c \<in> set h"
  by (induction rule: unescape_host_induct) auto

lemma unescape_digits: "unescape_host s = Some h \<Longrightarrow> list_all is_digit s \<Longrightarrow> list_all is_digit h"
  by (induction rule: unescape_host_induct) (auto simp: is_digit_def)

lemma unescape_port:
  assumes "unescape_host s = Some h" "validOptionalPort (dropWhile (\<lambda>c. c \<noteq> CHR '':'') s)"
  shows "validOptionalPort (dropWhile (\<lambda>c. c \<noteq> CHR '':'') h)"
  using assms
proof (induction rule: unescape_host_induct)
  case (Escape a b r t)
  let ?c = "char_of (16 * hex_value a + hex_value b :: nat) :: char"
  have "?c \<noteq> CHR '':''"
  proof
    assume "?c = CHR '':''"
    then show False using escaped_char[OF Escape(1-3)] unfolding Let_def by simp
  qed
  moreover have "a \<noteq> CHR '':''" "b \<noteq> CHR '':''"
    using Escape(1,2) by (auto simp: char_class_defs less_eq_char_def)
  ultimately show ?case using Escape by simp
next
  case (Plain c r t)
  then show ?case using unescape_digits by (auto simp: validOptionalPort_def)
qed simp

lemma unescape_pct:
  "is_hex a \<Longrightarrow> is_hex b \<Longrightarrow> 8 \<le> hex_value a \<or> [a, b] = ''25'' \<Longrightarrow>
     unescape_host (CHR ''%'' # a # b # s) =
       map_option (Cons (char_of (16 * hex_value a + hex_value b))) (unescape_host s)"
  by auto

lemma unescape_escape_char:
  assumes "decoded_char c"
  shows "unescape_host (escape_host_char c @ s) = map_option (Cons c) (unescape_host s)"
proof (cases "(of_char c :: nat) < 128 \<and> host_char c")
  case True
  then have "c \<noteq> CHR ''%''" by (auto simp: host_char_def char_class_defs less_eq_char_def)
  with True show ?thesis by (simp add: escape_host_char_def)
next
  case False
  let ?n = "of_char c :: nat"
  have bound: "?n < 256" by simp
  have hex: "?n div 16 < 16" "?n mod 16 < 16" using bound by (simp_all add: less_mult_imp_div_less)
  have "c = CHR ''%'' \<or> 128 \<le> ?n" using False assms by (auto simp: decoded_char_def)
  moreover have "[upper_hex_digit 2, upper_hex_digit 5] = ''25''" by code_simp
  ultimately have "8 \<le> ?n div 16 \<or> [upper_hex_digit (?n div 16), upper_hex_digit (?n mod 16)] = ''25''"
    by auto
  then have "unescape_host (CHR ''%'' # upper_hex_digit (?n div 16) # upper_hex_digit (?n mod 16) # s) =
      map_option (Cons (char_of (16 * (?n div 16) + ?n mod 16))) (unescape_host s)"
    using unescape_pct[of "upper_hex_digit (?n div 16)" "upper_hex_digit (?n mod 16)" s] hex by auto
  moreover have "escape_host_char c = [CHR ''%'', upper_hex_digit (?n div 16), upper_hex_digit (?n mod 16)]"
    using False by (auto simp: escape_host_char_def Let_def)
  ultimately show ?thesis by (simp del: unescape_host.simps)
qed

lemma unescape_escape_host: "list_all decoded_char h \<Longrightarrow> unescape_host (escape_host h) = Some h"
  by (induction h) (simp_all add: escape_host_def unescape_escape_char)

section \<open>Parsing an allocated URL\<close>

text \<open>Characters that no part of a URL is cut at.\<close>

definition url_plain :: "char \<Rightarrow> bool" where
  "url_plain c \<longleftrightarrow> c \<notin> set ''#?/@%'' \<and> \<not> is_control c"

lemma is_hex_code:
  "is_hex c \<Longrightarrow> 48 \<le> (of_char c :: nat) \<and> (of_char c :: nat) \<le> 57 \<or>
     65 \<le> (of_char c :: nat) \<and> (of_char c :: nat) \<le> 70 \<or> 97 \<le> (of_char c :: nat) \<and> (of_char c :: nat) \<le> 102"
  by (auto simp: char_class_defs less_eq_char_def)

lemma host_char_plain: "(of_char c :: nat) < 128 \<Longrightarrow> host_char c \<Longrightarrow> url_plain c"
  by (auto simp: url_plain_def host_char_def is_control_def char_class_defs less_eq_char_def)

lemma hex_plain: "is_hex c \<Longrightarrow> url_plain c"
  using is_hex_code[of c] by (auto simp: url_plain_def is_control_def)

lemma escaped_member:
  assumes "c \<in> set (escape_host h)"
  shows "c = CHR ''%'' \<or> url_plain c"
proof -
  obtain d where d: "c \<in> set (escape_host_char d)"
    using assms by (auto simp: escape_host_def)
  have "(of_char d :: nat) div 16 < 16" by (simp add: less_mult_imp_div_less)
  with d show ?thesis
    by (auto simp: escape_host_char_def Let_def host_char_plain hex_plain split: if_splits)
qed

lemma escaped_colon: "dropWhile (\<lambda>c. c \<noteq> CHR '':'') (escape_host h) = escape_host (dropWhile (\<lambda>c. c \<noteq> CHR '':'') h)"
proof (induction h)
  case (Cons c h)
  have colon: "escape_host_char CHR '':'' = '':''" by code_simp
  have "CHR '':'' \<notin> set (escape_host_char c)" if "c \<noteq> CHR '':''"
  proof -
    have "\<not> is_hex CHR '':''" by code_simp
    moreover have "is_hex (upper_hex_digit (of_char c div 16))" "is_hex (upper_hex_digit (of_char c mod 16))"
      by (simp_all add: less_mult_imp_div_less)
    ultimately show ?thesis using that by (auto simp: escape_host_char_def Let_def)
  qed
  then have "dropWhile (\<lambda>c. c \<noteq> CHR '':'') (escape_host_char c @ t) = dropWhile (\<lambda>c. c \<noteq> CHR '':'') t"
    if "c \<noteq> CHR '':''" for t
    using that by (intro dropWhile_append2) auto
  then show ?case using Cons colon by (cases "c = CHR '':''") (simp_all add: escape_host_def)
qed (simp add: escape_host_def)

lemma escape_digits: "list_all is_digit s \<Longrightarrow> escape_host s = s"
proof (induction s)
  case (Cons c s)
  then have "host_char c" "(of_char c :: nat) < 128"
    by (auto simp: host_char_def char_class_defs less_eq_char_def)
  with Cons show ?case by (simp add: escape_host_def escape_host_char_def)
qed (simp add: escape_host_def)

lemma escape_port:
  assumes "validOptionalPort s"
  shows "escape_host s = s"
proof (cases s)
  case (Cons c r)
  have "escape_host_char CHR '':'' = '':''" by code_simp
  with Cons assms escape_digits[of r] show ?thesis by (simp add: validOptionalPort_def escape_host_def)
qed (simp add: escape_host_def)

lemma escape_bracket: "CHR ''['' \<in> set (escape_host h) \<Longrightarrow> CHR ''['' \<in> set h"
proof -
  have "\<not> is_hex CHR ''[''" by code_simp
  then show "CHR ''['' \<in> set (escape_host h) \<Longrightarrow> CHR ''['' \<in> set h"
    by (induction h) (auto simp: escape_host_def escape_host_char_def Let_def less_mult_imp_div_less
        split: if_splits dest: arg_cong[of _ _ is_hex])
qed

text \<open>The host of a composition parses back from its escaped form.\<close>

lemma parseHost_escape:
  assumes "list_all decoded_char h" "CHR ''['' \<notin> set h" "validOptionalPort (dropWhile (\<lambda>c. c \<noteq> CHR '':'') h)"
  shows "parseHost (escape_host h) = Some h"
proof -
  have "CHR ''['' \<notin> set (escape_host h)" using assms(2) escape_bracket by blast
  moreover from this have "escape_host h = [] \<or> hd (escape_host h) \<noteq> CHR ''[''"
    by (metis hd_in_set)
  ultimately show ?thesis
    using assms unescape_escape_host[OF assms(1)]
    by (auto simp: parseHost_def escaped_colon escape_port)
qed

lemma cut_absent:
  assumes "c \<notin> set s"
  shows "takeWhile (\<lambda>x. x \<noteq> c) s = s" "dropWhile (\<lambda>x. x \<noteq> c) s = []"
proof -
  have "\<forall>x\<in>set s. x \<noteq> c" using assms by auto
  then show "takeWhile (\<lambda>x. x \<noteq> c) s = s" "dropWhile (\<lambda>x. x \<noteq> c) s = []"
    by (simp_all only: takeWhile_eq_all_conv dropWhile_eq_Nil_conv)
qed

lemma cut_at_absent:
  assumes "c \<notin> set s"
  shows "cut_at c s = (s, [])"
  unfolding cut_at_def cut_absent[OF assms] by simp

lemma cut_at_append:
  assumes "c \<notin> set s"
  shows "cut_at c (s @ c # r) = (s, r)"
proof -
  have "x \<noteq> c" if "x \<in> set s" for x using that assms by auto
  then have "takeWhile (\<lambda>x. x \<noteq> c) (s @ c # r) = s" "dropWhile (\<lambda>x. x \<noteq> c) (s @ c # r) = c # r"
    by (simp_all add: takeWhile_append2 dropWhile_append2)
  then show ?thesis by (simp add: cut_at_def)
qed

lemma url_plain_escaped:
  assumes "c \<in> set ''#?/@'' \<or> is_control c"
  shows "c \<notin> set (escape_host h)"
  using escaped_member[of c h] assms by (auto simp: url_plain_def is_control_def)

lemma parse_rest_host:
  assumes "q = [] \<or> q = ''?''" "scheme \<noteq> []"
  shows "parse_rest scheme (''//'' @ escape_host h @ q) = map_option (Pair scheme) (parseHost (escape_host h))"
proof -
  let ?e = "escape_host h"
  have absent: "CHR ''?'' \<notin> set ?e" "CHR ''/'' \<notin> set ?e" "CHR ''@'' \<notin> set ?e"
    by (simp_all add: url_plain_escaped)
  have cut: "fst (cut_at CHR ''?'' (''//'' @ ?e @ q)) = ''//'' @ ?e"
  proof (cases "q = []")
    case True
    then show ?thesis using absent cut_at_absent[of "CHR ''?''" "''//'' @ ?e"] by simp
  next
    case False
    then have "q = ''?''" using assms(1) by blast
    then show ?thesis using absent cut_at_append[of "CHR ''?''" "''//'' @ ?e" "[]"] by simp
  qed
  have "parseAuthority ?e = parseHost ?e"
    using absent(3) by (simp add: parseAuthority_def last_index_def)
  then show ?thesis
    unfolding parse_rest_def Let_def cut
    using assms(2) by (simp add: has_prefix_def cut_absent[OF absent(2)] split: option.split)
qed

lemma getScheme_http:
  "getScheme (''http://'' @ s) = Some (''http'', ''//'' @ s)"
  "getScheme (''https://'' @ s) = Some (''https'', ''//'' @ s)"
  by (simp_all add: getScheme_def char_class_defs less_eq_char_def scheme_char_def lower_char_def)

lemma parse_url_host:
  assumes "scheme = ''http'' \<or> scheme = ''https''"
  shows "parse_url (url_string \<lparr>pu_scheme = scheme, pu_host = h, pu_force_query = fq\<rparr>) =
    map_option (Pair scheme) (parseHost (escape_host h))"
proof -
  let ?q = "if fq then ''?'' else []"
  let ?s = "scheme @ ''://'' @ escape_host h @ ?q"
  have no: "CHR ''#'' \<notin> set ?s" using assms by (auto simp: url_plain_escaped)
  have "\<not> list_ex is_control (escape_host h)" using url_plain_escaped[of _ h] by (auto simp: list_ex_iff)
  moreover have "\<not> list_ex is_control (scheme @ ''://'')" "\<not> list_ex is_control ''?''"
    using assms by (auto simp: is_control_def)
  ultimately have ctl: "\<not> list_ex is_control ?s" by (auto simp: list_ex_append)
  have sch: "getScheme ?s = Some (scheme, ''//'' @ escape_host h @ ?q)"
    using assms getScheme_http by auto
  have "parse_rest scheme (''//'' @ escape_host h @ ?q) = map_option (Pair scheme) (parseHost (escape_host h))"
    using assms by (intro parse_rest_host) auto
  moreover have "cut_at CHR ''#'' ?s = (?s, [])" using no by (rule cut_at_absent)
  moreover have "?s \<noteq> ''*''" using assms by auto
  ultimately show ?thesis
    using ctl sch by (simp add: parse_url_def url_string_def Let_def)
qed

text \<open>What \<open>previewBaseURL\<close> has checked of the configured URL.\<close>

lemma previewBaseURL_Inr:
  assumes "previewBaseURL raw = Inr u"
  shows "(pu_scheme u = ''http'' \<or> pu_scheme u = ''https'') \<and> hostname_of (pu_host u) \<noteq> [] \<and>
    (\<exists>authority. parseHost authority = Some (pu_host u))"
proof -
  obtain r fragment where cut: "cut_at CHR ''#'' raw = (r, fragment)" by (cases "cut_at CHR ''#'' raw")
  obtain scheme host sch rest where url: "parse_url raw = Some (scheme, host)" "getScheme r = Some (sch, rest)"
    using assms cut by (auto simp: previewBaseURL_def Let_def split: option.splits prod.splits)
  let ?hier = "fst (cut_at CHR ''?'' rest)"
  let ?auth = "takeWhile (\<lambda>c. c \<noteq> CHR ''/'') (drop 2 ?hier)"
  have u: "(scheme = ''http'' \<or> scheme = ''https'')" "hostname_of host \<noteq> []" "CHR ''@'' \<notin> set ?auth"
    "pu_scheme u = scheme" "pu_host u = host"
    using assms cut url
    by (auto simp: previewBaseURL_def Let_def split: prod.splits if_splits)
  have "host \<noteq> []" using u(2) by (auto simp: hostname_of_def last_index_def has_prefix_def)
  moreover have "parse_rest sch rest = Some (scheme, host)"
    using url cut \<open>host \<noteq> []\<close> by (auto simp: parse_url_def Let_def split: if_splits)
  ultimately have "parseAuthority ?auth = Some host"
    by (auto simp: parse_rest_def Let_def split: if_splits option.splits)
  then have "parseHost ?auth = Some host"
    using u(3) by (simp add: parseAuthority_def last_index_def)
  then show ?thesis using u by blast
qed

section \<open>Host names of compositions\<close>

lemma last_index_append:
  assumes "c \<notin> set p"
  shows "last_index c (p @ s) = map_option ((+) (length p)) (last_index c s)"
proof (cases "c \<in> set s")
  case True
  let ?t = "takeWhile (\<lambda>x. x \<noteq> c) (rev s)"
  obtain a b where ab: "rev s = a @ c # b" "c \<notin> set a"
    using True split_list_first[of c "rev s"] by auto
  then have "?t = a" by (simp only: takeWhile_tail[of "\<lambda>x. x \<noteq> c" c a b] cut_absent[OF ab(2)] not_not)
  then have "length ?t < length (rev s)" using ab by simp
  then have "length ?t < length s" by simp
  then show ?thesis using True assms by (simp add: last_index_def takeWhile_append1)
next
  case False
  then show ?thesis using assms by (simp add: last_index_def)
qed

lemma hostname_of_append:
  assumes "CHR '':'' \<notin> set p" "CHR ''['' \<notin> set p" "CHR ''['' \<notin> set h" "p \<noteq> []"
  shows "hostname_of (p @ h) = p @ hostname_of h"
proof -
  have plain: "\<not> has_prefix s ''[''" if "CHR ''['' \<notin> set s" for s :: string
    using that by (cases s) (auto simp: has_prefix_def)
  have first: "\<not> has_prefix (p @ take i h) ''[''" for i
    by (rule plain) (use assms(2,3) set_take_subset[of i h] in auto)
  have second: "\<not> has_prefix (take i h) ''[''" for i
    by (rule plain) (use assms(3) set_take_subset[of i h] in auto)
  show ?thesis
    using first second first[of "length h"] second[of "length h"] assms by (simp add: hostname_of_def Let_def last_index_append split: option.splits)
qed

lemma parseHost_facts:
  assumes "parseHost authority = Some h" "CHR ''['' \<notin> set h"
  shows "list_all decoded_char h \<and> validOptionalPort (dropWhile (\<lambda>c. c \<noteq> CHR '':'') h)"
proof -
  have "\<not> (authority \<noteq> [] \<and> hd authority = CHR ''['')"
    using assms by (cases authority) (auto simp: parseHost_def Let_def split: if_splits option.splits)
  then have "unescape_host authority = Some h" "validOptionalPort (dropWhile (\<lambda>c. c \<noteq> CHR '':'') authority)"
    using assms(1) by (auto simp: parseHost_def split: if_splits)
  then show ?thesis using unescaped_chars unescape_port by blast
qed

lemma lower_hex_host: "is_lower_hex c \<Longrightarrow> host_char c \<and> c \<noteq> CHR '':'' \<and> c \<noteq> CHR ''[''"
  by (auto simp: host_char_def char_class_defs less_eq_char_def)

lemma url_string_host:
  "url_string (u\<lparr>pu_host := h\<rparr>) =
     url_string \<lparr>pu_scheme = pu_scheme u, pu_host = h, pu_force_query = pu_force_query u\<rparr>"
  by (simp add: url_string_def)

lemma url_hostname_allocated:
  assumes "previewBaseURL raw = Inr u" "CHR ''['' \<notin> set (pu_host u)" "list_all is_lower_hex i"
  shows "url_hostname (allocated_url u i) = Some (''cmp-'' @ i @ ''.'' @ hostname_of (pu_host u))"
proof -
  let ?p = "''cmp-'' @ i @ ''.''" and ?h = "pu_host u"
  have base: "pu_scheme u = ''http'' \<or> pu_scheme u = ''https''"
    "list_all decoded_char ?h" "validOptionalPort (dropWhile (\<lambda>c. c \<noteq> CHR '':'') ?h)"
    using previewBaseURL_Inr[OF assms(1)] parseHost_facts assms(2) by blast+
  have i: "CHR '':'' \<notin> set i" "CHR ''['' \<notin> set i" "list_all decoded_char i"
    using assms(3) lower_hex_host by (auto simp: list_all_iff decoded_char_def)
  have lit: "list_all decoded_char ''cmp-''" "decoded_char CHR ''.''" by code_simp+
  have "dropWhile (\<lambda>c. c \<noteq> CHR '':'') (?p @ ?h) = dropWhile (\<lambda>c. c \<noteq> CHR '':'') ?h"
    using i(1) by (intro dropWhile_append2) auto
  then have "parseHost (escape_host (?p @ ?h)) = Some (?p @ ?h)"
    using base i lit assms(2) by (intro parseHost_escape) auto
  then have "parse_url (url_string \<lparr>pu_scheme = pu_scheme u, pu_host = ?p @ ?h,
      pu_force_query = pu_force_query u\<rparr>) = Some (pu_scheme u, ?p @ ?h)"
    using base(1) by (simp add: parse_url_host)
  then have "parse_url (allocated_url u i) = Some (pu_scheme u, ?p @ ?h)"
    by (simp add: allocated_url_def url_string_host)
  moreover have "hostname_of (?p @ ?h) = ?p @ hostname_of ?h"
    using i assms(2) by (intro hostname_of_append) auto
  ultimately show ?thesis by (simp add: url_hostname_def)
qed

text \<open>A bracketed address is only read at the start of a host.\<close>

lemma url_hostname_bracketed:
  assumes "previewBaseURL raw = Inr u" "CHR ''['' \<in> set (pu_host u)"
  shows "url_hostname (allocated_url u i) = None"
proof -
  let ?h = "''cmp-'' @ i @ ''.'' @ pu_host u"
  have "escape_host_char CHR ''['' = ''[''" "escape_host_char CHR ''c'' = ''c''" by code_simp+
  then have "CHR ''['' \<in> set (escape_host ?h)" "hd (escape_host ?h) = CHR ''c''"
    using assms(2) by (force simp: escape_host_def)+
  then have "parseHost (escape_host ?h) = None" by (auto simp: parseHost_def)
  moreover have "pu_scheme u = ''http'' \<or> pu_scheme u = ''https''" using previewBaseURL_Inr[OF assms(1)] by blast
  ultimately show ?thesis
    by (simp add: url_hostname_def allocated_url_def url_string_host parse_url_host)
qed

text \<open>
  C36: The endpoint that \<open>Create\<close> allocates is the host the reconciler publishes, unless the preview
  host is a bracketed address. For every preview base URL that \<open>previewBaseURL\<close> accepts: if its host has
  no bracket, the URL written for a composition parses back, in \<open>endpointHost\<close>, to \<open>cmp-\<close>, the
  identifier and the host name of the base URL; if it has one, as in \<open>http://[::1]:8080\<close>, which is
  accepted, the URL written does not parse and the reconciler finds no endpoint.
\<close>

theorem allocated_endpoint_host:
  assumes "previewBaseURL (sc_preview_base_url cfg) = Inr u"
    and "list_all is_lower_hex i" "created_endpoints cfg True i = Inr endpoints" "c_endpoints c = endpoints"
  shows "endpointHost c =
    (if CHR ''['' \<in> set (pu_host u) then Inl (Plain ''composition has no valid allocated endpoint'')
     else Inr (''cmp-'' @ i @ ''.'' @ hostname_of (pu_host u)))"
proof -
  have "ep_url (get_or zero_endpoint (c_endpoints c) ''public'') = allocated_url u i"
    using assms(1,3,4) by (auto simp: created_endpoints_def result_then_def get_or_def zero_endpoint_def)
  then show ?thesis
    using url_hostname_allocated[OF assms(1) _ assms(2)] url_hostname_bracketed[OF assms(1), of i]
    by (simp add: endpointHost_def parsed_host_def)
qed

definition demo_config :: service_config where
  "demo_config = service_defaults
     \<lparr>sc_default_ttl = 0, sc_max_ttl = 0, sc_max_compositions = 0, sc_preview_base_url = [],
      sc_installation = ''local'', sc_approved_secrets = [], sc_messaging = None, sc_discoverer = None,
      sc_source_control = None, sc_image_registry = None\<rparr>"

lemma demo_base_url:
  "previewBaseURL (sc_preview_base_url demo_config) =
     Inr \<lparr>pu_scheme = ''http'', pu_host = ''envy.localhost:8080'', pu_force_query = False\<rparr>"
  by code_simp

lemma bracketed_base_url:
  "previewBaseURL ''http://[::1]:8080'' = Inr \<lparr>pu_scheme = ''http'', pu_host = ''[::1]:8080'', pu_force_query = False\<rparr>"
  by code_simp

lemma allocated_endpoint_host_witness:
  "endpointHost (zero_composition\<lparr>c_endpoints :=
     [(''public'', zero_endpoint\<lparr>ep_url := ''http://cmp-0af3.envy.localhost:8080''\<rparr>)]\<rparr>) =
   Inr ''cmp-0af3.envy.localhost'' \<and>
   endpointHost (zero_composition\<lparr>c_endpoints :=
     [(''public'', zero_endpoint\<lparr>ep_url := ''http://cmp-0af3.[::1]:8080''\<rparr>)]\<rparr>) =
   Inl (Plain ''composition has no valid allocated endpoint'')"
proof
  have hex: "list_all is_lower_hex ''0af3''" by code_simp
  have "created_endpoints demo_config True ''0af3'' =
      Inr [(''public'', zero_endpoint\<lparr>ep_url := ''http://cmp-0af3.envy.localhost:8080''\<rparr>)]"
    by code_simp
  moreover have "hostname_of ''envy.localhost:8080'' = ''envy.localhost''" by code_simp
  ultimately show "endpointHost (zero_composition\<lparr>c_endpoints :=
     [(''public'', zero_endpoint\<lparr>ep_url := ''http://cmp-0af3.envy.localhost:8080''\<rparr>)]\<rparr>) = Inr ''cmp-0af3.envy.localhost''"
    using allocated_endpoint_host[OF demo_base_url hex] by simp
  let ?cfg = "demo_config\<lparr>sc_preview_base_url := ''http://[::1]:8080''\<rparr>"
  have "created_endpoints ?cfg True ''0af3'' =
      Inr [(''public'', zero_endpoint\<lparr>ep_url := ''http://cmp-0af3.[::1]:8080''\<rparr>)]"
    by code_simp
  then show "endpointHost (zero_composition\<lparr>c_endpoints :=
     [(''public'', zero_endpoint\<lparr>ep_url := ''http://cmp-0af3.[::1]:8080''\<rparr>)]\<rparr>) =
     Inl (Plain ''composition has no valid allocated endpoint'')"
    using allocated_endpoint_host[of ?cfg, OF _ hex] bracketed_base_url by simp
qed

end
