(* ===== verification/Compose_Props.thy ===== *)
theory Compose_Props
  imports Compose Store_Props Routes_Props
begin

text \<open>
  What creating and updating a composition guarantees: the plan a request resolves to, the answer
  of a retried request, and what an update keeps of the plan it extends.
\<close>

section \<open>Results\<close>

declare result_then_Inr [simp, result_simps] check_then_Inr [simp, result_simps]

lemma result_then_simps [simp]: "result_then (Inl e) f = Inl e" "result_then (Inr a) f = f a"
  by (simp_all add: result_then_def)

lemma check_then_simps [simp]: "check_then None r = r" "check_then (Some e) r = Inl e"
  by (simp_all add: check_then_def)

lemma update_absent: "\<not> has_key m k \<Longrightarrow> AList.update k v m = m @ [(k, v)]"
  by (induction m) auto

section \<open>Resolved overrides\<close>

lemma resolve_builds_keys:
  "resolve_builds ca cfg project m out = Inr r \<Longrightarrow> has_key r k \<longleftrightarrow> has_key m k \<or> has_key out k"
  by (induction ca cfg project m out arbitrary: r rule: resolve_builds.induct) auto

lemma resolveOverrides_keys: "resolveOverrides ca cfg project m = Inr r \<Longrightarrow> has_key r k \<longleftrightarrow> has_key m k"
  using resolve_builds_keys by (auto simp: resolveOverrides_def)

lemma resolveOverrides_len:
  assumes "resolveOverrides ca cfg project m = Inr r"
  shows "map_len r = map_len m"
proof -
  have "fst ` set r = fst ` set m"
    using resolveOverrides_keys[OF assms] by (auto simp: has_key_iff set_eq_iff)
  then show ?thesis by (simp add: map_len_card)
qed

section \<open>The profiles of a created plan\<close>

definition profile_ok :: "service_config \<Rightarrow> baseline \<Rightarrow> string \<Rightarrow> component \<Rightarrow> bool" where
  "profile_ok cfg b i p \<longleftrightarrow>
     has_key (b_components b) i \<and> cp_overridable p \<and> validatePullSecrets cfg p = None"

definition dependencies_selected :: "component gomap \<Rightarrow> component \<Rightarrow> bool" where
  "dependencies_selected profiles p \<longleftrightarrow>
     list_all (has_key profiles) (case cp_execution p of None \<Rightarrow> [] | Some x \<Rightarrow> x_dependencies x)"

lemma missing_dependency_None: "missing_dependency profiles i ds = None \<longleftrightarrow> list_all (has_key profiles) ds"
  by (induction profiles i ds rule: missing_dependency.induct) auto

lemma missing_dependency_Some:
  "missing_dependency profiles i ds = Some e \<Longrightarrow> list_all (has_key profiles) ds \<Longrightarrow> False"
  using missing_dependency_None[of profiles i ds] by simp

lemma missing_dependencies_None:
  "missing_dependencies profiles m = None \<longleftrightarrow> list_all (\<lambda>(i, p). dependencies_selected profiles p) m"
  by (induction profiles m rule: missing_dependencies.induct)
    (auto simp: dependencies_selected_def missing_dependency_None split: option.splits dest: missing_dependency_Some)

lemma HasEndpoint_port [simp]: "HasEndpoint (p\<lparr>cp_port := n\<rparr>) = HasEndpoint p"
  by (simp add: HasEndpoint_def WorkloadKind_def)

lemma validatePullSecrets_port [simp]: "validatePullSecrets cfg (p\<lparr>cp_port := n\<rparr>) = validatePullSecrets cfg p"
  by (simp add: validatePullSecrets_def)

lemma profile_ok_port [simp]: "profile_ok cfg b i (p\<lparr>cp_port := n\<rparr>) = profile_ok cfg b i p"
  by (simp add: profile_ok_def)

lemma prepare_component_Inr:
  assumes "prepare_component ca cfg req b i prep = Inr prep'" "\<not> has_key (prep_profiles prep) i"
  shows "\<exists>p. prep_profiles prep' = prep_profiles prep @ [(i, p)] \<and> profile_ok cfg b i p \<and>
    (prep_has_endpoint prep' \<longleftrightarrow> prep_has_endpoint prep \<or> HasEndpoint p)"
proof -
  obtain p s where "prep' = add_profile b i p s prep" "profile_ok cfg b i p"
    using assms(1) by (auto simp: prepare_component_def profile_ok_def split: if_splits)
  then show ?thesis
    using assms(2) by (auto simp: add_profile_def update_absent split: option.splits)
qed

lemma prepare_components_Inr:
  assumes "prepare_components ca cfg req b names prep = Inr prep'" "distinct names"
    and "list_all (\<lambda>i. \<not> has_key (prep_profiles prep) i) names"
  shows "\<exists>added. prep_profiles prep' = prep_profiles prep @ added \<and> map fst added = names \<and>
    list_all (\<lambda>(i, p). profile_ok cfg b i p) added \<and>
    (prep_has_endpoint prep' \<longleftrightarrow> prep_has_endpoint prep \<or> list_ex (\<lambda>(i, p). HasEndpoint p) added)"
  using assms
proof (induction ca cfg req b names prep rule: prepare_components.induct)
  case (2 ca cfg req b i rest prep)
  obtain mid where mid: "prepare_component ca cfg req b i prep = Inr mid"
    "prepare_components ca cfg req b rest mid = Inr prep'"
    using "2.prems"(1) by auto
  obtain p where p: "prep_profiles mid = prep_profiles prep @ [(i, p)]" "profile_ok cfg b i p"
    "prep_has_endpoint mid \<longleftrightarrow> prep_has_endpoint prep \<or> HasEndpoint p"
    using prepare_component_Inr[OF mid(1)] "2.prems"(3) by auto
  have "list_all (\<lambda>j. \<not> has_key (prep_profiles mid) j) rest"
    using "2.prems"(2,3) p(1) by (auto simp: list_all_iff has_key_iff)
  with "2.IH"[OF mid(2)] "2.prems"(2) obtain added where "prep_profiles prep' = prep_profiles mid @ added"
    "map fst added = rest" "list_all (\<lambda>(i, p). profile_ok cfg b i p) added"
    "prep_has_endpoint prep' \<longleftrightarrow> prep_has_endpoint mid \<or> list_ex (\<lambda>(i, p). HasEndpoint p) added"
    by auto
  with p show ?case by (intro exI[of _ "(i, p) # added"]) auto
qed simp

lemma prepareCreate_Inr:
  assumes "prepareCreate ca cfg req = Inr (b, prep)"
  shows "map fst (prep_profiles prep) = OverrideNames (nil_map (cr_overrides req)) \<and>
    list_all (\<lambda>(i, p). profile_ok cfg b i p \<and> dependencies_selected (prep_profiles prep) p) (prep_profiles prep) \<and>
    ValidateExecutionGraph (prep_profiles prep) = None \<and> ValidateMessaging b = None \<and>
    (prep_has_endpoint prep \<longleftrightarrow>
       vc_kind (b_verification b) \<noteq> ''none'' \<or> list_ex (\<lambda>(i, p). HasEndpoint p) (prep_profiles prep))"
proof -
  let ?start = "\<lparr>prep_profiles = [], prep_previews = [], prep_provenance = [],
    prep_has_endpoint = (vc_kind (b_verification b) \<noteq> ''none'')\<rparr>"
  let ?names = "OverrideNames (nil_map (cr_overrides req))"
  have run: "prepare_components ca cfg req b ?names ?start = Inr prep"
    and graph: "ValidateExecutionGraph (prep_profiles prep) = None"
    "missing_dependencies (prep_profiles prep) (prep_profiles prep) = None" "ValidateMessaging b = None"
    using assms by (auto simp: prepareCreate_def split: if_splits)
  have "list_all (\<lambda>i. \<not> has_key (prep_profiles ?start) i) ?names" by (simp add: list_all_iff)
  from prepare_components_Inr[OF run _ this]
  have "map fst (prep_profiles prep) = ?names" "list_all (\<lambda>(i, p). profile_ok cfg b i p) (prep_profiles prep)"
    "prep_has_endpoint prep \<longleftrightarrow>
       vc_kind (b_verification b) \<noteq> ''none'' \<or> list_ex (\<lambda>(i, p). HasEndpoint p) (prep_profiles prep)"
    by (auto simp: OverrideNames_def)
  moreover have "list_all (\<lambda>(i, p). dependencies_selected (prep_profiles prep) p) (prep_profiles prep)"
    using graph(2) by (simp add: missing_dependencies_None)
  ultimately show ?thesis using graph by (auto simp: list_all_iff)
qed

section \<open>Canonical requests\<close>

lemma NormalizeCreate_Inr:
  assumes "NormalizeCreate req cfg = Inr (req', ttl)"
  shows "req' = req\<lparr>cr_resources := [], cr_ttl := show_duration ttl\<rparr> \<and> 0 < ttl \<and>
    ttl \<le> (if sc_max_ttl cfg = 0 then 24 * hour else sc_max_ttl cfg) \<and>
    (\<exists>m. cr_overrides req = Some m \<and> map_len m \<le> MaxOverrides)"
  using assms
  by (auto simp: NormalizeCreate_def Let_def ValidateOverrides_def split: if_splits option.splits)

lemma canonical_request_Inr:
  assumes "canonical_request ca cfg req0 = Inr (req, ttl)"
  shows "0 < ttl \<and> ttl \<le> (if sc_max_ttl cfg = 0 then 24 * hour else sc_max_ttl cfg) \<and>
    map_len (nil_map (cr_overrides req)) \<le> MaxOverrides"
proof -
  obtain req1 r where "NormalizeCreate req0 cfg = Inr (req1, ttl)"
    "resolveOverrides ca cfg (cr_project req1) (nil_map (cr_overrides req1)) = Inr r"
    "req = req1\<lparr>cr_overrides := Some r\<rparr>"
    using assms by (auto simp: canonical_request_def)
  then show ?thesis using NormalizeCreate_Inr[of req0 cfg req1 ttl] resolveOverrides_len by fastforce
qed

section \<open>Properties of creation\<close>

definition demo_worker :: "string \<Rightarrow> component" where
  "demo_worker i = zero_component
     \<lparr>cp_execution := Some \<lparr>x_kind = WorkloadWorker, x_dependencies = [], x_timeout = [], x_retry_limit = 0,
        x_schedule = [], x_max_runs = 0, x_concurrency_policy = []\<rparr>,
      cp_id := i, cp_project := ''demo'', cp_profile := ''worker'', cp_overridable := True\<rparr>"

definition demo_http :: "string \<Rightarrow> component" where
  "demo_http i = zero_component
     \<lparr>cp_id := i, cp_project := ''demo'', cp_profile := ''http-small'', cp_protocol := ''http'', cp_port := 8080,
      cp_overridable := True\<rparr>"

text \<open>An endpoint-free baseline that binds a worker and an HTTP component.\<close>

definition demo_baseline :: baseline where
  "demo_baseline = zero_baseline
     \<lparr>b_verification := \<lparr>vc_kind = ''none'', vc_chain = [], vc_path = [], vc_expected_status = 0\<rparr>,
      b_id := ''batch'', b_project := ''demo'', b_revision := ''r1'',
      b_components := [(''worker'', zero_binding\<lparr>bb_image := ''worker:1''\<rparr>),
        (''web'', \<lparr>bb_service_host = ''web.shop.svc.cluster.local'', bb_port = 80, bb_image = ''web:1''\<rparr>)]\<rparr>"

definition demo_catalog :: catalog where
  "demo_catalog =
     \<lparr>ca_baseline = (\<lambda>project i. Inr demo_baseline),
      ca_component = (\<lambda>project i. Inr (if i = ''web'' then demo_http i else demo_worker i)),
      ca_preview_profile = None, ca_build = None,
      ca_repository = (\<lambda>project i. Inl (NotFound ''repository not registered in project''))\<rparr>"

definition demo_service :: service_config where
  "demo_service =
     \<lparr>sc_default_ttl = 0, sc_max_ttl = 0, sc_max_compositions = 20,
      sc_preview_base_url = ''http://envy.localhost:8080'', sc_installation = ''local'',
      sc_approved_secrets = [], sc_messaging = None, sc_discoverer = None, sc_source_control = None,
      sc_image_registry = None\<rparr>"

definition image_of :: "string \<Rightarrow> component_override" where
  "image_of i = zero_override\<lparr>o_image := i\<rparr>"

definition demo_request :: "string \<Rightarrow> create_request" where
  "demo_request ttl =
     \<lparr>cr_message_isolation = False, cr_expected_preview_revisions = [], cr_expected_baseline_revision = [],
      cr_project = ''demo'', cr_baseline = ''batch'', cr_name = ''Try it'',
      cr_overrides = Some [(''worker'', image_of ''worker:2'')], cr_resources = [], cr_ttl = ttl\<rparr>"

text \<open>
  C26: A created composition is one the reconciler can carry out. Its plan holds a profile for
  exactly the selected components, at most three; each is bound in the baseline, allows
  overrides, uses approved pull secrets only and has its dependencies selected with it; the
  dependency graph is acyclic; it has an endpoint exactly when the baseline verifies one or a
  selected component serves HTTP; and it expires within the configured limit.
\<close>

theorem created_plan_sound:
  assumes "canonical_request ca cfg req0 = Inr (req, ttl)" "new_composition ca cfg req ttl now cx = Inr c"
  shows "\<exists>plan. rt_plan (c_runtime c) = Some plan \<and>
    map fst (rp_components plan) = OverrideNames (c_overrides c) \<and> length (rp_components plan) \<le> 3 \<and>
    list_all (\<lambda>(i, p). profile_ok cfg (rp_baseline plan) i p \<and> dependencies_selected (rp_components plan) p)
      (rp_components plan) \<and>
    ValidateExecutionGraph (rp_components plan) = None \<and>
    (has_key (c_endpoints c) ''public'' \<longleftrightarrow> vc_kind (b_verification (rp_baseline plan)) \<noteq> ''none'' \<or>
       list_ex (\<lambda>(i, p). HasEndpoint p) (rp_components plan)) \<and>
    c_created_at c < c_expires_at c \<and>
    c_expires_at c \<le> c_created_at c + (if sc_max_ttl cfg = 0 then 24 * hour else sc_max_ttl cfg)"
proof -
  obtain b prep i owner op endpoints subs where steps: "prepareCreate ca cfg req = Inr (b, prep)"
    "created_endpoints cfg (prep_has_endpoint prep) i = Inr endpoints"
    "c = created_composition req ttl b prep subs endpoints i owner op (cx_identity cx) now"
    using assms(2) by (auto simp: new_composition_def)
  have sel: "c_overrides c = nil_map (cr_overrides req)" "c_endpoints c = endpoints" "c_created_at c = now"
    "c_expires_at c = now + ttl" "rt_plan (c_runtime c) = Some (created_plan b prep subs)"
    by (simp_all add: steps(3) created_composition_def)
  have plan: "rp_components (created_plan b prep subs) = prep_profiles prep"
    "rp_baseline (created_plan b prep subs) = b"
    by (simp_all add: created_plan_def)
  have "has_key endpoints ''public'' \<longleftrightarrow> prep_has_endpoint prep"
    using steps(2) by (auto simp: created_endpoints_def split: if_splits)
  moreover have "length (prep_profiles prep) = map_len (nil_map (cr_overrides req))"
    using prepareCreate_Inr[OF steps(1)] by (metis OverrideNames_def length_map length_sorted_keys)
  ultimately show ?thesis
    using prepareCreate_Inr[OF steps(1)] canonical_request_Inr[OF assms(1)] sel plan
    by (simp add: MaxOverrides_def)
qed

lemma show_8h: "show_duration 28800000000000 = ''8h0m0s''"
proof -
  have "char_of (56 :: nat) = CHR ''8''" "char_of (48 :: nat) = CHR ''0''" by code_simp+
  then show ?thesis using show_duration_seconds[of 28800] by (simp add: show_nat.simps)
qed

lemma demo_canonical_ttl:
  assumes "requested_ttl ttl (8 * hour) = Some (8 * hour)"
  shows "canonical_request demo_catalog demo_service (demo_request ttl) = Inr (demo_request ''8h0m0s'', 8 * hour)"
proof -
  have "ValidCatalogID ''worker''" "\<not> is_blank ''demo''" "\<not> is_blank ''batch''" "\<not> is_blank ''Try it''"
    "\<not> is_blank ''worker:2''"
    by code_simp+
  then show ?thesis
    using assms
    by (simp add: canonical_request_def NormalizeCreate_def demo_request_def demo_service_def Let_def
        validatePreviewGuards_def ValidateOverrides_def OverrideNames_def sorted_keys_def validate_override_def
        image_of_def zero_override_def get_or_def contains_any_def show_8h
        resolveOverrides_def resolve_build_def MaxOverrides_def map_len_def)
qed

lemma demo_canonical:
  "canonical_request demo_catalog demo_service (demo_request []) = Inr (demo_request ''8h0m0s'', 8 * hour)"
  by (rule demo_canonical_ttl) (simp add: requested_ttl_def)

lemma demo_new:
  "new_composition demo_catalog demo_service (demo_request ''8h0m0s'') (8 * hour) 7 demo_call =
     Inr (created_composition (demo_request ''8h0m0s'') (8 * hour) demo_baseline
       \<lparr>prep_profiles = [(''worker'', demo_worker ''worker'')], prep_previews = [], prep_provenance = [],
        prep_has_endpoint = False\<rparr> [] [] (hex_encode ''bytes'') (hex_encode ''bytes'') (hex_encode ''bytes'')
       None 7)"
  by code_simp

lemma created_plan_sound_witness:
  "\<exists>plan. rt_plan (c_runtime (created_composition (demo_request ''8h0m0s'') (8 * hour) demo_baseline
       \<lparr>prep_profiles = [(''worker'', demo_worker ''worker'')], prep_previews = [], prep_provenance = [],
        prep_has_endpoint = False\<rparr> [] [] (hex_encode ''bytes'') (hex_encode ''bytes'') (hex_encode ''bytes'')
       None 7)) = Some plan \<and> ValidateExecutionGraph (rp_components plan) = None"
  using created_plan_sound[OF demo_canonical demo_new] by blast

lemma CreateComposition_Inr:
  assumes "CreateComposition ca cfg req0 key now cx d = (Inr c, d1)" "canonical_request ca cfg req0 = Inr (req, ttl)"
    and "create_replayed key req cx d = Inr None"
  shows "idempotency_key_error key = None \<and>
    (\<exists>fresh. new_composition ca cfg req ttl now cx = Inr fresh \<and>
       Create fresh key (create_digest req) (sc_max_compositions cfg) cx d = (Inr c, d1))"
  using assms by (auto simp: CreateComposition_def split: sum.splits)

lemma Create_no_replay:
  assumes "create_replayed key req cx d = Inr None" "key \<noteq> []"
    and "Create c key (create_digest req) n cx d = (Inr c1, d1)"
  shows "create_replay key (create_digest req) cx d = None"
proof -
  have "map_of (db_idempotency d) key = None"
    using assms(1,2) by (auto simp: create_replayed_def ReplayCreate_def split: if_splits option.splits)
  then show ?thesis
    using assms(3) by (auto simp: Create_def create_replay_def Let_def split: sum.splits if_splits)
qed

text \<open>The identifier that \<open>Create\<close> returns is the one it was given.\<close>

lemma Create_id:
  assumes "Create c key hash n cx d = (Inr c1, d1)" "create_replay key hash cx d = None"
  shows "c_id c1 = c_id c"
proof -
  let ?c = "case cx_claim cx of None \<Rightarrow> c | Some claim \<Rightarrow> c\<lparr>c_pr_preview_id := cl_id claim\<rparr>"
  have "commit_tx ''commit composition'' (create_body ?c key hash n) cx d = (Inr c1, d1)"
    using assms by (auto simp: Create_def Let_def split: sum.splits)
  then have "create_body ?c key hash n cx d = Inr (c1, d1)"
    by (rule commit_tx_Inr[where m = "create_body ?c key hash n"])
  from create_body_Inr[OF this] show ?thesis by (auto split: option.splits)
qed

text \<open>
  C35: Retrying a creation is safe at the level of the service. When a creation was accepted under
  a key, a later request with the key that has the same canonical form, for instance the same
  lifetime spelled differently, returns the composition of the first, whatever ran on the store
  in between and even when the catalog has changed so that the request would now be refused.
\<close>

theorem create_retry_returns_first:
  assumes "wf_db d" "key \<noteq> []" "canonical_request ca cfg r1 = Inr (req, ttl)"
    and "CreateComposition ca cfg r1 key now cx d = (Inr c, d1)" "create_replayed key req cx d = Inr None"
    and "canonical_request ca2 cfg2 r2 = Inr (req, ttl2)" "cx_fault cx2 = None"
  shows "\<exists>again. CreateComposition ca2 cfg2 r2 key now2 cx2 (run ops d1) = (Inr again, run ops d1) \<and>
    c_id again = c_id c"
proof -
  obtain fresh where key: "idempotency_key_error key = None"
    and created: "Create fresh key (create_digest req) (sc_max_compositions cfg) cx d = (Inr c, d1)"
    using CreateComposition_Inr[OF assms(4,3,5)] by blast
  have none: "create_replay key (create_digest req) cx d = None"
    by (rule Create_no_replay[OF assms(5,2) created])
  obtain row where "map_of (db_idempotency (run ops d1)) key = Some (create_digest req, c_id fresh)"
    "map_of (db_compositions (run ops d1)) (c_id fresh) = Some row" "c_id (row_body row) = c_id fresh"
    using created_key_kept[OF assms(1) created none assms(2)] by blast
  then have "create_replayed key req cx2 (run ops d1) = Inr (Some (decodeComposition row))"
    using assms(2,7) by (simp add: create_replayed_def ReplayCreate_def Get_def read_composition_def attempt_def)
  then show ?thesis
    using key assms(6) Create_id[OF created none] \<open>c_id (row_body row) = c_id fresh\<close>
    by (simp add: CreateComposition_def)
qed

lemma demo_spelled:
  "canonical_request demo_catalog demo_service (demo_request ''8h0m0s'') = Inr (demo_request ''8h0m0s'', 8 * hour)"
  by (rule demo_canonical_ttl) (use parse_show_duration[of 28800] in \<open>simp add: requested_ttl_def show_8h\<close>)

lemma demo_created:
  "\<exists>c d1. CreateComposition demo_catalog demo_service (demo_request []) ''key'' 7 demo_call empty_db = (Inr c, d1)"
proof -
  have "idempotency_key_error ''key'' = None" by (simp add: idempotency_key_error_def)
  then show ?thesis
    using demo_canonical demo_new
    by (simp add: CreateComposition_def create_replayed_def ReplayCreate_def demo_call_def empty_db_def
        Create_def Let_def attempt_def tx_seq_def tx_bind_def guardPRPreview_def
        owner_of_def create_replay_def commit_tx_def create_body_def validateBuildOverrides_def
        created_composition_def zero_composition_def OverrideNames_def tx_return_def tx_read_def tx_call_def
        count_active_def insert_composition_def insert_key_def link_preview_def saveOperation_def tx_write_def
        insertRevision_def insertActivity_def demo_request_def sorted_keys_def image_of_def zero_override_def
        get_or_def demo_service_def)
qed

lemma create_retry_returns_first_witness:
  "\<exists>c d1 again. CreateComposition demo_catalog demo_service (demo_request []) ''key'' 7 demo_call empty_db = (Inr c, d1) \<and>
    CreateComposition demo_catalog demo_service (demo_request ''8h0m0s'') ''key'' 9 demo_call d1 = (Inr again, d1) \<and>
    c_id again = c_id c"
proof -
  obtain c d1 where made:
    "CreateComposition demo_catalog demo_service (demo_request []) ''key'' 7 demo_call empty_db = (Inr c, d1)"
    using demo_created by blast
  have "create_replayed ''key'' (demo_request ''8h0m0s'') demo_call empty_db = Inr None"
    by (simp add: create_replayed_def ReplayCreate_def demo_call_def empty_db_def)
  from create_retry_returns_first[OF wf_db_empty _ demo_canonical made this demo_spelled, of demo_call 9 "[]"]
  have "\<exists>again. CreateComposition demo_catalog demo_service (demo_request ''8h0m0s'') ''key'' 9 demo_call d1 =
      (Inr again, d1) \<and> c_id again = c_id c"
    by (simp add: demo_call_def)
  then show ?thesis using made by blast
qed

section \<open>Properties of updates\<close>

lemma map_of_map_copy_Nil: "wf_map m \<Longrightarrow> map_of (map_copy [] m) = map_of m"
  by (simp add: map_of_map_copy map_of_rev_wf)

text \<open>An update adds profiles to a plan and changes none it holds.\<close>

definition extends_plan :: "resolved_plan \<Rightarrow> resolved_plan \<Rightarrow> bool" where
  "extends_plan p q \<longleftrightarrow> rp_baseline q = rp_baseline p \<and>
     rp_message_subscriptions q = rp_message_subscriptions p \<and>
     map_of (rp_components p) \<subseteq>\<^sub>m map_of (rp_components q)"

lemma extends_refl [simp]: "extends_plan p p"
  by (simp add: extends_plan_def)

lemma extends_trans: "extends_plan p q \<Longrightarrow> extends_plan q r \<Longrightarrow> extends_plan p r"
  unfolding extends_plan_def by (metis map_le_trans)

lemma map_le_add: "\<not> has_key m k \<Longrightarrow> map_of m \<subseteq>\<^sub>m map_of (AList.update k v m)"
  by (auto simp: update_conv' map_le_def has_key_iff dom_map_of_conv_image_fst)

lemma capture_profile_extends:
  assumes "capture_profile ca cfg req i p plan = Inr plan'"
  shows "extends_plan plan plan' \<and> has_key (rp_components plan') i"
  using assms
  by (auto simp: capture_profile_def extends_plan_def map_le_add split: if_splits option.splits)

lemma update_component_extends:
  assumes "update_component ca cfg project req overrides i plan = Inr plan'"
  shows "extends_plan plan plan' \<and> has_key (rp_components plan') i \<and> has_key (b_components (rp_baseline plan)) i"
  using assms capture_profile_extends by (fastforce simp: update_component_def split: if_splits)

lemma extends_has_key: "extends_plan p q \<Longrightarrow> has_key (rp_components p) i \<Longrightarrow> has_key (rp_components q) i"
  by (auto simp: extends_plan_def map_le_def has_key_iff simp flip: dom_map_of_conv_image_fst)
    (metis domI domIff)

lemma update_components_extends:
  assumes "update_components ca cfg project req overrides names plan = Inr plan'"
  shows "extends_plan plan plan' \<and>
    list_all (\<lambda>i. has_key (rp_components plan') i \<and> has_key (b_components (rp_baseline plan')) i) names"
  using assms
proof (induction ca cfg project req overrides names plan rule: update_components.induct)
  case (2 ca cfg project req overrides i rest plan)
  obtain mid where mid: "update_component ca cfg project req overrides i plan = Inr mid"
    "update_components ca cfg project req overrides rest mid = Inr plan'"
    using "2.prems" by auto
  have rest: "extends_plan mid plan' \<and>
      list_all (\<lambda>i. has_key (rp_components plan') i \<and> has_key (b_components (rp_baseline plan')) i) rest"
    using "2.IH"[OF mid(2)] mid(2) by blast
  have first: "extends_plan plan mid" "has_key (rp_components mid) i" "has_key (b_components (rp_baseline plan)) i"
    using update_component_extends[OF mid(1)] by auto
  have "extends_plan plan plan'" using first(1) rest extends_trans by blast
  moreover from this have "rp_baseline plan' = rp_baseline plan" by (simp add: extends_plan_def)
  ultimately show ?case using first rest extends_has_key[of mid plan' i] by simp
qed simp

lemma keep_published_extends: "extends_plan plan (keep_published ca project m plan)"
proof (induction ca project m plan rule: keep_published.induct)
  case (2 ca project i o' rest plan)
  let ?next = "if has_key (rp_components plan) i then plan
    else case ca_component ca project i of Inl e \<Rightarrow> plan
      | Inr p \<Rightarrow> plan\<lparr>rp_components := AList.update i p (rp_components plan)\<rparr>"
  have "extends_plan plan ?next"
    by (auto simp: extends_plan_def map_le_add split: sum.splits)
  from extends_trans[OF this "2.IH"] show ?case by (simp only: keep_published.simps)
qed simp

text \<open>
  An update extends the captured plan of a composition. The plan it hands to the store has the
  baseline and the message subscriptions of the stored plan and every profile the stored plan
  holds, unchanged even when the catalog has moved on; every component it selects, at most three,
  has a profile in the plan and a binding in the baseline.
\<close>

theorem update_extends_plan:
  assumes "resolve_update ca cfg i req overrides cx d = Inr (req', op)" "Get i cx d = Inr c"
    and "rt_plan (c_runtime c) = Some stored" "wf_map (Profiles stored)"
  shows "\<exists>plan. ur_plan req' = Some plan \<and> rp_baseline plan = rp_baseline stored \<and>
    rp_message_subscriptions plan = rp_message_subscriptions stored \<and>
    map_of (Profiles stored) \<subseteq>\<^sub>m map_of (rp_components plan) \<and>
    map_len (ur_overrides req') \<le> 3 \<and>
    list_all (\<lambda>i. has_key (rp_components plan) i \<and> has_key (b_components (rp_baseline plan)) i)
      (OverrideNames (ur_overrides req'))"
proof -
  obtain m resolved plan where steps: "overrides = Some m" "map_len m \<le> MaxOverrides"
    "resolveOverrides ca cfg (c_project c) m = Inr resolved"
    "update_plan ca cfg req resolved c stored = Inr plan" "req' = req\<lparr>ur_overrides := resolved, ur_plan := Some plan\<rparr>"
    using assms(1-3)
    by (auto simp: resolve_update_def ValidateOverrides_def split: if_splits option.splits)
  let ?start = "stored\<lparr>rp_previews := map_copy [] (rp_previews stored), rp_components := map_copy [] (Profiles stored)\<rparr>"
  obtain mid where mid: "update_components ca cfg (c_project c) req resolved (OverrideNames resolved) ?start = Inr mid"
    "plan = keep_published ca (c_project c) (nil_map (rt_published_overrides (c_runtime c))) mid"
    using steps(4) by (auto simp: update_plan_def)
  have chain: "extends_plan ?start mid" "extends_plan mid plan"
    "list_all (\<lambda>i. has_key (rp_components mid) i \<and> has_key (b_components (rp_baseline mid)) i) (OverrideNames resolved)"
    using update_components_extends[OF mid(1)] mid(2) keep_published_extends by auto
  have "rp_baseline plan = rp_baseline mid" using chain(2) by (simp add: extends_plan_def)
  then have "list_all (\<lambda>i. has_key (rp_components plan) i \<and> has_key (b_components (rp_baseline plan)) i) (OverrideNames resolved)"
    using chain(3) extends_has_key[OF chain(2)] by (auto simp: list_all_iff)
  moreover have "extends_plan ?start plan" using chain extends_trans by blast
  moreover have "map_len resolved \<le> 3" using steps resolveOverrides_len by (simp add: MaxOverrides_def)
  ultimately show ?thesis
    using steps(5) map_of_map_copy_Nil[OF assms(4)] by (simp add: extends_plan_def)
qed

text \<open>A live worker composition of the endpoint-free baseline, and an update that selects the HTTP component too.\<close>

definition demo_plan :: resolved_plan where
  "demo_plan = zero_plan\<lparr>rp_baseline := demo_baseline, rp_components := [(''worker'', demo_worker ''worker'')]\<rparr>"

definition worker_composition :: composition where
  "worker_composition = demo_composition
     \<lparr>c_overrides := [(''worker'', image_of ''worker:2'')],
      c_runtime := zero_runtime\<lparr>rt_plan := Some demo_plan,
        rt_published_overrides := Some [(''worker'', image_of ''worker:2'')]\<rparr>\<rparr>"

definition worker_db :: db where
  "worker_db = empty_db\<lparr>db_compositions := [(''c1'', row_of worker_composition)]\<rparr>"

definition add_web :: update_request where
  "add_web = \<lparr>ur_expected_preview_revisions = [], ur_expected_generation = 1, ur_overrides = [],
     ur_idempotency_key = [], ur_plan = None\<rparr>"

definition both_images :: "component_override gomap" where
  "both_images = [(''web'', image_of ''web:2''), (''worker'', image_of ''worker:2'')]"

definition both_plan :: resolved_plan where
  "both_plan = demo_plan\<lparr>rp_components := [(''worker'', demo_worker ''worker''), (''web'', demo_http ''web'')]\<rparr>"

lemma worker_get: "Get ''c1'' demo_call worker_db = Inr worker_composition"
  by (simp add: Get_def read_composition_def attempt_def demo_call_def worker_db_def empty_db_def row_of_def
      decodeComposition_def encode_body_def RefreshPreviewProvenance_def worker_composition_def
      demo_composition_def zero_composition_def demo_plan_def zero_plan_def zero_runtime_def Let_def)

lemma both_valid: "ValidateOverrides (Some both_images) = None"
proof -
  have "ValidCatalogID ''worker''" "ValidCatalogID ''web''" "\<not> is_blank ''worker:2''" "\<not> is_blank ''web:2''"
    by code_simp+
  moreover have "sorted_keys both_images = [''web'', ''worker'']" by code_simp
  ultimately show ?thesis
    by (simp add: ValidateOverrides_def OverrideNames_def validate_override_def both_images_def image_of_def
        zero_override_def get_or_def contains_any_def MaxOverrides_def map_len_def)
qed

lemma worker_resolved:
  "resolve_update demo_catalog demo_service ''c1'' add_web (Some both_images) demo_call worker_db =
     Inr (add_web\<lparr>ur_overrides := both_images, ur_plan := Some both_plan\<rparr>, hex_encode ''bytes'')"
proof -
  have names: "OverrideNames both_images = [''web'', ''worker'']" by code_simp
  have "update_plan demo_catalog demo_service add_web both_images worker_composition demo_plan = Inr both_plan"
    unfolding update_plan_def names by code_simp
  moreover have "resolveOverrides demo_catalog demo_service project both_images = Inr both_images" for project
    by (simp add: resolveOverrides_def both_images_def resolve_build_def image_of_def zero_override_def)
  ultimately show ?thesis
    using worker_get both_valid
    by (simp add: resolve_update_def add_web_def validatePreviewGuards_def worker_composition_def RandomID_def
        demo_call_def demo_composition_def)
qed

lemma update_extends_plan_witness:
  "map_len both_images \<le> 3 \<and> map_of (Profiles demo_plan) \<subseteq>\<^sub>m map_of (rp_components both_plan)"
proof -
  have "rt_plan (c_runtime worker_composition) = Some demo_plan" "wf_map (Profiles demo_plan)"
    by (simp_all add: worker_composition_def demo_plan_def Profiles_def wf_map_def)
  from update_extends_plan[OF worker_resolved worker_get this] show ?thesis by simp
qed

section \<open>A composition without an endpoint\<close>

lemma snapshot_all_Inl:
  assumes "c \<in> set cs" "\<And>s. \<exists>e. snapshot_one now c s = Inl e"
  shows "\<exists>e. snapshot_all (\<lambda>_. now) k cs s = Inl e"
  using assms(1)
proof (induction cs arbitrary: k s)
  case (Cons a cs)
  then show ?case using assms(2)[of s] by (cases "snapshot_one now a s") auto
qed simp

lemma endpointHost_absent: "\<not> has_key (c_endpoints c) ''public'' \<Longrightarrow>
  endpointHost c = Inl (Plain ''composition has no valid allocated endpoint'')"
proof -
  have "url_hostname [] = Some []" by code_simp
  then show "\<not> has_key (c_endpoints c) ''public'' \<Longrightarrow>
      endpointHost c = Inl (Plain ''composition has no valid allocated endpoint'')"
    by (simp add: endpointHost_def parsed_host_def get_or_absent zero_endpoint_def)
qed

text \<open>
  C37: One composition without an allocated endpoint stops the routes of all. Whatever else is
  active, a snapshot that holds a composition with active routes, undeleted and unexpired, for
  which no endpoint was allocated is refused, so nothing is published for any composition.
  \<open>worker_update_has_no_endpoint\<close> shows that an accepted update leads there.
\<close>

theorem endpointless_composition_blocks_routes:
  assumes "c \<in> set compositions" "open_at now c" "\<not> has_key (c_endpoints c) ''public''"
  shows "\<exists>e. Snapshot (\<lambda>_. now) compositions = Inl e"
proof -
  have "\<exists>e. snapshot_one now c s = Inl e" for s
    using assms(2) endpointHost_absent[OF assms(3)]
    by (auto simp: snapshot_one_def snapshot_ingress_def Let_def split: option.split sum.split)
  then show ?thesis
    using assms(1) by (simp add: Snapshot_def snapshot_all_Inl)
qed

lemma worker_update_has_no_endpoint:
  "\<exists>c d. UpdateComposition demo_catalog demo_service ''c1'' add_web (Some both_images) demo_call worker_db = (Inr c, d) \<and>
     rt_plan (c_runtime c) = Some both_plan \<and> list_ex (\<lambda>(i, p). HasEndpoint p) (rp_components both_plan) \<and>
     c_endpoints c = []"
proof -
  have builds: "validateBuildOverrides project both_images = tx_return ()" for project
    by (simp add: validateBuildOverrides_def OverrideNames_def sorted_keys_def both_images_def image_of_def
        zero_override_def get_or_def)
  have http: "list_ex (\<lambda>(i, p). HasEndpoint p) (rp_components both_plan)" by code_simp
  have row: "map_of (db_compositions worker_db) ''c1'' = Some (row_of worker_composition)" "db_previews worker_db = []"
    by (simp_all add: worker_db_def empty_db_def)
  have decode: "decodeComposition (row_of worker_composition) = worker_composition"
    using worker_get row by (simp add: Get_def read_composition_def attempt_def demo_call_def)
  have live: "c_generation worker_composition = 1" "c_phase worker_composition = PhaseReady"
    "\<not> c_deletion_requested worker_composition" "c_expires_at worker_composition = 1000"
    "c_endpoints worker_composition = []"
    by (simp_all add: worker_composition_def demo_composition_def zero_composition_def)
  let ?req = "add_web\<lparr>ur_overrides := both_images, ur_plan := Some both_plan\<rparr>"
  have "UpdateComposition demo_catalog demo_service ''c1'' add_web (Some both_images) demo_call worker_db =
      Update ''c1'' ?req (hex_encode ''bytes'') demo_call worker_db"
    by (simp add: UpdateComposition_def worker_resolved)
  moreover have "\<exists>c d. Update ''c1'' ?req (hex_encode ''bytes'') demo_call worker_db = (Inr c, d) \<and>
      rt_plan (c_runtime c) = Some both_plan \<and> c_endpoints c = []"
    by (simp add: Update_def attempt_def demo_call_def tx_seq_def tx_bind_def
        guardPRPreview_def owner_of_def row decode live tx_return_def update_replay_def add_web_def
        commit_tx_def update_body_def read_composition_def tx_call_def update_allowed_def builds tx_write_def
        saveOperation_def insert_update_key_def insertRevision_def insertActivity_def apply_update_def Let_def
        close_endpoints_def RefreshPreviewProvenance_def)
  ultimately show ?thesis using http by simp
qed

lemma endpointless_composition_blocks_routes_witness:
  "\<exists>e. Snapshot (\<lambda>_. 100) [worker_composition\<lparr>c_runtime := (c_runtime worker_composition)
     \<lparr>rt_plan := Some both_plan, rt_routing_active := True\<rparr>\<rparr>] = Inl e"
  by (rule endpointless_composition_blocks_routes[OF list.set_intros(1)])
    (simp_all add: open_at_def routed_def worker_composition_def demo_composition_def zero_composition_def
      zero_runtime_def)

end
