(* ===== verification/Catalog_Store.thy ===== *)
theory Catalog_Store
  imports Store Workload
begin

text \<open>
  The catalog tables of \<open>internal/persistence/postgres\<close> (\<open>catalog.go\<close>, \<open>onboarding.go\<close> and their
  statements): projects, components, baselines and the claims of baselines on service hosts.

  The primary keys, the foreign keys to \<open>projects\<close> and the unique index on a baseline's endpoint
  are those of the migrations: an insert that violates one fails with the code of PostgreSQL that
  \<open>catalogError\<close> translates. Bodies are stored as JSON; decoding what was encoded gives the same
  value, so a table holds the values.
\<close>

section \<open>Reading\<close>

definition ensureProject :: "string \<Rightarrow> unit tx" where
  "ensureProject project = attempt ''read project'' (\<lambda>cx d.
     if has_key (db_projects d) project then Inr ((), d) else Inl (NotFound ''project not found''))"

definition read_component :: "string \<Rightarrow> string \<Rightarrow> component tx" where
  "read_component project i = attempt ''read component'' (\<lambda>cx d.
     case map_of (db_components d) (project, i) of
       None \<Rightarrow> Inl (NotFound ''component not found in project'')
     | Some c \<Rightarrow> Inr (c, d))"

definition read_baseline :: "string \<Rightarrow> string \<Rightarrow> baseline tx" where
  "read_baseline project i = attempt ''read baseline'' (\<lambda>cx d.
     case map_of (db_baselines d) (project, i) of
       None \<Rightarrow> Inl (NotFound ''baseline not found in project'')
     | Some b \<Rightarrow> Inr (b, d))"

text \<open>\<open>decodePage\<close>: one row more than the limit tells that there is a next page.\<close>

definition decodePage :: "('a \<Rightarrow> string) \<Rightarrow> nat \<Rightarrow> 'a list \<Rightarrow> 'a list \<times> string" where
  "decodePage key limit items =
     (if limit < length items then (take limit items, key (last (take limit items))) else (items, []))"

text \<open>\<open>WHERE id > after ORDER BY id LIMIT limit + 1\<close>\<close>

definition page_rows :: "string \<Rightarrow> nat \<Rightarrow> 'a gomap \<Rightarrow> 'a list" where
  "page_rows after limit rows =
     take (limit + 1) (map snd (filter (\<lambda>(i, v). after < i) (sort_key fst rows)))"

definition in_project :: "string \<Rightarrow> ((string \<times> string) \<times> 'a) list \<Rightarrow> 'a gomap" where
  "in_project project rows = map (\<lambda>((p, i), v). (i, v)) (filter (\<lambda>((p, i), v). p = project) rows)"

definition Projects_page :: "string \<Rightarrow> nat \<Rightarrow> (project list \<times> string) tx" where
  "Projects_page after limit = attempt ''list catalog'' (tx_read (\<lambda>d.
     decodePage pj_id limit (page_rows after limit (db_projects d))))"

definition Components_page :: "string \<Rightarrow> string \<Rightarrow> nat \<Rightarrow> (component list \<times> string) tx" where
  "Components_page project after limit = tx_seq (ensureProject project)
     (attempt ''list catalog'' (tx_read (\<lambda>d.
       decodePage cp_id limit (page_rows after limit (in_project project (db_components d))))))"

definition Baselines_page :: "string \<Rightarrow> string \<Rightarrow> nat \<Rightarrow> (baseline list \<times> string) tx" where
  "Baselines_page project after limit = tx_seq (ensureProject project)
     (attempt ''list catalog'' (tx_read (\<lambda>d.
       decodePage b_id limit (page_rows after limit (in_project project (db_baselines d))))))"

section \<open>Statements\<close>

abbreviation registered_already :: go_error where
  "registered_already \<equiv> conflict ''catalog ID, endpoint or Service host is already registered'' []"

abbreviation no_owner :: go_error where "no_owner \<equiv> NotFound ''project or baseline not found''"

abbreviation catalog_write :: string where "catalog_write \<equiv> ''persist catalog registration''"

definition insert_project :: "project \<Rightarrow> unit tx" where
  "insert_project p = attempt catalog_write (\<lambda>cx d.
     if has_key (db_projects d) (pj_id p) then Inl registered_already
     else Inr ((), d\<lparr>db_projects := db_projects d @ [(pj_id p, p)]\<rparr>))"

definition insert_component :: "component \<Rightarrow> unit tx" where
  "insert_component c = attempt catalog_write (\<lambda>cx d.
     if map_of (db_components d) (cp_project c, cp_id c) \<noteq> None then Inl registered_already
     else if \<not> has_key (db_projects d) (cp_project c) then Inl no_owner
     else Inr ((), d\<lparr>db_components := db_components d @ [((cp_project c, cp_id c), c)]\<rparr>))"

text \<open>The baseline whose body has this endpoint; the index on it is unique.\<close>

definition endpoint_owner :: "string \<Rightarrow> db \<Rightarrow> (string \<times> string) option" where
  "endpoint_owner endpoint d = map_option fst (List.find (\<lambda>(k, b). b_endpoint b = endpoint) (db_baselines d))"

definition insert_baseline :: "baseline \<Rightarrow> unit tx" where
  "insert_baseline b = attempt catalog_write (\<lambda>cx d.
     if map_of (db_baselines d) (b_project b, b_id b) \<noteq> None \<or> endpoint_owner (b_endpoint b) d \<noteq> None
     then Inl registered_already
     else if \<not> has_key (db_projects d) (b_project b) then Inl no_owner
     else Inr ((), d\<lparr>db_baselines := db_baselines d @ [((b_project b, b_id b), b)]\<rparr>))"

definition insert_claim :: "string \<Rightarrow> string \<times> string \<Rightarrow> unit tx" where
  "insert_claim host owner = attempt catalog_write (\<lambda>cx d.
     if has_key (db_claims d) host then Inl registered_already
     else if map_of (db_baselines d) owner = None then Inl no_owner
     else Inr ((), d\<lparr>db_claims := db_claims d @ [(host, owner)]\<rparr>))"

fun insert_claims :: "string list \<Rightarrow> string \<times> string \<Rightarrow> unit tx" where
  "insert_claims [] owner = tx_return ()"
| "insert_claims (host # hosts) owner = tx_seq (insert_claim host owner) (insert_claims hosts owner)"

section \<open>Registration\<close>

definition catalog_activity :: "string \<Rightarrow> string \<Rightarrow> string \<Rightarrow> string \<Rightarrow> activity" where
  "catalog_activity action project resource_type i =
     \<lparr>act_occurred_at = 0, act_actor = unknown_principal, act_channel = [], act_task = [],
      act_action = action, act_outcome = ''accepted'', act_project = project,
      act_resource_type = resource_type, act_resource_id = i, act_composition = [],
      act_operation = [], act_generation_from = 0, act_generation_to = 0\<rparr>"

definition record_activity :: "activity \<Rightarrow> unit tx" where
  "record_activity a = tx_bind (tx_call cx_identity) (\<lambda>ctx. insertActivity ctx a)"

definition store_project :: "project \<Rightarrow> call \<Rightarrow> db \<Rightarrow> project result \<times> db" where
  "store_project p = transaction ''begin project registration'' catalog_write
     (tx_seq (insert_project p)
     (tx_seq (record_activity (catalog_activity ''catalog.project.register'' (pj_id p) ''project'' (pj_id p)))
     (tx_return p)))"

definition store_component :: "component \<Rightarrow> call \<Rightarrow> db \<Rightarrow> component result \<times> db" where
  "store_component c = transaction ''begin component registration'' catalog_write
     (tx_seq (insert_component c)
     (tx_seq (record_activity
        (catalog_activity ''catalog.component.register'' (cp_project c) ''component'' (cp_id c)))
     (tx_return c)))"

definition binding_hosts :: "baseline \<Rightarrow> string list" where
  "binding_hosts b = map (\<lambda>(name, binding). bb_service_host binding) (b_components b)"

definition store_baseline :: "baseline \<Rightarrow> call \<Rightarrow> db \<Rightarrow> baseline result \<times> db" where
  "store_baseline b = transaction ''begin registration'' catalog_write
     (tx_seq (insert_baseline b)
     (tx_seq (insert_claims (binding_hosts b) (b_project b, b_id b))
     (tx_seq (record_activity
        (catalog_activity ''catalog.baseline.register'' (b_project b) ''baseline'' (b_id b)))
     (tx_return b))))"

section \<open>Onboarding\<close>

text \<open>\<open>INSERT ... ON CONFLICT DO NOTHING\<close>; a foreign key is still enforced.\<close>

definition seed_project :: "project \<Rightarrow> unit tx" where
  "seed_project p = attempt catalog_write (\<lambda>cx d.
     if has_key (db_projects d) (pj_id p) then Inr ((), d)
     else Inr ((), d\<lparr>db_projects := db_projects d @ [(pj_id p, p)]\<rparr>))"

definition seed_component :: "component \<Rightarrow> unit tx" where
  "seed_component c = attempt catalog_write (\<lambda>cx d.
     if map_of (db_components d) (cp_project c, cp_id c) \<noteq> None then Inr ((), d)
     else if \<not> has_key (db_projects d) (cp_project c) then Inl no_owner
     else Inr ((), d\<lparr>db_components := db_components d @ [((cp_project c, cp_id c), c)]\<rparr>))"

definition seed_baseline :: "baseline \<Rightarrow> unit tx" where
  "seed_baseline b = attempt catalog_write (\<lambda>cx d.
     if map_of (db_baselines d) (b_project b, b_id b) \<noteq> None \<or> endpoint_owner (b_endpoint b) d \<noteq> None
     then Inr ((), d)
     else if \<not> has_key (db_projects d) (b_project b) then Inl no_owner
     else Inr ((), d\<lparr>db_baselines := db_baselines d @ [((b_project b, b_id b), b)]\<rparr>))"

definition seed_claim :: "string \<Rightarrow> string \<times> string \<Rightarrow> unit tx" where
  "seed_claim host owner = attempt catalog_write (\<lambda>cx d.
     if has_key (db_claims d) host then Inr ((), d)
     else if map_of (db_baselines d) owner = None then Inl no_owner
     else Inr ((), d\<lparr>db_claims := db_claims d @ [(host, owner)]\<rparr>))"

text \<open>The JSON text of the catalog values, for \<open>matchingCatalog\<close>.\<close>

definition project_json :: "project \<Rightarrow> json" where
  "project_json p = JObj [(''id'', JStr (pj_id p)), (''name'', JStr (pj_name p))]"

definition consumer_json :: "pubsub_consumer \<Rightarrow> json" where
  "consumer_json c = JObj ([(''subscription'', JStr (pc_subscription c)), (''component'', JStr (pc_component c)),
     (''subscription_env'', JStr (pc_subscription_env c))] @ omit_empty ''filter'' (JStr (pc_filter c)))"

definition topic_json :: "pubsub_topic \<Rightarrow> json" where
  "topic_json t = JObj [(''topic'', JStr (pt_topic t)), (''publishers'', JStrs (pt_publishers t)),
     (''consumers'', JMap consumer_json (pt_consumers t))]"

definition routing_json :: "baseline_routing \<Rightarrow> json" where
  "routing_json r = JObj
     ([(''namespace'', JStr (br_namespace r)), (''gateway'', JStr (br_gateway r))] @
      omit_empty ''gateway_namespace'' (JStr (br_gateway_namespace r)) @
      omit_empty ''gateway_section_name'' (JStr (br_gateway_section_name r)) @
      [(''entry_component'', JStr (br_entry_component r))] @
      omit_nil ''preview_selector'' (\<lambda>s. JObj [(''header'', JStr (sel_header s))]) (br_preview_selector r))"

definition contract_json :: "verification_contract \<Rightarrow> json" where
  "contract_json v = JObj
     ([(''kind'', JStr (vc_kind v))] @ omit_empty ''chain'' (JStrs (vc_chain v)) @
      omit_empty ''path'' (JStr (vc_path v)) @ omit_empty ''expected_status'' (JInt (vc_expected_status v)))"

definition binding_json :: "baseline_binding \<Rightarrow> json" where
  "binding_json b = JObj [(''service_host'', JStr (bb_service_host b)), (''port'', JInt (bb_port b)),
     (''image'', JStr (bb_image b))]"

definition baseline_json :: "baseline \<Rightarrow> json" where
  "baseline_json b = JObj
     (omit_empty ''pubsub'' (JMap topic_json (b_pubsub b)) @
      [(''routing'', routing_json (b_routing b)), (''verification'', contract_json (b_verification b)),
       (''id'', JStr (b_id b)), (''project'', JStr (b_project b)), (''revision'', JStr (b_revision b)),
       (''endpoint'', JStr (b_endpoint b)), (''components'', JMap binding_json (b_components b))])"

definition matchingCatalog :: "('a \<Rightarrow> json) \<Rightarrow> 'a option \<Rightarrow> 'a \<Rightarrow> string \<Rightarrow> bool \<Rightarrow> unit tx" where
  "matchingCatalog encode body wanted label required =
     (case body of
        None \<Rightarrow>
          if required then tx_fail (conflict (label @ '' conflicts with an existing registration'') [])
          else tx_return ()
      | Some v \<Rightarrow>
          if encode v = encode wanted then tx_return ()
          else tx_fail (conflict (label @ '' already exists with different immutable configuration'') []))"

definition when_apply :: "bool \<Rightarrow> unit tx \<Rightarrow> unit tx" where
  "when_apply apply m = (if apply then m else tx_return ())"

abbreviation onboarding_read :: string where "onboarding_read \<equiv> ''read onboarding catalog''"

fun bundle_components :: "bool \<Rightarrow> component list \<Rightarrow> unit tx" where
  "bundle_components apply [] = tx_return ()"
| "bundle_components apply (c # cs) =
     tx_seq (when_apply apply (seed_component c))
    (tx_seq (tx_bind (attempt onboarding_read (tx_read (\<lambda>d. map_of (db_components d) (cp_project c, cp_id c))))
       (\<lambda>body. matchingCatalog component_json body c (''component '' @ cp_id c) apply))
    (bundle_components apply cs))"

fun bundle_hosts :: "bool \<Rightarrow> string \<times> string \<Rightarrow> string list \<Rightarrow> unit tx" where
  "bundle_hosts apply owner [] = tx_return ()"
| "bundle_hosts apply owner (host # hosts) =
     tx_seq (when_apply apply (seed_claim host owner))
    (tx_bind (attempt ''read routing ownership'' (tx_read (\<lambda>d. map_of (db_claims d) host))) (\<lambda>claim.
     case claim of
       None \<Rightarrow> if apply then tx_fail (unavailable ''read routing ownership'') else bundle_hosts apply owner hosts
     | Some holder \<Rightarrow>
         if holder \<noteq> owner
         then tx_fail (conflict (''Service host '' @ host @ '' is already registered to another baseline'') [])
         else bundle_hosts apply owner hosts))"

definition catalogBundle :: "catalog_manifest \<Rightarrow> bool \<Rightarrow> unit tx" where
  "catalogBundle m apply =
     (let p = cm_project m; b = cm_baseline m; owner = (b_project b, b_id b) in
      tx_seq (when_apply apply (seed_project p))
     (tx_seq (tx_bind (attempt onboarding_read (tx_read (\<lambda>d. map_of (db_projects d) (pj_id p))))
        (\<lambda>body. matchingCatalog project_json body p (''project '' @ pj_id p) apply))
     (tx_seq (bundle_components apply (cm_components m))
     (tx_bind (attempt ''read baseline endpoint ownership'' (tx_read (endpoint_owner (b_endpoint b)))) (\<lambda>holder.
      if holder \<noteq> None \<and> holder \<noteq> Some owner
      then tx_fail (conflict ''baseline endpoint is already registered'' [])
      else
        tx_seq (when_apply apply (seed_baseline b))
       (tx_seq (tx_bind (attempt onboarding_read (tx_read (\<lambda>d. map_of (db_baselines d) owner)))
          (\<lambda>body. matchingCatalog baseline_json body b (''baseline '' @ b_id b) apply))
       (bundle_hosts apply owner (sort (binding_hosts b)))))))))"

definition CheckCatalog :: "catalog_manifest \<Rightarrow> call \<Rightarrow> db \<Rightarrow> unit result" where
  "CheckCatalog m cx d = (case catalogBundle m False cx d of Inl e \<Rightarrow> Inl e | Inr _ \<Rightarrow> Inr ())"

definition ApplyCatalog :: "catalog_manifest \<Rightarrow> call \<Rightarrow> db \<Rightarrow> unit result \<times> db" where
  "ApplyCatalog m = transaction ''begin onboarding'' catalog_write
     (tx_seq (catalogBundle m True)
       (record_activity (catalog_activity ''catalog.apply'' (pj_id (cm_project m)) ''catalog'' (pj_id (cm_project m)))))"

section \<open>The demo catalog\<close>

definition demo_host :: "string \<Rightarrow> string" where
  "demo_host name = name @ ''.envy-baseline.svc.cluster.local''"

definition seeded_component :: "string \<Rightarrow> component" where
  "seeded_component name = zero_component
     \<lparr>cp_id := name, cp_project := ''demo'', cp_protocol := ''http'', cp_port := 8080,
      cp_health_path := ''/healthz'', cp_readiness_path := ''/readyz'', cp_profile := ''http-small'',
      cp_overridable := True,
      cp_env := (if name = ''gateway'' then [(''DOWNSTREAM_URL'', ''http://'' @ demo_host ''service-a'' @ '':8080'')]
                 else if name = ''service-a''
                 then [(''DOWNSTREAM_URL'', ''http://'' @ demo_host ''service-b'' @ '':8080'')] else [])\<rparr>"

definition demo_names :: "string list" where
  "demo_names = [''gateway'', ''service-a'', ''service-b'']"

definition seeded_baseline :: baseline where
  "seeded_baseline = zero_baseline
     \<lparr>b_id := ''staging'', b_project := ''demo'', b_revision := ''demo-v1'',
      b_endpoint := ''http://baseline.envy.localhost:8080'',
      b_components := map (\<lambda>name. (name, \<lparr>bb_service_host = demo_host name, bb_port = 8080,
        bb_image = ''envy/'' @ name @ '':v1''\<rparr>)) demo_names,
      b_routing := \<lparr>br_namespace = ''envy-baseline'', br_gateway = ''envy-preview'', br_gateway_namespace = [],
        br_gateway_section_name = [], br_entry_component = ''gateway'', br_preview_selector = None\<rparr>,
      b_verification := \<lparr>vc_kind = ''envy-chain'', vc_chain = demo_names, vc_path = [],
        vc_expected_status = 0\<rparr>\<rparr>"

text \<open>\<open>SeedDemo\<close>. Every failure of its statements is reported under the name of the statement.\<close>

definition renamed :: "string \<Rightarrow> 'a tx \<Rightarrow> 'a tx" where
  "renamed action m cx d =
     (if cx_fault cx = Some action then Inl (unavailable action)
      else case m (cx\<lparr>cx_fault := None\<rparr>) d of Inl e \<Rightarrow> Inl (unavailable action) | Inr x \<Rightarrow> Inr x)"

fun seed_all :: "('a \<Rightarrow> unit tx) \<Rightarrow> 'a list \<Rightarrow> unit tx" where
  "seed_all f [] = tx_return ()"
| "seed_all f (x # xs) = tx_seq (f x) (seed_all f xs)"

definition SeedDemo :: "call \<Rightarrow> db \<Rightarrow> unit result \<times> db" where
  "SeedDemo = transaction ''begin demo seed'' ''commit demo seed''
     (tx_seq (renamed ''seed project'' (seed_project \<lparr>pj_id = ''demo'', pj_name = ''Envy demo''\<rparr>))
     (tx_seq (seed_all (\<lambda>name. renamed ''seed component'' (seed_component (seeded_component name))) demo_names)
     (tx_seq (renamed ''seed baseline'' (seed_baseline seeded_baseline))
     (seed_all (\<lambda>host. renamed ''seed routing claims''
        (seed_claim host (b_project seeded_baseline, b_id seeded_baseline))) (binding_hosts seeded_baseline)))))"

end
