(* ===== verification/Catalog_Props.thy ===== *)
theory Catalog_Props
  imports Catalog_Store Store_Facts
begin

text \<open>
  The invariant of the catalog tables: entries sit under their own keys, belong to a registered
  project, never change once registered, and no two baselines share an endpoint or a service
  host. The locale \<open>catalog_source\<close> is what the services rely on when they read the catalog; it
  is interpreted on the tables.
\<close>

section \<open>The invariant\<close>

definition catalog_ok :: "db \<Rightarrow> bool" where
  "catalog_ok d \<longleftrightarrow>
     list_all (\<lambda>(i, p). pj_id p = i) (db_projects d) \<and>
     list_all (\<lambda>((p, i), c). cp_project c = p \<and> cp_id c = i \<and> has_key (db_projects d) p) (db_components d) \<and>
     list_all (\<lambda>((p, i), b). b_project b = p \<and> b_id b = i \<and> has_key (db_projects d) p) (db_baselines d) \<and>
     distinct (map (\<lambda>(k, b). b_endpoint b) (db_baselines d)) \<and>
     list_all (\<lambda>(h, owner). map_of (db_baselines d) owner \<noteq> None) (db_claims d)"

text \<open>Every host a baseline binds is claimed by it; this holds between transactions.\<close>

definition claims_complete :: "db \<Rightarrow> bool" where
  "claims_complete d \<longleftrightarrow>
     (\<forall>k b. map_of (db_baselines d) k = Some b \<longrightarrow>
        list_all (\<lambda>h. map_of (db_claims d) h = Some k) (binding_hosts b))"

text \<open>Registered entries stay as they are.\<close>

definition catalog_grows :: "db \<Rightarrow> db \<Rightarrow> bool" where
  "catalog_grows d d' \<longleftrightarrow>
     map_of (db_projects d) \<subseteq>\<^sub>m map_of (db_projects d') \<and>
     map_of (db_components d) \<subseteq>\<^sub>m map_of (db_components d') \<and>
     map_of (db_baselines d) \<subseteq>\<^sub>m map_of (db_baselines d') \<and>
     map_of (db_claims d) \<subseteq>\<^sub>m map_of (db_claims d')"

lemma catalog_grows_refl [simp]: "catalog_grows d d"
  by (simp add: catalog_grows_def)

lemma catalog_grows_trans: "catalog_grows d d1 \<Longrightarrow> catalog_grows d1 d2 \<Longrightarrow> catalog_grows d d2"
  unfolding catalog_grows_def by (meson map_le_trans)

lemma map_le_snoc: "map_of m k = None \<Longrightarrow> map_of m \<subseteq>\<^sub>m map_of (m @ [(k, v)])"
  by (auto simp: map_le_def)

lemma has_key_snoc [simp]: "has_key (m @ [(k, v)]) j \<longleftrightarrow> j = k \<or> has_key m j"
  by (auto simp: has_key_iff)

lemma map_leD: "m \<subseteq>\<^sub>m n \<Longrightarrow> m k = Some v \<Longrightarrow> n k = Some v"
  by (metis domI map_le_def)

section \<open>Statements\<close>

definition registers :: "'a tx \<Rightarrow> bool" where
  "registers m \<longleftrightarrow>
     (\<forall>cx d a d'. m cx d = Inr (a, d') \<longrightarrow> catalog_ok d \<longrightarrow> catalog_ok d' \<and> catalog_grows d d')"

named_theorems registers_rules "statements keep the catalog well-formed and its entries unchanged"

lemma registersD: "registers m \<Longrightarrow> m cx d = Inr (a, d') \<Longrightarrow> catalog_ok d \<Longrightarrow> catalog_ok d' \<and> catalog_grows d d'"
  by (simp add: registers_def)

lemma registers_basic [registers_rules]:
  "registers (tx_return a)" "registers (tx_fail e)" "registers (tx_read f)" "registers (tx_call g)"
  by (auto simp: registers_def tx_elims)

lemma registers_bind [registers_rules]:
  assumes "registers m" "\<And>a. registers (f a)"
  shows "registers (tx_bind m f)"
  unfolding registers_def tx_bind_Inr using assms registersD catalog_grows_trans by metis

lemma registers_seq [registers_rules]: "registers m \<Longrightarrow> registers n \<Longrightarrow> registers (tx_seq m n)"
  unfolding tx_seq_def by (rule registers_bind)

lemma registers_attempt [registers_rules]: "registers m \<Longrightarrow> registers (attempt l m)"
  unfolding registers_def attempt_Inr by blast

lemma registers_insert_project [registers_rules]: "registers (insert_project p)" "registers (seed_project p)"
  by (auto simp: registers_def insert_project_def seed_project_def tx_elims catalog_ok_def catalog_grows_def
      list_all_iff map_le_snoc has_key_def split: if_splits)

lemma registers_insert_component [registers_rules]:
  "registers (insert_component c)" "registers (seed_component c)"
  by (auto simp: registers_def insert_component_def seed_component_def tx_elims catalog_ok_def catalog_grows_def
      list_all_iff map_le_snoc split: if_splits)

lemma endpoint_owner_None: "endpoint_owner e d = None \<longleftrightarrow> e \<notin> (\<lambda>(k, b). b_endpoint b) ` set (db_baselines d)"
  by (auto simp: endpoint_owner_def find_None_iff)

lemma inserted_baseline_ok:
  assumes "catalog_ok d" "map_of (db_baselines d) (b_project b, b_id b) = None"
    and "endpoint_owner (b_endpoint b) d = None" "has_key (db_projects d) (b_project b)"
    and "d' = d\<lparr>db_baselines := db_baselines d @ [((b_project b, b_id b), b)]\<rparr>"
  shows "catalog_ok d' \<and> catalog_grows d d'"
proof -
  have "distinct (map (\<lambda>(k, b). b_endpoint b) (db_baselines d'))"
    using assms(1,3) by (auto simp: assms(5) catalog_ok_def endpoint_owner_None)
  moreover have "list_all (\<lambda>(h, owner). map_of (db_baselines d') owner \<noteq> None) (db_claims d')"
    using assms(1) by (auto simp: assms(5) catalog_ok_def list_all_iff map_add_def split: option.splits)
  ultimately show ?thesis
    using assms by (auto simp: catalog_ok_def catalog_grows_def map_le_snoc)
qed

lemma registers_insert_baseline [registers_rules]:
  "registers (insert_baseline b)" "registers (seed_baseline b)"
  unfolding registers_def insert_baseline_def seed_baseline_def attempt_Inr
  using inserted_baseline_ok[OF _ _ _ _ refl, of _ b]
  by (auto split: if_splits simp del: split_paired_All split_paired_Ex not_None_eq not_Some_eq)

lemma registers_insert_claim [registers_rules]:
  "registers (insert_claim host owner)" "registers (seed_claim host owner)"
  by (auto simp: registers_def insert_claim_def seed_claim_def tx_elims catalog_ok_def catalog_grows_def
      list_all_iff map_le_snoc has_key_def split: if_splits)

lemma registers_insert_claims [registers_rules]: "registers (insert_claims hosts owner)"
  by (induction hosts owner rule: insert_claims.induct) (auto intro: registers_rules)

lemma add_activity_catalog [simp]:
  "db_projects (add_activity a d) = db_projects d" "db_components (add_activity a d) = db_components d"
  "db_baselines (add_activity a d) = db_baselines d" "db_claims (add_activity a d) = db_claims d"
  by (simp_all add: add_activity_def)

lemma registers_activity [registers_rules]: "registers (record_activity a)"
  by (auto simp: registers_def record_activity_def insertActivity_def tx_elims Let_def catalog_ok_def
      catalog_grows_def)

lemma registers_matching [registers_rules]: "registers (matchingCatalog enc body wanted label required)"
  by (auto simp: matchingCatalog_def intro: registers_rules split: option.split)

lemma registers_when [registers_rules]: "registers m \<Longrightarrow> registers (when_apply apply m)"
  by (simp add: when_apply_def registers_rules)

lemma registers_if [registers_rules]: "registers m \<Longrightarrow> registers n \<Longrightarrow> registers (if b then m else n)"
  by simp

lemma registers_bundle_components [registers_rules]: "registers (bundle_components apply cs)"
  by (induction cs) (auto intro!: registers_rules)

lemma registers_bundle_hosts [registers_rules]: "registers (bundle_hosts apply owner hosts)"
  by (induction hosts)
    (auto intro!: registers_rules split: option.split)

lemma registers_bundle [registers_rules]: "registers (catalogBundle m apply)"
  unfolding catalogBundle_def Let_def by (intro registers_rules)

section \<open>Claims\<close>

lemma keeps_claims [frame]:
  "keeps db_baselines (insert_claim host owner)" "keeps db_baselines (seed_claim host owner)"
  "keeps db_baselines (record_activity a)" "keeps db_claims (record_activity a)"
  by (auto simp: keeps_def insert_claim_def seed_claim_def record_activity_def insertActivity_def
      tx_elims Let_def split: if_splits)

lemma insert_claims_Inr:
  "insert_claims hosts owner cx d = Inr (u, d') \<Longrightarrow>
     db_baselines d' = db_baselines d \<and> map_of (db_claims d) \<subseteq>\<^sub>m map_of (db_claims d') \<and>
     list_all (\<lambda>h. map_of (db_claims d') h = Some owner) hosts \<and> distinct hosts"
proof (induction hosts owner arbitrary: d rule: insert_claims.induct)
  case (2 host hosts owner)
  obtain d1 where d1: "insert_claim host owner cx d = Inr ((), d1)" "insert_claims hosts owner cx d1 = Inr (u, d')"
    using "2.prems" by (auto simp: tx_elims)
  have step: "db_baselines d1 = db_baselines d" "db_claims d1 = db_claims d @ [(host, owner)]"
    "map_of (db_claims d) host = None"
    using d1(1) by (auto simp: insert_claim_def tx_elims has_key_def split: if_splits
        simp del: split_paired_All split_paired_Ex not_None_eq not_Some_eq)
  have rest: "db_baselines d' = db_baselines d1" "map_of (db_claims d1) \<subseteq>\<^sub>m map_of (db_claims d')"
    "list_all (\<lambda>h. map_of (db_claims d') h = Some owner) hosts" "distinct hosts"
    using "2.IH"[OF d1(2)] by auto
  have "map_of (db_claims d) \<subseteq>\<^sub>m map_of (db_claims d1)"
    using step by (simp add: map_le_snoc)
  moreover have "map_of (db_claims d1) host = Some owner" using step by (simp add: map_add_def)
  then have "map_of (db_claims d') host = Some owner" using rest(2) by (auto simp: map_le_def dom_def)
  moreover have "host \<notin> set hosts"
  proof
    assume "host \<in> set hosts"
    then show False using d1(2) \<open>map_of (db_claims d1) host = Some owner\<close>
    proof (induction hosts arbitrary: d1)
      case (Cons h hs)
      from Cons.prems(2) obtain d2 where d2: "insert_claim h owner cx d1 = Inr ((), d2)"
        "insert_claims hs owner cx d2 = Inr (u, d')" by (auto simp: tx_elims)
      then have "h \<noteq> host" "map_of (db_claims d2) host = Some owner"
        using Cons.prems(3) by (auto simp: insert_claim_def tx_elims has_key_def map_add_def split: if_splits
            simp del: split_paired_All split_paired_Ex not_None_eq not_Some_eq)
      with Cons d2 show ?case by auto
    qed simp
  qed
  ultimately show ?case using rest step(1) map_le_trans by auto
qed (auto simp: tx_elims)

lemma bundle_hosts_Inr:
  "bundle_hosts True owner hosts cx d = Inr (u, d') \<Longrightarrow>
     db_baselines d' = db_baselines d \<and> map_of (db_claims d) \<subseteq>\<^sub>m map_of (db_claims d') \<and>
     list_all (\<lambda>h. map_of (db_claims d') h = Some owner) hosts"
proof (induction hosts arbitrary: d)
  case (Cons host hosts)
  obtain d1 where d1: "seed_claim host owner cx d = Inr ((), d1)" "map_of (db_claims d1) host = Some owner"
    "bundle_hosts True owner hosts cx d1 = Inr (u, d')"
    using Cons.prems
    by (auto simp: tx_elims when_apply_def split: option.splits if_splits simp del: split_paired_All split_paired_Ex not_None_eq not_Some_eq)
  have step: "db_baselines d1 = db_baselines d" "map_of (db_claims d) \<subseteq>\<^sub>m map_of (db_claims d1)"
    using d1(1) by (auto simp: seed_claim_def tx_elims has_key_def map_le_snoc split: if_splits
        simp del: split_paired_All split_paired_Ex not_None_eq not_Some_eq)
  have rest: "db_baselines d' = db_baselines d1" "map_of (db_claims d1) \<subseteq>\<^sub>m map_of (db_claims d')"
    "list_all (\<lambda>h. map_of (db_claims d') h = Some owner) hosts"
    using Cons.IH[OF d1(3)] by auto
  then have "map_of (db_claims d') host = Some owner" using d1(2) by (auto simp: map_le_def dom_def)
  then show ?case using step rest map_le_trans by auto
qed (auto simp: tx_elims)

lemma claims_complete_grows:
  assumes "claims_complete d" "map_of (db_claims d) \<subseteq>\<^sub>m map_of (db_claims d')"
    and "\<And>k b. map_of (db_baselines d') k = Some b \<Longrightarrow> map_of (db_baselines d) k \<noteq> Some b \<Longrightarrow>
      list_all (\<lambda>h. map_of (db_claims d') h = Some k) (binding_hosts b)"
  shows "claims_complete d'"
  unfolding claims_complete_def
proof (intro allI impI)
  fix k b assume b: "map_of (db_baselines d') k = Some b"
  show "list_all (\<lambda>h. map_of (db_claims d') h = Some k) (binding_hosts b)"
  proof (cases "map_of (db_baselines d) k = Some b")
    case True
    then have "list_all (\<lambda>h. map_of (db_claims d) h = Some k) (binding_hosts b)"
      using assms(1) unfolding claims_complete_def by blast
    then show ?thesis using assms(2) by (auto simp: list_all_iff map_le_def dom_def)
  qed (use assms(3) b in blast)
qed

lemma transaction_frame:
  "transaction begin_action commit_action m cx d = (r, d') \<Longrightarrow> keeps f m \<Longrightarrow> f d' = f d"
  by (cases r) (auto dest: transaction_Inl transaction_Inr keepsD)

section \<open>Registrations as steps\<close>

inductive catalog_step :: "db \<Rightarrow> db \<Rightarrow> bool" where
  Store_Project: "store_project p cx d = (r, d') \<Longrightarrow> catalog_step d d'"
| Store_Component: "store_component c cx d = (r, d') \<Longrightarrow> catalog_step d d'"
| Store_Baseline: "store_baseline b cx d = (r, d') \<Longrightarrow> catalog_step d d'"
| Apply_Catalog: "ApplyCatalog m cx d = (r, d') \<Longrightarrow> catalog_step d d'"

lemma transaction_registers:
  assumes "transaction begin_action commit_action m cx d = (r, d')" "registers m" "catalog_ok d"
  shows "catalog_ok d' \<and> catalog_grows d d'"
proof (cases r)
  case (Inl e)
  then have "d' = d" using assms(1) transaction_Inl by metis
  then show ?thesis using assms(3) by simp
next
  case (Inr a)
  then show ?thesis using assms transaction_Inr registersD by metis
qed

lemma catalog_step_ok:
  assumes "catalog_step d d'" "catalog_ok d"
  shows "catalog_ok d' \<and> catalog_grows d d'"
  using assms
  by cases (auto simp: store_project_def store_component_def store_baseline_def ApplyCatalog_def
      dest!: transaction_registers intro!: registers_rules)

lemma keeps_baselines [frame]:
  "keeps db_baselines (insert_project p)" "keeps db_baselines (insert_component c)"
  "keeps db_baselines (seed_project p)" "keeps db_baselines (seed_component c)"
  "keeps db_baselines (matchingCatalog enc body wanted label required)"
  by (auto simp: keeps_def insert_project_def insert_component_def seed_project_def seed_component_def
      matchingCatalog_def tx_elims split: if_splits option.splits)

lemma keeps_bundle_components [frame]: "keeps db_baselines (bundle_components apply cs)"
  by (induction cs) (auto simp: when_apply_def intro!: frame)

text \<open>What a registered baseline and an applied manifest add.\<close>

lemma store_baseline_Inr:
  assumes "store_baseline b cx d = (Inr b', d')"
  shows "db_baselines d' = db_baselines d @ [((b_project b, b_id b), b)] \<and>
    map_of (db_baselines d) (b_project b, b_id b) = None \<and> endpoint_owner (b_endpoint b) d = None \<and>
    map_of (db_claims d) \<subseteq>\<^sub>m map_of (db_claims d') \<and>
    list_all (\<lambda>h. map_of (db_claims d') h = Some (b_project b, b_id b)) (binding_hosts b) \<and>
    distinct (binding_hosts b)"
proof -
  obtain d1 d2 where steps: "insert_baseline b cx d = Inr ((), d1)"
    "insert_claims (binding_hosts b) (b_project b, b_id b) cx d1 = Inr ((), d2)"
    "record_activity (catalog_activity ''catalog.baseline.register'' (b_project b) ''baseline'' (b_id b)) cx d2 =
       Inr ((), d')"
    using transaction_Inr[OF assms[unfolded store_baseline_def]] by (auto simp: tx_elims)
  have "db_baselines d' = db_baselines d2" "db_claims d' = db_claims d2"
    using steps(3) keeps_claims(3,4) by (auto dest: keepsD)
  moreover have "db_baselines d1 = db_baselines d @ [((b_project b, b_id b), b)]" "db_claims d1 = db_claims d"
    "map_of (db_baselines d) (b_project b, b_id b) = None" "endpoint_owner (b_endpoint b) d = None"
    using steps(1) by (auto simp: insert_baseline_def tx_elims split: if_splits
        simp del: split_paired_All split_paired_Ex not_None_eq not_Some_eq)
  ultimately show ?thesis using insert_claims_Inr[OF steps(2)] by simp
qed

lemma ApplyCatalog_Inr:
  assumes "ApplyCatalog m cx d = (Inr u, d')"
  defines "b \<equiv> cm_baseline m"
  shows "(\<forall>k v. map_of (db_baselines d') k = Some v \<longrightarrow> map_of (db_baselines d) k = Some v \<or>
      k = (b_project b, b_id b) \<and> v = b) \<and>
    list_all (\<lambda>h. map_of (db_claims d') h = Some (b_project b, b_id b)) (binding_hosts b)"
proof -
  let ?o = "(b_project b, b_id b)"
  obtain d0 where d0: "catalogBundle m True cx d = Inr ((), d0)"
    "record_activity (catalog_activity ''catalog.apply'' (pj_id (cm_project m)) ''catalog'' (pj_id (cm_project m))) cx d0 =
       Inr (u, d')"
    using transaction_Inr[OF assms(1)[unfolded ApplyCatalog_def]] by (auto simp: tx_elims)
  have last: "db_baselines d' = db_baselines d0" "db_claims d' = db_claims d0"
    using d0(2) keeps_claims(3,4) by (auto dest: keepsD)
  obtain d1 d2 d3 d4 d5 body holder where steps: "seed_project (cm_project m) cx d = Inr ((), d1)"
    "matchingCatalog project_json body (cm_project m) (''project '' @ pj_id (cm_project m)) True cx d1 = Inr ((), d2)"
    "bundle_components True (cm_components m) cx d2 = Inr ((), d3)"
    "seed_baseline b cx d3 = Inr ((), d4)"
    "matchingCatalog baseline_json holder b (''baseline '' @ b_id b) True cx d4 = Inr ((), d5)"
    "bundle_hosts True ?o (sort (binding_hosts b)) cx d5 = Inr ((), d0)"
    using d0(1) by (auto simp: catalogBundle_def Let_def tx_elims when_apply_def b_def split: if_splits)
  have "db_baselines d3 = db_baselines d"
    using keepsD[OF keeps_baselines(3) steps(1)] keepsD[OF keeps_baselines(5) steps(2)]
      keepsD[OF keeps_bundle_components steps(3)] by simp
  moreover have "db_baselines d4 = db_baselines d3 \<or>
      db_baselines d4 = db_baselines d3 @ [(?o, b)] \<and> map_of (db_baselines d3) ?o = None"
    using steps(4) by (auto simp: seed_baseline_def tx_elims split: if_splits)
  moreover have "db_baselines d5 = db_baselines d4" using keepsD[OF keeps_baselines(5) steps(5)] .
  ultimately show ?thesis
    using bundle_hosts_Inr[OF steps(6)] last
    by (auto simp: map_add_def list_all_iff split: option.splits if_splits)
qed

lemma catalog_step_claims:
  assumes "catalog_step d d'" "catalog_ok d" "claims_complete d"
  shows "claims_complete d'"
proof -
  have grows: "map_of (db_claims d) \<subseteq>\<^sub>m map_of (db_claims d')"
    using catalog_step_ok[OF assms(1,2)] by (simp add: catalog_grows_def)
  have same: "claims_complete d'" if "db_baselines d' = db_baselines d"
    using claims_complete_grows[OF assms(3) grows] that by auto
  from assms(1) show ?thesis
  proof cases
    case (Store_Project p cx r)
    then show ?thesis
      unfolding store_project_def by (auto dest!: transaction_frame[where f = db_baselines] intro!: frame same)
  next
    case (Store_Component c cx r)
    then show ?thesis
      unfolding store_component_def by (auto dest!: transaction_frame[where f = db_baselines] intro!: frame same)
  next
    case (Store_Baseline b cx r)
    show ?thesis
    proof (cases r)
      case Inl
      then show ?thesis using Store_Baseline same by (auto simp: store_baseline_def dest!: transaction_Inl)
    next
      case (Inr b')
      note added = store_baseline_Inr[OF Store_Baseline[unfolded Inr]]
      show ?thesis
        by (rule claims_complete_grows[OF assms(3) grows])
          (use added in \<open>auto simp: map_add_def split: option.splits if_splits\<close>)
    qed
  next
    case (Apply_Catalog m cx r)
    show ?thesis
    proof (cases r)
      case Inl
      then show ?thesis using Apply_Catalog same by (auto simp: ApplyCatalog_def dest!: transaction_Inl)
    next
      case (Inr u)
      note added = ApplyCatalog_Inr[OF Apply_Catalog[unfolded Inr]]
      show ?thesis
        by (rule claims_complete_grows[OF assms(3) grows]) (use added in auto)
    qed
  qed
qed

lemma catalog_steps:
  assumes "catalog_step\<^sup>*\<^sup>* d d'" "catalog_ok d" "claims_complete d"
  shows "catalog_ok d' \<and> claims_complete d' \<and> catalog_grows d d'"
  using assms(1)
proof (induction rule: rtranclp_induct)
  case (step d1 d2)
  then show ?case
    using catalog_step_ok[of d1 d2] catalog_step_claims[of d1 d2] catalog_grows_trans by blast
qed (use assms in simp)

lemma catalog_empty [wf_intros]: "catalog_ok empty_db" "claims_complete empty_db"
  by (simp_all add: catalog_ok_def claims_complete_def empty_db_def)

section \<open>Ownership of hosts\<close>

text \<open>
  C15: A registered baseline keeps its body and the claim to every Service host it binds, whatever
  is registered or applied later, and no other baseline is ever registered with one of its hosts.
\<close>

theorem catalog_hosts_exclusive:
  assumes "catalog_step\<^sup>*\<^sup>* empty_db d" and "catalog_step\<^sup>*\<^sup>* d d'"
    and "map_of (db_baselines d) k = Some b" and "h \<in> set (binding_hosts b)"
  shows "map_of (db_baselines d') k = Some b \<and> map_of (db_claims d') h = Some k \<and>
    (\<forall>k' b'. map_of (db_baselines d') k' = Some b' \<and> h \<in> set (binding_hosts b') \<longrightarrow> k' = k)"
proof -
  have d: "catalog_ok d" "claims_complete d"
    using catalog_steps[OF assms(1) catalog_empty] by auto
  note later = catalog_steps[OF assms(2) d]
  have kept: "map_of (db_baselines d') k = Some b"
    using later assms(3) map_leD unfolding catalog_grows_def by fast
  have claimed: "map_of (db_claims d') h = Some j"
    if "map_of (db_baselines d') j = Some c" "h \<in> set (binding_hosts c)" for j c
    using later that unfolding claims_complete_def list_all_iff by blast
  from claimed[OF kept assms(4)] claimed kept show ?thesis by fastforce
qed

definition catalog_demo_call :: call where
  "catalog_demo_call = \<lparr>cx_identity = None, cx_claim = None, cx_now = 0, cx_random = (\<lambda>n. None), cx_fault = None\<rparr>"

definition catalog_demo :: db where
  "catalog_demo = snd (store_baseline seeded_baseline catalog_demo_call
     (snd (store_project \<lparr>pj_id = ''demo'', pj_name = ''Envy demo''\<rparr> catalog_demo_call empty_db)))"

lemma catalog_demo_steps: "catalog_step\<^sup>*\<^sup>* empty_db catalog_demo"
  unfolding catalog_demo_def
  by (rule converse_rtranclp_into_rtranclp, rule Store_Project, rule prod.collapse[symmetric],
      rule r_into_rtranclp, rule Store_Baseline, rule prod.collapse[symmetric])

lemma catalog_demo_baseline:
  "map_of (db_baselines catalog_demo) (''demo'', ''staging'') = Some seeded_baseline"
  by code_simp

lemma catalog_hosts_exclusive_witness:
  "map_of (db_claims catalog_demo) (demo_host ''service-a'') = Some (''demo'', ''staging'')"
proof -
  have "demo_host ''service-a'' \<in> set (binding_hosts seeded_baseline)" by code_simp
  from catalog_hosts_exclusive[OF catalog_demo_steps rtranclp.rtrancl_refl catalog_demo_baseline this]
  show ?thesis by simp
qed

end
