(* ===== verification/Catalog_Rules.thy ===== *)
theory Catalog_Rules
  imports Catalog_Props Compose Hosts
begin

text \<open>
  The registration rules of \<open>internal/application\<close>: \<open>catalog.go\<close> (projects, components,
  baselines) and \<open>Onboard\<close> of \<open>onboarding.go\<close>. What passes them is handed to the catalog tables.

  The connectivity check of a baseline is an interface; its answer is a function, \<open>None\<close> when no
  validator is configured. Map iteration orders are not observable here: every loop over a map
  reports the same error for all its entries.
\<close>

section \<open>Projects and components\<close>

definition ValidateProject :: "project \<Rightarrow> go_error option" where
  "ValidateProject p =
     (if \<not> ValidCatalogID (pj_id p) \<or> is_blank (pj_name p) \<or> 128 < length (pj_name p)
      then Some (Validation (''project requires a DNS-label ID and a name of 1'' @ en_dash @ ''128 characters''))
      else None)"

definition RegisterProject :: "project \<Rightarrow> call \<Rightarrow> db \<Rightarrow> project result \<times> db" where
  "RegisterProject p cx d =
     (case ValidateProject p of Some e \<Rightarrow> (Inl e, d) | None \<Rightarrow> store_project p cx d)"

text \<open>\<open>envName\<close> and \<open>previewHeaderName\<close>\<close>

definition env_name :: "string \<Rightarrow> bool" where
  "env_name s \<longleftrightarrow>
     (case s of [] \<Rightarrow> False
      | c # r \<Rightarrow> (is_alpha c \<or> c = CHR ''_'') \<and> list_all (\<lambda>c. is_alpha c \<or> is_digit c \<or> c = CHR ''_'') r)"

definition preview_header_name :: "string \<Rightarrow> bool" where
  "preview_header_name s \<longleftrightarrow>
     (case s of [] \<Rightarrow> False
      | c # r \<Rightarrow> is_alpha c \<and> list_all (\<lambda>c. is_alpha c \<or> is_digit c \<or> c = CHR ''-'') r)"

definition validPath :: "string \<Rightarrow> bool" where
  "validPath path \<longleftrightarrow>
     (let (u, fragment) = cut_at CHR ''#'' path in
      parse_url path \<noteq> None \<and> has_prefix path ''/'' \<and> \<not> has_prefix path ''//'' \<and> length path \<le> 256 \<and>
      snd (cut_at CHR ''?'' u) = [] \<and> fragment = [] \<and> \<not> contains_any path [carriage_return, newline])"

text \<open>The switch on the workload kind; only \<open>ValidateExecution\<close> bounds the kinds.\<close>

definition endpoint_fields :: "component \<Rightarrow> bool" where
  "endpoint_fields c \<longleftrightarrow> cp_protocol c \<noteq> [] \<or> cp_port c \<noteq> 0 \<or> cp_health_path c \<noteq> [] \<or> cp_readiness_path c \<noteq> []"

definition validate_kind :: "component \<Rightarrow> go_error option" where
  "validate_kind c =
     (if WorkloadKind c = WorkloadHTTP then
        if cp_protocol c \<noteq> ''http'' \<or> cp_profile c \<noteq> ''http-small'' \<and> \<not> IsDeploymentProfile (cp_profile c) \<or>
          cp_port c < 1 \<or> 65535 < cp_port c \<or> cp_profile c = ''http-small'' \<and> cp_port c < 1024
        then Some (Validation (''HTTP components require http, a supported profile and a valid Service port; '' @
          ''http-small ports must be unprivileged''))
        else None
      else if WorkloadKind c = WorkloadWorker then
        if cp_profile c \<noteq> ''worker'' \<or> endpoint_fields c
        then Some (Validation ''workers require the worker profile and cannot declare an HTTP endpoint'')
        else None
      else if WorkloadKind c = WorkloadJob then
        if cp_profile c \<noteq> ''job'' \<or> endpoint_fields c
        then Some (Validation ''jobs require the job profile and cannot declare an HTTP endpoint'')
        else None
      else if WorkloadKind c = WorkloadScheduledJob then
        if cp_profile c \<noteq> ''scheduled-job'' \<or> endpoint_fields c
        then Some (Validation
          ''scheduled jobs require the scheduled-job profile and cannot declare an HTTP endpoint'')
        else None
      else None)"

definition validate_profile :: "component \<Rightarrow> go_error option" where
  "validate_profile c =
     (if IsDeploymentProfile (cp_profile c) then
        if cp_health_path c \<noteq> [] \<or> cp_readiness_path c \<noteq> [] \<or> 0 < map_len (cp_env c) \<or>
          cp_image_pull_secrets c \<noteq> []
        then Some (Validation ''deployment profiles derive configuration through preview discovery and approval'')
        else None
      else if WorkloadKind c = WorkloadHTTP \<and> (\<not> validPath (cp_health_path c) \<or> \<not> validPath (cp_readiness_path c))
      then Some (Validation ''health_path and readiness_path must be absolute HTTP paths'')
      else None)"

fun validate_secrets :: "string list \<Rightarrow> string list \<Rightarrow> go_error option" where
  "validate_secrets seen [] = None"
| "validate_secrets seen (name # names) =
     (if \<not> ValidCatalogID name \<or> name \<in> set seen
      then Some (Validation ''image pull Secret names must be unique DNS labels'')
      else validate_secrets (name # seen) names)"

definition reserved_variable :: "string \<Rightarrow> string \<Rightarrow> bool" where
  "reserved_variable key value \<longleftrightarrow>
     \<not> env_name key \<or> 128 < length key \<or> key = ''POD_UID'' \<or> has_prefix key ''ENVY_'' \<or>
     CHR 0x00 \<in> set value"

definition validate_env :: "string gomap \<Rightarrow> go_error option" where
  "validate_env env =
     (if list_ex (\<lambda>(key, value). reserved_variable key value) env
      then Some (Validation ''environment contains an invalid or reserved variable'')
      else if 8192 < sum_list (map (\<lambda>(key, value). length key + length value) env)
      then Some (Validation ''environment must not exceed 8 KiB'')
      else None)"

text \<open>The first failing check.\<close>

fun first_error :: "go_error option list \<Rightarrow> go_error option" where
  "first_error [] = None"
| "first_error (None # es) = first_error es"
| "first_error (Some e # es) = Some e"

definition ValidateComponent :: "component \<Rightarrow> go_error option" where
  "ValidateComponent c = first_error
     [if \<not> ValidCatalogID (cp_id c) \<or> \<not> ValidCatalogID (cp_project c)
      then Some (Validation ''component and project IDs must be DNS labels'') else None,
      ValidateExecution c, validate_kind c, validate_profile c,
      if 2048 < length (cp_repository c) \<or> 32 < map_len (cp_env c)
      then Some (Validation ''repository or environment exceeds catalog bounds'') else None,
      if 8 < length (cp_image_pull_secrets c)
      then Some (Validation ''at most eight image pull Secrets are allowed'') else None,
      validate_secrets [] (cp_image_pull_secrets c),
      validate_env (cp_env c)]"

definition RegisterComponent :: "service_config \<Rightarrow> component \<Rightarrow> call \<Rightarrow> db \<Rightarrow> component result \<times> db" where
  "RegisterComponent cfg c cx d =
     (case first_error [ValidateComponent c, validatePullSecrets cfg c] of
        Some e \<Rightarrow> (Inl e, d)
      | None \<Rightarrow> store_component c cx d)"

section \<open>Baselines\<close>

text \<open>What \<open>validateBaseline\<close> reads of a parsed URL, for a URL with an authority.\<close>

record endpoint_url =
  eu_scheme :: string
  eu_host :: string
  eu_user :: bool
  eu_path :: string
  eu_query :: string
  eu_fragment :: string
  eu_force_query :: bool

definition parse_endpoint :: "string \<Rightarrow> endpoint_url option" where
  "parse_endpoint raw =
     (let (u, fragment) = cut_at CHR ''#'' raw in
      case (parse_url raw, getScheme u) of
        (Some (scheme, host), Some (_, rest)) \<Rightarrow>
          let (hier, query) = cut_at CHR ''?'' rest;
              authority = takeWhile (\<lambda>c. c \<noteq> CHR ''/'') (drop 2 hier)
          in Some \<lparr>eu_scheme = scheme, eu_host = host, eu_user = CHR ''@'' \<in> set authority,
               eu_path = dropWhile (\<lambda>c. c \<noteq> CHR ''/'') (drop 2 hier), eu_query = query,
               eu_fragment = fragment, eu_force_query = CHR ''?'' \<in> set rest\<rparr>
      | _ \<Rightarrow> None)"

text \<open>\<open>u.Port()\<close>\<close>

definition port_of :: "string \<Rightarrow> string" where
  "port_of hostport =
     (case last_index CHR '':'' hostport of
        None \<Rightarrow> []
      | Some i \<Rightarrow> if validOptionalPort (drop i hostport) then drop (i + 1) hostport else [])"

definition baseline_url :: "service_config \<Rightarrow> string \<Rightarrow> string result" where
  "baseline_url cfg endpoint =
     (let outside = Inl (Validation (''baseline endpoint must be an HTTP(S) hostname under the configured '' @
            ''preview domain and port, outside the cmp- prefix''))
      in case (parse_endpoint endpoint, parse_endpoint (sc_preview_base_url cfg)) of
        (Some u, Some base) \<Rightarrow>
          let name = hostname_of (eu_host u); domain = ''.'' @ hostname_of (eu_host base) in
          if eu_scheme u \<noteq> ''http'' \<and> eu_scheme u \<noteq> ''https'' \<or> eu_scheme u \<noteq> eu_scheme base \<or>
            port_of (eu_host u) \<noteq> port_of (eu_host base) \<or> eu_user u \<or>
            eu_path u \<noteq> [] \<and> eu_path u \<noteq> ''/'' \<or> eu_query u \<noteq> [] \<or> eu_fragment u \<noteq> [] \<or>
            \<not> has_suffix name domain \<or> has_prefix name ''cmp-''
          then outside
          else if \<not> ValidCatalogID (trim_suffix name domain)
          then Inl (Validation ''baseline hostname must be a single DNS label under the preview domain'')
          else Inr (url_string \<lparr>pu_scheme = eu_scheme u, pu_host = eu_host u, pu_force_query = eu_force_query u\<rparr>)
      | _ \<Rightarrow> outside)"

definition validate_routing :: "baseline \<Rightarrow> go_error option" where
  "validate_routing b =
     (let r = b_routing b in
      if \<not> ValidCatalogID (b_id b) \<or> \<not> ValidCatalogID (b_project b) \<or> \<not> ValidCatalogID (b_revision b)
      then Some (Validation ''baseline, project and revision IDs must be DNS labels'')
      else if br_gateway_namespace r \<noteq> [] \<and> \<not> ValidCatalogID (br_gateway_namespace r) \<or>
        br_gateway_section_name r \<noteq> [] \<and> \<not> ValidCatalogID (br_gateway_section_name r)
      then Some (Validation ''invalid gateway namespace or section name'')
      else if (case br_preview_selector r of None \<Rightarrow> False | Some s \<Rightarrow> \<not> preview_header_name (sel_header s))
      then Some (Validation ''preview_selector.header must be an HTTP header name'')
      else if \<not> ValidCatalogID (br_namespace r) \<or>
        vc_kind (b_verification b) \<noteq> ''none'' \<and> \<not> ValidCatalogID (br_gateway r)
      then Some (Validation ''routing requires an existing namespace and Gateway name'')
      else None)"

definition validate_endpoint :: "service_config \<Rightarrow> baseline \<Rightarrow> baseline result" where
  "validate_endpoint cfg b =
     (let r = b_routing b in
      if vc_kind (b_verification b) = ''none'' then
        if b_endpoint b \<noteq> [] \<or> br_gateway r \<noteq> [] \<or> br_gateway_namespace r \<noteq> [] \<or>
          br_gateway_section_name r \<noteq> [] \<or> br_entry_component r \<noteq> [] \<or> br_preview_selector r \<noteq> None
        then Inl (Validation ''endpoint-free baselines cannot declare an endpoint or Gateway routing'')
        else Inr b
      else result_then (baseline_url cfg (b_endpoint b)) (\<lambda>e. Inr (b\<lparr>b_endpoint := e\<rparr>)))"

text \<open>The switch on the verification kind: the completed contract and the names to check.\<close>

definition http_defaults :: "verification_contract \<Rightarrow> verification_contract" where
  "http_defaults v = v
     \<lparr>vc_path := (if vc_path v = [] then ''/'' else vc_path v),
      vc_expected_status := (if vc_expected_status v = 0 then 200 else vc_expected_status v)\<rparr>"

definition validate_contract :: "baseline \<Rightarrow> (baseline \<times> string list) result" where
  "validate_contract b =
     (let v = b_verification b; entry = br_entry_component (b_routing b) in
      if vc_kind v = ''none'' then
        if vc_path v \<noteq> [] \<or> vc_expected_status v \<noteq> 0 \<or> vc_chain v \<noteq> []
        then Inl (Validation ''endpoint-free verification cannot include HTTP probe settings or a chain'')
        else Inr (b, sorted_keys (b_components b))
      else if vc_kind v = ''envy-chain'' then
        if length (vc_chain v) \<noteq> map_len (b_components b) \<or> vc_path v \<noteq> [] \<or> vc_expected_status v \<noteq> 0
        then Inl (Validation
          ''envy-chain verification must list every component and cannot include HTTP probe settings'')
        else if entry \<noteq> hd (vc_chain v)
        then Inl (Validation ''entry_component must be the first verification hop'')
        else Inr (b, vc_chain v)
      else if vc_kind v = ''http'' then
        let v = http_defaults v; b = b\<lparr>b_verification := v\<rparr> in
        if vc_chain v \<noteq> [] \<or> \<not> validPath (vc_path v) \<or> vc_expected_status v < 200 \<or> 299 < vc_expected_status v
        then Inl (Validation ''http verification requires an absolute path, a 2xx expected_status and no chain'')
        else if \<not> has_key (b_components b) entry
        then Inl (Validation ''entry_component must be bound in the baseline'')
        else Inr (b, sorted_keys (b_components b))
      else Inl (Validation ''verification kind must be envy-chain or http''))"

definition valid_image :: "string \<Rightarrow> bool" where
  "valid_image img \<longleftrightarrow>
     img \<noteq> [] \<and> length img \<le> 512 \<and> \<not> contains_any img [CHR '' '', tab, carriage_return, newline]"

definition service_fqdn :: "string \<Rightarrow> string \<Rightarrow> bool" where
  "service_fqdn namespace host \<longleftrightarrow>
     (case split_on CHR ''.'' host of
        [name, space, a, b, c] \<Rightarrow>
          space = namespace \<and> ValidCatalogID name \<and> a = ''svc'' \<and> b = ''cluster'' \<and> c = ''local''
      | _ \<Rightarrow> False)"

text \<open>One round of the loop over the names; \<open>hosts\<close> are the Service hosts seen.\<close>

definition validate_binding ::
  "baseline \<Rightarrow> component \<Rightarrow> baseline_binding \<Rightarrow> string list \<Rightarrow> string list result"
where
  "validate_binding b profile binding hosts =
     (if \<not> HasEndpoint profile then
        if vc_kind (b_verification b) = ''none'' \<and> bb_service_host binding = [] \<and> bb_port binding = 0 \<and>
          valid_image (bb_image binding)
        then Inr hosts
        else Inl (Validation
          ''endpoint-free components require endpoint-free verification and an image-only binding'')
      else if \<not> service_fqdn (br_namespace (b_routing b)) (bb_service_host binding) \<or> bb_port binding < 1 \<or>
        65535 < bb_port binding \<or> bb_service_host binding \<in> set hosts
      then Inl (Validation ''bindings require distinct Service FQDNs in the routing namespace and valid ports'')
      else if \<not> valid_image (bb_image binding) then Inl (Validation ''binding image is required'')
      else Inr (bb_service_host binding # hosts))"

fun validate_bindings ::
  "(string \<Rightarrow> component result) \<Rightarrow> baseline \<Rightarrow> string list \<Rightarrow> string list \<Rightarrow> string list \<Rightarrow> component gomap \<Rightarrow>
     component gomap result"
where
  "validate_bindings read b seen hosts [] profiles = Inr profiles"
| "validate_bindings read b seen hosts (i # names) profiles =
     (case map_of (b_components b) i of
        None \<Rightarrow> Inl (Validation ''verification chain must list each bound component exactly once'')
      | Some binding \<Rightarrow>
          if i \<in> set seen
          then Inl (Validation ''verification chain must list each bound component exactly once'')
          else result_then (case map_of profiles i of Some c \<Rightarrow> Inr c | None \<Rightarrow> read i) (\<lambda>profile.
            result_then (validate_binding b profile binding hosts) (\<lambda>hosts.
            validate_bindings read b (i # seen) hosts names
              (if has_key profiles i then profiles else AList.update i profile profiles))))"

definition validate_messaging :: "service_config \<Rightarrow> baseline \<Rightarrow> go_error option" where
  "validate_messaging cfg b =
     (case ValidateMessaging b of
        Some e \<Rightarrow> Some e
      | None \<Rightarrow>
          if b_pubsub b = [] then None
          else case sc_messaging cfg of
            None \<Rightarrow> Some (Validation ''Pub/Sub provider is not enabled'')
          | Some provider \<Rightarrow> provider b)"

type_synonym baseline_check = "baseline \<Rightarrow> component gomap \<Rightarrow> go_error option"

definition validateBaseline ::
  "service_config \<Rightarrow> baseline_check option \<Rightarrow> (string \<Rightarrow> string \<Rightarrow> component result) \<Rightarrow> component gomap \<Rightarrow>
     baseline \<Rightarrow> baseline result"
where
  "validateBaseline cfg validator read profiles b =
     check_then (validate_routing b)
    (result_then (validate_endpoint cfg b) (\<lambda>b.
     if map_len (b_components b) < 1 \<or> 20 < map_len (b_components b)
     then Inl (Validation (''baseline requires 1'' @ en_dash @ ''20 components''))
     else
       result_then (validate_contract b) (\<lambda>(b, names).
       result_then (validate_bindings (read (b_project b)) b [] [] names profiles) (\<lambda>profiles.
       check_then (ValidateExecutionGraph profiles)
      (check_then (validate_messaging cfg b)
      (case validator of
         None \<Rightarrow> Inl (Domain_Error ((domain_err ''unavailable'' ''baseline validation is unavailable'')\<lparr>e_retryable := True\<rparr>))
       | Some check \<Rightarrow> check_then (check b profiles) (Inr b)))))))"

text \<open>\<open>BaselineChecks\<close>: the configured validator runs every check in turn.\<close>

definition BaselineChecks :: "baseline_check list \<Rightarrow> baseline_check" where
  "BaselineChecks checks b profiles = first_error (map (\<lambda>check. check b profiles) checks)"

text \<open>The components as the service reads them from the tables.\<close>

definition read_table :: "call \<Rightarrow> db \<Rightarrow> string \<Rightarrow> string \<Rightarrow> component result" where
  "read_table cx d project i = map_sum (\<lambda>e. e) fst (read_component project i cx d)"

definition RegisterBaseline ::
  "service_config \<Rightarrow> baseline_check option \<Rightarrow> baseline \<Rightarrow> call \<Rightarrow> db \<Rightarrow> baseline result \<times> db"
where
  "RegisterBaseline cfg validator b cx d =
     (case validateBaseline cfg validator (read_table cx d) [] b of
        Inl e \<Rightarrow> (Inl e, d)
      | Inr checked \<Rightarrow> store_baseline checked cx d)"

section \<open>Onboarding\<close>

record catalog_report =
  cat_configuration :: catalog_manifest
  cat_checks :: "condition list"
  cat_warnings :: "string list"
  cat_applied :: bool

text \<open>The loop over the components: each is completed with the project and validated.\<close>

fun onboard_components ::
  "service_config \<Rightarrow> string \<Rightarrow> baseline \<Rightarrow> component list \<Rightarrow> component gomap \<Rightarrow>
     (component list \<times> component gomap) result"
where
  "onboard_components cfg project b [] profiles = Inr ([], profiles)"
| "onboard_components cfg project b (c # cs) profiles =
     (let c = (if cp_project c = [] then c\<lparr>cp_project := project\<rparr> else c) in
      if cp_project c \<noteq> project then Inl (Validation ''component project must match configuration project'')
      else
        check_then (ValidateComponent c)
       (check_then (validatePullSecrets cfg c)
       (if has_key profiles (cp_id c) then Inl (Validation (''duplicate component profile: '' @ cp_id c))
        else if \<not> has_key (b_components b) (cp_id c)
        then Inl (Validation (''component has no baseline binding: '' @ cp_id c))
        else result_then (onboard_components cfg project b cs (AList.update (cp_id c) c profiles))
          (\<lambda>(cs, profiles). Inr (c # cs, profiles)))))"

text \<open>The manifest with its components completed and sorted and its baseline validated.\<close>

definition onboard_manifest ::
  "service_config \<Rightarrow> baseline_check option \<Rightarrow> catalog_manifest \<Rightarrow> call \<Rightarrow> db \<Rightarrow> catalog_manifest result"
where
  "onboard_manifest cfg validator m cx d =
     (let project = cm_project m; b = cm_baseline m in
      if cm_api_version m \<noteq> ''envy/v1'' then Inl (Validation ''api_version must be envy/v1'')
      else check_then (ValidateProject project)
       (if length (cm_components m) < 1 \<or> 20 < length (cm_components m) \<or>
          length (cm_components m) \<noteq> map_len (b_components b)
        then Inl (Validation (''configuration must include exactly the baseline''
          @ [CHR 0x27] @ ''s 1'' @ en_dash @ ''20 component profiles''))
        else
          result_then (onboard_components cfg (pj_id project) b (cm_components m) []) (\<lambda>(cs, profiles).
          let b = (if b_project b = [] then b\<lparr>b_project := pj_id project\<rparr> else b) in
          if b_project b \<noteq> pj_id project
          then Inl (Validation ''baseline project must match configuration project'')
          else result_then (validateBaseline cfg validator (read_table cx d) profiles b) (\<lambda>b.
            Inr (m\<lparr>cm_components := sort_key cp_id cs, cm_baseline := b\<rparr>)))))"

definition catalog_passed :: "string \<Rightarrow> string \<Rightarrow> condition" where
  "catalog_passed name message = \<lparr>cond_type = name, cond_status = True, cond_message = message\<rparr>"

definition onboard_report :: "catalog_manifest \<Rightarrow> bool \<Rightarrow> catalog_report" where
  "onboard_report m applied =
     \<lparr>cat_configuration = m,
      cat_checks =
        [catalog_passed ''ConfigurationValid'' [], catalog_passed ''CatalogCompatible'' [],
         catalog_passed ''BaselineConnectivity'' (''Ready HTTP Services, mesh participation, '' @
           ''Gateway host coverage, routing ownership and baseline ingress checked'')],
      cat_warnings =
        (if vc_kind (b_verification (cm_baseline m)) = ''http''
         then [''HTTP reachability does not verify context propagation or override selection; '' @
               ''run application-specific checks through the composition URL'']
         else []),
      cat_applied = applied\<rparr>"

definition Onboard ::
  "service_config \<Rightarrow> baseline_check option \<Rightarrow> catalog_manifest \<Rightarrow> bool \<Rightarrow> call \<Rightarrow> db \<Rightarrow>
     catalog_report result \<times> db"
where
  "Onboard cfg validator m apply cx d =
     (case result_then (onboard_manifest cfg validator m cx d) (\<lambda>m.
             result_then (CheckCatalog m cx d) (\<lambda>u. Inr m)) of
        Inl e \<Rightarrow> (Inl e, d)
      | Inr m \<Rightarrow>
          if \<not> apply then (Inr (onboard_report m False), d)
          else map_prod (map_sum (\<lambda>e. e) (\<lambda>u. onboard_report m True)) (\<lambda>d. d) (ApplyCatalog m cx d))"

end
