(* ===== verification/Registration.thy ===== *)
theory Registration
  imports Catalog_Rules
begin

text \<open>
  What the registration rules guarantee of the catalog tables, for any sequence of
  registrations and onboardings: every stored component and baseline is well-typed. The
  predicates \<open>component_typed\<close> and \<open>baseline_typed\<close> state this independently of the checks.
\<close>

section \<open>Well-typed components\<close>

definition http_typed :: "component \<Rightarrow> bool" where
  "http_typed c \<longleftrightarrow>
     cp_protocol c = ''http'' \<and> 1 \<le> cp_port c \<and> cp_port c \<le> 65535 \<and>
     (if IsDeploymentProfile (cp_profile c)
      then cp_health_path c = [] \<and> cp_readiness_path c = [] \<and> cp_env c = [] \<and> cp_image_pull_secrets c = []
      else cp_profile c = ''http-small'' \<and> 1024 \<le> cp_port c \<and>
        validPath (cp_health_path c) \<and> validPath (cp_readiness_path c))"

text \<open>Workloads without an endpoint name their kind as their profile.\<close>

definition component_typed :: "component \<Rightarrow> bool" where
  "component_typed c \<longleftrightarrow>
     ValidCatalogID (cp_id c) \<and> ValidCatalogID (cp_project c) \<and>
     (if HasEndpoint c then http_typed c
      else cp_profile c = WorkloadKind c \<and> \<not> endpoint_fields c \<and>
        WorkloadKind c \<in> {WorkloadWorker, WorkloadJob, WorkloadScheduledJob}) \<and>
     cp_id c \<notin> set (dependencies [(cp_id c, c)] (cp_id c)) \<and>
     distinct (cp_image_pull_secrets c) \<and> length (cp_image_pull_secrets c) \<le> 8 \<and>
     map_len (cp_env c) \<le> 32 \<and>
     list_all (\<lambda>(k, v). env_name k \<and> \<not> has_prefix k ''ENVY_'' \<and> CHR 0x00 \<notin> set v) (cp_env c)"

lemma first_error_None: "first_error es = None \<longleftrightarrow> list_all (\<lambda>e. e = None) es"
  by (induction es rule: first_error.induct) auto

lemma validate_secrets_None:
  "validate_secrets seen names = None \<Longrightarrow> distinct names \<and> set names \<inter> set seen = {}"
proof (induction names arbitrary: seen)
  case (Cons name names)
  then show ?case using Cons.IH[of "name # seen"] by (auto split: if_splits)
qed simp

lemma validate_dependencies_None: "validate_dependencies self seen ds = None \<Longrightarrow> self \<notin> set ds"
  by (induction ds arbitrary: seen) (auto split: if_splits)

lemma ValidateExecution_None:
  assumes "ValidateExecution c = None"
  shows "WorkloadKind c \<in> {WorkloadHTTP, WorkloadWorker, WorkloadJob, WorkloadScheduledJob} \<and>
    cp_id c \<notin> set (dependencies [(cp_id c, c)] (cp_id c))"
proof (cases "cp_execution c")
  case None
  then show ?thesis by (simp add: WorkloadKind_def dependencies_def get_or_def)
next
  case (Some e)
  then show ?thesis
    using assms validate_dependencies_None[of "cp_id c" "[]" "x_dependencies e"]
    by (simp add: ValidateExecution_def dependencies_def get_or_def Let_def split: if_splits option.splits)
qed

lemma ValidateComponent_typed:
  assumes "ValidateComponent c = None"
  shows "component_typed c"
proof -
  have checks: "ValidCatalogID (cp_id c)" "ValidCatalogID (cp_project c)" "ValidateExecution c = None"
    "validate_kind c = None" "validate_profile c = None" "map_len (cp_env c) \<le> 32"
    "length (cp_image_pull_secrets c) \<le> 8" "validate_secrets [] (cp_image_pull_secrets c) = None"
    "validate_env (cp_env c) = None"
    using assms by (auto simp: ValidateComponent_def first_error_None split: if_splits)
  have kind: "if HasEndpoint c then http_typed c
      else cp_profile c = WorkloadKind c \<and> \<not> endpoint_fields c \<and>
        WorkloadKind c \<in> {WorkloadWorker, WorkloadJob, WorkloadScheduledJob}"
    using checks(4,5) ValidateExecution_None[OF checks(3)]
    by (auto simp: validate_kind_def validate_profile_def HasEndpoint_def http_typed_def map_len_def
        split: if_splits)
  show ?thesis
    using checks kind ValidateExecution_None[OF checks(3)] validate_secrets_None[OF checks(8)]
    by (auto simp: component_typed_def validate_env_def reserved_variable_def list_all_iff list_ex_iff
        split: if_splits)
qed

section \<open>Well-typed baselines\<close>

text \<open>
  \<open>domain\<close> is the host name of the configured preview domain, and \<open>bound\<close> the components the
  bindings were checked against.
\<close>

definition endpoint_typed :: "service_config \<Rightarrow> string \<Rightarrow> bool" where
  "endpoint_typed cfg endpoint \<longleftrightarrow>
     (\<exists>base name. url_hostname (sc_preview_base_url cfg) = Some base \<and> ValidCatalogID name \<and>
        \<not> has_prefix name ''cmp-'' \<and> url_hostname endpoint = Some (name @ ''.'' @ base))"

definition binding_typed :: "baseline \<Rightarrow> baseline_binding \<Rightarrow> bool" where
  "binding_typed b binding \<longleftrightarrow>
     valid_image (bb_image binding) \<and>
     (bb_service_host binding = [] \<and> bb_port binding = 0 \<and> vc_kind (b_verification b) = ''none'' \<or>
      service_fqdn (br_namespace (b_routing b)) (bb_service_host binding) \<and>
      1 \<le> bb_port binding \<and> bb_port binding \<le> 65535)"

definition baseline_typed :: "service_config \<Rightarrow> baseline \<Rightarrow> bool" where
  "baseline_typed cfg b \<longleftrightarrow>
     ValidCatalogID (b_id b) \<and> ValidCatalogID (b_project b) \<and> ValidCatalogID (br_namespace (b_routing b)) \<and>
     1 \<le> map_len (b_components b) \<and> map_len (b_components b) \<le> 20 \<and>
     vc_kind (b_verification b) \<in> {''none'', ''envy-chain'', ''http''} \<and>
     (if vc_kind (b_verification b) = ''none'' then b_endpoint b = []
      else endpoint_typed cfg (b_endpoint b) \<and> has_key (b_components b) (br_entry_component (b_routing b))) \<and>
     (vc_kind (b_verification b) = ''envy-chain'' \<longrightarrow>
        distinct (vc_chain (b_verification b)) \<and>
        set (vc_chain (b_verification b)) = fst ` set (b_components b)) \<and>
     (\<forall>i binding. map_of (b_components b) i = Some binding \<longrightarrow> binding_typed b binding)"

lemma validate_bindings_Inr:
  "validate_bindings read b seen hosts names profiles = Inr profiles' \<Longrightarrow>
     distinct names \<and> set names \<inter> set seen = {} \<and>
     (\<forall>i\<in>set names. \<exists>binding. map_of (b_components b) i = Some binding \<and> binding_typed b binding)"
proof (induction names arbitrary: seen hosts profiles)
  case (Cons i names)
  obtain binding where binding: "map_of (b_components b) i = Some binding" "i \<notin> set seen"
    using Cons.prems by (auto split: option.splits if_splits)
  then obtain profile hosts' where step: "validate_binding b profile binding hosts = Inr hosts'"
    "validate_bindings read b (i # seen) hosts' names
       (if has_key profiles i then profiles else AList.update i profile profiles) = Inr profiles'"
    using Cons.prems by (auto simp: result_then_Inr)
  have "binding_typed b binding"
    using step(1) by (auto simp: validate_binding_def binding_typed_def split: if_splits)
  then show ?case using Cons.IH[OF step(2)] binding by auto
qed simp

lemma parse_endpoint_Some: "parse_endpoint raw = Some u \<Longrightarrow> parse_url raw = Some (eu_scheme u, eu_host u)"
  by (auto simp: parse_endpoint_def Let_def split: option.splits prod.splits)

lemma trim_suffix_append: "has_suffix s t \<Longrightarrow> s = trim_suffix s t @ t"
  by (auto simp: trim_suffix_def has_suffix_iff)

text \<open>A bracketed host is an IPv6 literal, whose first group has no dot: it is not under a domain.\<close>

lemma takeWhile_split_on: "takeWhile (\<lambda>x. x \<noteq> c) s = hd (split_on c s)"
  by (induction s) (auto split: list.split)

lemma hex_group_no_dot: "hex_group g \<Longrightarrow> CHR ''.'' \<notin> set g"
  by (auto simp: hex_group_def list_all_iff char_class_defs less_eq_char_def)

lemma group_count_first:
  assumes "group_count side s = Some n" "CHR '':'' \<in> set s"
  shows "CHR ''.'' \<notin> set (takeWhile (\<lambda>x. x \<noteq> CHR '':'') s)"
proof -
  let ?gs = "split_on CHR '':'' s"
  have "length ?gs \<noteq> 1"
  proof
    assume "length ?gs = 1"
    then obtain g where "?gs = [g]" by (auto simp: length_Suc_conv)
    then show False using assms(2) join_split_on[of "CHR '':''" s] split_on_no_sep[of g "CHR '':''" s] by simp
  qed
  then obtain g h gs where split: "?gs = g # h # gs"
    by (cases ?gs; cases "tl ?gs") auto
  have "hex_group g"
    using assms split by (auto simp: group_count_def Let_def split: if_splits)
  then show ?thesis using hex_group_no_dot split by (simp add: takeWhile_split_on)
qed

lemma cut_ellipsis_Some: "cut_ellipsis before s = Some (l, r) \<Longrightarrow> rev before @ s = l @ ''::'' @ r"
  by (induction before s rule: cut_ellipsis.induct) (auto split: if_splits)

lemma group_count_one:
  assumes "group_count False s = Some n" "CHR '':'' \<notin> set s"
  shows "CHR ''.'' \<notin> set s"
  using assms hex_group_no_dot split_on_absent[OF assms(2)]
  by (auto simp: group_count_def Let_def split: if_splits)

lemma ipv6_first_group:
  assumes "ipv6_literal s"
  shows "CHR '':'' \<in> set s \<and> CHR ''.'' \<notin> set (takeWhile (\<lambda>x. x \<noteq> CHR '':'') s)"
proof (cases "cut_ellipsis [] s")
  case None
  then have eight: "group_count True s = Some 8" using assms by (simp add: ipv6_literal_def)
  have "CHR '':'' \<in> set s"
  proof (rule ccontr)
    assume "CHR '':'' \<notin> set s"
    then have "split_on CHR '':'' s = [s]" by (rule split_on_absent)
    then show False using eight by (auto simp: group_count_def Let_def split: if_splits)
  qed
  then show ?thesis using group_count_first[OF eight] by simp
next
  case (Some lr)
  obtain l r where lr: "lr = (l, r)" by (cases lr)
  have s: "s = l @ ''::'' @ r" using cut_ellipsis_Some[of "[]" s l r] Some lr by simp
  obtain m where m: "group_count False l = Some m"
    using assms Some lr by (auto simp: ipv6_literal_def split: option.splits)
  have "CHR ''.'' \<notin> set (takeWhile (\<lambda>x. x \<noteq> CHR '':'') s)"
  proof (cases "CHR '':'' \<in> set l")
    case True
    then have "takeWhile (\<lambda>x. x \<noteq> CHR '':'') s = takeWhile (\<lambda>x. x \<noteq> CHR '':'') l"
      unfolding s by (intro takeWhile_append1) auto
    then show ?thesis using group_count_first[OF m True] by simp
  next
    case False
    then have "takeWhile (\<lambda>x. x \<noteq> CHR '':'') s = l"
      unfolding s by (subst takeWhile_append2) auto
    then show ?thesis using group_count_one[OF m False] by simp
  qed
  then show ?thesis using s by simp
qed

lemma unescaped_bracket: "unescape_host s = Some h \<Longrightarrow> CHR ''['' \<notin> set s \<Longrightarrow> CHR ''['' \<notin> set h"
proof (induction rule: unescape_host_induct)
  case (Escape a b r t)
  let ?c = "char_of (16 * hex_value a + hex_value b :: nat) :: char"
  have "?c \<noteq> CHR ''[''"
  proof
    assume "?c = CHR ''[''"
    then show False using escaped_char[OF Escape(1-3)] unfolding Let_def by simp
  qed
  then show ?case using Escape by simp
qed auto

lemma last_index_split: "last_index c s = Some i \<Longrightarrow> \<exists>l r. s = l @ c # r \<and> length l = i"
proof -
  assume i: "last_index c s = Some i"
  then have c: "c \<in> set (rev s)" by (auto simp: last_index_def split: if_splits)
  let ?t = "takeWhile (\<lambda>x. x \<noteq> c) (rev s)" and ?d = "dropWhile (\<lambda>x. x \<noteq> c) (rev s)"
  have "?d \<noteq> []" using c by (auto simp: dropWhile_eq_Nil_conv)
  then obtain r where d: "?d = c # r" by (cases ?d) (use hd_dropWhile[of "\<lambda>x. x \<noteq> c" "rev s"] in auto)
  have "rev s = ?t @ c # r" using d takeWhile_dropWhile_id[of "\<lambda>x. x \<noteq> c" "rev s"] by simp
  then have s: "s = rev r @ c # rev ?t" by (metis append.assoc append_Cons append_Nil rev.simps(2) rev_append rev_rev_ident)
  moreover have "length s = length r + 1 + length ?t" using arg_cong[OF s, of length] by simp
  then have "length (rev r) = i" using i by (auto simp: last_index_def split: if_splits)
  ultimately show ?thesis by blast
qed

lemma parseHost_bracket:
  assumes "parseHost authority = Some h" "CHR ''['' \<in> set h"
  obtains inner port where "h = CHR ''['' # inner @ CHR '']'' # port" "ipv6_literal inner"
proof -
  have "authority \<noteq> [] \<and> hd authority = CHR ''[''"
    using assms unescaped_bracket by (auto simp: parseHost_def split: if_splits)
  then obtain i where i: "last_index CHR '']'' authority = Some i" "h = authority"
    "ipv6_literal (take (i - 1) (tl authority))" "hd authority = CHR ''[''"
    using assms(1) by (auto simp: parseHost_def Let_def split: option.splits if_splits)
  then obtain l r where lr: "authority = l @ CHR '']'' # r" "length l = i" using last_index_split by blast
  with i(4) have "l \<noteq> []" by (cases l) auto
  then have "l = CHR ''['' # tl l" using i(4) lr(1) by (cases l) auto
  moreover have "take (i - 1) (tl authority) = tl l" using lr \<open>l \<noteq> []\<close> by (cases l) auto
  ultimately show thesis using that[of "tl l" r] i lr by (metis append_Cons)
qed

text \<open>A host name that begins with a label and a dot is not a bracketed literal.\<close>

lemma hostname_prefix:
  assumes "has_prefix h ''[''"
  shows "has_prefix (hostname_of h) ''['' \<or> hostname_of h = [] \<or> (\<exists>r. tl h = hostname_of h @ r)"
proof -
  have strip: "\<exists>r. tl h = butlast (tl g) @ r" if "h = g @ q" "g \<noteq> []" for g q
  proof -
    have "tl h = tl g @ q" using that by (cases g) auto
    moreover have "tl g = butlast (tl g) @ (if tl g = [] then [] else [last (tl g)])" by simp
    ultimately show ?thesis by (metis append.assoc)
  qed
  obtain g q where g: "h = g @ q" "hostname_of h = (if has_prefix g ''['' \<and> has_suffix g '']'' then butlast (tl g) else g)"
  proof (cases "last_index CHR '':'' h")
    case None
    then show thesis using that[of h "[]"] by (simp add: hostname_of_def)
  next
    case (Some i)
    show thesis
    proof (cases "validOptionalPort (drop i h)")
      case True
      then show thesis using Some that[of "take i h" "drop i h"] by (simp add: hostname_of_def Let_def)
    next
      case False
      then show thesis using Some that[of h "[]"] by (simp add: hostname_of_def Let_def)
    qed
  qed
  show ?thesis
  proof (cases "g = []")
    case False
    then have "has_prefix g ''[''" using assms g(1) by (cases g) (auto simp: has_prefix_def)
    then show ?thesis using strip[OF g(1) False] g(2) by (auto split: if_splits)
  qed (use g in \<open>simp add: has_prefix_def\<close>)
qed

lemma label_chars:
  assumes "ValidCatalogID s"
  shows "list_all is_catalog_char s"
proof -
  obtain c r where s: "s = c # r" using assms by (cases s) (auto simp: ValidCatalogID_def)
  have "list_all is_catalog_char r"
  proof (cases "r = []")
    case False
    then have "list_all is_catalog_char (butlast r)" "is_catalog_char (last r)"
      using assms s by (auto simp: ValidCatalogID_def intro: is_catalog_end_char)
    then have "list_all is_catalog_char (butlast r @ [last r])"
      unfolding list_all_append by simp
    then show ?thesis unfolding append_butlast_last_id[OF False] .
  qed simp
  then show ?thesis using assms s by (simp add: ValidCatalogID_def is_catalog_char_def is_catalog_end_def)
qed

lemma labelled_host_plain:
  assumes "parseHost authority = Some h" "hostname_of h = name @ CHR ''.'' # base" "ValidCatalogID name"
  shows "CHR ''['' \<notin> set h"
proof
  assume "CHR ''['' \<in> set h"
  then obtain inner port where h: "h = CHR ''['' # inner @ CHR '']'' # port" "ipv6_literal inner"
    using parseHost_bracket[OF assms(1)] by metis
  obtain c r where cr: "name = c # r" using assms(3) by (cases name) (auto simp: ValidCatalogID_def)
  have name: "name \<noteq> []" "hd name \<noteq> CHR ''[''" "CHR '':'' \<notin> set name"
    using label_chars[OF assms(3)] cr by (auto simp: list_all_iff is_catalog_char_def is_catalog_end_def
        char_class_defs less_eq_char_def)
  have "has_prefix h ''[''" using h by (simp add: has_prefix_def)
  from hostname_prefix[OF this] obtain r where "tl h = (name @ CHR ''.'' # base) @ r"
    using assms(2) name by (cases name) (auto simp: has_prefix_def)
  then have "CHR ''.'' \<in> set (takeWhile (\<lambda>x. x \<noteq> CHR '':'') (tl h))"
    using name(3) by (subst \<open>tl h = _\<close>, subst append.assoc, subst takeWhile_append2) auto
  moreover have "takeWhile (\<lambda>x. x \<noteq> CHR '':'') (tl h) = takeWhile (\<lambda>x. x \<noteq> CHR '':'') inner"
    unfolding h(1) list.sel(3) using ipv6_first_group[OF h(2)] by (intro takeWhile_append1) auto
  ultimately show False using ipv6_first_group[OF h(2)] by simp
qed

section \<open>Endpoints\<close>

lemma parse_url_parseHost:
  assumes "parse_url raw = Some (scheme, h)" "h \<noteq> []"
  shows "\<exists>authority. parseHost authority = Some h"
proof -
  obtain sch rest where "parse_rest sch rest = Some (scheme, h)"
    using assms by (auto simp: parse_url_def Let_def split: if_splits option.splits prod.splits)
  then obtain authority where "parseAuthority authority = Some h"
    using assms(2) by (auto simp: parse_rest_def Let_def split: if_splits option.splits)
  then show ?thesis by (auto simp: parseAuthority_def Let_def split: option.splits prod.splits if_splits)
qed

lemma hostname_of_Nil [simp]: "hostname_of [] = []"
  by (simp add: hostname_of_def last_index_def has_prefix_def)

lemma baseline_url_typed:
  assumes "baseline_url cfg endpoint = Inr e"
  shows "endpoint_typed cfg e"
proof -
  obtain u base where parsed: "parse_endpoint endpoint = Some u"
    "parse_endpoint (sc_preview_base_url cfg) = Some base"
    using assms by (auto simp: baseline_url_def Let_def split: option.splits)
  let ?name = "hostname_of (eu_host u)" and ?base = "hostname_of (eu_host base)"
  let ?label = "trim_suffix ?name (''.'' @ ?base)"
  have ok: "eu_scheme u = ''http'' \<or> eu_scheme u = ''https''" "has_suffix ?name (''.'' @ ?base)"
    "\<not> has_prefix ?name ''cmp-''" "ValidCatalogID ?label"
    "e = url_string \<lparr>pu_scheme = eu_scheme u, pu_host = eu_host u, pu_force_query = eu_force_query u\<rparr>"
    using assms parsed by (auto simp: baseline_url_def Let_def split: if_splits)
  have name: "?name = ?label @ CHR ''.'' # ?base" using trim_suffix_append[OF ok(2)] by simp
  then have "eu_host u \<noteq> []" by auto
  then obtain authority where authority: "parseHost authority = Some (eu_host u)"
    using parse_url_parseHost[OF parse_endpoint_Some[OF parsed(1)]] by blast
  have plain: "CHR ''['' \<notin> set (eu_host u)" using labelled_host_plain[OF authority name ok(4)] .
  have "parse_url e = Some (eu_scheme u, eu_host u)"
    unfolding ok(5) using parseHost_escape[of "eu_host u"] parseHost_facts[OF authority plain] ok(1) plain
    by (simp add: parse_url_host)
  then have "url_hostname e = Some (?label @ ''.'' @ ?base)" using name by (simp add: url_hostname_def)
  moreover have "url_hostname (sc_preview_base_url cfg) = Some ?base"
    using parse_endpoint_Some[OF parsed(2)] by (simp add: url_hostname_def)
  moreover have "\<not> has_prefix ?label ''cmp-''"
    using ok(3) name by (auto simp: has_prefix_iff)
  ultimately show ?thesis using ok(4) unfolding endpoint_typed_def by blast
qed

text \<open>The contract is completed; the rest of the baseline stays.\<close>

lemma validate_contract_Inr:
  assumes "validate_contract b = Inr (b', names)"
  defines "v \<equiv> b_verification b'"
  shows "b_id b' = b_id b \<and> b_project b' = b_project b \<and> b_routing b' = b_routing b \<and>
    b_components b' = b_components b \<and> b_endpoint b' = b_endpoint b \<and> b_pubsub b' = b_pubsub b \<and>
    vc_kind v = vc_kind (b_verification b) \<and> vc_kind v \<in> {''none'', ''envy-chain'', ''http''} \<and>
    (if vc_kind v = ''envy-chain''
     then names = vc_chain v \<and> length names = map_len (b_components b) \<and> br_entry_component (b_routing b) = hd names
     else names = sorted_keys (b_components b)) \<and>
    (vc_kind v = ''http'' \<longrightarrow> has_key (b_components b) (br_entry_component (b_routing b)))"
  using assms(1) unfolding v_def
  by (auto simp: validate_contract_def Let_def http_defaults_def split: if_splits)

lemma chain_complete:
  assumes "distinct names" "set names \<subseteq> fst ` set m" "length names = map_len m"
  shows "set names = fst ` set m"
  using assms by (simp add: map_len_card card_subset_eq distinct_card)

lemma validate_endpoint_Inr:
  assumes "validate_endpoint cfg b = Inr b'"
  shows "b_id b' = b_id b \<and> b_project b' = b_project b \<and> b_routing b' = b_routing b \<and>
    b_components b' = b_components b \<and> b_verification b' = b_verification b \<and>
    (if vc_kind (b_verification b) = ''none'' then b_endpoint b' = [] else endpoint_typed cfg (b_endpoint b'))"
  using assms baseline_url_typed
  by (auto simp: validate_endpoint_def Let_def result_then_Inr split: if_splits)

lemma validateBaseline_typed:
  assumes "validateBaseline cfg validator read profiles b = Inr b'"
  shows "baseline_typed cfg b'"
proof -
  obtain b1 names profiles' where steps: "validate_routing b = None" "validate_endpoint cfg b = Inr b1"
    "1 \<le> map_len (b_components b1)" "map_len (b_components b1) \<le> 20"
    "validate_contract b1 = Inr (b', names)"
    "validate_bindings (read (b_project b')) b' [] [] names profiles = Inr profiles'"
    using assms
    by (auto simp: validateBaseline_def result_then_Inr check_then_Inr split: if_splits option.splits)
  note e = validate_endpoint_Inr[OF steps(2)] and c = validate_contract_Inr[OF steps(5)]
    and n = validate_bindings_Inr[OF steps(6)]
  have ids: "ValidCatalogID (b_id b')" "ValidCatalogID (b_project b')" "ValidCatalogID (br_namespace (b_routing b'))"
    using steps(1) e c by (auto simp: validate_routing_def Let_def split: if_splits)
  have bound: "set names \<subseteq> fst ` set (b_components b')"
    using n by (auto simp flip: has_key_iff simp: has_key_def)
  have all: "set names = fst ` set (b_components b')"
  proof (cases "vc_kind (b_verification b') = ''envy-chain''")
    case True
    then have "length names = map_len (b_components b')" using c by auto
    then show ?thesis using chain_complete bound n by blast
  qed (use c in \<open>auto simp: sorted_keys_def\<close>)
  have "has_key (b_components b') (br_entry_component (b_routing b'))"
    if "vc_kind (b_verification b') \<noteq> ''none''"
  proof (cases "vc_kind (b_verification b') = ''http''")
    case False
    then have chain: "br_entry_component (b_routing b') = hd names" "length names = map_len (b_components b')"
      using c that by auto
    then have "names \<noteq> []" using steps(3) c by auto
    then show ?thesis using bound chain(1) by (auto simp: has_key_iff)
  qed (use c in auto)
  moreover have "binding_typed b' binding" if "map_of (b_components b') i = Some binding" for i binding
  proof -
    have "i \<in> set names" unfolding all using map_of_SomeD[OF that] by force
    then show ?thesis using n that by auto
  qed
  ultimately show ?thesis
    using ids steps(3,4) e c n all unfolding baseline_typed_def
    by (auto split: if_splits)
qed

section \<open>What the tables hold\<close>

definition stores :: "(component \<Rightarrow> bool) \<Rightarrow> (baseline \<Rightarrow> bool) \<Rightarrow> 'a tx \<Rightarrow> bool" where
  "stores P Q m \<longleftrightarrow>
     (\<forall>cx d a d'. m cx d = Inr (a, d') \<longrightarrow>
        list_all (\<lambda>(k, c). P c) (db_components d) \<and> list_all (\<lambda>(k, b). Q b) (db_baselines d) \<longrightarrow>
        list_all (\<lambda>(k, c). P c) (db_components d') \<and> list_all (\<lambda>(k, b). Q b) (db_baselines d'))"

named_theorems stores_rules "statements write only components and baselines that satisfy the predicates"

lemma stores_bind [stores_rules]:
  "stores P Q m \<Longrightarrow> (\<And>a. stores P Q (f a)) \<Longrightarrow> stores P Q (tx_bind m f)"
  unfolding stores_def tx_bind_Inr by blast

lemma stores_seq [stores_rules]: "stores P Q m \<Longrightarrow> stores P Q n \<Longrightarrow> stores P Q (tx_seq m n)"
  unfolding tx_seq_def by (rule stores_bind)

lemma stores_if [stores_rules]: "stores P Q m \<Longrightarrow> stores P Q n \<Longrightarrow> stores P Q (if b then m else n)"
  by simp

lemma stores_attempt [stores_rules]: "stores P Q m \<Longrightarrow> stores P Q (attempt l m)"
  unfolding stores_def attempt_Inr by blast

text \<open>Statements that leave both tables alone.\<close>

lemma stores_keeps: "keeps db_components m \<Longrightarrow> keeps db_baselines m \<Longrightarrow> stores P Q m"
  unfolding stores_def using keepsD by metis

lemma keeps_components [frame]:
  "keeps db_components (insert_project p)" "keeps db_components (seed_project p)"
  "keeps db_components (insert_claim host owner)" "keeps db_components (seed_claim host owner)"
  "keeps db_components (insert_baseline b)" "keeps db_components (seed_baseline b)"
  "keeps db_components (record_activity a)" "keeps db_components (matchingCatalog enc body wanted label required)"
  by (auto simp: keeps_def insert_project_def seed_project_def insert_claim_def seed_claim_def insert_baseline_def
      seed_baseline_def record_activity_def insertActivity_def matchingCatalog_def tx_elims Let_def
      split: if_splits option.splits)

lemma stores_basic [stores_rules]:
  "stores P Q (tx_return x)" "stores P Q (tx_fail e)" "stores P Q (tx_read f)"
  "stores P Q (insert_project p)" "stores P Q (seed_project p)"
  "stores P Q (insert_claim host owner)" "stores P Q (seed_claim host owner)"
  "stores P Q (record_activity a)" "stores P Q (matchingCatalog enc body wanted label required)"
  by (rule stores_keeps; intro frame)+

lemma stores_insert [stores_rules]:
  "P c \<Longrightarrow> stores P Q (insert_component c)" "P c \<Longrightarrow> stores P Q (seed_component c)"
  "Q b \<Longrightarrow> stores P Q (insert_baseline b)" "Q b \<Longrightarrow> stores P Q (seed_baseline b)"
  by (auto simp: stores_def insert_component_def seed_component_def insert_baseline_def seed_baseline_def
      tx_elims split: if_splits)

lemma stores_insert_claims [stores_rules]: "stores P Q (insert_claims hosts owner)"
  by (induction hosts owner rule: insert_claims.induct) (auto intro: stores_rules)

lemma stores_when [stores_rules]: "stores P Q m \<Longrightarrow> stores P Q (when_apply apply m)"
  by (simp add: when_apply_def stores_rules)

lemma stores_bundle_components [stores_rules]:
  "list_all P cs \<Longrightarrow> stores P Q (bundle_components apply cs)"
  by (induction cs) (auto intro!: stores_rules)

lemma stores_bundle_hosts [stores_rules]: "stores P Q (bundle_hosts apply owner hosts)"
  by (induction hosts) (auto intro!: stores_rules split: option.split)

lemma stores_bundle [stores_rules]:
  "list_all P (cm_components m) \<Longrightarrow> Q (cm_baseline m) \<Longrightarrow> stores P Q (catalogBundle m apply)"
  unfolding catalogBundle_def Let_def by (intro stores_rules)

lemma transaction_stores:
  assumes "transaction begin_action commit_action m cx d = (r, d')" "stores P Q m"
    and "list_all (\<lambda>(k, c). P c) (db_components d)" "list_all (\<lambda>(k, b). Q b) (db_baselines d)"
  shows "list_all (\<lambda>(k, c). P c) (db_components d') \<and> list_all (\<lambda>(k, b). Q b) (db_baselines d')"
proof (cases r)
  case Inl
  then show ?thesis using assms transaction_Inl by metis
next
  case (Inr a)
  then show ?thesis using assms(2-4) transaction_Inr[of begin_action commit_action m cx d a d'] assms(1)
    unfolding stores_def by blast
qed

section \<open>Registrations\<close>

inductive registration :: "service_config \<Rightarrow> baseline_check option \<Rightarrow> db \<Rightarrow> db \<Rightarrow> bool" for cfg validator where
  Register_Project: "RegisterProject p cx d = (r, d') \<Longrightarrow> registration cfg validator d d'"
| Register_Component: "RegisterComponent cfg c cx d = (r, d') \<Longrightarrow> registration cfg validator d d'"
| Register_Baseline: "RegisterBaseline cfg validator b cx d = (r, d') \<Longrightarrow> registration cfg validator d d'"
| Register_Manifest: "Onboard cfg validator m apply cx d = (r, d') \<Longrightarrow> registration cfg validator d d'"

definition catalog_typed :: "service_config \<Rightarrow> db \<Rightarrow> bool" where
  "catalog_typed cfg d \<longleftrightarrow>
     list_all (\<lambda>(k, c). component_typed c) (db_components d) \<and>
     list_all (\<lambda>(k, b). baseline_typed cfg b) (db_baselines d)"

lemma onboard_components_typed:
  "onboard_components cfg project b cs profiles = Inr (cs', profiles') \<Longrightarrow> list_all component_typed cs'"
proof (induction cs arbitrary: profiles cs')
  case (Cons c cs)
  let ?c = "if cp_project c = [] then c\<lparr>cp_project := project\<rparr> else c"
  obtain rest where rest: "onboard_components cfg project b cs (AList.update (cp_id ?c) ?c profiles) = Inr (rest, profiles')"
    "cs' = ?c # rest" "ValidateComponent ?c = None"
    using Cons.prems by (auto simp: Let_def result_then_Inr check_then_Inr split: if_splits)
  then show ?case using Cons.IH[OF rest(1)] ValidateComponent_typed by simp
qed simp

lemma onboard_manifest_typed:
  assumes "onboard_manifest cfg validator m cx d = Inr m'"
  shows "list_all component_typed (cm_components m') \<and> baseline_typed cfg (cm_baseline m')"
proof -
  obtain cs profiles b b' where steps: "onboard_components cfg (pj_id (cm_project m)) (cm_baseline m) (cm_components m) [] = Inr (cs, profiles)"
    "validateBaseline cfg validator (read_table cx d) profiles b = Inr b'"
    "m' = m\<lparr>cm_components := sort_key cp_id cs, cm_baseline := b'\<rparr>"
    using assms
    by (auto simp: onboard_manifest_def Let_def result_then_Inr check_then_Inr split: if_splits)
  then show ?thesis
    using onboard_components_typed[OF steps(1)] validateBaseline_typed[OF steps(2)] by (simp add: list_all_iff)
qed

lemma registration_typed:
  assumes "registration cfg validator d d'" "catalog_typed cfg d"
  shows "catalog_typed cfg d'"
  using assms(1)
proof cases
  case (Register_Project p cx r)
  show ?thesis
  proof (cases "ValidateProject p")
    case None
    then show ?thesis
      using Register_Project assms(2) unfolding RegisterProject_def store_project_def catalog_typed_def
      by (intro transaction_stores) (auto intro: stores_rules)
  qed (use Register_Project assms(2) in \<open>simp add: RegisterProject_def\<close>)
next
  case (Register_Component c cx r)
  show ?thesis
  proof (cases "first_error [ValidateComponent c, validatePullSecrets cfg c]")
    case None
    then have "component_typed c" using ValidateComponent_typed by (simp add: first_error_None)
    then show ?thesis
      using None Register_Component assms(2) unfolding RegisterComponent_def store_component_def catalog_typed_def
      by (intro transaction_stores) (auto intro: stores_rules)
  qed (use Register_Component assms(2) in \<open>simp add: RegisterComponent_def\<close>)
next
  case (Register_Baseline b cx r)
  show ?thesis
  proof (cases "validateBaseline cfg validator (read_table cx d) [] b")
    case (Inr b')
    then have "baseline_typed cfg b'" by (rule validateBaseline_typed)
    then show ?thesis
      using Inr Register_Baseline assms(2) unfolding RegisterBaseline_def store_baseline_def catalog_typed_def
      by (intro transaction_stores) (auto intro: stores_rules)
  qed (use Register_Baseline assms(2) in \<open>simp add: RegisterBaseline_def\<close>)
next
  case (Register_Manifest m go cx r)
  show ?thesis
  proof (cases "result_then (onboard_manifest cfg validator m cx d) (\<lambda>m. result_then (CheckCatalog m cx d) (\<lambda>u. Inr m))")
    case (Inr m')
    then have "list_all component_typed (cm_components m')" "baseline_typed cfg (cm_baseline m')"
      using onboard_manifest_typed by (auto simp: result_then_Inr)
    moreover obtain r' where "go \<Longrightarrow> ApplyCatalog m' cx d = (r', d')" "\<not> go \<Longrightarrow> d' = d"
      using Register_Manifest Inr by (cases "ApplyCatalog m' cx d") (auto simp: Onboard_def split: if_splits)
    ultimately show ?thesis
      using assms(2) unfolding ApplyCatalog_def catalog_typed_def
      by (cases go) (intro transaction_stores, auto intro: stores_rules)
  qed (use Register_Manifest assms(2) in \<open>simp add: Onboard_def\<close>)
qed

lemma registrations_typed:
  assumes "(registration cfg validator)\<^sup>*\<^sup>* d d'" "catalog_typed cfg d"
  shows "catalog_typed cfg d'"
  using assms(1) by (induction rule: rtranclp_induct) (use assms(2) registration_typed in blast)+

lemma catalog_typed_empty [wf_intros]: "catalog_typed cfg empty_db"
  by (simp add: catalog_typed_def empty_db_def)

lemma typed_lookup:
  assumes "catalog_typed cfg d"
  shows "map_of (db_components d) k = Some c \<Longrightarrow> component_typed c"
    and "map_of (db_baselines d) k = Some b \<Longrightarrow> baseline_typed cfg b"
  using assms by (auto simp: catalog_typed_def list_all_iff dest!: map_of_SomeD)

text \<open>
  C12: Whatever is registered or onboarded, every component in the catalog is well-typed: its kind
  fixes its profile, only HTTP components have a protocol, a port in range and valid probe paths,
  its pull secrets are distinct and its environment has only valid, unreserved names. Every
  baseline is well-typed too: its endpoint is a single label under the preview domain outside the
  reserved prefix, its entry component is bound, a chain lists every bound component once, and
  every binding is a Service in the routing namespace or an image alone.
\<close>

theorem catalog_entries_typed:
  assumes "(registration cfg validator)\<^sup>*\<^sup>* empty_db d"
  shows "catalog_typed cfg d"
  using registrations_typed[OF assms catalog_typed_empty] .

definition open_validator :: "baseline_check option" where
  "open_validator = Some (BaselineChecks [])"

definition typed_demo :: db where
  "typed_demo = snd (RegisterComponent demo_config (seeded_component ''gateway'') catalog_demo_call
     (snd (RegisterProject \<lparr>pj_id = ''demo'', pj_name = ''Envy demo''\<rparr> catalog_demo_call empty_db)))"

lemma typed_demo_run: "(registration demo_config open_validator)\<^sup>*\<^sup>* empty_db typed_demo"
  unfolding typed_demo_def
  by (rule converse_rtranclp_into_rtranclp, rule Register_Project, rule prod.collapse[symmetric],
      rule r_into_rtranclp, rule Register_Component, rule prod.collapse[symmetric])

lemma typed_demo_component:
  "map_of (db_components typed_demo) (''demo'', ''gateway'') = Some (seeded_component ''gateway'')"
  by code_simp

lemma catalog_entries_typed_witness:
  "map_of (db_components typed_demo) (''demo'', ''gateway'') = Some (seeded_component ''gateway'') \<and>
   component_typed (seeded_component ''gateway'')"
  using typed_lookup(1)[OF catalog_entries_typed[OF typed_demo_run] typed_demo_component] typed_demo_component
  by simp

section \<open>Reserved host names\<close>

text \<open>
  C22: No registered baseline has the host name of an allocated composition endpoint: \<open>Create\<close>
  allocates \<open>cmp-\<close> names under the preview domain, and a baseline endpoint never has one.
\<close>

theorem baseline_host_reserved:
  assumes "(registration cfg validator)\<^sup>*\<^sup>* empty_db d" "map_of (db_baselines d) k = Some b"
    and "vc_kind (b_verification b) \<noteq> ''none''"
    and "previewBaseURL (sc_preview_base_url cfg) = Inr u" "CHR ''['' \<notin> set (pu_host u)"
    and "list_all is_lower_hex i"
  shows "\<exists>host. url_hostname (b_endpoint b) = Some host \<and> url_hostname (allocated_url u i) \<noteq> Some host"
proof -
  have "baseline_typed cfg b"
    using typed_lookup(2)[OF registrations_typed[OF assms(1) catalog_typed_empty] assms(2)] .
  then obtain name base where host: "ValidCatalogID name" "\<not> has_prefix name ''cmp-''"
    "url_hostname (b_endpoint b) = Some (name @ CHR ''.'' # base)"
    using assms(3) by (auto simp: baseline_typed_def endpoint_typed_def)
  let ?cmp = "''cmp-'' @ i" and ?label = "takeWhile (\<lambda>c. c \<noteq> CHR ''.'')"
  have "\<forall>c\<in>set name. c \<noteq> CHR ''.''"
    using label_chars[OF host(1)]
    by (auto simp: list_all_iff is_catalog_char_def is_catalog_end_def char_class_defs less_eq_char_def)
  then have "?label (name @ CHR ''.'' # base) = name" by (subst takeWhile_append2) auto
  moreover have "\<forall>c\<in>set ?cmp. c \<noteq> CHR ''.''"
    using assms(6) by (auto simp: list_all_iff char_class_defs less_eq_char_def)
  then have "?label (?cmp @ CHR ''.'' # hostname_of (pu_host u)) = ?cmp" by (subst takeWhile_append2) auto
  ultimately have "name @ CHR ''.'' # base \<noteq> ?cmp @ CHR ''.'' # hostname_of (pu_host u)"
    using host(2) by (metis has_prefix_iff)
  then show ?thesis using host(3) url_hostname_allocated[OF assms(4-6)] by simp
qed

definition seeded_run :: db where
  "seeded_run = snd (RegisterBaseline demo_config open_validator seeded_baseline catalog_demo_call
     (snd (RegisterComponent demo_config (seeded_component ''service-b'') catalog_demo_call
     (snd (RegisterComponent demo_config (seeded_component ''service-a'') catalog_demo_call typed_demo)))))"

lemma seeded_run_steps: "(registration demo_config open_validator)\<^sup>*\<^sup>* empty_db seeded_run"
  unfolding seeded_run_def
  by (rule rtranclp_trans[OF typed_demo_run], rule converse_rtranclp_into_rtranclp, rule Register_Component,
      rule prod.collapse[symmetric], rule converse_rtranclp_into_rtranclp, rule Register_Component,
      rule prod.collapse[symmetric], rule r_into_rtranclp, rule Register_Baseline, rule prod.collapse[symmetric])

lemma seeded_run_baseline:
  "map_of (db_baselines seeded_run) (''demo'', ''staging'') = Some seeded_baseline"
  by code_simp

lemma baseline_host_reserved_witness:
  "\<exists>host. url_hostname (b_endpoint seeded_baseline) = Some host \<and>
     url_hostname (allocated_url \<lparr>pu_scheme = ''http'', pu_host = ''envy.localhost:8080'', pu_force_query = False\<rparr> ''0af3'')
       \<noteq> Some host"
proof (rule baseline_host_reserved[OF seeded_run_steps seeded_run_baseline _ demo_base_url])
  show "vc_kind (b_verification seeded_baseline) \<noteq> ''none''" by code_simp
qed code_simp+

section \<open>Endpoint-free baselines\<close>

lemma tx_fails:
  assumes "\<And>a d'. m cx d \<noteq> Inr (a, d')"
  shows "\<exists>e. transaction begin_action commit_action m cx d = (Inl e, d)"
proof (cases "transaction begin_action commit_action m cx d")
  case (Pair r d')
  then show ?thesis
  proof (cases r)
    case (Inr a)
    then show ?thesis using Pair transaction_Inr assms by metis
  qed (use Pair transaction_Inl in metis)
qed

lemma store_baseline_conflict:
  assumes "\<not> distinct (binding_hosts b) \<or> endpoint_owner (b_endpoint b) d \<noteq> None"
  shows "\<exists>e. store_baseline b cx d = (Inl e, d)"
  unfolding store_baseline_def
proof (rule tx_fails, rule notI)
  fix b' d' assume run: "tx_seq (insert_baseline b) (tx_seq (insert_claims (binding_hosts b) (b_project b, b_id b))
    (tx_seq (record_activity (catalog_activity ''catalog.baseline.register'' (b_project b) ''baseline'' (b_id b)))
    (tx_return b))) cx d = Inr (b', d')"
  then obtain d1 d2 where "insert_baseline b cx d = Inr ((), d1)"
    "insert_claims (binding_hosts b) (b_project b, b_id b) cx d1 = Inr ((), d2)"
    by (auto simp: tx_elims)
  then have "endpoint_owner (b_endpoint b) d = None" "distinct (binding_hosts b)"
    using insert_claims_Inr by (auto simp: insert_baseline_def tx_elims split: if_splits
        simp del: split_paired_All split_paired_Ex not_None_eq not_Some_eq)
  then show False using assms by simp
qed

lemma free_endpoint_owned: "map_of (db_baselines d) k = Some b0 \<Longrightarrow> endpoint_owner (b_endpoint b0) d \<noteq> None"
  unfolding endpoint_owner_None by (force dest: map_of_SomeD)

lemma free_hosts_collide:
  assumes "1 < length (filter (\<lambda>(i, binding). bb_service_host binding = []) m)"
  shows "\<not> distinct (map (\<lambda>(i, binding). bb_service_host binding) m)"
proof
  assume "distinct (map (\<lambda>(i, binding). bb_service_host binding) m)"
  then have "distinct (map (\<lambda>(i, binding). bb_service_host binding) (filter (\<lambda>(i, binding). bb_service_host binding = []) m))"
    by (rule distinct_map_filter)
  moreover have "map (\<lambda>(i, binding). bb_service_host binding) (filter (\<lambda>(i, binding). bb_service_host binding = []) m) =
      replicate (length (filter (\<lambda>(i, binding). bb_service_host binding = []) m)) []"
    by (induction m) auto
  ultimately show False using assms by (cases "length (filter (\<lambda>(i, binding). bb_service_host binding = []) m)"; cases "length (filter (\<lambda>(i, binding). bb_service_host binding = []) m) - 1") auto
qed

text \<open>
  C25: The registration of a single baseline refuses endpoint-free ones that validation accepts.
  \<open>RegisterBaseline\<close> fails and changes nothing when the endpoint-free baseline binds two components
  without an endpoint, or when another endpoint-free baseline is registered anywhere: the claims
  table is keyed by Service host and the endpoint index is unique, and both hold the empty string for
  such entries. Only \<open>RegisterBaseline\<close> is meant: \<open>Onboard\<close> inserts its claims with
  \<open>ON CONFLICT DO NOTHING\<close> and takes the same baseline, as \<open>free_baseline_onboarded\<close> shows.
\<close>

theorem endpoint_free_registration_fails:
  assumes "validateBaseline cfg validator (read_table cx d) [] b = Inr b'"
    and "vc_kind (b_verification b) = ''none''"
    and "1 < length (filter (\<lambda>(i, binding). bb_service_host binding = []) (b_components b)) \<or>
      (\<exists>k b0. map_of (db_baselines d) k = Some b0 \<and> b_endpoint b0 = [])"
  shows "\<exists>e. RegisterBaseline cfg validator b cx d = (Inl e, d)"
proof -
  have checked: "b_components b' = b_components b \<and> b_endpoint b' = []"
    using assms(1,2)
    by (auto simp: validateBaseline_def result_then_Inr check_then_Inr split: if_splits option.splits
        dest!: validate_endpoint_Inr validate_contract_Inr)
  have "\<not> distinct (binding_hosts b') \<or> endpoint_owner (b_endpoint b') d \<noteq> None"
    using assms(3)
  proof
    assume "1 < length (filter (\<lambda>(i, binding). bb_service_host binding = []) (b_components b))"
    then show ?thesis using free_hosts_collide checked unfolding binding_hosts_def by metis
  next
    assume "\<exists>k b0. map_of (db_baselines d) k = Some b0 \<and> b_endpoint b0 = []"
    then show ?thesis using free_endpoint_owned checked by metis
  qed
  then show ?thesis using store_baseline_conflict assms(1) by (simp add: RegisterBaseline_def)
qed

definition free_worker :: "string \<Rightarrow> component" where
  "free_worker i = zero_component
     \<lparr>cp_id := i, cp_project := ''demo'', cp_profile := ''worker'', cp_overridable := True,
      cp_execution := Some \<lparr>x_kind = ''worker'', x_dependencies = [], x_timeout = [], x_retry_limit = 0,
        x_schedule = [], x_max_runs = 0, x_concurrency_policy = []\<rparr>\<rparr>"

definition free_baseline :: baseline where
  "free_baseline = zero_baseline
     \<lparr>b_id := ''jobs'', b_project := ''demo'', b_revision := ''v1'',
      b_components := [(''ingest'', \<lparr>bb_service_host = [], bb_port = 0, bb_image = ''envy/ingest:v1''\<rparr>),
        (''report'', \<lparr>bb_service_host = [], bb_port = 0, bb_image = ''envy/report:v1''\<rparr>)],
      b_routing := (b_routing zero_baseline)\<lparr>br_namespace := ''jobs''\<rparr>,
      b_verification := (b_verification zero_baseline)\<lparr>vc_kind := ''none''\<rparr>\<rparr>"

definition free_db :: db where
  "free_db = empty_db\<lparr>db_projects := [(''demo'', \<lparr>pj_id = ''demo'', pj_name = ''Demo''\<rparr>)],
     db_components := [((''demo'', ''ingest''), free_worker ''ingest''), ((''demo'', ''report''), free_worker ''report'')]\<rparr>"

lemma free_baseline_valid:
  "validateBaseline demo_config open_validator (read_table catalog_demo_call free_db) [] free_baseline = Inr free_baseline"
  by code_simp

lemma endpoint_free_registration_fails_witness:
  "\<exists>e. RegisterBaseline demo_config open_validator free_baseline catalog_demo_call free_db = (Inl e, free_db)"
proof (rule endpoint_free_registration_fails[OF free_baseline_valid])
  show "vc_kind (b_verification free_baseline) = ''none''" by code_simp
  show "1 < length (filter (\<lambda>(i, binding). bb_service_host binding = []) (b_components free_baseline)) \<or>
      (\<exists>k b0. map_of (db_baselines free_db) k = Some b0 \<and> b_endpoint b0 = [])"
    by (simp add: free_baseline_def)
qed

text \<open>Onboarding the same baseline, as a manifest, succeeds from the empty database.\<close>

lemma free_baseline_onboarded:
  "fst (Onboard demo_config open_validator
     \<lparr>cm_api_version = ''envy/v1'', cm_project = \<lparr>pj_id = ''demo'', pj_name = ''Demo''\<rparr>,
      cm_components = [free_worker ''ingest'', free_worker ''report''], cm_baseline = free_baseline\<rparr> True
     catalog_demo_call empty_db) \<in> range Inr"
proof -
  have "(case fst (Onboard demo_config open_validator
     \<lparr>cm_api_version = ''envy/v1'', cm_project = \<lparr>pj_id = ''demo'', pj_name = ''Demo''\<rparr>,
      cm_components = [free_worker ''ingest'', free_worker ''report''], cm_baseline = free_baseline\<rparr> True
     catalog_demo_call empty_db) of Inl e \<Rightarrow> False | Inr report \<Rightarrow> True)"
    by code_simp
  then show ?thesis by (auto split: sum.splits)
qed

section \<open>Two spellings of one endpoint\<close>

definition shadow_baseline :: baseline where
  "shadow_baseline = seeded_baseline
     \<lparr>b_id := ''shadow'', b_endpoint := ''http://baseline.envy.localhost:8080?'',
      b_components := [(''gateway'', \<lparr>bb_service_host = ''gateway.shadow.svc.cluster.local'', bb_port = 8080,
        bb_image = ''envy/gateway:v1''\<rparr>)],
      b_routing := (b_routing seeded_baseline)\<lparr>br_namespace := ''shadow''\<rparr>,
      b_verification := (b_verification seeded_baseline)\<lparr>vc_chain := [''gateway'']\<rparr>\<rparr>"

definition shadow_run :: db where
  "shadow_run = snd (RegisterBaseline demo_config open_validator shadow_baseline catalog_demo_call seeded_run)"

text \<open>
  The rules and the unique index compare the spelling of an endpoint: a registered baseline can
  be joined by another one with the same host name and port, whose endpoint ends in a question mark.
\<close>

theorem endpoint_spelling_not_unique:
  "\<exists>d. (registration demo_config open_validator)\<^sup>*\<^sup>* empty_db d \<and>
     map_of (db_baselines d) (''demo'', ''staging'') = Some seeded_baseline \<and>
     map_of (db_baselines d) (''demo'', ''shadow'') = Some shadow_baseline \<and>
     parse_url (b_endpoint shadow_baseline) = parse_url (b_endpoint seeded_baseline)"
proof (intro exI conjI)
  show "(registration demo_config open_validator)\<^sup>*\<^sup>* empty_db shadow_run"
    unfolding shadow_run_def
    by (rule rtranclp.rtrancl_into_rtrancl[OF seeded_run_steps], rule Register_Baseline, rule prod.collapse[symmetric])
qed code_simp+

section \<open>Applying a manifest again\<close>

lemma matching_Inr:
  "matchingCatalog enc body wanted label required cx d = Inr (u, d') \<longleftrightarrow>
     d' = d \<and> (case body of None \<Rightarrow> \<not> required | Some v \<Rightarrow> enc v = enc wanted)"
  by (auto simp: matchingCatalog_def tx_elims split: option.splits)

lemma check_components:
  assumes "list_all (\<lambda>c. \<exists>v. map_of (db_components d) (cp_project c, cp_id c) = Some v \<and>
      component_json v = component_json c) cs" "cx_fault cx = None"
  shows "bundle_components False cs cx d = Inr ((), d)"
  using assms(1)
  by (induction cs)
    (auto simp: when_apply_def tx_seq_def tx_bind_def tx_return_def attempt_def tx_read_def assms(2)
      matchingCatalog_def)

lemma check_hosts:
  assumes "list_all (\<lambda>h. map_of (db_claims d) h = Some owner) hosts" "cx_fault cx = None"
  shows "bundle_hosts False owner hosts cx d = Inr ((), d)"
  using assms(1)
  by (induction hosts)
    (auto simp: when_apply_def tx_seq_def tx_bind_def tx_return_def attempt_def tx_read_def assms(2))

definition manifest_present :: "catalog_manifest \<Rightarrow> db \<Rightarrow> bool" where
  "manifest_present m d \<longleftrightarrow>
     (\<exists>p. map_of (db_projects d) (pj_id (cm_project m)) = Some p \<and> project_json p = project_json (cm_project m)) \<and>
     list_all (\<lambda>c. \<exists>v. map_of (db_components d) (cp_project c, cp_id c) = Some v \<and>
       component_json v = component_json c) (cm_components m) \<and>
     (\<exists>b. map_of (db_baselines d) (b_project (cm_baseline m), b_id (cm_baseline m)) = Some b \<and>
       baseline_json b = baseline_json (cm_baseline m)) \<and>
     list_all (\<lambda>h. map_of (db_claims d) h = Some (b_project (cm_baseline m), b_id (cm_baseline m)))
       (binding_hosts (cm_baseline m))"

lemma matching_grows:
  "list_all (\<lambda>c. \<exists>v. m (cp_project c, cp_id c) = Some v \<and> component_json v = component_json c) cs \<Longrightarrow>
     m \<subseteq>\<^sub>m m' \<Longrightarrow>
     list_all (\<lambda>c. \<exists>v. m' (cp_project c, cp_id c) = Some v \<and> component_json v = component_json c) cs"
  by (induction cs) (auto dest: map_leD)

lemma claimed_grows:
  "list_all (\<lambda>h. m h = Some k) hs \<Longrightarrow> m \<subseteq>\<^sub>m m' \<Longrightarrow> list_all (\<lambda>h. m' h = Some k) hs"
  by (induction hs) (auto dest: map_leD)

lemma manifest_present_grows:
  assumes "manifest_present m d" "catalog_grows d d'"
  shows "manifest_present m d'"
proof -
  have le: "map_of (db_projects d) \<subseteq>\<^sub>m map_of (db_projects d')" "map_of (db_components d) \<subseteq>\<^sub>m map_of (db_components d')"
    "map_of (db_baselines d) \<subseteq>\<^sub>m map_of (db_baselines d')" "map_of (db_claims d) \<subseteq>\<^sub>m map_of (db_claims d')"
    using assms(2) by (auto simp: catalog_grows_def)
  show ?thesis
    using assms(1) matching_grows[OF _ le(2)] claimed_grows[OF _ le(4)] map_leD[OF le(1)] map_leD[OF le(3)]
    unfolding manifest_present_def by fast
qed

lemma bundle_components_present:
  "bundle_components True cs cx d = Inr (u, d') \<Longrightarrow> catalog_ok d \<Longrightarrow>
     list_all (\<lambda>c. \<exists>v. map_of (db_components d') (cp_project c, cp_id c) = Some v \<and>
       component_json v = component_json c) cs"
proof (induction cs arbitrary: d)
  case (Cons c cs)
  obtain d1 v where steps: "seed_component c cx d = Inr ((), d1)"
    "map_of (db_components d1) (cp_project c, cp_id c) = Some v" "component_json v = component_json c"
    "bundle_components True cs cx d1 = Inr (u, d')"
    using Cons.prems(1) by (auto simp: when_apply_def tx_elims matching_Inr split: option.splits)
  have ok: "catalog_ok d1" using registersD[OF registers_insert_component(2) steps(1) Cons.prems(2)] by simp
  have "catalog_grows d1 d'" using registersD[OF registers_bundle_components steps(4) ok] by simp
  then have "map_of (db_components d') (cp_project c, cp_id c) = Some v"
    using steps(2) map_leD unfolding catalog_grows_def by fast
  then show ?case using Cons.IH[OF steps(4) ok] steps(3) by auto
qed simp

lemma applied_manifest_present:
  assumes "ApplyCatalog m cx d = (Inr u, d')" "catalog_ok d"
  shows "manifest_present m d'"
proof -
  let ?b = "cm_baseline m" and ?p = "cm_project m"
  let ?o = "(b_project ?b, b_id ?b)"
  obtain d0 where d0: "catalogBundle m True cx d = Inr ((), d0)"
    "record_activity (catalog_activity ''catalog.apply'' (pj_id (cm_project m)) ''catalog'' (pj_id (cm_project m))) cx d0 =
       Inr (u, d')"
    using transaction_Inr[OF assms(1)[unfolded ApplyCatalog_def]] by (auto simp: tx_elims)
  obtain d1 d2 d3 p b where steps: "seed_project ?p cx d = Inr ((), d1)"
    "map_of (db_projects d1) (pj_id ?p) = Some p" "project_json p = project_json ?p"
    "bundle_components True (cm_components m) cx d1 = Inr ((), d2)"
    "seed_baseline ?b cx d2 = Inr ((), d3)"
    "map_of (db_baselines d3) ?o = Some b" "baseline_json b = baseline_json ?b"
    "bundle_hosts True ?o (sort (binding_hosts ?b)) cx d3 = Inr ((), d0)"
    using d0(1) by (auto simp: catalogBundle_def Let_def tx_elims when_apply_def matching_Inr split: if_splits option.splits)
  have 1: "catalog_ok d1 \<and> catalog_grows d d1"
    using registersD[OF registers_insert_project(2) steps(1) assms(2)] .
  then have 2: "catalog_ok d2 \<and> catalog_grows d1 d2"
    using registersD[OF registers_bundle_components steps(4)] by blast
  then have 3: "catalog_ok d3 \<and> catalog_grows d2 d3"
    using registersD[OF registers_insert_baseline(2) steps(5)] by blast
  then have 4: "catalog_ok d0 \<and> catalog_grows d3 d0"
    using registersD[OF registers_bundle_hosts steps(8)] by blast
  then have 5: "catalog_grows d0 d'"
    using registersD[OF registers_activity d0(2)] by blast
  have grow: "catalog_grows d1 d'" "catalog_grows d2 d'" "catalog_grows d3 d'"
    using 2 3 4 5 catalog_grows_trans by blast+
  have "map_of (db_projects d') (pj_id ?p) = Some p" "map_of (db_baselines d') ?o = Some b"
    using grow(1,3) steps(2,6) map_leD unfolding catalog_grows_def by fast+
  moreover have "list_all (\<lambda>c. \<exists>v. map_of (db_components d') (cp_project c, cp_id c) = Some v \<and>
      component_json v = component_json c) (cm_components m)"
    by (rule matching_grows[OF bundle_components_present[OF steps(4)]])
      (use 1 grow(2) in \<open>simp_all add: catalog_grows_def\<close>)
  moreover have "list_all (\<lambda>h. map_of (db_claims d0) h = Some ?o) (sort (binding_hosts ?b))"
    using bundle_hosts_Inr[OF steps(8)] by simp
  then have "list_all (\<lambda>h. map_of (db_claims d') h = Some ?o) (sort (binding_hosts ?b))"
    by (rule claimed_grows) (use 5 in \<open>simp add: catalog_grows_def\<close>)
  then have "list_all (\<lambda>h. map_of (db_claims d') h = Some ?o) (binding_hosts ?b)"
    by (simp add: list_all_iff)
  ultimately show ?thesis using steps(3,7) unfolding manifest_present_def by blast
qed

lemma baseline_json_endpoint:
  assumes "baseline_json a = baseline_json b"
  shows "b_endpoint a = b_endpoint b"
proof -
  have "map_of (case baseline_json c of JObj fs \<Rightarrow> fs) ''endpoint'' = Some (JStr (b_endpoint c))" for c
    by (auto simp: baseline_json_def omit_empty_def)
  from this[of a] this[of b] assms show ?thesis by simp
qed

lemma find_distinct:
  "distinct (map (\<lambda>(k, b). f b) xs) \<Longrightarrow> (k, b) \<in> set xs \<Longrightarrow>
     List.find (\<lambda>(k', b'). f b' = f b) xs = Some (k, b)"
  by (induction xs) force+

lemma endpoint_owner_unique:
  assumes "catalog_ok d" "map_of (db_baselines d) k = Some b"
  shows "endpoint_owner (b_endpoint b) d = Some k"
  using find_distinct[OF _ map_of_SomeD[OF assms(2)], of b_endpoint] assms(1)
  by (simp add: catalog_ok_def endpoint_owner_def)

lemma present_checks:
  assumes "manifest_present m d" "catalog_ok d" "cx_fault cx = None"
  shows "CheckCatalog m cx d = Inr ()"
proof -
  let ?b = "cm_baseline m"
  let ?o = "(b_project ?b, b_id ?b)"
  obtain p b where entries: "map_of (db_projects d) (pj_id (cm_project m)) = Some p"
    "project_json p = project_json (cm_project m)" "map_of (db_baselines d) ?o = Some b"
    "baseline_json b = baseline_json ?b"
    using assms(1) unfolding manifest_present_def by blast
  have owner: "endpoint_owner (b_endpoint ?b) d = Some ?o"
    using endpoint_owner_unique[OF assms(2) entries(3)] baseline_json_endpoint[OF entries(4)] by simp
  have "bundle_components False (cm_components m) cx d = Inr ((), d)"
    using assms by (intro check_components) (auto simp: manifest_present_def)
  moreover have "bundle_hosts False ?o (sort (binding_hosts ?b)) cx d = Inr ((), d)"
    using assms by (intro check_hosts) (auto simp: manifest_present_def list_all_iff)
  ultimately show ?thesis
    using entries owner
    by (simp add: CheckCatalog_def catalogBundle_def Let_def when_apply_def tx_seq_def tx_bind_def tx_return_def
        attempt_def tx_read_def assms(3) matchingCatalog_def)
qed

text \<open>
  C19: Once a manifest has been applied it stays compatible: after any further registrations and
  onboardings, checking the same manifest again succeeds.
\<close>

theorem applied_manifest_stays_compatible:
  assumes "catalog_step\<^sup>*\<^sup>* empty_db d" "ApplyCatalog m cx d = (Inr u, d')"
    and "catalog_step\<^sup>*\<^sup>* d' later" "cx_fault again = None"
  shows "CheckCatalog m again later = Inr ()"
proof -
  have ok: "catalog_ok d" "claims_complete d" using catalog_steps[OF assms(1) catalog_empty] by auto
  have "catalog_step d d'" using assms(2) by (rule Apply_Catalog)
  then have ok': "catalog_ok d'" "claims_complete d'" using catalog_step_ok catalog_step_claims ok by blast+
  note steps = catalog_steps[OF assms(3) ok']
  have "manifest_present m later"
    using manifest_present_grows[OF applied_manifest_present[OF assms(2) ok(1)]] steps by blast
  then show ?thesis using present_checks steps assms(4) by blast
qed

definition demo_manifest :: catalog_manifest where
  "demo_manifest = \<lparr>cm_api_version = ''envy/v1'', cm_project = \<lparr>pj_id = ''demo'', pj_name = ''Envy demo''\<rparr>,
     cm_components = map seeded_component demo_names, cm_baseline = seeded_baseline\<rparr>"

lemma demo_manifest_applied: "fst (ApplyCatalog demo_manifest catalog_demo_call empty_db) = Inr ()"
  by code_simp

lemma applied_manifest_stays_compatible_witness:
  "CheckCatalog demo_manifest catalog_demo_call (snd (ApplyCatalog demo_manifest catalog_demo_call empty_db)) = Inr ()"
proof (rule applied_manifest_stays_compatible[OF rtranclp.rtrancl_refl _ rtranclp.rtrancl_refl])
  show "ApplyCatalog demo_manifest catalog_demo_call empty_db =
      (Inr (), snd (ApplyCatalog demo_manifest catalog_demo_call empty_db))"
    using demo_manifest_applied by (metis prod.collapse)
  show "cx_fault catalog_demo_call = None" by (simp add: catalog_demo_call_def)
qed

end
