(* ===== verification/Sources.thy ===== *)
theory Sources
  imports Registration
begin

text \<open>
  Source repositories and the builds their CI reports: \<open>internal/application/builds.go\<close> with the
  tables of \<open>internal/persistence/postgres/builds.go\<close>. GitHub and the image registry are
  interfaces of \<open>service_config\<close>; \<open>resolve\<close> is the answer of \<open>SourceControl.Resolve\<close>.
\<close>

section \<open>Reading\<close>

definition read_repository :: "string \<Rightarrow> string \<Rightarrow> source_repository tx" where
  "read_repository project i = attempt ''read source repository'' (\<lambda>cx d.
     case map_of (db_repositories d) (project, i) of
       None \<Rightarrow> Inl (NotFound ''repository not registered in project'')
     | Some r \<Rightarrow> Inr (r, d))"

definition tx_value :: "'a tx \<Rightarrow> call \<Rightarrow> db \<Rightarrow> 'a result" where
  "tx_value m cx d = (case m cx d of Inl e \<Rightarrow> Inl e | Inr (a, d') \<Rightarrow> Inr a)"

definition SourceRepository :: "string \<Rightarrow> string \<Rightarrow> call \<Rightarrow> db \<Rightarrow> source_repository result" where
  "SourceRepository project i = tx_value (read_repository project i)"

definition SourceRepositories_page :: "string \<Rightarrow> string \<Rightarrow> nat \<Rightarrow> (source_repository list \<times> string) tx" where
  "SourceRepositories_page project after limit = attempt ''list source repositories'' (tx_read (\<lambda>d.
     decodePage sr_id limit (page_rows after limit (in_project project (db_repositories d)))))"

definition Build :: "string \<Rightarrow> string \<Rightarrow> call \<Rightarrow> db \<Rightarrow> build result" where
  "Build project i = tx_value (read_build project i)"

text \<open>\<open>WHERE project AND repository AND component AND revision AND id > after ORDER BY id\<close>\<close>

definition builds_of :: "string \<Rightarrow> string \<Rightarrow> string \<Rightarrow> string \<Rightarrow> db \<Rightarrow> build gomap" where
  "builds_of project repository component revision d =
     filter (\<lambda>(i, b). bd_repository b = repository \<and> bd_component b = component \<and> bd_revision b = revision)
       (in_project project (db_builds d))"

definition Builds_page ::
  "string \<Rightarrow> string \<Rightarrow> string \<Rightarrow> string \<Rightarrow> string \<Rightarrow> nat \<Rightarrow> (build list \<times> string) tx"
where
  "Builds_page project repository component revision after limit = attempt ''list builds'' (tx_read (\<lambda>d.
     decodePage bd_id limit (page_rows after limit (builds_of project repository component revision d))))"

section \<open>Registering repositories\<close>

text \<open>\<open>^[A-Za-z0-9][A-Za-z0-9-]*/[A-Za-z0-9_.-]+$\<close>\<close>

definition git_repository :: "string \<Rightarrow> bool" where
  "git_repository s \<longleftrightarrow>
     (case split_on CHR ''/'' s of
        [owner, repo] \<Rightarrow>
          owner \<noteq> [] \<and> hd owner \<noteq> CHR ''-'' \<and>
          list_all (\<lambda>c. is_alpha c \<or> is_digit c \<or> c = CHR ''-'') owner \<and>
          repo \<noteq> [] \<and> list_all (\<lambda>c. is_alpha c \<or> is_digit c \<or> c \<in> set ''_.-'') repo
      | _ \<Rightarrow> False)"

text \<open>\<open>[a-z0-9]+(?:[._-][a-z0-9]+)*\<close>: runs of letters and digits between single separators.\<close>

fun path_part :: "bool \<Rightarrow> string \<Rightarrow> bool" where
  "path_part started [] = started"
| "path_part started (c # s) =
     (if is_catalog_end c then path_part True s
      else c \<in> set ''._-'' \<and> started \<and> path_part False s)"

definition registry_host :: "string \<Rightarrow> bool" where
  "registry_host s \<longleftrightarrow>
     (let (host, port) = cut_at CHR '':'' s in
      host \<noteq> [] \<and> is_catalog_end (hd host) \<and>
      list_all (\<lambda>c. is_catalog_end c \<or> c = CHR ''.'' \<or> c = CHR ''-'') host \<and>
      (CHR '':'' \<in> set s \<longrightarrow> port \<noteq> [] \<and> list_all is_digit port))"

definition image_location :: "string \<Rightarrow> bool" where
  "image_location s \<longleftrightarrow>
     (case split_on CHR ''/'' s of
        host # parts \<Rightarrow> registry_host host \<and> parts \<noteq> [] \<and> list_all (path_part False) parts
      | [] \<Rightarrow> False)"

text \<open>\<open>^sha256:[0-9a-f]{64}$\<close>, \<open>^[0-9a-f]{40}$\<close> and \<open>^[1-9][0-9]{0,19}$\<close>\<close>

definition image_digest :: "string \<Rightarrow> bool" where
  "image_digest s \<longleftrightarrow> has_prefix s ''sha256:'' \<and> length (drop 7 s) = 64 \<and> list_all is_lower_hex (drop 7 s)"

definition commit_sha :: "string \<Rightarrow> bool" where
  "commit_sha s \<longleftrightarrow> length s = 40 \<and> list_all is_lower_hex s"

definition run_id :: "string \<Rightarrow> bool" where
  "run_id s \<longleftrightarrow> s \<noteq> [] \<and> hd s \<noteq> CHR ''0'' \<and> list_all is_digit s \<and> length s \<le> 20"

fun validate_images ::
  "(string \<Rightarrow> component result) \<Rightarrow> string gomap \<Rightarrow> go_error option"
where
  "validate_images read [] = None"
| "validate_images read ((component, img) # rest) =
     (if \<not> ValidCatalogID component \<or> 400 < length img \<or> \<not> image_location img \<or>
        \<not> contains_any (hd (split_on CHR ''/'' img)) ''.:''
      then Some (Validation (''image mappings require component IDs and fully qualified '' @
        ''registry/image locations without tags''))
      else case read component of
        Inl e \<Rightarrow> Some e
      | Inr c \<Rightarrow>
          if \<not> cp_overridable c then Some (Validation ''mapped component must allow overrides'')
          else validate_images read rest)"

definition valid_repository :: "source_repository \<Rightarrow> bool" where
  "valid_repository r \<longleftrightarrow>
     ValidCatalogID (sr_project r) \<and> ValidCatalogID (sr_id r) \<and> length (sr_github_repository r) \<le> 200 \<and>
     git_repository (sr_github_repository r) \<and> 1 \<le> sr_installation_id r \<and>
     1 \<le> map_len (sr_images r) \<and> map_len (sr_images r) \<le> 100"

text \<open>The statements. Inserting a repository does nothing when its key or its GitHub name is taken.\<close>

definition insert_repository :: "source_repository \<Rightarrow> bool tx" where
  "insert_repository r = attempt ''register source repository'' (\<lambda>cx d.
     if map_of (db_repositories d) (sr_project r, sr_id r) \<noteq> None \<or>
       list_ex (\<lambda>((p, i), s). p = sr_project r \<and> sr_github_repository s = sr_github_repository r) (db_repositories d)
     then Inr (False, d)
     else if \<not> has_key (db_projects d) (sr_project r) then Inl (unavailable ''register source repository'')
     else Inr (True, d\<lparr>db_repositories := db_repositories d @ [((sr_project r, sr_id r), r)]\<rparr>))"

abbreviation mapped_already :: go_error where
  "mapped_already \<equiv> conflict ''component is missing or already mapped to a repository'' []"

definition claim_component :: "string \<Rightarrow> string \<Rightarrow> string \<Rightarrow> unit tx" where
  "claim_component project repository component cx d =
     (if cx_fault cx = Some ''claim source component'' then Inl mapped_already
      else if map_of (db_source_claims d) (project, component) \<noteq> None \<or>
        map_of (db_components d) (project, component) = None
      then Inl mapped_already
      else Inr ((), d\<lparr>db_source_claims := db_source_claims d @ [((project, component), repository)]\<rparr>))"

fun claim_components :: "string \<Rightarrow> string \<Rightarrow> string list \<Rightarrow> unit tx" where
  "claim_components project repository [] = tx_return ()"
| "claim_components project repository (component # rest) =
     tx_seq (claim_component project repository component) (claim_components project repository rest)"

text \<open>\<open>reflect.DeepEqual\<close> of two repositories.\<close>

definition same_repository :: "source_repository \<Rightarrow> source_repository \<Rightarrow> bool" where
  "same_repository a b \<longleftrightarrow> map_deep_eq (sr_images a) (sr_images b) \<and> a\<lparr>sr_images := []\<rparr> = b\<lparr>sr_images := []\<rparr>"

abbreviation immutable_mapping :: go_error where
  "immutable_mapping \<equiv> conflict (''repository identity and component mappings are immutable; '' @
     ''use enable/disable to change availability'') []"

definition store_repository :: "source_repository \<Rightarrow> call \<Rightarrow> db \<Rightarrow> source_repository result \<times> db" where
  "store_repository r = transaction ''begin repository registration'' ''commit source repository''
     (tx_bind (insert_repository r) (\<lambda>inserted.
      if \<not> inserted
      then tx_bind (\<lambda>cx d. Inr (tx_value (read_repository (sr_project r) (sr_id r)) cx d, d)) (\<lambda>old.
        case old of
          Inl e \<Rightarrow> tx_fail immutable_mapping
        | Inr old \<Rightarrow> if same_repository old r then tx_return old else tx_fail immutable_mapping)
      else
        tx_seq (claim_components (sr_project r) (sr_id r) (map fst (sr_images r)))
       (tx_seq (record_activity (catalog_activity ''source.register'' (sr_project r) ''source_repository'' (sr_id r)))
       (tx_return r))))"

definition RegisterSourceRepository ::
  "service_config \<Rightarrow> source_repository \<Rightarrow> call \<Rightarrow> db \<Rightarrow> source_repository result \<times> db"
where
  "RegisterSourceRepository cfg r cx d =
     (if \<not> valid_repository r
      then (Inl (Validation (''repository requires project, ID, owner/repo, installation_id, and 1'' @ en_dash @
        ''100 component image mappings'')), d)
      else
        let r = r\<lparr>sr_github_repository := map lower_char (sr_github_repository r)\<rparr> in
        case first_error [validate_images (read_table cx d (sr_project r)) (sr_images r), sourceReady cfg,
            source_check cfg r] of
          Some e \<Rightarrow> (Inl e, d)
        | None \<Rightarrow> store_repository r cx d)"

section \<open>Enabling and disabling\<close>

definition enable_repository :: "string \<Rightarrow> string \<Rightarrow> bool \<Rightarrow> source_repository tx" where
  "enable_repository project i enabled = attempt ''read source repository'' (\<lambda>cx d.
     case map_of (db_repositories d) (project, i) of
       None \<Rightarrow> Inl (NotFound ''repository not registered in project'')
     | Some r \<Rightarrow>
         let r = r\<lparr>sr_enabled := enabled\<rparr>
         in Inr (r, d\<lparr>db_repositories := AList.update (project, i) r (db_repositories d)\<rparr>))"

definition store_enabled :: "string \<Rightarrow> string \<Rightarrow> bool \<Rightarrow> call \<Rightarrow> db \<Rightarrow> source_repository result \<times> db" where
  "store_enabled project i enabled = transaction ''begin repository update'' ''commit repository update''
     (tx_bind (enable_repository project i enabled) (\<lambda>r.
      tx_seq (record_activity (catalog_activity ''source.enable'' project ''source_repository'' i))
     (tx_return r)))"

definition EnableSourceRepository ::
  "service_config \<Rightarrow> string \<Rightarrow> string \<Rightarrow> bool \<Rightarrow> call \<Rightarrow> db \<Rightarrow> source_repository result \<times> db"
where
  "EnableSourceRepository cfg project i enabled cx d =
     (case (if enabled
            then result_then (SourceRepository project i cx d) (\<lambda>r.
              check_then (sourceReady cfg) (check_then (source_check cfg r) (Inr ())))
            else Inr ()) of
        Inl e \<Rightarrow> (Inl e, d)
      | Inr u \<Rightarrow> store_enabled project i enabled cx d)"

section \<open>Recording builds\<close>

record build_report =
  rpt_component :: string
  rpt_revision :: string
  rpt_image :: string
  rpt_run_id :: string
  rpt_attempt :: int
  rpt_built_at :: time

text \<open>The repository as the service sees it: registered, enabled and reachable.\<close>

definition eligible_source :: "service_config \<Rightarrow> string \<Rightarrow> string \<Rightarrow> call \<Rightarrow> db \<Rightarrow> source_repository result" where
  "eligible_source cfg project i cx d =
     result_then (SourceRepository project i cx d) (\<lambda>r.
     if \<not> sr_enabled r then Inl (service_error ''conflict'' ''repository is disabled'')
     else check_then (sourceReady cfg) (check_then (source_check cfg r) (Inr r)))"

definition valid_report :: "build_report \<Rightarrow> time \<Rightarrow> bool" where
  "valid_report report now \<longleftrightarrow>
     commit_sha (rpt_revision report) \<and> run_id (rpt_run_id report) \<and>
     1 \<le> rpt_attempt report \<and> rpt_attempt report \<le> 100000 \<and> \<not> is_zero_time (rpt_built_at report) \<and>
     rpt_built_at report \<le> now + 5 * minute"

definition approved_image :: "source_repository \<Rightarrow> build_report \<Rightarrow> bool" where
  "approved_image r report \<longleftrightarrow>
     (case (map_of (sr_images r) (rpt_component report), split_on CHR ''@'' (rpt_image report)) of
        (Some location, [image_name, digest]) \<Rightarrow> image_name = location \<and> image_digest digest
      | _ \<Rightarrow> False)"

definition build_identity :: "string \<Rightarrow> string \<Rightarrow> build_report \<Rightarrow> string" where
  "build_identity project i report = sha256_hex (json_encode (JArr
     [JStr project, JStr i, JStr (rpt_component report), JStr (rpt_run_id report), JInt (rpt_attempt report)]))"

definition build_of :: "string \<Rightarrow> string \<Rightarrow> source_repository \<Rightarrow> build_report \<Rightarrow> build" where
  "build_of project i r report =
     \<lparr>bd_component = rpt_component report, bd_revision = rpt_revision report, bd_image = rpt_image report,
      bd_run_id = rpt_run_id report, bd_attempt = rpt_attempt report, bd_built_at = rpt_built_at report,
      bd_id = build_identity project i report, bd_project = project, bd_repository = i,
      bd_github_repository = sr_github_repository r,
      bd_run_url = ''https://github.com/'' @ sr_github_repository r @ ''/actions/runs/'' @ rpt_run_id report @
        ''/attempts/'' @ show_int (rpt_attempt report)\<rparr>"

definition insert_build :: "build \<Rightarrow> bool tx" where
  "insert_build b = attempt ''record build'' (\<lambda>cx d.
     if list_ex (\<lambda>((p, i), old). i = bd_id b) (db_builds d) then Inr (False, d)
     else Inr (True, d\<lparr>db_builds := db_builds d @ [((bd_project b, bd_id b), b)]\<rparr>))"

definition store_build :: "build \<Rightarrow> call \<Rightarrow> db \<Rightarrow> build result \<times> db" where
  "store_build b = transaction ''begin build report'' ''commit build''
     (tx_seq (checkBuildRepository b)
     (tx_bind (insert_build b) (\<lambda>inserted.
      if \<not> inserted
      then tx_bind (read_build (bd_project b) (bd_id b)) (\<lambda>old.
        if old \<noteq> b then tx_fail (conflict ''CI run attempt already reported a different build for this component'' [])
        else tx_return old)
      else
        tx_seq (record_activity (catalog_activity ''build.report'' (bd_project b) ''build'' (bd_id b)))
       (tx_return b))))"

definition RecordBuild ::
  "service_config \<Rightarrow> (source_repository \<Rightarrow> string \<Rightarrow> string result) \<Rightarrow> string \<Rightarrow> string \<Rightarrow> build_report \<Rightarrow>
     call \<Rightarrow> db \<Rightarrow> build result \<times> db"
where
  "RecordBuild cfg resolve project i report cx d =
     (case (if \<not> valid_report report (cx_now cx)
            then Inl (Validation (''build requires a full lowercase commit SHA, numeric run_id, positive attempt, '' @
              ''and valid built_at''))
            else result_then (eligible_source cfg project i cx d) (\<lambda>r.
              if \<not> approved_image r report
              then Inl (Validation (''image must use the component'' @ [CHR 0x27] @
                ''s approved registry location and sha256 digest''))
              else result_then (resolve r (rpt_revision report)) (\<lambda>commit.
                if commit \<noteq> rpt_revision report
                then Inl (Validation ''commit resolution did not match the reported revision'')
                else check_then (checkImage cfg (rpt_image report)) (Inr (build_of project i r report))))) of
        Inl e \<Rightarrow> (Inl e, d)
      | Inr b \<Rightarrow> store_build b cx d)"

end
