(* ===== verification/Source_Props.thy ===== *)
theory Source_Props
  imports Sources
begin

text \<open>
  The source catalog: a repository keeps its identity and its image mappings, a component is
  mapped by one repository at most, and a recorded build never changes and always comes from the
  approved image location of its repository.
\<close>

section \<open>The invariant\<close>

definition build_approved :: "db \<Rightarrow> string \<Rightarrow> build \<Rightarrow> bool" where
  "build_approved d p b \<longleftrightarrow>
     (\<exists>r location digest. map_of (db_repositories d) (p, bd_repository b) = Some r \<and>
        sr_github_repository r = bd_github_repository b \<and>
        map_of (sr_images r) (bd_component b) = Some location \<and>
        image_digest digest \<and> bd_image b = location @ ''@'' @ digest)"

definition sources_ok :: "db \<Rightarrow> bool" where
  "sources_ok d \<longleftrightarrow>
     (\<forall>p i b. map_of (db_builds d) (p, i) = Some b \<longrightarrow> bd_project b = p \<and> bd_id b = i \<and> build_approved d p b) \<and>
     (\<forall>p i r component. map_of (db_repositories d) (p, i) = Some r \<and> has_key (sr_images r) component \<longrightarrow>
        map_of (db_source_claims d) (p, component) = Some i)"

lemma sources_okI:
  assumes "\<And>p i b. map_of (db_builds d) (p, i) = Some b \<Longrightarrow> bd_project b = p \<and> bd_id b = i \<and> build_approved d p b"
    and "\<And>p i r component. map_of (db_repositories d) (p, i) = Some r \<Longrightarrow> has_key (sr_images r) component \<Longrightarrow>
      map_of (db_source_claims d) (p, component) = Some i"
  shows "sources_ok d"
  using assms unfolding sources_ok_def by blast

lemma sources_okD:
  assumes "sources_ok d"
  shows "map_of (db_builds d) (p, i) = Some b \<Longrightarrow> bd_project b = p \<and> bd_id b = i \<and> build_approved d p b"
    and "map_of (db_repositories d) (p, i) = Some r \<Longrightarrow> has_key (sr_images r) component \<Longrightarrow>
      map_of (db_source_claims d) (p, component) = Some i"
  using assms unfolding sources_ok_def by blast+

text \<open>Repositories keep everything but \<open>Enabled\<close>; builds and claims stay.\<close>

definition sources_grow :: "db \<Rightarrow> db \<Rightarrow> bool" where
  "sources_grow d d' \<longleftrightarrow>
     (\<forall>k r. map_of (db_repositories d) k = Some r \<longrightarrow>
        (\<exists>enabled. map_of (db_repositories d') k = Some (r\<lparr>sr_enabled := enabled\<rparr>))) \<and>
     map_of (db_builds d) \<subseteq>\<^sub>m map_of (db_builds d') \<and>
     map_of (db_source_claims d) \<subseteq>\<^sub>m map_of (db_source_claims d')"

lemma enabled_self [simp]: "\<exists>enabled. r = r\<lparr>sr_enabled := enabled\<rparr>"
  by (rule exI[of _ "sr_enabled r"]) simp

lemma sources_grow_refl [simp]: "sources_grow d d"
  by (simp add: sources_grow_def)

lemma sources_grow_trans: "sources_grow a b \<Longrightarrow> sources_grow b c \<Longrightarrow> sources_grow a c"
proof -
  assume ab: "sources_grow a b" and bc: "sources_grow b c"
  have "\<exists>enabled. map_of (db_repositories c) k = Some (r\<lparr>sr_enabled := enabled\<rparr>)"
    if r: "map_of (db_repositories a) k = Some r" for k r
  proof -
    obtain e where "map_of (db_repositories b) k = Some (r\<lparr>sr_enabled := e\<rparr>)"
      using ab r unfolding sources_grow_def by blast
    then obtain e' where "map_of (db_repositories c) k = Some (r\<lparr>sr_enabled := e, sr_enabled := e'\<rparr>)"
      using bc unfolding sources_grow_def by blast
    then show ?thesis by (intro exI[of _ e']) simp
  qed
  then show ?thesis using ab bc map_le_trans unfolding sources_grow_def by metis
qed

lemma build_approved_grows: "sources_grow d d' \<Longrightarrow> build_approved d p b \<Longrightarrow> build_approved d' p b"
  unfolding build_approved_def sources_grow_def by fastforce

section \<open>The statements\<close>

lemma claim_components_Inr:
  "claim_components p i components cx d = Inr (u, d') \<Longrightarrow>
     db_repositories d' = db_repositories d \<and> db_builds d' = db_builds d \<and>
     map_of (db_source_claims d) \<subseteq>\<^sub>m map_of (db_source_claims d') \<and>
     list_all (\<lambda>component. map_of (db_source_claims d') (p, component) = Some i) components"
proof (induction components arbitrary: d)
  case (Cons c cs)
  obtain d1 where d1: "claim_component p i c cx d = Inr ((), d1)" "claim_components p i cs cx d1 = Inr (u, d')"
    using Cons.prems by (auto simp: tx_elims)
  have new: "d1 = d\<lparr>db_source_claims := db_source_claims d @ [((p, c), i)]\<rparr>" "map_of (db_source_claims d) (p, c) = None"
    using d1(1) by (auto simp: claim_component_def split: if_splits)
  have step: "db_repositories d1 = db_repositories d" "db_builds d1 = db_builds d"
    "map_of (db_source_claims d) \<subseteq>\<^sub>m map_of (db_source_claims d1)" "map_of (db_source_claims d1) (p, c) = Some i"
    unfolding new(1) using new(2) by (simp_all add: map_le_snoc map_add_Some_iff)
  then show ?case using Cons.IH[OF d1(2)] map_le_trans map_leD by fastforce
qed (simp add: tx_elims)

lemma record_activity_sources:
  "record_activity a cx d = Inr (u, d') \<Longrightarrow>
     db_repositories d' = db_repositories d \<and> db_builds d' = db_builds d \<and> db_source_claims d' = db_source_claims d"
  by (auto simp: record_activity_def insertActivity_def tx_elims Let_def add_activity_def split: if_splits)

text \<open>Outcomes of the three transactions.\<close>

lemma store_repository_Inr:
  assumes "store_repository r cx d = (Inr r', d')"
  shows "d' = d \<or>
    (map_of (db_repositories d) (sr_project r, sr_id r) = None \<and>
     db_repositories d' = db_repositories d @ [((sr_project r, sr_id r), r)] \<and> db_builds d' = db_builds d \<and>
     map_of (db_source_claims d) \<subseteq>\<^sub>m map_of (db_source_claims d') \<and>
     list_all (\<lambda>component. map_of (db_source_claims d') (sr_project r, component) = Some (sr_id r))
       (map fst (sr_images r)))"
proof -
  obtain inserted d1 where ins: "insert_repository r cx d = Inr (inserted, d1)"
    and rest: "(if \<not> inserted
      then tx_bind (\<lambda>cx d. Inr (tx_value (read_repository (sr_project r) (sr_id r)) cx d, d)) (\<lambda>old.
        case old of Inl e \<Rightarrow> tx_fail immutable_mapping
        | Inr old \<Rightarrow> if same_repository old r then tx_return old else tx_fail immutable_mapping)
      else tx_seq (claim_components (sr_project r) (sr_id r) (map fst (sr_images r)))
       (tx_seq (record_activity (catalog_activity ''source.register'' (sr_project r) ''source_repository'' (sr_id r)))
       (tx_return r))) cx d1 = Inr (r', d')"
    using transaction_Inr[OF assms[unfolded store_repository_def]] by (auto simp: tx_elims)
  show ?thesis
  proof (cases inserted)
    case True
    then have d1: "map_of (db_repositories d) (sr_project r, sr_id r) = None"
      "d1 = d\<lparr>db_repositories := db_repositories d @ [((sr_project r, sr_id r), r)]\<rparr>"
      using ins by (auto simp: insert_repository_def tx_elims split: if_splits
          simp del: split_paired_All split_paired_Ex not_None_eq not_Some_eq)
    obtain d2 where "claim_components (sr_project r) (sr_id r) (map fst (sr_images r)) cx d1 = Inr ((), d2)"
      "record_activity (catalog_activity ''source.register'' (sr_project r) ''source_repository'' (sr_id r)) cx d2 = Inr ((), d')"
      using rest True by (auto simp: tx_elims)
    then show ?thesis using claim_components_Inr record_activity_sources d1 by fastforce
  next
    case False
    then have "d1 = d"
      using ins by (auto simp: insert_repository_def tx_elims split: if_splits)
    then show ?thesis using rest False by (auto simp: tx_elims split: sum.splits if_splits)
  qed
qed

lemma store_enabled_Inr:
  assumes "store_enabled p i enabled cx d = (Inr r', d')"
  shows "\<exists>r. map_of (db_repositories d) (p, i) = Some r \<and>
    db_repositories d' = AList.update (p, i) (r\<lparr>sr_enabled := enabled\<rparr>) (db_repositories d) \<and>
    db_builds d' = db_builds d \<and> db_source_claims d' = db_source_claims d"
proof -
  obtain r d1 where "enable_repository p i enabled cx d = Inr (r, d1)"
    "record_activity (catalog_activity ''source.enable'' p ''source_repository'' i) cx d1 = Inr ((), d')"
    using transaction_Inr[OF assms[unfolded store_enabled_def]] by (auto simp: tx_elims)
  then show ?thesis
    using record_activity_sources by (fastforce simp: enable_repository_def tx_elims Let_def split: option.splits)
qed

lemma store_build_Inr:
  assumes "store_build b cx d = (Inr b', d')"
  shows "(d' = d \<and> map_of (db_builds d) (bd_project b, bd_id b) = Some b \<or>
      map_of (db_builds d) (bd_project b, bd_id b) = None \<and>
      db_builds d' = db_builds d @ [((bd_project b, bd_id b), b)] \<and>
      db_repositories d' = db_repositories d \<and> db_source_claims d' = db_source_claims d) \<and> b' = b \<and>
    (\<exists>r. map_of (db_repositories d) (bd_project b, bd_repository b) = Some r \<and>
      sr_github_repository r = bd_github_repository b \<and>
      hd (split_on CHR ''@'' (bd_image b)) = get_or [] (sr_images r) (bd_component b))"
proof -
  obtain inserted d1 where ins: "checkBuildRepository b cx d = Inr ((), d)" "insert_build b cx d = Inr (inserted, d1)"
    and rest: "(if \<not> inserted
      then tx_bind (read_build (bd_project b) (bd_id b)) (\<lambda>old.
        if old \<noteq> b then tx_fail (conflict ''CI run attempt already reported a different build for this component'' [])
        else tx_return old)
      else tx_seq (record_activity (catalog_activity ''build.report'' (bd_project b) ''build'' (bd_id b))) (tx_return b))
      cx d1 = Inr (b', d')"
    using transaction_Inr[OF assms[unfolded store_build_def]]
    by (auto simp: tx_elims checkBuildRepository_def split: option.splits if_splits)
  have repo: "\<exists>r. map_of (db_repositories d) (bd_project b, bd_repository b) = Some r \<and>
      sr_github_repository r = bd_github_repository b \<and>
      hd (split_on CHR ''@'' (bd_image b)) = get_or [] (sr_images r) (bd_component b)"
    using ins(1) by (auto simp: checkBuildRepository_def tx_elims split: option.splits if_splits)
  show ?thesis
  proof (cases inserted)
    case True
    then have d1: "d1 = d\<lparr>db_builds := db_builds d @ [((bd_project b, bd_id b), b)]\<rparr>"
      "\<not> list_ex (\<lambda>((p, i), old). i = bd_id b) (db_builds d)"
      using ins(2) by (auto simp: insert_build_def tx_elims split: if_splits)
    then have "map_of (db_builds d) (bd_project b, bd_id b) = None"
      by (auto simp: list_ex_iff map_of_eq_None_iff)
    moreover have "record_activity (catalog_activity ''build.report'' (bd_project b) ''build'' (bd_id b)) cx d1 = Inr ((), d')"
      "b' = b"
      using rest True by (auto simp: tx_elims)
    ultimately show ?thesis using record_activity_sources d1 repo by fastforce
  next
    case False
    then have "d1 = d" using ins(2) by (auto simp: insert_build_def tx_elims split: if_splits)
    then show ?thesis
      using rest False repo by (auto simp: tx_elims read_build_def split: option.splits if_splits)
  qed
qed

section \<open>Steps\<close>

inductive source_step :: "db \<Rightarrow> db \<Rightarrow> bool" where
  Register_Repository: "RegisterSourceRepository cfg r cx d = (res, d') \<Longrightarrow> source_step d d'"
| Enable_Repository: "EnableSourceRepository cfg p i enabled cx d = (res, d') \<Longrightarrow> source_step d d'"
| Record_Build: "RecordBuild cfg resolve p i report cx d = (res, d') \<Longrightarrow> source_step d d'"

lemma repository_added:
  assumes "sources_ok d" "map_of (db_repositories d) (sr_project r, sr_id r) = None"
    and "db_repositories d' = db_repositories d @ [((sr_project r, sr_id r), r)]" "db_builds d' = db_builds d"
    and "map_of (db_source_claims d) \<subseteq>\<^sub>m map_of (db_source_claims d')"
    and "list_all (\<lambda>component. map_of (db_source_claims d') (sr_project r, component) = Some (sr_id r))
      (map fst (sr_images r))"
  shows "sources_ok d' \<and> sources_grow d d'"
proof -
  have "sources_grow d d'"
    using assms(2-5) sources_grow_refl[of d] by (auto simp: sources_grow_def)
  moreover have "map_of (db_source_claims d') (p, component) = Some i"
    if "map_of (db_repositories d') (p, i) = Some s" "has_key (sr_images s) component" for p i s component
  proof (cases "(p, i) = (sr_project r, sr_id r)")
    case True
    then have "s = r" using that(1) assms(2,3) by (auto simp: map_add_def)
    then show ?thesis using True that(2) assms(6) by (auto simp: has_key_iff list_all_iff)
  next
    case False
    then have "map_of (db_repositories d) (p, i) = Some s"
      using that(1) assms(3) by (auto simp: map_add_def split: option.splits if_splits)
    then show ?thesis using map_leD[OF assms(5)] sources_okD(2)[OF assms(1)] that(2) by blast
  qed
  ultimately show ?thesis
    using build_approved_grows sources_okD(1)[OF assms(1)] assms(4) by (auto intro: sources_okI)
qed

lemma repository_enabled:
  assumes "sources_ok d" "map_of (db_repositories d) (p, i) = Some r"
    and "db_repositories d' = AList.update (p, i) (r\<lparr>sr_enabled := enabled\<rparr>) (db_repositories d)"
    and "db_builds d' = db_builds d" "db_source_claims d' = db_source_claims d"
  shows "sources_ok d' \<and> sources_grow d d'"
proof -
  have now: "map_of (db_repositories d') = (map_of (db_repositories d))((p, i) \<mapsto> r\<lparr>sr_enabled := enabled\<rparr>)"
    by (simp add: assms(3) update_conv')
  have grow: "sources_grow d d'"
    using assms(2,4,5) sources_grow_refl[of d] unfolding sources_grow_def now by auto
  moreover have "map_of (db_source_claims d') (q, component) = Some j"
    if "map_of (db_repositories d') (q, j) = Some s" "has_key (sr_images s) component" for q j s component
    using that assms(1,2,5) unfolding sources_ok_def now by (auto split: if_splits)
  moreover have "bd_project b = q \<and> bd_id b = j \<and> build_approved d' q b" if "map_of (db_builds d') (q, j) = Some b" for q j b
    using that assms(1,4) build_approved_grows[OF grow] unfolding sources_ok_def by simp
  ultimately show ?thesis by (auto intro: sources_okI)
qed

lemma build_added:
  assumes "sources_ok d" "map_of (db_builds d) (bd_project b, bd_id b) = None"
    and "db_builds d' = db_builds d @ [((bd_project b, bd_id b), b)]"
    and "db_repositories d' = db_repositories d" "db_source_claims d' = db_source_claims d"
    and "build_approved d (bd_project b) b"
  shows "sources_ok d' \<and> sources_grow d d'"
proof -
  have grow: "sources_grow d d'"
    using assms(2-5) sources_grow_refl[of d] by (auto simp: sources_grow_def map_le_snoc)
  have "bd_project c = p \<and> bd_id c = i \<and> build_approved d' p c"
    if "map_of (db_builds d') (p, i) = Some c" for p i c
  proof (cases "map_of (db_builds d) (p, i) = Some c")
    case True
    then show ?thesis using assms(1) build_approved_grows[OF grow] unfolding sources_ok_def by blast
  next
    case False
    then have "(p, i) = (bd_project b, bd_id b)" "c = b"
      using that assms(3) by (auto simp: map_add_def split: option.splits if_splits)
    then show ?thesis using build_approved_grows[OF grow assms(6)] by simp
  qed
  then show ?thesis using assms(4,5) grow sources_okD(2)[OF assms(1)] by (auto intro: sources_okI)
qed

lemma approved_image_location:
  assumes "approved_image r report"
  shows "\<exists>location digest. map_of (sr_images r) (rpt_component report) = Some location \<and>
    image_digest digest \<and> rpt_image report = location @ ''@'' @ digest"
proof -
  obtain location digest where parts: "map_of (sr_images r) (rpt_component report) = Some location"
    "split_on CHR ''@'' (rpt_image report) = [location, digest]" "image_digest digest"
    using assms by (auto simp: approved_image_def split: option.splits list.splits)
  have "rpt_image report = join ''@'' [location, digest]"
    using join_split_on[of "CHR ''@''" "rpt_image report"] parts(2) by simp
  then show ?thesis using parts by auto
qed

lemma source_step_ok:
  assumes "source_step d d'" "sources_ok d"
  shows "sources_ok d' \<and> sources_grow d d'"
  using assms(1)
proof cases
  case (Register_Repository cfg r cx res)
  show ?thesis
  proof (cases res)
    case Inl
    then have "d' = d"
      using Register_Repository
      by (auto simp: RegisterSourceRepository_def store_repository_def Let_def dest: transaction_Inl
          split: if_splits option.splits)
    then show ?thesis using assms(2) by simp
  next
    case (Inr r')
    then obtain s where "store_repository s cx d = (Inr r', d')"
      using Register_Repository by (auto simp: RegisterSourceRepository_def Let_def split: if_splits option.splits)
    from store_repository_Inr[OF this] show ?thesis using assms(2) repository_added by fastforce
  qed
next
  case (Enable_Repository cfg p i enabled cx res)
  show ?thesis
  proof (cases res)
    case Inl
    then have "d' = d"
      using Enable_Repository
      by (auto simp: EnableSourceRepository_def store_enabled_def dest: transaction_Inl split: sum.splits)
    then show ?thesis using assms(2) by simp
  next
    case (Inr r')
    then have "store_enabled p i enabled cx d = (Inr r', d')"
      using Enable_Repository by (auto simp: EnableSourceRepository_def split: sum.splits)
    from store_enabled_Inr[OF this] show ?thesis using assms(2) repository_enabled by blast
  qed
next
  case (Record_Build cfg resolve p i report cx res)
  show ?thesis
  proof (cases res)
    case Inl
    then have "d' = d"
      using Record_Build by (auto simp: RecordBuild_def store_build_def dest: transaction_Inl split: sum.splits)
    then show ?thesis using assms(2) by simp
  next
    case (Inr b')
    then obtain r where r: "SourceRepository p i cx d = Inr r" "approved_image r report"
      "store_build (build_of p i r report) cx d = (Inr b', d')"
      using Record_Build
      by (auto simp: RecordBuild_def eligible_source_def result_then_Inr check_then_Inr split: sum.splits if_splits)
    have "map_of (db_repositories d) (p, i) = Some r"
      using r(1) by (auto simp: SourceRepository_def tx_value_def read_repository_def attempt_def
          split: if_splits option.splits)
    then have "build_approved d (bd_project (build_of p i r report)) (build_of p i r report)"
      using approved_image_location[OF r(2)] by (auto simp: build_approved_def build_of_def)
    then show ?thesis
      using store_build_Inr[OF r(3)] assms(2) build_added by fastforce
  qed
qed

lemma source_steps_ok:
  assumes "source_step\<^sup>*\<^sup>* d d'" "sources_ok d"
  shows "sources_ok d' \<and> sources_grow d d'"
  using assms(1)
  by (induction rule: rtranclp_induct) (use assms(2) source_step_ok sources_grow_trans sources_grow_refl in blast)+

text \<open>
  C16: A recorded build never changes, however repositories are registered, enabled or disabled
  afterwards: it stays under its project and identifier, its image lies at the location its
  repository maps its component to, pinned by a digest, and no other repository of the project
  maps that component.
\<close>

theorem recorded_build_approved:
  assumes "db_repositories start = []" "db_builds start = []" "db_source_claims start = []"
    and "source_step\<^sup>*\<^sup>* start d" "source_step\<^sup>*\<^sup>* d d'" "map_of (db_builds d) (p, i) = Some b"
  shows "map_of (db_builds d') (p, i) = Some b \<and> bd_project b = p \<and> bd_id b = i \<and>
    (\<exists>r location digest. map_of (db_repositories d') (p, bd_repository b) = Some r \<and>
       map_of (sr_images r) (bd_component b) = Some location \<and> image_digest digest \<and>
       bd_image b = location @ ''@'' @ digest \<and>
       (\<forall>j s. map_of (db_repositories d') (p, j) = Some s \<and> has_key (sr_images s) (bd_component b) \<longrightarrow>
          j = bd_repository b))"
proof -
  have "sources_ok start" using assms(1-3) by (simp add: sources_ok_def)
  then have ok: "sources_ok d" using source_steps_ok[OF assms(4)] by blast
  note later = source_steps_ok[OF assms(5) ok]
  have kept: "map_of (db_builds d') (p, i) = Some b"
    using later assms(6) map_leD unfolding sources_grow_def by fast
  then have b: "bd_project b = p" "bd_id b = i" "build_approved d' p b"
    using later unfolding sources_ok_def by blast+
  then obtain r location digest where r: "map_of (db_repositories d') (p, bd_repository b) = Some r"
    "map_of (sr_images r) (bd_component b) = Some location" "image_digest digest"
    "bd_image b = location @ ''@'' @ digest"
    unfolding build_approved_def by blast
  have claims: "map_of (db_source_claims d') (p, component) = Some j"
    if "map_of (db_repositories d') (p, j) = Some s" "has_key (sr_images s) component" for j s component
    using later that unfolding sources_ok_def by blast
  have "j = bd_repository b"
    if "map_of (db_repositories d') (p, j) = Some s" "has_key (sr_images s) (bd_component b)" for j s
    using claims[OF that] claims[OF r(1), of "bd_component b"] r(2) by (simp add: has_key_def)
  then show ?thesis using kept b(1,2) r by blast
qed

definition source_config :: service_config where
  "source_config = demo_config\<lparr>sc_source_control := Some (\<lambda>r. None), sc_image_registry := Some (\<lambda>img. None)\<rparr>"

definition source_start :: db where
  "source_start = empty_db\<lparr>db_projects := [(''demo'', \<lparr>pj_id = ''demo'', pj_name = ''Demo''\<rparr>)],
     db_components := [((''demo'', ''service-a''), seeded_component ''service-a'')]\<rparr>"

definition demo_source :: source_repository where
  "demo_source = \<lparr>sr_project = ''demo'', sr_id = ''shop'', sr_github_repository = ''acme/shop'', sr_installation_id = 7,
     sr_enabled = True, sr_images = [(''service-a'', ''ghcr.io/acme/service-a'')]\<rparr>"

definition demo_report :: build_report where
  "demo_report = \<lparr>rpt_component = ''service-a'', rpt_revision = replicate 40 CHR ''a'',
     rpt_image = ''ghcr.io/acme/service-a@sha256:'' @ replicate 64 CHR ''b'', rpt_run_id = ''17'', rpt_attempt = 1,
     rpt_built_at = 1\<rparr>"

definition source_db :: db where
  "source_db = snd (RegisterSourceRepository source_config demo_source catalog_demo_call source_start)"

definition built_db :: db where
  "built_db = snd (RecordBuild source_config (\<lambda>r sha. Inr sha) ''demo'' ''shop'' demo_report catalog_demo_call source_db)"

lemma built_steps: "source_step\<^sup>*\<^sup>* source_start built_db"
  unfolding built_db_def source_db_def
  by (rule converse_rtranclp_into_rtranclp, rule Register_Repository, rule prod.collapse[symmetric],
      rule r_into_rtranclp, rule Record_Build, rule prod.collapse[symmetric])

lemma source_db_facts:
  "SourceRepository ''demo'' ''shop'' catalog_demo_call source_db = Inr demo_source" "db_builds source_db = []"
  "map_of (db_repositories source_db) (''demo'', ''shop'') = Some demo_source"
  "valid_report demo_report 0" "approved_image demo_source demo_report" "cx_fault catalog_demo_call = None"
  by code_simp+

lemma built_db_build:
  "map_of (db_builds built_db) (''demo'', build_identity ''demo'' ''shop'' demo_report) =
     Some (build_of ''demo'' ''shop'' demo_source demo_report)"
proof -
  let ?b = "build_of ''demo'' ''shop'' demo_source demo_report"
  have b: "bd_project ?b = ''demo''" "bd_repository ?b = ''shop''" "bd_component ?b = ''service-a''"
    "bd_image ?b = rpt_image demo_report" "bd_github_repository ?b = ''acme/shop''" "bd_id ?b = build_identity ''demo'' ''shop'' demo_report"
    by (simp_all add: build_of_def demo_report_def demo_source_def)
  have image_name: "hd (split_on CHR ''@'' (rpt_image demo_report)) = ''ghcr.io/acme/service-a''" by code_simp
  have source: "sr_enabled demo_source" "sr_github_repository demo_source = ''acme/shop''"
    "get_or [] (sr_images demo_source) ''service-a'' = ''ghcr.io/acme/service-a''"
    by (simp_all add: demo_source_def get_or_def)
  have "RecordBuild source_config (\<lambda>r sha. Inr sha) ''demo'' ''shop'' demo_report catalog_demo_call source_db =
      store_build ?b catalog_demo_call source_db"
    using source_db_facts source
    by (simp add: RecordBuild_def eligible_source_def result_then_def check_then_def sourceReady_def source_check_def
        source_config_def checkImage_def catalog_demo_call_def)
  then show ?thesis
    using source_db_facts(2,3,6) source b image_name
    by (simp add: built_db_def store_build_def transaction_def commit_tx_def attempt_def tx_seq_def tx_bind_def
        checkBuildRepository_def insert_build_def record_activity_def insertActivity_def tx_call_def tx_return_def
        Let_def add_activity_def catalog_activity_def)
qed

lemma recorded_build_approved_witness:
  "\<exists>r location digest. map_of (db_repositories built_db) (''demo'', ''shop'') = Some r \<and>
     map_of (sr_images r) ''service-a'' = Some location \<and> image_digest digest \<and>
     rpt_image demo_report = location @ ''@'' @ digest"
proof -
  have "db_repositories source_start = []" "db_builds source_start = []" "db_source_claims source_start = []"
    by (simp_all add: source_start_def empty_db_def)
  from recorded_build_approved[OF this built_steps rtranclp.rtrancl_refl built_db_build] show ?thesis
    by (simp add: build_of_def demo_report_def) blast
qed

end
