(* ===== verification/Preview_Store.thy ===== *)
theory Preview_Store
  imports Sources "HOL-Library.Product_Lexorder"
begin

text \<open>
  The tables of the pull-request previews, \<open>internal/persistence/postgres/github_preview.go\<close>:
  policies, previews with their history, webhook deliveries and the health row.

  A row of \<open>github_pr_previews\<close> has its version and its composition in columns of their own, which
  win over the body when a preview is read; in \<open>db_previews\<close> they are the fields of the stored
  preview. A failed statement returns the driver's error: \<open>raw\<close> names it. Webhook bodies stay
  text; \<open>decode\<close> stands for \<open>json.Unmarshal\<close> into the sender and the action.
\<close>

section \<open>Reading\<close>

definition raw :: "string \<Rightarrow> 'a tx \<Rightarrow> 'a tx" where
  "raw action m cx d = (if cx_fault cx = Some action then Inl (Plain action) else m cx d)"

definition PreviewPolicies :: "pr_policy list tx" where
  "PreviewPolicies = raw ''read policies'' (tx_read (\<lambda>d. map snd (sort_key fst (db_policies d))))"

definition PRPreviews_page :: "string \<Rightarrow> string \<Rightarrow> nat \<Rightarrow> (pr_preview list \<times> string) tx" where
  "PRPreviews_page project after limit = raw ''read previews'' (tx_read (\<lambda>d.
     decodePage pw_id limit (page_rows after limit
       (filter (\<lambda>(i, p). project = [] \<or> pp_project (pw_policy p) = project) (db_previews d)))))"

definition PRPreview :: "string \<Rightarrow> pr_preview tx" where
  "PRPreview i = raw ''read preview'' (\<lambda>cx d.
     case map_of (db_previews d) i of
       None \<Rightarrow> Inl (NotFound ''PR preview not found'')
     | Some p \<Rightarrow> Inr (p, d))"

section \<open>Policies\<close>

definition policy_key :: "pr_policy \<Rightarrow> string \<times> string" where
  "policy_key p = (pp_project p, pp_repository p)"

text \<open>
  One enabled policy per GitHub repository, and the repository must be registered: either
  violation has the same error.
\<close>

definition upsert_policy :: "pr_policy \<Rightarrow> unit tx" where
  "upsert_policy p cx d =
     (if cx_fault cx = Some ''save policy'' \<or>
        pp_enabled p \<and> list_ex (\<lambda>(k, q). k \<noteq> policy_key p \<and> pp_enabled q \<and>
          pp_github_repository_id q = pp_github_repository_id p) (db_policies d) \<or>
        map_of (db_repositories d) (policy_key p) = None
      then Inl (conflict (''could not save policy; repository must be registered and only one enabled policy '' @
        ''may own a GitHub repository'') [])
      else Inr ((), d\<lparr>db_policies := AList.update (policy_key p) p (db_policies d)\<rparr>))"

text \<open>A transaction whose \<open>Begin\<close> and \<open>Commit\<close> return the driver's error.\<close>

definition raw_transaction :: "string \<Rightarrow> string \<Rightarrow> 'a tx \<Rightarrow> call \<Rightarrow> db \<Rightarrow> 'a result \<times> db" where
  "raw_transaction begin_action commit_action m cx d =
     (case raw begin_action m cx d of
        Inl e \<Rightarrow> (Inl e, d)
      | Inr (a, d') \<Rightarrow>
          if cx_fault cx = Some commit_action then (Inl (Plain commit_action), d) else (Inr a, d'))"

definition store_policy :: "pr_policy \<Rightarrow> call \<Rightarrow> db \<Rightarrow> unit result \<times> db" where
  "store_policy p = raw_transaction ''begin policy'' ''commit policy''
     (tx_seq (upsert_policy p)
       (record_activity (catalog_activity ''github.policy.save'' (pp_project p) ''source_repository'' (pp_repository p))))"

section \<open>Saving a preview\<close>

abbreviation preview_changed :: go_error where
  "preview_changed \<equiv> conflict ''PR preview changed; reload before retrying'' []"

text \<open>\<open>reflect.DeepEqual\<close> of two previews.\<close>

definition same_preview :: "pr_preview \<Rightarrow> pr_preview \<Rightarrow> bool" where
  "same_preview a b \<longleftrightarrow> map_deep_eq (pw_builds a) (pw_builds b) \<and> a\<lparr>pw_builds := []\<rparr> = b\<lparr>pw_builds := []\<rparr>"

text \<open>
  The insert does nothing when the identifier, or the project, repository and number together, are
  taken.
\<close>

definition insert_preview :: "pr_preview \<Rightarrow> pr_preview tx" where
  "insert_preview p = raw ''save preview'' (\<lambda>cx d.
     if has_key (db_previews d) (pw_id p) \<or>
       list_ex (\<lambda>(i, q). policy_key (pw_policy q) = policy_key (pw_policy p) \<and> pw_number q = pw_number p) (db_previews d)
     then Inl preview_changed
     else if map_of (db_repositories d) (policy_key (pw_policy p)) = None then Inl (Plain ''save preview'')
     else Inr (p\<lparr>pw_version := 1\<rparr>,
       d\<lparr>db_previews := db_previews d @ [(pw_id p, p\<lparr>pw_version := 1, pw_composition_id := []\<rparr>)]\<rparr>))"

text \<open>\<open>SELECT ... WHERE id AND version FOR UPDATE\<close>\<close>

definition lock_preview :: "pr_preview \<Rightarrow> pr_preview tx" where
  "lock_preview p = raw ''lock preview'' (\<lambda>cx d.
     case map_of (db_previews d) (pw_id p) of
       None \<Rightarrow> Inl preview_changed
     | Some old \<Rightarrow> if pw_version old = pw_version p then Inr (old, d) else Inl preview_changed)"

text \<open>The composition column is unique and refers to a composition.\<close>

definition update_preview :: "pr_preview \<Rightarrow> pr_preview tx" where
  "update_preview p = raw ''save preview'' (\<lambda>cx d.
     if pw_composition_id p \<noteq> [] \<and>
       (\<not> has_key (db_compositions d) (pw_composition_id p) \<or>
        list_ex (\<lambda>(i, q). i \<noteq> pw_id p \<and> pw_composition_id q = pw_composition_id p) (db_previews d))
     then Inl (Plain ''save preview'')
     else let p = p\<lparr>pw_version := pw_version p + 1\<rparr>
       in Inr (p, d\<lparr>db_previews := AList.update (pw_id p) p (db_previews d)\<rparr>))"

definition preview_history :: "pr_preview \<Rightarrow> unit tx" where
  "preview_history p = raw ''save preview history'' (tx_write (\<lambda>d.
     d\<lparr>db_preview_history := AList.update (pw_id p, pw_lifecycle p) p (db_preview_history d)\<rparr>))"

definition preview_activity :: "pr_preview \<Rightarrow> activity" where
  "preview_activity p = (catalog_activity ''github.preview.reconcile'' (pp_project (pw_policy p)) ''pr_preview'' (pw_id p))
     \<lparr>act_composition := pw_composition_id p\<rparr>"

text \<open>After the row is written; \<open>body\<close> was marshalled before.\<close>

definition saved_preview :: "pr_preview \<Rightarrow> pr_preview \<Rightarrow> pr_preview tx" where
  "saved_preview body p =
     tx_seq (preview_history body) (tx_seq (record_activity (preview_activity p)) (tx_return p))"

definition save_preview_body :: "pr_preview \<Rightarrow> pr_preview tx" where
  "save_preview_body p =
     (if pw_version p = 0 then tx_bind (insert_preview p) (saved_preview p)
      else tx_bind (lock_preview p) (\<lambda>old.
        if same_preview (old\<lparr>pw_updated_at := pw_updated_at p\<rparr>) p
        then tx_return (p\<lparr>pw_updated_at := pw_updated_at old\<rparr>)
        else tx_bind (update_preview p) (saved_preview p)))"

definition SavePRPreview :: "pr_preview \<Rightarrow> call \<Rightarrow> db \<Rightarrow> pr_preview result \<times> db" where
  "SavePRPreview p cx d =
     raw_transaction ''begin preview'' ''commit preview'' (save_preview_body (p\<lparr>pw_updated_at := cx_now cx\<rparr>)) cx d"

section \<open>Webhook deliveries\<close>

record webhook_payload =
  wp_action :: string
  wp_sender_id :: int
  wp_sender_login :: string

definition github_identity :: "int \<Rightarrow> string \<Rightarrow> request_identity" where
  "github_identity i login =
     \<lparr>ri_principal = \<lparr>pr_kind = ''github'', pr_id = show_int i, pr_display_name = login, pr_email = []\<rparr>,
      ri_channel = ''github'', ri_task = []\<rparr>"

text \<open>\<open>INSERT ... ON CONFLICT DO NOTHING\<close>: whether a row was added.\<close>

definition insert_delivery :: "string \<Rightarrow> string \<Rightarrow> string \<Rightarrow> bool tx" where
  "insert_delivery i event body = raw ''insert delivery'' (\<lambda>cx d.
     if has_key (db_deliveries d) i then Inr (False, d)
     else Inr (True, d\<lparr>db_deliveries := db_deliveries d @
       [(i, \<lparr>wd_event = event, wd_body = body, wd_processed_at = None, wd_error = []\<rparr>)]\<rparr>))"

definition store_webhook ::
  "(string \<Rightarrow> webhook_payload result) \<Rightarrow> string \<Rightarrow> string \<Rightarrow> string \<Rightarrow> call \<Rightarrow> db \<Rightarrow> unit result \<times> db"
where
  "store_webhook decode i event body = raw_transaction ''begin delivery'' ''commit delivery''
     (tx_bind (insert_delivery i event body) (\<lambda>added.
      if \<not> added then tx_return ()
      else case decode body of
        Inl e \<Rightarrow> tx_fail e
      | Inr payload \<Rightarrow> insertActivity (Some (github_identity (wp_sender_id payload) (wp_sender_login payload)))
          (catalog_activity ''github.webhook.receive'' [] ''github_delivery'' i)))"

text \<open>At most a hundred deliveries, oldest first; rows are kept in the order they came.\<close>

definition PendingGitHubEvents :: "(string \<times> webhook_delivery) list tx" where
  "PendingGitHubEvents = raw ''read deliveries'' (tx_read (\<lambda>d.
     take 100 (filter (\<lambda>(i, w). wd_processed_at w = None) (db_deliveries d))))"

definition finish_delivery :: "time \<Rightarrow> string \<Rightarrow> webhook_delivery \<Rightarrow> webhook_delivery" where
  "finish_delivery now reason w =
     w\<lparr>wd_processed_at := (if reason = [] then Some now else None), wd_error := reason\<rparr>"

definition FinishGitHubEvent :: "string \<Rightarrow> string \<Rightarrow> unit tx" where
  "FinishGitHubEvent i reason = raw ''finish delivery'' (tx_bind (tx_call cx_now) (\<lambda>now. tx_write (\<lambda>d.
     d\<lparr>db_deliveries := map (\<lambda>(j, w). if j = i then (j, finish_delivery now reason w) else (j, w)) (db_deliveries d)\<rparr>)))"

definition SetGitHubHealth :: "string \<Rightarrow> unit tx" where
  "SetGitHubHealth reason = raw ''save health'' (tx_bind (tx_call cx_now) (\<lambda>now. tx_write (\<lambda>d.
     d\<lparr>db_github_health := Some
         \<lparr>gh_reconciled_at =
            (if reason = [] then Some now
             else case db_github_health d of None \<Rightarrow> None | Some h \<Rightarrow> gh_reconciled_at h),
          gh_error = reason\<rparr>\<rparr>)))"

end
