(* ===== verification/Preview_Control.thy ===== *)
theory Preview_Control
  imports Preview_Store
begin

text \<open>
  The pull-request preview controller: \<open>internal/application/github_preview.go\<close> and
  \<open>github_preview_events.go\<close>. It keeps one composition per labelled pull request, following the
  head commit's trusted builds, and reports back to GitHub.

  A step of the controller runs in \<open>gm\<close>: a function of its surroundings (GitHub, other writers
  of the database, the clock and the random source) that passes the database, the number of calls
  made so far and the log of the calls that leave the process. Every call consults the surroundings
  at its own index, so answers may differ from one call to the next, and other requests (an API
  stop, the reconciler) may change the database before each of the controller's transactions.
  \<open>WakeGitHub\<close>, a hint to run the next cycle earlier, and log lines are left out.
\<close>

section \<open>Surroundings\<close>

record access_event =
  ae_action :: string
  ae_installation :: int
  ae_removed :: "int list"
  ae_sender_id :: int
  ae_sender_login :: string

record stop_event =
  se_action :: string
  se_pr :: github_pr
  se_repository :: int
  se_label :: string
  se_sender_id :: int
  se_sender_login :: string

record github_env =
  gh_pull_request :: "nat \<Rightarrow> source_repository \<Rightarrow> int \<Rightarrow> github_pr result"
  gh_pull_requests :: "nat \<Rightarrow> source_repository \<Rightarrow> nat \<Rightarrow> github_pr list result"
  gh_installed :: "nat \<Rightarrow> source_repository \<Rightarrow> bool result"
  gh_access :: "nat \<Rightarrow> source_repository \<Rightarrow> int result"
  gh_runs :: "nat \<Rightarrow> source_repository \<Rightarrow> int \<Rightarrow> string \<Rightarrow> nat \<Rightarrow> github_run list result"
  gh_attempt :: "nat \<Rightarrow> source_repository \<Rightarrow> string \<Rightarrow> int \<Rightarrow> github_run result"
  gh_comment :: "nat \<Rightarrow> source_repository \<Rightarrow> int \<Rightarrow> int \<Rightarrow> string \<Rightarrow> string \<Rightarrow> int \<times> go_error option"
  gh_deployment :: "nat \<Rightarrow> source_repository \<Rightarrow> string \<Rightarrow> string \<Rightarrow> int \<times> go_error option"
  gh_status :: "nat \<Rightarrow> source_repository \<Rightarrow> int \<Rightarrow> string \<Rightarrow> string \<Rightarrow> go_error option"
  gh_leads :: "nat \<Rightarrow> go_error option"
  gh_call :: "nat \<Rightarrow> call"
  gh_others :: "nat \<Rightarrow> db \<Rightarrow> db"
  gh_catalog :: "db \<Rightarrow> catalog"
  gh_config :: service_config
  gh_webhook_secret :: string
  gh_decode_access :: "string \<Rightarrow> access_event option"
  gh_decode_stop :: "string \<Rightarrow> stop_event option"

datatype gh_event =
    Fetched_PR int "github_pr result"
  | Observed "composition result"
  | Created pr_preview create_request string "composition result"
  | Updated pr_preview string update_request "composition result"
  | Destroyed pr_preview string "composition result"
  | Status_Sent int string string
  | Deployment_Sent string
  | Comment_Sent int

record gstate =
  g_db :: db
  g_tick :: nat
  g_log :: "gh_event list"

type_synonym 'a gm = "github_env \<Rightarrow> gstate \<Rightarrow> 'a result \<times> gstate"

definition g_return :: "'a \<Rightarrow> 'a gm" where
  "g_return a w s = (Inr a, s)"

definition g_fail :: "go_error \<Rightarrow> 'a gm" where
  "g_fail e w s = (Inl e, s)"

definition g_bind :: "'a gm \<Rightarrow> ('a \<Rightarrow> 'b gm) \<Rightarrow> 'b gm" where
  "g_bind m f w s = (case m w s of (Inl e, s') \<Rightarrow> (Inl e, s') | (Inr a, s') \<Rightarrow> f a w s')"

definition g_seq :: "unit gm \<Rightarrow> 'b gm \<Rightarrow> 'b gm" where
  "g_seq m n = g_bind m (\<lambda>_. n)"

text \<open>The result of a call as a value, for code that looks at the error.\<close>

definition g_try :: "'a gm \<Rightarrow> 'a result gm" where
  "g_try m w s = (case m w s of (r, s') \<Rightarrow> (Inr r, s'))"

definition g_of :: "'a result \<Rightarrow> 'a gm" where
  "g_of r = (case r of Inl e \<Rightarrow> g_fail e | Inr a \<Rightarrow> g_return a)"

definition g_when :: "bool \<Rightarrow> unit gm \<Rightarrow> unit gm" where
  "g_when b m = (if b then m else g_return ())"

definition g_env :: "(github_env \<Rightarrow> 'a) \<Rightarrow> 'a gm" where
  "g_env f w s = (Inr (f w), s)"

text \<open>A call of GitHub: its answer at this index, and what it leaves in the log.\<close>

definition g_ask :: "(github_env \<Rightarrow> nat \<Rightarrow> 'a result) \<Rightarrow> ('a result \<Rightarrow> gh_event list) \<Rightarrow> 'a gm" where
  "g_ask f note w s =
     (let r = f w (g_tick s) in (r, s\<lparr>g_tick := g_tick s + 1, g_log := note r @ g_log s\<rparr>))"

text \<open>A call of the store, after whatever other writers have done.\<close>

definition g_store ::
  "(call \<Rightarrow> call) \<Rightarrow> (github_env \<Rightarrow> call \<Rightarrow> db \<Rightarrow> 'a result \<times> db) \<Rightarrow> ('a result \<Rightarrow> gh_event list) \<Rightarrow> 'a gm"
where
  "g_store context f note w s =
     (let d = gh_others w (g_tick s) (g_db s);
          (r, d') = f w (context (gh_call w (g_tick s))) d
      in (r, s\<lparr>g_db := d', g_tick := g_tick s + 1, g_log := note r @ g_log s\<rparr>))"

definition controller_identity :: request_identity where
  "controller_identity =
     \<lparr>ri_principal = \<lparr>pr_kind = ''system'', pr_id = ''github-preview-controller'',
        pr_display_name = ''GitHub preview controller'', pr_email = []\<rparr>, ri_channel = ''github'', ri_task = []\<rparr>"

definition as_controller :: "call \<Rightarrow> call" where
  "as_controller cx = cx\<lparr>cx_identity := Some controller_identity, cx_claim := None\<rparr>"

definition as_actor :: "int \<Rightarrow> string \<Rightarrow> call \<Rightarrow> call" where
  "as_actor i login cx = cx\<lparr>cx_identity := Some (github_identity i login), cx_claim := None\<rparr>"

definition WithPRPreviewClaim :: "pr_preview \<Rightarrow> call \<Rightarrow> call" where
  "WithPRPreviewClaim p cx = (as_controller cx)\<lparr>cx_claim := Some \<lparr>cl_id = pw_id p, cl_version = pw_version p\<rparr>\<rparr>"

text \<open>A statement or a read outside a transaction of its own.\<close>

definition tx_run :: "'a tx \<Rightarrow> call \<Rightarrow> db \<Rightarrow> 'a result \<times> db" where
  "tx_run m cx d = (case m cx d of Inl e \<Rightarrow> (Inl e, d) | Inr (a, d') \<Rightarrow> (Inr a, d'))"

definition g_query :: "'a tx \<Rightarrow> 'a gm" where
  "g_query m = g_store as_controller (\<lambda>w. tx_run m) (\<lambda>r. [])"

definition g_save_as :: "(call \<Rightarrow> call) \<Rightarrow> pr_preview \<Rightarrow> pr_preview gm" where
  "g_save_as context p = g_store context (\<lambda>w. SavePRPreview p) (\<lambda>r. [])"

abbreviation g_save :: "pr_preview \<Rightarrow> pr_preview gm" where
  "g_save \<equiv> g_save_as as_controller"

definition g_repository :: "pr_policy \<Rightarrow> source_repository gm" where
  "g_repository policy = g_query (read_repository (pp_project policy) (pp_repository policy))"

definition g_now :: "time gm" where
  "g_now = g_store as_controller (\<lambda>w cx d. (Inr (cx_now cx), d)) (\<lambda>r. [])"

definition fetch_pr :: "source_repository \<Rightarrow> int \<Rightarrow> github_pr gm" where
  "fetch_pr r n = g_ask (\<lambda>w i. gh_pull_request w i r n) (\<lambda>res. [Fetched_PR n res])"

section \<open>Observing the pull request\<close>

definition PreviewLabel :: string where "PreviewLabel = ''envy-preview''"

text \<open>\<open>GitHubPR.Requested\<close>\<close>

definition pr_requested :: "github_pr \<Rightarrow> bool" where
  "pr_requested pr \<longleftrightarrow> gp_state pr = ''open'' \<and> PreviewLabel \<in> set (gp_labels pr)"

definition same_repo :: "github_pr \<Rightarrow> bool" where
  "same_repo pr \<longleftrightarrow> gp_head_repo pr = gp_base_repo pr"

definition terminal_preview :: "string \<Rightarrow> string \<Rightarrow> pr_preview \<Rightarrow> pr_preview" where
  "terminal_preview status reason p = p\<lparr>pw_terminal := True, pw_status := status, pw_reason := reason\<rparr>"

definition observed_pr :: "github_pr \<Rightarrow> pr_preview \<Rightarrow> pr_preview" where
  "observed_pr pr p =
     (let was_requested = pw_requested p;
          p = p\<lparr>pw_requested := pr_requested pr, pw_requested_sha := gp_head_sha pr, pw_pr_url := gp_url pr\<rparr>;
          p = (if \<not> pw_requested p then terminal_preview ''closed'' ''PR closed or preview label removed'' p
               else if \<not> was_requested then p\<lparr>pw_terminal := True, pw_status := ''restarting''\<rparr>
               else p)
      in if \<not> same_repo pr then terminal_preview ''unsupported'' ''Fork PR previews are not supported'' p else p)"

abbreviation access_removed :: "pr_preview \<Rightarrow> pr_preview" where
  "access_removed \<equiv> terminal_preview ''access_removed'' ''GitHub App access removed or suspended''"

definition disabled_preview :: "pr_policy \<Rightarrow> source_repository \<Rightarrow> pr_preview \<Rightarrow> pr_preview" where
  "disabled_preview policy r p =
     (if \<not> pp_enabled policy \<or> \<not> sr_enabled r
      then terminal_preview ''disabled'' ''Repository preview automation disabled'' p else p)"

definition observePreviewPR :: "source_repository \<Rightarrow> pr_policy \<Rightarrow> pr_preview \<Rightarrow> pr_preview gm" where
  "observePreviewPR r policy p =
     g_bind (g_try (fetch_pr r (pw_number p))) (\<lambda>pr.
     case pr of
       Inr pr \<Rightarrow> g_return (disabled_preview policy r (observed_pr pr p))
     | Inl e \<Rightarrow>
         g_bind (g_try (g_ask (\<lambda>w i. gh_installed w i r) (\<lambda>res. []))) (\<lambda>installed.
         let p = (if installed = Inr False then access_removed p else p) in
         if \<not> pw_terminal p \<and> pp_enabled policy \<and> sr_enabled r then g_fail e
         else g_return (disabled_preview policy r p)))"

fun phase_name :: "phase \<Rightarrow> string" where
  "phase_name Phase_Unset = []"
| "phase_name PhaseCreated = ''created''"
| "phase_name PhaseProvisioning = ''provisioning''"
| "phase_name PhaseReady = ''ready''"
| "phase_name PhaseCompleted = ''completed''"
| "phase_name PhaseSuspended = ''suspended''"
| "phase_name PhaseCancelled = ''cancelled''"
| "phase_name PhaseUpdating = ''updating''"
| "phase_name PhaseFailed = ''failed''"
| "phase_name PhaseDestroying = ''destroying''"
| "phase_name PhaseDestroyed = ''destroyed''"

definition observed_composition :: "time \<Rightarrow> composition \<Rightarrow> pr_preview \<Rightarrow> pr_preview" where
  "observed_composition now c p =
     (let p = p\<lparr>pw_expires_at := c_expires_at c, pw_generation := c_generation c,
            pw_deployment_status := phase_name (c_phase c)\<rparr>;
          p = (if c_expires_at c \<le> now \<and> \<not> pw_terminal p
               then (terminal_preview ''expired'' ''TTL expired; restart explicitly'' p)
                 \<lparr>pw_restart_barrier_at := c_expires_at c\<rparr>
               else p)
      in if c_deletion_requested c \<and> \<not> pw_terminal p
         then terminal_preview ''stopped'' ''Composition was deleted'' p else p)"

definition g_get :: "string \<Rightarrow> composition gm" where
  "g_get i = g_store as_controller (\<lambda>w cx d. (Get i cx d, d)) (\<lambda>r. [Observed r])"

definition observePreviewComposition :: "pr_preview \<Rightarrow> (pr_preview \<times> composition) gm" where
  "observePreviewComposition p =
     (if pw_composition_id p = [] then g_return (p, zero_composition)
      else g_bind (g_get (pw_composition_id p)) (\<lambda>c.
        g_bind g_now (\<lambda>now. g_return (observed_composition now c p, c))))"

section \<open>Feedback\<close>

definition show_rfc3339 :: "time \<Rightarrow> string" where
  "show_rfc3339 t = show_time (t - t mod second)"

definition line_break :: string where "line_break = [newline, newline]"

definition backquoted :: "string \<Rightarrow> string" where
  "backquoted s = CHR 0x60 # s @ [CHR 0x60]"

definition feedback_body :: "pr_preview \<Rightarrow> string" where
  "feedback_body p =
     (let expiry = (if is_zero_time (pw_expires_at p) then ''TTL starts when the environment is created''
                    else show_rfc3339 (pw_expires_at p))
      in ''### Envy preview'' @ [newline] @ ''Status: **'' @ pw_status p @ ''**'' @ line_break @
         ''Environment: **'' @ pw_deployment_status p @ ''**'' @ line_break @ pw_reason p @ line_break @
         ''Requested commit: '' @ backquoted (pw_requested_sha p) @ line_break @
         ''Deployed commit: '' @ backquoted (pw_deployed_sha p) @ line_break @
         ''Preview: '' @ pw_url p @ line_break @ ''Expires: '' @ expiry @ line_break @
         ''Restart from Envy'' @ [CHR 0xE2, CHR 0x80, CHR 0x99] @ ''s PR previews screen or '' @
         backquoted (''envy pr-preview restart '' @ pw_id p) @
         ''. Readiness does not certify application tests.'')"

definition g_status :: "source_repository \<Rightarrow> int \<Rightarrow> string \<Rightarrow> string \<Rightarrow> unit gm" where
  "g_status r deployment state url = g_ask
     (\<lambda>w i. case gh_status w i r deployment state url of None \<Rightarrow> Inr () | Some e \<Rightarrow> Inl e)
     (\<lambda>res. [Status_Sent deployment state url])"

text \<open>\<open>retirePreviewDeployments\<close>: the deployments left, and the error that stopped it.\<close>

fun retire_deployments :: "source_repository \<Rightarrow> int list \<Rightarrow> (int list \<times> go_error option) gm" where
  "retire_deployments r [] = g_return ([], None)"
| "retire_deployments r (i # is) =
     g_bind (g_try (g_status r i ''inactive'' [])) (\<lambda>res.
     case res of Inl e \<Rightarrow> g_return (i # is, Some e) | Inr u \<Rightarrow> retire_deployments r is)"

definition previewDeploymentState :: "pr_preview \<Rightarrow> string" where
  "previewDeploymentState p =
     (if pw_deployment_status p = ''failed'' \<or> pw_status p = ''blocked'' then ''failure''
      else if pw_deployment_status p = ''ready'' \<and> pw_deployed_sha p = pw_selected_sha p then ''success''
      else ''in_progress'')"

definition err_of :: "'a result \<Rightarrow> go_error option" where
  "err_of r = (case r of Inl e \<Rightarrow> Some e | Inr a \<Rightarrow> None)"

text \<open>The three stages of \<open>syncPreviewDeployment\<close>; each runs when the ones before succeeded.\<close>

definition retire_current :: "source_repository \<Rightarrow> pr_preview \<Rightarrow> (pr_preview \<times> go_error option) gm" where
  "retire_current r p =
     (if pw_deployment_id p \<noteq> 0 \<and> (pw_terminal p \<or> pw_deployment_sha p \<noteq> pw_selected_sha p)
      then g_bind (g_try (g_status r (pw_deployment_id p) ''inactive'' (pw_url p))) (\<lambda>res.
        g_return (if err_of res = None then p\<lparr>pw_deployment_id := 0, pw_deployment_sha := []\<rparr> else p, err_of res))
      else g_return (p, None))"

definition open_deployment :: "source_repository \<Rightarrow> pr_preview \<Rightarrow> (pr_preview \<times> go_error option) gm" where
  "open_deployment r p =
     (if \<not> pw_terminal p \<and> pw_selected_sha p \<noteq> [] \<and> pw_deployment_id p = 0
      then g_bind (g_env gh_config) (\<lambda>cfg.
        g_bind (g_ask (\<lambda>w i. Inr (gh_deployment w i r (pw_selected_sha p)
            (''envy-'' @ sc_installation cfg @ ''-'' @ pw_id p @ ''-'' @ show_int (pw_lifecycle p))))
          (\<lambda>res. [Deployment_Sent (pw_selected_sha p)])) (\<lambda>(i, e).
        g_return (p\<lparr>pw_deployment_id := i,
          pw_deployment_sha := (if e = None then pw_selected_sha p else pw_deployment_sha p)\<rparr>, e)))
      else g_return (p, None))"

definition report_state :: "source_repository \<Rightarrow> pr_preview \<Rightarrow> (pr_preview \<times> go_error option) gm" where
  "report_state r p =
     (if pw_deployment_id p \<noteq> 0
      then g_bind (g_try (g_status r (pw_deployment_id p) (previewDeploymentState p) (pw_url p))) (\<lambda>res.
        g_return (p, err_of res))
      else g_return (p, None))"

definition then_stage ::
  "(pr_preview \<times> go_error option) gm \<Rightarrow> (pr_preview \<Rightarrow> (pr_preview \<times> go_error option) gm) \<Rightarrow>
     (pr_preview \<times> go_error option) gm"
where
  "then_stage m f = g_bind m (\<lambda>(p, e). if e = None then f p else g_return (p, e))"

definition syncPreviewDeployment :: "source_repository \<Rightarrow> pr_preview \<Rightarrow> (pr_preview \<times> go_error option) gm" where
  "syncPreviewDeployment r p =
     then_stage (then_stage (retire_current r p) (open_deployment r)) (report_state r)"

definition send_comment :: "source_repository \<Rightarrow> string \<Rightarrow> pr_preview \<Rightarrow> (pr_preview \<times> go_error option) gm" where
  "send_comment r body p =
     g_bind (g_env gh_config) (\<lambda>cfg.
     g_bind (g_ask (\<lambda>w i. Inr (gh_comment w i r (pw_number p) (pw_comment_id p)
         (''<!-- envy-preview:'' @ sc_installation cfg @ '':'' @ pw_id p @ '' -->'') body))
       (\<lambda>res. [Comment_Sent (pw_number p)])) (\<lambda>(i, e).
     g_return (p\<lparr>pw_comment_id := i,
       pw_feedback_hash := (if e = None then sha256_hex body else pw_feedback_hash p)\<rparr>, e)))"

definition previewFeedback :: "source_repository \<Rightarrow> pr_preview \<Rightarrow> unit gm" where
  "previewFeedback r p =
     (let body = feedback_body p in
      g_bind (retire_deployments r (pw_retiring_deployment_ids p)) (\<lambda>(left, e).
      let p = p\<lparr>pw_retiring_deployment_ids := left\<rparr> in
      g_bind (if e = None \<and> pw_feedback_hash p \<noteq> sha256_hex body
              then then_stage (syncPreviewDeployment r p) (send_comment r body)
              else g_return (p, e)) (\<lambda>(p, e).
      g_bind (g_save (p\<lparr>pw_feedback_error :=
          (if e = None then [] else ''GitHub feedback unavailable; will retry'')\<rparr>)) (\<lambda>saved.
      g_return ()))))"

section \<open>Choosing builds\<close>

definition out_of_fuel :: go_error where
  "out_of_fuel = Context_Error ''out of fuel''"

text \<open>
  Loops over pages. GitHub's pages are numbered and a short one is the last; the store's pages
  follow a cursor until it is empty.
\<close>

fun numbered_pages :: "nat \<Rightarrow> (nat \<Rightarrow> 'a list gm) \<Rightarrow> nat \<Rightarrow> 'a list gm" where
  "numbered_pages 0 read page = g_fail out_of_fuel"
| "numbered_pages (Suc fuel) read page =
     g_bind (read page) (\<lambda>part.
     if length part < 30 then g_return part
     else g_bind (numbered_pages fuel read (page + 1)) (\<lambda>rest. g_return (part @ rest)))"

fun cursor_pages :: "nat \<Rightarrow> (string \<Rightarrow> ('a list \<times> string) gm) \<Rightarrow> ('a \<Rightarrow> 'b \<Rightarrow> 'b gm) \<Rightarrow> string \<Rightarrow> 'b \<Rightarrow> 'b gm"
  and cursor_rows :: "nat \<Rightarrow> (string \<Rightarrow> ('a list \<times> string) gm) \<Rightarrow> ('a \<Rightarrow> 'b \<Rightarrow> 'b gm) \<Rightarrow> string \<Rightarrow> 'a list \<Rightarrow> 'b \<Rightarrow> 'b gm"
where
  "cursor_pages 0 read each after acc = g_fail out_of_fuel"
| "cursor_pages (Suc fuel) read each after acc =
     g_bind (read after) (\<lambda>(rows, cursor). cursor_rows fuel read each cursor rows acc)"
| "cursor_rows fuel read each cursor [] acc =
     (if cursor = [] then g_return acc else cursor_pages fuel read each cursor acc)"
| "cursor_rows fuel read each cursor (x # xs) acc =
     g_bind (each x acc) (cursor_rows fuel read each cursor xs)"

text \<open>\<open>sort.Slice\<close> by number, then attempt, newest first; runs that tie compare as equal.\<close>

definition newest_first :: "github_run list \<Rightarrow> github_run list" where
  "newest_first runs = sort_key (\<lambda>run. - gr_number run) (sort_key (\<lambda>run. - gr_attempt run) runs)"

definition previewWorkflowRuns :: "nat \<Rightarrow> source_repository \<Rightarrow> pr_preview \<Rightarrow> github_run list gm" where
  "previewWorkflowRuns fuel r p =
     g_bind (numbered_pages fuel (\<lambda>page.
       g_ask (\<lambda>w i. gh_runs w i r (pp_workflow_id (pw_policy p)) (pw_requested_sha p) page) (\<lambda>res. [])) 1)
     (\<lambda>runs. g_return (newest_first runs))"

definition eligiblePreviewRun :: "github_run \<Rightarrow> pr_preview \<Rightarrow> bool" where
  "eligiblePreviewRun run p \<longleftrightarrow>
     gr_workflow_id run = pp_workflow_id (pw_policy p) \<and> gr_sha run = pw_requested_sha p \<and>
     gr_conclusion run = ''success'' \<and> gr_status run = ''completed''"

definition superseded_run :: "github_run \<Rightarrow> pr_preview \<Rightarrow> bool" where
  "superseded_run run p \<longleftrightarrow>
     pw_selected_sha p = pw_requested_sha p \<and>
     (gr_number run < pw_run_number p \<or> gr_number run = pw_run_number p \<and> gr_attempt run < pw_attempt p)"

definition build_override :: "build \<Rightarrow> component_override" where
  "build_override b = zero_override\<lparr>o_build_id := bd_id b\<rparr>"

definition select_build ::
  "github_run \<Rightarrow> string \<Rightarrow> build \<Rightarrow> component_override gomap \<Rightarrow> component_override gomap gm"
where
  "select_build run component b selected = g_return
     (if bd_run_id b = show_int (gr_id run) \<and> bd_attempt b = gr_attempt run
      then AList.update component (build_override b) selected else selected)"

fun previewBuildsForRun ::
  "nat \<Rightarrow> pr_preview \<Rightarrow> github_run \<Rightarrow> string list \<Rightarrow> component_override gomap \<Rightarrow> component_override gomap gm"
where
  "previewBuildsForRun fuel p run [] selected = g_return selected"
| "previewBuildsForRun fuel p run (component # rest) selected =
     g_bind (cursor_pages fuel
       (\<lambda>after. g_query (Builds_page (pp_project (pw_policy p)) (pp_repository (pw_policy p)) component
         (pw_requested_sha p) after 100))
       (select_build run component) [] selected)
     (previewBuildsForRun fuel p run rest)"

text \<open>The builds to deploy with their run, or the reason to wait.\<close>

fun choose_run ::
  "nat \<Rightarrow> source_repository \<Rightarrow> pr_preview \<Rightarrow> github_run list \<Rightarrow>
     (string + component_override gomap \<times> github_run) gm"
where
  "choose_run fuel r p [] =
     g_return (Inl ''Waiting for a successful trusted workflow build of the current PR head'')"
| "choose_run fuel r p (run # runs) =
     (if \<not> eligiblePreviewRun run p \<or> superseded_run run p then choose_run fuel r p runs
      else g_bind (g_ask (\<lambda>w i. gh_attempt w i r (show_int (gr_id run)) (gr_attempt run)) (\<lambda>res. [])) (\<lambda>verified.
        if gr_id verified \<noteq> gr_id run \<or> gr_attempt verified \<noteq> gr_attempt run \<or> \<not> eligiblePreviewRun verified p
        then choose_run fuel r p runs
        else g_bind (previewBuildsForRun fuel p run (pp_components (pw_policy p)) []) (\<lambda>selected.
          if map_len selected = length (pp_components (pw_policy p)) then g_return (Inr (selected, run))
          else g_return (Inl ''Waiting for every configured component report from the latest successful run''))))"

definition selectPRBuilds ::
  "nat \<Rightarrow> source_repository \<Rightarrow> pr_preview \<Rightarrow> (string + component_override gomap \<times> github_run) gm"
where
  "selectPRBuilds fuel r p = g_bind (previewWorkflowRuns fuel r p) (choose_run fuel r p)"

definition previewBuildsMatch :: "component_override gomap \<Rightarrow> component_override gomap \<Rightarrow> bool" where
  "previewBuildsMatch a b \<longleftrightarrow>
     map_len a = map_len b \<and>
     list_all (\<lambda>(c, v). o_build_id (get_or zero_override a c) = o_build_id v) b \<and> 0 < map_len b"

section \<open>Deploying\<close>

definition deploy_key :: "pr_preview \<Rightarrow> string" where
  "deploy_key p = sha256_hex (''pr:'' @ pw_id p @ '':'' @ show_int (pw_lifecycle p) @ '':'' @ pw_selected_sha p @ '':'' @
     show_int (pw_run_number p) @ '':'' @ show_int (pw_attempt p))"

definition deploy_create :: "pr_preview \<Rightarrow> create_request" where
  "deploy_create p =
     \<lparr>cr_message_isolation = False, cr_expected_preview_revisions = [], cr_expected_baseline_revision = [],
      cr_project = pp_project (pw_policy p), cr_baseline = pp_baseline (pw_policy p),
      cr_name = ''pr-'' @ show_int (pw_number p) @ ''-'' @ pp_repository (pw_policy p),
      cr_overrides = Some (pw_builds p), cr_resources = [], cr_ttl = pp_ttl (pw_policy p)\<rparr>"

definition deploy_update :: "pr_preview \<Rightarrow> int \<Rightarrow> update_request" where
  "deploy_update p generation =
     \<lparr>ur_expected_preview_revisions = [], ur_expected_generation = generation, ur_overrides = pw_builds p,
      ur_idempotency_key = deploy_key p, ur_plan = None\<rparr>"

definition submit_create :: "pr_preview \<Rightarrow> composition gm" where
  "submit_create p = g_store (WithPRPreviewClaim p)
     (\<lambda>w cx d. CreateComposition (gh_catalog w d) (gh_config w) (deploy_create p) (deploy_key p) (cx_now cx) cx d)
     (\<lambda>res. [Created p (deploy_create p) (deploy_key p) res])"

definition submit_update :: "pr_preview \<Rightarrow> int \<Rightarrow> composition gm" where
  "submit_update p generation = g_store (WithPRPreviewClaim p)
     (\<lambda>w cx d. UpdateComposition (gh_catalog w d) (gh_config w) (pw_composition_id p) (deploy_update p generation)
        (Some (pw_builds p)) cx d)
     (\<lambda>res. [Updated p (pw_composition_id p) (deploy_update p generation) res])"

definition submit_destroy :: "pr_preview \<Rightarrow> composition gm" where
  "submit_destroy p = g_store (WithPRPreviewClaim p) (\<lambda>w. Destroy (pw_composition_id p))
     (\<lambda>res. [Destroyed p (pw_composition_id p) res])"

definition join_errors :: "go_error option list \<Rightarrow> go_error option" where
  "join_errors es = (case concat (map (\<lambda>e. case e of None \<Rightarrow> [] | Some x \<Rightarrow> [x]) es) of
     [] \<Rightarrow> None | xs \<Rightarrow> Some (Joined xs))"

definition g_check :: "go_error option \<Rightarrow> unit gm" where
  "g_check e = (case e of None \<Rightarrow> g_return () | Some x \<Rightarrow> g_fail x)"

definition deployed_preview :: "composition \<Rightarrow> pr_preview \<Rightarrow> pr_preview" where
  "deployed_preview c p = p
     \<lparr>pw_composition_id := c_id c, pw_generation := c_generation c, pw_expires_at := c_expires_at c,
      pw_status := phase_name (c_phase c), pw_deployment_status := phase_name (c_phase c)\<rparr>"

definition deployPR :: "source_repository \<Rightarrow> pr_preview \<Rightarrow> composition \<Rightarrow> unit gm" where
  "deployPR r p c =
     g_bind (fetch_pr r (pw_number p)) (\<lambda>current.
     if \<not> pr_requested current \<or> gp_head_sha current \<noteq> pw_selected_sha p \<or> \<not> same_repo current then g_return ()
     else
       g_bind (g_try (if pw_composition_id p = [] then submit_create p else submit_update p (c_generation c))) (\<lambda>res.
       case res of
         Inl e \<Rightarrow>
           g_bind (g_try (g_save (p\<lparr>pw_reason := ''Deployment request failed: '' @ err_message e,
             pw_status := ''blocked''\<rparr>))) (\<lambda>saved.
           g_check (join_errors [Some e, err_of saved]))
       | Inr c \<Rightarrow> previewFeedback r (deployed_preview c p)))"

section \<open>One preview\<close>

definition first_url :: "endpoint gomap \<Rightarrow> string \<Rightarrow> string" where
  "first_url endpoints old =
     (case List.find (\<lambda>(k, e). ep_url e \<noteq> []) endpoints of None \<Rightarrow> old | Some (k, e) \<Rightarrow> ep_url e)"

definition previewReadiness :: "composition \<Rightarrow> pr_preview \<Rightarrow> pr_preview" where
  "previewReadiness c p =
     (let p = p\<lparr>pw_status := phase_name (c_phase c), pw_url := first_url (c_endpoints c) (pw_url p)\<rparr>
      in if c_phase c = PhaseReady \<and> c_observed_generation c = c_generation c \<and>
           previewBuildsMatch (c_overrides c) (pw_builds p)
         then p\<lparr>pw_deployed_sha := pw_selected_sha p, pw_reason := []\<rparr> else p)"

definition waiting_preview :: "string \<Rightarrow> pr_preview \<Rightarrow> pr_preview" where
  "waiting_preview reason p =
     (let p = p\<lparr>pw_reason := reason\<rparr>
      in if pw_deployed_sha p \<noteq> pw_requested_sha p then p\<lparr>pw_status := ''waiting_build''\<rparr> else p)"

definition selected_preview :: "component_override gomap \<Rightarrow> github_run \<Rightarrow> pr_preview \<Rightarrow> pr_preview" where
  "selected_preview builds run p = p
     \<lparr>pw_builds := builds, pw_selected_sha := pw_requested_sha p, pw_run_number := gr_number run,
      pw_attempt := gr_attempt run, pw_reason := [], pw_status := ''deploying''\<rparr>"

definition settled_phase :: "phase \<Rightarrow> bool" where
  "settled_phase ph \<longleftrightarrow> ph = PhaseReady \<or> ph = PhaseFailed"

definition advancePRPreview :: "nat \<Rightarrow> source_repository \<Rightarrow> pr_preview \<Rightarrow> composition \<Rightarrow> unit gm" where
  "advancePRPreview fuel r p c =
     (let p = (if pw_composition_id p \<noteq> [] then previewReadiness c p else p) in
      if pw_composition_id p \<noteq> [] \<and> \<not> settled_phase (c_phase c) then previewFeedback r p
      else g_bind (selectPRBuilds fuel r p) (\<lambda>choice.
        case choice of
          Inl reason \<Rightarrow> previewFeedback r (waiting_preview reason p)
        | Inr (builds, run) \<Rightarrow>
            if pw_selected_sha p = pw_requested_sha p \<and> pw_run_number p = gr_number run \<and> pw_attempt p = gr_attempt run
            then
              if pw_composition_id p = [] \<or> \<not> previewBuildsMatch (c_overrides c) (pw_builds p) then deployPR r p c
              else previewFeedback r p
            else g_bind (g_save (selected_preview builds run p)) (\<lambda>p. deployPR r p c)))"

definition enabledPreviewPolicy :: "pr_policy list \<Rightarrow> pr_policy \<Rightarrow> pr_policy option" where
  "enabledPreviewPolicy policies current =
     List.find (\<lambda>q. policy_key q = policy_key current \<and> pp_enabled q) policies"

definition restarted_preview :: "pr_policy \<Rightarrow> time \<Rightarrow> pr_preview \<Rightarrow> pr_preview" where
  "restarted_preview policy now p =
     (let p = p\<lparr>pw_policy := policy, pw_lifecycle := pw_lifecycle p + 1, pw_restart_barrier_at := now,
            pw_terminal := False, pw_composition_id := [], pw_deployed_sha := [], pw_selected_sha := [],
            pw_builds := [], pw_run_number := 0, pw_attempt := 0, pw_generation := 0, pw_deployment_status := [],
            pw_url := [], pw_status := ''waiting_build'', pw_reason := [], pw_expires_at := 0\<rparr>
      in if pw_deployment_id p \<noteq> 0
         then p\<lparr>pw_retiring_deployment_ids := pw_retiring_deployment_ids p @ [pw_deployment_id p],
             pw_deployment_id := 0, pw_deployment_sha := []\<rparr>
         else p)"

definition finishPRPreview :: "source_repository \<Rightarrow> pr_preview \<Rightarrow> composition \<Rightarrow> unit gm" where
  "finishPRPreview r p c =
     (if pw_composition_id p \<noteq> [] \<and> c_phase c \<noteq> PhaseDestroyed
      then g_bind (submit_destroy p) (\<lambda>gone. previewFeedback r p)
      else if pw_status p = ''restarting''
      then g_bind (g_query PreviewPolicies) (\<lambda>policies.
        case enabledPreviewPolicy policies (pw_policy p) of
          None \<Rightarrow> g_fail (Validation ''preview policy is disabled'')
        | Some policy \<Rightarrow>
            g_bind g_now (\<lambda>now. g_bind (g_save (restarted_preview policy now p)) (\<lambda>saved. g_return ())))
      else previewFeedback r p)"

definition reconcilePR :: "nat \<Rightarrow> pr_preview \<Rightarrow> pr_policy \<Rightarrow> unit gm" where
  "reconcilePR fuel p policy =
     g_bind (g_repository (pw_policy p)) (\<lambda>r.
     g_bind (observePreviewPR r policy p) (\<lambda>p.
     g_bind (observePreviewComposition p) (\<lambda>(p, c).
     g_bind (g_save p) (\<lambda>p.
     if pw_terminal p then finishPRPreview r p c else advancePRPreview fuel r p c))))"

section \<open>Discovery\<close>

definition preview_identity :: "pr_policy \<Rightarrow> int \<Rightarrow> string" where
  "preview_identity policy number = take 32 (sha256_hex (pp_project policy @ ''/'' @ pp_repository policy @ ''/'' @
     show_int (pp_github_repository_id policy) @ ''/'' @ show_int number))"

definition zero_pr_preview :: pr_preview where
  "zero_pr_preview =
     \<lparr>pw_id = [], pw_version = 0,
      pw_policy = \<lparr>pp_project = [], pp_repository = [], pp_github_repository_id = 0, pp_enabled = False,
        pp_baseline = [], pp_components = [], pp_ttl = [], pp_workflow_id = 0\<rparr>,
      pw_number = 0, pw_pr_url = [], pw_lifecycle = 0, pw_requested = False, pw_terminal = False,
      pw_restart_barrier_at = 0, pw_last_stop_event_at = 0, pw_requested_sha = [], pw_deployed_sha = [],
      pw_selected_sha = [], pw_builds = [], pw_run_number = 0, pw_attempt = 0, pw_composition_id = [],
      pw_generation = 0, pw_url = [], pw_expires_at = 0, pw_status = [], pw_deployment_status = [],
      pw_reason = [], pw_updated_at = 0, pw_comment_id = 0, pw_deployment_id = 0, pw_deployment_sha = [],
      pw_feedback_hash = [], pw_feedback_error = [], pw_retiring_deployment_ids = []\<rparr>"

definition discovered_preview :: "pr_policy \<Rightarrow> github_pr \<Rightarrow> pr_preview" where
  "discovered_preview policy pr = zero_pr_preview
     \<lparr>pw_id := preview_identity policy (gp_number pr), pw_policy := policy, pw_number := gp_number pr,
      pw_lifecycle := 1, pw_requested := True, pw_requested_sha := gp_head_sha pr, pw_pr_url := gp_url pr,
      pw_status := ''waiting_build'', pw_restart_barrier_at := gp_updated_at pr\<rparr>"

definition is_not_found :: "go_error \<Rightarrow> bool" where
  "is_not_found e \<longleftrightarrow> (case as_domain e of None \<Rightarrow> False | Some de \<Rightarrow> e_code de = ''not_found'')"

definition discoverPRPreview :: "pr_policy \<Rightarrow> github_pr \<Rightarrow> unit gm" where
  "discoverPRPreview policy pr =
     g_bind (g_try (g_query (PRPreview (preview_identity policy (gp_number pr))))) (\<lambda>res.
     case res of
       Inr old \<Rightarrow> g_return ()
     | Inl e \<Rightarrow>
         if is_not_found e then g_bind (g_save (discovered_preview policy pr)) (\<lambda>saved. g_return ())
         else g_fail e)"

fun discover_page :: "pr_policy \<Rightarrow> github_pr list \<Rightarrow> unit gm" where
  "discover_page policy [] = g_return ()"
| "discover_page policy (pr # prs) =
     (if \<not> pr_requested pr then discover_page policy prs
      else g_seq (discoverPRPreview policy pr) (discover_page policy prs))"

fun discover_pages :: "nat \<Rightarrow> source_repository \<Rightarrow> pr_policy \<Rightarrow> nat \<Rightarrow> unit gm" where
  "discover_pages 0 r policy page = g_fail out_of_fuel"
| "discover_pages (Suc fuel) r policy page =
     g_bind (g_ask (\<lambda>w i. gh_pull_requests w i r page) (\<lambda>res. [])) (\<lambda>prs.
     g_seq (discover_page policy prs)
       (if length prs < 30 then g_return () else discover_pages fuel r policy (page + 1)))"

definition discoverPRPreviews :: "nat \<Rightarrow> pr_policy \<Rightarrow> unit gm" where
  "discoverPRPreviews fuel policy =
     g_bind (g_repository policy) (\<lambda>r.
     if \<not> sr_enabled r then g_return () else discover_pages fuel r policy 1)"

section \<open>The scan\<close>

definition g_leads :: "unit gm" where
  "g_leads = g_ask (\<lambda>w i. case gh_leads w i of None \<Rightarrow> Inr () | Some e \<Rightarrow> Inl e) (\<lambda>res. [])"

definition read_previews :: "string \<Rightarrow> (pr_preview list \<times> string) gm" where
  "read_previews after = g_query (PRPreviews_page [] after 100)"

text \<open>The last policy of a project and repository; a preview whose policy is gone is disabled.\<close>

definition governing_policy :: "pr_policy list \<Rightarrow> pr_preview \<Rightarrow> pr_policy" where
  "governing_policy policies p =
     (case List.find (\<lambda>q. policy_key q = policy_key (pw_policy p)) (rev policies) of
        Some q \<Rightarrow> q
      | None \<Rightarrow> (pw_policy p)\<lparr>pp_enabled := False\<rparr>)"

text \<open>A lost lease ends the scan; an error of one preview is kept and the scan goes on.\<close>

definition reconcile_row :: "nat \<Rightarrow> pr_policy list \<Rightarrow> pr_preview \<Rightarrow> go_error option list \<Rightarrow> go_error option list gm" where
  "reconcile_row fuel policies p errs =
     g_seq g_leads
    (g_bind (g_try (reconcilePR fuel p (governing_policy policies p))) (\<lambda>res.
     g_return (errs @ [err_of res])))"

fun discover_each :: "nat \<Rightarrow> bool \<Rightarrow> pr_policy list \<Rightarrow> go_error option list \<Rightarrow> go_error option list gm" where
  "discover_each fuel scan [] errs = g_return errs"
| "discover_each fuel scan (policy # policies) errs =
     (if \<not> scan \<or> \<not> pp_enabled policy then discover_each fuel scan policies errs
      else g_bind (g_try (discoverPRPreviews fuel policy)) (\<lambda>res.
        discover_each fuel scan policies (errs @ [err_of res])))"

definition reconcileGitHub :: "nat \<Rightarrow> bool \<Rightarrow> unit gm" where
  "reconcileGitHub fuel scan =
     g_bind (g_query PreviewPolicies) (\<lambda>policies.
     g_bind (discover_each fuel scan policies []) (\<lambda>errs.
     g_bind (cursor_pages fuel read_previews (reconcile_row fuel policies) [] errs) (\<lambda>errs.
     g_check (join_errors errs))))"

section \<open>Events\<close>

definition matchesPRStopEvent :: "pr_preview \<Rightarrow> stop_event \<Rightarrow> bool" where
  "matchesPRStopEvent p event \<longleftrightarrow>
     pp_github_repository_id (pw_policy p) = se_repository event \<and> pw_number p = gp_number (se_pr event) \<and>
     pw_restart_barrier_at p < gp_updated_at (se_pr event) \<and> pw_last_stop_event_at p < gp_updated_at (se_pr event)"

definition stopped_by :: "stop_event \<Rightarrow> pr_preview \<Rightarrow> pr_preview" where
  "stopped_by event p =
     (terminal_preview ''closed'' ''PR closed or preview label removed'' p)
       \<lparr>pw_last_stop_event_at := gp_updated_at (se_pr event), pw_requested := False\<rparr>"

definition stop_row :: "stop_event \<Rightarrow> pr_preview \<Rightarrow> unit \<Rightarrow> unit gm" where
  "stop_row event p u =
     (if \<not> matchesPRStopEvent p event then g_return ()
      else g_bind (g_save_as (as_actor (se_sender_id event) (se_sender_login event)) (stopped_by event p))
        (\<lambda>saved. g_return ()))"

definition applyPRStopEvent :: "nat \<Rightarrow> stop_event \<Rightarrow> unit gm" where
  "applyPRStopEvent fuel event = cursor_pages fuel read_previews (stop_row event) [] ()"

definition is_stop_event :: "stop_event \<Rightarrow> bool" where
  "is_stop_event event \<longleftrightarrow>
     se_action event = ''closed'' \<or> se_action event = ''unlabeled'' \<and> se_label event = PreviewLabel"

fun applyPRStopEvents :: "nat \<Rightarrow> (string \<times> webhook_delivery) list \<Rightarrow> unit gm" where
  "applyPRStopEvents fuel [] = g_return ()"
| "applyPRStopEvents fuel ((i, w) # rest) =
     g_bind (g_env gh_decode_stop) (\<lambda>decode.
     case decode (wd_body w) of
       Some event \<Rightarrow>
         if wd_event w = ''pull_request'' \<and> is_stop_event event
         then g_seq (applyPRStopEvent fuel event) (applyPRStopEvents fuel rest)
         else applyPRStopEvents fuel rest
     | None \<Rightarrow> applyPRStopEvents fuel rest)"

definition revokes :: "access_event \<Rightarrow> source_repository \<Rightarrow> pr_preview \<Rightarrow> bool" where
  "revokes event r p \<longleftrightarrow>
     sr_installation_id r = ae_installation event \<and>
     (ae_action event = ''deleted'' \<or> ae_action event = ''suspend'' \<or>
      pp_github_repository_id (pw_policy p) \<in> set (ae_removed event))"

definition revokePreviewAccess :: "access_event \<Rightarrow> pr_preview \<Rightarrow> unit \<Rightarrow> unit gm" where
  "revokePreviewAccess event p u =
     g_bind (g_repository (pw_policy p)) (\<lambda>r.
     if \<not> revokes event r p then g_return ()
     else g_bind (g_save_as (as_actor (ae_sender_id event) (ae_sender_login event)) (access_removed p))
       (\<lambda>saved. g_return ()))"

definition applyAccessEvent :: "nat \<Rightarrow> access_event \<Rightarrow> unit gm" where
  "applyAccessEvent fuel event = cursor_pages fuel read_previews (revokePreviewAccess event) [] ()"

definition is_access_event :: "string \<Rightarrow> access_event \<Rightarrow> bool" where
  "is_access_event event a \<longleftrightarrow>
     (event = ''installation'' \<or> event = ''installation_repositories'') \<and>
     (ae_action a = ''deleted'' \<or> ae_action a = ''suspend'' \<or> ae_action a = ''removed'')"

fun applyAccessEvents :: "nat \<Rightarrow> (string \<times> webhook_delivery) list \<Rightarrow> unit gm" where
  "applyAccessEvents fuel [] = g_return ()"
| "applyAccessEvents fuel ((i, w) # rest) =
     g_bind (g_env gh_decode_access) (\<lambda>decode.
     case decode (wd_body w) of
       Some event \<Rightarrow>
         if is_access_event (wd_event w) event
         then g_seq (applyAccessEvent fuel event) (applyAccessEvents fuel rest)
         else applyAccessEvents fuel rest
     | None \<Rightarrow> applyAccessEvents fuel rest)"

fun finish_events :: "string \<Rightarrow> (string \<times> webhook_delivery) list \<Rightarrow> go_error option \<Rightarrow> go_error option gm" where
  "finish_events reason [] e = g_return e"
| "finish_events reason ((i, w) # rest) e =
     g_bind (g_try (g_query (FinishGitHubEvent i reason))) (\<lambda>res.
     finish_events reason rest (if err_of res = None then e else join_errors [e, err_of res]))"

text \<open>The events read and the error; events stay pending when their decisions were not saved.\<close>

definition processGitHubEvents :: "nat \<Rightarrow> ((string \<times> webhook_delivery) list \<times> go_error option) gm" where
  "processGitHubEvents fuel =
     g_bind (g_try (g_query PendingGitHubEvents)) (\<lambda>res.
     case res of
       Inl e \<Rightarrow> g_return ([], Some e)
     | Inr events \<Rightarrow>
         g_bind (g_try (g_seq (applyAccessEvents fuel events) (applyPRStopEvents fuel events))) (\<lambda>res.
         let reason = (if err_of res = None then [] else ''Could not persist GitHub lifecycle decisions; will retry'') in
         g_bind (finish_events reason events (err_of res)) (\<lambda>e. g_return (events, e))))"

text \<open>One round of \<open>RunGitHub\<close>: the time of the next scan, or that leadership was lost.\<close>

definition github_round :: "nat \<Rightarrow> time \<Rightarrow> time gm" where
  "github_round fuel next_scan =
     g_seq g_leads
    (g_bind (processGitHubEvents fuel) (\<lambda>(events, e).
     g_bind g_now (\<lambda>now.
     let scan = next_scan < now \<or> events \<noteq> [] in
     g_bind (case e of None \<Rightarrow> g_try (reconcileGitHub fuel scan) | Some e \<Rightarrow> g_return (Inl e)) (\<lambda>res.
     let reason = (if err_of res = None then []
       else ''GitHub preview reconciliation failed; check App access, API availability and server logs'') in
     g_bind (if err_of res = None \<and> scan then g_now else g_return next_scan) (\<lambda>t.
     g_bind (g_try (g_query (SetGitHubHealth reason))) (\<lambda>health.
     g_return (if err_of res = None \<and> scan then t + 5 * minute else next_scan)))))))"

section \<open>Requests\<close>

text \<open>\<open>ControlPRPreview\<close>, called by a person: the call has their identity and no claim.\<close>

definition as_person :: "call \<Rightarrow> call" where
  "as_person cx = cx\<lparr>cx_claim := None\<rparr>"

definition g_ask_db :: "'a tx \<Rightarrow> 'a gm" where
  "g_ask_db m = g_store as_person (\<lambda>w. tx_run m) (\<lambda>r. [])"

definition stopped_preview :: "time \<Rightarrow> pr_preview \<Rightarrow> pr_preview" where
  "stopped_preview now p = (terminal_preview ''stopped'' ''Stopped explicitly'' p)\<lparr>pw_restart_barrier_at := now\<rparr>"

definition restart_allowed :: "source_repository \<Rightarrow> github_pr \<Rightarrow> bool" where
  "restart_allowed r pr \<longleftrightarrow> sr_enabled r \<and> pr_requested pr \<and> same_repo pr"

definition restarting_preview :: "pr_preview \<Rightarrow> pr_preview" where
  "restarting_preview = terminal_preview ''restarting'' ''Waiting for previous composition cleanup''"

definition controlled_preview :: "string \<Rightarrow> pr_preview \<Rightarrow> pr_preview gm" where
  "controlled_preview action p =
     (if action = ''stop'' then g_bind g_now (\<lambda>now. g_return (stopped_preview now p))
      else if action = ''restart'' then
        g_bind (g_ask_db (read_repository (pp_project (pw_policy p)) (pp_repository (pw_policy p)))) (\<lambda>r.
        g_bind (fetch_pr r (pw_number p)) (\<lambda>pr.
        if \<not> restart_allowed r pr then g_fail (Validation ''restart requires an open labelled same-repository PR'')
        else g_bind (g_ask_db PreviewPolicies) (\<lambda>policies.
          if enabledPreviewPolicy policies (pw_policy p) = None then g_fail (Validation ''preview policy is disabled'')
          else g_return (restarting_preview p))))
      else g_fail (Validation ''unknown preview action''))"

definition ControlPRPreview :: "string \<Rightarrow> string \<Rightarrow> pr_preview gm" where
  "ControlPRPreview i action =
     g_bind (g_ask_db (PRPreview i)) (\<lambda>p.
     g_bind (controlled_preview action p) (g_save_as as_person))"

text \<open>Saving a policy.\<close>

fun validate_policy_components :: "source_repository \<Rightarrow> baseline \<Rightarrow> string list \<Rightarrow> string list \<Rightarrow> go_error option" where
  "validate_policy_components r b seen [] = None"
| "validate_policy_components r b seen (c # cs) =
     (if c \<in> set seen \<or> get_or [] (sr_images r) c = []
      then Some (Validation ''components must be distinct registered repository mappings'')
      else if \<not> has_key (b_components b) c then Some (Validation ''component must belong to baseline'')
      else validate_policy_components r b (c # seen) cs)"

definition validatePreviewPolicy :: "source_repository \<Rightarrow> pr_policy \<Rightarrow> unit gm" where
  "validatePreviewPolicy r p =
     g_bind (g_env (\<lambda>w. (gh_webhook_secret w, sc_max_ttl (gh_config w)))) (\<lambda>(secret, max_ttl).
     if secret = [] then g_fail (Validation ''configure a webhook secret before enabling previews'')
     else if \<not> sr_enabled r \<or> pp_workflow_id p < 1 \<or> length (pp_components p) < 1 \<or>
       MaxOverrides < length (pp_components p)
     then g_fail (Validation
       ''policy requires an enabled repository, trusted workflow ID, and one to three components'')
     else case parse_duration (pp_ttl p) of
       None \<Rightarrow> g_fail (Validation ''preview TTL must be positive and within installation limits'')
     | Some ttl \<Rightarrow>
         if ttl \<le> 0 \<or> max_ttl < ttl
         then g_fail (Validation ''preview TTL must be positive and within installation limits'')
         else g_bind (g_ask_db (read_baseline (pp_project p) (pp_baseline p))) (\<lambda>b.
           g_check (validate_policy_components r b [] (pp_components p))))"

definition g_save_policy :: "pr_policy \<Rightarrow> unit gm" where
  "g_save_policy p = g_store as_person (\<lambda>w. store_policy p) (\<lambda>r. [])"

definition disablePreviewPolicy :: "pr_policy \<Rightarrow> pr_policy gm" where
  "disablePreviewPolicy p =
     g_bind (g_ask_db PreviewPolicies) (\<lambda>old.
     case List.find (\<lambda>v. policy_key v = policy_key p) old of
       None \<Rightarrow> g_fail (NotFound ''preview policy not found'')
     | Some v \<Rightarrow> g_seq (g_save_policy (v\<lparr>pp_enabled := False\<rparr>)) (g_return (v\<lparr>pp_enabled := False\<rparr>)))"

definition SavePreviewPolicy :: "pr_policy \<Rightarrow> pr_policy gm" where
  "SavePreviewPolicy p =
     g_bind (g_ask_db (read_repository (pp_project p) (pp_repository p))) (\<lambda>r.
     if \<not> pp_enabled p then disablePreviewPolicy p
     else
       g_bind (g_env (\<lambda>w. sc_default_ttl (gh_config w))) (\<lambda>default_ttl.
       let p = (if pp_ttl p = [] then p\<lparr>pp_ttl := show_duration default_ttl\<rparr> else p) in
       g_seq (validatePreviewPolicy r p)
      (g_bind (g_ask (\<lambda>w i. gh_access w i r) (\<lambda>res. [])) (\<lambda>repo.
       let p = p\<lparr>pp_github_repository_id := repo, pp_components := sort (pp_components p)\<rparr> in
       g_bind (g_ask (\<lambda>w i. gh_runs w i r (pp_workflow_id p) [] 1) (\<lambda>res. [])) (\<lambda>runs.
       g_seq (g_save_policy p) (g_return p))))))"

end
