(* ===== verification/Webhook.thy ===== *)
theory Webhook
  imports Preview_Control
begin

text \<open>
  Receiving a GitHub webhook: the HMAC check of \<open>ReceiveGitHubWebhook\<close> in
  \<open>internal/application/github_preview.go\<close> and the delivery it stores. \<open>json_valid\<close> and
  \<open>decode\<close> stand for \<open>json.Valid\<close> and \<open>json.Unmarshal\<close> of the body.
\<close>

section \<open>HMAC\<close>

definition xor_byte :: "nat \<Rightarrow> char \<Rightarrow> char" where
  "xor_byte n c = char_of (n XOR of_char c)"

definition hmac_key :: "string \<Rightarrow> string" where
  "hmac_key key = (let k = (if 64 < length key then sha256 key else key) in k @ replicate (64 - length k) nul)"

text \<open>\<open>hmac.New(sha256.New, key)\<close> after \<open>Write(message)\<close> and \<open>Sum(nil)\<close>\<close>

definition hmac_sha256 :: "string \<Rightarrow> string \<Rightarrow> string" where
  "hmac_sha256 key message =
     (let k = hmac_key key
      in sha256 (map (xor_byte 0x5C) k @ sha256 (map (xor_byte 0x36) k @ message)))"

text \<open>\<open>hex.DecodeString\<close>; the error on an odd length or another digit is \<open>None\<close>.\<close>

fun hex_decode :: "string \<Rightarrow> string option" where
  "hex_decode [] = Some []"
| "hex_decode (a # b # s) =
     (if is_hex a \<and> is_hex b
      then map_option (Cons (char_of (16 * hex_value a + hex_value b))) (hex_decode s) else None)"
| "hex_decode [c] = None"

definition signature_ok :: "string \<Rightarrow> string \<Rightarrow> string \<Rightarrow> bool" where
  "signature_ok secret signature body \<longleftrightarrow>
     has_prefix signature ''sha256='' \<and>
     hex_decode (trim_prefix signature ''sha256='') = Some (hmac_sha256 secret body)"

definition ReceiveGitHubWebhook ::
  "github_env \<Rightarrow> (string \<Rightarrow> bool) \<Rightarrow> (string \<Rightarrow> webhook_payload result) \<Rightarrow> string \<Rightarrow> string \<Rightarrow> string \<Rightarrow>
     string \<Rightarrow> call \<Rightarrow> db \<Rightarrow> unit result \<times> db"
where
  "ReceiveGitHubWebhook w json_valid decode i event signature body cx d =
     (if gh_webhook_secret w = []
      then (Inl (service_error ''unavailable'' ''GitHub webhooks are not configured''), d)
      else if \<not> signature_ok (gh_webhook_secret w) signature body
      then (Inl (service_error ''unauthorized'' ''invalid GitHub webhook signature''), d)
      else if i = [] \<or> 128 < length i \<or> \<not> json_valid body
      then (Inl (Validation ''valid delivery ID and JSON payload required''), d)
      else store_webhook decode i event body cx d)"

section \<open>Signatures\<close>

lemma hex_decode_length: "hex_decode s = Some bytes \<Longrightarrow> length s = 2 * length bytes"
  by (induction s arbitrary: bytes rule: hex_decode.induct) (auto split: if_splits)

lemma hex_digit_value: "is_hex c \<Longrightarrow> hex_digit (hex_value c) = lower_char c"
  by (auto simp: hex_digit_def hex_value_def lower_char_def char_class_defs less_eq_char_def)

lemma hex_byte_char: "a < 16 \<Longrightarrow> b < 16 \<Longrightarrow> hex_byte (char_of (16 * a + b)) = [hex_digit a, hex_digit b]"
  by (simp add: hex_byte_def)

lemma lower_hex_digit: "n < 16 \<Longrightarrow> lower_char (hex_digit n) = hex_digit n"
  using is_lower_hex_hex_digit[of n]
  by (auto simp: lower_char_def is_lower_hex_def char_class_defs less_eq_char_def)

lemma lower_char_hex: "is_hex (lower_char c) \<longleftrightarrow> is_hex c"
  by (auto simp: lower_char_def char_class_defs less_eq_char_def)

lemma hex_value_digit: "n < 16 \<Longrightarrow> hex_value (hex_digit n) = n"
  by (auto simp: hex_digit_def hex_value_def char_class_defs less_eq_char_def)

lemma hex_of_lower:
  assumes "lower_char c = hex_digit n" "n < 16"
  shows "is_hex c \<and> hex_value c = n"
proof -
  have "is_lower_hex (lower_char c)" using assms is_lower_hex_hex_digit by simp
  then have "is_hex (lower_char c)" by (simp add: is_hex_def)
  then have hex: "is_hex c" using lower_char_hex by simp
  have "hex_value (hex_digit (hex_value c)) = hex_value (hex_digit n)"
    using hex_digit_value[OF hex] assms(1) by simp
  then show ?thesis using hex hex_value_digit hex_value_less assms(2) by simp
qed

text \<open>A string decodes to some bytes exactly when it spells them in hexadecimal, in either case.\<close>

lemma hex_decode_iff: "hex_decode s = Some bytes \<longleftrightarrow> map lower_char s = hex_encode bytes"
proof (induction s arbitrary: bytes rule: hex_decode.induct)
  case (2 a b s)
  show ?case
  proof (cases bytes)
    case (Cons c cs)
    have c: "hex_byte c = [hex_digit (of_char c div 16), hex_digit (of_char c mod 16)]"
      by (simp add: hex_byte_def)
    have pair: "is_hex a \<and> is_hex b \<and> char_of (16 * hex_value a + hex_value b) = c" if "[lower_char a, lower_char b] = hex_byte c"
    proof -
      have "lower_char a = hex_digit (of_char c div 16)" "lower_char b = hex_digit (of_char c mod 16)"
        using that c by auto
      moreover have "of_char c div 16 < (16::nat)" "of_char c mod 16 < (16::nat)"
        using nat_of_char_less_256[of c] by (auto simp: less_mult_imp_div_less)
      ultimately have "is_hex a \<and> hex_value a = of_char c div 16" "is_hex b \<and> hex_value b = of_char c mod 16"
        using hex_of_lower by blast+
      then show ?thesis by simp
    qed
    have "hex_decode (a # b # s) = Some bytes \<longleftrightarrow>
        is_hex a \<and> is_hex b \<and> char_of (16 * hex_value a + hex_value b) = c \<and> hex_decode s = Some cs"
      using Cons by auto
    also have "\<dots> \<longleftrightarrow> is_hex a \<and> is_hex b \<and> [lower_char a, lower_char b] = hex_byte c \<and> hex_decode s = Some cs"
      using pair hex_byte_char[OF hex_value_less hex_value_less, of a b] hex_digit_value by auto
    also have "\<dots> \<longleftrightarrow> is_hex a \<and> is_hex b \<and> [lower_char a, lower_char b] = hex_byte c \<and> map lower_char s = hex_encode cs"
      using 2[of cs] by blast
    also have "\<dots> \<longleftrightarrow> map lower_char (a # b # s) = hex_encode bytes"
      using Cons pair by (auto simp: hex_encode_def hex_byte_def)
    finally show ?thesis .
  qed (auto simp: hex_encode_def)
next
  case (3 c)
  have "length (hex_encode bytes) \<noteq> 1" by simp
  then show ?case by (metis hex_decode.simps(3) length_Cons length_map list.size(3) One_nat_def option.distinct(1))
qed (auto simp: hex_encode_def hex_byte_def)

lemma signature_ok_iff:
  "signature_ok secret signature body \<longleftrightarrow>
     (\<exists>digits. signature = ''sha256='' @ digits \<and> map lower_char digits = hex_encode (hmac_sha256 secret body))"
  unfolding signature_ok_def hex_decode_iff has_prefix_iff
  by (auto simp: trim_prefix_def has_prefix_def)

text \<open>
  C18: A webhook is accepted only when its signature spells the HMAC-SHA256 of the body under the
  configured secret. The delivery is then stored, and a redelivery of the same identifier changes
  nothing, whatever its event and body are.
\<close>

theorem webhook_recorded_once:
  assumes "ReceiveGitHubWebhook w json_valid decode i event signature body cx d = (Inr u, d')"
  shows "gh_webhook_secret w \<noteq> [] \<and>
    (\<exists>digits. signature = ''sha256='' @ digits \<and>
       map lower_char digits = hex_encode (hmac_sha256 (gh_webhook_secret w) body)) \<and>
    has_key (db_deliveries d') i \<and>
    snd (ReceiveGitHubWebhook w json_valid decode i event' signature' body' cx' d') = d'"
proof -
  have accepted: "gh_webhook_secret w \<noteq> []" "signature_ok (gh_webhook_secret w) signature body"
    "store_webhook decode i event body cx d = (Inr u, d')"
    using assms by (auto simp: ReceiveGitHubWebhook_def split: if_splits)
  have stored: "has_key (db_deliveries d') i"
    using accepted(3)
    by (auto simp: store_webhook_def raw_transaction_def raw_def tx_bind_def insert_delivery_def tx_return_def
        tx_fail_def insertActivity_def attempt_def Let_def add_activity_def has_key_snoc
        split: if_splits sum.splits prod.splits)
  have "snd (store_webhook decode i event' body' cx' d') = d'"
    using stored
    by (auto simp: store_webhook_def raw_transaction_def raw_def tx_bind_def insert_delivery_def tx_return_def)
  then have "snd (ReceiveGitHubWebhook w json_valid decode i event' signature' body' cx' d') = d'"
    by (simp add: ReceiveGitHubWebhook_def)
  then show ?thesis using accepted(1,2) stored signature_ok_iff by blast
qed

definition quiet_env :: github_env where
  "quiet_env =
     \<lparr>gh_pull_request = (\<lambda>i r n. Inl (Plain ''offline'')), gh_pull_requests = (\<lambda>i r page. Inr []),
      gh_installed = (\<lambda>i r. Inr True), gh_access = (\<lambda>i r. Inr 1), gh_runs = (\<lambda>i r wf sha page. Inr []),
      gh_attempt = (\<lambda>i r run attempt. Inl (Plain ''offline'')), gh_comment = (\<lambda>i r n c marker body. (1, None)),
      gh_deployment = (\<lambda>i r sha e. (1, None)), gh_status = (\<lambda>i r d state url. None), gh_leads = (\<lambda>i. None),
      gh_call = (\<lambda>i. catalog_demo_call), gh_others = (\<lambda>i d. d),
      gh_catalog = (\<lambda>d. \<lparr>ca_baseline = (\<lambda>p i. Inl (Plain ''none'')), ca_component = (\<lambda>p i. Inl (Plain ''none'')),
        ca_preview_profile = None, ca_build = None, ca_repository = (\<lambda>p i. Inl (Plain ''none''))\<rparr>),
      gh_config = demo_config, gh_webhook_secret = ''secret'', gh_decode_access = (\<lambda>body. None),
      gh_decode_stop = (\<lambda>body. None)\<rparr>"

definition demo_signature :: string where
  "demo_signature = ''sha256='' @ hex_encode (hmac_sha256 ''secret'' ''{}'')"

definition demo_payload :: "string \<Rightarrow> webhook_payload result" where
  "demo_payload body = Inr \<lparr>wp_action = ''closed'', wp_sender_id = 7, wp_sender_login = ''octocat''\<rparr>"

lemma lower_hex_encode: "map lower_char (hex_encode bytes) = hex_encode bytes"
proof -
  have "list_all (\<lambda>c. lower_char c = c) (hex_encode bytes)"
    using hex_encode_lower_hex[of bytes]
    by (auto simp: list_all_iff lower_char_def is_lower_hex_def char_class_defs less_eq_char_def)
  then show ?thesis by (simp add: list_all_iff map_idI)
qed

lemma demo_delivery:
  "\<exists>d'. ReceiveGitHubWebhook quiet_env (\<lambda>body. True) demo_payload ''d-1'' ''pull_request'' demo_signature ''{}''
     catalog_demo_call empty_db = (Inr (), d')"
proof -
  have "signature_ok (gh_webhook_secret quiet_env) demo_signature ''{}''"
    by (simp add: signature_ok_iff demo_signature_def quiet_env_def lower_hex_encode)
  moreover have "gh_webhook_secret quiet_env \<noteq> []" by (simp add: quiet_env_def)
  ultimately show ?thesis
    by (simp add: ReceiveGitHubWebhook_def store_webhook_def raw_transaction_def raw_def tx_bind_def insert_delivery_def
        empty_db_def demo_payload_def insertActivity_def attempt_def Let_def catalog_demo_call_def)
qed

lemma webhook_recorded_once_witness:
  "\<exists>d'. has_key (db_deliveries d') ''d-1'' \<and>
     snd (ReceiveGitHubWebhook quiet_env (\<lambda>body. True) demo_payload ''d-1'' ''pull_request'' demo_signature ''{}''
       catalog_demo_call d') = d'"
  using demo_delivery webhook_recorded_once by metis

end
