(* ===== verification/Preview_Fence.thy ===== *)
theory Preview_Fence
  imports Webhook Compose_Props
begin

text \<open>
  How the preview row fences the controller's writes to compositions, and where it does not: the
  version guards what the controller submits under a claim, but linking a new composition to its
  preview leaves the version as it is.
\<close>

section \<open>Stale claims\<close>

definition claim_stale :: "db \<Rightarrow> pr_preview_claim \<Rightarrow> bool" where
  "claim_stale d claim \<longleftrightarrow>
     (case map_of (db_previews d) (cl_id claim) of None \<Rightarrow> True | Some p \<Rightarrow> cl_version claim \<noteq> pw_version p)"

text \<open>Besides, the preview was stopped, or its policy is gone or disabled.\<close>

definition claim_closed :: "db \<Rightarrow> pr_preview_claim \<Rightarrow> bool" where
  "claim_closed d claim \<longleftrightarrow>
     (case map_of (db_previews d) (cl_id claim) of
        None \<Rightarrow> True
      | Some p \<Rightarrow> pw_terminal p \<or>
          (case map_of (db_policies d) (policy_key (pw_policy p)) of None \<Rightarrow> True | Some q \<Rightarrow> \<not> pp_enabled q))"

lemma guard_claimed:
  assumes "guardPRPreview cid op cx d = Inr (u, d')" "cx_claim cx = Some claim"
  shows "d' = d \<and> \<not> claim_stale d claim \<and> (op \<noteq> ''destroy'' \<longrightarrow> \<not> claim_closed d claim)"
  using assms
  by (auto simp: guardPRPreview_def claim_stale_def claim_closed_def policy_key_def split: option.splits if_splits)

lemma attempt_seq_guard:
  assumes "attempt l (tx_seq (guardPRPreview cid op) m) cx d = Inr (u, d')" "cx_claim cx = Some claim"
  shows "\<not> claim_stale d claim \<and> (op \<noteq> ''destroy'' \<longrightarrow> \<not> claim_closed d claim)"
  using assms guard_claimed by (auto simp: tx_elims)

lemma Create_fenced:
  assumes "cx_claim cx = Some claim" "claim_stale d claim \<or> claim_closed d claim"
  shows "snd (Create c key hash n cx d) = d"
  using assms(2) by (auto simp: Create_def Let_def split: sum.split dest!: attempt_seq_guard[OF _ assms(1)])

lemma Update_fenced:
  assumes "cx_claim cx = Some claim" "claim_stale d claim \<or> claim_closed d claim"
  shows "snd (Update i req op cx d) = d"
  using assms(2) by (auto simp: Update_def split: sum.split dest!: attempt_seq_guard[OF _ assms(1)])

lemma Destroy_fenced:
  assumes "cx_claim cx = Some claim" "claim_stale d claim"
  shows "snd (Destroy i cx d) = d"
proof -
  have "\<exists>e. Destroy i cx d = (Inl e, d)"
    unfolding Destroy_def
    by (rule tx_fails) (use assms guard_claimed in \<open>auto simp: destroy_body_def tx_elims\<close>)
  then show ?thesis by auto
qed

text \<open>
  C17: A stale claim changes nothing. When the preview the controller claims has another version by
  now, none of creating, updating and destroying a composition under the claim writes anything; when
  the preview was stopped or its policy disabled, neither does creating nor updating.
\<close>

theorem stale_claim_changes_nothing:
  assumes "cx_claim cx = Some claim" "claim_stale d claim \<or> claim_closed d claim"
  shows "snd (CreateComposition ca cfg creq key now cx d) = d \<and>
    snd (UpdateComposition ca cfg i ureq overrides cx d) = d \<and>
    (snd (Destroy i cx d) = d \<or> \<not> claim_stale d claim)"
proof -
  have "snd (CreateComposition ca cfg creq key now cx d) = d"
    using Create_fenced[OF assms] by (simp add: CreateComposition_def split: sum.split option.split)
  moreover have "snd (UpdateComposition ca cfg i ureq overrides cx d) = d"
    using Update_fenced[OF assms] by (simp add: UpdateComposition_def split: sum.split)
  ultimately show ?thesis using Destroy_fenced[OF assms(1)] by blast
qed

definition fenced_preview :: pr_preview where
  "fenced_preview = zero_pr_preview
     \<lparr>pw_id := ''p1'', pw_version := 3, pw_policy := (pw_policy zero_pr_preview)\<lparr>pp_project := ''demo'', pp_repository := ''shop''\<rparr>,
      pw_requested := True, pw_lifecycle := 1, pw_number := 7\<rparr>"

lemma stale_claim_changes_nothing_witness:
  "snd (Destroy ''c1'' (catalog_demo_call\<lparr>cx_claim := Some \<lparr>cl_id = ''p1'', cl_version = 2\<rparr>\<rparr>)
     (empty_db\<lparr>db_previews := [(''p1'', fenced_preview)]\<rparr>)) = empty_db\<lparr>db_previews := [(''p1'', fenced_preview)]\<rparr>"
proof -
  have stale: "claim_stale (empty_db\<lparr>db_previews := [(''p1'', fenced_preview)]\<rparr>) \<lparr>cl_id = ''p1'', cl_version = 2\<rparr>"
    by (simp add: claim_stale_def fenced_preview_def)
  show ?thesis
    using stale_claim_changes_nothing[of "catalog_demo_call\<lparr>cx_claim := Some \<lparr>cl_id = ''p1'', cl_version = 2\<rparr>\<rparr>", OF _ disjI1[OF stale]]
      stale by simp
qed

section \<open>A stop that races with a creation\<close>

lemma create_body_links:
  assumes "create_body c key hash n cx d = Inr (r, d')" "cx_claim cx = Some claim"
  shows "\<exists>p. map_of (db_previews d) (cl_id claim) = Some p \<and> pw_composition_id p = [] \<and>
    db_previews d' = AList.update (cl_id claim) (p\<lparr>pw_composition_id := c_id c\<rparr>) (db_previews d)"
proof -
  from assms(1) obtain d1 d2 d3 d4 d5 d6 ctx where steps:
    "validateBuildOverrides (c_project c) (c_overrides c) cx d = Inr ((), d1)"
    "insert_composition c cx d1 = Inr ((), d2)" "insert_key key hash (c_id c) cx d2 = Inr ((), d3)"
    "link_preview (c_id c) cx d3 = Inr ((), d4)" "saveOperation c cx d4 = Inr ((), d5)"
    "insertRevision ctx c cx d5 = Inr ((), d6)"
    "insertActivity ctx (composition_activity ''composition.create'' ''accepted'' c 0) cx d6 = Inr ((), d')"
    by (auto simp: create_body_def tx_elims split: if_splits)
  have before: "db_previews d3 = db_previews d"
    using keepsD[OF keeps_builds steps(1), of db_previews] steps(2,3)
    by (auto simp: insert_composition_def insert_key_def tx_elims split: if_splits)
  have after: "db_previews d' = db_previews d4"
    using steps(5-7)
    by (auto simp: saveOperation_def upsert_operation_def insertRevision_def add_revision_def insertActivity_def
        add_activity_def tx_elims Let_def split: if_splits)
  show ?thesis
    using steps(4) assms(2) before after by (auto simp: link_preview_def split: option.splits if_splits)
qed

lemma new_composition_fresh:
  "new_composition ca cfg req ttl now cx = Inr c \<Longrightarrow> c_phase c = PhaseCreated \<and> \<not> c_deletion_requested c"
  by (auto simp: new_composition_def result_then_Inr created_composition_def zero_composition_def)

text \<open>A creation under a claim that is not the replay of an earlier one.\<close>

lemma CreateComposition_links:
  assumes "CreateComposition ca cfg req key now cx d = (Inr c, d1)" "cx_claim cx = Some claim"
    and "\<not> has_key (db_compositions d) (c_id c)" "wf_db d"
  shows "\<exists>p row. map_of (db_previews d) (cl_id claim) = Some p \<and> pw_composition_id p = [] \<and>
    db_previews d1 = AList.update (cl_id claim) (p\<lparr>pw_composition_id := c_id c\<rparr>) (db_previews d) \<and>
    map_of (db_compositions d1) (c_id c) = Some row \<and> live_row row \<and> \<not> row_deletion_requested row"
proof -
  obtain creq ttl where request: "canonical_request ca cfg req = Inr (creq, ttl)"
    using assms(1) by (auto simp: CreateComposition_def check_then_def split: sum.splits option.splits)
  have known: "has_key (db_compositions d) (c_id c)" if get: "Get i cx d = Inr c" for i
  proof -
    obtain row where row: "map_of (db_compositions d) i = Some row" "c = decodeComposition row"
      using get by (auto simp: Get_def read_composition_def attempt_def split: option.splits if_splits)
    then have "c_id c = i" using wf_dbD[OF assms(4)] by (simp add: row_ok_def)
    then show ?thesis using row by (simp add: has_key_def)
  qed
  have "create_replayed key creq cx d = Inr None"
    using assms(1,3) request known
    by (auto simp: CreateComposition_def check_then_def create_replayed_def ReplayCreate_def result_then_def
        split: sum.splits option.splits if_splits)
  then obtain fresh where fresh: "new_composition ca cfg creq ttl now cx = Inr fresh"
    "Create fresh key (create_digest creq) (sc_max_compositions cfg) cx d = (Inr c, d1)"
    using CreateComposition_Inr[OF assms(1) request] by blast
  have "create_replay key (create_digest creq) cx d = None"
    using fresh(2) known assms(3)
    by (auto simp: Create_def create_replay_def Let_def split: sum.splits option.splits if_splits)
  then have "commit_tx ''commit composition''
      (create_body (fresh\<lparr>c_pr_preview_id := cl_id claim\<rparr>) key (create_digest creq) (sc_max_compositions cfg)) cx d = (Inr c, d1)"
    using fresh(2) assms(2) by (auto simp: Create_def Let_def split: sum.splits)
  then have body: "create_body (fresh\<lparr>c_pr_preview_id := cl_id claim\<rparr>) key (create_digest creq)
      (sc_max_compositions cfg) cx d = Inr (c, d1)"
    by (rule commit_tx_Inr[where m = "create_body (fresh\<lparr>c_pr_preview_id := cl_id claim\<rparr>) key (create_digest creq) (sc_max_compositions cfg)"])
  note eff = create_body_Inr[OF body] and link = create_body_links[OF body assms(2)]
  have "map_of (db_compositions d1) (c_id c) = Some (row_of c)"
    using eff assms(3) by (auto simp: has_key_def map_add_def)
  moreover have "live_row (row_of c) \<and> \<not> row_deletion_requested (row_of c)"
    using eff new_composition_fresh[OF fresh(1)] by (auto simp: live_row_def row_of_def)
  ultimately show ?thesis using eff link by auto
qed

lemma record_activity_Inr: "cx_fault cx = None \<Longrightarrow> \<exists>a'. record_activity a cx d = Inr ((), add_activity a' d)"
  by (simp add: record_activity_def insertActivity_def tx_bind_def tx_call_def attempt_def Let_def)
    (rule exI, rule refl)

lemma set_update_subset: "set (AList.update k v al) \<subseteq> insert (k, v) (set al)"
  by (induction al) auto

text \<open>Saving a changed preview at the stored version replaces the row.\<close>

lemma SavePRPreview_writes:
  assumes "map_of (db_previews d) (pw_id p) = Some old" "pw_version old = pw_version p" "pw_version p \<noteq> 0"
    and "\<not> same_preview (old\<lparr>pw_updated_at := cx_now cx\<rparr>) (p\<lparr>pw_updated_at := cx_now cx\<rparr>)"
    and "pw_composition_id p = []" "cx_fault cx = None"
  defines "q \<equiv> p\<lparr>pw_updated_at := cx_now cx, pw_version := pw_version p + 1\<rparr>"
  shows "\<exists>d'. SavePRPreview p cx d = (Inr q, d') \<and> db_compositions d' = db_compositions d \<and>
    db_previews d' = AList.update (pw_id p) q (db_previews d)"
proof -
  let ?p = "p\<lparr>pw_updated_at := cx_now cx\<rparr>"
  let ?d1 = "d\<lparr>db_previews := AList.update (pw_id p) q (db_previews d)\<rparr>"
  let ?d2 = "?d1\<lparr>db_preview_history := AList.update (pw_id p, pw_lifecycle p) ?p (db_preview_history ?d1)\<rparr>"
  obtain a where activity: "record_activity (preview_activity q) cx ?d2 = Inr ((), add_activity a ?d2)"
    using record_activity_Inr[OF assms(6)] by blast
  have "lock_preview ?p cx d = Inr (old, d)"
    using assms(1,2,6) by (simp add: lock_preview_def raw_def)
  moreover have "update_preview ?p cx d = Inr (q, ?d1)"
    using assms(5,6) by (simp add: update_preview_def raw_def q_def Let_def)
  moreover have "saved_preview ?p q cx ?d1 = Inr (q, add_activity a ?d2)"
    using activity assms(6) by (simp add: saved_preview_def preview_history_def raw_def tx_write_def tx_seq_def
        tx_bind_def tx_return_def)
  ultimately have "save_preview_body ?p cx d = Inr (q, add_activity a ?d2)"
    using assms(3,4) by (simp add: save_preview_body_def tx_bind_def)
  then have "SavePRPreview p cx d = (Inr q, add_activity a ?d2)"
    using assms(6) by (simp add: SavePRPreview_def raw_transaction_def raw_def)
  then show ?thesis by (simp add: add_activity_def)
qed

text \<open>
  C23: A stop can orphan the composition it should end. When a person stops a preview they read
  before the controller's creation committed, the stop still succeeds, because linking the new
  composition did not change the version: it writes back the empty composition, and the composition
  stays live, not to be deleted and owned by no preview, while the preview counts as stopped.
\<close>

theorem stop_race_orphans_composition:
  assumes "wf_db d" "map_of (db_previews d) i = Some p" "pw_id p = i" "pw_version p \<noteq> 0"
    and "list_all (\<lambda>(j, q). pw_composition_id q = [] \<or> has_key (db_compositions d) (pw_composition_id q)) (db_previews d)"
    and "CreateComposition ca cfg req key now cx d = (Inr c, d1)" "\<not> has_key (db_compositions d) (c_id c)"
    and "cx_claim cx = Some \<lparr>cl_id = i, cl_version = pw_version p\<rparr>" "cx_fault stop = None"
  shows "\<exists>q d2 row. SavePRPreview (stopped_preview t p) stop d1 = (Inr q, d2) \<and>
    map_of (db_previews d2) i = Some q \<and> pw_terminal q \<and> pw_composition_id q = [] \<and>
    map_of (db_compositions d2) (c_id c) = Some row \<and> live_row row \<and> \<not> row_deletion_requested row \<and>
    owner_of (c_id c) d2 = None"
proof -
  obtain row where link: "pw_composition_id p = []"
    "db_previews d1 = AList.update i (p\<lparr>pw_composition_id := c_id c\<rparr>) (db_previews d)"
    "map_of (db_compositions d1) (c_id c) = Some row" "live_row row" "\<not> row_deletion_requested row"
    using CreateComposition_links[OF assms(6,8,7,1)] assms(2) by auto
  have running: "\<not> pw_terminal p"
  proof
    assume "pw_terminal p"
    then have "claim_closed d \<lparr>cl_id = i, cl_version = pw_version p\<rparr>" using assms(2) by (simp add: claim_closed_def)
    then have "snd (CreateComposition ca cfg req key now cx d) = d"
      using Create_fenced[OF assms(8)] by (simp add: CreateComposition_def split: sum.split option.split)
    then show False using assms(6,7) link(3) by (simp add: has_key_def)
  qed
  let ?stopped = "stopped_preview t p" and ?old = "p\<lparr>pw_composition_id := c_id c\<rparr>"
  define q where "q = ?stopped\<lparr>pw_updated_at := cx_now stop, pw_version := pw_version ?stopped + 1\<rparr>"
  have fields: "pw_id ?stopped = i" "pw_version ?stopped = pw_version p" "pw_composition_id ?stopped = []"
    "pw_terminal ?stopped"
    using assms(3) link(1) by (simp_all add: stopped_preview_def terminal_preview_def)
  have now: "map_of (db_previews d1) (pw_id ?stopped) = Some ?old" using link(2) fields by (simp add: update_conv')
  have "\<not> same_preview (?old\<lparr>pw_updated_at := cx_now stop\<rparr>) (?stopped\<lparr>pw_updated_at := cx_now stop\<rparr>)"
  proof
    assume "same_preview (?old\<lparr>pw_updated_at := cx_now stop\<rparr>) (?stopped\<lparr>pw_updated_at := cx_now stop\<rparr>)"
    from arg_cong[OF conjunct2[OF this[unfolded same_preview_def]], of pw_terminal]
    show False using running fields(4) by simp
  qed
  then obtain d2 where d2: "SavePRPreview ?stopped stop d1 = (Inr q, d2)" "db_compositions d2 = db_compositions d1"
    "db_previews d2 = AList.update i q (db_previews d1)"
    using SavePRPreview_writes[OF now] fields assms(4,9) q_def by auto
  have q: "pw_terminal q" "pw_composition_id q = []" using fields by (simp_all add: q_def)
  have "set (db_previews d2) \<subseteq> insert (i, q) (set (db_previews d))"
    unfolding d2(3) link(2) AList.update_last by (rule set_update_subset)
  then have "pw_composition_id v \<noteq> c_id c" if "v \<in> snd ` set (db_previews d2)" "c_id c \<noteq> []" for v
    using that assms(5,7) q(2) by (fastforce simp: list_all_iff)
  then have "owner_of (c_id c) d2 = None" by (auto simp: owner_of_def find_None_iff)
  moreover have "map_of (db_previews d2) i = Some q" by (simp add: d2(3) update_conv')
  ultimately show ?thesis using d2(1,2) q link(3-5) by auto
qed

text \<open>A preview without a composition, under an enabled policy.\<close>

definition race_db :: db where
  "race_db = empty_db
     \<lparr>db_previews := [(''p1'', fenced_preview)],
      db_policies := [((''demo'', ''shop''), (pw_policy fenced_preview)\<lparr>pp_enabled := True\<rparr>)]\<rparr>"

definition race_call :: call where
  "race_call = demo_call\<lparr>cx_claim := Some \<lparr>cl_id = ''p1'', cl_version = 3\<rparr>\<rparr>"

lemma race_new:
  "new_composition demo_catalog demo_service (demo_request ''8h0m0s'') (8 * hour) 7 race_call =
     new_composition demo_catalog demo_service (demo_request ''8h0m0s'') (8 * hour) 7 demo_call"
  by code_simp

lemma race_created:
  "\<exists>c d1. CreateComposition demo_catalog demo_service (demo_request []) ''key'' 7 race_call race_db = (Inr c, d1)"
proof -
  have "idempotency_key_error ''key'' = None" by (simp add: idempotency_key_error_def)
  then show ?thesis
    using demo_canonical race_new[unfolded demo_new]
    by (simp add: CreateComposition_def create_replayed_def ReplayCreate_def race_call_def race_db_def demo_call_def
        fenced_preview_def zero_pr_preview_def empty_db_def
        Create_def Let_def attempt_def tx_seq_def tx_bind_def guardPRPreview_def
        owner_of_def create_replay_def commit_tx_def create_body_def validateBuildOverrides_def
        created_composition_def zero_composition_def OverrideNames_def tx_return_def tx_read_def tx_call_def
        count_active_def insert_composition_def insert_key_def link_preview_def saveOperation_def tx_write_def
        insertRevision_def insertActivity_def demo_request_def sorted_keys_def image_of_def zero_override_def
        get_or_def demo_service_def)
qed

lemma stop_race_orphans_composition_witness:
  "\<exists>c d1 q d2. CreateComposition demo_catalog demo_service (demo_request []) ''key'' 7 race_call race_db = (Inr c, d1) \<and>
     SavePRPreview (stopped_preview 8 fenced_preview) catalog_demo_call d1 = (Inr q, d2) \<and>
     pw_terminal q \<and> owner_of (c_id c) d2 = None"
proof -
  obtain c d1 where made:
    "CreateComposition demo_catalog demo_service (demo_request []) ''key'' 7 race_call race_db = (Inr c, d1)"
    using race_created by blast
  have "wf_db race_db" by (simp add: race_db_def wf_db_def empty_db_def)
  moreover have "list_all (\<lambda>(j, q). pw_composition_id q = [] \<or> has_key (db_compositions race_db) (pw_composition_id q))
      (db_previews race_db)" "map_of (db_previews race_db) ''p1'' = Some fenced_preview"
    "\<not> has_key (db_compositions race_db) (c_id c)"
    by (simp_all add: race_db_def fenced_preview_def zero_pr_preview_def empty_db_def)
  ultimately show ?thesis
    using stop_race_orphans_composition[OF _ _ _ _ _ made, of _ fenced_preview catalog_demo_call 8] made
    by (fastforce simp: fenced_preview_def race_call_def catalog_demo_call_def)
qed

end
