(* ===== verification/Preview_Scan.thy ===== *)
theory Preview_Scan
  imports Preview_Fence
begin

text \<open>
  The scans of the preview controller: a loop over pages of a table that other writers may be
  changing ends, and on success it has dealt with every row. The argument is made once, in a locale
  over the page reads and the step of one row, and interpreted on the scan of a stop event. The scans
  of an access event and of the reconciliation have the same shape; their termination is not proved.
\<close>

section \<open>Pages\<close>

lemma sorted_split_le:
  assumes "sorted (map f xs)" "x \<in> set (drop n xs)" "0 < n" "n < length xs"
  shows "f (last (take n xs)) \<le> f x"
proof -
  have "sorted (map f (take n xs) @ map f (drop n xs))" using assms(1) by (simp flip: map_append)
  moreover have "last (take n xs) \<in> set (take n xs)" using assms(3,4) by (intro last_in_set) auto
  ultimately show ?thesis using assms(2) by (simp add: sorted_append)
qed

text \<open>A page holds the rows after the cursor it was read with, up to the cursor it returns.\<close>

lemma page_law:
  assumes "decodePage key limit (page_rows after limit rows) = (page, cursor)"
    and "list_all (\<lambda>(i, v). key v = i) rows" "0 < limit"
  shows "(\<forall>x \<in> set page. (key x, x) \<in> set rows) \<and>
    (if cursor = [] then {i \<in> fst ` set rows. after < i} \<subseteq> key ` set page
     else cursor \<in> fst ` set rows \<and> after < cursor \<and>
       {i \<in> fst ` set rows. after < i \<and> i \<le> cursor} \<subseteq> key ` set page)"
proof -
  define L where "L = filter (\<lambda>(i, v). after < i) (sort_key fst rows)"
  have L: "set L = {x \<in> set rows. after < fst x}" by (auto simp: L_def)
  have key: "key (snd x) = fst x" if "x \<in> set L" for x using that assms(2) L by (auto simp: list_all_iff)
  have sorted: "sorted (map fst L)" by (simp add: L_def sorted_filter)
  have page: "page = map snd (take limit L) \<and>
      (if limit < length L then cursor = key (last page) else cursor = [] \<and> take limit L = L)"
    using assms(1,3) by (auto simp: decodePage_def page_rows_def L_def[symmetric] take_map min_def split: if_splits)
  then have "set page = snd ` set (take limit L)" by simp
  moreover have "(key \<circ> snd) ` set (take limit L) = fst ` set (take limit L)"
    by (rule image_cong) (auto dest: in_set_takeD key)
  ultimately have keys: "key ` set page = fst ` set (take limit L)" by (simp add: image_comp)
  have rows: "\<forall>x \<in> set page. (key x, x) \<in> set rows"
    using page key L by (fastforce dest!: in_set_takeD)
  show ?thesis
  proof (cases "limit < length L")
    case False
    then have "fst ` set L = key ` set page" using page keys by simp
    then show ?thesis using False page rows L by auto
  next
    case True
    have "take limit L \<noteq> []" using True assms(3) by auto
    then have last: "last (take limit L) \<in> set (take limit L)" "last page = snd (last (take limit L))"
      using page by (auto simp: last_map intro: last_in_set)
    have cursor: "cursor = fst (last (take limit L))"
      using True page key[OF in_set_takeD[OF last(1)]] last(2) by simp
    have "fst x \<in> fst ` set (take limit L)" if "x \<in> set L" "fst x \<le> cursor" for x
    proof (cases "x \<in> set (take limit L)")
      case False
      then have "x \<in> set (drop limit L)" using that(1) by (metis append_take_drop_id Un_iff set_append)
      then have "fst x = cursor" using sorted_split_le[OF sorted _ assms(3) True] that(2) cursor by fastforce
      then show ?thesis using cursor last(1) by blast
    qed blast
    then have "{i \<in> fst ` set rows. after < i \<and> i \<le> cursor} \<subseteq> fst ` set (take limit L)" using L by auto
    moreover have "after < cursor" "cursor \<in> fst ` set rows" using cursor in_set_takeD[OF last(1)] L by auto
    ultimately show ?thesis using rows keys by auto
  qed
qed

section \<open>The scan\<close>

text \<open>
  \<open>ids\<close> are the keys of the table; \<open>current x\<close> says that the row \<open>x\<close> still stands for the stored one,
  \<open>settled i\<close> that the row of \<open>i\<close> needs nothing more.
\<close>

locale paged_scan =
  fixes read_page :: "string \<Rightarrow> ('a list \<times> string) gm" and step :: "'a \<Rightarrow> 'b \<Rightarrow> 'b gm" and w :: github_env
    and key :: "'a \<Rightarrow> string" and sound :: "gstate \<Rightarrow> bool" and ids :: "gstate \<Rightarrow> string set"
    and current :: "'a \<Rightarrow> gstate \<Rightarrow> bool" and settled :: "string \<Rightarrow> gstate \<Rightarrow> bool"
  assumes finite_ids: "finite (ids s)"
    and read_keeps: "sound s \<Longrightarrow> read_page after w s = (r, s') \<Longrightarrow>
      sound s' \<and> ids s' = ids s \<and> (settled i s \<longrightarrow> settled i s')"
    and read_rows: "sound s \<Longrightarrow> read_page after w s = (Inr (rows, cursor), s') \<Longrightarrow>
      (\<forall>x \<in> set rows. current x s') \<and>
      (if cursor = [] then {i \<in> ids s. after < i} \<subseteq> key ` set rows
       else cursor \<in> ids s \<and> after < cursor \<and> {i \<in> ids s. after < i \<and> i \<le> cursor} \<subseteq> key ` set rows)"
    and step_keeps: "sound s \<Longrightarrow> current x s \<Longrightarrow> step x acc w s = (res, s') \<Longrightarrow>
      sound s' \<and> ids s' = ids s \<and> (settled i s \<longrightarrow> settled i s') \<and> (current y s \<longrightarrow> current y s')"
    and step_settles: "sound s \<Longrightarrow> current x s \<Longrightarrow> step x acc w s = (Inr acc', s') \<Longrightarrow> settled (key x) s'"
begin

definition ahead :: "string \<Rightarrow> gstate \<Rightarrow> string set" where
  "ahead after s = {i \<in> ids s. after < i}"

lemma card_ahead: "card (ahead after s) \<le> card (ids s)"
  using finite_ids by (intro card_mono) (auto simp: ahead_def)

lemma page_progress:
  assumes "sound s" "read_page after w s = (Inr (rows, cursor), s')" "cursor \<noteq> []"
  shows "card (ahead cursor s') < card (ahead after s)"
  using read_rows[OF assms(1,2)] read_keeps[OF assms(1,2)] assms(3) finite_ids
  by (intro psubset_card_mono) (auto simp: ahead_def)

text \<open>More fuel than rows ahead is as good as any other such amount.\<close>

lemma fuel_enough:
  shows "sound s \<Longrightarrow> card (ahead after s) < n \<Longrightarrow> card (ahead after s) < m \<Longrightarrow>
      cursor_pages n read_page step after acc w s = cursor_pages m read_page step after acc w s"
proof (induction n arbitrary: m after acc s)
  case (Suc n)
  obtain k where m: "m = Suc k" using Suc.prems(3) by (cases m) auto
  have rows: "cursor_rows n read_page step cursor rows acc w t = cursor_rows k read_page step cursor rows acc w t"
    if "sound t" "\<forall>x \<in> set rows. current x t" "cursor = [] \<or> card (ahead cursor t) < n \<and> card (ahead cursor t) < k"
    for cursor rows acc t
    using that
  proof (induction rows arbitrary: acc t)
    case Nil
    then show ?case using Suc.IH[of t cursor k acc] by auto
  next
    case (Cons x xs)
    show ?case
    proof (cases "step x acc w t")
      case (Pair r t')
      have kept: "sound t'" "ids t' = ids t" "\<forall>y \<in> set xs. current y t'"
        using step_keeps[OF Cons.prems(1) _ Pair] Cons.prems(2) by auto
      then show ?thesis
        using Cons.IH[OF kept(1,3)] Cons.prems(3) Pair by (simp add: g_bind_def ahead_def split: sum.split)
    qed
  qed
  show ?case
  proof (cases "read_page after w s")
    case (Pair r s')
    show ?thesis
    proof (cases r)
      case (Inr page)
      then obtain xs cursor where page: "read_page after w s = (Inr (xs, cursor), s')" using Pair by (cases page) auto
      note kept = read_keeps[OF Suc.prems(1) page] and law = read_rows[OF Suc.prems(1) page]
      then have "cursor = [] \<or> card (ahead cursor s') < n \<and> card (ahead cursor s') < k"
        using page_progress[OF Suc.prems(1) page] Suc.prems(2,3) m by force
      then show ?thesis using rows[of s' xs cursor acc] kept law page m by (simp add: g_bind_def)
    qed (simp add: m g_bind_def Pair)
  qed
qed simp

text \<open>With that much fuel the scan is never cut short.\<close>

lemma fuel_not_spent:
  assumes "\<And>after s. fst (read_page after w s) \<noteq> Inl out_of_fuel"
    and "\<And>x acc s. fst (step x acc w s) \<noteq> Inl out_of_fuel"
  shows "sound s \<Longrightarrow> card (ahead after s) < n \<Longrightarrow>
    fst (cursor_pages n read_page step after acc w s) \<noteq> Inl out_of_fuel"
proof (induction n arbitrary: after acc s)
  case (Suc n)
  have rows: "fst (cursor_rows n read_page step cursor rows acc w t) \<noteq> Inl out_of_fuel"
    if "sound t" "\<forall>x \<in> set rows. current x t" "cursor = [] \<or> card (ahead cursor t) < n" for cursor rows acc t
    using that
  proof (induction rows arbitrary: acc t)
    case Nil
    then show ?case using Suc.IH[of t cursor acc] by (auto simp: g_return_def)
  next
    case (Cons x xs)
    show ?case
    proof (cases "step x acc w t")
      case (Pair r t')
      have kept: "sound t'" "ids t' = ids t" "\<forall>y \<in> set xs. current y t'"
        using step_keeps[OF Cons.prems(1) _ Pair] Cons.prems(2) by auto
      then show ?thesis
        using Cons.IH[OF kept(1,3)] Cons.prems(3) Pair assms(2)[of x acc t]
        by (auto simp: g_bind_def ahead_def split: sum.split)
    qed
  qed
  show ?case
  proof (cases "read_page after w s")
    case (Pair r s')
    show ?thesis
    proof (cases r)
      case (Inr page)
      then obtain xs cursor where page: "read_page after w s = (Inr (xs, cursor), s')" using Pair by (cases page) auto
      note kept = read_keeps[OF Suc.prems(1) page] and law = read_rows[OF Suc.prems(1) page]
      then have "cursor = [] \<or> card (ahead cursor s') < n" using page_progress[OF Suc.prems(1) page] Suc.prems(2) by force
      then show ?thesis using rows[of s' xs cursor acc] kept law page by (simp add: g_bind_def)
    qed (use assms(1)[of after s] Pair in \<open>auto simp: g_bind_def\<close>)
  qed
qed simp

text \<open>A scan that succeeds has settled every row ahead.\<close>

lemma scan_settles:
  "sound s \<Longrightarrow> cursor_pages n read_page step after acc w s = (Inr acc', s') \<Longrightarrow>
     sound s' \<and> ids s' = ids s \<and> (\<forall>i. settled i s \<longrightarrow> settled i s') \<and> (\<forall>i \<in> ahead after s. settled i s')"
proof (induction n arbitrary: after acc s)
  case 0
  then show ?case by (simp add: g_fail_def)
next
  case (Suc n)
  have rows: "sound s' \<and> ids s' = ids t \<and> (\<forall>x \<in> set rows. settled (key x) s') \<and> (\<forall>i. settled i t \<longrightarrow> settled i s') \<and>
      (cursor \<noteq> [] \<longrightarrow> (\<forall>i \<in> ahead cursor t. settled i s'))"
    if "sound t" "\<forall>x \<in> set rows. current x t" "cursor_rows n read_page step cursor rows acc w t = (Inr acc', s')"
    for cursor rows acc t
    using that
  proof (induction rows arbitrary: acc t)
    case Nil
    then show ?case using Suc.IH[of t cursor acc] by (auto simp: g_return_def split: if_splits)
  next
    case (Cons x xs)
    from Cons.prems(3) obtain b t' where x: "step x acc w t = (Inr b, t')"
      and xs: "cursor_rows n read_page step cursor xs b w t' = (Inr acc', s')"
      by (auto simp: g_bind_def split: prod.splits sum.splits)
    have kept: "sound t'" "ids t' = ids t" "\<forall>y \<in> set xs. current y t'" "\<forall>i. settled i t \<longrightarrow> settled i t'"
      using step_keeps[OF Cons.prems(1) _ x] Cons.prems(2) by auto
    have "settled (key x) t'" using step_settles[OF Cons.prems(1) _ x] Cons.prems(2) by simp
    then show ?case using Cons.IH[OF kept(1,3) xs] kept(2,4) by (auto simp: ahead_def)
  qed
  from Suc.prems(2) obtain xs cursor t where page: "read_page after w s = (Inr (xs, cursor), t)"
    and rest: "cursor_rows n read_page step cursor xs acc w t = (Inr acc', s')"
    by (auto simp: g_bind_def split: prod.splits sum.splits)
  note kept = read_keeps[OF Suc.prems(1) page] and law = read_rows[OF Suc.prems(1) page]
  have seen: "sound s' \<and> ids s' = ids t" "\<forall>x \<in> set xs. settled (key x) s'" "\<forall>i. settled i t \<longrightarrow> settled i s'"
    "cursor \<noteq> [] \<longrightarrow> (\<forall>i \<in> ahead cursor t. settled i s')"
    using rows[OF _ _ rest] kept law by blast+
  have "settled i s'" if "i \<in> ahead after s" for i
  proof -
    have "i \<in> key ` set xs \<or> cursor \<noteq> [] \<and> i \<in> ahead cursor t"
      using that law kept by (auto simp: ahead_def split: if_splits)
    then show ?thesis using seen(2,4) by blast
  qed
  then show ?case using seen(1,3) kept by metis
qed

end

section \<open>The previews table\<close>

definition previews_sound :: "db \<Rightarrow> bool" where
  "previews_sound d \<longleftrightarrow> wf_map (db_previews d) \<and> list_all (\<lambda>(i, p). pw_id p = i \<and> i \<noteq> []) (db_previews d)"

definition preview_ids :: "db \<Rightarrow> string set" where
  "preview_ids d = fst ` set (db_previews d)"

lemma card_preview_ids: "card (preview_ids d) \<le> length (db_previews d)"
  unfolding preview_ids_def by (metis card_length length_map set_map)

text \<open>No stored preview of this identifier has the property \<open>bad\<close>.\<close>

definition spared :: "(pr_preview \<Rightarrow> bool) \<Rightarrow> string \<Rightarrow> db \<Rightarrow> bool" where
  "spared bad i d \<longleftrightarrow> (case map_of (db_previews d) i of None \<Rightarrow> True | Some p \<Rightarrow> \<not> bad p)"

text \<open>Other writers neither add nor remove previews, and never give one the property.\<close>

definition calm :: "(pr_preview \<Rightarrow> bool) \<Rightarrow> github_env \<Rightarrow> bool" where
  "calm bad w \<longleftrightarrow> (\<forall>n d. previews_sound d \<longrightarrow>
     previews_sound (gh_others w n d) \<and> preview_ids (gh_others w n d) = preview_ids d \<and>
     (\<forall>i. spared bad i d \<longrightarrow> spared bad i (gh_others w n d)))"

lemma calmD:
  assumes "calm bad w" "previews_sound d"
  shows "previews_sound (gh_others w n d)" "preview_ids (gh_others w n d) = preview_ids d"
    and "spared bad i d \<Longrightarrow> spared bad i (gh_others w n d)"
  using assms by (auto simp: calm_def)

lemma previews_sound_update:
  assumes "previews_sound d" "pw_id p = i" "i \<in> preview_ids d" "db_previews d' = AList.update i p (db_previews d)"
  shows "previews_sound d' \<and> preview_ids d' = preview_ids d"
proof -
  have "distinct (map fst (AList.update i p (db_previews d)))"
    using assms(1) by (simp add: previews_sound_def wf_map_def distinct_update)
  moreover have "list_all (\<lambda>(i, p). pw_id p = i \<and> i \<noteq> []) (AList.update i p (db_previews d))"
    using assms(1-3) set_update_subset[of i p "db_previews d"]
    by (fastforce simp: previews_sound_def list_all_iff preview_ids_def)
  ultimately show ?thesis
    using assms(3,4) by (auto simp: previews_sound_def wf_map_def preview_ids_def dom_update)
qed

text \<open>Saving a preview that is stored: the row is replaced, or left because nothing changed.\<close>

lemma record_activity_previews:
  "record_activity a cx d = Inr (u, d') \<Longrightarrow> db_previews d' = db_previews d"
  by (auto simp: record_activity_def insertActivity_def tx_elims add_activity_def Let_def split: if_splits)

lemma SavePRPreview_stored:
  assumes "SavePRPreview p cx d = (r, d')" "pw_id p \<in> preview_ids d"
  shows "db_previews d' = db_previews d \<and>
      (\<forall>q. r = Inr q \<longrightarrow> (\<exists>old. map_of (db_previews d) (pw_id p) = Some old \<and>
        same_preview (old\<lparr>pw_updated_at := cx_now cx\<rparr>) (p\<lparr>pw_updated_at := cx_now cx\<rparr>) \<and>
        q = p\<lparr>pw_updated_at := pw_updated_at old\<rparr>)) \<or>
    (\<exists>q. r = Inr q \<and> q = p\<lparr>pw_updated_at := cx_now cx, pw_version := pw_version p + 1\<rparr> \<and>
      db_previews d' = AList.update (pw_id p) q (db_previews d))"
proof (cases r)
  case (Inl e)
  then have "d' = d" using assms(1) by (auto simp: SavePRPreview_def raw_transaction_def split: sum.splits if_splits)
  then show ?thesis using Inl by simp
next
  case (Inr q)
  have "has_key (db_previews d) (pw_id p)" using assms(2) by (simp add: preview_ids_def has_key_iff)
  then have "save_preview_body (p\<lparr>pw_updated_at := cx_now cx\<rparr>) cx d = Inr (q, d')"
    "pw_version p \<noteq> 0"
    using assms(1) Inr
    by (auto simp: SavePRPreview_def raw_transaction_def raw_def save_preview_body_def insert_preview_def tx_elims
        split: sum.splits if_splits)
  then show ?thesis
    using Inr
    by (auto simp: save_preview_body_def raw_def lock_preview_def update_preview_def saved_preview_def preview_history_def
        tx_elims Let_def dest!: record_activity_previews split: if_splits option.splits)
qed

lemma read_previews_run:
  assumes "read_previews after w s = (r, s')"
  shows "g_db s' = gh_others w (g_tick s) (g_db s) \<and>
    (\<forall>rows cursor. r = Inr (rows, cursor) \<longrightarrow>
       decodePage pw_id 100 (page_rows after 100 (db_previews (g_db s'))) = (rows, cursor)) \<and>
    r \<noteq> Inl out_of_fuel"
  using assms
  by (auto simp: read_previews_def g_query_def g_store_def tx_run_def PRPreviews_page_def raw_def tx_elims Let_def
      tx_read_def out_of_fuel_def split: sum.splits if_splits prod.splits)

lemma g_save_as_run:
  assumes "g_save_as ctx p w s = (r, s')"
  shows "\<exists>cx. SavePRPreview p cx (gh_others w (g_tick s) (g_db s)) = (r, g_db s') \<and> g_log s' = g_log s"
  using assms by (auto simp: g_save_as_def g_store_def Let_def split: prod.splits)

text \<open>Saving a stored preview that lacks the property.\<close>

lemma save_spares:
  assumes "g_save_as ctx p w s = (r, s')" "calm bad w" "previews_sound (g_db s)" "pw_id p \<in> preview_ids (g_db s)"
    and same: "\<And>a b. same_preview a b \<Longrightarrow> bad a = bad b"
    and stamp: "\<And>q t v. bad (q\<lparr>pw_updated_at := t, pw_version := v\<rparr>) = bad q" "\<And>q t. bad (q\<lparr>pw_updated_at := t\<rparr>) = bad q"
    and "\<not> bad p"
  shows "previews_sound (g_db s') \<and> preview_ids (g_db s') = preview_ids (g_db s) \<and>
    (\<forall>i. spared bad i (g_db s) \<longrightarrow> spared bad i (g_db s')) \<and> (\<forall>q. r = Inr q \<longrightarrow> spared bad (pw_id p) (g_db s'))"
proof -
  let ?d = "gh_others w (g_tick s) (g_db s)"
  obtain cx where save: "SavePRPreview p cx ?d = (r, g_db s')" using g_save_as_run[OF assms(1)] by blast
  note others = calmD[OF assms(2,3), where n = "g_tick s"]
  have stored: "pw_id p \<in> preview_ids ?d" using assms(4) others(2) by simp
  from SavePRPreview_stored[OF save stored] show ?thesis
  proof (elim disjE exE conjE)
    assume rows: "db_previews (g_db s') = db_previews ?d"
      and kept: "\<forall>q. r = Inr q \<longrightarrow> (\<exists>old. map_of (db_previews ?d) (pw_id p) = Some old \<and>
        same_preview (old\<lparr>pw_updated_at := cx_now cx\<rparr>) (p\<lparr>pw_updated_at := cx_now cx\<rparr>) \<and>
        q = p\<lparr>pw_updated_at := pw_updated_at old\<rparr>)"
    have "previews_sound (g_db s') \<and> preview_ids (g_db s') = preview_ids ?d"
      using others(1) rows by (simp add: previews_sound_def preview_ids_def)
    moreover have "spared bad j (g_db s') = spared bad j ?d" for j by (simp add: spared_def rows)
    moreover have "spared bad (pw_id p) ?d" if "r = Inr q" for q
      using kept that same stamp(2) \<open>\<not> bad p\<close> by (fastforce simp: spared_def)
    ultimately show ?thesis using others by blast
  next
    fix q
    assume q: "r = Inr q" "q = p\<lparr>pw_updated_at := cx_now cx, pw_version := pw_version p + 1\<rparr>"
      "db_previews (g_db s') = AList.update (pw_id p) q (db_previews ?d)"
    have "previews_sound (g_db s') \<and> preview_ids (g_db s') = preview_ids ?d"
      by (rule previews_sound_update[OF others(1) _ stored q(3)]) (simp add: q(2))
    moreover have "spared bad j (g_db s')" if "j = pw_id p \<or> spared bad j ?d" for j
      using that q stamp(1) \<open>\<not> bad p\<close> by (auto simp: spared_def update_conv')
    ultimately show ?thesis using others by blast
  qed
qed

text \<open>Statements do not fail for want of fuel.\<close>

definition unspent :: "'a tx \<Rightarrow> bool" where
  "unspent m \<longleftrightarrow> (\<forall>cx d. m cx d \<noteq> Inl out_of_fuel)"

lemma unspent_intros:
  "unspent (tx_return a)" "unspent (tx_write f)" "unspent (tx_call g)" "unspent (tx_read h)"
  "\<lbrakk>unspent m; \<And>x. unspent (k x)\<rbrakk> \<Longrightarrow> unspent (tx_bind m k)"
  "unspent l \<Longrightarrow> unspent n \<Longrightarrow> unspent (tx_seq l n)"
  "unspent m \<Longrightarrow> unspent (raw action m)" "unspent m \<Longrightarrow> unspent (attempt action m)"
  by (auto simp: unspent_def tx_return_def tx_write_def tx_call_def tx_read_def tx_bind_def tx_seq_def raw_def
      attempt_def unavailable_def out_of_fuel_def split: sum.split)

lemma SavePRPreview_error: "fst (SavePRPreview p cx d) \<noteq> Inl out_of_fuel"
proof -
  have activity: "unspent (record_activity a)" for a
    unfolding record_activity_def insertActivity_def by (auto intro!: unspent_intros simp: unspent_def attempt_def unavailable_def out_of_fuel_def Let_def
        tx_call_def tx_bind_def)
  have "unspent (insert_preview p)" "unspent (lock_preview p)" "unspent (update_preview p)" for p
    unfolding insert_preview_def lock_preview_def update_preview_def
    by (auto simp: unspent_def raw_def conflict_def out_of_fuel_def Let_def split: option.split)
  then have "unspent (save_preview_body p)" for p
    using activity unfolding save_preview_body_def saved_preview_def preview_history_def
    by (simp add: unspent_intros)
  then show ?thesis
    by (auto simp: SavePRPreview_def raw_transaction_def raw_def unspent_def out_of_fuel_def split: sum.split)
qed

section \<open>Stop events\<close>

lemma matches_stamp [simp]:
  "matchesPRStopEvent (p\<lparr>pw_updated_at := t\<rparr>) event = matchesPRStopEvent p event"
  "matchesPRStopEvent (p\<lparr>pw_updated_at := t, pw_version := v\<rparr>) event = matchesPRStopEvent p event"
  by (simp_all add: matchesPRStopEvent_def)

lemma matches_same:
  assumes "same_preview a b"
  shows "matchesPRStopEvent a event = matchesPRStopEvent b event"
proof -
  have "a\<lparr>pw_builds := []\<rparr> = b\<lparr>pw_builds := []\<rparr>" using assms by (simp add: same_preview_def)
  moreover have "matchesPRStopEvent (c\<lparr>pw_builds := []\<rparr>) event = matchesPRStopEvent c event" for c
    by (simp add: matchesPRStopEvent_def)
  ultimately show ?thesis by metis
qed

lemma stopped_by_done: "\<not> matchesPRStopEvent (stopped_by event p) event" "pw_id (stopped_by event p) = pw_id p"
  by (simp_all add: matchesPRStopEvent_def stopped_by_def terminal_preview_def)

text \<open>A row of a page stands for the stored one as far as the event goes.\<close>

definition stands_for :: "(pr_preview \<Rightarrow> bool) \<Rightarrow> pr_preview \<Rightarrow> gstate \<Rightarrow> bool" where
  "stands_for bad p s \<longleftrightarrow> pw_id p \<in> preview_ids (g_db s) \<and> (\<not> bad p \<longrightarrow> spared bad (pw_id p) (g_db s))"

lemma read_previews_stands:
  assumes "calm bad w" "previews_sound (g_db s)" "read_previews after w s = (Inr (rows, cursor), s')"
  shows "(\<forall>p \<in> set rows. stands_for bad p s') \<and>
    (if cursor = [] then {i \<in> preview_ids (g_db s). after < i} \<subseteq> pw_id ` set rows
     else cursor \<in> preview_ids (g_db s) \<and> after < cursor \<and>
       {i \<in> preview_ids (g_db s). after < i \<and> i \<le> cursor} \<subseteq> pw_id ` set rows)"
proof -
  have db: "g_db s' = gh_others w (g_tick s) (g_db s)"
    "decodePage pw_id 100 (page_rows after 100 (db_previews (g_db s'))) = (rows, cursor)"
    using read_previews_run[OF assms(3)] by auto
  have now: "previews_sound (g_db s')" "preview_ids (g_db s') = preview_ids (g_db s)"
    using calmD(1,2)[OF assms(1,2)] db(1) by simp_all
  then have keys: "list_all (\<lambda>(i, p). pw_id p = i) (db_previews (g_db s'))"
    by (auto simp: previews_sound_def list_all_iff)
  have "stands_for bad p s'" if "(pw_id p, p) \<in> set (db_previews (g_db s'))" for p
  proof -
    have "map_of (db_previews (g_db s')) (pw_id p) = Some p"
      using that now(1) by (simp add: previews_sound_def wf_map_def)
    then show ?thesis using that by (force simp: stands_for_def spared_def preview_ids_def)
  qed
  then show ?thesis using page_law[OF db(2) keys zero_less_numeral] unfolding now(2)[symmetric]
    by (simp add: preview_ids_def)
qed

interpretation stops: paged_scan read_previews "stop_row event" w pw_id
  "\<lambda>s. calm (\<lambda>p. matchesPRStopEvent p event) w \<and> previews_sound (g_db s)" "\<lambda>s. preview_ids (g_db s)"
  "stands_for (\<lambda>p. matchesPRStopEvent p event)" "\<lambda>i s. spared (\<lambda>p. matchesPRStopEvent p event) i (g_db s)"
  for event w
proof
  let ?bad = "\<lambda>p. matchesPRStopEvent p event"
  fix s s' :: gstate and x y :: pr_preview and acc u :: unit and after cursor i :: string and r res and rows
  show "finite (preview_ids (g_db s))" by (simp add: preview_ids_def)
  assume sound: "calm ?bad w \<and> previews_sound (g_db s)"
  show "(calm ?bad w \<and> previews_sound (g_db s')) \<and> preview_ids (g_db s') = preview_ids (g_db s) \<and>
      (spared ?bad i (g_db s) \<longrightarrow> spared ?bad i (g_db s'))" if "read_previews after w s = (r, s')"
    using read_previews_run[OF that] calmD[OF conjunct1[OF sound] conjunct2[OF sound]] sound by simp
  show "(\<forall>p \<in> set rows. stands_for ?bad p s') \<and>
      (if cursor = [] then {i \<in> preview_ids (g_db s). after < i} \<subseteq> pw_id ` set rows
       else cursor \<in> preview_ids (g_db s) \<and> after < cursor \<and>
         {i \<in> preview_ids (g_db s). after < i \<and> i \<le> cursor} \<subseteq> pw_id ` set rows)"
    if "read_previews after w s = (Inr (rows, cursor), s')"
    using read_previews_stands[OF conjunct1[OF sound] conjunct2[OF sound] that] .
  assume x: "stands_for ?bad x s"
  have step: "previews_sound (g_db s') \<and> preview_ids (g_db s') = preview_ids (g_db s) \<and>
      (\<forall>i. spared ?bad i (g_db s) \<longrightarrow> spared ?bad i (g_db s')) \<and>
      (\<forall>u. res = Inr u \<longrightarrow> spared ?bad (pw_id x) (g_db s'))" if "stop_row event x acc w s = (res, s')" for res :: "unit result"
  proof (cases "?bad x")
    case False
    then show ?thesis using that x sound by (auto simp: stop_row_def g_return_def stands_for_def)
  next
    case True
    obtain q s1 where run: "g_save_as (as_actor (se_sender_id event) (se_sender_login event)) (stopped_by event x) w s = (q, s1)"
      by fastforce
    then have save: "s1 = s'" "\<And>u. res = Inr u \<Longrightarrow> \<exists>p. q = Inr p"
      using that True by (auto simp: stop_row_def g_bind_def g_return_def split: sum.splits)
    have stored: "pw_id (stopped_by event x) \<in> preview_ids (g_db s)"
      using x by (simp add: stands_for_def stopped_by_done)
    show ?thesis
      using save_spares[OF run conjunct1[OF sound] conjunct2[OF sound] stored matches_same] save
      by (auto simp: stopped_by_done)
  qed
  show "(calm ?bad w \<and> previews_sound (g_db s')) \<and> preview_ids (g_db s') = preview_ids (g_db s) \<and>
      (spared ?bad i (g_db s) \<longrightarrow> spared ?bad i (g_db s')) \<and> (stands_for ?bad y s \<longrightarrow> stands_for ?bad y s')"
    if "stop_row event x acc w s = (res, s')"
    using step[OF that] sound by (auto simp: stands_for_def)
  show "spared ?bad (pw_id x) (g_db s')" if "stop_row event x acc w s = (Inr u, s')" using step[OF that] by blast
qed

lemma stop_row_error: "fst (stop_row event p u w s) \<noteq> Inl out_of_fuel"
  using SavePRPreview_error
  by (auto simp: stop_row_def g_bind_def g_return_def g_save_as_def g_store_def Let_def
      split: prod.splits sum.splits) (metis fst_conv)

text \<open>
  C13: Applying a stop event ends, and stops every preview it covers. As long as other writers add no
  preview and make none match the event again, any fuel above the number of stored previews gives
  the same outcome, which is never that of fuel running out, and when it is a success, no stored
  preview matches the event any more.
\<close>

theorem stop_event_ends:
  assumes "calm (\<lambda>p. matchesPRStopEvent p event) w" "previews_sound (g_db s)"
  shows "\<exists>res s'. (\<forall>fuel. length (db_previews (g_db s)) < fuel \<longrightarrow> applyPRStopEvent fuel event w s = (res, s')) \<and>
    res \<noteq> Inl out_of_fuel \<and>
    (res = Inr () \<longrightarrow> list_all (\<lambda>(i, p). \<not> matchesPRStopEvent p event) (db_previews (g_db s')))"
proof -
  let ?bad = "\<lambda>p. matchesPRStopEvent p event" and ?n = "Suc (length (db_previews (g_db s)))"
  have sound: "calm ?bad w \<and> previews_sound (g_db s)" using assms by simp
  obtain res s' where run: "applyPRStopEvent ?n event w s = (res, s')" by fastforce
  have ahead: "card (stops.ahead [] s) < fuel" if "length (db_previews (g_db s)) < fuel" for fuel
    using that stops.card_ahead[of "[]" s] card_preview_ids[of "g_db s"] by linarith
  have "applyPRStopEvent fuel event w s = (res, s')" if "length (db_previews (g_db s)) < fuel" for fuel
    using stops.fuel_enough[OF sound ahead[OF that] ahead[of ?n]] run by (simp add: applyPRStopEvent_def)
  moreover have "fst (read_previews after w t) \<noteq> Inl out_of_fuel" "fst (stop_row event p u w t) \<noteq> Inl out_of_fuel" for after t p u
    using read_previews_run[of after w t] stop_row_error[of event p u w t] by (metis prod.collapse)+
  then have "res \<noteq> Inl out_of_fuel"
    using stops.fuel_not_spent[OF _ _ sound ahead[of ?n]] run by (metis applyPRStopEvent_def fst_conv lessI)
  moreover have "list_all (\<lambda>(i, p). \<not> ?bad p) (db_previews (g_db s'))" if ok: "res = Inr ()"
  proof -
    have end_state: "previews_sound (g_db s')" "preview_ids (g_db s') = preview_ids (g_db s)"
      "\<forall>i \<in> stops.ahead [] s. spared ?bad i (g_db s')"
      using stops.scan_settles[OF sound, of ?n "[]" "()" "()" s'] run ok by (simp_all add: applyPRStopEvent_def)
    have "\<not> ?bad p" if p: "(i, p) \<in> set (db_previews (g_db s'))" for i p
    proof -
      have "i \<in> preview_ids (g_db s)" using p end_state(2) by (force simp: preview_ids_def)
      moreover have "i \<noteq> []" using p end_state(1) by (auto simp: previews_sound_def list_all_iff)
      ultimately have "i \<in> stops.ahead [] s" by (cases i) (simp_all add: stops.ahead_def)
      then show ?thesis
        using p end_state(1,3) by (fastforce simp: spared_def previews_sound_def wf_map_def)
    qed
    then show ?thesis by (auto simp: list_all_iff)
  qed
  ultimately show ?thesis by blast
qed

definition demo_pr :: github_pr where
  "demo_pr = \<lparr>gp_updated_at = 5, gp_number = 7, gp_state = ''closed'', gp_url = [], gp_head_sha = ''abc'',
     gp_head_repo = 1, gp_base_repo = 1, gp_labels = []\<rparr>"

definition demo_stop :: stop_event where
  "demo_stop = \<lparr>se_action = ''closed'', se_pr = demo_pr, se_repository = 0, se_label = [], se_sender_id = 7,
     se_sender_login = ''octocat''\<rparr>"

definition demo_previews :: gstate where
  "demo_previews = \<lparr>g_db = empty_db\<lparr>db_previews := [(''p1'', fenced_preview)]\<rparr>, g_tick = 0, g_log = []\<rparr>"

lemma stop_event_ends_witness:
  "applyPRStopEvent 2 demo_stop quiet_env demo_previews = applyPRStopEvent 9 demo_stop quiet_env demo_previews \<and>
   fst (applyPRStopEvent 2 demo_stop quiet_env demo_previews) \<noteq> Inl out_of_fuel"
proof -
  have "calm bad quiet_env" for bad by (simp add: calm_def quiet_env_def)
  moreover have "previews_sound (g_db demo_previews)"
    by (simp add: demo_previews_def previews_sound_def wf_map_def fenced_preview_def)
  moreover have "length (db_previews (g_db demo_previews)) = 1" by (simp add: demo_previews_def)
  ultimately show ?thesis using stop_event_ends[of demo_stop quiet_env demo_previews] by fastforce
qed

end
