(* ===== verification/Preview_Deploy.thy ===== *)
theory Preview_Deploy
  imports Preview_Scan
begin

text \<open>
  What the preview controller may do, read off the log of its calls: it submits a composition only
  right after GitHub confirmed the pull request and its head commit, it destroys one only for a
  preview that has ended, and an ended preview submits nothing.

  The argument is a small logic for the controller's monad. \<open>g_safe I m w\<close> says that \<open>m\<close> keeps the
  invariant \<open>I\<close>; the rules follow the shape of the program, and the facts about the calls are in
  the collection \<open>g_intros\<close>.
\<close>

section \<open>Keeping an invariant\<close>

named_theorems g_intros

definition g_safe :: "(gstate \<Rightarrow> bool) \<Rightarrow> 'a gm \<Rightarrow> github_env \<Rightarrow> bool" where
  "g_safe I m w \<longleftrightarrow> (\<forall>s. I s \<longrightarrow> I (snd (m w s)))"

text \<open>What a program returns.\<close>

definition g_gives :: "'a gm \<Rightarrow> ('a \<Rightarrow> bool) \<Rightarrow> github_env \<Rightarrow> bool" where
  "g_gives m V w \<longleftrightarrow> (\<forall>s a. fst (m w s) = Inr a \<longrightarrow> V a)"

lemma g_safe_return [g_intros]: "g_safe I (g_return a) w" and g_safe_fail [g_intros]: "g_safe I (g_fail e) w"
  and g_safe_env [g_intros]: "g_safe I (g_env f) w"
  by (simp_all add: g_safe_def g_return_def g_fail_def g_env_def)

lemma g_safe_bind:
  assumes "g_safe I m w" "g_gives m V w" "\<And>a. V a \<Longrightarrow> g_safe I (f a) w"
  shows "g_safe I (g_bind m f) w"
  unfolding g_safe_def
proof (intro allI impI)
  fix s
  assume s: "I s"
  obtain r s' where run: "m w s = (r, s')" by fastforce
  then have "I s'" using assms(1) s by (metis g_safe_def snd_conv)
  moreover have "V a" if "r = Inr a" for a using assms(2) run that by (metis g_gives_def fst_conv)
  moreover note assms(3)
  ultimately show "I (snd (g_bind m f w s))"
    using run by (cases r) (auto simp: g_bind_def g_safe_def)
qed

lemma g_safe_bind_any [g_intros]:
  "g_safe I m w \<Longrightarrow> (\<And>a. g_safe I (f a) w) \<Longrightarrow> g_safe I (g_bind m f) w"
  by (rule g_safe_bind[of I m w "\<lambda>a. True"]) (simp_all add: g_gives_def)

lemma g_safe_seq [g_intros]: "g_safe I m w \<Longrightarrow> g_safe I n w \<Longrightarrow> g_safe I (g_seq m n) w"
  unfolding g_seq_def by (intro g_intros)

lemma g_safe_try [g_intros]: "g_safe I m w \<Longrightarrow> g_safe I (g_try m) w"
  by (simp add: g_safe_def g_try_def split: prod.split) (metis snd_conv)

lemma g_safe_check [g_intros]: "g_safe I (g_check e) w"
  by (simp add: g_check_def g_intros split: option.split)

lemma g_safe_if [g_intros]: "(b \<Longrightarrow> g_safe I m w) \<Longrightarrow> (\<not> b \<Longrightarrow> g_safe I n w) \<Longrightarrow> g_safe I (if b then m else n) w"
  by simp

lemma g_safe_case_option [g_intros]:
  "(x = None \<Longrightarrow> g_safe I m w) \<Longrightarrow> (\<And>a. x = Some a \<Longrightarrow> g_safe I (f a) w) \<Longrightarrow> g_safe I (case x of None \<Rightarrow> m | Some a \<Rightarrow> f a) w"
  by (simp split: option.split)

lemma g_safe_case_sum [g_intros]:
  "(\<And>e. x = Inl e \<Longrightarrow> g_safe I (m e) w) \<Longrightarrow> (\<And>a. x = Inr a \<Longrightarrow> g_safe I (f a) w) \<Longrightarrow>
     g_safe I (case x of Inl e \<Rightarrow> m e | Inr a \<Rightarrow> f a) w"
  by (simp split: sum.split)

lemma g_safe_case_prod [g_intros]:
  "(\<And>a b. x = (a, b) \<Longrightarrow> g_safe I (f a b) w) \<Longrightarrow> g_safe I (case x of (a, b) \<Rightarrow> f a b) w"
  by (simp split: prod.split)

lemma g_gives_bind:
  assumes "g_gives m V w" "\<And>a. V a \<Longrightarrow> g_gives (f a) U w"
  shows "g_gives (g_bind m f) U w"
  unfolding g_gives_def
proof (intro allI impI)
  fix s b
  assume b: "fst (g_bind m f w s) = Inr b"
  obtain r s' where run: "m w s = (r, s')" by fastforce
  then obtain a where a: "r = Inr a" "fst (f a w s') = Inr b"
    using b by (cases r) (auto simp: g_bind_def)
  then have "V a" using assms(1) run by (metis g_gives_def fst_conv)
  then show "U b" using assms(2) a(2) by (auto simp: g_gives_def)
qed

lemma g_gives_return: "g_gives (g_return a) V w \<longleftrightarrow> V a"
  by (auto simp: g_gives_def g_return_def)

lemma g_gives_fail: "g_gives (g_fail e) V w"
  by (simp add: g_gives_def g_fail_def)

lemma g_gives_any: "g_gives m (\<lambda>a. True) w"
  by (simp add: g_gives_def)

lemma then_stage_safe [g_intros]:
  "g_safe I m w \<Longrightarrow> (\<And>p. g_safe I (f p) w) \<Longrightarrow> g_safe I (then_stage m f) w"
  unfolding then_stage_def by (intro g_intros)

lemma numbered_pages_safe [g_intros]:
  "(\<And>n. g_safe I (read_page n) w) \<Longrightarrow> g_safe I (numbered_pages fuel read_page page) w"
  by (induction fuel arbitrary: page) (auto intro!: g_intros)

lemma cursor_pages_safe:
  assumes "\<And>after. g_safe I (read_page after) w" "\<And>x acc. g_safe I (step x acc) w"
  shows "g_safe I (cursor_pages fuel read_page step after acc) w"
    and "g_safe I (cursor_rows fuel read_page step cursor rows acc) w"
proof -
  show pages: "g_safe I (cursor_pages fuel read_page step after acc) w" for fuel after acc
  proof (induction fuel arbitrary: after acc)
    case (Suc fuel)
    have "g_safe I (cursor_rows fuel read_page step cursor rows acc) w" for cursor rows acc
      by (induction rows arbitrary: acc) (use Suc assms in \<open>auto intro!: g_intros\<close>)
    then show ?case using assms by (auto intro!: g_intros)
  qed (simp add: g_intros)
  show "g_safe I (cursor_rows fuel read_page step cursor rows acc) w"
    by (induction rows arbitrary: acc) (use pages assms in \<open>auto intro!: g_intros\<close>)
qed

section \<open>The log\<close>

definition submission :: "gh_event \<Rightarrow> bool" where
  "submission e \<longleftrightarrow> (case e of Created p req key res \<Rightarrow> True | Updated p i req res \<Rightarrow> True | _ \<Rightarrow> False)"

text \<open>The answer of GitHub just before, the newest event first.\<close>

definition confirmed_head :: "pr_preview \<Rightarrow> gh_event list \<Rightarrow> bool" where
  "confirmed_head p log \<longleftrightarrow>
     (case log of
        Fetched_PR n (Inr pr) # older \<Rightarrow>
          n = pw_number p \<and> pr_requested pr \<and> same_repo pr \<and> gp_head_sha pr = pw_selected_sha p
      | _ \<Rightarrow> False)"

fun log_sound :: "gh_event list \<Rightarrow> bool" where
  "log_sound [] \<longleftrightarrow> True"
| "log_sound (Created p req key res # log) \<longleftrightarrow>
     confirmed_head p log \<and> \<not> pw_terminal p \<and> pw_composition_id p = [] \<and> log_sound log"
| "log_sound (Updated p i req res # log) \<longleftrightarrow>
     confirmed_head p log \<and> \<not> pw_terminal p \<and> pw_composition_id p = i \<and> i \<noteq> [] \<and> log_sound log"
| "log_sound (Destroyed p i res # log) \<longleftrightarrow>
     pw_terminal p \<and> pw_composition_id p = i \<and> i \<noteq> [] \<and> log_sound log"
| "log_sound (e # log) \<longleftrightarrow> log_sound log"

text \<open>Events that neither submit nor destroy a composition.\<close>

definition plain_event :: "gh_event \<Rightarrow> bool" where
  "plain_event e \<longleftrightarrow> \<not> submission e \<and> (case e of Destroyed p i res \<Rightarrow> False | _ \<Rightarrow> True)"

lemma plain_events [simp]:
  "plain_event (Fetched_PR n pr)" "plain_event (Observed c)" "plain_event (Status_Sent i st url)"
  "plain_event (Deployment_Sent sha)" "plain_event (Comment_Sent n)"
  by (simp_all add: plain_event_def submission_def)

lemma log_sound_plain: "plain_event e \<Longrightarrow> log_sound (e # log) = log_sound log"
  by (cases e) (simp_all add: plain_event_def submission_def)

section \<open>An invariant that the calls keep\<close>

text \<open>What the feedback to GitHub leaves of a preview.\<close>

definition same_core :: "pr_preview \<Rightarrow> pr_preview \<Rightarrow> bool" where
  "same_core p q \<longleftrightarrow> pw_id q = pw_id p \<and> pw_terminal q = pw_terminal p \<and> pw_lifecycle q = pw_lifecycle p"

text \<open>
  An invariant kept by plain calls of GitHub, by calls of the store that leave the previews alone,
  and by saving the previews of \<open>may_save\<close>.
\<close>

locale kept_by_calls =
  fixes I :: "gstate \<Rightarrow> bool" and w :: github_env and may_save :: "pr_preview \<Rightarrow> bool"
  assumes asked: "I s \<Longrightarrow> list_all plain_event es \<Longrightarrow> I (s\<lparr>g_tick := g_tick s + 1, g_log := es @ g_log s\<rparr>)"
    and stored: "I s \<Longrightarrow> db_previews d = db_previews (gh_others w (g_tick s) (g_db s)) \<Longrightarrow> list_all plain_event es \<Longrightarrow>
      I (s\<lparr>g_db := d, g_tick := g_tick s + 1, g_log := es @ g_log s\<rparr>)"
    and save: "may_save p \<Longrightarrow> g_safe I (g_save_as ctx p) w"
    and core: "same_core p q \<Longrightarrow> may_save p \<Longrightarrow> may_save q"
begin

lemma ask: "(\<And>r. list_all plain_event (note r)) \<Longrightarrow> g_safe I (g_ask f note) w"
  by (simp add: g_safe_def g_ask_def Let_def asked[simplified])

lemma store:
  assumes "\<And>cx d. db_previews (snd (f w cx d)) = db_previews d" "\<And>r. list_all plain_event (note r)"
  shows "g_safe I (g_store ctx f note) w"
  unfolding g_safe_def
proof (intro allI impI)
  fix s
  assume s: "I s"
  let ?d = "gh_others w (g_tick s) (g_db s)"
  obtain r d where "f w (ctx (gh_call w (g_tick s))) ?d = (r, d)" by fastforce
  moreover from this have "db_previews d = db_previews ?d" using assms(1) by (metis snd_conv)
  ultimately show "I (snd (g_store ctx f note w s))"
    using stored[OF s _ assms(2)] by (simp add: g_store_def)
qed

lemma query: "keeps db_previews m \<Longrightarrow> g_safe I (g_query m) w"
  unfolding g_query_def by (rule store) (auto simp: tx_run_def keeps_def split: sum.split)

lemma controller_calls:
  "g_safe I (g_repository policy) w" "g_safe I g_now w" "g_safe I g_leads w" "g_safe I (fetch_pr r n) w"
  "g_safe I (g_get i) w" "g_safe I (g_status r k state url) w"
proof -
  have "keeps db_previews (read_repository project i)" for project i
    by (auto simp: keeps_def read_repository_def attempt_def split: if_splits option.splits)
  then show "g_safe I (g_repository policy) w" unfolding g_repository_def by (rule query)
  show "g_safe I g_now w" "g_safe I (g_get i) w" unfolding g_now_def g_get_def by (rule store; simp)+
  show "g_safe I g_leads w" "g_safe I (fetch_pr r n) w" "g_safe I (g_status r k state url) w"
    unfolding g_leads_def fetch_pr_def g_status_def by (rule ask; simp)+
qed

lemma observePreviewPR_safe: "g_safe I (observePreviewPR r policy p) w"
  unfolding observePreviewPR_def Let_def by (auto intro!: g_intros controller_calls ask)

lemma observePreviewComposition_safe: "g_safe I (observePreviewComposition p) w"
  unfolding observePreviewComposition_def by (auto intro!: g_intros controller_calls)

lemma stages_safe:
  "g_safe I (retire_deployments r ids) w" "g_safe I (retire_current r p) w" "g_safe I (open_deployment r p) w"
  "g_safe I (report_state r p) w" "g_safe I (send_comment r body p) w"
proof -
  show "g_safe I (retire_deployments r ids) w" by (induction ids) (auto intro!: g_intros controller_calls)
qed (auto simp: retire_current_def open_deployment_def report_state_def send_comment_def intro!: g_intros
    controller_calls ask)

text \<open>Feedback saves the preview it was given, with the new deployment and comment.\<close>

lemma previewFeedback_safe:
  assumes "may_save p"
  shows "g_safe I (previewFeedback r p) w"
proof -
  define report where "report = (\<lambda>(ids :: int list, e :: go_error option).
    if e = None \<and> pw_feedback_hash (p\<lparr>pw_retiring_deployment_ids := ids\<rparr>) \<noteq> sha256_hex (feedback_body p)
    then then_stage (syncPreviewDeployment r (p\<lparr>pw_retiring_deployment_ids := ids\<rparr>)) (send_comment r (feedback_body p))
    else g_return (p\<lparr>pw_retiring_deployment_ids := ids\<rparr>, e))"
  have "g_safe I (report x) w" for x
    unfolding report_def syncPreviewDeployment_def then_stage_def by (auto intro!: g_intros stages_safe)
  moreover have "g_gives (report x) (\<lambda>(q, e). same_core p q) w" for x
  proof -
    have stage: "g_gives (then_stage m f) (\<lambda>(q, e). same_core p q) w"
      if "g_gives m (\<lambda>(q, e). same_core p q) w" "\<And>q. same_core p q \<Longrightarrow> g_gives (f q) (\<lambda>(q, e). same_core p q) w"
      for m and f :: "pr_preview \<Rightarrow> (pr_preview \<times> go_error option) gm"
      unfolding then_stage_def by (rule g_gives_bind[OF that(1)]) (auto simp: g_gives_return intro: that(2))
    have "g_gives (retire_current r q) (\<lambda>(q, e). same_core p q) w" "g_gives (open_deployment r q) (\<lambda>(q, e). same_core p q) w"
      "g_gives (report_state r q) (\<lambda>(q, e). same_core p q) w" "g_gives (send_comment r body q) (\<lambda>(q, e). same_core p q) w"
      if "same_core p q" for q body
      using that
      by (auto simp: retire_current_def open_deployment_def report_state_def send_comment_def same_core_def g_gives_return
          intro!: g_gives_bind[OF g_gives_any])
    moreover have "same_core p (p\<lparr>pw_retiring_deployment_ids := ids\<rparr>)" for ids by (simp add: same_core_def)
    ultimately show ?thesis
      unfolding report_def syncPreviewDeployment_def by (cases x) (auto simp: g_gives_return intro!: stage)
  qed
  moreover have "g_safe I (g_bind (g_save_as as_controller (q\<lparr>pw_feedback_error := msg\<rparr>)) (\<lambda>saved. g_return ())) w"
    if "same_core p q" for q msg
    using core[OF _ assms] that by (auto intro!: g_intros save simp: same_core_def)
  ultimately have "g_safe I (g_bind (report x) (\<lambda>(p, e). g_bind (g_save (p\<lparr>pw_feedback_error :=
      (if e = None then [] else ''GitHub feedback unavailable; will retry'')\<rparr>)) (\<lambda>saved. g_return ()))) w" for x
    by (intro g_safe_bind[of I "report x" w "\<lambda>(q, e). same_core p q"]) auto
  moreover have "previewFeedback r p = g_bind (retire_deployments r (pw_retiring_deployment_ids p)) (\<lambda>x. g_bind (report x)
      (\<lambda>(p, e). g_bind (g_save (p\<lparr>pw_feedback_error :=
        (if e = None then [] else ''GitHub feedback unavailable; will retry'')\<rparr>)) (\<lambda>saved. g_return ())))"
    unfolding previewFeedback_def Let_def report_def by (simp only: case_prod_unfold)
  ultimately show ?thesis by (simp only: g_safe_bind_any[OF stages_safe(1)])
qed

lemma selectPRBuilds_safe: "g_safe I (selectPRBuilds fuel r p) w"
proof -
  have select: "g_safe I (select_build taken component b selected) w" for taken component b selected
    unfolding select_build_def by (intro g_intros)
  have "keeps db_previews (Builds_page project repository component revision after limit)"
    for project repository component revision after limit
    unfolding Builds_page_def by (intro frame)
  then have "g_safe I (previewBuildsForRun fuel p taken components selected) w" for taken components selected
    by (induction components arbitrary: selected) (auto intro!: g_intros cursor_pages_safe select query)
  then have "g_safe I (choose_run fuel r p taken) w" for taken
    by (induction taken) (auto intro!: g_intros ask)
  then show ?thesis
    unfolding selectPRBuilds_def previewWorkflowRuns_def by (auto intro!: g_intros ask)
qed

end

section \<open>The log as an invariant\<close>

definition log_only :: "(gh_event list \<Rightarrow> bool) \<Rightarrow> gstate \<Rightarrow> bool" where
  "log_only L s \<longleftrightarrow> L (g_log s)"

lemma g_safe_store: "(\<And>r log. L log \<Longrightarrow> L (note r @ log)) \<Longrightarrow> g_safe (log_only L) (g_store ctx f note) w"
  by (simp add: g_safe_def g_store_def log_only_def Let_def split: prod.split)

lemma g_safe_ask: "(\<And>r log. L log \<Longrightarrow> L (note r @ log)) \<Longrightarrow> g_safe (log_only L) (g_ask f note) w"
  by (simp add: g_safe_def g_ask_def log_only_def Let_def)

lemma log_sound_plains: "list_all plain_event es \<Longrightarrow> log_sound (es @ log) = log_sound log"
  by (induction es) (simp_all add: log_sound_plain)

abbreviation sound_log :: "gstate \<Rightarrow> bool" where
  "sound_log \<equiv> log_only log_sound"

interpretation logged: kept_by_calls sound_log w "\<lambda>p. True" for w
  by unfold_locales (auto simp: g_save_as_def log_only_def log_sound_plains intro!: g_safe_store)

lemma sound_log_queries [g_intros]: "g_safe sound_log (g_query m) w" "g_safe sound_log (g_save_as ctx p) w"
  unfolding g_query_def g_save_as_def by (rule g_safe_store; simp)+

lemmas [g_intros] = logged.controller_calls logged.observePreviewPR_safe logged.observePreviewComposition_safe
  logged.previewFeedback_safe logged.selectPRBuilds_safe logged.ask

section \<open>Submitting\<close>

definition same_stamped :: "pr_preview \<Rightarrow> pr_preview \<Rightarrow> bool" where
  "same_stamped p q \<longleftrightarrow> (\<exists>t v. q = p\<lparr>pw_updated_at := t, pw_version := v\<rparr>)"

lemma SavePRPreview_value:
  assumes "SavePRPreview p cx d = (Inr q, d')"
  shows "same_stamped p q"
proof -
  have "save_preview_body (p\<lparr>pw_updated_at := cx_now cx\<rparr>) cx d = Inr (q, d')"
    using assms by (auto simp: SavePRPreview_def raw_transaction_def raw_def split: sum.splits if_splits)
  then have "(\<exists>t. q = p\<lparr>pw_updated_at := t\<rparr>) \<or> (\<exists>t v. q = p\<lparr>pw_updated_at := t, pw_version := v\<rparr>)"
    by (auto simp: save_preview_body_def insert_preview_def raw_def update_preview_def saved_preview_def tx_elims Let_def
        split: if_splits)
  moreover have "p\<lparr>pw_updated_at := t\<rparr> = p\<lparr>pw_updated_at := t, pw_version := pw_version p\<rparr>" for t by simp
  ultimately show ?thesis unfolding same_stamped_def by blast
qed

lemma g_save_gives: "g_gives (g_save_as ctx p) (same_stamped p) w"
  by (auto simp: g_gives_def g_save_as_def g_store_def Let_def split: prod.splits dest!: SavePRPreview_value)

lemma same_stamped_sel:
  assumes "same_stamped p q"
  shows "pw_terminal q = pw_terminal p" "pw_id q = pw_id p" "pw_lifecycle q = pw_lifecycle p"
    "pw_status q = pw_status p" "pw_composition_id q = pw_composition_id p"
  using assms by (auto simp: same_stamped_def)

lemma fetch_pr_log: "fetch_pr r n w s = (res, s') \<Longrightarrow> g_log s' = Fetched_PR n res # g_log s"
  by (auto simp: fetch_pr_def g_ask_def Let_def)

lemma submit_log:
  "submit_create p w s = (res, s') \<Longrightarrow> g_log s' = Created p (deploy_create p) (deploy_key p) res # g_log s"
  "submit_update p n w s = (res, s') \<Longrightarrow>
     g_log s' = Updated p (pw_composition_id p) (deploy_update p n) res # g_log s"
  by (auto simp: submit_create_def submit_update_def g_store_def Let_def split: prod.splits)

lemma deployPR_safe:
  assumes "\<not> pw_terminal p"
  shows "g_safe (sound_log) (deployPR r p c) w"
  unfolding g_safe_def
proof (intro allI impI)
  fix s
  assume "sound_log s"
  then have log: "log_sound (g_log s)" by (simp add: log_only_def)
  let ?submit = "if pw_composition_id p = [] then submit_create p else submit_update p (c_generation c)"
  define report where "report = (\<lambda>res :: composition result. case res of
      Inl e \<Rightarrow> g_bind (g_try (g_save (p\<lparr>pw_reason := ''Deployment request failed: '' @ err_message e, pw_status := ''blocked''\<rparr>)))
        (\<lambda>saved. g_check (join_errors [Some e, err_of saved]))
    | Inr c \<Rightarrow> previewFeedback r (deployed_preview c p))"
  have report: "g_safe (sound_log) (report res) w" for res
    unfolding report_def by (auto intro!: g_intros)
  obtain res s1 where fetch: "fetch_pr r (pw_number p) w s = (res, s1)" by fastforce
  then have log1: "g_log s1 = Fetched_PR (pw_number p) res # g_log s" by (rule fetch_pr_log)
  obtain res2 s2 where submit: "?submit w s1 = (res2, s2)" by fastforce
  show "sound_log (snd (deployPR r p c w s))"
  proof (cases "\<exists>pr. res = Inr pr \<and> pr_requested pr \<and> gp_head_sha pr = pw_selected_sha p \<and> same_repo pr")
    case True
    then have "deployPR r p c w s = report res2 w s2"
      using fetch submit by (cases res2) (auto simp: deployPR_def g_bind_def g_try_def report_def)
    moreover have "confirmed_head p (g_log s1)" using True log1 by (auto simp: confirmed_head_def)
    then have "log_sound (g_log s2)"
      using log log1 submit assms by (auto dest!: submit_log split: if_splits)
    ultimately show ?thesis using report by (simp add: g_safe_def log_only_def)
  next
    case False
    then have "snd (deployPR r p c w s) = s1"
      using fetch by (cases res) (auto simp: deployPR_def g_bind_def g_return_def)
    then show ?thesis using log log1 by (simp add: log_only_def)
  qed
qed

lemma previewReadiness_terminal [simp]: "pw_terminal (previewReadiness c p) = pw_terminal p"
  and selected_preview_terminal [simp]: "pw_terminal (selected_preview builds chosen p) = pw_terminal p"
  by (simp_all add: previewReadiness_def selected_preview_def Let_def)

lemma advancePRPreview_safe:
  assumes "\<not> pw_terminal p"
  shows "g_safe (sound_log) (advancePRPreview fuel r p c) w"
proof -
  have deploy: "g_safe (sound_log) (g_bind (g_save q) (\<lambda>p. deployPR r p c)) w" if "\<not> pw_terminal q" for q
    by (rule g_safe_bind[OF sound_log_queries(2) g_save_gives]) (use that in \<open>auto simp: same_stamped_sel intro: deployPR_safe\<close>)
  show ?thesis
    unfolding advancePRPreview_def Let_def
    by (auto intro!: g_intros deploy deployPR_safe simp: assms)
qed

lemma finishPRPreview_safe:
  assumes "pw_terminal p"
  shows "g_safe (sound_log) (finishPRPreview r p c) w"
proof -
  have "g_safe (sound_log) (submit_destroy p) w" if "pw_composition_id p \<noteq> []"
    unfolding submit_destroy_def by (rule g_safe_store) (simp add: assms that)
  then show ?thesis
    unfolding finishPRPreview_def by (auto intro!: g_intros)
qed

lemma reconcilePR_safe: "g_safe (sound_log) (reconcilePR fuel p policy) w"
  unfolding reconcilePR_def
  by (auto intro!: g_intros finishPRPreview_safe advancePRPreview_safe)

section \<open>The controller\<close>

lemma discover_safe [g_intros]: "g_safe (sound_log) (discoverPRPreviews fuel policy) w"
proof -
  have one: "g_safe (sound_log) (discoverPRPreview policy pr) w" for pr
    unfolding discoverPRPreview_def by (auto intro!: g_intros)
  have page: "g_safe (sound_log) (discover_page policy prs) w" for prs
    by (induction prs) (auto intro!: g_intros one)
  have "g_safe (sound_log) (discover_pages fuel r policy n) w" for r n
    by (induction fuel arbitrary: n) (auto intro!: g_intros page)
  then show "g_safe (sound_log) (discoverPRPreviews fuel policy) w"
    unfolding discoverPRPreviews_def by (auto intro!: g_intros)
qed

lemma read_previews_safe [g_intros]: "g_safe (sound_log) (read_previews after) w"
  unfolding read_previews_def by (intro g_intros)

lemma reconcileGitHub_safe: "g_safe (sound_log) (reconcileGitHub fuel scan) w"
proof -
  have row: "g_safe (sound_log) (reconcile_row fuel policies p errs) w" for policies p errs
    unfolding reconcile_row_def by (auto intro!: g_intros reconcilePR_safe)
  have "g_safe (sound_log) (discover_each fuel scan policies errs) w" for policies errs
    by (induction policies arbitrary: errs) (auto intro!: g_intros)
  then show ?thesis
    unfolding reconcileGitHub_def by (auto intro!: g_intros cursor_pages_safe row)
qed

lemma processGitHubEvents_safe: "g_safe (sound_log) (processGitHubEvents fuel) w"
proof -
  have stop: "g_safe (sound_log) (applyPRStopEvent fuel event) w" for event
    unfolding applyPRStopEvent_def stop_row_def by (auto intro!: g_intros cursor_pages_safe)
  have access: "g_safe (sound_log) (applyAccessEvent fuel event) w" for event
    unfolding applyAccessEvent_def revokePreviewAccess_def by (auto intro!: g_intros cursor_pages_safe)
  have "g_safe (sound_log) (applyPRStopEvents fuel events) w" "g_safe (sound_log) (applyAccessEvents fuel events) w"
    for events
    by (induction events) (auto intro!: g_intros stop access)
  moreover have "g_safe (sound_log) (finish_events reason events e) w" for reason events e
    by (induction events arbitrary: e) (auto intro!: g_intros)
  ultimately show ?thesis
    unfolding processGitHubEvents_def Let_def by (auto intro!: g_intros)
qed

lemma github_round_safe: "g_safe (sound_log) (github_round fuel next_scan) w"
  unfolding github_round_def Let_def
  by (auto intro!: g_intros processGitHubEvents_safe reconcileGitHub_safe)

text \<open>
  The loop of \<open>RunGitHub\<close> for a number of rounds; it ends early when leadership is lost.
\<close>

fun RunGitHub :: "nat \<Rightarrow> nat \<Rightarrow> time \<Rightarrow> unit gm" where
  "RunGitHub 0 fuel next_scan = g_return ()"
| "RunGitHub (Suc rounds) fuel next_scan = g_bind (github_round fuel next_scan) (RunGitHub rounds fuel)"

definition controller_start :: "db \<Rightarrow> gstate" where
  "controller_start d = \<lparr>g_db = d, g_tick = 0, g_log = []\<rparr>"

text \<open>
  C5: The controller deploys only what GitHub has just confirmed. Whatever GitHub answers and
  whatever other writers do to the database, every composition it creates or updates over any number
  of rounds is for a preview that has not ended, and comes right after an answer of GitHub that the
  pull request is open, labelled, from the same repository and at the commit the preview selected;
  and every composition it destroys belongs to a preview that has ended.
\<close>

theorem deploy_only_current:
  "log_sound (g_log (snd (RunGitHub rounds fuel next_scan w (controller_start d))))"
proof -
  have "g_safe (sound_log) (RunGitHub rounds fuel next_scan) w" for rounds next_scan
    by (induction rounds arbitrary: next_scan) (auto intro!: g_intros github_round_safe)
  then show ?thesis by (simp add: g_safe_def log_only_def controller_start_def)
qed

end
