(* ===== verification/Preview_End.thy ===== *)
theory Preview_End
  imports Preview_Deploy
begin

text \<open>
  The end of a preview: an expired or stopped preview stays ended and submits nothing until it is
  restarted, and a new lifecycle starts only when the composition of the last one is gone.
\<close>

section \<open>Ended previews\<close>

definition ended :: "int \<Rightarrow> pr_preview \<Rightarrow> bool" where
  "ended lifecycle p \<longleftrightarrow> pw_terminal p \<and> pw_lifecycle p = lifecycle"

text \<open>The stored preview has ended in this lifecycle, and nothing was submitted since.\<close>

definition held :: "string \<Rightarrow> int \<Rightarrow> github_env \<Rightarrow> gh_event list \<Rightarrow> gstate \<Rightarrow> bool" where
  "held i lifecycle w submitted s \<longleftrightarrow>
     calm (\<lambda>q. \<not> ended lifecycle q) w \<and> previews_sound (g_db s) \<and> i \<in> preview_ids (g_db s) \<and>
     spared (\<lambda>q. \<not> ended lifecycle q) i (g_db s) \<and> filter submission (g_log s) = submitted"

lemma held_stored:
  assumes "held i lifecycle w submitted s" "db_previews d = db_previews (gh_others w (g_tick s) (g_db s))"
    and "filter submission es = []"
  shows "held i lifecycle w submitted (s\<lparr>g_db := d, g_tick := g_tick s + 1, g_log := es @ g_log s\<rparr>)"
proof -
  note others = calmD[of "\<lambda>q. \<not> ended lifecycle q" w "g_db s", where n = "g_tick s"]
  have "previews_sound d" "preview_ids d = preview_ids (g_db s)" "spared (\<lambda>q. \<not> ended lifecycle q) i d"
    using others assms(1,2) by (simp_all add: held_def previews_sound_def preview_ids_def spared_def)
  then show ?thesis using assms(1,3) by (simp add: held_def)
qed

lemma plain_not_submitted: "list_all plain_event es \<Longrightarrow> filter submission es = []"
  by (induction es) (auto simp: plain_event_def)

lemma ended_same:
  assumes "same_preview a b"
  shows "ended l a = ended l b"
proof -
  have "a\<lparr>pw_builds := []\<rparr> = b\<lparr>pw_builds := []\<rparr>" using assms by (simp add: same_preview_def)
  moreover have "ended l (c\<lparr>pw_builds := []\<rparr>) = ended l c" for c by (simp add: ended_def)
  ultimately show ?thesis by metis
qed

interpretation held: kept_by_calls "held i lifecycle w submitted" w "\<lambda>p. pw_id p = i \<and> ended lifecycle p"
  for i lifecycle w submitted
proof
  fix s es p q ctx and d :: db
  let ?I = "held i lifecycle w submitted"
  show "?I (s\<lparr>g_tick := g_tick s + 1, g_log := es @ g_log s\<rparr>)" if "?I s" "list_all plain_event es"
    using that plain_not_submitted by (simp add: held_def)
  show "?I (s\<lparr>g_db := d, g_tick := g_tick s + 1, g_log := es @ g_log s\<rparr>)"
    if "?I s" "db_previews d = db_previews (gh_others w (g_tick s) (g_db s))" "list_all plain_event es"
    using held_stored[OF that(1,2)] plain_not_submitted[OF that(3)] by simp
  show "g_safe ?I (g_save_as ctx p) w" if p: "pw_id p = i \<and> ended lifecycle p"
    unfolding g_safe_def
  proof (intro allI impI)
    fix s
    assume s: "?I s"
    obtain r s' where saved: "g_save_as ctx p w s = (r, s')" by fastforce
    have log: "g_log s' = g_log s" using g_save_as_run[OF saved] by blast
    have "previews_sound (g_db s') \<and> preview_ids (g_db s') = preview_ids (g_db s) \<and>
        (\<forall>j. spared (\<lambda>q. \<not> ended lifecycle q) j (g_db s) \<longrightarrow> spared (\<lambda>q. \<not> ended lifecycle q) j (g_db s')) \<and>
        (\<forall>q. r = Inr q \<longrightarrow> spared (\<lambda>q. \<not> ended lifecycle q) (pw_id p) (g_db s'))"
      by (rule save_spares[OF saved]) (use s p in \<open>auto simp: held_def ended_same, auto simp: ended_def\<close>)
    then show "?I (snd (g_save_as ctx p w s))" using s saved log by (simp add: held_def)
  qed
  show "pw_id q = i \<and> ended lifecycle q" if "same_core p q" "pw_id p = i \<and> ended lifecycle p"
    using that by (simp add: same_core_def ended_def)
qed

section \<open>An ended preview stays ended\<close>

text \<open>Ended, and not about to restart.\<close>

definition at_rest :: "string \<Rightarrow> int \<Rightarrow> pr_preview \<Rightarrow> bool" where
  "at_rest i lifecycle p \<longleftrightarrow> pw_id p = i \<and> ended lifecycle p \<and> pw_status p \<noteq> ''restarting''"

lemma at_rest_steps:
  assumes "at_rest i lifecycle p"
  shows "pw_requested p \<Longrightarrow> at_rest i lifecycle (observed_pr pr p)" "at_rest i lifecycle (disabled_preview policy r p)"
    "at_rest i lifecycle (access_removed p)" "at_rest i lifecycle (observed_composition now c p)"
    "same_stamped p q \<Longrightarrow> at_rest i lifecycle q"
  using assms
  by (auto simp: at_rest_def ended_def observed_pr_def disabled_preview_def terminal_preview_def
      observed_composition_def same_stamped_def Let_def)

lemma observePreviewPR_rest:
  assumes "at_rest i lifecycle p" "pw_requested p"
  shows "g_gives (observePreviewPR r policy p) (at_rest i lifecycle) w"
proof -
  have "g_gives (g_bind m (\<lambda>installed :: bool result.
      if \<not> pw_terminal (if installed = Inr False then access_removed p else p) \<and> pp_enabled policy \<and> sr_enabled r then g_fail e
      else g_return (disabled_preview policy r (if installed = Inr False then access_removed p else p)))) (at_rest i lifecycle) w"
    for m e
    by (rule g_gives_bind[OF g_gives_any]) (auto simp: g_gives_return g_gives_fail intro: at_rest_steps(2,3) assms(1))
  then show ?thesis
    unfolding observePreviewPR_def Let_def
    by (intro g_gives_bind[OF g_gives_any]) (auto simp: g_gives_return at_rest_steps(1,2) assms split: sum.split)
qed

lemma observePreviewComposition_rest:
  assumes "at_rest i lifecycle p"
  shows "g_gives (observePreviewComposition p) (\<lambda>(q, c). at_rest i lifecycle q) w"
  unfolding observePreviewComposition_def using assms
  by (auto intro!: g_gives_bind[OF g_gives_any] at_rest_steps(4) simp: g_gives_return)

lemma keeps_previews:
  "keeps db_previews (requestDeletion now reason n c)" "keeps db_previews (writeDeletion c)"
  "keeps db_previews (insertRevision ctx c)" "keeps db_previews (insertActivity ctx a)"
  "keeps db_previews (read_composition label i)"
  by (auto simp: keeps_def tx_elims requestDeletion_def insertRevision_def add_revision_def insertActivity_def
      add_activity_def writeDeletion_def update_deletion_def saveOperation_def upsert_operation_def read_composition_def
      attempt_def put_row_def Let_def split: option.splits if_splits)

text \<open>Destroying under a claim leaves the previews alone.\<close>

lemma Destroy_claimed:
  assumes "cx_claim cx = Some claim"
  shows "db_previews (snd (Destroy i cx d)) = db_previews d"
proof (cases "Destroy i cx d")
  case (Pair r d')
  show ?thesis
  proof (cases r)
    case (Inr c)
    then have "destroy_body i cx d = Inr (c, d')" using Pair by (auto simp: Destroy_def dest: transaction_Inr)
    define mark where "mark = tx_bind (read_composition ''read composition'' i) (\<lambda>c.
      if c_deletion_requested c \<or> c_phase c = PhaseDestroyed then tx_return c
      else tx_bind (tx_call (\<lambda>cx. (cx_identity cx, cx_now cx))) (\<lambda>(ctx, now).
        delete_one ctx now ''requested'' ''composition.destroy'' 0 c))"
    obtain u d1 where guard: "guardPRPreview i ''destroy'' cx d = Inr (u, d1)" and rest: "mark cx d1 = Inr (c, d')"
      using \<open>destroy_body i cx d = Inr (c, d')\<close> unfolding destroy_body_def mark_def[symmetric] tx_elims by blast
    have "keeps db_previews (delete_one ctx now reason action n c)" for ctx now reason action n c
      unfolding delete_one_def Let_def by (intro frame keeps_previews)
    then have "keeps db_previews mark" unfolding mark_def by (auto intro!: frame keeps_previews)
    from keepsD[OF this rest] show ?thesis using guard_claimed[OF guard assms] Pair by simp
  qed (use Pair in \<open>auto simp: Destroy_def dest: transaction_Inl\<close>)
qed

lemma WithPRPreviewClaim_claim:
  "cx_claim (WithPRPreviewClaim p cx) = Some \<lparr>cl_id = pw_id p, cl_version = pw_version p\<rparr>"
  by (simp add: WithPRPreviewClaim_def)

lemma finishPRPreview_rest:
  assumes "at_rest i lifecycle p"
  shows "g_safe (held i lifecycle w submitted) (finishPRPreview r p c) w"
proof -
  have destroy: "g_safe (held i lifecycle w submitted) (submit_destroy p) w"
    unfolding g_safe_def
  proof (intro allI impI)
    fix s
    assume s: "held i lifecycle w submitted s"
    obtain res d where run: "Destroy (pw_composition_id p) (WithPRPreviewClaim p (gh_call w (g_tick s)))
        (gh_others w (g_tick s) (g_db s)) = (res, d)" by fastforce
    then have "db_previews d = db_previews (gh_others w (g_tick s) (g_db s))" using Destroy_claimed[of "WithPRPreviewClaim p (gh_call w (g_tick s))"]
      by (metis snd_conv WithPRPreviewClaim_claim)
    from held_stored[OF s this, of "[Destroyed p (pw_composition_id p) res]"]
    show "held i lifecycle w submitted (snd (submit_destroy p w s))"
      using run by (simp add: submit_destroy_def g_store_def submission_def)
  qed
  have feedback: "g_safe (held i lifecycle w submitted) (previewFeedback r p) w"
    by (rule held.previewFeedback_safe) (use assms in \<open>simp add: at_rest_def\<close>)
  have "finishPRPreview r p c = (if pw_composition_id p \<noteq> [] \<and> c_phase c \<noteq> PhaseDestroyed
      then g_bind (submit_destroy p) (\<lambda>gone. previewFeedback r p) else previewFeedback r p)"
    using assms by (simp add: finishPRPreview_def at_rest_def)
  then show ?thesis using destroy feedback by (simp add: g_intros)
qed

text \<open>
  C14: A preview that ended while its pull request still asked for one stays ended. Take a preview
  that has ended, is not restarting, and whose last observed pull request was open and labelled
  (\<open>Requested\<close>), as a user's stop, an expiry or a disabled policy leave it. Reconciling it submits no
  composition and leaves the stored preview ended in the same lifecycle, whatever GitHub answers, as
  long as other writers do not take that preview out of its ended state meanwhile. It says nothing of a
  preview that ended because the pull request was closed or unlabelled: the code restarts that one
  when the pull request is reopened or labelled again.
\<close>

theorem ended_preview_stays_ended:
  assumes "map_of (db_previews (g_db s)) (pw_id p) = Some p" "previews_sound (g_db s)"
    and "pw_terminal p" "pw_requested p" "pw_status p \<noteq> ''restarting''"
    and "calm (\<lambda>q. \<not> ended (pw_lifecycle p) q) w"
  shows "filter submission (g_log (snd (reconcilePR fuel p policy w s))) = filter submission (g_log s) \<and>
    (\<exists>q. map_of (db_previews (g_db (snd (reconcilePR fuel p policy w s)))) (pw_id p) = Some q \<and>
       pw_terminal q \<and> pw_lifecycle q = pw_lifecycle p)"
proof -
  let ?i = "pw_id p" and ?l = "pw_lifecycle p" and ?submitted = "filter submission (g_log s)"
  let ?I = "held ?i ?l w ?submitted"
  have rest: "at_rest ?i ?l p" using assms(3,5) by (simp add: at_rest_def ended_def)
  have save: "g_safe ?I (g_bind (g_save_as as_controller q) (\<lambda>q. if pw_terminal q then finishPRPreview r q c else advancePRPreview fuel r q c)) w"
    if "at_rest ?i ?l q" for r q c
  proof (rule g_safe_bind[OF held.save g_save_gives])
    show "pw_id q = ?i \<and> ended ?l q" using that by (simp add: at_rest_def)
    fix v
    assume "same_stamped q v"
    then have "at_rest ?i ?l v" using at_rest_steps(5)[OF that] by blast
    then show "g_safe ?I (if pw_terminal v then finishPRPreview r v c else advancePRPreview fuel r v c) w"
      using finishPRPreview_rest[OF \<open>at_rest ?i ?l v\<close>] by (simp add: at_rest_def ended_def)
  qed
  have "g_safe ?I (reconcilePR fuel p policy) w"
    unfolding reconcilePR_def
    by (intro g_safe_bind_any[OF held.controller_calls(1)]
        g_safe_bind[OF held.observePreviewPR_safe observePreviewPR_rest[OF rest assms(4)]]
        g_safe_bind[OF held.observePreviewComposition_safe observePreviewComposition_rest])
      (auto split: prod.split intro: save)
  moreover have "?I s"
    using assms by (force simp: held_def spared_def ended_def preview_ids_def dest: map_of_SomeD)
  ultimately have "?I (snd (reconcilePR fuel p policy w s))" by (simp add: g_safe_def)
  then show ?thesis
    by (auto simp: held_def spared_def ended_def preview_ids_def map_of_eq_None_iff split: option.splits)
qed

definition ended_demo :: pr_preview where
  "ended_demo = fenced_preview\<lparr>pw_terminal := True, pw_status := ''stopped''\<rparr>"

definition ended_state :: gstate where
  "ended_state = controller_start (empty_db\<lparr>db_previews := [(''p1'', ended_demo)]\<rparr>)"

lemma ended_preview_stays_ended_witness:
  "filter submission (g_log (snd (reconcilePR 3 ended_demo (pw_policy ended_demo) quiet_env ended_state))) = [] \<and>
   (\<exists>q. map_of (db_previews (g_db (snd (reconcilePR 3 ended_demo (pw_policy ended_demo) quiet_env ended_state)))) ''p1'' = Some q \<and>
     pw_terminal q)"
proof -
  have "calm (\<lambda>q. \<not> ended (pw_lifecycle ended_demo) q) quiet_env" by (simp add: calm_def quiet_env_def)
  moreover have "pw_id ended_demo = ''p1''" "map_of (db_previews (g_db ended_state)) ''p1'' = Some ended_demo"
    "previews_sound (g_db ended_state)" "g_log ended_state = []" "pw_terminal ended_demo" "pw_requested ended_demo"
    "pw_status ended_demo \<noteq> ''restarting''"
    by (simp_all add: ended_state_def controller_start_def ended_demo_def fenced_preview_def zero_pr_preview_def
        previews_sound_def wf_map_def)
  ultimately show ?thesis
    using ended_preview_stays_ended[of ended_state ended_demo quiet_env 3 "pw_policy ended_demo"] by fastforce
qed

end
