(* ===== verification/Go_Http.thy ===== *)
theory Go_Http
  imports Go_Url
begin

text \<open>
  What the authentication code uses of \<open>net/http\<close>, \<open>net/url\<close>, \<open>net\<close> and \<open>net/netip\<close>: requests
  with their headers, cookies and forms; whole URLs, queries and their escapes; IP addresses and
  prefixes; \<open>strings.TrimSpace\<close> and \<open>strings.EqualFold\<close>. Header names are in canonical form;
  \<open>hr_escaped_path\<close> is \<open>URL.EscapedPath\<close>, and \<open>hr_cookies\<close> and \<open>hr_post_form\<close> are the pairs
  \<open>Request.Cookies\<close> and \<open>Request.PostForm\<close> hold.
\<close>

section \<open>Strings\<close>

fun drop_spaces :: "nat \<Rightarrow> string \<Rightarrow> string" where
  "drop_spaces 0 s = s"
| "drop_spaces (Suc n) s = (if space_len s = 0 then s else drop_spaces n (drop (space_len s) s))"

text \<open>A string from its end: the last rune is white space when the bytes before it spell one.\<close>

fun drop_spaces_rev :: "string \<Rightarrow> string" where
  "drop_spaces_rev (c # b # a # s) =
     (if is_ascii_space c then drop_spaces_rev (b # a # s)
      else if is_space_2 b c then drop_spaces_rev (a # s)
      else if is_space_3 a b c then drop_spaces_rev s else c # b # a # s)"
| "drop_spaces_rev [c, b] =
     (if is_ascii_space c then drop_spaces_rev [b] else if is_space_2 b c then [] else [c, b])"
| "drop_spaces_rev [c] = (if is_ascii_space c then [] else [c])"
| "drop_spaces_rev [] = []"

text \<open>\<open>strings.TrimSpace\<close>; a string has at most as many leading spaces as bytes.\<close>

definition trim_space :: "string \<Rightarrow> string" where
  "trim_space s = rev (drop_spaces_rev (rev (drop_spaces (length s) s)))"

text \<open>\<open>strings.TrimRight(s, "/")\<close>\<close>

definition trim_right :: "char \<Rightarrow> string \<Rightarrow> string" where
  "trim_right c s = rev (dropWhile (\<lambda>x. x = c) (rev s))"

text \<open>
  \<open>strings.EqualFold\<close>: folding of the ASCII letters and of the two runes outside ASCII that fold to
  one, the Kelvin sign and the long s. Other runes are compared byte by byte.
\<close>

fun fold_case :: "string \<Rightarrow> string" where
  "fold_case (a # b # c # s) =
     (if a = CHR 0xE2 \<and> b = CHR 0x84 \<and> c = CHR 0xAA then CHR ''k'' # fold_case s
      else if a = CHR 0xC5 \<and> b = CHR 0xBF then CHR ''s'' # fold_case (c # s)
      else lower_char a # fold_case (b # c # s))"
| "fold_case [a, b] =
     (if a = CHR 0xC5 \<and> b = CHR 0xBF then ''s'' else [lower_char a, lower_char b])"
| "fold_case [a] = [lower_char a]"
| "fold_case [] = []"

definition equal_fold :: "string \<Rightarrow> string \<Rightarrow> bool" where
  "equal_fold a b \<longleftrightarrow> fold_case a = fold_case b"

section \<open>URLs\<close>

record go_url =
  ur_scheme :: string
  ur_host :: string
  ur_user :: bool
  ur_path :: string
  ur_query :: string
  ur_fragment :: string

text \<open>
  \<open>url.Parse\<close> with every part the code looks at; \<open>ur_user\<close> says whether there is user information,
  path and fragment keep their escapes.
\<close>

definition parse_full :: "string \<Rightarrow> go_url option" where
  "parse_full raw =
     (let (u, fragment) = cut_at CHR ''#'' raw in
      case (parse_url raw, getScheme u) of
        (Some (scheme, host), Some (_, rest)) \<Rightarrow>
          let (hier, query) = cut_at CHR ''?'' rest;
              slashes = has_prefix hier ''//'' \<and> (scheme \<noteq> [] \<or> \<not> has_prefix hier ''///'');
              authority = (if slashes then takeWhile (\<lambda>c. c \<noteq> CHR ''/'') (drop 2 hier) else []);
              path = (if slashes then dropWhile (\<lambda>c. c \<noteq> CHR ''/'') (drop 2 hier)
                      else if scheme \<noteq> [] \<and> \<not> has_prefix hier ''/'' then [] else hier)
          in Some \<lparr>ur_scheme = scheme, ur_host = host, ur_user = CHR ''@'' \<in> set authority,
               ur_path = path, ur_query = query, ur_fragment = fragment\<rparr>
      | _ \<Rightarrow> None)"

definition escape_digit :: "nat \<Rightarrow> char" where
  "escape_digit n = (if n < 10 then char_of (48 + n) else char_of (55 + n))"

definition query_escape :: "string \<Rightarrow> string" where
  "query_escape s = concat (map (\<lambda>c.
     if is_alpha c \<or> is_digit c \<or> c \<in> set ''-_.~'' then [c] else if c = CHR '' '' then ''+''
     else [CHR ''%'', escape_digit (of_char c div 16), escape_digit (of_char c mod 16)]) s)"

fun query_unescape :: "string \<Rightarrow> string option" where
  "query_unescape [] = Some []"
| "query_unescape (c # s) =
     (if c = CHR ''%'' then
        (case s of a # b # r \<Rightarrow>
           if is_hex a \<and> is_hex b
           then map_option (Cons (char_of (16 * hex_value a + hex_value b))) (query_unescape r) else None
         | _ \<Rightarrow> None)
      else map_option (Cons (if c = CHR ''+'' then CHR '' '' else c)) (query_unescape s))"

text \<open>\<open>u.Query()\<close>: the pairs that parse, in order.\<close>

definition query_pair :: "string \<Rightarrow> (string \<times> string) list" where
  "query_pair p =
     (if p = [] \<or> CHR '';'' \<in> set p then []
      else case cut_at CHR ''='' p of
        (k, v) \<Rightarrow> (case (query_unescape k, query_unescape v) of (Some k', Some v') \<Rightarrow> [(k', v')] | _ \<Rightarrow> []))"

definition parse_query :: "string \<Rightarrow> (string \<times> string) list" where
  "parse_query q = concat (map query_pair (split_on CHR ''&'' q))"

text \<open>\<open>values[k]\<close> and \<open>values.Get(k)\<close>\<close>

definition values_of :: "(string \<times> string) list \<Rightarrow> string \<Rightarrow> string list" where
  "values_of kvs k = map snd (filter (\<lambda>(k', v). k' = k) kvs)"

definition first_value :: "(string \<times> string) list \<Rightarrow> string \<Rightarrow> string" where
  "first_value kvs k = (case values_of kvs k of [] \<Rightarrow> [] | v # vs \<Rightarrow> v)"

section \<open>Requests\<close>

record http_request =
  hr_method :: string
  hr_path :: string
  hr_escaped_path :: string
  hr_raw_query :: string
  hr_request_uri :: string
  hr_host :: string
  hr_remote :: string
  hr_tls :: bool
  hr_headers :: "(string \<times> string) list"
  hr_cookies :: "(string \<times> string) list"
  hr_post_form :: "(string \<times> string) list"
  hr_body :: string

definition header_values :: "http_request \<Rightarrow> string \<Rightarrow> string list" where
  "header_values r = values_of (hr_headers r)"

definition header_get :: "http_request \<Rightarrow> string \<Rightarrow> string" where
  "header_get r = first_value (hr_headers r)"

definition url_query :: "http_request \<Rightarrow> (string \<times> string) list" where
  "url_query r = parse_query (hr_raw_query r)"

text \<open>\<open>r.FormValue(k)\<close>: the body's fields come before those of the query.\<close>

definition form_value :: "http_request \<Rightarrow> string \<Rightarrow> string" where
  "form_value r = first_value (hr_post_form r @ url_query r)"

section \<open>IP addresses\<close>

datatype ip_addr = IPv4 nat | IPv6 nat string

definition bytes_value :: "nat \<Rightarrow> nat list \<Rightarrow> nat" where
  "bytes_value base ns = foldl (\<lambda>n d. base * n + d) 0 ns"

definition ipv4_value :: "string \<Rightarrow> nat" where
  "ipv4_value s = bytes_value 256 (map digits_value (split_on CHR ''.'' s))"

definition hex_group_value :: "string \<Rightarrow> nat" where
  "hex_group_value g = bytes_value 16 (map hex_value g)"

text \<open>The 16-bit groups of one side of an IPv6 address that \<open>group_count\<close> accepts.\<close>

definition group_values :: "string \<Rightarrow> nat list" where
  "group_values s =
     (if s = [] then []
      else let gs = split_on CHR '':'' s in
        if list_all hex_group gs then map hex_group_value gs
        else map hex_group_value (butlast gs) @
          [ipv4_value (last gs) div 65536, ipv4_value (last gs) mod 65536])"

definition ipv6_value :: "string \<Rightarrow> nat" where
  "ipv6_value s =
     (case cut_ellipsis [] s of
        None \<Rightarrow> bytes_value 65536 (group_values s)
      | Some (l, r) \<Rightarrow>
          let a = group_values l; b = group_values r
          in bytes_value 65536 (a @ replicate (8 - length a - length b) 0 @ b))"

text \<open>\<open>netip.ParseAddr\<close>\<close>

definition parse_addr :: "string \<Rightarrow> ip_addr option" where
  "parse_addr s =
     (case dropWhile (\<lambda>c. c \<notin> set ''.:%'') s of
        [] \<Rightarrow> None
      | c # rest \<Rightarrow>
          if c = CHR ''.'' then (if dotted_quad s then Some (IPv4 (ipv4_value s)) else None)
          else if c = CHR ''%'' then None
          else case cut_at CHR ''%'' s of (a, zone) \<Rightarrow>
            if ipv6_literal a \<and> (CHR ''%'' \<in> set s \<longrightarrow> zone \<noteq> []) then Some (IPv6 (ipv6_value a) zone) else None)"

text \<open>\<open>net.ParseIP(s).IsLoopback()\<close>: no zone, and an IPv4-mapped address counts as IPv4.\<close>

definition is_loopback :: "string \<Rightarrow> bool" where
  "is_loopback s =
     (case parse_addr s of
        Some (IPv4 n) \<Rightarrow> n div 2 ^ 24 = 127
      | Some (IPv6 n zone) \<Rightarrow> zone = [] \<and> (n = 1 \<or> n div 2 ^ 32 = 0xFFFF \<and> n mod 2 ^ 32 div 2 ^ 24 = 127)
      | None \<Rightarrow> False)"

text \<open>A \<open>netip.Prefix\<close>: an address without a zone and a length that fits it.\<close>

type_synonym ip_prefix = "ip_addr \<times> nat"

definition prefix_contains :: "ip_prefix \<Rightarrow> ip_addr \<Rightarrow> bool" where
  "prefix_contains p a =
     (case (p, a) of
        ((IPv4 n, bits), IPv4 m) \<Rightarrow> bits \<le> 32 \<and> n div 2 ^ (32 - bits) = m div 2 ^ (32 - bits)
      | ((IPv6 n z, bits), IPv6 m zone) \<Rightarrow>
          zone = [] \<and> bits \<le> 128 \<and> n div 2 ^ (128 - bits) = m div 2 ^ (128 - bits)
      | _ \<Rightarrow> False)"

text \<open>\<open>net.SplitHostPort\<close>: the host, or the error.\<close>

definition split_host_port :: "string \<Rightarrow> string option" where
  "split_host_port s =
     (case last_index CHR '':'' s of
        None \<Rightarrow> None
      | Some i \<Rightarrow>
          if has_prefix s ''['' then
            let inner = takeWhile (\<lambda>c. c \<noteq> CHR '']'') s; after = drop (length inner + 1) s in
            if CHR '']'' \<notin> set s \<or> length inner + 1 \<noteq> i \<or> CHR ''['' \<in> set (tl s) \<or> CHR '']'' \<in> set after
            then None else Some (tl inner)
          else if CHR '':'' \<in> set (take i s) \<or> CHR ''['' \<in> set s \<or> CHR '']'' \<in> set s then None
          else Some (take i s))"

lemma replicate_eval: "replicate (numeral k) x = x # replicate (pred_numeral k) x"
  by (simp add: numeral_eq_Suc)

lemma drop_spaces_numeral:
  "drop_spaces (numeral k) s = (if space_len s = 0 then s else drop_spaces (pred_numeral k) (drop (space_len s) s))"
  by (simp add: numeral_eq_Suc)

lemmas http_eval =
  is_loopback_def parse_addr_def ipv4_value_def ipv6_value_def bytes_value_def group_values_def hex_group_value_def
  ipv6_literal_def group_count_def hex_group_def dotted_quad_def decimal_byte_def digits_value_def digit_value_def
  hex_value_def char_class_defs less_eq_char_def cut_at_def last_index_def has_prefix_def split_host_port_def replicate_eval char_of_def bit_Suc_0_iff

lemma is_loopback_examples:
  "is_loopback ''127.0.0.1''" "is_loopback ''::1''" "is_loopback ''::ffff:127.0.0.1''" "\<not> is_loopback ''::2''"
  "\<not> is_loopback ''localhost''" "\<not> is_loopback ''fe80::1%lo''"
  by (simp_all add: http_eval)

lemma split_host_port_examples:
  "split_host_port ''10.0.0.7:5123'' = Some ''10.0.0.7''" "split_host_port ''[::1]:80'' = Some ''::1''"
  "split_host_port ''[::1]'' = None"
  by (simp_all add: http_eval)

lemma query_examples:
  "parse_query ''a=1&b=x%20y+z&a=2'' = [(''a'', ''1''), (''b'', ''x y z''), (''a'', ''2'')]"
  "query_escape ''/a b'' = ''%2Fa+b''"
  by (simp_all add: parse_query_def query_pair_def query_escape_def escape_digit_def http_eval)

lemma url_examples:
  "parse_full ''https://u@h:1/p?q#f'' = Some \<lparr>ur_scheme = ''https'', ur_host = ''h:1'', ur_user = True,
     ur_path = ''/p'', ur_query = ''q'', ur_fragment = ''f''\<rparr>"
  "parse_full ''/p?q'' = Some \<lparr>ur_scheme = [], ur_host = [], ur_user = False, ur_path = ''/p'', ur_query = ''q'',
     ur_fragment = []\<rparr>"
  by (simp_all add: parse_full_def url_eval userinfo_char_def)

lemma space_and_case_examples:
  "trim_space ''  a b  '' = ''a b''" "equal_fold ''Envy'' ''eNVY''"
  by (simp_all add: trim_space_def equal_fold_def is_ascii_space_def is_space_2_def is_space_3_def lower_char_def
      char_class_defs less_eq_char_def char_of_def bit_Suc_0_iff drop_spaces_numeral)

end
