(* ===== verification/Auth_Records.thy ===== *)
theory Auth_Records
  imports Go_Http Go_Json Go_Sha256 Model
begin

text \<open>
  The storage of \<open>internal/authn\<close> (\<open>storage.go\<close>): the table \<open>envy_auth_records\<close>, its statements and
  transactions, and the programs that run in a transaction.

  A program works on the table, the number of its clock readings, random strings and statements so
  far, and the response it writes. \<open>auth_call\<close> holds what one call finds: the readings of the clock
  and of the random source, which statements fail, and the database's \<open>now()\<close>, which is the time
  its transaction began. A failed statement aborts the transaction: every later statement fails,
  also when the code went on, and the commit rolls back.
\<close>

section \<open>Records\<close>

record identity =
  id_principal :: principal
  id_mode :: string
  id_version :: string
  id_domain :: string
  id_verified :: bool
  id_issued :: time

text \<open>\<open>os_subject\<close> to \<open>os_expires\<close> are the fields of \<open>fosite.DefaultSession\<close>.\<close>

record oauth_session =
  os_identity :: identity
  os_resource :: string
  os_until :: time
  os_subject :: string
  os_username :: string
  os_expires :: "time gomap"

record auth_generation =
  ag_fingerprint :: string
  ag_epoch :: string

record oauth_client =
  cl_id :: string
  cl_public :: bool
  cl_redirects :: "string list"
  cl_grants :: "string list"
  cl_responses :: "string list"
  cl_scopes :: "string list"
  cl_audience :: "string list"

text \<open>\<open>fosite.Requester\<close>; \<open>rq_rest\<close> stands for the fields only the library uses.\<close>

record requester =
  rq_id :: string
  rq_client :: oauth_client
  rq_session :: oauth_session
  rq_scopes :: "string list"
  rq_granted :: "string list"
  rq_form :: "(string \<times> string) list"
  rq_rest :: string

record pending_consent =
  pc_query :: string
  pc_browser :: string

record google_transaction =
  gt_nonce :: string
  gt_verifier :: string
  gt_browser :: string
  gt_return :: string

text \<open>What a row holds: the JSON of one of these types. \<open>Oauth_Record\<close> is \<open>oauthRecord\<close>.\<close>

datatype auth_body =
    Text_Body string
  | Generation_Body auth_generation
  | Client_Body oauth_client
  | Number_Body int
  | Identity_Body identity
  | Session_Body oauth_session
  | Oauth_Record requester bool
  | Flag_Body bool
  | Time_Body time
  | Consent_Body pending_consent
  | Google_Body google_transaction

fun text_body :: "auth_body \<Rightarrow> string option" where
  "text_body (Text_Body s) = Some s" | "text_body b = None"

fun generation_body :: "auth_body \<Rightarrow> auth_generation option" where
  "generation_body (Generation_Body g) = Some g" | "generation_body b = None"

fun client_body :: "auth_body \<Rightarrow> oauth_client option" where
  "client_body (Client_Body c) = Some c" | "client_body b = None"

fun number_body :: "auth_body \<Rightarrow> int option" where
  "number_body (Number_Body n) = Some n" | "number_body b = None"

fun identity_body :: "auth_body \<Rightarrow> identity option" where
  "identity_body (Identity_Body i) = Some i" | "identity_body b = None"

fun record_body :: "auth_body \<Rightarrow> (requester \<times> bool) option" where
  "record_body (Oauth_Record r active) = Some (r, active)" | "record_body b = None"

fun flag_body :: "auth_body \<Rightarrow> bool option" where
  "flag_body (Flag_Body b) = Some b" | "flag_body b = None"

fun time_body :: "auth_body \<Rightarrow> time option" where
  "time_body (Time_Body t) = Some t" | "time_body b = None"

fun consent_body :: "auth_body \<Rightarrow> pending_consent option" where
  "consent_body (Consent_Body c) = Some c" | "consent_body b = None"

fun google_body :: "auth_body \<Rightarrow> google_transaction option" where
  "google_body (Google_Body g) = Some g" | "google_body b = None"

section \<open>Programs\<close>

datatype auth_error =
    Auth_Not_Found
  | Invalidated_Code
  | Inactive_Token
  | Request_Unauthorized
  | Invalid_Client
  | Invalid_Request
  | Invalid_Scope
  | Access_Denied
  | Storage_Failed
  | Malformed_Body
  | Rate_Limited
  | Library_Error string

text \<open>What a handler answers; the last four are written by the OAuth library.\<close>

datatype answer =
    Error_Answer nat string
  | Json_Answer nat json
  | Redirect_Answer string
  | Consent_Page string string string string
  | Authorize_Error auth_error
  | Authorize_Answer string
  | Access_Answer "auth_error + string"
  | Revocation_Answer "auth_error option"

text \<open>A response: its cookies (name, value, age) in order, and the first answer written.\<close>

record response =
  re_cookies :: "(string \<times> string \<times> int) list"
  re_answer :: "answer option"

definition empty_response :: response where
  "empty_response = \<lparr>re_cookies = [], re_answer = None\<rparr>"

type_synonym auth_key = "string \<times> string"
type_synonym auth_rows = "(auth_key \<times> auth_body \<times> time) list"

record auth_call =
  ac_db_now :: time
  ac_now :: "nat \<Rightarrow> time"
  ac_random :: "nat \<Rightarrow> string"
  ac_fault :: "nat \<Rightarrow> bool"

record auth_state =
  au_rows :: auth_rows
  au_tick :: nat
  au_aborted :: bool
  au_out :: response

type_synonym 'a am = "auth_call \<Rightarrow> auth_state \<Rightarrow> (auth_error + 'a) \<times> auth_state"

definition am_return :: "'a \<Rightarrow> 'a am" where
  "am_return a c s = (Inr a, s)"

definition am_fail :: "auth_error \<Rightarrow> 'a am" where
  "am_fail e c s = (Inl e, s)"

definition am_bind :: "'a am \<Rightarrow> ('a \<Rightarrow> 'b am) \<Rightarrow> 'b am" where
  "am_bind m f c s = (case m c s of (Inl e, s') \<Rightarrow> (Inl e, s') | (Inr a, s') \<Rightarrow> f a c s')"

definition am_seq :: "unit am \<Rightarrow> 'b am \<Rightarrow> 'b am" where
  "am_seq m n = am_bind m (\<lambda>_. n)"

text \<open>The error as a value, for the code that looks at it and goes on.\<close>

definition am_try :: "'a am \<Rightarrow> (auth_error + 'a) am" where
  "am_try m c s = (case m c s of (r, s') \<Rightarrow> (Inr r, s'))"

text \<open>\<open>time.Now()\<close> and \<open>Random()\<close>\<close>

definition am_now :: "time am" where
  "am_now c s = (Inr (ac_now c (au_tick s)), s\<lparr>au_tick := Suc (au_tick s)\<rparr>)"

definition am_random :: "string am" where
  "am_random c s = (Inr (ac_random c (au_tick s)), s\<lparr>au_tick := Suc (au_tick s)\<rparr>)"

definition am_write :: "answer \<Rightarrow> unit am" where
  "am_write a c s = (Inr (), s\<lparr>au_out := (au_out s)\<lparr>re_answer :=
     (case re_answer (au_out s) of None \<Rightarrow> Some a | Some b \<Rightarrow> Some b)\<rparr>\<rparr>)"

definition am_cookie :: "string \<Rightarrow> string \<Rightarrow> int \<Rightarrow> unit am" where
  "am_cookie name value age c s =
     (Inr (), s\<lparr>au_out := (au_out s)\<lparr>re_cookies := re_cookies (au_out s) @ [(name, value, age)]\<rparr>\<rparr>)"

definition am_statement :: "(auth_call \<Rightarrow> auth_rows \<Rightarrow> 'a \<times> auth_rows) \<Rightarrow> 'a am" where
  "am_statement f c s =
     (let s' = s\<lparr>au_tick := Suc (au_tick s)\<rparr> in
      if au_aborted s \<or> ac_fault c (au_tick s) then (Inl Storage_Failed, s'\<lparr>au_aborted := True\<rparr>)
      else case f c (au_rows s) of (a, rows) \<Rightarrow> (Inr a, s'\<lparr>au_rows := rows\<rparr>))"

section \<open>Statements\<close>

definition digest :: "string \<Rightarrow> string" where
  "digest s = sha256_hex s"

text \<open>The row the database shows at \<open>now\<close>.\<close>

definition visible :: "auth_rows \<Rightarrow> time \<Rightarrow> auth_key \<Rightarrow> auth_body option" where
  "visible rows now k =
     (case map_of rows k of None \<Rightarrow> None | Some (b, expires) \<Rightarrow> if now < expires then Some b else None)"

definition am_get :: "(auth_body \<Rightarrow> 'a option) \<Rightarrow> string \<Rightarrow> string \<Rightarrow> 'a am" where
  "am_get want kind key =
     am_bind (am_statement (\<lambda>c rows. (visible rows (ac_db_now c) (kind, key), rows))) (\<lambda>found.
     case found of
       None \<Rightarrow> am_fail Auth_Not_Found
     | Some b \<Rightarrow> (case want b of None \<Rightarrow> am_fail Malformed_Body | Some v \<Rightarrow> am_return v))"

definition am_put :: "string \<Rightarrow> string \<Rightarrow> auth_body \<Rightarrow> time \<Rightarrow> unit am" where
  "am_put kind key b until = am_statement (\<lambda>c rows. ((), AList.update (kind, key) (b, until) rows))"

definition am_del :: "string \<Rightarrow> string \<Rightarrow> unit am" where
  "am_del kind key = am_statement (\<lambda>c rows. ((), AList.delete (kind, key) rows))"

definition unexpired :: "time \<Rightarrow> auth_rows \<Rightarrow> auth_rows" where
  "unexpired now = filter (\<lambda>(k, b, expires). \<not> expires < now)"

definition delete_expired :: "unit am" where
  "delete_expired = am_statement (\<lambda>c rows. ((), unexpired (ac_db_now c) rows))"

definition count_kind :: "string \<Rightarrow> nat am" where
  "count_kind kind = am_statement (\<lambda>c rows. (length (filter (\<lambda>((k, key), v). k = kind) rows), rows))"

text \<open>\<open>BEGIN\<close> and the advisory lock.\<close>

abbreviation am_skip :: "unit am" where
  "am_skip \<equiv> am_statement (\<lambda>c rows. ((), rows))"

definition auth_transaction :: "'a am \<Rightarrow> auth_call \<Rightarrow> auth_state \<Rightarrow> (auth_error + 'a) \<times> auth_state" where
  "auth_transaction m c s =
     (case am_seq am_skip (am_seq am_skip (am_seq delete_expired m)) c (s\<lparr>au_aborted := False\<rparr>) of
        (Inl e, s') \<Rightarrow> (Inl e, s'\<lparr>au_rows := au_rows s, au_aborted := False\<rparr>)
      | (Inr a, s') \<Rightarrow>
          let s'' = s'\<lparr>au_tick := Suc (au_tick s'), au_aborted := False\<rparr> in
          if au_aborted s' \<or> ac_fault c (au_tick s') then (Inl Storage_Failed, s''\<lparr>au_rows := au_rows s\<rparr>)
          else (Inr a, s''))"

section \<open>Calendar\<close>

definition days_of_civil :: "int \<Rightarrow> int \<Rightarrow> int \<Rightarrow> int" where
  "days_of_civil y m d =
     (let y' = (if m \<le> 2 then y - 1 else y); era = y' div 400; yoe = y' mod 400;
          mp = (if m > 2 then m - 3 else m + 9);
          doy = (153 * mp + 2) div 5 + d - 1
      in era * 146097 + yoe * 365 + yoe div 4 - yoe div 100 + doy - 306)"

text \<open>\<open>t.AddDate(n, 0, 0)\<close>\<close>

definition add_years :: "int \<Rightarrow> time \<Rightarrow> time" where
  "add_years n t =
     (case civil_date (t div (24 * hour)) of
        (y, m, d) \<Rightarrow> days_of_civil (y + n) m d * (24 * hour) + t mod (24 * hour))"

lemma add_years_example:
  "civil_date (days_of_civil 2024 2 29) = (2024, 2, 29)"
  "civil_date (add_years 100 (days_of_civil 2024 2 29 * (24 * hour) + 7) div (24 * hour)) = (2124, 2, 29)"
  "civil_date (add_years 100 (days_of_civil 2000 2 29 * (24 * hour)) div (24 * hour)) = (2100, 3, 1)"
  by code_simp+

section \<open>Evaluation\<close>

lemmas am_defs =
  am_return_def am_fail_def am_bind_def am_seq_def am_try_def am_now_def am_random_def am_write_def
  am_cookie_def am_statement_def am_get_def am_put_def am_del_def delete_expired_def

lemma visible_Some:
  "visible rows now k = Some b \<longleftrightarrow> (\<exists>expires. map_of rows k = Some (b, expires) \<and> now < expires)"
  by (auto simp: visible_def split: option.splits if_splits prod.splits)

lemma visible_update [simp]:
  "visible (AList.update k (b, expires) rows) now k' =
     (if k' = k then if now < expires then Some b else None else visible rows now k')"
  by (simp add: visible_def update_conv')

lemma visible_delete [simp]:
  "visible (AList.delete k rows) now k' = (if k' = k then None else visible rows now k')"
  by (simp add: visible_def delete_conv')

lemma distinct_unexpired: "distinct (map fst rows) \<Longrightarrow> distinct (map fst (unexpired now rows))"
  by (simp add: unexpired_def distinct_map_filter)

lemma map_of_unexpired:
  assumes "distinct (map fst rows)"
  shows "map_of (unexpired now rows) k = Some (b, expires) \<longleftrightarrow> map_of rows k = Some (b, expires) \<and> \<not> expires < now"
  using assms distinct_unexpired[OF assms, of now] by (auto simp: map_of_eq_Some_iff unexpired_def)

text \<open>Deleting what expired hides nothing that was visible.\<close>

lemma visible_unexpired:
  assumes "distinct (map fst rows)"
  shows "visible (unexpired now rows) now k = visible rows now k"
proof -
  have "visible (unexpired now rows) now k = Some b \<longleftrightarrow> visible rows now k = Some b" for b
    by (auto simp: visible_Some map_of_unexpired assms)
  then show ?thesis by (metis not_None_eq)
qed

end
