(* ===== verification/Auth_Server.thy ===== *)
theory Auth_Server
  imports Auth_Records
begin

text \<open>
  The login server of \<open>internal/authn/server.go\<close>: its configuration and how it starts, which stored
  identities are valid, browser sessions and their cookies, the CSRF check, the rate limit and
  \<open>safeReturn\<close>.
\<close>

section \<open>Configuration\<close>

record registered_client =
  rc_id :: string
  rc_name :: string
  rc_redirects :: "string list"

record login_config =
  lc_clients :: "registered_client list"
  lc_mode :: string
  lc_origin :: string
  lc_password :: string
  lc_google_client_id :: string
  lc_google_client_secret :: string
  lc_google_domains :: "string list"
  lc_google_emails :: "string list"
  lc_google_issuer :: string

text \<open>\<open>sv_google\<close> says that the server has a Google provider.\<close>

record auth_server =
  sv_epoch :: string
  sv_cfg :: login_config
  sv_key :: string
  sv_google :: bool

definition interactive :: "string \<Rightarrow> bool" where
  "interactive mode \<longleftrightarrow> mode = ''password'' \<or> mode = ''google''"

definition validRedirect :: "string \<Rightarrow> bool" where
  "validRedirect raw =
     (case parse_full raw of
        None \<Rightarrow> False
      | Some u \<Rightarrow> ur_host u \<noteq> [] \<and> \<not> ur_user u \<and> ur_fragment u = [] \<and>
          (ur_scheme u = ''https'' \<or> ur_scheme u = ''http'' \<and> is_loopback (hostname_of (ur_host u))))"

definition valid_origin :: "string \<Rightarrow> bool" where
  "valid_origin origin =
     (case parse_full origin of
        None \<Rightarrow> False
      | Some u \<Rightarrow> ur_host u \<noteq> [] \<and> \<not> ur_user u \<and> ur_path u = [] \<and> ur_query u = [] \<and> ur_fragment u = [] \<and>
          (ur_scheme u = ''https'' \<or> ur_scheme u = ''http'' \<and>
             (hostname_of (ur_host u) = ''localhost'' \<or> is_loopback (hostname_of (ur_host u)))))"

definition validate_client :: "registered_client \<Rightarrow> string option" where
  "validate_client client =
     (if rc_id client = [] \<or> 200 < length (rc_id client) \<or> rc_redirects client = []
      then Some ''OAuth clients require ID and redirect URIs''
      else if \<not> list_all validRedirect (rc_redirects client)
      then Some ''OAuth client redirect URI must be HTTPS or HTTP loopback'' else None)"

fun first_client_error :: "('a \<Rightarrow> string option) \<Rightarrow> 'a list \<Rightarrow> string option" where
  "first_client_error f [] = None"
| "first_client_error f (x # xs) = (case f x of None \<Rightarrow> first_client_error f xs | Some e \<Rightarrow> Some e)"

definition Validate_Login :: "login_config \<Rightarrow> string option" where
  "Validate_Login c =
     (if lc_mode c \<notin> set [''dev'', ''none'', ''proxy'', ''token'', ''password'', ''google'']
      then Some ''invalid authentication mode''
      else if lc_origin c \<noteq> [] \<and> interactive (lc_mode c) \<and> \<not> valid_origin (lc_origin c)
      then Some ''external origin must be HTTPS, or HTTP on loopback, without a path''
      else if interactive (lc_mode c) \<and> lc_origin c = []
      then Some ''ENVY_EXTERNAL_ORIGIN is required for password and Google modes''
      else if lc_mode c = ''google'' \<and> (lc_google_client_id c = [] \<or> lc_google_client_secret c = [] \<or>
        length (lc_google_domains c) + length (lc_google_emails c) = 0)
      then Some ''google mode requires client ID, client secret and allowed domains or emails''
      else first_client_error validate_client (lc_clients c))"

section \<open>Versions\<close>

definition config_fingerprint :: "login_config \<Rightarrow> string" where
  "config_fingerprint cfg =
     (if lc_mode cfg = ''password'' then digest (''password:'' @ lc_password cfg)
      else digest (lc_mode cfg @ '':'' @ lc_google_client_id cfg))"

abbreviation fingerprint :: "auth_server \<Rightarrow> string" where
  "fingerprint srv \<equiv> config_fingerprint (sv_cfg srv)"

definition version :: "auth_server \<Rightarrow> string" where
  "version srv = digest (sv_epoch srv @ '':'' @ fingerprint srv)"

section \<open>Starting\<close>

definition oauth_client_of :: "string \<Rightarrow> string \<Rightarrow> string list \<Rightarrow> oauth_client" where
  "oauth_client_of origin i redirects =
     \<lparr>cl_id = i, cl_public = True, cl_redirects = redirects,
      cl_grants = [''authorization_code'', ''refresh_token''], cl_responses = [''code''],
      cl_scopes = [''envy'', ''offline_access''], cl_audience = [origin @ ''/v1'', origin @ ''/mcp'']\<rparr>"

fun put_clients :: "string \<Rightarrow> registered_client list \<Rightarrow> unit am" where
  "put_clients origin [] = am_return ()"
| "put_clients origin (client # rest) =
     am_bind am_now (\<lambda>now.
     am_seq (am_put ''client'' (rc_id client)
               (Client_Body (oauth_client_of origin (rc_id client) (rc_redirects client))) (add_years 100 now))
     (am_seq (am_put ''client-name'' (rc_id client) (Text_Body (rc_name client)) (add_years 100 now))
     (put_clients origin rest)))"

definition server_key :: "string am" where
  "server_key = am_bind (am_try (am_get text_body ''secret'' ''oauth-hmac'')) (\<lambda>found.
     case found of
       Inr key \<Rightarrow> am_return key
     | Inl Auth_Not_Found \<Rightarrow>
         am_bind am_random (\<lambda>key. am_bind am_now (\<lambda>now.
         am_seq (am_put ''secret'' ''oauth-hmac'' (Text_Body key) (add_years 100 now)) (am_return key)))
     | Inl e \<Rightarrow> am_fail e)"

definition server_epoch :: "login_config \<Rightarrow> string am" where
  "server_epoch cfg = am_bind (am_try (am_get generation_body ''configuration'' ''active'')) (\<lambda>found.
     let renew = am_bind am_random (\<lambda>epoch. am_bind am_now (\<lambda>now.
           am_seq (am_put ''configuration'' ''active''
             (Generation_Body \<lparr>ag_fingerprint = config_fingerprint cfg, ag_epoch = epoch\<rparr>) (add_years 100 now))
           (am_return epoch)))
     in case found of
          Inr g \<Rightarrow> if ag_fingerprint g \<noteq> config_fingerprint cfg then renew else am_return (ag_epoch g)
        | Inl e \<Rightarrow> if e = Auth_Not_Found then renew else am_fail e)"

definition normal_config :: "login_config \<Rightarrow> login_config" where
  "normal_config c = c\<lparr>lc_origin := trim_right CHR ''/'' (lc_origin c),
     lc_password := (if lc_password c = [] then ''admin'' else lc_password c)\<rparr>"

text \<open>\<open>New\<close>; \<open>discover\<close> says whether the issuer's discovery document was read.\<close>

definition New_Login ::
  "(string \<Rightarrow> bool) \<Rightarrow> login_config \<Rightarrow> auth_call \<Rightarrow> auth_state \<Rightarrow> (string + auth_server) \<times> auth_state"
where
  "New_Login discover cfg c s =
     (let cfg = normal_config cfg in
      case Validate_Login cfg of
        Some e \<Rightarrow> (Inl e, s)
      | None \<Rightarrow>
          case auth_transaction
            (am_bind server_key (\<lambda>key. am_bind (server_epoch cfg) (\<lambda>epoch.
             am_seq (put_clients (lc_origin cfg) (lc_clients cfg)) (am_return (key, epoch))))) c s of
            (Inl e, s') \<Rightarrow> (Inl ''initialize authentication storage'', s')
          | (Inr (key, epoch), s') \<Rightarrow>
              let issuer = (if lc_google_issuer cfg = [] then ''https://accounts.google.com'' else lc_google_issuer cfg) in
              if lc_mode cfg = ''google'' \<and> \<not> discover issuer
              then (Inl ''discover Google identity provider'', s')
              else (Inr \<lparr>sv_epoch = epoch, sv_cfg = cfg, sv_key = key, sv_google = (lc_mode cfg = ''google'')\<rparr>, s'))"

section \<open>Valid identities\<close>

definition admitted :: "login_config \<Rightarrow> string \<Rightarrow> string \<Rightarrow> bool \<Rightarrow> bool" where
  "admitted cfg email domain verified \<longleftrightarrow>
     verified \<and>
     (list_ex (\<lambda>v. equal_fold (trim_space v) email) (lc_google_emails cfg) \<or>
      list_ex (\<lambda>v. domain \<noteq> [] \<and> equal_fold (trim_space v) domain) (lc_google_domains cfg))"

definition valid_identity :: "auth_server \<Rightarrow> identity \<Rightarrow> bool am" where
  "valid_identity srv i =
     (if id_mode i \<noteq> lc_mode (sv_cfg srv) \<or> id_version i \<noteq> version srv then am_return False
      else am_bind (am_try (am_get generation_body ''configuration'' ''active'')) (\<lambda>found.
        case found of
          Inl e \<Rightarrow> am_return False
        | Inr g \<Rightarrow>
            if ag_epoch g \<noteq> sv_epoch srv \<or> ag_fingerprint g \<noteq> fingerprint srv then am_return False
            else if id_mode i = ''google'' \<and>
              \<not> admitted (sv_cfg srv) (pr_email (id_principal i)) (id_domain i) (id_verified i)
            then am_return False
            else am_bind (am_try (am_get time_body ''logout-all'' (pr_id (id_principal i)))) (\<lambda>found.
              am_return (case found of
                Inl e \<Rightarrow> e = Auth_Not_Found
              | Inr t \<Rightarrow> is_zero_time t \<or> t < id_issued i))))"

section \<open>Cookies\<close>

abbreviation browserCookie :: string where "browserCookie \<equiv> ''envy_session''"
abbreviation csrfCookie :: string where "csrfCookie \<equiv> ''envy_csrf''"
abbreviation googleCookie :: string where "googleCookie \<equiv> ''envy_google''"

definition secure :: "auth_server \<Rightarrow> bool" where
  "secure srv \<longleftrightarrow> has_prefix (lc_origin (sv_cfg srv)) ''https://''"

definition cookieName :: "auth_server \<Rightarrow> string \<Rightarrow> string" where
  "cookieName srv name = (if secure srv then ''__Host-'' @ name else name)"

definition set_cookie :: "auth_server \<Rightarrow> string \<Rightarrow> string \<Rightarrow> int \<Rightarrow> unit am" where
  "set_cookie srv name value age = am_cookie (cookieName srv name) value age"

fun cookie_from :: "string \<Rightarrow> string \<Rightarrow> (string \<times> string) list \<Rightarrow> string" where
  "cookie_from name value [] = value"
| "cookie_from name value ((n, v) # rest) =
     (if n = name then (if value \<noteq> [] then [] else cookie_from name v rest) else cookie_from name value rest)"

definition cookieValue :: "http_request \<Rightarrow> string \<Rightarrow> string" where
  "cookieValue r name = cookie_from name [] (hr_cookies r)"

definition equal_digest :: "string \<Rightarrow> string \<Rightarrow> bool" where
  "equal_digest a b \<longleftrightarrow> a \<noteq> [] \<and> b \<noteq> [] \<and> digest a = digest b"

definition csrf_token :: "http_request \<Rightarrow> string" where
  "csrf_token r = (let t = header_get r ''X-Csrf-Token'' in if t = [] then form_value r ''csrf_token'' else t)"

definition csrf :: "auth_server \<Rightarrow> http_request \<Rightarrow> bool am" where
  "csrf srv r =
     (if header_values r ''Origin'' \<noteq> [lc_origin (sv_cfg srv)]
      then am_seq (am_write (Error_Answer 403 ''cross-origin request rejected'')) (am_return False)
      else if \<not> equal_digest (csrf_token r) (cookieValue r (cookieName srv csrfCookie))
      then am_seq (am_write (Error_Answer 403 ''invalid CSRF token'')) (am_return False)
      else am_return True)"

section \<open>Browser sessions\<close>

definition issue :: "auth_server \<Rightarrow> identity \<Rightarrow> unit am" where
  "issue srv i0 =
     am_bind am_now (\<lambda>now.
     let i = i0\<lparr>id_issued := now, id_mode := lc_mode (sv_cfg srv), id_version := version srv\<rparr> in
     am_bind am_random (\<lambda>token.
     am_bind am_now (\<lambda>t1.
     am_seq (am_put ''identity'' (pr_id (id_principal i)) (Identity_Body i) (add_years 100 t1))
     (am_bind am_now (\<lambda>t2.
     am_seq (am_put ''browser'' (digest token) (Identity_Body i) (t2 + 7 * 24 * hour))
     (set_cookie srv browserCookie token (7 * 24 * 3600)))))))"

definition browser :: "auth_server \<Rightarrow> http_request \<Rightarrow> identity am" where
  "browser srv r =
     (let token = cookieValue r (cookieName srv browserCookie) in
      if token = [] then am_fail Auth_Not_Found
      else am_bind (am_get identity_body ''browser'' (digest token)) (\<lambda>i.
        am_bind (valid_identity srv i) (\<lambda>ok. if ok then am_return i else am_fail Auth_Not_Found)))"

definition safeReturn :: "string \<Rightarrow> string" where
  "safeReturn v =
     (case parse_full v of
        None \<Rightarrow> ''/''
      | Some u \<Rightarrow>
          if \<not> has_prefix v ''/'' \<or> has_prefix v ''//'' \<or> contains_any v [backslash, carriage_return, newline] \<or>
            ur_scheme u \<noteq> [] \<or> ur_host u \<noteq> []
          then ''/'' else v)"

definition rate :: "string \<Rightarrow> int \<Rightarrow> bool am" where
  "rate key limit =
     am_bind (am_try (am_get number_body ''rate'' key)) (\<lambda>found.
     let use = (\<lambda>n. if limit \<le> n then am_return False
           else am_bind am_now (\<lambda>now.
             am_bind (am_try (am_put ''rate'' key (Number_Body (n + 1)) (now - now mod minute + minute))) (\<lambda>r.
             am_return (case r of Inl e \<Rightarrow> False | Inr u \<Rightarrow> True))))
     in case found of Inr n \<Rightarrow> use n | Inl e \<Rightarrow> if e = Auth_Not_Found then use 0 else am_return False)"

section \<open>Facts\<close>

text \<open>A return address is a path on this server: one slash, no backslash.\<close>

lemma safeReturn_local:
  "\<exists>rest. safeReturn v = CHR ''/'' # rest \<and> backslash \<notin> set rest \<and> \<not> has_prefix rest ''/'' \<and>
     newline \<notin> set rest \<and> carriage_return \<notin> set rest"
proof (cases "safeReturn v = v \<and> has_prefix v ''/'' \<and> \<not> has_prefix v ''//'' \<and> \<not> contains_any v [backslash, carriage_return, newline]")
  case True
  then obtain rest where "v = CHR ''/'' # rest" by (auto simp: has_prefix_iff)
  then show ?thesis using True by (auto simp: has_prefix_iff contains_any_iff)
next
  case False
  then have "safeReturn v = ''/''" by (auto simp: safeReturn_def split: option.splits if_splits)
  then show ?thesis by (simp add: has_prefix_iff)
qed

lemma equal_digest_nonempty: "equal_digest a b \<Longrightarrow> a \<noteq> [] \<and> b \<noteq> []"
  by (simp add: equal_digest_def)

text \<open>Among several cookies of one name none is believed, unless all but one are empty.\<close>

lemma cookie_from_Nil: "cookie_from name v rest \<noteq> [] \<Longrightarrow> v \<noteq> [] \<Longrightarrow> cookie_from name v rest = v"
  by (induction rest arbitrary: v) (auto split: if_splits)

lemma cookieValue_in: "cookieValue r name \<noteq> [] \<Longrightarrow> (name, cookieValue r name) \<in> set (hr_cookies r)"
proof -
  have "cookie_from name v cs \<noteq> [] \<Longrightarrow> v = [] \<Longrightarrow> (name, cookie_from name v cs) \<in> set cs" for v cs
  proof (induction cs arbitrary: v)
    case (Cons c cs)
    obtain n x where c: "c = (n, x)" by fastforce
    show ?case
    proof (cases "n = name \<and> x \<noteq> []")
      case True
      then show ?thesis using Cons.prems c cookie_from_Nil[of name x cs] by auto
    next
      case False
      then show ?thesis using Cons c by (auto split: if_splits)
    qed
  qed simp
  then show "cookieValue r name \<noteq> [] \<Longrightarrow> ?thesis" by (simp add: cookieValue_def)
qed

end
