(* ===== verification/Auth_OAuth.thy ===== *)
theory Auth_OAuth
  imports Auth_Server
begin

text \<open>
  The OAuth half of \<open>internal/authn\<close>: \<open>oauthStore\<close> of \<open>storage.go\<close>, \<open>Authenticate\<close> of \<open>server.go\<close> and
  the endpoints of \<open>oauth.go\<close>. The library (\<open>github.com/ory/fosite\<close>) is a parameter: each of its
  entry points is a program that calls the store, draws random strings and reads the clock, then
  returns. \<open>honest_program\<close> says which sessions such a program may store and return.
\<close>

section \<open>Sessions\<close>

text \<open>\<open>oauthSession.SetExpiresAt\<close>; the refresh token ends with the session.\<close>

definition SetExpiresAt :: "string \<Rightarrow> time \<Rightarrow> oauth_session \<Rightarrow> oauth_session" where
  "SetExpiresAt kind t sess =
     sess\<lparr>os_expires := AList.update kind
       (if kind = ''refresh_token'' \<and> \<not> is_zero_time (os_until sess) \<and> os_until sess < t then os_until sess else t)
       (os_expires sess)\<rparr>"

text \<open>What the library leaves alone in a session.\<close>

definition session_core :: "oauth_session \<Rightarrow> identity \<times> string \<times> time" where
  "session_core sess = (os_identity sess, os_resource sess, os_until sess)"

lemma session_core_expires [simp]: "session_core (SetExpiresAt kind t sess) = session_core sess"
  by (simp add: session_core_def SetExpiresAt_def)

section \<open>The store\<close>

datatype store_call =
    Get_Client string
  | Assertion_Valid string
  | Set_Assertion string time
  | Create_Code string requester
  | Get_Code string
  | Invalidate_Code string
  | Create_Access string requester
  | Get_Access string
  | Delete_Access string
  | Create_Refresh string requester
  | Get_Refresh string
  | Delete_Refresh string
  | Rotate_Refresh string string
  | Revoke_Refresh string
  | Revoke_Access string
  | Create_PKCE string requester
  | Get_PKCE string
  | Delete_PKCE string

text \<open>An answer carries the error beside the value, as a reused code or token returns both.\<close>

datatype store_answer =
    Did "auth_error option"
  | Client_Found "auth_error + oauth_client"
  | Request_Found "requester option" "auth_error option"

text \<open>\<open>sanitize\<close> is \<open>Requester.Sanitize\<close> of the library.\<close>

definition oauth_save ::
  "(string list \<Rightarrow> requester \<Rightarrow> requester) \<Rightarrow> string \<Rightarrow> string \<Rightarrow> requester \<Rightarrow> unit am"
where
  "oauth_save sanitize kind key r =
     (let v = sanitize [''redirect_uri'', ''code_challenge'', ''code_challenge_method''] r;
          sess = rq_session r
      in am_seq (am_put ''grant'' (rq_id r) (Session_Body sess) (os_until sess))
           (am_put kind (digest key) (Oauth_Record v True) (os_until sess)))"

definition oauth_read :: "auth_server \<Rightarrow> string \<Rightarrow> string \<Rightarrow> (requester option \<times> auth_error option) am" where
  "oauth_read srv kind key =
     am_bind (am_get record_body kind (digest key)) (\<lambda>(r, active).
     am_bind (valid_identity srv (os_identity (rq_session r))) (\<lambda>ok.
     if \<not> ok then am_fail Auth_Not_Found
     else am_bind am_now (\<lambda>now.
     if \<not> now < os_until (rq_session r) then am_fail Auth_Not_Found
     else am_bind (am_try (am_get flag_body ''revoked'' (rq_id r))) (\<lambda>found.
     case found of
       Inl e \<Rightarrow> if e \<noteq> Auth_Not_Found then am_fail e
                else am_return (Some r, if active then None
                       else Some (if kind = ''code'' then Invalidated_Code else Inactive_Token))
     | Inr revoked \<Rightarrow>
         if revoked then am_fail Auth_Not_Found
         else am_return (Some r, if active then None
                else Some (if kind = ''code'' then Invalidated_Code else Inactive_Token))))))"

definition oauth_inactive :: "string \<Rightarrow> string \<Rightarrow> unit am" where
  "oauth_inactive kind key =
     am_bind (am_get record_body kind (digest key)) (\<lambda>(r, active).
     am_bind am_now (\<lambda>now. am_put kind (digest key) (Oauth_Record r False) (now + 31 * 24 * hour)))"

definition RevokeRefreshToken :: "string \<Rightarrow> unit am" where
  "RevokeRefreshToken i = am_bind am_now (\<lambda>now. am_put ''revoked'' i (Flag_Body True) (now + 31 * 24 * hour))"

definition did :: "unit am \<Rightarrow> store_answer am" where
  "did m = am_bind (am_try m) (\<lambda>r. am_return (Did (case r of Inl e \<Rightarrow> Some e | Inr u \<Rightarrow> None)))"

definition request_found :: "(requester option \<times> auth_error option) am \<Rightarrow> store_answer am" where
  "request_found m = am_bind (am_try m) (\<lambda>r.
     am_return (case r of Inl e \<Rightarrow> Request_Found None (Some e) | Inr (q, e) \<Rightarrow> Request_Found q e))"

text \<open>The methods of \<open>oauthStore\<close>.\<close>

definition oauth_store ::
  "(string list \<Rightarrow> requester \<Rightarrow> requester) \<Rightarrow> auth_server \<Rightarrow> store_call \<Rightarrow> store_answer am"
where
  "oauth_store sanitize srv call =
     (case call of
        Get_Client i \<Rightarrow> am_bind (am_try (am_get client_body ''client'' i)) (\<lambda>r. am_return (Client_Found r))
      | Assertion_Valid jti \<Rightarrow> am_return (Did (Some Invalid_Client))
      | Set_Assertion jti t \<Rightarrow> am_return (Did (Some Invalid_Client))
      | Create_Code k r \<Rightarrow> did (oauth_save sanitize ''code'' k r)
      | Get_Code k \<Rightarrow> request_found (oauth_read srv ''code'' k)
      | Invalidate_Code k \<Rightarrow> did (oauth_inactive ''code'' k)
      | Create_Access k r \<Rightarrow> did (oauth_save sanitize ''access'' k r)
      | Get_Access k \<Rightarrow> request_found (oauth_read srv ''access'' k)
      | Delete_Access k \<Rightarrow> did (am_del ''access'' (digest k))
      | Create_Refresh k r \<Rightarrow> did (oauth_save sanitize ''refresh'' k r)
      | Get_Refresh k \<Rightarrow> request_found (oauth_read srv ''refresh'' k)
      | Delete_Refresh k \<Rightarrow> did (oauth_inactive ''refresh'' k)
      | Rotate_Refresh i k \<Rightarrow> did (oauth_inactive ''refresh'' k)
      | Revoke_Refresh i \<Rightarrow> did (RevokeRefreshToken i)
      | Revoke_Access i \<Rightarrow> did (RevokeRefreshToken i)
      | Create_PKCE k r \<Rightarrow> did (oauth_save sanitize ''pkce'' k r)
      | Get_PKCE k \<Rightarrow> request_found (oauth_read srv ''pkce'' k)
      | Delete_PKCE k \<Rightarrow> did (am_del ''pkce'' (digest k)))"

section \<open>The library\<close>

datatype 'a lib =
    Finish 'a
  | Ask store_call "store_answer \<Rightarrow> 'a lib"
  | Draw "string \<Rightarrow> 'a lib"
  | Clock "time \<Rightarrow> 'a lib"

primrec run_lib ::
  "(string list \<Rightarrow> requester \<Rightarrow> requester) \<Rightarrow> auth_server \<Rightarrow> 'a lib \<Rightarrow> 'a am"
where
  "run_lib sanitize srv (Finish a) = am_return a"
| "run_lib sanitize srv (Ask call k) =
     am_bind (oauth_store sanitize srv call) (\<lambda>ans. run_lib sanitize srv (k ans))"
| "run_lib sanitize srv (Draw k) = am_bind am_random (\<lambda>x. run_lib sanitize srv (k x))"
| "run_lib sanitize srv (Clock k) = am_bind am_now (\<lambda>t. run_lib sanitize srv (k t))"

text \<open>The session a call stores, and the one an answer without an error hands over.\<close>

fun stored_session :: "store_call \<Rightarrow> oauth_session option" where
  "stored_session (Create_Code k r) = Some (rq_session r)"
| "stored_session (Create_Access k r) = Some (rq_session r)"
| "stored_session (Create_Refresh k r) = Some (rq_session r)"
| "stored_session (Create_PKCE k r) = Some (rq_session r)"
| "stored_session call = None"

fun found_session :: "store_answer \<Rightarrow> oauth_session option" where
  "found_session (Request_Found (Some r) None) = Some (rq_session r)"
| "found_session ans = None"

text \<open>
  A program is honest when each session it stores or returns has the identity, resource and end of
  one it was given (\<open>known\<close>) or read from the store without an error; \<open>returned\<close> picks the session
  of its result.
\<close>

primrec honest_program ::
  "('a \<Rightarrow> oauth_session option) \<Rightarrow> (identity \<times> string \<times> time) set \<Rightarrow> 'a lib \<Rightarrow> bool"
where
  "honest_program returned known (Finish a) \<longleftrightarrow> (\<forall>sess. returned a = Some sess \<longrightarrow> session_core sess \<in> known)"
| "honest_program returned known (Ask call k) \<longleftrightarrow>
     (\<forall>sess. stored_session call = Some sess \<longrightarrow> session_core sess \<in> known) \<and>
     (\<forall>ans. honest_program returned (known \<union> session_core ` set_option (found_session ans)) (k ans))"
| "honest_program returned known (Draw k) \<longleftrightarrow> (\<forall>x. honest_program returned known (k x))"
| "honest_program returned known (Clock k) \<longleftrightarrow> (\<forall>t. honest_program returned known (k t))"

text \<open>
  The entry points of the library the code calls, with the decoders of request bodies and the client
  of Google. The OAuth endpoints return the library's response, opaque here.
\<close>

record client_metadata =
  cm_name :: string
  cm_redirects :: "string list"
  cm_auth :: string
  cm_grants :: "string list"
  cm_responses :: "string list"

record google_claims =
  gc_email :: string
  gc_verified :: bool
  gc_domain :: string
  gc_name :: string

record id_token =
  it_issuer :: string
  it_subject :: string
  it_nonce :: string
  it_claims :: "google_claims option"

record auth_lib =
  al_sanitize :: "string list \<Rightarrow> requester \<Rightarrow> requester"
  al_introspect :: "auth_server \<Rightarrow> string \<Rightarrow> (auth_error + requester) lib"
  al_authorize_request :: "auth_server \<Rightarrow> http_request \<Rightarrow> (auth_error + requester) lib"
  al_authorize_response :: "auth_server \<Rightarrow> requester \<Rightarrow> oauth_session \<Rightarrow> (auth_error + string) lib"
  al_access_request :: "auth_server \<Rightarrow> http_request \<Rightarrow> (auth_error + requester) lib"
  al_access_response :: "auth_server \<Rightarrow> requester \<Rightarrow> (auth_error + string) lib"
  al_revocation :: "auth_server \<Rightarrow> http_request \<Rightarrow> auth_error option lib"
  al_decode_login :: "string \<Rightarrow> (string \<times> string) option"
  al_decode_client :: "string \<Rightarrow> client_metadata option"
  al_auth_code_url :: "auth_server \<Rightarrow> string \<Rightarrow> string \<Rightarrow> string \<Rightarrow> string"
  al_exchange :: "auth_server \<Rightarrow> string \<Rightarrow> string \<Rightarrow> string option option"
  al_verify :: "auth_server \<Rightarrow> string \<Rightarrow> id_token option"

abbreviation call_lib :: "auth_lib \<Rightarrow> auth_server \<Rightarrow> 'a lib \<Rightarrow> 'a am" where
  "call_lib L srv \<equiv> run_lib (al_sanitize L) srv"

section \<open>Authenticate\<close>

definition authenticate_body :: "auth_lib \<Rightarrow> auth_server \<Rightarrow> http_request \<Rightarrow> string \<Rightarrow> principal am" where
  "authenticate_body L srv r resource =
     (if header_get r ''Authorization'' \<noteq> [] then
        (case header_values r ''Authorization'' of
           [h] \<Rightarrow>
             if \<not> has_prefix h ''Bearer '' then am_fail Request_Unauthorized
             else am_bind (call_lib L srv (al_introspect L srv (trim_prefix h ''Bearer ''))) (\<lambda>res.
               case res of
                 Inl e \<Rightarrow> am_fail e
               | Inr req \<Rightarrow>
                   if os_resource (rq_session req) \<noteq> lc_origin (sv_cfg srv) @ resource
                   then am_fail Request_Unauthorized
                   else am_return (id_principal (os_identity (rq_session req))))
         | _ \<Rightarrow> am_fail Request_Unauthorized)
      else if resource \<noteq> ''/v1'' then am_fail Request_Unauthorized
      else am_bind (browser srv r) (\<lambda>i. am_return (id_principal i)))"

definition Authenticate ::
  "auth_lib \<Rightarrow> auth_server \<Rightarrow> http_request \<Rightarrow> string \<Rightarrow> auth_call \<Rightarrow> auth_state \<Rightarrow> (auth_error + principal) \<times> auth_state"
where
  "Authenticate L srv r resource = auth_transaction (authenticate_body L srv r resource)"

definition BrowserMutationAllowed :: "auth_server \<Rightarrow> http_request \<Rightarrow> bool am" where
  "BrowserMutationAllowed srv r =
     (if hr_method r \<in> set [''GET'', ''HEAD'', ''OPTIONS''] then am_return True else csrf srv r)"

section \<open>Endpoints\<close>

definition json_response :: "nat \<Rightarrow> json \<Rightarrow> unit am" where
  "json_response status v = am_write (Json_Answer status v)"

definition metadata :: "auth_server \<Rightarrow> http_request \<Rightarrow> unit am" where
  "metadata srv r =
     (let base = lc_origin (sv_cfg srv) in
      if contains (hr_path r) ''oauth-protected-resource'' then
        json_response 200 (JObj
          [(''authorization_servers'', JStrs [base]), (''bearer_methods_supported'', JStrs [''header'']),
           (''resource'', JStr (base @ (if has_suffix (hr_path r) ''/v1'' then ''/v1'' else ''/mcp''))),
           (''scopes_supported'', JStrs [''envy'', ''offline_access''])])
      else
        json_response 200 (JObj
          [(''authorization_endpoint'', JStr (base @ ''/oauth/authorize'')),
           (''code_challenge_methods_supported'', JStrs [''S256'']),
           (''grant_types_supported'', JStrs [''authorization_code'', ''refresh_token'']),
           (''issuer'', JStr base), (''registration_endpoint'', JStr (base @ ''/oauth/register'')),
           (''response_types_supported'', JStrs [''code'']),
           (''revocation_endpoint'', JStr (base @ ''/oauth/revoke'')),
           (''scopes_supported'', JStrs [''envy'', ''offline_access'']),
           (''token_endpoint'', JStr (base @ ''/oauth/token'')),
           (''token_endpoint_auth_methods_supported'', JStrs [''none''])]))"

definition valid_metadata :: "client_metadata \<Rightarrow> bool" where
  "valid_metadata m \<longleftrightarrow>
     length (cm_name m) \<le> 200 \<and> cm_redirects m \<noteq> [] \<and> length (cm_redirects m) \<le> 10 \<and>
     (cm_auth m = [] \<or> cm_auth m = ''none'') \<and>
     list_all (\<lambda>g. g = ''authorization_code'' \<or> g = ''refresh_token'') (cm_grants m) \<and>
     list_all (\<lambda>v. v = ''code'') (cm_responses m) \<and> list_all validRedirect (cm_redirects m)"

definition store_client :: "auth_server \<Rightarrow> client_metadata \<Rightarrow> unit am" where
  "store_client srv m =
     am_bind am_random (\<lambda>i.
     let c = oauth_client_of (lc_origin (sv_cfg srv)) i (cm_redirects m);
         name = (if trim_space (cm_name m) = [] then ''MCP application'' else trim_space (cm_name m))
     in am_bind am_now (\<lambda>t1.
     am_seq (am_put ''client'' i (Client_Body c) (t1 + 90 * 24 * hour))
     (am_bind am_now (\<lambda>t2.
     am_seq (am_put ''client-name'' i (Text_Body name) (t2 + 90 * 24 * hour))
     (json_response 201 (JObj
        [(''client_id'', JStr i), (''client_name'', JStr name), (''grant_types'', JStrs (cl_grants c)),
         (''redirect_uris'', JStrs (cm_redirects m)), (''response_types'', JStrs (cl_responses c)),
         (''token_endpoint_auth_method'', JStr ''none'')]))))))"

definition register :: "auth_lib \<Rightarrow> auth_server \<Rightarrow> http_request \<Rightarrow> unit am" where
  "register L srv r =
     am_bind (rate ''register'' 30) (\<lambda>ok.
     if \<not> ok then am_write (Error_Answer 429 ''try again later'')
     else am_seq delete_expired
     (am_bind (count_kind ''client'') (\<lambda>n.
     if 1000 \<le> n then am_write (Error_Answer 429 ''registration capacity reached'')
     else case al_decode_client L (hr_body r) of
            None \<Rightarrow> json_response 400 (JObj [(''error'', JStr ''invalid_client_metadata'')])
          | Some m \<Rightarrow>
              if \<not> valid_metadata m then json_response 400 (JObj [(''error'', JStr ''invalid_client_metadata'')])
              else store_client srv m)))"

definition login_redirect :: "http_request \<Rightarrow> unit am" where
  "login_redirect r = am_write (Redirect_Answer (''/login?return_to='' @ query_escape (safeReturn (hr_request_uri r))))"

text \<open>The request as the consent form's answer continues it.\<close>

definition resumed_request :: "http_request \<Rightarrow> string \<Rightarrow> http_request" where
  "resumed_request r query =
     r\<lparr>hr_method := ''GET'', hr_path := ''/oauth/authorize'',
       hr_escaped_path := ''/oauth/authorize'', hr_raw_query := query, hr_post_form := [], hr_body := []\<rparr>"

definition valid_authorization :: "auth_server \<Rightarrow> (string \<times> string) list \<Rightarrow> bool" where
  "valid_authorization srv values \<longleftrightarrow>
     (let resource = first_value values ''resource'' in
      length (values_of values ''resource'') = 1 \<and>
      (resource = lc_origin (sv_cfg srv) @ ''/v1'' \<or> resource = lc_origin (sv_cfg srv) @ ''/mcp'') \<and>
      first_value values ''code_challenge_method'' = ''S256'' \<and>
      length (first_value values ''code_challenge'') = 43 \<and> first_value values ''response_type'' = ''code'')"

definition ask_consent :: "auth_server \<Rightarrow> http_request \<Rightarrow> identity \<Rightarrow> requester \<Rightarrow> unit am" where
  "ask_consent srv r i req =
     am_bind am_random (\<lambda>key.
     am_bind am_now (\<lambda>now.
     am_seq (am_put ''consent'' (digest key)
       (Consent_Body \<lparr>pc_query = hr_raw_query r,
          pc_browser = digest (cookieValue r (cookieName srv browserCookie))\<rparr>) (now + 10 * minute))
     (am_bind (am_try (am_get text_body ''client-name'' (cl_id (rq_client req)))) (\<lambda>found.
     let name = (case found of Inl e \<Rightarrow> [] | Inr n \<Rightarrow> n);
         name = (if name = [] then cl_id (rq_client req) else name);
         old = cookieValue r (cookieName srv csrfCookie);
         page = (\<lambda>token. am_write (Consent_Page name (pr_display_name (id_principal i)) key token))
     in if old \<noteq> [] then page old
        else am_bind am_random (\<lambda>token. am_seq (set_cookie srv csrfCookie token (7 * 24 * 3600)) (page token))))))"

definition grant_scopes :: "requester \<Rightarrow> requester" where
  "grant_scopes req = req\<lparr>rq_granted :=
     foldl (\<lambda>granted v. if v \<in> set granted then granted else granted @ [v]) (rq_granted req) (rq_scopes req)\<rparr>"

definition authorize_decided ::
  "auth_lib \<Rightarrow> auth_server \<Rightarrow> http_request \<Rightarrow> identity \<Rightarrow> string \<Rightarrow> unit am"
where
  "authorize_decided L srv r i decision =
     am_bind (call_lib L srv (al_authorize_request L srv r)) (\<lambda>res.
     case res of
       Inl e \<Rightarrow> am_write (Authorize_Error e)
     | Inr req \<Rightarrow>
         if \<not> valid_authorization srv (url_query r) then am_write (Authorize_Error Invalid_Request)
         else if ''envy'' \<notin> set (rq_scopes req) then am_write (Authorize_Error Invalid_Scope)
         else if decision = [] then ask_consent srv r i req
         else if decision \<noteq> ''allow'' then am_write (Authorize_Error Access_Denied)
         else am_bind am_now (\<lambda>now.
           let sess = \<lparr>os_identity = i, os_resource = first_value (url_query r) ''resource'',
                 os_until = now + 30 * 24 * hour, os_subject = pr_id (id_principal i),
                 os_username = pr_display_name (id_principal i), os_expires = []\<rparr>
           in am_bind (call_lib L srv (al_authorize_response L srv (grant_scopes req) sess)) (\<lambda>res.
              am_write (case res of Inl e \<Rightarrow> Authorize_Error e | Inr resp \<Rightarrow> Authorize_Answer resp))))"

definition authorize :: "auth_lib \<Rightarrow> auth_server \<Rightarrow> http_request \<Rightarrow> unit am" where
  "authorize L srv r =
     am_bind (am_try (browser srv r)) (\<lambda>who.
     case who of
       Inl e \<Rightarrow> login_redirect r
     | Inr i \<Rightarrow>
         if hr_method r \<noteq> ''POST'' then authorize_decided L srv r i []
         else am_bind (csrf srv r) (\<lambda>ok.
           if \<not> ok then am_return ()
           else let key = form_value r ''pending'' in
             am_bind (am_try (am_get consent_body ''consent'' (digest key))) (\<lambda>found.
             case found of
               Inl e \<Rightarrow> am_write (Error_Answer 400 ''authorization expired'')
             | Inr pending \<Rightarrow>
                 if \<not> equal_digest (pc_browser pending) (digest (cookieValue r (cookieName srv browserCookie)))
                 then am_write (Error_Answer 400 ''authorization expired'')
                 else am_seq (am_del ''consent'' (digest key))
                   (authorize_decided L srv (resumed_request r (pc_query pending)) i (form_value r ''decision'')))))"

definition token_endpoint :: "auth_lib \<Rightarrow> auth_server \<Rightarrow> http_request \<Rightarrow> unit am" where
  "token_endpoint L srv r =
     am_bind (call_lib L srv (al_access_request L srv r)) (\<lambda>res.
     case res of
       Inl e \<Rightarrow> am_write (Access_Answer (Inl e))
     | Inr req \<Rightarrow>
         if values_of (hr_post_form r) ''resource'' \<noteq> [os_resource (rq_session req)]
         then am_write (Access_Answer (Inl Invalid_Request))
         else am_bind (call_lib L srv (al_access_response L srv req)) (\<lambda>res.
           am_write (Access_Answer res)))"

definition revoke :: "auth_lib \<Rightarrow> auth_server \<Rightarrow> http_request \<Rightarrow> unit am" where
  "revoke L srv r =
     am_bind (call_lib L srv (al_revocation L srv r)) (\<lambda>e. am_write (Revocation_Answer e))"

end
