(* ===== verification/Auth_Login.thy ===== *)
theory Auth_Login
  imports Auth_OAuth
begin

text \<open>
  Signing in and out (\<open>server.go\<close>, \<open>google.go\<close>): the handlers and the router that runs them, each in
  one transaction whose response is sent only when it commits. The Google callback takes its pending
  login in one transaction, talks to Google and issues the session in another; \<open>others\<close> is what other
  transactions did to the table in between.
\<close>

section \<open>Password and logout\<close>

definition admin_identity :: identity where
  "admin_identity =
     \<lparr>id_principal = \<lparr>pr_kind = ''human'', pr_id = ''local:admin'', pr_display_name = ''Admin'', pr_email = []\<rparr>,
      id_mode = [], id_version = [], id_domain = [], id_verified = False, id_issued = 0\<rparr>"

definition ok_response :: "unit am" where
  "ok_response = json_response 200 (JObj [(''ok'', JBool True)])"

definition password_login :: "auth_lib \<Rightarrow> auth_server \<Rightarrow> http_request \<Rightarrow> unit am" where
  "password_login L srv r =
     (if lc_mode (sv_cfg srv) \<noteq> ''password'' then am_write (Error_Answer 404 ''404 page not found'')
      else am_bind (csrf srv r) (\<lambda>ok.
        if \<not> ok then am_return ()
        else am_bind (rate ''password'' 120) (\<lambda>ok.
        if \<not> ok then am_write (Error_Answer 429 ''try again later'')
        else case al_decode_login L (hr_body r) of
               None \<Rightarrow> am_write (Error_Answer 400 ''invalid login'')
             | Some (username, password) \<Rightarrow>
                 if \<not> equal_digest password (lc_password (sv_cfg srv)) \<or> username \<noteq> ''admin''
                 then am_write (Error_Answer 401 ''invalid username or password'')
                 else am_seq (issue srv admin_identity) ok_response)))"

definition forget_browser :: "auth_server \<Rightarrow> http_request \<Rightarrow> unit am" where
  "forget_browser srv r =
     am_seq (am_del ''browser'' (digest (cookieValue r (cookieName srv browserCookie))))
     (am_seq (set_cookie srv browserCookie [] (- 1)) ok_response)"

definition put_logout_all :: "string \<Rightarrow> unit am" where
  "put_logout_all who =
     am_bind am_now (\<lambda>t1. am_bind am_now (\<lambda>t2.
     am_put ''logout-all'' who (Time_Body t1) (t2 + 31 * 24 * hour)))"

definition logout :: "auth_server \<Rightarrow> http_request \<Rightarrow> unit am" where
  "logout srv r =
     am_bind (csrf srv r) (\<lambda>ok.
     if \<not> ok then am_return ()
     else if has_suffix (hr_path r) ''-all'' then
       am_bind (am_try (browser srv r)) (\<lambda>who.
       case who of
         Inl e \<Rightarrow> am_write (Error_Answer 401 ''login required'')
       | Inr i \<Rightarrow> am_seq (put_logout_all (pr_id (id_principal i))) (forget_browser srv r))
     else forget_browser srv r)"

section \<open>Google\<close>

definition am_transaction :: "'a am \<Rightarrow> 'a am" where
  "am_transaction m = auth_transaction m"

definition googleStart :: "auth_lib \<Rightarrow> auth_server \<Rightarrow> http_request \<Rightarrow> unit am" where
  "googleStart L srv r =
     (if \<not> sv_google srv then am_write (Error_Answer 404 ''404 page not found'')
      else
        am_bind am_random (\<lambda>state. am_bind am_random (\<lambda>nonce. am_bind am_random (\<lambda>cookie.
        am_bind am_random (\<lambda>verifier.
        am_bind (am_try (am_transaction
          (am_bind (rate ''google-start'' 120) (\<lambda>ok.
           if \<not> ok then am_fail Rate_Limited
           else am_bind am_now (\<lambda>now.
             am_put ''google'' (digest state)
               (Google_Body \<lparr>gt_nonce = nonce, gt_verifier = verifier, gt_browser = digest cookie,
                  gt_return = safeReturn (first_value (url_query r) ''return_to'')\<rparr>) (now + 10 * minute))))))
        (\<lambda>res.
        case res of
          Inl e \<Rightarrow> am_write (Error_Answer 503 ''login unavailable'')
        | Inr u \<Rightarrow>
            am_seq (set_cookie srv googleCookie cookie 600)
            (am_write (Redirect_Answer (al_auth_code_url L srv state nonce verifier)))))))))"

definition access_denied :: "unit am" where
  "access_denied = am_write (Redirect_Answer ''/login?error=access_denied'')"

text \<open>The pending login of a callback, consumed whatever comes of it.\<close>

definition take_pending :: "auth_server \<Rightarrow> http_request \<Rightarrow> google_transaction am" where
  "take_pending srv r =
     am_transaction (let key = digest (first_value (url_query r) ''state'') in
       am_bind (am_get google_body ''google'' key) (\<lambda>pending.
       am_seq (am_del ''google'' key) (am_return pending)))"

text \<open>What Google vouches for: the claims of a verified ID token with the nonce of this login.\<close>

definition google_identity :: "auth_lib \<Rightarrow> auth_server \<Rightarrow> http_request \<Rightarrow> google_transaction \<Rightarrow> identity option" where
  "google_identity L srv r pending =
     (case al_exchange L srv (first_value (url_query r) ''code'') (gt_verifier pending) of
        Some (Some raw) \<Rightarrow>
          (case al_verify L srv raw of
             None \<Rightarrow> None
           | Some tok \<Rightarrow>
               if \<not> equal_digest (it_nonce tok) (gt_nonce pending) then None
               else (case it_claims tok of
                  None \<Rightarrow> None
                | Some c \<Rightarrow>
                    if \<not> admitted (sv_cfg srv) (gc_email c) (gc_domain c) (gc_verified c) then None
                    else Some
                      \<lparr>id_principal =
                         \<lparr>pr_kind = ''human'',
                          pr_id = ''google:'' @ digest (it_issuer tok @ [nul] @ it_subject tok),
                          pr_display_name = (if gc_name c = [] then gc_email c else gc_name c),
                          pr_email = gc_email c\<rparr>,
                       id_mode = [], id_version = [], id_domain = gc_domain c, id_verified = gc_verified c,
                       id_issued = 0\<rparr>))
      | _ \<Rightarrow> None)"

definition finish_google :: "auth_server \<Rightarrow> identity \<Rightarrow> string \<Rightarrow> unit am" where
  "finish_google srv i back =
     am_bind (am_try (am_transaction (issue srv i))) (\<lambda>res.
     case res of
       Inl e \<Rightarrow> am_write (Error_Answer 503 ''login unavailable'')
     | Inr u \<Rightarrow> am_write (Redirect_Answer (safeReturn back)))"

definition other_writers :: "(auth_rows \<Rightarrow> auth_rows) \<Rightarrow> unit am" where
  "other_writers others c s = (Inr (), s\<lparr>au_rows := others (au_rows s)\<rparr>)"

definition googleCallback ::
  "auth_lib \<Rightarrow> auth_server \<Rightarrow> http_request \<Rightarrow> (auth_rows \<Rightarrow> auth_rows) \<Rightarrow> unit am"
where
  "googleCallback L srv r others =
     (if \<not> sv_google srv then am_write (Error_Answer 404 ''404 page not found'')
      else am_bind (am_try (take_pending srv r)) (\<lambda>res.
        case res of
          Inl e \<Rightarrow> access_denied
        | Inr pending \<Rightarrow>
            if \<not> equal_digest (gt_browser pending) (digest (cookieValue r (cookieName srv googleCookie))) \<or>
              first_value (url_query r) ''error'' \<noteq> []
            then access_denied
            else am_seq (set_cookie srv googleCookie [] (- 1))
              (case google_identity L srv r pending of
                 None \<Rightarrow> access_denied
               | Some i \<Rightarrow> am_seq (other_writers others) (finish_google srv i (gt_return pending)))))"

section \<open>The router\<close>

text \<open>
  \<open>atomic\<close>: the transaction's response is kept apart until the commit, and dropped when there is none.
\<close>

definition atomic :: "unit am \<Rightarrow> unit am" where
  "atomic m c s =
     (case auth_transaction m c (s\<lparr>au_out := empty_response\<rparr>) of
        (Inl e, s') \<Rightarrow> am_write (Error_Answer 503 ''authentication storage unavailable'') c (s'\<lparr>au_out := au_out s\<rparr>)
      | (Inr u, s') \<Rightarrow> (Inr (),
          s'\<lparr>au_out := \<lparr>re_cookies = re_cookies (au_out s) @ re_cookies (au_out s'),
             re_answer = (case re_answer (au_out s) of None \<Rightarrow> re_answer (au_out s') | Some a \<Rightarrow> Some a)\<rparr>\<rparr>))"

definition auth_config :: "auth_server \<Rightarrow> http_request \<Rightarrow> unit am" where
  "auth_config srv r =
     (let token = cookieValue r (cookieName srv csrfCookie);
          answer = (\<lambda>token. json_response 200
            (JObj [(''csrf_token'', JStr token), (''mode'', JStr (lc_mode (sv_cfg srv)))]))
      in if token \<noteq> [] then answer token
         else am_bind am_random (\<lambda>token. am_seq (set_cookie srv csrfCookie token (7 * 24 * 3600)) (answer token)))"

text \<open>A pattern with \<open>GET\<close> also matches \<open>HEAD\<close>.\<close>

definition is_get :: "http_request \<Rightarrow> bool" where
  "is_get r \<longleftrightarrow> hr_method r = ''GET'' \<or> hr_method r = ''HEAD''"

definition login_routes ::
  "auth_lib \<Rightarrow> auth_server \<Rightarrow> (auth_rows \<Rightarrow> auth_rows) \<Rightarrow> http_request \<Rightarrow>
     (string \<times> unit am option \<times> unit am option) list"
where
  "login_routes L srv others r =
     (''/auth/config'', Some (auth_config srv r), None) #
     (if \<not> interactive (lc_mode (sv_cfg srv)) then []
      else
        [(''/auth/password'', None, Some (atomic (password_login L srv r))),
         (''/auth/logout'', None, Some (atomic (logout srv r))),
         (''/auth/logout-all'', None, Some (atomic (logout srv r))),
         (''/auth/google/start'', Some (googleStart L srv r), None),
         (''/auth/google/callback'', Some (googleCallback L srv r others), None),
         (''/.well-known/oauth-authorization-server'', Some (metadata srv r), None),
         (''/.well-known/oauth-protected-resource/mcp'', Some (metadata srv r), None),
         (''/.well-known/oauth-protected-resource/v1'', Some (metadata srv r), None),
         (''/oauth/register'', None, Some (atomic (register L srv r))),
         (''/oauth/authorize'', Some (atomic (authorize L srv r)), Some (atomic (authorize L srv r))),
         (''/oauth/token'', None, Some (atomic (token_endpoint L srv r))),
         (''/oauth/revoke'', None, Some (atomic (revoke L srv r)))])"

text \<open>The first component of a route answers \<open>GET\<close>, the second \<open>POST\<close>.\<close>

definition Login_Handler ::
  "auth_lib \<Rightarrow> auth_server \<Rightarrow> (auth_rows \<Rightarrow> auth_rows) \<Rightarrow> http_request \<Rightarrow> unit am"
where
  "Login_Handler L srv others r =
     (case map_of (login_routes L srv others r) (hr_path r) of
        None \<Rightarrow> am_write (Error_Answer 404 ''404 page not found'')
      | Some (get, post) \<Rightarrow>
          (case if is_get r then get else if hr_method r = ''POST'' then post else None of
             None \<Rightarrow> am_write (Error_Answer 405 ''Method Not Allowed'')
           | Some m \<Rightarrow> m))"

end
