(* ===== verification/Auth_Logic.thy ===== *)
theory Auth_Logic
  imports Auth_Login
begin

text \<open>
  A logic for the programs of the login server: \<open>am_safe I c m G\<close> says that \<open>m\<close>, run in the call \<open>c\<close>,
  keeps the invariant \<open>I\<close> of the table and returns only values that satisfy \<open>G\<close>. The rules are in the
  collection \<open>am_intros\<close> and follow the shape of the programs. The locale \<open>oauth_rows\<close> collects what
  an invariant has to satisfy for the store of the OAuth library and for \<open>Authenticate\<close>, the locale
  \<open>login_rows\<close> extends it to every handler.
\<close>

section \<open>Safe programs\<close>

named_theorems am_intros

definition am_safe :: "(auth_rows \<Rightarrow> bool) \<Rightarrow> auth_call \<Rightarrow> 'a am \<Rightarrow> ('a \<Rightarrow> bool) \<Rightarrow> bool" where
  "am_safe I c m G \<longleftrightarrow>
     (\<forall>s. I (au_rows s) \<longrightarrow> I (au_rows (snd (m c s))) \<and> (\<forall>a. fst (m c s) = Inr a \<longrightarrow> G a))"

abbreviation am_keeps :: "(auth_rows \<Rightarrow> bool) \<Rightarrow> auth_call \<Rightarrow> 'a am \<Rightarrow> bool" where
  "am_keeps I c m \<equiv> am_safe I c m (\<lambda>a. True)"

definition good_sum :: "('a \<Rightarrow> bool) \<Rightarrow> 'e + 'a \<Rightarrow> bool" where
  "good_sum G r \<longleftrightarrow> (\<forall>a. r = Inr a \<longrightarrow> G a)"

lemma good_sum_simps [simp]: "good_sum G (Inl e)" "good_sum G (Inr a) = G a"
  by (simp_all add: good_sum_def)

lemma am_safeD:
  "am_safe I c m G \<Longrightarrow> m c s = (r, s') \<Longrightarrow> I (au_rows s) \<Longrightarrow> I (au_rows s')"
  "am_safe I c m G \<Longrightarrow> m c s = (Inr a, s') \<Longrightarrow> I (au_rows s) \<Longrightarrow> G a"
  unfolding am_safe_def by (metis fst_conv snd_conv)+

lemma am_safe_weaken: "am_safe I c m G \<Longrightarrow> (\<And>a. G a \<Longrightarrow> H a) \<Longrightarrow> am_safe I c m H"
  by (auto simp: am_safe_def)

lemma am_safe_keeps: "am_safe I c m G \<Longrightarrow> am_keeps I c m"
  by (simp add: am_safe_def)

lemma am_safe_return: "G a \<Longrightarrow> am_safe I c (am_return a) G"
  by (simp add: am_safe_def am_return_def)

lemma am_keeps_return [am_intros]: "am_keeps I c (am_return a)"
  by (simp add: am_safe_return)

lemma am_safe_fail [am_intros]: "am_safe I c (am_fail e) G"
  by (simp add: am_safe_def am_fail_def)

lemma am_safe_bind:
  assumes m: "am_safe I c m G" and f: "\<And>a. G a \<Longrightarrow> am_safe I c (f a) H"
  shows "am_safe I c (am_bind m f) H"
  unfolding am_safe_def
proof (intro allI impI)
  fix s :: auth_state
  assume s: "I (au_rows s)"
  obtain r s' where run: "m c s = (r, s')" by fastforce
  have "I (au_rows s')" and "\<And>a. r = Inr a \<Longrightarrow> G a" using m s run unfolding am_safe_def by (metis fst_conv snd_conv)+
  then show "I (au_rows (snd (am_bind m f c s))) \<and> (\<forall>b. fst (am_bind m f c s) = Inr b \<longrightarrow> H b)"
    using f run by (cases r) (auto simp: am_bind_def am_safe_def)
qed

lemma am_safe_bind_any [am_intros]:
  "am_keeps I c m \<Longrightarrow> (\<And>a. am_safe I c (f a) H) \<Longrightarrow> am_safe I c (am_bind m f) H"
  by (rule am_safe_bind)

lemma am_safe_seq [am_intros]: "am_keeps I c m \<Longrightarrow> am_safe I c n H \<Longrightarrow> am_safe I c (am_seq m n) H"
  unfolding am_seq_def by (rule am_safe_bind_any)

lemma am_safe_try: "am_safe I c m G \<Longrightarrow> am_safe I c (am_try m) (good_sum G)"
  by (auto simp: am_safe_def am_try_def good_sum_def split: prod.split)

lemma am_keeps_try [am_intros]: "am_keeps I c m \<Longrightarrow> am_keeps I c (am_try m)"
  by (auto simp: am_safe_def am_try_def split: prod.split)

lemma am_safe_now: "am_safe I c am_now (\<lambda>t. t \<in> range (ac_now c))"
  by (simp add: am_safe_def am_now_def)

lemma am_keeps_basic [am_intros]:
  "am_keeps I c am_now" "am_keeps I c am_random" "am_keeps I c (am_write a)" "am_keeps I c (am_cookie n v age)"
  by (simp_all add: am_safe_def am_now_def am_random_def am_write_def am_cookie_def)

lemma am_safe_statement:
  assumes "\<And>rows. I rows \<Longrightarrow> I (snd (f c rows)) \<and> G (fst (f c rows))"
  shows "am_safe I c (am_statement f) G"
  unfolding am_safe_def
proof (intro allI impI)
  fix s :: auth_state
  assume "I (au_rows s)"
  then show "I (au_rows (snd (am_statement f c s))) \<and> (\<forall>a. fst (am_statement f c s) = Inr a \<longrightarrow> G a)"
    using assms[of "au_rows s"] by (cases "f c (au_rows s)") (auto simp: am_statement_def Let_def)
qed

lemma am_keeps_skip [am_intros]: "am_keeps I c am_skip"
  by (rule am_safe_statement) simp

lemma am_safe_if [am_intros]:
  "(b \<Longrightarrow> am_safe I c m G) \<Longrightarrow> (\<not> b \<Longrightarrow> am_safe I c n G) \<Longrightarrow> am_safe I c (if b then m else n) G"
  by simp

lemma am_safe_case_sum [am_intros]:
  "(\<And>e. x = Inl e \<Longrightarrow> am_safe I c (m e) G) \<Longrightarrow> (\<And>a. x = Inr a \<Longrightarrow> am_safe I c (f a) G) \<Longrightarrow>
     am_safe I c (case x of Inl e \<Rightarrow> m e | Inr a \<Rightarrow> f a) G"
  by (simp split: sum.split)

lemma am_safe_case_option [am_intros]:
  "(x = None \<Longrightarrow> am_safe I c m G) \<Longrightarrow> (\<And>a. x = Some a \<Longrightarrow> am_safe I c (f a) G) \<Longrightarrow>
     am_safe I c (case x of None \<Rightarrow> m | Some a \<Rightarrow> f a) G"
  by (simp split: option.split)

lemma am_safe_case_prod [am_intros]:
  "(\<And>a b. x = (a, b) \<Longrightarrow> am_safe I c (f a b) G) \<Longrightarrow> am_safe I c (case x of (a, b) \<Rightarrow> f a b) G"
  by (simp split: prod.split)

lemma am_safe_case_single [am_intros]:
  "(\<And>h. xs = [h] \<Longrightarrow> am_safe I c (f h) G) \<Longrightarrow> am_safe I c n G \<Longrightarrow> am_safe I c (case xs of [h] \<Rightarrow> f h | _ \<Rightarrow> n) G"
  by (simp split: list.split)

lemma am_safe_let [am_intros]: "am_safe I c (f x) G \<Longrightarrow> am_safe I c (let a = x in f a) G"
  by simp

text \<open>What a read returns was visible in a table that satisfies the invariant.\<close>

lemma am_safe_get:
  "am_safe I c (am_get want kind key)
     (\<lambda>v. \<exists>rows b. I rows \<and> visible rows (ac_db_now c) (kind, key) = Some b \<and> want b = Some v)"
  unfolding am_get_def
proof (rule am_safe_bind)
  show "am_safe I c (am_statement (\<lambda>c rows. (visible rows (ac_db_now c) (kind, key), rows)))
    (\<lambda>found. \<exists>rows. I rows \<and> found = visible rows (ac_db_now c) (kind, key))"
    by (rule am_safe_statement) auto
qed (auto intro!: am_safe_fail am_safe_return split: option.split)

lemma am_keeps_get [am_intros]: "am_keeps I c (am_get want kind key)"
  by (rule am_safe_keeps[OF am_safe_get])

lemma am_keeps_put: "(\<And>rows. I rows \<Longrightarrow> I (AList.update (kind, key) (b, until) rows)) \<Longrightarrow> am_keeps I c (am_put kind key b until)"
  unfolding am_put_def by (rule am_safe_statement) simp

lemma am_keeps_del: "(\<And>rows. I rows \<Longrightarrow> I (AList.delete (kind, key) rows)) \<Longrightarrow> am_keeps I c (am_del kind key)"
  unfolding am_del_def by (rule am_safe_statement) simp

lemma am_keeps_expired: "(\<And>rows. I rows \<Longrightarrow> I (unexpired (ac_db_now c) rows)) \<Longrightarrow> am_keeps I c delete_expired"
  unfolding delete_expired_def by (rule am_safe_statement) simp

lemma am_keeps_count [am_intros]: "am_keeps I c (count_kind kind)"
  unfolding count_kind_def by (rule am_safe_statement) simp

text \<open>A transaction that rolls back leaves the table it found.\<close>

lemma am_safe_transaction:
  assumes "am_keeps I c delete_expired" "am_safe I c m G"
  shows "am_safe I c (auth_transaction m) G"
  unfolding am_safe_def
proof (intro allI impI)
  fix s :: auth_state
  assume s: "I (au_rows s)"
  let ?m = "am_seq am_skip (am_seq am_skip (am_seq delete_expired m))"
  have m: "am_safe I c ?m G" by (intro am_intros assms)
  obtain r s' where run: "?m c (s\<lparr>au_aborted := False\<rparr>) = (r, s')" by fastforce
  have "I (au_rows s')" using am_safeD(1)[OF m run] s by simp
  moreover have "G a" if "r = Inr a" for a using am_safeD(2)[OF m run[unfolded that]] s by simp
  moreover note s
  ultimately show "I (au_rows (snd (auth_transaction m c s))) \<and> (\<forall>a. fst (auth_transaction m c s) = Inr a \<longrightarrow> G a)"
    using run by (cases r) (auto simp: auth_transaction_def Let_def)
qed

lemma am_keeps_atomic:
  assumes "am_keeps I c delete_expired" "am_keeps I c m"
  shows "am_keeps I c (atomic m)"
  unfolding am_safe_def
proof (intro allI impI conjI)
  fix s :: auth_state
  assume s: "I (au_rows s)"
  obtain r s' where run: "auth_transaction m c (s\<lparr>au_out := empty_response\<rparr>) = (r, s')" by fastforce
  have "I (au_rows s')" using am_safeD(1)[OF am_safe_transaction[OF assms] run] s by simp
  then show "I (au_rows (snd (atomic m c s)))"
    using run by (cases r) (auto simp: atomic_def am_write_def)
qed simp

section \<open>Time\<close>

text \<open>
  A call between \<open>lo\<close> and \<open>hi\<close>: its clock readings are, its transaction began before \<open>hi\<close> and waited
  for the lock less than a day, and the database's clock is less than a day ahead.
\<close>

definition timely :: "time \<Rightarrow> time \<Rightarrow> auth_call \<Rightarrow> bool" where
  "timely lo hi c \<longleftrightarrow>
     lo \<le> hi \<and> (\<forall>n. lo \<le> ac_now c n \<and> ac_now c n \<le> hi) \<and>
     lo - 24 * hour < ac_db_now c \<and> ac_db_now c \<le> hi \<and> (\<forall>n. ac_db_now c < ac_now c n + 24 * hour)"

lemma timely_now: "timely lo hi c \<Longrightarrow> t \<in> range (ac_now c) \<Longrightarrow> lo \<le> t \<and> t \<le> hi"
  by (auto simp: timely_def)

section \<open>Live identities\<close>

definition not_logged_out :: "auth_call \<Rightarrow> auth_rows \<Rightarrow> identity \<Rightarrow> bool" where
  "not_logged_out c rows i \<longleftrightarrow>
     (case visible rows (ac_db_now c) (''logout-all'', pr_id (id_principal i)) of
        None \<Rightarrow> True
      | Some b \<Rightarrow> (case time_body b of None \<Rightarrow> False | Some t \<Rightarrow> is_zero_time t \<or> t < id_issued i))"

text \<open>What \<open>valid\<close> accepts, read off the table.\<close>

definition live :: "auth_server \<Rightarrow> auth_call \<Rightarrow> auth_rows \<Rightarrow> identity \<Rightarrow> bool" where
  "live srv c rows i \<longleftrightarrow>
     id_mode i = lc_mode (sv_cfg srv) \<and> id_version i = version srv \<and>
     visible rows (ac_db_now c) (''configuration'', ''active'') =
       Some (Generation_Body \<lparr>ag_fingerprint = fingerprint srv, ag_epoch = sv_epoch srv\<rparr>) \<and>
     (id_mode i = ''google'' \<longrightarrow> admitted (sv_cfg srv) (pr_email (id_principal i)) (id_domain i) (id_verified i)) \<and>
     not_logged_out c rows i"

lemma generation_body_Some: "generation_body b = Some g \<longleftrightarrow> b = Generation_Body g"
  and identity_body_Some: "identity_body b = Some i \<longleftrightarrow> b = Identity_Body i"
  and record_body_Some: "record_body b = Some (r, active) \<longleftrightarrow> b = Oauth_Record r active"
  and flag_body_Some: "flag_body b = Some f \<longleftrightarrow> b = Flag_Body f"
  and time_body_Some: "time_body b = Some t \<longleftrightarrow> b = Time_Body t"
  by (cases b; auto)+

lemmas body_simps = generation_body_Some identity_body_Some record_body_Some flag_body_Some time_body_Some

lemma am_get_rows [simp]: "au_rows (snd (am_get want kind key c s)) = au_rows s"
  by (auto simp: am_get_def am_bind_def am_statement_def am_fail_def am_return_def Let_def split: option.splits)

lemma am_get_Inr:
  "am_get want kind key c s = (Inr v, s') \<Longrightarrow>
     au_rows s' = au_rows s \<and> (\<exists>b. visible (au_rows s) (ac_db_now c) (kind, key) = Some b \<and> want b = Some v)"
  by (auto simp: am_get_def am_bind_def am_statement_def am_fail_def am_return_def Let_def
      split: option.splits if_splits)

lemma am_get_absent:
  "am_get want kind key c s = (Inl Auth_Not_Found, s') \<Longrightarrow>
     au_rows s' = au_rows s \<and> visible (au_rows s) (ac_db_now c) (kind, key) = None"
  by (auto simp: am_get_def am_bind_def am_statement_def am_fail_def am_return_def Let_def
      split: option.splits if_splits)

lemma valid_identity_live:
  assumes "fst (valid_identity srv i c s) = Inr True"
  shows "live srv c (au_rows s) i"
proof -
  have guard: "id_mode i = lc_mode (sv_cfg srv)" "id_version i = version srv"
    using assms by (auto simp: valid_identity_def am_return_def split: if_splits)
  obtain r s1 where g: "am_get generation_body ''configuration'' ''active'' c s = (r, s1)" by fastforce
  with assms guard obtain g where r: "r = Inr g"
    by (cases r) (auto simp: valid_identity_def am_bind_def am_try_def am_return_def)
  then have g1: "ag_epoch g = sv_epoch srv" "ag_fingerprint g = fingerprint srv"
    "id_mode i = ''google'' \<longrightarrow> admitted (sv_cfg srv) (pr_email (id_principal i)) (id_domain i) (id_verified i)"
    using assms guard g by (auto simp: valid_identity_def am_bind_def am_try_def am_return_def split: if_splits)
  have rows: "au_rows s1 = au_rows s" and conf: "visible (au_rows s) (ac_db_now c) (''configuration'', ''active'') = Some (Generation_Body g)"
    using am_get_Inr[OF g[unfolded r]] by (auto simp: body_simps)
  obtain r' s2 where l: "am_get time_body ''logout-all'' (pr_id (id_principal i)) c s1 = (r', s2)" by fastforce
  then have checked: "case r' of Inl e \<Rightarrow> e = Auth_Not_Found | Inr t \<Rightarrow> is_zero_time t \<or> t < id_issued i"
    using assms guard g r g1 by (auto simp: valid_identity_def am_bind_def am_try_def am_return_def split: if_splits)
  have "not_logged_out c (au_rows s) i"
  proof (cases r')
    case (Inl e)
    then have "e = Auth_Not_Found" using checked by simp
    then show ?thesis using am_get_absent[of time_body "''logout-all''" _ c s1 s2] l Inl rows by (simp add: not_logged_out_def)
  next
    case (Inr t)
    obtain b where "visible (au_rows s) (ac_db_now c) (''logout-all'', pr_id (id_principal i)) = Some b" "time_body b = Some t"
      using am_get_Inr[OF l[unfolded Inr]] rows by auto
    then show ?thesis using checked Inr by (simp add: not_logged_out_def)
  qed
  moreover have "g = \<lparr>ag_fingerprint = fingerprint srv, ag_epoch = sv_epoch srv\<rparr>" using g1 by simp
  ultimately show ?thesis using guard g1 conf by (simp add: live_def)
qed

lemma valid_identity_rows: "au_rows (snd (valid_identity srv i c s)) = au_rows s"
proof -
  have get: "au_rows s' = au_rows s" if "am_get want kind key c s = (r, s')" for want kind key s r s'
    using that am_get_rows[of want kind key c s] by simp
  show ?thesis
    by (auto simp: valid_identity_def am_bind_def am_try_def am_return_def dest!: get split: sum.splits prod.splits)
qed

lemma am_safe_valid:
  "am_safe I c (valid_identity srv i) (\<lambda>ok. ok \<longrightarrow> (\<exists>rows. I rows \<and> live srv c rows i))"
  unfolding am_safe_def using valid_identity_live valid_identity_rows by metis

end
