(* ===== verification/Auth_Rows.thy ===== *)
theory Auth_Rows
  imports Auth_Logic
begin

text \<open>
  The two locales. \<open>oauth_rows\<close>: an invariant \<open>I lo hi c\<close> of the table that the OAuth library's store
  keeps, with the identities (\<open>fresh\<close>) and sessions (\<open>good\<close>) a call may use. \<open>login_rows\<close>: an
  invariant of all handlers, with \<open>S t\<close> what holds between the calls, at the time \<open>t\<close>.
\<close>

definition token_kinds :: "string list" where
  "token_kinds = [''code'', ''access'', ''refresh'', ''pkce'']"

text \<open>The library: every program it runs is honest, and sanitizing keeps the session.\<close>

definition result_session :: "auth_error + requester \<Rightarrow> oauth_session option" where
  "result_session res = (case res of Inl e \<Rightarrow> None | Inr req \<Rightarrow> Some (rq_session req))"

definition honest_lib :: "auth_lib \<Rightarrow> bool" where
  "honest_lib L \<longleftrightarrow>
     (\<forall>ks q. rq_session (al_sanitize L ks q) = rq_session q) \<and>
     (\<forall>srv tok. honest_program result_session {} (al_introspect L srv tok)) \<and>
     (\<forall>srv r. honest_program (\<lambda>res. None) {} (al_authorize_request L srv r)) \<and>
     (\<forall>srv q sess. honest_program (\<lambda>res. None) {session_core sess} (al_authorize_response L srv q sess)) \<and>
     (\<forall>srv r. honest_program result_session {} (al_access_request L srv r)) \<and>
     (\<forall>srv q. honest_program (\<lambda>res. None) {session_core (rq_session q)} (al_access_response L srv q)) \<and>
     (\<forall>srv r. honest_program (\<lambda>res. None) {} (al_revocation L srv r))"

text \<open>The key of a request's browser session.\<close>

definition browser_key :: "auth_server \<Rightarrow> http_request \<Rightarrow> string" where
  "browser_key srv r = digest (cookieValue r (cookieName srv browserCookie))"

section \<open>The store of the library\<close>

locale oauth_rows =
  fixes I :: "time \<Rightarrow> time \<Rightarrow> auth_call \<Rightarrow> auth_rows \<Rightarrow> bool"
    and fresh :: "auth_server \<Rightarrow> time \<Rightarrow> time \<Rightarrow> auth_call \<Rightarrow> string \<Rightarrow> identity \<Rightarrow> bool"
    and good :: "auth_server \<Rightarrow> time \<Rightarrow> time \<Rightarrow> auth_call \<Rightarrow> identity \<times> string \<times> time \<Rightarrow> bool"
  assumes expired: "timely lo hi c \<Longrightarrow> I lo hi c rows \<Longrightarrow> I lo hi c (unexpired (ac_db_now c) rows)"
    and put_token: "timely lo hi c \<Longrightarrow> I lo hi c rows \<Longrightarrow> kind \<in> set token_kinds \<Longrightarrow>
      good srv lo hi c (session_core (rq_session q)) \<Longrightarrow>
      I lo hi c (AList.update (kind, k) (Oauth_Record q True, os_until (rq_session q)) rows)"
    and put_inactive: "timely lo hi c \<Longrightarrow> I lo hi c rows \<Longrightarrow> kind \<in> set token_kinds \<Longrightarrow>
      I lo hi c (AList.update (kind, k) (Oauth_Record q False, until) rows)"
    and put_grant: "timely lo hi c \<Longrightarrow> I lo hi c rows \<Longrightarrow> I lo hi c (AList.update (''grant'', k) (b, until) rows)"
    and put_revoked: "timely lo hi c \<Longrightarrow> I lo hi c rows \<Longrightarrow> t \<in> range (ac_now c) \<Longrightarrow>
      I lo hi c (AList.update (''revoked'', k) (Flag_Body True, t + 31 * 24 * hour) rows)"
    and del_token: "timely lo hi c \<Longrightarrow> I lo hi c rows \<Longrightarrow> kind = ''access'' \<or> kind = ''pkce'' \<Longrightarrow>
      I lo hi c (AList.delete (kind, k) rows)"
    and browser_fresh: "timely lo hi c \<Longrightarrow> I lo hi c rows \<Longrightarrow>
      visible rows (ac_db_now c) (''browser'', k) = Some (Identity_Body i) \<Longrightarrow>
      I lo hi c rows' \<Longrightarrow> live srv c rows' i \<Longrightarrow> fresh srv lo hi c k i"
    and token_good: "timely lo hi c \<Longrightarrow> I lo hi c rows \<Longrightarrow> kind \<in> set token_kinds \<Longrightarrow>
      visible rows (ac_db_now c) (kind, k) = Some (Oauth_Record q True) \<Longrightarrow>
      I lo hi c rows' \<Longrightarrow> live srv c rows' (os_identity (rq_session q)) \<Longrightarrow>
      t \<in> range (ac_now c) \<Longrightarrow> t < os_until (rq_session q) \<Longrightarrow>
      I lo hi c rows'' \<Longrightarrow> visible rows'' (ac_db_now c) (''revoked'', rq_id q) \<noteq> Some (Flag_Body True) \<Longrightarrow>
      good srv lo hi c (session_core (rq_session q))"
begin

lemma delete_expired_keeps [am_intros]: "timely lo hi c \<Longrightarrow> am_keeps (I lo hi c) c delete_expired"
  by (rule am_keeps_expired) (rule expired)

lemma browser_safe:
  assumes t: "timely lo hi c"
  shows "am_safe (I lo hi c) c (browser srv r)
    (\<lambda>i. cookieValue r (cookieName srv browserCookie) \<noteq> [] \<and> fresh srv lo hi c (browser_key srv r) i)"
proof -
  have "am_safe (I lo hi c) c (am_bind (valid_identity srv i) (\<lambda>ok. if ok then am_return i else am_fail Auth_Not_Found))
      (fresh srv lo hi c k)"
    if "I lo hi c rows" "visible rows (ac_db_now c) (''browser'', k) = Some (Identity_Body i)" for i k rows
    by (rule am_safe_bind[OF am_safe_valid]) (auto intro!: am_intros am_safe_return dest: browser_fresh[OF t that])
  then have "am_safe (I lo hi c) c (am_bind (am_get identity_body ''browser'' k) (\<lambda>i.
      am_bind (valid_identity srv i) (\<lambda>ok. if ok then am_return i else am_fail Auth_Not_Found))) (fresh srv lo hi c k)" for k
    by (intro am_safe_bind[OF am_safe_get]) (auto simp: body_simps)
  then show ?thesis
    unfolding browser_def Let_def browser_key_def by (intro am_safe_if am_safe_fail) (auto elim: am_safe_weaken)
qed

lemma revoked_safe:
  "am_safe (I lo hi c) c (am_try (am_get flag_body ''revoked'' i))
     (\<lambda>found. found = Inl Auth_Not_Found \<or> found = Inr False \<longrightarrow>
        (\<exists>rows. I lo hi c rows \<and> visible rows (ac_db_now c) (''revoked'', i) \<noteq> Some (Flag_Body True)))"
  unfolding am_safe_def
proof (intro allI impI conjI)
  fix s :: auth_state and found
  assume s: "I lo hi c (au_rows s)"
  then show "I lo hi c (au_rows (snd (am_try (am_get flag_body ''revoked'' i) c s)))"
    using am_get_rows[of flag_body "''revoked''" i c s] by (simp add: am_try_def case_prod_unfold)
  assume "fst (am_try (am_get flag_body ''revoked'' i) c s) = Inr found" "found = Inl Auth_Not_Found \<or> found = Inr False"
  then obtain s' where "am_get flag_body ''revoked'' i c s = (found, s')" "found = Inl Auth_Not_Found \<or> found = Inr False"
    by (auto simp: am_try_def split: prod.splits)
  then have "visible (au_rows s) (ac_db_now c) (''revoked'', i) \<noteq> Some (Flag_Body True)"
    by (auto dest!: am_get_absent am_get_Inr)
  then show "\<exists>rows. I lo hi c rows \<and> visible rows (ac_db_now c) (''revoked'', i) \<noteq> Some (Flag_Body True)"
    using s by blast
qed

lemma oauth_read_safe:
  assumes "timely lo hi c" "kind \<in> set token_kinds"
  shows "am_safe (I lo hi c) c (oauth_read srv kind k)
    (\<lambda>(q, e). \<forall>q'. q = Some q' \<longrightarrow> e = None \<longrightarrow> good srv lo hi c (session_core (rq_session q')))"
  unfolding oauth_read_def
proof (rule am_safe_bind[OF am_safe_get], clarify)
  fix q active rows b
  assume rows: "I lo hi c rows" "visible rows (ac_db_now c) (kind, digest k) = Some b" "record_body b = Some (q, active)"
  have usable: "good srv lo hi c (session_core (rq_session q))"
    if "active" "I lo hi c rows'" "live srv c rows' (os_identity (rq_session q))" "I lo hi c rows''"
      "visible rows'' (ac_db_now c) (''revoked'', rq_id q) \<noteq> Some (Flag_Body True)" "ac_now c n < os_until (rq_session q)"
    for rows' rows'' n
    using token_good[OF assms(1) rows(1) assms(2) _ that(2,3) rangeI that(6,4,5)] rows that(1) by (simp add: body_simps)
  show "am_safe (I lo hi c) c
     (am_bind (valid_identity srv (os_identity (rq_session q))) (\<lambda>ok.
      if \<not> ok then am_fail Auth_Not_Found
      else am_bind am_now (\<lambda>now.
      if \<not> now < os_until (rq_session q) then am_fail Auth_Not_Found
      else am_bind (am_try (am_get flag_body ''revoked'' (rq_id q))) (\<lambda>found.
      case found of
        Inl e \<Rightarrow> if e \<noteq> Auth_Not_Found then am_fail e
                 else am_return (Some q, if active then None
                        else Some (if kind = ''code'' then Invalidated_Code else Inactive_Token))
      | Inr revoked \<Rightarrow>
          if revoked then am_fail Auth_Not_Found
          else am_return (Some q, if active then None
                 else Some (if kind = ''code'' then Invalidated_Code else Inactive_Token))))))
     (\<lambda>(q, e). \<forall>q'. q = Some q' \<longrightarrow> e = None \<longrightarrow> good srv lo hi c (session_core (rq_session q')))"
    using usable
    by (intro am_safe_bind[OF am_safe_valid] am_safe_bind[OF am_safe_now] am_safe_bind[OF revoked_safe] am_intros am_safe_return)
      auto
qed

lemma oauth_save_keeps:
  assumes "timely lo hi c" "kind \<in> set token_kinds" "good srv lo hi c (session_core (rq_session q))"
    "\<And>ks. rq_session (sanitize ks q) = rq_session q"
  shows "am_keeps (I lo hi c) c (oauth_save sanitize kind k q)"
  unfolding oauth_save_def Let_def
  using put_token[OF assms(1) _ assms(2), of _ srv "sanitize _ q"] put_grant[OF assms(1)] assms(3,4)
  by (intro am_intros am_keeps_put) auto

lemma oauth_inactive_keeps:
  "timely lo hi c \<Longrightarrow> kind \<in> set token_kinds \<Longrightarrow> am_keeps (I lo hi c) c (oauth_inactive kind k)"
  unfolding oauth_inactive_def by (intro am_intros am_keeps_put put_inactive)

lemma revoke_token_keeps: "timely lo hi c \<Longrightarrow> am_keeps (I lo hi c) c (RevokeRefreshToken i)"
  unfolding RevokeRefreshToken_def
  by (intro am_safe_bind[OF am_safe_now] am_keeps_put put_revoked)

lemma did_keeps: "am_keeps J c m \<Longrightarrow> am_safe J c (did m) (\<lambda>ans. found_session ans = None)"
  unfolding did_def by (intro am_safe_bind[OF am_keeps_try] am_safe_return) simp_all

lemma request_found_safe:
  assumes "am_safe J c m (\<lambda>(q, e). \<forall>q'. q = Some q' \<longrightarrow> e = None \<longrightarrow> P (rq_session q'))"
  shows "am_safe J c (request_found m) (\<lambda>ans. \<forall>sess. found_session ans = Some sess \<longrightarrow> P sess)"
  unfolding request_found_def
proof (rule am_safe_bind[OF am_safe_try[OF assms]], rule am_safe_return)
  fix r :: "auth_error + requester option \<times> auth_error option"
  assume r: "good_sum (\<lambda>(q, e). \<forall>q'. q = Some q' \<longrightarrow> e = None \<longrightarrow> P (rq_session q')) r"
  show "\<forall>sess. found_session (case r of Inl e \<Rightarrow> Request_Found None (Some e) | Inr (q, e) \<Rightarrow> Request_Found q e) = Some sess \<longrightarrow> P sess"
  proof (cases r)
    case (Inr p)
    then show ?thesis using r by (cases p; cases "fst p"; cases "snd p") auto
  qed simp
qed

text \<open>A call of the store by an honest program.\<close>

lemma oauth_store_safe:
  assumes "timely lo hi c" "\<And>ks q. rq_session (sanitize ks q) = rq_session q"
    "\<And>sess. stored_session call = Some sess \<Longrightarrow> good srv lo hi c (session_core sess)"
  shows "am_safe (I lo hi c) c (oauth_store sanitize srv call)
    (\<lambda>ans. \<forall>sess. found_session ans = Some sess \<longrightarrow> good srv lo hi c (session_core sess))"
proof -
  have did: "am_safe J c (did m) (\<lambda>ans. \<forall>sess. found_session ans = Some sess \<longrightarrow> P sess)" if "am_keeps J c m" for J m P
    by (rule am_safe_weaken[OF did_keeps[OF that]]) simp
  have kinds: "''code'' \<in> set token_kinds" "''access'' \<in> set token_kinds" "''refresh'' \<in> set token_kinds" "''pkce'' \<in> set token_kinds"
    by (simp_all add: token_kinds_def)
  have client: "am_safe (I lo hi c) c (am_bind (am_try (am_get client_body ''client'' i)) (\<lambda>r. am_return (Client_Found r)))
      (\<lambda>ans. \<forall>sess. found_session ans = Some sess \<longrightarrow> good srv lo hi c (session_core sess))" for i
    by (intro am_safe_bind_any[OF am_keeps_try[OF am_keeps_get]] am_safe_return) simp
  note rules = did client request_found_safe oauth_read_safe[OF assms(1)] oauth_save_keeps[OF assms(1) _ _ assms(2)]
    oauth_inactive_keeps[OF assms(1)] revoke_token_keeps[OF assms(1)] am_keeps_del del_token[OF assms(1)]
    am_safe_return kinds
  show ?thesis
    by (cases call) (auto simp: oauth_store_def intro!: rules intro: assms(3))
qed

lemma run_lib_safe:
  assumes "timely lo hi c" "\<And>ks q. rq_session (sanitize ks q) = rq_session q"
    "honest_program returned known p" "\<forall>core \<in> known. good srv lo hi c core"
  shows "am_safe (I lo hi c) c (run_lib sanitize srv p)
    (\<lambda>a. \<forall>sess. returned a = Some sess \<longrightarrow> good srv lo hi c (session_core sess))"
  using assms(3,4)
proof (induction p arbitrary: known)
  case (Ask call k)
  show ?case
    unfolding run_lib.simps
  proof (rule am_safe_bind[OF oauth_store_safe[OF assms(1,2)]])
    fix ans
    assume ans: "\<forall>sess. found_session ans = Some sess \<longrightarrow> good srv lo hi c (session_core sess)"
    have "honest_program returned (known \<union> session_core ` set_option (found_session ans)) (k ans)" using Ask.prems(1) by simp
    moreover have "\<forall>core \<in> known \<union> session_core ` set_option (found_session ans). good srv lo hi c core"
      using Ask.prems(2) ans by (auto simp: elem_set)
    ultimately show "am_safe (I lo hi c) c (run_lib sanitize srv (k ans))
        (\<lambda>a. \<forall>sess. returned a = Some sess \<longrightarrow> good srv lo hi c (session_core sess))"
      by (rule Ask.IH[OF rangeI])
  qed (use Ask.prems in auto)
qed (auto intro!: am_safe_return am_intros)

lemma call_lib_keeps:
  assumes "timely lo hi c" "honest_lib L" "honest_program returned known p" "\<forall>core \<in> known. good srv lo hi c core"
  shows "am_safe (I lo hi c) c (call_lib L srv p)
    (\<lambda>a. \<forall>sess. returned a = Some sess \<longrightarrow> good srv lo hi c (session_core sess))"
  by (rule run_lib_safe[OF assms(1) _ assms(3,4)]) (use assms(2) in \<open>auto simp: honest_lib_def\<close>)

lemma introspect_safe:
  assumes "timely lo hi c" "honest_lib L"
  shows "am_safe (I lo hi c) c (call_lib L srv (al_introspect L srv tok))
    (good_sum (\<lambda>q. good srv lo hi c (session_core (rq_session q))))"
  by (rule am_safe_weaken[OF call_lib_keeps[OF assms, of result_session "{}"]])
    (use assms(2) in \<open>auto simp: honest_lib_def result_session_def good_sum_def\<close>)

text \<open>The principal of a request belongs to a session or an identity that may be used.\<close>

lemma Authenticate_safe:
  assumes "timely lo hi c" "honest_lib L"
  shows "am_safe (I lo hi c) c (Authenticate L srv r resource)
    (\<lambda>P. (\<exists>h tok i until. header_values r ''Authorization'' = [h] \<and> h = ''Bearer '' @ tok \<and>
            good srv lo hi c (i, lc_origin (sv_cfg srv) @ resource, until) \<and> id_principal i = P) \<or>
         (header_get r ''Authorization'' = [] \<and> resource = ''/v1'' \<and> cookieValue r (cookieName srv browserCookie) \<noteq> [] \<and>
            (\<exists>i. fresh srv lo hi c (browser_key srv r) i \<and> id_principal i = P)))"
proof -
  have bearer: "am_safe (I lo hi c) c
      (am_bind (call_lib L srv (al_introspect L srv tok)) (\<lambda>res.
         case res of Inl e \<Rightarrow> am_fail e
         | Inr req \<Rightarrow> if os_resource (rq_session req) \<noteq> lc_origin (sv_cfg srv) @ resource then am_fail Request_Unauthorized
             else am_return (id_principal (os_identity (rq_session req)))))
      (\<lambda>P. \<exists>i until. good srv lo hi c (i, lc_origin (sv_cfg srv) @ resource, until) \<and> id_principal i = P)" for tok
  proof (rule am_safe_bind[OF introspect_safe[OF assms]], intro am_intros am_safe_return)
    fix res req
    assume "good_sum (\<lambda>q. good srv lo hi c (session_core (rq_session q))) res" "res = Inr req"
      "\<not> os_resource (rq_session req) \<noteq> lc_origin (sv_cfg srv) @ resource"
    then have "good srv lo hi c (os_identity (rq_session req), lc_origin (sv_cfg srv) @ resource, os_until (rq_session req))"
      by (simp add: session_core_def)
    then show "\<exists>i until. good srv lo hi c (i, lc_origin (sv_cfg srv) @ resource, until) \<and>
        id_principal i = id_principal (os_identity (rq_session req))"
      by blast
  qed
  let ?Q = "\<lambda>P. (\<exists>h tok i until. header_values r ''Authorization'' = [h] \<and> h = ''Bearer '' @ tok \<and>
            good srv lo hi c (i, lc_origin (sv_cfg srv) @ resource, until) \<and> id_principal i = P) \<or>
         (header_get r ''Authorization'' = [] \<and> resource = ''/v1'' \<and> cookieValue r (cookieName srv browserCookie) \<noteq> [] \<and>
            (\<exists>i. fresh srv lo hi c (browser_key srv r) i \<and> id_principal i = P))"
  have header: "am_safe (I lo hi c) c
      (if \<not> has_prefix h ''Bearer '' then am_fail Request_Unauthorized
       else am_bind (call_lib L srv (al_introspect L srv (trim_prefix h ''Bearer ''))) (\<lambda>res.
         case res of Inl e \<Rightarrow> am_fail e
         | Inr req \<Rightarrow> if os_resource (rq_session req) \<noteq> lc_origin (sv_cfg srv) @ resource then am_fail Request_Unauthorized
             else am_return (id_principal (os_identity (rq_session req))))) ?Q"
    if "header_values r ''Authorization'' = [h]" for h
  proof (intro am_safe_if am_safe_fail am_safe_weaken[OF bearer])
    fix P
    assume "\<not> \<not> has_prefix h ''Bearer ''"
      and P: "\<exists>i until. good srv lo hi c (i, lc_origin (sv_cfg srv) @ resource, until) \<and> id_principal i = P"
    then obtain tok where "h = ''Bearer '' @ tok" unfolding has_prefix_iff by blast
    then show "?Q P" using that P by blast
  qed
  have cookie: "am_safe (I lo hi c) c (am_bind (browser srv r) (\<lambda>i. am_return (id_principal i))) ?Q"
    if "header_get r ''Authorization'' = []" "resource = ''/v1''"
    using that by (intro am_safe_bind[OF browser_safe[OF assms(1)]] am_safe_return) blast
  have "am_safe (I lo hi c) c (authenticate_body L srv r resource) ?Q"
    unfolding authenticate_body_def
    by (intro am_safe_if am_safe_case_single am_safe_fail cookie header) auto
  then show ?thesis
    unfolding Authenticate_def by (rule am_safe_transaction[OF delete_expired_keeps[OF assms(1)]])
qed

end

section \<open>All handlers\<close>

definition plain_kinds :: "string list" where
  "plain_kinds = [''secret'', ''configuration'', ''client-name'', ''identity'', ''consent'', ''google'', ''rate'']"

definition valid_redirects :: "string list \<Rightarrow> bool" where
  "valid_redirects redirects \<longleftrightarrow> redirects \<noteq> [] \<and> list_all validRedirect redirects"

locale login_rows = oauth_rows I fresh good
  for I :: "time \<Rightarrow> time \<Rightarrow> auth_call \<Rightarrow> auth_rows \<Rightarrow> bool"
    and fresh :: "auth_server \<Rightarrow> time \<Rightarrow> time \<Rightarrow> auth_call \<Rightarrow> string \<Rightarrow> identity \<Rightarrow> bool"
    and good :: "auth_server \<Rightarrow> time \<Rightarrow> time \<Rightarrow> auth_call \<Rightarrow> identity \<times> string \<times> time \<Rightarrow> bool" +
  fixes S :: "time \<Rightarrow> auth_rows \<Rightarrow> bool"
  assumes begins: "timely lo hi c \<Longrightarrow> S lo rows \<Longrightarrow> I lo hi c rows"
    and ends: "timely lo hi c \<Longrightarrow> I lo hi c rows \<Longrightarrow> S hi rows"
    and put_browser: "timely lo hi c \<Longrightarrow> I lo hi c rows \<Longrightarrow> lo \<le> id_issued i \<Longrightarrow> id_issued i \<le> hi \<Longrightarrow>
      until \<le> hi + 7 * 24 * hour \<Longrightarrow> I lo hi c (AList.update (''browser'', k) (Identity_Body i, until) rows)"
    and put_logout: "timely lo hi c \<Longrightarrow> I lo hi c rows \<Longrightarrow> lo \<le> t \<Longrightarrow> lo + 31 * 24 * hour \<le> until \<Longrightarrow>
      I lo hi c (AList.update (''logout-all'', k) (Time_Body t, until) rows)"
    and put_client: "timely lo hi c \<Longrightarrow> I lo hi c rows \<Longrightarrow> valid_redirects redirects \<Longrightarrow>
      I lo hi c (AList.update (''client'', k) (Client_Body (oauth_client_of origin k redirects), until) rows)"
    and put_plain: "timely lo hi c \<Longrightarrow> I lo hi c rows \<Longrightarrow> kind \<in> set plain_kinds \<Longrightarrow>
      I lo hi c (AList.update (kind, k) (b, until) rows)"
    and del_plain: "timely lo hi c \<Longrightarrow> I lo hi c rows \<Longrightarrow> kind \<in> set [''browser'', ''consent'', ''google''] \<Longrightarrow>
      I lo hi c (AList.delete (kind, k) rows)"
    and consented: "timely lo hi c \<Longrightarrow> fresh srv lo hi c k i \<Longrightarrow> t \<in> range (ac_now c) \<Longrightarrow>
      good srv lo hi c (i, resource, t + 30 * 24 * hour)"
begin

lemma put_plain_keeps: "timely lo hi c \<Longrightarrow> kind \<in> set plain_kinds \<Longrightarrow> am_keeps (I lo hi c) c (am_put kind k b until)"
  by (intro am_keeps_put put_plain)

lemma del_plain_keeps:
  "timely lo hi c \<Longrightarrow> kind \<in> set [''browser'', ''consent'', ''google''] \<Longrightarrow> am_keeps (I lo hi c) c (am_del kind k)"
  by (intro am_keeps_del del_plain)

lemma plain_kinds_member [simp]:
  "''secret'' \<in> set plain_kinds" "''configuration'' \<in> set plain_kinds" "''client-name'' \<in> set plain_kinds"
  "''identity'' \<in> set plain_kinds" "''consent'' \<in> set plain_kinds" "''google'' \<in> set plain_kinds"
  "''rate'' \<in> set plain_kinds"
  by (simp_all add: plain_kinds_def)

lemma browser_keeps [am_intros]: "timely lo hi c \<Longrightarrow> am_keeps (I lo hi c) c (browser srv r)"
  by (rule am_safe_keeps[OF browser_safe])

lemma csrf_keeps [am_intros]: "am_keeps J c (csrf srv r)"
  unfolding csrf_def by (intro am_intros)

lemma set_cookie_keeps [am_intros]: "am_keeps J c (set_cookie srv n v age)"
  unfolding set_cookie_def by (intro am_intros)

lemma json_keeps [am_intros]: "am_keeps J c (json_response status v)"
  unfolding json_response_def by (intro am_intros)

lemma rate_keeps [am_intros]: "timely lo hi c \<Longrightarrow> am_keeps (I lo hi c) c (rate key limit)"
  unfolding rate_def Let_def by (intro am_intros put_plain_keeps) simp_all

lemma issue_keeps [am_intros]:
  assumes "timely lo hi c"
  shows "am_keeps (I lo hi c) c (issue srv i)"
proof -
  note [am_intros] = am_safe_bind[OF am_safe_now]
  have browser: "am_keeps (I lo hi c) c (am_put ''browser'' k (Identity_Body j) (t + 7 * 24 * hour))"
    if "id_issued j \<in> range (ac_now c)" "t \<in> range (ac_now c)" for j t k
    using put_browser[OF assms, of _ j] timely_now[OF assms that(1)] timely_now[OF assms that(2)]
    by (intro am_keeps_put) auto
  show ?thesis
    unfolding issue_def Let_def
    by (intro am_safe_bind[OF am_safe_now] am_safe_bind_any[OF am_keeps_basic(2)] am_safe_seq browser set_cookie_keeps
        put_plain_keeps[OF assms]) simp_all
qed

lemma client_keeps:
  "timely lo hi c \<Longrightarrow> valid_redirects redirects \<Longrightarrow>
     am_keeps (I lo hi c) c (am_put ''client'' k (Client_Body (oauth_client_of origin k redirects)) until)"
  by (intro am_keeps_put put_client)

lemma put_clients_keeps:
  "timely lo hi c \<Longrightarrow> first_client_error validate_client clients = None \<Longrightarrow> am_keeps (I lo hi c) c (put_clients origin clients)"
proof (induction clients)
  case (Cons client clients)
  have client: "validate_client client = None" "first_client_error validate_client clients = None"
    using Cons.prems(2) by (auto split: option.splits)
  then have "valid_redirects (rc_redirects client)"
    by (auto simp: validate_client_def valid_redirects_def split: if_splits)
  then show ?case
    using Cons.IH[OF Cons.prems(1) client(2)] Cons.prems(1)
    by (auto intro!: am_intros client_keeps put_plain_keeps[where kind = "''client-name''"])
qed (simp add: am_intros)

lemma server_key_keeps: "timely lo hi c \<Longrightarrow> am_keeps (I lo hi c) c server_key"
  unfolding server_key_def
  by (intro am_intros) (auto intro!: am_intros put_plain_keeps split: auth_error.split)

lemma server_epoch_keeps: "timely lo hi c \<Longrightarrow> am_keeps (I lo hi c) c (server_epoch cfg)"
  unfolding server_epoch_def Let_def by (intro am_intros put_plain_keeps) simp_all

lemma password_keeps: "timely lo hi c \<Longrightarrow> am_keeps (I lo hi c) c (password_login L srv r)"
  unfolding password_login_def ok_response_def by (intro am_intros)

lemma logout_keeps: "timely lo hi c \<Longrightarrow> am_keeps (I lo hi c) c (logout srv r)"
proof -
  assume t: "timely lo hi c"
  have "am_keeps (I lo hi c) c (put_logout_all who)" for who
    unfolding put_logout_all_def
    by (intro am_safe_bind[OF am_safe_now] am_keeps_put put_logout[OF t]) (use t in \<open>auto simp: timely_def\<close>)
  then show ?thesis
    unfolding logout_def forget_browser_def ok_response_def
    by (intro am_intros del_plain_keeps t) simp_all
qed

lemma login_transaction_keeps:
  "timely lo hi c \<Longrightarrow> am_safe (I lo hi c) c m G \<Longrightarrow> am_safe (I lo hi c) c (am_transaction m) G"
  unfolding am_transaction_def by (intro am_safe_transaction am_intros)

lemma atomic_keeps [am_intros]: "timely lo hi c \<Longrightarrow> am_keeps (I lo hi c) c m \<Longrightarrow> am_keeps (I lo hi c) c (atomic m)"
  by (intro am_keeps_atomic am_intros)

lemma googleStart_keeps: "timely lo hi c \<Longrightarrow> am_keeps (I lo hi c) c (googleStart L srv r)"
  unfolding googleStart_def by (intro am_intros login_transaction_keeps put_plain_keeps) simp_all

lemma take_pending_keeps: "timely lo hi c \<Longrightarrow> am_keeps (I lo hi c) c (take_pending srv r)"
  unfolding take_pending_def Let_def by (intro am_intros login_transaction_keeps del_plain_keeps) simp_all

lemma finish_google_keeps: "timely lo hi c \<Longrightarrow> am_keeps (I lo hi c) c (finish_google srv i back)"
  unfolding finish_google_def by (intro am_intros login_transaction_keeps)

lemma googleCallback_keeps:
  assumes "timely lo hi c" "\<And>rows. I lo hi c rows \<Longrightarrow> I lo hi c (others rows)"
  shows "am_keeps (I lo hi c) c (googleCallback L srv r others)"
proof -
  have "am_keeps (I lo hi c) c (other_writers others)" using assms(2) by (simp add: am_safe_def other_writers_def)
  then show ?thesis
    unfolding googleCallback_def access_denied_def
    by (intro am_intros take_pending_keeps finish_google_keeps assms(1))
qed

lemma register_keeps: "timely lo hi c \<Longrightarrow> am_keeps (I lo hi c) c (register L srv r)"
proof -
  assume t: "timely lo hi c"
  have "am_keeps (I lo hi c) c (store_client srv m)" if "valid_metadata m" for m
    using that unfolding store_client_def Let_def
    by (intro am_intros client_keeps[OF t] put_plain_keeps[OF t]) (simp_all add: valid_metadata_def valid_redirects_def)
  then show ?thesis unfolding register_def by (intro am_intros t) simp
qed

lemma library_keeps:
  "timely lo hi c \<Longrightarrow> honest_lib L \<Longrightarrow> honest_program (\<lambda>res. None) known p \<Longrightarrow> \<forall>core \<in> known. good srv lo hi c core \<Longrightarrow>
     am_keeps (I lo hi c) c (call_lib L srv p)"
  by (rule am_safe_keeps[OF call_lib_keeps])

lemma authorize_decided_keeps:
  assumes "timely lo hi c" "honest_lib L" "fresh srv lo hi c k i"
  shows "am_keeps (I lo hi c) c (authorize_decided L srv r i decision)"
proof -
  have ask: "am_keeps (I lo hi c) c (ask_consent srv r i req)" for req
    unfolding ask_consent_def Let_def by (intro am_intros put_plain_keeps[OF assms(1)]) simp
  have request: "am_keeps (I lo hi c) c (call_lib L srv (al_authorize_request L srv r))"
    by (rule library_keeps[OF assms(1,2), of "{}"]) (use assms(2) in \<open>auto simp: honest_lib_def\<close>)
  have response: "am_keeps (I lo hi c) c (call_lib L srv (al_authorize_response L srv q sess))"
    if "session_core sess = (i, resource, t + 30 * 24 * hour)" "t \<in> range (ac_now c)" for q sess resource t
  proof (rule library_keeps[OF assms(1,2)])
    show "honest_program (\<lambda>res. None) {session_core sess} (al_authorize_response L srv q sess)"
      using assms(2) by (simp add: honest_lib_def)
    show "\<forall>core \<in> {session_core sess}. good srv lo hi c core"
      using consented[OF assms(1,3) that(2), of resource] that(1) by simp
  qed
  show ?thesis
    unfolding authorize_decided_def Let_def
    by (intro am_safe_bind_any[OF request] am_safe_case_sum am_safe_if am_keeps_basic ask am_safe_bind[OF am_safe_now]
        am_safe_bind_any[OF response]) (auto simp: session_core_def)
qed

lemma authorize_keeps:
  assumes "timely lo hi c" "honest_lib L"
  shows "am_keeps (I lo hi c) c (authorize L srv r)"
  unfolding authorize_def login_redirect_def Let_def
  by (intro am_safe_bind[OF am_safe_try[OF browser_safe[OF assms(1)]]] am_intros
      authorize_decided_keeps[OF assms] del_plain_keeps[OF assms(1)]) auto

lemma token_keeps:
  assumes "timely lo hi c" "honest_lib L"
  shows "am_keeps (I lo hi c) c (token_endpoint L srv r)"
proof -
  have request: "am_safe (I lo hi c) c (call_lib L srv (al_access_request L srv r))
      (good_sum (\<lambda>q. good srv lo hi c (session_core (rq_session q))))"
    by (rule am_safe_weaken[OF call_lib_keeps[OF assms, of result_session "{}"]])
      (use assms(2) in \<open>auto simp: honest_lib_def result_session_def good_sum_def\<close>)
  have response: "am_keeps (I lo hi c) c (call_lib L srv (al_access_response L srv q))"
    if "good srv lo hi c (session_core (rq_session q))" for q
    by (rule library_keeps[OF assms, of "{session_core (rq_session q)}"]) (use assms(2) that in \<open>auto simp: honest_lib_def\<close>)
  show ?thesis
    unfolding token_endpoint_def
    by (intro am_safe_bind[OF request] am_safe_case_sum am_safe_if am_keeps_basic am_safe_bind_any[OF response]) auto
qed

lemma revoke_keeps:
  assumes "timely lo hi c" "honest_lib L"
  shows "am_keeps (I lo hi c) c (revoke L srv r)"
proof -
  have "am_keeps (I lo hi c) c (call_lib L srv (al_revocation L srv r))"
    by (rule library_keeps[OF assms, of "{}"]) (use assms(2) in \<open>auto simp: honest_lib_def\<close>)
  then show ?thesis unfolding revoke_def by (intro am_intros)
qed

lemma metadata_keeps: "am_keeps J c (metadata srv r)"
  unfolding metadata_def Let_def by (intro am_intros)

lemma config_keeps: "am_keeps J c (auth_config srv r)"
  unfolding auth_config_def Let_def by (intro am_intros)

lemma Login_Handler_keeps:
  assumes "timely lo hi c" "honest_lib L" "\<And>rows. I lo hi c rows \<Longrightarrow> I lo hi c (others rows)"
  shows "am_keeps (I lo hi c) c (Login_Handler L srv others r)"
proof -
  note handlers = password_keeps[OF assms(1)] logout_keeps[OF assms(1)] googleStart_keeps[OF assms(1)]
    googleCallback_keeps[OF assms(1,3)] register_keeps[OF assms(1)] authorize_keeps[OF assms(1,2)]
    token_keeps[OF assms(1,2)] revoke_keeps[OF assms(1,2)] metadata_keeps config_keeps atomic_keeps[OF assms(1)]
  have "\<forall>(path, get, post) \<in> set (login_routes L srv others r).
      (\<forall>m. get = Some m \<longrightarrow> am_keeps (I lo hi c) c m) \<and> (\<forall>m. post = Some m \<longrightarrow> am_keeps (I lo hi c) c m)"
    unfolding login_routes_def by (auto intro: handlers)
  then have "am_keeps (I lo hi c) c m"
    if "map_of (login_routes L srv others r) (hr_path r) = Some (get, post)" "get = Some m \<or> post = Some m" for get post m
    using that map_of_SomeD[OF that(1)] by fastforce
  then show ?thesis
    unfolding Login_Handler_def by (intro am_intros) (auto split: if_splits)
qed

lemma New_Login_keeps:
  assumes "timely lo hi c" "I lo hi c (au_rows s)"
  shows "I lo hi c (au_rows (snd (New_Login discover cfg c s)))"
proof (cases "Validate_Login (normal_config cfg)")
  case None
  then have clients: "first_client_error validate_client (lc_clients (normal_config cfg)) = None"
    by (auto simp: Validate_Login_def split: if_splits)
  let ?m = "am_bind server_key (\<lambda>key. am_bind (server_epoch (normal_config cfg)) (\<lambda>epoch.
             am_seq (put_clients (lc_origin (normal_config cfg)) (lc_clients (normal_config cfg))) (am_return (key, epoch))))"
  have m: "am_keeps (I lo hi c) c (auth_transaction ?m)"
    by (intro am_safe_transaction am_intros put_clients_keeps server_key_keeps server_epoch_keeps assms(1) clients)
  obtain x s' where run: "auth_transaction ?m c s = (x, s')" by fastforce
  have "I lo hi c (au_rows s')" by (rule am_safeD(1)[OF m run assms(2)])
  then show ?thesis using None run by (simp add: New_Login_def Let_def split: sum.split)
qed (use assms(2) in \<open>simp add: New_Login_def Let_def\<close>)

end

end
