(* ===== verification/Auth_Runs.thy ===== *)
theory Auth_Runs
  imports Auth_Rows
begin

text \<open>
  Runs of the login servers of any number of replicas, and the invariants of their table: how long
  sessions last, which clients are stored, what a logout leaves behind, and where the principal of a
  request comes from. Each is an interpretation of one of the locales of \<open>Auth_Rows\<close>.
\<close>

section \<open>Runs\<close>

text \<open>
  One call on any replica, between two times. The Google callback is split into its two
  transactions, so that anything can run in between.
\<close>

inductive auth_step :: "auth_lib \<Rightarrow> time \<times> auth_rows \<Rightarrow> time \<times> auth_rows \<Rightarrow> bool" for L where
  handled: "timely lo hi c \<Longrightarrow> auth_step L (lo, au_rows s) (hi, au_rows (snd (Login_Handler L srv (\<lambda>rows. rows) r c s)))"
| taken: "timely lo hi c \<Longrightarrow> auth_step L (lo, au_rows s) (hi, au_rows (snd (take_pending srv r c s)))"
| finished: "timely lo hi c \<Longrightarrow> auth_step L (lo, au_rows s) (hi, au_rows (snd (finish_google srv i back c s)))"
| authenticated: "timely lo hi c \<Longrightarrow> auth_step L (lo, au_rows s) (hi, au_rows (snd (Authenticate L srv r resource c s)))"
| started: "timely lo hi c \<Longrightarrow> auth_step L (lo, au_rows s) (hi, au_rows (snd (New_Login discover cfg c s)))"

abbreviation auth_steps :: "auth_lib \<Rightarrow> time \<times> auth_rows \<Rightarrow> time \<times> auth_rows \<Rightarrow> bool" where
  "auth_steps L \<equiv> (auth_step L)\<^sup>*\<^sup>*"

context login_rows begin

lemma program_keeps:
  "timely lo hi c \<Longrightarrow> am_safe (I lo hi c) c m G \<Longrightarrow> S lo (au_rows s) \<Longrightarrow> S hi (au_rows (snd (m c s)))"
  using begins ends unfolding am_safe_def by blast

lemma step_keeps:
  assumes "honest_lib L" "auth_step L x y" "S (fst x) (snd x)"
  shows "S (fst y) (snd y)"
  using assms(2,3)
proof cases
  case (handled lo hi c s srv r)
  have "am_keeps (I lo hi c) c (Login_Handler L srv (\<lambda>rows. rows) r)"
    by (rule Login_Handler_keeps[OF handled(3) assms(1)])
  then show ?thesis using program_keeps[OF handled(3)] handled(1,2) assms(3) by simp
next
  case (taken lo hi c s srv r)
  then show ?thesis using program_keeps[OF taken(3) take_pending_keeps[OF taken(3)]] assms(3) by simp
next
  case (finished lo hi c s srv i ret)
  then show ?thesis using program_keeps[OF finished(3) finish_google_keeps[OF finished(3)]] assms(3) by simp
next
  case (authenticated lo hi c s srv r resource)
  then show ?thesis
    using program_keeps[OF authenticated(3) Authenticate_safe[OF authenticated(3) assms(1)]] assms(3) by simp
next
  case (started lo hi c s discover cfg)
  then show ?thesis using ends[OF started(3) New_Login_keeps[OF started(3) begins[OF started(3)]]] assms(3) by simp
qed

lemma steps_keep:
  assumes "honest_lib L" "auth_steps L x y"
  shows "S (fst x) (snd x) \<Longrightarrow> S (fst y) (snd y)"
  using assms(2) by (induction rule: rtranclp_induct) (use step_keeps[OF assms(1)] in blast)+

end

section \<open>The tables\<close>

lemma map_of_updated: "map_of (AList.update k v rows) k' = (if k' = k then Some v else map_of rows k')"
  and map_of_deleted: "map_of (AList.delete k rows) k' = (if k' = k then None else map_of rows k')"
  by (simp_all add: update_conv' delete_conv')

declare map_of_eq_Some_iff [simp del]

abbreviation primary_key :: "auth_rows \<Rightarrow> bool" where
  "primary_key rows \<equiv> distinct (map fst rows)"

lemma distinct_updated: "primary_key rows \<Longrightarrow> primary_key (AList.update k v rows)"
  and distinct_deleted: "primary_key rows \<Longrightarrow> primary_key (AList.delete k rows)"
  by (simp_all add: distinct_update distinct_delete)

lemmas auth_table_simps = map_of_updated map_of_deleted map_of_unexpired distinct_updated distinct_deleted distinct_unexpired

lemma token_kinds_iff: "kind \<in> set token_kinds \<longleftrightarrow> kind = ''code'' \<or> kind = ''access'' \<or> kind = ''refresh'' \<or> kind = ''pkce''"
  by (auto simp: token_kinds_def)

subsection \<open>Bounds of the sessions\<close>

definition bounded_sessions :: "time \<Rightarrow> auth_rows \<Rightarrow> bool" where
  "bounded_sessions t rows \<longleftrightarrow> primary_key rows \<and>
     (\<forall>k i e. map_of rows (''browser'', k) = Some (Identity_Body i, e) \<longrightarrow> e \<le> t + 7 * 24 * hour) \<and>
     (\<forall>kind \<in> set token_kinds. \<forall>k q e. map_of rows (kind, k) = Some (Oauth_Record q True, e) \<longrightarrow>
        e \<le> t + 30 * 24 * hour \<and> os_until (rq_session q) \<le> t + 30 * 24 * hour)"

interpretation bounds: login_rows "\<lambda>lo hi c rows. bounded_sessions hi rows" "\<lambda>srv lo hi c k i. True"
  "\<lambda>srv lo hi c core. snd (snd core) \<le> hi + 30 * 24 * hour" "bounded_sessions"
proof unfold_locales
  fix lo hi c and srv :: auth_server and rows rows' rows'' :: auth_rows and kind k q t and i :: identity
  assume "timely lo hi c" "bounded_sessions hi rows" "kind \<in> set token_kinds"
    "visible rows (ac_db_now c) (kind, k) = Some (Oauth_Record q True)"
  then show "snd (snd (session_core (rq_session q))) \<le> hi + 30 * 24 * hour"
    by (auto simp: bounded_sessions_def visible_Some session_core_def)
next
  fix lo hi :: time and c rows
  assume "timely lo hi c" "bounded_sessions lo rows"
  then show "bounded_sessions hi rows" by (fastforce simp: bounded_sessions_def timely_def)
qed (auto simp: bounded_sessions_def auth_table_simps session_core_def token_kinds_iff plain_kinds_def timely_def)

subsection \<open>Registered clients\<close>

text \<open>A client whose redirects were checked, with the grants and scopes the server gives to all.\<close>

definition checked_client :: "oauth_client \<Rightarrow> bool" where
  "checked_client cl \<longleftrightarrow> (\<exists>origin i redirects. cl = oauth_client_of origin i redirects \<and> valid_redirects redirects)"

definition checked_clients :: "time \<Rightarrow> auth_rows \<Rightarrow> bool" where
  "checked_clients t rows \<longleftrightarrow> primary_key rows \<and>
     (\<forall>k b e. map_of rows (''client'', k) = Some (b, e) \<longrightarrow> (\<exists>cl. b = Client_Body cl \<and> checked_client cl))"

lemma checked_clients_other:
  assumes "checked_clients t rows" "fst k \<noteq> ''client''"
  shows "checked_clients t' (AList.update k v rows)" "checked_clients t' (AList.delete k rows)" "checked_clients t' rows"
  using assms by (auto simp: checked_clients_def auth_table_simps)

interpretation clients: login_rows "\<lambda>lo hi c rows. checked_clients hi rows" "\<lambda>srv lo hi c k i. True"
  "\<lambda>srv lo hi c core. True" "checked_clients"
proof unfold_locales
  fix lo hi :: time and c rows
  assume "checked_clients hi rows"
  then show "checked_clients hi (unexpired (ac_db_now c) rows)"
    by (simp add: checked_clients_def auth_table_simps) blast
next
  fix lo hi :: time and c :: auth_call and rows redirects k origin until
  assume "checked_clients hi rows" "valid_redirects redirects"
  then show "checked_clients hi (AList.update (''client'', k) (Client_Body (oauth_client_of origin k redirects), until) rows)"
    unfolding checked_clients_def checked_client_def by (simp add: auth_table_simps) blast
next
  fix lo hi :: time and c :: auth_call and rows
  assume "checked_clients lo rows"
  then show "checked_clients hi rows" by (simp add: checked_clients_def)
qed (auto simp: token_kinds_iff plain_kinds_def intro: checked_clients_other)

subsection \<open>After a logout\<close>

definition stale :: "string \<Rightarrow> time \<Rightarrow> identity \<Rightarrow> bool" where
  "stale who t i \<longleftrightarrow> pr_id (id_principal i) = who \<and> id_issued i \<le> t"

definition marked :: "string \<Rightarrow> time \<Rightarrow> auth_rows \<Rightarrow> bool" where
  "marked who t rows \<longleftrightarrow>
     (\<exists>T e. map_of rows (''logout-all'', who) = Some (Time_Body T, e) \<and> t \<le> T \<and> t + 31 * 24 * hour \<le> e)"

definition stale_ends :: "string \<Rightarrow> time \<Rightarrow> auth_rows \<Rightarrow> bool" where
  "stale_ends who t rows \<longleftrightarrow>
     (\<forall>k i e. map_of rows (''browser'', k) = Some (Identity_Body i, e) \<longrightarrow> stale who t i \<longrightarrow> e \<le> t + 30 * 24 * hour) \<and>
     (\<forall>kind \<in> set token_kinds. \<forall>k q e. map_of rows (kind, k) = Some (Oauth_Record q True, e) \<longrightarrow>
        stale who t (os_identity (rq_session q)) \<longrightarrow> e \<le> t + 30 * 24 * hour)"

text \<open>
  Everything of \<open>who\<close> from before \<open>t\<close> is marked as logged out until it has expired: between calls,
  and during a call.
\<close>

definition logged_out :: "string \<Rightarrow> time \<Rightarrow> time \<Rightarrow> auth_rows \<Rightarrow> bool" where
  "logged_out who t now rows \<longleftrightarrow>
     0 < t \<and> t < now \<and> primary_key rows \<and> stale_ends who t rows \<and> (marked who t rows \<or> t + 31 * 24 * hour < now)"

definition logged_out_in :: "string \<Rightarrow> time \<Rightarrow> time \<Rightarrow> time \<Rightarrow> auth_call \<Rightarrow> auth_rows \<Rightarrow> bool" where
  "logged_out_in who t lo hi c rows \<longleftrightarrow>
     0 < t \<and> t < lo \<and> primary_key rows \<and> stale_ends who t rows \<and>
     (marked who t rows \<or> t + 30 * 24 * hour < ac_db_now c \<and> t + 31 * 24 * hour < hi)"

lemma stale_dead:
  assumes "logged_out_in who t lo hi c rows" "live srv c rows i" "ac_db_now c < t + 30 * 24 * hour"
  shows "\<not> stale who t i"
proof
  assume stale: "stale who t i"
  have "marked who t rows" using assms by (auto simp: logged_out_in_def)
  then obtain T e where row: "map_of rows (''logout-all'', who) = Some (Time_Body T, e)" "t \<le> T" "t + 31 * 24 * hour \<le> e"
    by (auto simp: marked_def)
  then have "visible rows (ac_db_now c) (''logout-all'', pr_id (id_principal i)) = Some (Time_Body T)"
    using stale assms(3) by (simp add: visible_def stale_def)
  then have "T = 0 \<or> T < id_issued i" using assms(2) by (simp add: live_def not_logged_out_def is_zero_time_def)
  moreover have "0 < t" using assms(1) by (simp add: logged_out_in_def)
  ultimately show False using row(2) stale by (simp add: stale_def)
qed

lemma stale_browser:
  assumes "logged_out_in who t lo hi c rows" "visible rows (ac_db_now c) (''browser'', k) = Some (Identity_Body i)"
    "logged_out_in who t lo hi c rows'" "live srv c rows' i"
  shows "\<not> stale who t i"
proof
  assume stale: "stale who t i"
  obtain e where "map_of rows (''browser'', k) = Some (Identity_Body i, e)" "ac_db_now c < e"
    using assms(2) by (auto simp: visible_Some)
  then have "ac_db_now c < t + 30 * 24 * hour"
    using assms(1) stale by (fastforce simp: logged_out_in_def stale_ends_def)
  then show False using stale_dead[OF assms(3,4)] stale by simp
qed

lemma stale_token:
  assumes "logged_out_in who t lo hi c rows" "kind \<in> set token_kinds"
    "visible rows (ac_db_now c) (kind, k) = Some (Oauth_Record q True)"
    "logged_out_in who t lo hi c rows'" "live srv c rows' (os_identity (rq_session q))"
  shows "\<not> stale who t (os_identity (rq_session q))"
proof
  assume stale: "stale who t (os_identity (rq_session q))"
  obtain e where "map_of rows (kind, k) = Some (Oauth_Record q True, e)" "ac_db_now c < e"
    using assms(3) by (auto simp: visible_Some)
  then have "ac_db_now c < t + 30 * 24 * hour"
    using assms(1,2) stale by (fastforce simp: logged_out_in_def stale_ends_def)
  then show False using stale_dead[OF assms(4,5)] stale by simp
qed

lemma marked_unexpired:
  "primary_key rows \<Longrightarrow> marked who t rows \<Longrightarrow> marked who t (unexpired now rows) \<or> t + 31 * 24 * hour < now"
  by (force simp: marked_def map_of_unexpired)

lemma stale_ends_unexpired: "primary_key rows \<Longrightarrow> stale_ends who t rows \<Longrightarrow> stale_ends who t (unexpired now rows)"
  unfolding stale_ends_def by (simp only: map_of_unexpired) blast

lemma marked_other: "fst k \<noteq> ''logout-all'' \<Longrightarrow> marked who t (AList.update k v rows) = marked who t rows"
  and marked_other_delete: "fst k \<noteq> ''logout-all'' \<Longrightarrow> marked who t (AList.delete k rows) = marked who t rows"
  by (auto simp: marked_def auth_table_simps)

lemma stale_ends_put:
  assumes "stale_ends who t rows" "\<And>i. b = Identity_Body i \<Longrightarrow> fst k = ''browser'' \<Longrightarrow> \<not> stale who t i"
    "\<And>q. b = Oauth_Record q True \<Longrightarrow> fst k \<in> set token_kinds \<Longrightarrow> \<not> stale who t (os_identity (rq_session q))"
  shows "stale_ends who t (AList.update k (b, e) rows)"
  using assms unfolding stale_ends_def map_of_updated by (auto split: if_splits)

lemma stale_ends_delete: "stale_ends who t rows \<Longrightarrow> stale_ends who t (AList.delete k rows)"
  by (simp add: stale_ends_def map_of_deleted)

lemma logged_out_put:
  assumes "logged_out_in who t lo hi c rows" "fst k \<noteq> ''logout-all''"
    "\<And>i. b = Identity_Body i \<Longrightarrow> fst k = ''browser'' \<Longrightarrow> \<not> stale who t i"
    "\<And>q. b = Oauth_Record q True \<Longrightarrow> fst k \<in> set token_kinds \<Longrightarrow> \<not> stale who t (os_identity (rq_session q))"
  shows "logged_out_in who t lo hi c (AList.update k (b, e) rows)"
  using assms(1) stale_ends_put[OF _ assms(3,4), where rows = rows] marked_other[OF assms(2)]
  by (simp add: logged_out_in_def distinct_updated)

lemma logged_out_delete:
  assumes "logged_out_in who t lo hi c rows" "fst k \<noteq> ''logout-all''"
  shows "logged_out_in who t lo hi c (AList.delete k rows)"
  using assms marked_other_delete[OF assms(2)]
  by (simp add: logged_out_in_def distinct_deleted stale_ends_def map_of_deleted)

interpretation logout: login_rows "logged_out_in who t" "\<lambda>srv lo hi c k i. \<not> stale who t i"
  "\<lambda>srv lo hi c core. \<not> stale who t (fst core)" "logged_out who t" for who t
proof unfold_locales
  fix lo hi :: time and c rows
  assume a: "timely lo hi c" "logged_out_in who t lo hi c rows"
  show "logged_out_in who t lo hi c (unexpired (ac_db_now c) rows)"
    using a marked_unexpired[of rows who t "ac_db_now c"] stale_ends_unexpired[of rows who t "ac_db_now c"]
    by (auto simp: logged_out_in_def timely_def distinct_unexpired)
  show "logged_out who t hi rows" using a by (auto simp: logged_out_def logged_out_in_def timely_def)
next
  fix lo hi :: time and c rows
  assume "timely lo hi c" "logged_out who t lo rows"
  then show "logged_out_in who t lo hi c rows" by (auto simp: logged_out_def logged_out_in_def timely_def)
next
  fix lo hi T until :: time and c rows k
  assume a: "timely lo hi c" "logged_out_in who t lo hi c rows" "lo \<le> T" "lo + 31 * 24 * hour \<le> until"
  have "stale_ends who t (AList.update (''logout-all'', k) (Time_Body T, until) rows)"
    using a(2) by (intro stale_ends_put) (auto simp: logged_out_in_def)
  then show "logged_out_in who t lo hi c (AList.update (''logout-all'', k) (Time_Body T, until) rows)"
    using a by (auto simp: logged_out_in_def marked_def map_of_updated distinct_updated)
next
  fix lo hi c and srv :: auth_server and rows rows' rows'' :: auth_rows and kind k q T and i :: identity
  assume "logged_out_in who t lo hi c rows" "kind \<in> set token_kinds"
    "visible rows (ac_db_now c) (kind, k) = Some (Oauth_Record q True)"
    "logged_out_in who t lo hi c rows'" "live srv c rows' (os_identity (rq_session q))"
  then show "\<not> stale who t (fst (session_core (rq_session q)))"
    using stale_token by (simp add: session_core_def)
next
  fix lo hi until :: time and c rows k and i :: identity
  assume "logged_out_in who t lo hi c rows" "lo \<le> id_issued i"
  moreover from this have "\<not> stale who t i" by (auto simp: logged_out_in_def stale_def)
  ultimately show "logged_out_in who t lo hi c (AList.update (''browser'', k) (Identity_Body i, until) rows)"
    by (intro logged_out_put) auto
qed (auto simp: session_core_def token_kinds_iff plain_kinds_def
    intro!: logged_out_put logged_out_delete dest: stale_browser)

subsection \<open>Where a principal comes from\<close>

text \<open>An active token record that is neither expired nor revoked.\<close>

definition token_record :: "auth_call \<Rightarrow> auth_rows \<Rightarrow> requester \<Rightarrow> bool" where
  "token_record c rows q \<longleftrightarrow> (\<exists>kind \<in> set token_kinds. \<exists>k. visible rows (ac_db_now c) (kind, k) = Some (Oauth_Record q True))"

definition usable_token :: "auth_call \<Rightarrow> auth_rows \<Rightarrow> requester \<Rightarrow> bool" where
  "usable_token c rows q \<longleftrightarrow>
     token_record c rows q \<and> (\<exists>n. ac_now c n < os_until (rq_session q)) \<and>
     visible rows (ac_db_now c) (''revoked'', rq_id q) \<noteq> Some (Flag_Body True)"

text \<open>
  The table \<open>rows\<close> in the middle of a call that found \<open>rows0\<close>: what decides who is signed in is
  unchanged, and every token record was there or copies the session of a usable one.
\<close>

definition grown_from :: "auth_call \<Rightarrow> auth_rows \<Rightarrow> time \<Rightarrow> time \<Rightarrow> auth_call \<Rightarrow> auth_rows \<Rightarrow> bool" where
  "grown_from c0 rows0 lo hi c rows \<longleftrightarrow>
     c = c0 \<and> primary_key rows \<and>
     (\<forall>k. fst k \<in> {''configuration'', ''logout-all'', ''browser''} \<longrightarrow>
        visible rows (ac_db_now c0) k = visible rows0 (ac_db_now c0) k) \<and>
     (\<forall>i. visible rows0 (ac_db_now c0) (''revoked'', i) = Some (Flag_Body True) \<longrightarrow>
        visible rows (ac_db_now c0) (''revoked'', i) = Some (Flag_Body True)) \<and>
     (\<forall>q. token_record c0 rows q \<longrightarrow> token_record c0 rows0 q \<or>
        (\<exists>q0. usable_token c0 rows0 q0 \<and> session_core (rq_session q) = session_core (rq_session q0)))"

lemma grown_fromD:
  assumes "grown_from c0 rows0 lo hi c rows"
  shows "c = c0" "primary_key rows"
    "fst k \<in> {''configuration'', ''logout-all'', ''browser''} \<Longrightarrow> visible rows (ac_db_now c0) k = visible rows0 (ac_db_now c0) k"
    "visible rows0 (ac_db_now c0) (''revoked'', i) = Some (Flag_Body True) \<Longrightarrow>
      visible rows (ac_db_now c0) (''revoked'', i) = Some (Flag_Body True)"
    "token_record c0 rows q \<Longrightarrow> token_record c0 rows0 q \<or>
      (\<exists>q0. usable_token c0 rows0 q0 \<and> session_core (rq_session q) = session_core (rq_session q0))"
  using assms unfolding grown_from_def by blast+

lemma live_cong:
  "(\<And>k. fst k \<in> {''configuration'', ''logout-all''} \<Longrightarrow> visible rows (ac_db_now c) k = visible rows' (ac_db_now c) k) \<Longrightarrow>
     live srv c rows i = live srv c rows' i"
  by (simp add: live_def not_logged_out_def)

lemma grown_live: "grown_from c0 rows0 lo hi c rows \<Longrightarrow> live srv c0 rows i = live srv c0 rows0 i"
  by (rule live_cong) (rule grown_fromD(3); auto)

lemma token_record_unexpired: "primary_key rows \<Longrightarrow> token_record c (unexpired (ac_db_now c) rows) q = token_record c rows q"
  by (simp add: token_record_def visible_unexpired)

lemma token_record_put:
  "token_record c (AList.update k (b, e) rows) q \<Longrightarrow> token_record c rows q \<or> b = Oauth_Record q True \<and> fst k \<in> set token_kinds"
  unfolding token_record_def visible_update by (auto split: if_splits)

lemma token_record_delete: "token_record c (AList.delete k rows) q \<Longrightarrow> token_record c rows q"
  unfolding token_record_def visible_delete by (auto split: if_splits)

lemma grown_put:
  assumes g: "grown_from c0 rows0 lo hi c rows" and k: "fst k \<notin> {''configuration'', ''logout-all'', ''browser''}"
    and revoked: "fst k = ''revoked'' \<Longrightarrow> b = Flag_Body True \<and> ac_db_now c0 < e"
    and token: "\<And>q. b = Oauth_Record q True \<Longrightarrow> fst k \<in> set token_kinds \<Longrightarrow>
       \<exists>q0. usable_token c0 rows0 q0 \<and> session_core (rq_session q) = session_core (rq_session q0)"
  shows "grown_from c0 rows0 lo hi c (AList.update k (b, e) rows)"
  unfolding grown_from_def
proof (intro conjI allI impI)
  show "visible (AList.update k (b, e) rows) (ac_db_now c0) j = visible rows0 (ac_db_now c0) j"
    if "fst j \<in> {''configuration'', ''logout-all'', ''browser''}" for j
    using grown_fromD(3)[OF g that] that k by auto
  show "visible (AList.update k (b, e) rows) (ac_db_now c0) (''revoked'', i) = Some (Flag_Body True)"
    if "visible rows0 (ac_db_now c0) (''revoked'', i) = Some (Flag_Body True)" for i
    using grown_fromD(4)[OF g that] revoked by auto
  show "token_record c0 rows0 q \<or> (\<exists>q0. usable_token c0 rows0 q0 \<and> session_core (rq_session q) = session_core (rq_session q0))"
    if "token_record c0 (AList.update k (b, e) rows) q" for q
    using token_record_put[OF that] token grown_fromD(5)[OF g] by blast
qed (use grown_fromD[OF g] in \<open>simp_all add: distinct_updated\<close>)

lemma grown_delete:
  assumes g: "grown_from c0 rows0 lo hi c rows" and k: "fst k \<notin> {''configuration'', ''logout-all'', ''browser'', ''revoked''}"
  shows "grown_from c0 rows0 lo hi c (AList.delete k rows)"
  unfolding grown_from_def
proof (intro conjI allI impI)
  show "visible (AList.delete k rows) (ac_db_now c0) j = visible rows0 (ac_db_now c0) j"
    if "fst j \<in> {''configuration'', ''logout-all'', ''browser''}" for j
    using grown_fromD(3)[OF g that] that k by auto
  show "visible (AList.delete k rows) (ac_db_now c0) (''revoked'', i) = Some (Flag_Body True)"
    if "visible rows0 (ac_db_now c0) (''revoked'', i) = Some (Flag_Body True)" for i
    using grown_fromD(4)[OF g that] k by auto
  show "token_record c0 rows0 q \<or> (\<exists>q0. usable_token c0 rows0 q0 \<and> session_core (rq_session q) = session_core (rq_session q0))"
    if "token_record c0 (AList.delete k rows) q" for q
    by (rule grown_fromD(5)[OF g token_record_delete[OF that]])
qed (use grown_fromD[OF g] in \<open>simp_all add: distinct_deleted\<close>)

lemma grown_unexpired:
  assumes g: "grown_from c0 rows0 lo hi c rows"
  shows "grown_from c0 rows0 lo hi c (unexpired (ac_db_now c0) rows)"
  using g unfolding grown_from_def
  by (simp only: visible_unexpired[OF grown_fromD(2)[OF g]] token_record_unexpired[OF grown_fromD(2)[OF g]]
      distinct_unexpired simp_thms) blast

interpretation origin: oauth_rows "grown_from c0 rows0"
  "\<lambda>srv lo hi c k i. c = c0 \<and> visible rows0 (ac_db_now c0) (''browser'', k) = Some (Identity_Body i) \<and> live srv c0 rows0 i"
  "\<lambda>srv lo hi c core. c = c0 \<and> (\<exists>q0. usable_token c0 rows0 q0 \<and> core = session_core (rq_session q0)) \<and>
     live srv c0 rows0 (fst core)"
  for c0 rows0
proof unfold_locales
  fix lo hi :: time and c rows
  assume "grown_from c0 rows0 lo hi c rows"
  then show "grown_from c0 rows0 lo hi c (unexpired (ac_db_now c) rows)"
    using grown_unexpired grown_fromD(1) by metis
next
  fix lo hi t :: time and c rows k
  assume a: "timely lo hi c" "grown_from c0 rows0 lo hi c rows" "t \<in> range (ac_now c)"
  have "ac_db_now c < t + 24 * hour" using a(1,3) by (auto simp: timely_def)
  then have "ac_db_now c0 < t + 31 * 24 * hour" using grown_fromD(1)[OF a(2)] by simp
  then show "grown_from c0 rows0 lo hi c (AList.update (''revoked'', k) (Flag_Body True, t + 31 * 24 * hour) rows)"
    by (intro grown_put[OF a(2)]) (auto simp: token_kinds_iff)
next
  fix lo hi :: time and c rows rows' k and i :: identity and srv :: auth_server
  assume a: "grown_from c0 rows0 lo hi c rows" "visible rows (ac_db_now c) (''browser'', k) = Some (Identity_Body i)"
    "grown_from c0 rows0 lo hi c rows'" "live srv c rows' i"
  then show "c = c0 \<and> visible rows0 (ac_db_now c0) (''browser'', k) = Some (Identity_Body i) \<and> live srv c0 rows0 i"
    using grown_fromD(1)[OF a(1)] grown_fromD(3)[OF a(1), of "(''browser'', k)"] grown_live[OF a(3)] by simp
next
  fix lo hi t :: time and c rows rows' rows'' kind k and q :: requester and srv :: auth_server
  assume a: "grown_from c0 rows0 lo hi c rows" "kind \<in> set token_kinds"
    "visible rows (ac_db_now c) (kind, k) = Some (Oauth_Record q True)"
    "grown_from c0 rows0 lo hi c rows'" "live srv c rows' (os_identity (rq_session q))"
    "t \<in> range (ac_now c)" "t < os_until (rq_session q)" "grown_from c0 rows0 lo hi c rows''"
    "visible rows'' (ac_db_now c) (''revoked'', rq_id q) \<noteq> Some (Flag_Body True)"
  have c: "c = c0" by (rule grown_fromD(1)[OF a(1)])
  have "token_record c0 rows q" using a(2,3) c by (auto simp: token_record_def)
  then have "token_record c0 rows0 q \<or>
      (\<exists>q0. usable_token c0 rows0 q0 \<and> session_core (rq_session q) = session_core (rq_session q0))"
    by (rule grown_fromD(5)[OF a(1)])
  moreover have "visible rows0 (ac_db_now c0) (''revoked'', rq_id q) \<noteq> Some (Flag_Body True)"
    using grown_fromD(4)[OF a(8)] a(9) c by blast
  moreover have "\<exists>n. ac_now c0 n < os_until (rq_session q)" using a(6,7) c by auto
  ultimately have "\<exists>q0. usable_token c0 rows0 q0 \<and> session_core (rq_session q) = session_core (rq_session q0)"
    unfolding usable_token_def by blast
  moreover have "live srv c0 rows0 (fst (session_core (rq_session q)))"
    using a(5) c grown_live[OF a(4)] by (simp add: session_core_def)
  ultimately show "c = c0 \<and> (\<exists>q0. usable_token c0 rows0 q0 \<and> session_core (rq_session q) = session_core (rq_session q0)) \<and>
      live srv c0 rows0 (fst (session_core (rq_session q)))"
    using c by blast
next
  fix lo hi :: time and c rows kind k and q :: requester and srv :: auth_server
  assume "grown_from c0 rows0 lo hi c rows" "kind \<in> set token_kinds"
    "c = c0 \<and> (\<exists>q0. usable_token c0 rows0 q0 \<and> session_core (rq_session q) = session_core (rq_session q0)) \<and>
     live srv c0 rows0 (fst (session_core (rq_session q)))"
  then show "grown_from c0 rows0 lo hi c (AList.update (kind, k) (Oauth_Record q True, os_until (rq_session q)) rows)"
    by (intro grown_put) (auto simp: token_kinds_iff)
qed (auto simp: token_kinds_iff intro!: grown_put grown_delete)

lemma authenticated_credential:
  assumes "honest_lib L" "timely lo hi c" "primary_key (au_rows s)"
    and "fst (Authenticate L srv r resource c s) = Inr P"
  shows "(\<exists>tok q. header_values r ''Authorization'' = [''Bearer '' @ tok] \<and> usable_token c (au_rows s) q \<and>
            live srv c (au_rows s) (os_identity (rq_session q)) \<and>
            os_resource (rq_session q) = lc_origin (sv_cfg srv) @ resource \<and>
            id_principal (os_identity (rq_session q)) = P) \<or>
         (header_get r ''Authorization'' = [] \<and> resource = ''/v1'' \<and>
            cookieValue r (cookieName srv browserCookie) \<noteq> [] \<and>
            (\<exists>i. visible (au_rows s) (ac_db_now c) (''browser'', browser_key srv r) = Some (Identity_Body i) \<and>
               live srv c (au_rows s) i \<and> id_principal i = P))"
proof -
  have start: "grown_from c (au_rows s) lo hi c (au_rows s)" using assms(3) by (simp add: grown_from_def)
  obtain s' where run: "Authenticate L srv r resource c s = (Inr P, s')" using assms(4) by (metis prod.collapse)
  note from_store = am_safeD(2)[OF origin.Authenticate_safe[OF assms(2,1)] run, OF start]
  show ?thesis
  proof (rule disjE[OF from_store])
    assume "\<exists>h tok i until. header_values r ''Authorization'' = [h] \<and> h = ''Bearer '' @ tok \<and>
       (c = c \<and> (\<exists>q0. usable_token c (au_rows s) q0 \<and>
          (i, lc_origin (sv_cfg srv) @ resource, until) = session_core (rq_session q0)) \<and>
        live srv c (au_rows s) (fst (i, lc_origin (sv_cfg srv) @ resource, until))) \<and> id_principal i = P"
    then show ?thesis by (auto simp: session_core_def)
  qed auto
qed

text \<open>What logging out everywhere leaves in the table.\<close>

lemma am_bind_Inr:
  "am_bind m f c s = (Inr b, s') \<longleftrightarrow> (\<exists>a s1. m c s = (Inr a, s1) \<and> f a c s1 = (Inr b, s'))"
  by (auto simp: am_bind_def split: prod.splits sum.splits)

lemma am_seq_Inr: "am_seq m n c s = (Inr b, s') \<longleftrightarrow> (\<exists>s1. m c s = (Inr (), s1) \<and> n c s1 = (Inr b, s'))"
  by (simp add: am_seq_def am_bind_Inr)

lemma am_put_Inr: "am_put kind k b e c s = (Inr u, s') \<Longrightarrow> au_rows s' = AList.update (kind, k) (b, e) (au_rows s)"
  and am_del_Inr: "am_del kind k c s = (Inr u, s') \<Longrightarrow> au_rows s' = AList.delete (kind, k) (au_rows s)"
  and am_now_Inr: "am_now c s = (Inr t, s') \<Longrightarrow> t \<in> range (ac_now c) \<and> au_rows s' = au_rows s"
  by (auto simp: am_put_def am_del_def am_statement_def am_now_def Let_def split: if_splits)

lemma browser_Inr:
  assumes "browser srv r c s = (Inr i, s')"
  shows "au_rows s' = au_rows s \<and> visible (au_rows s) (ac_db_now c) (''browser'', browser_key srv r) = Some (Identity_Body i)"
proof -
  have "cookieValue r (cookieName srv browserCookie) \<noteq> []"
    using assms by (auto simp: browser_def am_fail_def split: if_splits)
  then obtain j s1 ok s2 where get: "am_get identity_body ''browser'' (browser_key srv r) c s = (Inr j, s1)"
    and valid: "valid_identity srv j c s1 = (Inr ok, s2)" and res: "(if ok then am_return j else am_fail Auth_Not_Found) c s2 = (Inr i, s')"
    using assms by (auto simp: browser_def browser_key_def am_bind_Inr Let_def split: if_splits)
  have "i = j" "s' = s2" using res by (auto simp: am_return_def am_fail_def split: if_splits)
  moreover have "au_rows s2 = au_rows s1" using valid_identity_rows[of srv j c s1] valid by simp
  ultimately show ?thesis using am_get_Inr[OF get] by (auto simp: body_simps)
qed

lemma am_skip_Inr: "am_skip c s = (Inr u, s') \<Longrightarrow> au_rows s' = au_rows s"
  and delete_expired_Inr: "delete_expired c s = (Inr u, s') \<Longrightarrow> au_rows s' = unexpired (ac_db_now c) (au_rows s)"
  by (auto simp: delete_expired_def am_statement_def Let_def split: if_splits)

lemma auth_transaction_Inr:
  assumes "auth_transaction m c s = (Inr a, s')"
  shows "\<exists>s1 s2. au_rows s1 = unexpired (ac_db_now c) (au_rows s) \<and> au_out s1 = au_out s \<and> m c s1 = (Inr a, s2) \<and>
    au_rows s' = au_rows s2 \<and> au_out s' = au_out s2"
proof -
  obtain s2 where run: "am_seq am_skip (am_seq am_skip (am_seq delete_expired m)) c (s\<lparr>au_aborted := False\<rparr>) = (Inr a, s2)"
    and s': "au_rows s' = au_rows s2" "au_out s' = au_out s2"
    using assms by (auto simp: auth_transaction_def Let_def split: prod.splits sum.splits if_splits)
  then obtain t1 t2 t3 where steps: "am_skip c (s\<lparr>au_aborted := False\<rparr>) = (Inr (), t1)" "am_skip c t1 = (Inr (), t2)"
    "delete_expired c t2 = (Inr (), t3)" "m c t3 = (Inr a, s2)"
    by (auto simp: am_seq_Inr)
  have "au_rows t3 = unexpired (ac_db_now c) (au_rows s)"
    using am_skip_Inr[OF steps(1)] am_skip_Inr[OF steps(2)] delete_expired_Inr[OF steps(3)] by simp
  moreover have "au_out t3 = au_out s"
    using steps(1-3) by (auto simp: am_statement_def delete_expired_def Let_def split: if_splits)
  ultimately show ?thesis using steps(4) s' by blast
qed

lemma csrf_run:
  "csrf srv r c s = (Inr ok, s') \<Longrightarrow>
     au_rows s' = au_rows s \<and> au_out s' = (if ok then au_out s else au_out s') \<and>
     (re_answer (au_out s) = None \<longrightarrow> \<not> ok \<longrightarrow> (\<exists>text. re_answer (au_out s') = Some (Error_Answer 403 text)))"
  by (auto simp: csrf_def am_seq_Inr am_write_def am_return_def split: if_splits)

lemma forget_rows:
  "forget_browser srv r c s = (Inr u, s') \<Longrightarrow> au_rows s' = AList.delete (''browser'', browser_key srv r) (au_rows s)"
  by (auto simp: forget_browser_def am_seq_Inr ok_response_def json_response_def set_cookie_def am_write_def am_cookie_def
      browser_key_def dest!: am_del_Inr)

lemma put_logout_rows:
  "put_logout_all who c s = (Inr u, s') \<Longrightarrow>
     \<exists>t1 t2. t1 \<in> range (ac_now c) \<and> t2 \<in> range (ac_now c) \<and>
       au_rows s' = AList.update (''logout-all'', who) (Time_Body t1, t2 + 31 * 24 * hour) (au_rows s)"
  by (auto simp: put_logout_all_def am_bind_Inr dest!: am_now_Inr am_put_Inr) blast

lemma logout_all_rows:
  assumes "logout srv r c s = (Inr u, s')" "hr_path r = ''/auth/logout-all''" "re_answer (au_out s) = None"
    "re_answer (au_out s') = Some (Json_Answer 200 body)"
  shows "\<exists>i t1 t2. visible (au_rows s) (ac_db_now c) (''browser'', browser_key srv r) = Some (Identity_Body i) \<and>
    t1 \<in> range (ac_now c) \<and> t2 \<in> range (ac_now c) \<and>
    au_rows s' = AList.delete (''browser'', browser_key srv r)
      (AList.update (''logout-all'', pr_id (id_principal i)) (Time_Body t1, t2 + 31 * 24 * hour) (au_rows s))"
proof -
  have path: "has_suffix (hr_path r) ''-all''" using assms(2) by (simp add: has_suffix_def)
  obtain ok s1 where c: "csrf srv r c s = (Inr ok, s1)"
    and rest: "(if \<not> ok then am_return ()
       else am_bind (am_try (browser srv r)) (\<lambda>who.
         case who of Inl e \<Rightarrow> am_write (Error_Answer 401 ''login required'')
         | Inr i \<Rightarrow> am_seq (put_logout_all (pr_id (id_principal i))) (forget_browser srv r))) c s1 = (Inr u, s')"
    using assms(1) unfolding logout_def if_P[OF path] by (auto simp: am_bind_Inr)
  have ok: ok
  proof (rule ccontr)
    assume "\<not> ok"
    then have "s' = s1" using rest by (simp add: am_return_def)
    then show False using csrf_run[OF c] \<open>\<not> ok\<close> assms(3,4) by auto
  qed
  then have s1: "au_rows s1 = au_rows s" "re_answer (au_out s1) = None" using csrf_run[OF c] assms(3) by auto
  obtain who s2 where b: "am_try (browser srv r) c s1 = (Inr who, s2)"
    and fin: "(case who of Inl e \<Rightarrow> am_write (Error_Answer 401 ''login required'')
         | Inr i \<Rightarrow> am_seq (put_logout_all (pr_id (id_principal i))) (forget_browser srv r)) c s2 = (Inr u, s')"
    using rest ok by (auto simp: am_bind_Inr)
  have out: "au_out s2 = au_out s1"
    using b by (auto simp: am_try_def browser_def valid_identity_def am_get_def am_bind_def am_statement_def am_return_def
        am_fail_def Let_def split: if_splits prod.splits sum.splits option.splits)
  obtain i where who: "who = Inr i"
    using fin s1(2) assms(4) out by (cases who) (auto simp: am_write_def)
  then have browser: "browser srv r c s1 = (Inr i, s2)" using b by (auto simp: am_try_def split: prod.splits)
  obtain s3 where put: "put_logout_all (pr_id (id_principal i)) c s2 = (Inr (), s3)" and forget: "forget_browser srv r c s3 = (Inr u, s')"
    using fin who by (auto simp: am_seq_Inr)
  obtain t1 t2 where "t1 \<in> range (ac_now c)" "t2 \<in> range (ac_now c)"
    "au_rows s3 = AList.update (''logout-all'', pr_id (id_principal i)) (Time_Body t1, t2 + 31 * 24 * hour) (au_rows s2)"
    using put_logout_rows[OF put] by blast
  moreover have "au_rows s2 = au_rows s" "visible (au_rows s) (ac_db_now c) (''browser'', browser_key srv r) = Some (Identity_Body i)"
    using browser_Inr[OF browser] s1(1) by simp_all
  ultimately show ?thesis using forget_rows[OF forget] by metis
qed

lemma logout_handled:
  assumes "Login_Handler L srv others r c s = (Inr u, s')" "hr_path r = ''/auth/logout-all''"
    "re_answer (au_out s) = None" "re_answer (au_out s') = Some (Json_Answer 200 body)"
  shows "atomic (logout srv r) c s = (Inr u, s')"
  using assms
  by (auto simp: Login_Handler_def login_routes_def am_write_def split: if_splits)

lemma logout_all_done:
  assumes "Login_Handler L srv others r c s = (Inr u, s')" "hr_path r = ''/auth/logout-all''"
    "au_out s = empty_response" "re_answer (au_out s') = Some (Json_Answer 200 body)" "primary_key (au_rows s)"
  shows "\<exists>i t1 t2. visible (au_rows s) (ac_db_now c) (''browser'', browser_key srv r) = Some (Identity_Body i) \<and>
    t1 \<in> range (ac_now c) \<and> t2 \<in> range (ac_now c) \<and>
    au_rows s' = AList.delete (''browser'', browser_key srv r)
      (AList.update (''logout-all'', pr_id (id_principal i)) (Time_Body t1, t2 + 31 * 24 * hour)
        (unexpired (ac_db_now c) (au_rows s)))"
proof -
  have "atomic (logout srv r) c s = (Inr u, s')"
    by (rule logout_handled[OF assms(1,2) _ assms(4)]) (simp add: assms(3) empty_response_def)
  then obtain s0 where "auth_transaction (logout srv r) c (s\<lparr>au_out := empty_response\<rparr>) = (Inr (), s0)"
    "au_rows s' = au_rows s0" "re_answer (au_out s0) = Some (Json_Answer 200 body)"
    using assms(3,4) by (auto simp: atomic_def am_write_def empty_response_def split: prod.splits sum.splits)
  moreover from auth_transaction_Inr[OF this(1)] obtain s1 s2 where
    "au_rows s1 = unexpired (ac_db_now c) (au_rows s)" "au_out s1 = empty_response" "logout srv r c s1 = (Inr (), s2)"
    "au_rows s0 = au_rows s2" "au_out s0 = au_out s2"
    by auto
  ultimately show ?thesis
    using logout_all_rows[of srv r c s1 "()" s2 body] assms(2,5) by (auto simp: empty_response_def visible_unexpired)
qed

text \<open>A table whose sessions were bounded before the logout is marked after it.\<close>

lemma logged_out_after:
  assumes bounds: "bounded_sessions t1 rows" and "0 < t1" "t1 < t2" "timely t1 t2 c"
    and "T \<in> range (ac_now c)" "T' \<in> range (ac_now c)"
  shows "logged_out who t1 t2 (AList.delete (''browser'', k)
    (AList.update (''logout-all'', who) (Time_Body T, T' + 31 * 24 * hour) (unexpired now rows)))"
proof -
  have key: "primary_key rows" using bounds by (simp add: bounded_sessions_def)
  have "stale_ends who t1 rows"
    unfolding stale_ends_def
  proof (intro conjI allI ballI impI)
    fix k i e
    assume "map_of rows (''browser'', k) = Some (Identity_Body i, e)"
    then have "e \<le> t1 + 7 * 24 * hour" using bounds unfolding bounded_sessions_def by blast
    then show "e \<le> t1 + 30 * 24 * hour" by simp
  next
    fix kind k q e
    assume "kind \<in> set token_kinds" "map_of rows (kind, k) = Some (Oauth_Record q True, e)"
    then show "e \<le> t1 + 30 * 24 * hour" using bounds unfolding bounded_sessions_def by blast
  qed
  then have "stale_ends who t1 (AList.update (''logout-all'', who) (Time_Body T, T' + 31 * 24 * hour) (unexpired now rows))"
    by (intro stale_ends_put stale_ends_unexpired[OF key]) simp_all
  then have "stale_ends who t1 (AList.delete (''browser'', k)
      (AList.update (''logout-all'', who) (Time_Body T, T' + 31 * 24 * hour) (unexpired now rows)))"
    by (rule stale_ends_delete)
  moreover have "t1 \<le> T" "t1 \<le> T'" using timely_now[OF assms(4)] assms(5,6) by auto
  ultimately show ?thesis
    using assms(2,3) key by (simp add: logged_out_def marked_def auth_table_simps)
qed

end
