(* ===== verification/Auth_Demo.thy ===== *)
theory Auth_Demo
  imports Auth_Runs
begin

text \<open>
  A run to instantiate the properties with: a server in password mode starts, somebody signs in,
  logs out everywhere and signs in again. The OAuth library refuses everything.
\<close>

definition demo_lib :: auth_lib where
  "demo_lib =
     \<lparr>al_sanitize = (\<lambda>ks q. q), al_introspect = (\<lambda>srv tok. Finish (Inl Request_Unauthorized)),
      al_authorize_request = (\<lambda>srv r. Finish (Inl Invalid_Request)),
      al_authorize_response = (\<lambda>srv q sess. Finish (Inl Invalid_Request)),
      al_access_request = (\<lambda>srv r. Finish (Inl Invalid_Request)),
      al_access_response = (\<lambda>srv q. Finish (Inl Invalid_Request)),
      al_revocation = (\<lambda>srv r. Finish None), al_decode_login = (\<lambda>b. None), al_decode_client = (\<lambda>b. None),
      al_auth_code_url = (\<lambda>srv state nonce verifier. []), al_exchange = (\<lambda>srv code verifier. None),
      al_verify = (\<lambda>srv raw. None)\<rparr>"

lemma demo_lib_honest: "honest_lib demo_lib"
  by (simp add: honest_lib_def demo_lib_def result_session_def)

definition signin_config :: login_config where
  "signin_config =
     \<lparr>lc_clients = [\<lparr>rc_id = ''cli'', rc_name = ''CLI'', rc_redirects = [''http://127.0.0.1/cb'']\<rparr>],
      lc_mode = ''password'', lc_origin = ''https://e.io'', lc_password = ''pw'',
      lc_google_client_id = [], lc_google_client_secret = [], lc_google_domains = [], lc_google_emails = [],
      lc_google_issuer = []\<rparr>"

definition demo_server :: auth_server where
  "demo_server = \<lparr>sv_epoch = ''x'', sv_cfg = signin_config, sv_key = ''x'', sv_google = False\<rparr>"

definition signin_call :: "time \<Rightarrow> auth_call" where
  "signin_call t = \<lparr>ac_db_now = t, ac_now = (\<lambda>n. t), ac_random = (\<lambda>n. ''x''), ac_fault = (\<lambda>n. False)\<rparr>"

definition demo_state :: "auth_rows \<Rightarrow> auth_state" where
  "demo_state rows = \<lparr>au_rows = rows, au_tick = 0, au_aborted = False, au_out = empty_response\<rparr>"

definition demo_identity :: "time \<Rightarrow> identity" where
  "demo_identity t = admin_identity\<lparr>id_issued := t, id_mode := ''password'', id_version := version demo_server\<rparr>"

text \<open>\<open>add_years 100 t\<close> for small \<open>t\<close>\<close>

definition later :: "time \<Rightarrow> time" where
  "later t = add_years 100 t"

lemma later_bounds: "later 1 = 3155673600000000001" "later 3 = 3155673600000000003"
  by code_simp+

definition demo_base :: auth_rows where
  "demo_base =
     [((''secret'', ''oauth-hmac''), Text_Body ''x'', later 1),
      ((''configuration'', ''active''),
       Generation_Body \<lparr>ag_fingerprint = fingerprint demo_server, ag_epoch = ''x''\<rparr>, later 1),
      ((''client'', ''cli''),
       Client_Body (oauth_client_of ''https://e.io'' ''cli'' [''http://127.0.0.1/cb'']), later 1),
      ((''client-name'', ''cli''), Text_Body ''CLI'', later 1)]"

definition demo_signed_in :: auth_rows where
  "demo_signed_in = demo_base @
     [((''identity'', ''local:admin''), Identity_Body (demo_identity 1), later 1),
      ((''browser'', digest ''x''), Identity_Body (demo_identity 1), 1 + 7 * 24 * hour)]"

definition demo_signed_out :: auth_rows where
  "demo_signed_out = demo_base @
     [((''identity'', ''local:admin''), Identity_Body (demo_identity 1), later 1),
      ((''logout-all'', ''local:admin''), Time_Body 2, 2 + 31 * 24 * hour)]"

definition demo_again :: auth_rows where
  "demo_again = demo_base @
     [((''identity'', ''local:admin''), Identity_Body (demo_identity 3), later 3),
      ((''logout-all'', ''local:admin''), Time_Body 2, 2 + 31 * 24 * hour),
      ((''browser'', digest ''x''), Identity_Body (demo_identity 3), 3 + 7 * 24 * hour)]"

definition signin_request :: "string \<Rightarrow> string \<Rightarrow> http_request" where
  "signin_request verb path =
     \<lparr>hr_method = verb, hr_path = path, hr_escaped_path = path, hr_raw_query = [], hr_request_uri = path, hr_host = ''e.io'',
      hr_remote = ''10.0.0.1:99'', hr_tls = True,
      hr_headers = [(''Origin'', ''https://e.io''), (''X-Csrf-Token'', ''c'')],
      hr_cookies = [(''__Host-envy_session'', ''x''), (''__Host-envy_csrf'', ''c'')],
      hr_post_form = [], hr_body = []\<rparr>"

lemmas demo_defs = demo_server_def signin_config_def signin_call_def demo_state_def demo_base_def demo_signed_in_def
  demo_signed_out_def demo_again_def demo_identity_def

lemma demo_timely: "t \<le> u \<Longrightarrow> timely t u (signin_call t)"
  by (simp add: timely_def signin_call_def)

lemma demo_config_normal: "normal_config signin_config = signin_config"
  by (simp add: normal_config_def signin_config_def trim_right_def)

lemma demo_config_valid: "Validate_Login signin_config = None"
proof -
  have "valid_origin ''https://e.io''" "validRedirect ''http://127.0.0.1/cb''"
    by (simp_all add: valid_origin_def validRedirect_def parse_full_def url_eval http_eval)
  then show ?thesis by (simp add: Validate_Login_def signin_config_def interactive_def validate_client_def)
qed

lemma demo_started: "auth_steps demo_lib (0, []) (1, demo_base)"
proof -
  have "au_rows (snd (New_Login (\<lambda>u. True) signin_config (signin_call 1) (demo_state []))) = demo_base"
    unfolding New_Login_def Let_def demo_config_normal demo_config_valid
    by (simp add: auth_transaction_def am_defs server_key_def server_epoch_def demo_defs unexpired_def visible_def
        later_def Let_def)
  moreover have "timely 0 1 (signin_call 1)" by (simp add: timely_def signin_call_def)
  ultimately show ?thesis
    using auth_step.started[of 0 1 "signin_call 1" demo_lib "demo_state []" "\<lambda>u. True" signin_config]
    by (simp add: demo_state_def)
qed

lemma demo_signing_in: "auth_steps demo_lib (1, demo_base) (2, demo_signed_in)"
proof -
  have "au_rows (snd (finish_google demo_server admin_identity [] (signin_call 1) (demo_state demo_base))) = demo_signed_in"
    by (simp add: finish_google_def am_transaction_def auth_transaction_def issue_def am_defs demo_defs unexpired_def
        admin_identity_def later_bounds[unfolded later_def] later_def set_cookie_def Let_def)
  then show ?thesis
    using auth_step.finished[OF demo_timely[of 1 2], of demo_lib "demo_state demo_base" demo_server admin_identity "[]"]
    by (simp add: demo_state_def)
qed

abbreviation demo_logout :: "(auth_error + unit) \<times> auth_state" where
  "demo_logout \<equiv> Login_Handler demo_lib demo_server (\<lambda>rows. rows) (signin_request ''POST'' ''/auth/logout-all'')
     (signin_call 2) (demo_state demo_signed_in)"

lemma demo_cookies:
  "cookieValue (signin_request verb path) (cookieName demo_server browserCookie) = ''x''"
  "browser_key demo_server (signin_request verb path) = digest ''x''"
  by (simp_all add: browser_key_def cookieValue_def cookieName_def secure_def signin_request_def demo_defs has_prefix_def)

lemma demo_session_cookie: "cookieValue (signin_request verb path) ''__Host-envy_session'' = ''x''"
  by (simp add: cookieValue_def signin_request_def)

lemma demo_csrf: "csrf demo_server (signin_request verb path) = am_return True"
  by (simp add: csrf_def signin_request_def demo_defs header_values_def values_of_def csrf_token_def header_get_def
      first_value_def cookieValue_def cookieName_def secure_def has_prefix_def equal_digest_def Let_def)

lemma demo_browser:
  assumes "visible (au_rows s) t (''browser'', digest ''x'') = Some (Identity_Body i)" "\<not> au_aborted s"
    "id_mode i = ''password''" "id_version i = version demo_server"
    "visible (au_rows s) t (''configuration'', ''active'') =
       Some (Generation_Body \<lparr>ag_fingerprint = fingerprint demo_server, ag_epoch = ''x''\<rparr>)"
    "visible (au_rows s) t (''logout-all'', pr_id (id_principal i)) = None \<or>
     visible (au_rows s) t (''logout-all'', pr_id (id_principal i)) = Some (Time_Body 2) \<and> 2 < id_issued i"
  shows "browser demo_server (signin_request verb path) (signin_call t) s = (Inr i, s\<lparr>au_tick := Suc (Suc (Suc (au_tick s)))\<rparr>)"
proof -
  have srv: "sv_epoch demo_server = ''x''" "lc_mode (sv_cfg demo_server) = ''password''"
    by (simp_all add: demo_server_def signin_config_def)
  have call: "ac_db_now (signin_call t) = t" "\<not> ac_fault (signin_call t) n" for n by (simp_all add: signin_call_def)
  show ?thesis
    using assms srv by (auto simp: browser_def demo_cookies valid_identity_def am_defs call Let_def is_zero_time_def)
qed

lemma demo_unexpired: "unexpired 2 demo_signed_in = demo_signed_in" "unexpired 3 demo_signed_out = demo_signed_out"
  by (simp_all add: unexpired_def demo_defs later_bounds)

text \<open>A logout of a table with a session under the demo's cookie.\<close>

lemma demo_logout_run:
  assumes "unexpired 2 rows = rows"
    and "visible rows 2 (''browser'', digest ''x'') = Some (Identity_Body i)" "id_mode i = ''password''"
      "id_version i = version demo_server" "pr_id (id_principal i) = ''local:admin''"
    and "visible rows 2 (''configuration'', ''active'') =
       Some (Generation_Body \<lparr>ag_fingerprint = fingerprint demo_server, ag_epoch = ''x''\<rparr>)"
    and "visible rows 2 (''logout-all'', ''local:admin'') = None"
  shows "Login_Handler L demo_server (\<lambda>rows. rows) (signin_request ''POST'' ''/auth/logout-all'') (signin_call 2) (demo_state rows) =
    (Inr (), \<lparr>au_rows = AList.delete (''browser'', digest ''x'')
        (AList.update (''logout-all'', ''local:admin'') (Time_Body 2, 2 + 31 * 24 * hour) rows),
      au_tick = 11, au_aborted = False,
      au_out = \<lparr>re_cookies = [(''__Host-envy_session'', [], - 1)], re_answer = Some (Json_Answer 200 (JObj [(''ok'', JBool True)]))\<rparr>\<rparr>)"
proof -
  let ?r = "signin_request ''POST'' ''/auth/logout-all''"
  define s where "s = demo_state rows\<lparr>au_tick := 3\<rparr>"
  define final where "final = \<lparr>au_rows = AList.delete (''browser'', digest ''x'')
        (AList.update (''logout-all'', ''local:admin'') (Time_Body 2, 2 + 31 * 24 * hour) rows),
      au_tick = 10, au_aborted = False,
      au_out = \<lparr>re_cookies = [(''__Host-envy_session'', [], - 1)], re_answer = Some (Json_Answer 200 (JObj [(''ok'', JBool True)]))\<rparr>\<rparr>"
  have browser: "browser demo_server ?r (signin_call 2) s = (Inr i, s\<lparr>au_tick := Suc (Suc (Suc (au_tick s)))\<rparr>)"
    by (rule demo_browser) (simp_all add: s_def demo_state_def assms(2-7))
  have path: "has_suffix (hr_path ?r) ''-all''" by (simp add: has_suffix_def signin_request_def)
  have run: "logout demo_server ?r (signin_call 2) s = (Inr (), final)"
    unfolding logout_def demo_csrf if_P[OF path]
    using browser
    by (simp add: am_bind_def am_return_def am_try_def am_seq_def put_logout_all_def forget_browser_def ok_response_def
        json_response_def demo_session_cookie set_cookie_def am_now_def am_put_def am_del_def am_cookie_def
        am_write_def am_statement_def Let_def s_def final_def demo_server_def signin_config_def signin_call_def demo_state_def
        assms(5) empty_response_def cookieName_def secure_def has_prefix_def)
  have prelude: "am_seq am_skip (am_seq am_skip (am_seq delete_expired m)) (signin_call 2) (demo_state rows) = m (signin_call 2) s" for m :: "unit am"
    by (simp add: am_defs assms(1) signin_call_def s_def demo_state_def Let_def eval_nat_numeral)
  have handler: "Login_Handler L demo_server (\<lambda>rows. rows) ?r = atomic (logout demo_server ?r)"
    by (simp add: Login_Handler_def login_routes_def signin_request_def demo_server_def signin_config_def interactive_def is_get_def)
  have same: "demo_state rows\<lparr>au_aborted := False\<rparr> = demo_state rows" "demo_state rows\<lparr>au_out := empty_response\<rparr> = demo_state rows"
    by (simp_all add: demo_state_def)
  have "auth_transaction (logout demo_server ?r) (signin_call 2) (demo_state rows) = (Inr (), final\<lparr>au_tick := 11\<rparr>)"
    by (simp add: auth_transaction_def same prelude run Let_def) (simp add: signin_call_def final_def)
  then show ?thesis
    by (simp add: handler atomic_def same) (simp add: final_def demo_state_def empty_response_def)
qed

lemma demo_logged_out:
  "fst demo_logout = Inr ()" "re_answer (au_out (snd demo_logout)) = Some (Json_Answer 200 (JObj [(''ok'', JBool True)]))"
  "au_rows (snd demo_logout) = demo_signed_out"
proof -
  note run = demo_logout_run[OF demo_unexpired(1), of "demo_identity 1" demo_lib]
  have "visible demo_signed_in 2 (''browser'', digest ''x'') = Some (Identity_Body (demo_identity 1))"
    "visible demo_signed_in 2 (''configuration'', ''active'') =
       Some (Generation_Body \<lparr>ag_fingerprint = fingerprint demo_server, ag_epoch = ''x''\<rparr>)"
    "visible demo_signed_in 2 (''logout-all'', ''local:admin'') = None"
    by (simp_all add: demo_signed_in_def demo_base_def visible_def later_bounds)
  moreover have "id_mode (demo_identity 1) = ''password''" "id_version (demo_identity 1) = version demo_server"
    "pr_id (id_principal (demo_identity 1)) = ''local:admin''"
    by (simp_all add: demo_identity_def admin_identity_def)
  ultimately show "fst demo_logout = Inr ()"
    "re_answer (au_out (snd demo_logout)) = Some (Json_Answer 200 (JObj [(''ok'', JBool True)]))"
    "au_rows (snd demo_logout) = demo_signed_out"
    using run by (simp_all add: demo_signed_in_def demo_base_def demo_signed_out_def)
qed

lemma demo_signing_in_again: "auth_steps demo_lib (3, demo_signed_out) (4, demo_again)"
proof -
  have "au_rows (snd (finish_google demo_server admin_identity [] (signin_call 3) (demo_state demo_signed_out))) = demo_again"
    by (simp add: finish_google_def am_transaction_def auth_transaction_def issue_def am_defs demo_defs unexpired_def
        admin_identity_def later_bounds[unfolded later_def] later_def set_cookie_def Let_def)
  then show ?thesis
    using auth_step.finished[OF demo_timely[of 3 4], of demo_lib "demo_state demo_signed_out" demo_server admin_identity "[]"]
    by (simp add: demo_state_def)
qed

lemma demo_authenticated:
  "fst (Authenticate demo_lib demo_server (signin_request verb path) ''/v1'' (signin_call 4) (demo_state demo_again)) =
     Inr (id_principal admin_identity)"
proof -
  let ?r = "signin_request verb path"
  define s where "s = demo_state demo_again\<lparr>au_tick := 3\<rparr>"
  have browser: "browser demo_server ?r (signin_call 4) s = (Inr (demo_identity 3), s\<lparr>au_tick := Suc (Suc (Suc (au_tick s)))\<rparr>)"
    by (rule demo_browser) (simp_all add: s_def demo_defs admin_identity_def visible_def later_bounds)
  have "unexpired 4 demo_again = demo_again" by (simp add: unexpired_def demo_defs later_bounds)
  then have prelude: "am_seq am_skip (am_seq am_skip (am_seq delete_expired m)) (signin_call 4) (demo_state demo_again) = m (signin_call 4) s"
    for m :: "principal am"
    by (simp add: am_defs signin_call_def s_def demo_state_def Let_def eval_nat_numeral)
  have "header_get ?r ''Authorization'' = []" by (simp add: signin_request_def header_get_def first_value_def values_of_def)
  then have "authenticate_body demo_lib demo_server ?r ''/v1'' (signin_call 4) s =
      (Inr (id_principal (demo_identity 3)), s\<lparr>au_tick := Suc (Suc (Suc (au_tick s)))\<rparr>)"
    using browser by (simp add: authenticate_body_def am_bind_def am_return_def)
  moreover have "demo_state demo_again\<lparr>au_aborted := False\<rparr> = demo_state demo_again" by (simp add: demo_state_def)
  ultimately show ?thesis
    by (simp add: Authenticate_def auth_transaction_def prelude Let_def)
      (simp add: s_def demo_state_def signin_call_def demo_identity_def)
qed

lemma demo_key: "primary_key demo_again"
  by (simp add: demo_again_def demo_base_def)

text \<open>
  A login on a replica whose clock is ahead: the identity was issued at 5, though every other clock
  shows 1. It has a browser session and a token for the MCP endpoint. The library looks tokens up in
  the store.
\<close>

definition lookup_lib :: auth_lib where
  "lookup_lib = demo_lib\<lparr>al_introspect := (\<lambda>srv tok. Ask (Get_Access tok) (\<lambda>ans.
     case ans of Request_Found (Some q) None \<Rightarrow> Finish (Inr q) | _ \<Rightarrow> Finish (Inl Request_Unauthorized)))\<rparr>"

definition demo_requester :: requester where
  "demo_requester =
     \<lparr>rq_id = ''g'', rq_client = oauth_client_of ''https://e.io'' ''cli'' [''http://127.0.0.1/cb''],
      rq_session = \<lparr>os_identity = demo_identity 5, os_resource = ''https://e.io/mcp'', os_until = 30 * 24 * hour,
        os_subject = ''local:admin'', os_username = ''Admin'', os_expires = []\<rparr>,
      rq_scopes = [''envy''], rq_granted = [''envy''], rq_form = [], rq_rest = []\<rparr>"

definition skewed_rows :: auth_rows where
  "skewed_rows = demo_base @
     [((''browser'', digest ''x''), Identity_Body (demo_identity 5), 5 + 7 * 24 * hour),
      ((''access'', digest ''x''), Oauth_Record demo_requester True, 30 * 24 * hour)]"

definition skewed_after :: auth_rows where
  "skewed_after = demo_base @
     [((''access'', digest ''x''), Oauth_Record demo_requester True, 30 * 24 * hour),
      ((''logout-all'', ''local:admin''), Time_Body 2, 2 + 31 * 24 * hour)]"

definition demo_bearer :: http_request where
  "demo_bearer = (signin_request ''POST'' ''/mcp'')\<lparr>hr_headers := [(''Authorization'', ''Bearer x'')], hr_cookies := []\<rparr>"

lemma lookup_lib_honest: "honest_lib lookup_lib"
proof -
  have "honest_program result_session {} (al_introspect lookup_lib srv tok)" for srv tok
    by (auto simp: lookup_lib_def result_session_def split: store_answer.split option.split)
  then show ?thesis using demo_lib_honest by (simp add: honest_lib_def lookup_lib_def)
qed

lemma skewed_logout:
  "Login_Handler lookup_lib demo_server (\<lambda>rows. rows) (signin_request ''POST'' ''/auth/logout-all'') (signin_call 2)
     (demo_state skewed_rows) =
   (Inr (), \<lparr>au_rows = skewed_after, au_tick = 11, au_aborted = False,
      au_out = \<lparr>re_cookies = [(''__Host-envy_session'', [], - 1)], re_answer = Some (Json_Answer 200 (JObj [(''ok'', JBool True)]))\<rparr>\<rparr>)"
proof -
  have "unexpired 2 skewed_rows = skewed_rows"
    by (simp add: unexpired_def skewed_rows_def demo_base_def later_bounds)
  moreover have "visible skewed_rows 2 (''browser'', digest ''x'') = Some (Identity_Body (demo_identity 5))"
    "visible skewed_rows 2 (''configuration'', ''active'') =
       Some (Generation_Body \<lparr>ag_fingerprint = fingerprint demo_server, ag_epoch = ''x''\<rparr>)"
    "visible skewed_rows 2 (''logout-all'', ''local:admin'') = None"
    by (simp_all add: skewed_rows_def demo_base_def visible_def later_bounds)
  moreover have "id_mode (demo_identity 5) = ''password''" "id_version (demo_identity 5) = version demo_server"
    "pr_id (id_principal (demo_identity 5)) = ''local:admin''"
    by (simp_all add: demo_identity_def admin_identity_def)
  ultimately show ?thesis
    using demo_logout_run[of skewed_rows "demo_identity 5" lookup_lib]
    by (simp add: skewed_rows_def demo_base_def skewed_after_def)
qed

lemma skewed_token:
  "fst (Authenticate lookup_lib demo_server demo_bearer ''/mcp'' (signin_call 3) (demo_state skewed_after)) =
     Inr (id_principal admin_identity)"
proof -
  define s where "s = demo_state skewed_after\<lparr>au_tick := 3\<rparr>"
  have rows: "visible skewed_after 3 (''access'', digest ''x'') = Some (Oauth_Record demo_requester True)"
    "visible skewed_after 3 (''configuration'', ''active'') =
       Some (Generation_Body \<lparr>ag_fingerprint = fingerprint demo_server, ag_epoch = ''x''\<rparr>)"
    "visible skewed_after 3 (''logout-all'', ''local:admin'') = Some (Time_Body 2)"
    "visible skewed_after 3 (''revoked'', i) = None" for i
    by (simp_all add: skewed_after_def demo_base_def visible_def later_bounds)
  have identity: "id_mode (demo_identity 5) = ''password''" "id_version (demo_identity 5) = version demo_server"
    "pr_id (id_principal (demo_identity 5)) = ''local:admin''" "id_issued (demo_identity 5) = 5"
    "id_principal (demo_identity 5) = id_principal admin_identity" "pr_id (id_principal admin_identity) = ''local:admin''"
    by (simp_all add: demo_identity_def admin_identity_def)
  have srv: "sv_epoch demo_server = ''x''" "lc_mode (sv_cfg demo_server) = ''password''" "lc_origin (sv_cfg demo_server) = ''https://e.io''"
    by (simp_all add: demo_server_def signin_config_def)
  have call: "ac_db_now (signin_call 3) = 3" "\<not> ac_fault (signin_call 3) n" "ac_now (signin_call 3) n = 3" for n
    by (simp_all add: signin_call_def)
  have state: "au_rows (s\<lparr>au_tick := n\<rparr>) = skewed_after" "au_aborted (s\<lparr>au_tick := n\<rparr>) = False" "au_rows s = skewed_after"
    "au_aborted s = False" "au_tick s = 3" "s\<lparr>au_tick := n, au_rows := skewed_after\<rparr> = s\<lparr>au_tick := n\<rparr>" for n
    by (simp_all add: s_def demo_state_def)
  have valid: "valid_identity demo_server (demo_identity 5) (signin_call 3) (s\<lparr>au_tick := n\<rparr>) = (Inr True, s\<lparr>au_tick := Suc (Suc n)\<rparr>)" for n
    by (simp add: valid_identity_def am_defs call identity srv state rows is_zero_time_def Let_def)
  have requester: "os_identity (rq_session demo_requester) = demo_identity 5" "os_until (rq_session demo_requester) = 30 * 24 * hour"
    "os_resource (rq_session demo_requester) = ''https://e.io/mcp''" by (simp_all add: demo_requester_def)
  have "oauth_read demo_server ''access'' ''x'' (signin_call 3) s = (Inr (Some demo_requester, None), s\<lparr>au_tick := 8\<rparr>)"
    by (simp add: oauth_read_def am_bind_def am_get_def am_statement_def am_return_def am_fail_def am_try_def am_now_def
        call state rows requester valid Let_def)
  then have read: "call_lib lookup_lib demo_server (al_introspect lookup_lib demo_server ''x'') (signin_call 3) s =
      (Inr (Inr demo_requester), s\<lparr>au_tick := 8\<rparr>)"
    by (simp add: lookup_lib_def oauth_store_def request_found_def am_bind_def am_try_def am_return_def)
  have "header_values demo_bearer ''Authorization'' = [''Bearer x'']" "header_get demo_bearer ''Authorization'' = ''Bearer x''"
    by (simp_all add: demo_bearer_def header_values_def header_get_def first_value_def values_of_def)
  then have body: "authenticate_body lookup_lib demo_server demo_bearer ''/mcp'' (signin_call 3) s =
      (Inr (id_principal admin_identity), s\<lparr>au_tick := 8\<rparr>)"
    using read by (simp add: authenticate_body_def am_bind_def am_return_def requester identity srv has_prefix_def trim_prefix_def)
  have "unexpired 3 skewed_after = skewed_after"
    by (simp add: unexpired_def skewed_after_def demo_base_def later_bounds)
  then have prelude: "am_seq am_skip (am_seq am_skip (am_seq delete_expired m)) (signin_call 3) (demo_state skewed_after) = m (signin_call 3) s"
    for m :: "principal am"
    by (simp add: am_defs signin_call_def s_def demo_state_def Let_def eval_nat_numeral)
  have "demo_state skewed_after\<lparr>au_aborted := False\<rparr> = demo_state skewed_after" by (simp add: demo_state_def)
  then show ?thesis by (simp add: Authenticate_def auth_transaction_def prelude body Let_def state call)
qed

end
