(* ===== verification/Auth_Props.thy ===== *)
theory Auth_Props
  imports Auth_Demo
begin

text \<open>
  What the login server guarantees: which credential stands behind an authenticated request, that
  logging out everywhere is final, and which clients can be registered.
\<close>

section \<open>Properties\<close>

text \<open>
  C6: A request is authenticated only by a live credential that is in the table: either its single
  Authorization header is a bearer token, and the table holds an active, unexpired and unrevoked token
  record for exactly the resource asked for; or it has no such header, asks for the REST resource, and
  its one session cookie names a browser session. The identity behind it was issued by a server with
  this configuration and epoch, is still admitted, and was not logged out.
\<close>

theorem authenticated_by_live_credential:
  assumes "honest_lib L" "timely lo hi c" "primary_key (au_rows s)"
    and "fst (Authenticate L srv r resource c s) = Inr P"
  shows "(\<exists>tok q. header_values r ''Authorization'' = [''Bearer '' @ tok] \<and> usable_token c (au_rows s) q \<and>
            live srv c (au_rows s) (os_identity (rq_session q)) \<and>
            os_resource (rq_session q) = lc_origin (sv_cfg srv) @ resource \<and>
            id_principal (os_identity (rq_session q)) = P) \<or>
         (header_get r ''Authorization'' = [] \<and> resource = ''/v1'' \<and>
            (\<exists>token i. (cookieName srv browserCookie, token) \<in> set (hr_cookies r) \<and> token \<noteq> [] \<and>
               visible (au_rows s) (ac_db_now c) (''browser'', digest token) = Some (Identity_Body i) \<and>
               live srv c (au_rows s) i \<and> id_principal i = P))"
  using authenticated_credential[OF assms] cookieValue_in[of r "cookieName srv browserCookie"]
  by (auto simp: browser_key_def)

theorem authenticated_by_live_credential_witness:
  "\<exists>token i. (''__Host-envy_session'', token) \<in> set (hr_cookies (signin_request ''GET'' ''/v1/me'')) \<and>
     visible demo_again 4 (''browser'', digest token) = Some (Identity_Body i) \<and>
     live demo_server (signin_call 4) demo_again i \<and> pr_id (id_principal i) = ''local:admin''"
proof -
  let ?r = "signin_request ''GET'' ''/v1/me''"
  have "header_values ?r ''Authorization'' = []" by (simp add: signin_request_def header_values_def values_of_def)
  moreover have "cookieName demo_server browserCookie = ''__Host-envy_session''"
    by (simp add: cookieName_def secure_def demo_server_def signin_config_def has_prefix_def)
  moreover have "au_rows (demo_state demo_again) = demo_again" "ac_db_now (signin_call 4) = 4"
    by (simp_all add: demo_state_def signin_call_def)
  moreover have "pr_id (id_principal admin_identity) = ''local:admin''" by (simp add: admin_identity_def)
  ultimately show ?thesis
    using authenticated_by_live_credential[OF demo_lib_honest demo_timely[of 4 4] _ demo_authenticated[of "''GET''" "''/v1/me''"]] demo_key
    by simp metis
qed

text \<open>
  C7: Logging out everywhere is final. In any run of any number of replicas, once a browser logged
  out everywhere, a later request is authenticated as that principal, by a browser session or by a
  token, only if the table then holds a credential whose login happened after the logout began.
\<close>

theorem logout_everywhere_final:
  assumes "honest_lib L" and before: "auth_steps L (t0, []) (t1, au_rows s)"
    and logout: "Login_Handler L srv (\<lambda>rows. rows) r c s = (Inr (), s')" "hr_path r = ''/auth/logout-all''"
      "au_out s = empty_response" "re_answer (au_out s') = Some (Json_Answer 200 ok)"
    and who: "visible (au_rows s) (ac_db_now c) (''browser'', browser_key srv r) = Some (Identity_Body i)"
    and time: "timely t1 t2 c" "0 < t1" "t1 < t2"
    and after: "auth_steps L (t2, au_rows s') (t3, au_rows s'')"
    and auth: "timely t3 t4 c'" "fst (Authenticate L srv' r' resource c' s'') = Inr P" "pr_id P = pr_id (id_principal i)"
  shows "\<exists>j. id_principal j = P \<and> t1 < id_issued j \<and> live srv' c' (au_rows s'') j \<and>
    ((\<exists>k. visible (au_rows s'') (ac_db_now c') (''browser'', k) = Some (Identity_Body j)) \<or>
     (\<exists>q. usable_token c' (au_rows s'') q \<and> os_identity (rq_session q) = j))"
proof -
  have bounded: "bounded_sessions t1 (au_rows s)"
    using bounds.steps_keep[OF assms(1) before] by (simp add: bounded_sessions_def)
  then have key: "primary_key (au_rows s)" by (simp add: bounded_sessions_def)
  obtain T T' where T: "T \<in> range (ac_now c)" "T' \<in> range (ac_now c)"
    and rows: "au_rows s' = AList.delete (''browser'', browser_key srv r)
      (AList.update (''logout-all'', pr_id (id_principal i)) (Time_Body T, T' + 31 * 24 * hour)
        (unexpired (ac_db_now c) (au_rows s)))"
    using logout_all_done[OF logout key] who by auto
  have "logged_out (pr_id P) t1 t2 (au_rows s')"
    unfolding rows auth(3) by (rule logged_out_after[OF bounded time(2,3,1) T])
  then have out: "logged_out_in (pr_id P) t1 t3 t4 c' (au_rows s'')"
    using logout.steps_keep[OF assms(1) after] logout.begins[OF auth(1)] by simp
  have dead: "t1 < id_issued j" if "\<not> stale (pr_id P) t1 j" "id_principal j = P" for j
    using that by (auto simp: stale_def)
  have table: "primary_key (au_rows s'')" using out by (simp add: logged_out_in_def)
  from authenticated_credential[OF assms(1) auth(1) table auth(2)]
  show ?thesis
  proof (elim disjE exE conjE)
    fix q
    assume q: "usable_token c' (au_rows s'') q" "live srv' c' (au_rows s'') (os_identity (rq_session q))"
      "id_principal (os_identity (rq_session q)) = P"
    then obtain kind k where "kind \<in> set token_kinds"
      "visible (au_rows s'') (ac_db_now c') (kind, k) = Some (Oauth_Record q True)"
      by (auto simp: usable_token_def token_record_def)
    then have "t1 < id_issued (os_identity (rq_session q))" using dead stale_token[OF out _ _ out] q by blast
    then show ?thesis using q by blast
  next
    fix j
    assume j: "visible (au_rows s'') (ac_db_now c') (''browser'', browser_key srv' r') = Some (Identity_Body j)"
      "live srv' c' (au_rows s'') j" "id_principal j = P"
    then have "t1 < id_issued j" using dead stale_browser[OF out _ out] by blast
    then show ?thesis using j by blast
  qed
qed

theorem logout_everywhere_final_witness:
  "\<exists>j. pr_id (id_principal j) = ''local:admin'' \<and> 2 < id_issued j \<and> live demo_server (signin_call 4) demo_again j"
proof -
  have "auth_steps demo_lib (0, []) (2, demo_signed_in)"
    using demo_started demo_signing_in by (rule rtranclp_trans)
  then have before: "auth_steps demo_lib (0, []) (2, au_rows (demo_state demo_signed_in))" by (simp add: demo_state_def)
  have logout: "demo_logout = (Inr (), snd demo_logout)" using demo_logged_out(1) by (metis prod.collapse)
  have who: "visible (au_rows (demo_state demo_signed_in)) (ac_db_now (signin_call 2))
      (''browser'', browser_key demo_server (signin_request ''POST'' ''/auth/logout-all'')) = Some (Identity_Body (demo_identity 1))"
    by (simp add: demo_cookies demo_state_def signin_call_def demo_signed_in_def demo_base_def visible_def)
  have after: "auth_steps demo_lib (3, au_rows (snd demo_logout)) (4, au_rows (demo_state demo_again))"
    using demo_signing_in_again demo_logged_out(3) by (simp add: demo_state_def)
  have "hr_path (signin_request ''POST'' ''/auth/logout-all'') = ''/auth/logout-all''" "au_out (demo_state demo_signed_in) = empty_response"
    by (simp_all add: signin_request_def demo_state_def)
  moreover have "pr_id (id_principal admin_identity) = pr_id (id_principal (demo_identity 1))" by (simp add: demo_identity_def)
  ultimately have "\<exists>j. id_principal j = id_principal admin_identity \<and> 2 < id_issued j \<and>
      live demo_server (signin_call 4) (au_rows (demo_state demo_again)) j"
    using logout_everywhere_final[OF demo_lib_honest before logout _ _ demo_logged_out(2) who demo_timely[of 2 3] _ _ after
        demo_timely[of 4 4] demo_authenticated[of "''GET''" "''/v1/me''"]]
    by auto
  moreover have "au_rows (demo_state demo_again) = demo_again" by (simp add: demo_state_def)
  moreover have "pr_id (id_principal admin_identity) = ''local:admin''" by (simp add: admin_identity_def)
  ultimately show ?thesis by metis
qed

text \<open>
  C21: Whatever is configured or registered, every client in the table is public, takes at least one
  redirect address, and each of its addresses is HTTPS or HTTP on a loopback address, without user
  information or fragment.
\<close>

theorem registered_clients_checked:
  assumes "honest_lib L" "auth_steps L (t0, []) (t, rows)" "map_of rows (''client'', k) = Some (b, e)"
  shows "\<exists>cl. b = Client_Body cl \<and> cl_public cl \<and> cl_redirects cl \<noteq> [] \<and>
    (\<forall>uri \<in> set (cl_redirects cl). \<exists>u. parse_full uri = Some u \<and> ur_host u \<noteq> [] \<and> \<not> ur_user u \<and> ur_fragment u = [] \<and>
       (ur_scheme u = ''https'' \<or> ur_scheme u = ''http'' \<and> is_loopback (hostname_of (ur_host u))))"
proof -
  have "checked_clients t rows" using clients.steps_keep[OF assms(1,2)] by (simp add: checked_clients_def)
  then obtain cl where "b = Client_Body cl" "checked_client cl" using assms(3) by (auto simp: checked_clients_def)
  then show ?thesis
    by (auto simp: checked_client_def valid_redirects_def oauth_client_of_def list_all_iff validRedirect_def split: option.splits)
qed



theorem registered_clients_checked_witness:
  "\<exists>cl. Client_Body (oauth_client_of ''https://e.io'' ''cli'' [''http://127.0.0.1/cb'']) = Client_Body cl \<and> cl_redirects cl \<noteq> [] \<and>
     (\<forall>uri \<in> set (cl_redirects cl). validRedirect uri)"
  using registered_clients_checked[OF demo_lib_honest demo_started, of "''cli''"]
  by (fastforce simp: demo_base_def validRedirect_def)




end
