(* ===== verification/Api_Auth.thy ===== *)
theory Api_Auth
  imports Auth_Props
begin

text \<open>
  The authentication middleware of the HTTP API (\<open>internal/api/auth.go\<close>, \<open>buildCredential\<close> of
  \<open>builds.go\<close>, \<open>ValidChannel\<close> of \<open>domain/activity.go\<close>): for each mode of the server, which identity
  a request is served with. An outcome is that identity, with the build credential it is confined to,
  or the error that is sent.
\<close>

section \<open>Configuration\<close>

record machine_credential =
  mc_token :: string
  mc_id :: string
  mc_display_name :: string

record build_credential =
  bc_project :: string
  bc_repository :: string
  bc_token :: string

record api_auth =
  aa_login :: "auth_server option"
  aa_mode :: string
  aa_shared_token :: string
  aa_machines :: "machine_credential list"
  aa_builds :: "build_credential list"
  aa_identity_header :: string
  aa_email_header :: string
  aa_proxy_secret :: string
  aa_trusted :: "ip_prefix list"
  aa_origin :: string

definition normalizeAuth :: "api_auth \<Rightarrow> api_auth" where
  "normalizeAuth cfg = cfg
     \<lparr>aa_mode := (if aa_mode cfg = [] then ''token'' else aa_mode cfg),
      aa_identity_header := (if aa_identity_header cfg = [] then ''X-Envy-User'' else aa_identity_header cfg),
      aa_email_header := (if aa_email_header cfg = [] then ''X-Envy-Email'' else aa_email_header cfg)\<rparr>"

section \<open>Headers\<close>

text \<open>\<open>textproto.CanonicalMIMEHeaderKey\<close>; a name with other characters stays as it is.\<close>

definition upper_char :: "char \<Rightarrow> char" where
  "upper_char c = (if is_lower_alpha c then char_of ((of_char c :: nat) - 32) else c)"

definition token_char :: "char \<Rightarrow> bool" where
  "token_char c \<longleftrightarrow> is_alpha c \<or> is_digit c \<or> c \<in> set ''!#$%&*+-.^_`|~'' \<or> c = CHR 0x27"

fun canonical_from :: "bool \<Rightarrow> string \<Rightarrow> string" where
  "canonical_from up [] = []"
| "canonical_from up (c # s) = (if up then upper_char c else lower_char c) # canonical_from (c = CHR ''-'') s"

definition canonical_header :: "string \<Rightarrow> string" where
  "canonical_header name = (if list_all token_char name then canonical_from True name else name)"

definition bearer :: "http_request \<Rightarrow> string option" where
  "bearer r =
     (case header_values r ''Authorization'' of
        [h] \<Rightarrow>
          let value = trim_prefix h ''Bearer '' in
          if has_prefix h ''Bearer '' \<and> value \<noteq> [] \<and>
            \<not> contains_any value [CHR '' '', CHR '','', tab, carriage_return, newline]
          then Some value else None
      | _ \<Rightarrow> None)"

definition singleHeader :: "http_request \<Rightarrow> string \<Rightarrow> string option" where
  "singleHeader r name =
     (case header_values r (canonical_header name) of
        [h] \<Rightarrow> let value = trim_space h in if value \<noteq> [] \<and> CHR '','' \<notin> set value then Some value else None
      | _ \<Rightarrow> None)"

definition secureEqual :: "string \<Rightarrow> string \<Rightarrow> bool" where
  "secureEqual a b \<longleftrightarrow> a \<noteq> [] \<and> b \<noteq> [] \<and> sha256 a = sha256 b"

definition proxyTrusted :: "string \<Rightarrow> ip_prefix list \<Rightarrow> bool" where
  "proxyTrusted remote trusted =
     (let host = (case split_host_port remote of None \<Rightarrow> remote | Some h \<Rightarrow> h) in
      case parse_addr host of None \<Rightarrow> False | Some ip \<Rightarrow> list_ex (\<lambda>p. prefix_contains p ip) trusted)"

section \<open>The identity of a request\<close>

text \<open>
  \<open>strings.ToLower\<close> on what \<open>ValidChannel\<close> compares: the letters of ASCII, and the capital I with a
  dot, whose lower case is an ASCII letter too. The Kelvin sign is the only other such rune, and no
  channel has a k.
\<close>

fun lower_ascii :: "string \<Rightarrow> string" where
  "lower_ascii (a # b # s) =
     (if a = CHR 0xC4 \<and> b = CHR 0xB0 then CHR ''i'' # lower_ascii s else lower_char a # lower_ascii (b # s))"
| "lower_ascii [a] = [lower_char a]"
| "lower_ascii [] = []"

definition ValidChannel :: "string \<Rightarrow> string" where
  "ValidChannel value =
     (let v = lower_ascii (trim_space value) in
      if v \<in> set [''web'', ''cli'', ''mcp'', ''github'', ''api''] then v else ''api'')"

definition requestMetadata :: "http_request \<Rightarrow> principal \<Rightarrow> request_identity" where
  "requestMetadata r p =
     (let channel = ValidChannel (header_get r ''X-Envy-Channel'') in
      \<lparr>ri_principal = p,
       ri_channel = (if pr_kind p = ''human'' \<and> channel = ''api'' \<and> header_get r ''Sec-Fetch-Site'' \<noteq> []
                     then ''web'' else channel),
       ri_task = take 200 (trim_space (header_get r ''X-Envy-Task''))\<rparr>)"

definition safe_method :: "http_request \<Rightarrow> bool" where
  "safe_method r \<longleftrightarrow> hr_method r \<in> set [''GET'', ''HEAD'', ''OPTIONS'']"

definition csrfAllowed :: "http_request \<Rightarrow> string \<Rightarrow> bool" where
  "csrfAllowed r externalOrigin =
     (safe_method r \<or>
      (case singleHeader r ''Origin'' of
         None \<Rightarrow> False
       | Some origin \<Rightarrow>
           (case parse_full origin of
              None \<Rightarrow> False
            | Some u \<Rightarrow>
                (ur_scheme u = ''http'' \<or> ur_scheme u = ''https'') \<and> ur_host u \<noteq> [] \<and> \<not> ur_user u \<and>
                ur_path u = [] \<and> ur_query u = [] \<and> ur_fragment u = [] \<and>
                (if externalOrigin \<noteq> [] then
                   (case parse_full externalOrigin of
                      None \<Rightarrow> False
                    | Some e \<Rightarrow> equal_fold (ur_scheme u) (ur_scheme e) \<and> equal_fold (ur_host u) (ur_host e))
                 else equal_fold (ur_host u) (hr_host r) \<and> ur_scheme u = (if hr_tls r then ''https'' else ''http'')))))"

section \<open>The middleware\<close>

datatype api_outcome =
    Served request_identity "build_credential option"
  | Refused string "string option"
  | Answered

definition unauthorized :: "api_auth \<Rightarrow> http_request \<Rightarrow> api_outcome" where
  "unauthorized cfg r =
     Refused ''login required'' (Some (''Bearer'' @
       (if (aa_mode cfg = ''password'' \<or> aa_mode cfg = ''google'') \<and> aa_origin cfg \<noteq> []
        then '' resource_metadata='' @ [dquote] @ aa_origin cfg @ ''/.well-known/oauth-protected-resource/'' @
          (if hr_path r = ''/mcp'' then ''mcp'' else ''v1'') @ [dquote] @ '', scope='' @ [dquote] @ ''envy'' @ [dquote]
        else [])))"

definition build_matches :: "http_request \<Rightarrow> string \<Rightarrow> build_credential \<Rightarrow> bool" where
  "build_matches r token c \<longleftrightarrow>
     bc_token c \<noteq> [] \<and> sha256 token = sha256 (bc_token c) \<and>
     hr_escaped_path r = ''/v1/projects/'' @ bc_project c @ ''/repositories/'' @ bc_repository c @ ''/builds''"

definition buildCredential :: "http_request \<Rightarrow> build_credential list \<Rightarrow> build_credential option" where
  "buildCredential r credentials =
     (if hr_method r \<noteq> ''POST'' then None
      else case header_values r ''Authorization'' of
             [h] \<Rightarrow> if has_prefix h ''Bearer '' then find (build_matches r (trim_prefix h ''Bearer '')) credentials else None
           | _ \<Rightarrow> None)"

definition service_principal :: "string \<Rightarrow> string \<Rightarrow> string \<Rightarrow> principal" where
  "service_principal kind i name = \<lparr>pr_kind = kind, pr_id = i, pr_display_name = name, pr_email = []\<rparr>"

definition served :: "http_request \<Rightarrow> principal \<Rightarrow> api_outcome" where
  "served r p = Served (requestMetadata r p) None"

definition bearer_required :: "string \<Rightarrow> api_outcome" where
  "bearer_required message = Refused message (Some ''Bearer'')"

definition api_bearer ::
  "auth_lib \<Rightarrow> api_auth \<Rightarrow> http_request \<Rightarrow> string \<Rightarrow> auth_call \<Rightarrow> auth_state \<Rightarrow> api_outcome \<times> auth_state"
where
  "api_bearer L cfg r token c s =
     (case find (\<lambda>m. secureEqual token (mc_token m)) (aa_machines cfg) of
        Some m \<Rightarrow> (served r (service_principal ''service'' (mc_id m) (mc_display_name m)), s)
      | None \<Rightarrow>
          if secureEqual token (aa_shared_token cfg)
          then (served r (service_principal ''shared'' ''shared-token'' ''Shared API credential''), s)
          else case aa_login cfg of
                 Some srv \<Rightarrow>
                   if aa_mode cfg = ''password'' \<or> aa_mode cfg = ''google'' then
                     (case Authenticate L srv r (if hr_path r = ''/mcp'' then ''/mcp'' else ''/v1'') c s of
                        (Inr p, s') \<Rightarrow> (served r p, s')
                      | (Inl e, s') \<Rightarrow> (unauthorized cfg r, s'))
                   else (unauthorized cfg r, s)
               | None \<Rightarrow> (unauthorized cfg r, s))"

definition api_proxy :: "api_auth \<Rightarrow> http_request \<Rightarrow> api_outcome" where
  "api_proxy cfg r =
     (let secret = singleHeader r ''X-Envy-Proxy-Secret'';
          identity = singleHeader r (aa_identity_header cfg);
          email = singleHeader r (aa_email_header cfg)
      in if \<not> proxyTrusted (hr_remote r) (aa_trusted cfg) \<or>
           (case secret of None \<Rightarrow> True | Some v \<Rightarrow> \<not> secureEqual v (aa_proxy_secret cfg))
         then Refused ''request did not arrive through the trusted identity proxy'' None
         else case identity of
                None \<Rightarrow> Refused ''trusted proxy identity is missing or ambiguous'' None
              | Some who \<Rightarrow>
                  if 200 < length who \<or> header_values r (canonical_header (aa_email_header cfg)) \<noteq> [] \<and> email = None
                  then Refused ''trusted proxy identity is missing or ambiguous'' None
                  else if \<not> csrfAllowed r (aa_origin cfg)
                  then Refused ''cross-origin browser mutation rejected'' None
                  else served r \<lparr>pr_kind = ''human'', pr_id = who, pr_display_name = who,
                         pr_email = (case email of None \<Rightarrow> [] | Some e \<Rightarrow> e)\<rparr>)"

definition api_cookie ::
  "auth_lib \<Rightarrow> api_auth \<Rightarrow> http_request \<Rightarrow> auth_call \<Rightarrow> auth_state \<Rightarrow> api_outcome \<times> auth_state"
where
  "api_cookie L cfg r c s =
     (case aa_login cfg of
        None \<Rightarrow> (unauthorized cfg r, s)
      | Some srv \<Rightarrow>
          if hr_path r = ''/mcp'' then (unauthorized cfg r, s)
          else case Authenticate L srv r ''/v1'' c s of
                 (Inl e, s') \<Rightarrow> (unauthorized cfg r, s')
               | (Inr p, s') \<Rightarrow>
                   (case BrowserMutationAllowed srv r c s' of
                      (Inr True, s'') \<Rightarrow> (served r p, s'')
                    | (x, s'') \<Rightarrow> (Answered, s'')))"

text \<open>\<open>authenticate\<close>\<close>

definition api_authenticate ::
  "auth_lib \<Rightarrow> api_auth \<Rightarrow> http_request \<Rightarrow> auth_call \<Rightarrow> auth_state \<Rightarrow> api_outcome \<times> auth_state"
where
  "api_authenticate L cfg r c s =
     (if header_values r ''Authorization'' \<noteq> [] \<and> bearer r = None
      then (bearer_required ''valid bearer credentials are required'', s)
      else case buildCredential r (aa_builds cfg) of
             Some b \<Rightarrow>
               (Served
                  \<lparr>ri_principal = service_principal ''service'' (''build:'' @ bc_project b @ ''/'' @ bc_repository b) ''Build reporter'',
                   ri_channel = ''github'', ri_task = []\<rparr> (Some b), s)
           | None \<Rightarrow>
               (case bearer r of
                  Some token \<Rightarrow> api_bearer L cfg r token c s
                | None \<Rightarrow>
                    if aa_mode cfg = ''dev'' then (served r (service_principal ''human'' ''local:admin'' ''Admin''), s)
                    else if aa_mode cfg = ''password'' \<or> aa_mode cfg = ''google'' then api_cookie L cfg r c s
                    else if aa_mode cfg = ''none'' then (served r (service_principal ''anonymous'' ''anonymous'' ''Anonymous''), s)
                    else if aa_mode cfg = ''proxy'' then (api_proxy cfg r, s)
                    else (bearer_required ''valid bearer credentials are required'', s)))"

section \<open>Properties\<close>

lemma requestMetadata_principal [simp]: "ri_principal (requestMetadata r p) = p"
  by (simp add: requestMetadata_def Let_def)

lemma served_Served [simp]: "served r p = Served ident b \<longleftrightarrow> ident = requestMetadata r p \<and> b = None"
  by (auto simp: served_def)

lemma unauthorized_not_Served [simp]: "unauthorized cfg r \<noteq> Served ident b" "bearer_required m \<noteq> Served ident b"
  by (simp_all add: unauthorized_def bearer_required_def)

lemma csrf_passes:
  assumes "csrf srv r c s = (Inr True, s')"
  shows "header_values r ''Origin'' = [lc_origin (sv_cfg srv)] \<and>
    equal_digest (csrf_token r) (cookieValue r (cookieName srv csrfCookie))"
  using assms by (auto simp: csrf_def am_seq_Inr am_return_def split: if_splits)

lemma no_build_without_header: "header_values r ''Authorization'' = [] \<Longrightarrow> buildCredential r bs = None"
  and no_bearer_without_header: "header_values r ''Authorization'' = [] \<Longrightarrow> bearer r = None"
  by (simp_all add: buildCredential_def bearer_def)

text \<open>
  C20: In the modes that know people by what their browser sends along, another site cannot use it
  to change state. In the password and Google modes, a request served without an Authorization header
  is not for the MCP endpoint, and unless its method is safe its one Origin header is the configured
  origin and its CSRF token is the one in its CSRF cookie. In the proxy mode, a request served without
  an Authorization header has a safe method, or its one Origin header is an HTTP origin equal, up to
  case, to the configured origin or, when none is configured, to the host and scheme the request came
  with; the MCP endpoint is not excluded there. The development and anonymous modes (\<open>dev\<close>, \<open>none\<close>)
  serve such requests without any of these checks and are not covered.
\<close>

theorem ambient_authority_same_origin:
  assumes "fst (api_authenticate L cfg r c s) = Served ident b" "header_values r ''Authorization'' = []"
  shows "(aa_mode cfg = ''password'' \<or> aa_mode cfg = ''google'' \<longrightarrow> hr_path r \<noteq> ''/mcp'' \<and>
      (safe_method r \<or> (\<exists>srv. aa_login cfg = Some srv \<and> header_values r ''Origin'' = [lc_origin (sv_cfg srv)] \<and>
         equal_digest (csrf_token r) (cookieValue r (cookieName srv csrfCookie))))) \<and>
    (aa_mode cfg = ''proxy'' \<longrightarrow> safe_method r \<or>
      (\<exists>h u. header_values r ''Origin'' = [h] \<and> parse_full (trim_space h) = Some u \<and>
         (ur_scheme u = ''http'' \<or> ur_scheme u = ''https'') \<and> ur_host u \<noteq> [] \<and>
         (if aa_origin cfg = []
          then fold_case (ur_host u) = fold_case (hr_host r) \<and> ur_scheme u = (if hr_tls r then ''https'' else ''http'')
          else \<exists>e. parse_full (aa_origin cfg) = Some e \<and> fold_case (ur_scheme u) = fold_case (ur_scheme e) \<and>
            fold_case (ur_host u) = fold_case (ur_host e))))"
proof (intro conjI impI)
  assume mode: "aa_mode cfg = ''password'' \<or> aa_mode cfg = ''google''"
  then have cookie: "fst (api_cookie L cfg r c s) = Served ident b"
    using assms no_build_without_header[of r] no_bearer_without_header[of r]
    by (auto simp: api_authenticate_def split: if_splits)
  then obtain srv p s1 s2 where "aa_login cfg = Some srv" "hr_path r \<noteq> ''/mcp''"
    "BrowserMutationAllowed srv r c s1 = (Inr True, s2)"
    by (auto simp: api_cookie_def split: option.splits if_splits prod.splits sum.splits bool.splits)
  then show "hr_path r \<noteq> ''/mcp''"
    "safe_method r \<or> (\<exists>srv. aa_login cfg = Some srv \<and> header_values r ''Origin'' = [lc_origin (sv_cfg srv)] \<and>
         equal_digest (csrf_token r) (cookieValue r (cookieName srv csrfCookie)))"
    using csrf_passes[of srv r c s1 s2] by (auto simp: BrowserMutationAllowed_def safe_method_def split: if_splits)
next
  assume mode: "aa_mode cfg = ''proxy''"
  then have "api_proxy cfg r = Served ident b"
    using assms no_build_without_header[of r] no_bearer_without_header[of r]
    by (auto simp: api_authenticate_def split: if_splits)
  then have allowed: "csrfAllowed r (aa_origin cfg)"
    by (auto simp: api_proxy_def Let_def split: if_splits option.splits)
  have "canonical_header ''Origin'' = ''Origin''"
    by (simp add: canonical_header_def token_char_def char_class_defs upper_char_def lower_char_def less_eq_char_def)
  then have single: "\<exists>h. header_values r ''Origin'' = [h] \<and> trim_space h = origin" if "singleHeader r ''Origin'' = Some origin" for origin
    using that by (auto simp: singleHeader_def Let_def split: list.splits if_splits)
  show "safe_method r \<or>
      (\<exists>h u. header_values r ''Origin'' = [h] \<and> parse_full (trim_space h) = Some u \<and>
         (ur_scheme u = ''http'' \<or> ur_scheme u = ''https'') \<and> ur_host u \<noteq> [] \<and>
         (if aa_origin cfg = []
          then fold_case (ur_host u) = fold_case (hr_host r) \<and> ur_scheme u = (if hr_tls r then ''https'' else ''http'')
          else \<exists>e. parse_full (aa_origin cfg) = Some e \<and> fold_case (ur_scheme u) = fold_case (ur_scheme e) \<and>
            fold_case (ur_host u) = fold_case (ur_host e)))"
    using allowed single
    by (cases "safe_method r") (auto simp: csrfAllowed_def equal_fold_def split: option.splits if_splits dest!: single)
qed

definition demo_api :: api_auth where
  "demo_api =
     \<lparr>aa_login = Some demo_server, aa_mode = ''password'', aa_shared_token = [], aa_machines = [], aa_builds = [],
      aa_identity_header = ''X-Envy-User'', aa_email_header = ''X-Envy-Email'', aa_proxy_secret = [],
      aa_trusted = [], aa_origin = ''https://e.io''\<rparr>"

theorem ambient_authority_same_origin_witness:
  "hr_path (signin_request ''POST'' ''/v1/x'') \<noteq> ''/mcp'' \<and>
     (\<exists>srv. aa_login demo_api = Some srv \<and> header_values (signin_request ''POST'' ''/v1/x'') ''Origin'' = [lc_origin (sv_cfg srv)])"
proof -
  let ?r = "signin_request ''POST'' ''/v1/x''"
  have header: "header_values ?r ''Authorization'' = []" by (simp add: signin_request_def header_values_def values_of_def)
  obtain s' where auth: "Authenticate demo_lib demo_server ?r ''/v1'' (signin_call 4) (demo_state demo_again) =
      (Inr (id_principal admin_identity), s')"
    using demo_authenticated[of "''POST''" "''/v1/x''"] by (metis prod.collapse)
  have mutation: "BrowserMutationAllowed demo_server ?r (signin_call 4) s' = (Inr True, s')"
    by (simp add: BrowserMutationAllowed_def demo_csrf am_return_def)
  have path: "hr_path ?r \<noteq> ''/mcp''" by (simp add: signin_request_def)
  have "fst (api_authenticate demo_lib demo_api ?r (signin_call 4) (demo_state demo_again)) =
      Served (requestMetadata ?r (id_principal admin_identity)) None"
    by (simp add: api_authenticate_def header no_build_without_header no_bearer_without_header api_cookie_def demo_api_def
        path auth mutation served_def)
  from ambient_authority_same_origin[OF this header] show ?thesis
    by (simp add: demo_api_def safe_method_def signin_request_def[of "''POST''"])
qed

end
