(* ===== verification/Calls.thy ===== *)
theory Calls
  imports Prelude
begin

text \<open>
  Programs that call a service outside the process: the providers of \<open>internal/providers\<close>. A
  program runs against a \<open>service\<close>, an arbitrary function that answers each call from everything
  called before, and keeps the history of calls with their answers, latest first. Quantifying over
  services covers every state of the external system and whatever else changes it between calls.
  A program that fails returns its error and the history up to there.
\<close>

section \<open>Programs\<close>

type_synonym ('q, 'r) history = "('q \<times> 'r) list"
type_synonym ('q, 'r) service = "('q, 'r) history \<Rightarrow> 'q \<Rightarrow> 'r"
type_synonym ('q, 'r, 'e, 'a) io = "('q, 'r) service \<Rightarrow> ('q, 'r) history \<Rightarrow> ('e + 'a) \<times> ('q, 'r) history"

definition io_return :: "'a \<Rightarrow> ('q, 'r, 'e, 'a) io" where
  "io_return a srv h = (Inr a, h)"

definition io_fail :: "'e \<Rightarrow> ('q, 'r, 'e, 'a) io" where
  "io_fail e srv h = (Inl e, h)"

definition io_bind :: "('q, 'r, 'e, 'a) io \<Rightarrow> ('a \<Rightarrow> ('q, 'r, 'e, 'b) io) \<Rightarrow> ('q, 'r, 'e, 'b) io" where
  "io_bind m f srv h = (case m srv h of (Inl e, h') \<Rightarrow> (Inl e, h') | (Inr a, h') \<Rightarrow> f a srv h')"

definition io_seq :: "('q, 'r, 'e, unit) io \<Rightarrow> ('q, 'r, 'e, 'b) io \<Rightarrow> ('q, 'r, 'e, 'b) io" where
  "io_seq m n = io_bind m (\<lambda>_. n)"

definition io_when :: "bool \<Rightarrow> ('q, 'r, 'e, unit) io \<Rightarrow> ('q, 'r, 'e, unit) io" where
  "io_when b m = (if b then m else io_return ())"

definition io_call :: "'q \<Rightarrow> ('q, 'r, 'e, 'r) io" where
  "io_call q srv h = (Inr (srv h q), (q, srv h q) # h)"

text \<open>The error as a value, for the code that looks at it and goes on.\<close>

definition io_try :: "('q, 'r, 'e, 'a) io \<Rightarrow> ('q, 'r, 'f, 'e + 'a) io" where
  "io_try m srv h = (case m srv h of (x, h') \<Rightarrow> (Inr x, h'))"

text \<open>A loop that stops at the first error.\<close>

primrec io_each :: "('x \<Rightarrow> ('q, 'r, 'e, unit) io) \<Rightarrow> 'x list \<Rightarrow> ('q, 'r, 'e, unit) io" where
  "io_each f [] = io_return ()"
| "io_each f (x # xs) = io_seq (f x) (io_each f xs)"

lemmas io_defs = io_return_def io_fail_def io_bind_def io_seq_def io_when_def io_call_def io_try_def

section \<open>What programs guarantee\<close>

definition io_safe ::
  "('q, 'r) service \<Rightarrow> (('q, 'r) history \<Rightarrow> bool) \<Rightarrow> ('q, 'r, 'e, 'a) io \<Rightarrow>
   ('a \<Rightarrow> ('q, 'r) history \<Rightarrow> bool) \<Rightarrow> ('e \<Rightarrow> ('q, 'r) history \<Rightarrow> bool) \<Rightarrow> bool"
where
  "io_safe srv P m Q E \<longleftrightarrow>
     (\<forall>h. P h \<longrightarrow> (case m srv h of (Inl e, h') \<Rightarrow> E e h' | (Inr a, h') \<Rightarrow> Q a h'))"

named_theorems io_rules "what the constructs of a program guarantee"

lemma io_safeI: "(\<And>h. P h \<Longrightarrow> case m srv h of (Inl e, h') \<Rightarrow> E e h' | (Inr a, h') \<Rightarrow> Q a h') \<Longrightarrow> io_safe srv P m Q E"
  by (simp add: io_safe_def)

lemma io_safe_Inr: "io_safe srv P m Q E \<Longrightarrow> P h \<Longrightarrow> m srv h = (Inr a, h') \<Longrightarrow> Q a h'"
  by (force simp: io_safe_def)

lemma io_safe_Inl: "io_safe srv P m Q E \<Longrightarrow> P h \<Longrightarrow> m srv h = (Inl e, h') \<Longrightarrow> E e h'"
  by (force simp: io_safe_def)

lemma io_safe_any: "io_safe srv P m (\<lambda>_. Q) (\<lambda>_. Q) \<Longrightarrow> P h \<Longrightarrow> Q (snd (m srv h))"
  by (cases "m srv h") (auto simp: io_safe_def split: sum.splits)

lemma io_safe_weaken:
  assumes "io_safe srv P' m Q' E'" "\<And>h. P h \<Longrightarrow> P' h" "\<And>a h. Q' a h \<Longrightarrow> Q a h" "\<And>e h. E' e h \<Longrightarrow> E e h"
  shows "io_safe srv P m Q E"
proof (rule io_safeI)
  fix h assume "P h"
  then have run: "case m srv h of (Inl e, h') \<Rightarrow> E' e h' | (Inr a, h') \<Rightarrow> Q' a h'"
    using assms(1,2) by (simp add: io_safe_def)
  then show "case m srv h of (Inl e, h') \<Rightarrow> E e h' | (Inr a, h') \<Rightarrow> Q a h'"
    using assms(3,4) by (auto split: prod.splits sum.splits)
qed

lemma io_safe_return: "(\<And>h. P h \<Longrightarrow> Q a h) \<Longrightarrow> io_safe srv P (io_return a) Q E"
  by (simp add: io_safe_def io_return_def)

lemma io_safe_fail: "(\<And>h. P h \<Longrightarrow> E e h) \<Longrightarrow> io_safe srv P (io_fail e) Q E"
  by (simp add: io_safe_def io_fail_def)

lemma io_safe_call: "(\<And>h. P h \<Longrightarrow> Q (srv h q) ((q, srv h q) # h)) \<Longrightarrow> io_safe srv P (io_call q) Q E"
  by (simp add: io_safe_def io_call_def)

lemma io_safe_bind [io_rules]:
  "io_safe srv P m Q E \<Longrightarrow> (\<And>a. io_safe srv (Q a) (f a) R E) \<Longrightarrow> io_safe srv P (io_bind m f) R E"
proof (rule io_safeI)
  fix h assume m: "io_safe srv P m Q E" and f: "\<And>a. io_safe srv (Q a) (f a) R E" and "P h"
  then show "case io_bind m f srv h of (Inl e, h') \<Rightarrow> E e h' | (Inr a, h') \<Rightarrow> R a h'"
    by (cases "m srv h"; cases "fst (m srv h)") (force simp: io_safe_def io_bind_def)+
qed

lemma io_safe_seq [io_rules]:
  "io_safe srv P m (\<lambda>_. Q) E \<Longrightarrow> io_safe srv Q n R E \<Longrightarrow> io_safe srv P (io_seq m n) R E"
  unfolding io_seq_def by (rule io_safe_bind)

lemma io_safe_try:
  "io_safe srv P m (\<lambda>a. Q (Inr a)) (\<lambda>e. Q (Inl e)) \<Longrightarrow> io_safe srv P (io_try m) Q E"
proof (rule io_safeI)
  fix h assume "io_safe srv P m (\<lambda>a. Q (Inr a)) (\<lambda>e. Q (Inl e))" "P h"
  then show "case io_try m srv h of (Inl e, h') \<Rightarrow> E e h' | (Inr a, h') \<Rightarrow> Q a h'"
    by (cases "m srv h"; cases "fst (m srv h)") (force simp: io_safe_def io_try_def)+
qed

lemma io_safe_bind_try:
  assumes "io_safe srv P m Q' E'" "\<And>a. io_safe srv (Q' a) (f (Inr a)) R E" "\<And>e. io_safe srv (E' e) (f (Inl e)) R E"
  shows "io_safe srv P (io_bind (io_try m) f) R E"
proof (rule io_safe_bind)
  show "io_safe srv P (io_try m) (\<lambda>x. case x of Inl e \<Rightarrow> E' e | Inr a \<Rightarrow> Q' a) E"
    by (rule io_safe_try) (simp add: assms(1))
  show "io_safe srv (case x of Inl e \<Rightarrow> E' e | Inr a \<Rightarrow> Q' a) (f x) R E" for x
    using assms(2,3) by (cases x) simp_all
qed

lemma io_safe_if:
  "(b \<Longrightarrow> io_safe srv P m Q E) \<Longrightarrow> (\<not> b \<Longrightarrow> io_safe srv P n Q E) \<Longrightarrow> io_safe srv P (if b then m else n) Q E"
  by simp

lemma io_safe_when:
  "(b \<Longrightarrow> io_safe srv P m Q E) \<Longrightarrow> (\<And>h. \<not> b \<Longrightarrow> P h \<Longrightarrow> Q () h) \<Longrightarrow> io_safe srv P (io_when b m) Q E"
  by (simp add: io_when_def io_safe_return)

lemma io_safe_case_sum:
  "(\<And>y. x = Inl y \<Longrightarrow> io_safe srv P (g y) Q E) \<Longrightarrow> (\<And>y. x = Inr y \<Longrightarrow> io_safe srv P (f y) Q E) \<Longrightarrow>
     io_safe srv P (case x of Inl y \<Rightarrow> g y | Inr y \<Rightarrow> f y) Q E"
  by (cases x) simp_all

lemma io_safe_case_option:
  "(x = None \<Longrightarrow> io_safe srv P m Q E) \<Longrightarrow> (\<And>y. x = Some y \<Longrightarrow> io_safe srv P (f y) Q E) \<Longrightarrow>
     io_safe srv P (case x of None \<Rightarrow> m | Some y \<Rightarrow> f y) Q E"
  by (cases x) simp_all

lemma io_safe_case_prod:
  "(\<And>a b. x = (a, b) \<Longrightarrow> io_safe srv P (f a b) Q E) \<Longrightarrow> io_safe srv P (case x of (a, b) \<Rightarrow> f a b) Q E"
  by (cases x) simp

text \<open>A loop establishes, for each element in turn, what its body establishes, if later bodies keep it.\<close>

lemma io_safe_each:
  assumes "\<And>x D. x \<in> set xs \<Longrightarrow> io_safe srv (\<lambda>h. I h \<and> (\<forall>y\<in>D. A y h)) (f x) (\<lambda>_ h. I h \<and> A x h \<and> (\<forall>y\<in>D. A y h)) E"
    and "\<And>h. P h \<Longrightarrow> I h" "\<And>h. I h \<Longrightarrow> (\<forall>x\<in>set xs. A x h) \<Longrightarrow> Q () h"
  shows "io_safe srv P (io_each f xs) Q E"
proof -
  have "io_safe srv (\<lambda>h. I h \<and> (\<forall>y\<in>D. A y h)) (io_each f ys) (\<lambda>_ h. I h \<and> (\<forall>y\<in>D \<union> set ys. A y h)) E"
    if "set ys \<subseteq> set xs" for ys D
    using that
  proof (induction ys arbitrary: D)
    case Nil
    then show ?case by (simp add: io_safe_return)
  next
    case (Cons y ys)
    have "io_safe srv (\<lambda>h. I h \<and> (\<forall>z\<in>D. A z h)) (f y) (\<lambda>_ h. I h \<and> (\<forall>z\<in>insert y D. A z h)) E"
      using assms(1)[of y D] Cons.prems by (auto elim!: io_safe_weaken)
    moreover have "io_safe srv (\<lambda>h. I h \<and> (\<forall>z\<in>insert y D. A z h)) (io_each f ys)
        (\<lambda>_ h. I h \<and> (\<forall>z\<in>D \<union> set (y # ys). A z h)) E"
      using Cons.IH[of "insert y D"] Cons.prems by simp
    ultimately show ?case by (simp add: io_safe_seq)
  qed
  from this[of xs "{}"] show ?thesis using assms(2,3) by (auto elim!: io_safe_weaken)
qed

lemma io_each_invariant:
  assumes "\<And>x. x \<in> set xs \<Longrightarrow> io_safe srv I (f x) (\<lambda>_. I) E"
  shows "io_safe srv I (io_each f xs) (\<lambda>_. I) E"
  using assms by (induction xs) (auto simp: io_safe_return intro!: io_safe_seq)

section \<open>Histories\<close>

text \<open>A program only adds to the history.\<close>

definition io_grows :: "('q, 'r, 'e, 'a) io \<Rightarrow> bool" where
  "io_grows m \<longleftrightarrow> (\<forall>srv h. \<exists>new. snd (m srv h) = new @ h)"

named_theorems grows_rules "programs that only add to the history"

lemma growsD: "io_grows m \<Longrightarrow> m srv h = (x, h') \<Longrightarrow> \<exists>new. h' = new @ h"
  by (metis io_grows_def snd_conv)

lemma grows_basic [grows_rules]: "io_grows (io_return a)" "io_grows (io_fail e)" "io_grows (io_call q)"
  by (simp_all add: io_grows_def io_return_def io_fail_def io_call_def)

lemma grows_bind [grows_rules]: "io_grows m \<Longrightarrow> (\<And>a. io_grows (f a)) \<Longrightarrow> io_grows (io_bind m f)"
proof -
  assume m: "io_grows m" and f: "\<And>a. io_grows (f a)"
  show ?thesis
    unfolding io_grows_def
  proof (intro allI)
    fix srv h
    obtain x h' where run: "m srv h = (x, h')" by force
    then obtain new where "h' = new @ h" using growsD[OF m] by blast
    moreover have "\<exists>more. snd (f a srv h') = more @ h'" for a using f unfolding io_grows_def by blast
    ultimately show "\<exists>new. snd (io_bind m f srv h) = new @ h"
      using run by (cases x) (auto simp: io_bind_def, metis append_assoc)
  qed
qed

lemma grows_seq [grows_rules]: "io_grows m \<Longrightarrow> io_grows n \<Longrightarrow> io_grows (io_seq m n)"
  by (simp add: io_seq_def grows_bind)

lemma grows_try [grows_rules]: "io_grows m \<Longrightarrow> io_grows (io_try m)"
  unfolding io_grows_def io_try_def by (metis (mono_tags, lifting) case_prod_conv prod.collapse snd_conv)

lemma grows_when [grows_rules]: "io_grows m \<Longrightarrow> io_grows (io_when b m)"
  by (simp add: io_when_def grows_basic)

lemma grows_if [grows_rules]: "(b \<Longrightarrow> io_grows m) \<Longrightarrow> (\<not> b \<Longrightarrow> io_grows n) \<Longrightarrow> io_grows (if b then m else n)"
  by simp

lemma grows_case_sum [grows_rules]:
  "(\<And>y. io_grows (g y)) \<Longrightarrow> (\<And>y. io_grows (f y)) \<Longrightarrow> io_grows (case x of Inl y \<Rightarrow> g y | Inr y \<Rightarrow> f y)"
  by (cases x) simp_all

lemma grows_case_option [grows_rules]:
  "io_grows m \<Longrightarrow> (\<And>y. io_grows (f y)) \<Longrightarrow> io_grows (case x of None \<Rightarrow> m | Some y \<Rightarrow> f y)"
  by (cases x) simp_all

lemma grows_case_prod [grows_rules]: "(\<And>a b. io_grows (f a b)) \<Longrightarrow> io_grows (case x of (a, b) \<Rightarrow> f a b)"
  by (cases x) simp

lemma grows_each [grows_rules]: "(\<And>x. io_grows (f x)) \<Longrightarrow> io_grows (io_each f xs)"
  by (induction xs) (simp_all add: grows_rules)

text \<open>What a history says stays said, whatever is called later.\<close>

definition lasting :: "(('q, 'r) history \<Rightarrow> bool) \<Rightarrow> bool" where
  "lasting A \<longleftrightarrow> (\<forall>h new. A h \<longrightarrow> A (new @ h))"

named_theorems lasting_rules "what later calls do not change"

lemma lastingD: "lasting A \<Longrightarrow> A h \<Longrightarrow> A (new @ h)"
  by (simp add: lasting_def)

lemma lasting_in [lasting_rules]: "lasting (\<lambda>h. c \<in> set h)"
  by (simp add: lasting_def)

lemma lasting_const [lasting_rules]: "lasting (\<lambda>h. b)"
  by (simp add: lasting_def)

lemma lasting_conj [lasting_rules]: "lasting A \<Longrightarrow> lasting B \<Longrightarrow> lasting (\<lambda>h. A h \<and> B h)"
  by (simp add: lasting_def)

lemma lasting_disj [lasting_rules]: "lasting A \<Longrightarrow> lasting B \<Longrightarrow> lasting (\<lambda>h. A h \<or> B h)"
  by (auto simp: lasting_def)

lemma lasting_ex [lasting_rules]: "(\<And>x. lasting (A x)) \<Longrightarrow> lasting (\<lambda>h. \<exists>x. A x h)"
  unfolding lasting_def by blast

lemma lasting_all [lasting_rules]: "(\<And>x. lasting (A x)) \<Longrightarrow> lasting (\<lambda>h. \<forall>x. A x h)"
  unfolding lasting_def by blast

lemma lasting_ball [lasting_rules]: "(\<And>x. x \<in> X \<Longrightarrow> lasting (A x)) \<Longrightarrow> lasting (\<lambda>h. \<forall>x\<in>X. A x h)"
  unfolding lasting_def by blast

lemma lasting_imp [lasting_rules]: "lasting A \<Longrightarrow> lasting (\<lambda>h. b \<longrightarrow> A h)"
  by (simp add: lasting_def)

lemma lasting_case_prod [lasting_rules]: "(\<And>a b. lasting (A a b)) \<Longrightarrow> lasting (\<lambda>h. case x of (a, b) \<Rightarrow> A a b h)"
  by (cases x) simp

lemma io_safe_frame:
  assumes "io_safe srv P m Q E" "io_grows m" "lasting A"
  shows "io_safe srv (\<lambda>h. P h \<and> A h) m (\<lambda>a h. Q a h \<and> A h) (\<lambda>e h. E e h \<and> A h)"
proof (rule io_safeI)
  fix h assume h: "P h \<and> A h"
  obtain x h' where run: "m srv h = (x, h')" by force
  then obtain new where "h' = new @ h" using growsD[OF assms(2)] by blast
  then have "A h'" using h lastingD[OF assms(3)] by blast
  then show "case m srv h of (Inl e, h') \<Rightarrow> E e h' \<and> A h' | (Inr a, h') \<Rightarrow> Q a h' \<and> A h'"
    using assms(1) h run by (cases x) (auto simp: io_safe_def)
qed

text \<open>A program that establishes \<open>Q\<close> from nothing, run where \<open>A\<close> holds.\<close>

lemma io_safe_keeping:
  assumes "io_safe srv (\<lambda>h. True) m Q (\<lambda>_ h. True)" "io_grows m" "lasting A"
  shows "io_safe srv A m (\<lambda>a h. Q a h \<and> A h) (\<lambda>_ h. True)"
  using io_safe_frame[OF assms] by (rule io_safe_weaken) auto

lemma io_each_establishes:
  assumes "\<And>x. x \<in> set xs \<Longrightarrow> io_safe srv (\<lambda>h. True) (f x) (\<lambda>_. A x) (\<lambda>_ h. True)"
    and "\<And>x. x \<in> set xs \<Longrightarrow> io_grows (f x)" "\<And>x. lasting (A x)"
  shows "io_safe srv (\<lambda>h. True) (io_each f xs) (\<lambda>_ h. \<forall>x\<in>set xs. A x h) (\<lambda>_ h. True)"
proof (rule io_safe_each[where I = "\<lambda>h. True" and A = A])
  fix x D assume x: "x \<in> set xs"
  have "lasting (\<lambda>h. \<forall>y\<in>D. A y h)" by (intro lasting_rules assms(3))
  from io_safe_keeping[OF assms(1)[OF x] assms(2)[OF x] this]
  show "io_safe srv (\<lambda>h. True \<and> (\<forall>y\<in>D. A y h)) (f x) (\<lambda>_ h. True \<and> A x h \<and> (\<forall>y\<in>D. A y h)) (\<lambda>_ h. True)"
    by simp
qed auto

text \<open>
  \<open>each_call ok h\<close>: every call of the history is allowed by what had been called and answered
  before it.
\<close>

primrec each_call :: "('q \<Rightarrow> ('q, 'r) history \<Rightarrow> bool) \<Rightarrow> ('q, 'r) history \<Rightarrow> bool" where
  "each_call ok [] \<longleftrightarrow> True"
| "each_call ok (c # h) \<longleftrightarrow> ok (fst c) h \<and> each_call ok h"

lemma each_call_append: "each_call ok (new @ h) \<Longrightarrow> each_call ok h"
  by (induction new) auto

lemma each_call_split: "each_call ok (later @ (q, a) # earlier) \<Longrightarrow> ok q earlier"
  by (induction later) auto

end
