(* ===== verification/Pubsub.thy ===== *)
theory Pubsub
  imports Calls Go_Http Messaging
begin

text \<open>
  \<open>internal/providers/pubsub\<close>: the provider of message isolation. It inspects the topics of a
  baseline, creates the subscriptions of a composition and deletes them, over the REST API of
  Pub/Sub and the leadership guard.

  A call is a request of the API with its escaped path, or a call of the guard or of the random
  source. The answer to a request is its error, or what decoding the response into the type asked
  for gives. The maps of delivery options the code only tests for emptiness hold opaque text.
\<close>

section \<open>The API\<close>

record subscription =
  sb_detached :: bool
  sb_transforms :: "string list"
  sb_big_table :: "string gomap"
  sb_name :: string
  sb_topic :: string
  sb_filter :: string
  sb_labels :: "string gomap"
  sb_retention :: string
  sb_expiration :: "string gomap option"
  sb_push :: "string gomap"
  sb_big_query :: "string gomap"
  sb_cloud_storage :: "string gomap"
  sb_dead_letter :: "string gomap"

record topic_metadata =
  tm_name :: string
  tm_transforms :: "string list"

record inventory_page =
  iv_subscriptions :: "string list"
  iv_next :: string

datatype ps_error =
    Api_Error int
  | Ps_Error go_error
  | Ps_Wrap string ps_error

datatype ps_call =
    Ps_Guard
  | Ps_Random
  | Ps_Get string
  | Ps_Get_Topic string
  | Ps_List string
  | Ps_Put string subscription
  | Ps_Delete string

datatype ps_answer =
    Ans_Guard "go_error option"
  | Ans_Bytes string
  | Ans_Error ps_error
  | Ans_Ok
  | Ans_Sub subscription
  | Ans_Topic topic_metadata
  | Ans_Page inventory_page

type_synonym 'a ps = "(ps_call, ps_answer, ps_error, 'a) io"
type_synonym ps_history = "(ps_call, ps_answer) history"
type_synonym ps_service = "(ps_call, ps_answer) service"

text \<open>\<open>errors.Is(err, apiError(code))\<close>, \<open>errors.AsType[apiError]\<close> and \<open>errors.AsType[*domain.Error]\<close>\<close>

fun is_status :: "int \<Rightarrow> ps_error \<Rightarrow> bool" where
  "is_status code (Api_Error n) \<longleftrightarrow> n = code"
| "is_status code (Ps_Error e) \<longleftrightarrow> False"
| "is_status code (Ps_Wrap p e) \<longleftrightarrow> is_status code e"

fun error_status :: "ps_error \<Rightarrow> int option" where
  "error_status (Api_Error n) = Some n"
| "error_status (Ps_Error e) = None"
| "error_status (Ps_Wrap p e) = error_status e"

fun error_domain :: "ps_error \<Rightarrow> domain_error option" where
  "error_domain (Api_Error n) = None"
| "error_domain (Ps_Error e) = as_domain e"
| "error_domain (Ps_Wrap p e) = error_domain e"

text \<open>\<open>url.PathEscape\<close>, and the path of a request: its segments escaped, its query kept.\<close>

definition path_escape :: "string \<Rightarrow> string" where
  "path_escape s = concat (map (\<lambda>c.
     if is_alpha c \<or> is_digit c \<or> c \<in> set ''-_.~$&+=:@'' then [c]
     else [CHR ''%'', escape_digit (of_char c div 16), escape_digit (of_char c mod 16)]) s)"

definition api_path :: "string \<Rightarrow> string" where
  "api_path path =
     join ''/'' (map path_escape (split_on CHR ''/'' (takeWhile (\<lambda>c. c \<noteq> CHR ''?'') path))) @
     dropWhile (\<lambda>c. c \<noteq> CHR ''?'') path"

record pubsub_provider =
  pp_installation :: string
  pp_has_guard :: bool

text \<open>\<open>call\<close>: every method but GET needs the guard.\<close>

definition ps_error_msg :: "string \<Rightarrow> ps_error" where
  "ps_error_msg m = Ps_Error (Plain m)"

definition ps_guarded :: "pubsub_provider \<Rightarrow> unit ps" where
  "ps_guarded p =
     (if \<not> pp_has_guard p then io_fail (ps_error_msg ''Pub/Sub mutations require a leadership guard'')
      else io_bind (io_call Ps_Guard) (\<lambda>a. case a of
             Ans_Guard None \<Rightarrow> io_return ()
           | Ans_Guard (Some e) \<Rightarrow> io_fail (Ps_Error e)
           | _ \<Rightarrow> io_fail (ps_error_msg ''no answer'')))"

definition ps_change :: "pubsub_provider \<Rightarrow> ps_call \<Rightarrow> unit ps" where
  "ps_change p q =
     io_seq (ps_guarded p) (io_bind (io_call q) (\<lambda>a. case a of
       Ans_Error e \<Rightarrow> io_fail e
     | _ \<Rightarrow> io_return ()))"

definition ps_decoded :: "(ps_answer \<Rightarrow> 'a option) \<Rightarrow> ps_call \<Rightarrow> 'a ps" where
  "ps_decoded want q =
     io_bind (io_call q) (\<lambda>a. case a of
       Ans_Error e \<Rightarrow> io_fail e
     | _ \<Rightarrow> (case want a of None \<Rightarrow> io_fail (ps_error_msg ''cannot decode'') | Some v \<Rightarrow> io_return v))"

fun answered_sub :: "ps_answer \<Rightarrow> subscription option" where
  "answered_sub (Ans_Sub s) = Some s" | "answered_sub a = None"

fun answered_topic :: "ps_answer \<Rightarrow> topic_metadata option" where
  "answered_topic (Ans_Topic t) = Some t" | "answered_topic a = None"

fun answered_page :: "ps_answer \<Rightarrow> inventory_page option" where
  "answered_page (Ans_Page p) = Some p" | "answered_page a = None"

definition get_subscription :: "string \<Rightarrow> subscription ps" where
  "get_subscription name = ps_decoded answered_sub (Ps_Get (api_path name))"

section \<open>Ownership\<close>

definition ps_label :: "string \<Rightarrow> string" where
  "ps_label value = hex_encode (take 20 (sha256 value))"

definition ps_labels :: "pubsub_provider \<Rightarrow> string \<Rightarrow> string \<Rightarrow> string gomap" where
  "ps_labels p composition token =
     [(''envy-installation'', ps_label (pp_installation p)), (''envy-composition'', ps_label composition),
      (''envy-owner'', ps_label token)]"

definition ps_owned :: "pubsub_provider \<Rightarrow> subscription \<Rightarrow> string \<Rightarrow> string \<Rightarrow> bool" where
  "ps_owned p got composition token \<longleftrightarrow>
     composition \<noteq> [] \<and> token \<noteq> [] \<and>
     list_all (\<lambda>(k, v). get_or [] (sb_labels got) k = v) (ps_labels p composition token)"

definition sub_matches :: "subscription \<Rightarrow> message_subscription \<Rightarrow> bool" where
  "sub_matches got want \<longleftrightarrow>
     \<not> sb_detached got \<and> sb_transforms got = [] \<and> sb_big_table got = [] \<and> sb_name got = ms_name want \<and>
     sb_topic got = ms_topic want \<and> sb_filter got = ms_filter want \<and> sb_retention got = ms_retention want \<and>
     sb_expiration got = Some [] \<and> sb_push got = [] \<and> sb_big_query got = [] \<and>
     sb_cloud_storage got = [] \<and> sb_dead_letter got = []"

text \<open>The regular expression of \<open>isolatedFilter\<close>, and \<open>previewFilter\<close>\<close>

definition isolated_filter :: "string \<Rightarrow> bool" where
  "isolated_filter f \<longleftrightarrow>
     (let pre = ''attributes.envy_composition = '' @ [dquote] in
      has_prefix f pre \<and> length f = length pre + 25 \<and> last f = dquote \<and>
      list_all is_lower_hex (take 24 (drop (length pre) f)))"

definition previewFilter :: "string \<Rightarrow> string \<Rightarrow> bool" where
  "previewFilter flt business =
     (if business \<noteq> [] then
        (let suffix = '') AND ('' @ business @ '')'' in
         has_prefix flt ''('' \<and> has_suffix flt suffix \<and>
         isolated_filter (trim_suffix (trim_prefix flt ''('') suffix))
      else isolated_filter flt)"

section \<open>Validate\<close>

definition validate_consumer :: "pubsub_topic \<Rightarrow> pubsub_consumer \<Rightarrow> unit ps" where
  "validate_consumer t c =
     io_bind (io_try (get_subscription (pc_subscription c))) (\<lambda>res. case res of
       Inl e \<Rightarrow> io_fail (Ps_Wrap (''inspect baseline subscription '' @ pc_subscription c @ '': '') e)
     | Inr got \<Rightarrow>
         if sb_detached got \<or> sb_transforms got \<noteq> [] \<or> sb_topic got \<noteq> pt_topic t \<or>
           sb_filter got \<noteq> MessageFilter BaselineMessageFilter (pc_filter c)
         then io_fail (Ps_Error (Validation (''baseline subscription '' @ pc_subscription c @
           '' must be attached, use the registered exclusion filter and have no message transforms'')))
         else io_return ())"

definition validateBaselineConsumers :: "pubsub_topic \<Rightarrow> unit ps" where
  "validateBaselineConsumers t = io_each (\<lambda>(k, c). validate_consumer t c) (pt_consumers t)"

text \<open>What makes a subscription of the topic harmless: the test of \<open>validateInventoriedSubscription\<close>.\<close>

definition protected :: "pubsub_provider \<Rightarrow> pubsub_topic \<Rightarrow> subscription \<Rightarrow> bool" where
  "protected p t got \<longleftrightarrow>
     list_ex (\<lambda>(k, c).
       sb_filter got = MessageFilter BaselineMessageFilter (pc_filter c) \<or>
       get_or [] (sb_labels got) ''envy-installation'' = ps_label (pp_installation p) \<and>
       get_or [] (sb_labels got) ''envy-owner'' \<noteq> [] \<and> previewFilter (sb_filter got) (pc_filter c)) (pt_consumers t)"

definition validateInventoriedSubscription :: "pubsub_provider \<Rightarrow> pubsub_topic \<Rightarrow> string \<Rightarrow> unit ps" where
  "validateInventoriedSubscription p t name =
     io_bind (get_subscription name) (\<lambda>got.
     if \<not> protected p t got \<or> sb_transforms got \<noteq> []
     then io_fail (Ps_Error (Validation (''unprotected or unsupported subscription '' @ name @ '' on '' @ pt_topic t @
       ''; migrate its filter and remove message transforms before enabling isolation'')))
     else io_return ())"

definition inventory_path :: "pubsub_topic \<Rightarrow> string \<Rightarrow> string" where
  "inventory_path t token =
     pt_topic t @ ''/subscriptions?pageSize=1000'' @
     (if token = [] then [] else ''&pageToken='' @ query_escape token)"

text \<open>The loop over the pages; \<open>Inl None\<close> is running out of fuel.\<close>

fun inventory_pages ::
  "nat \<Rightarrow> pubsub_provider \<Rightarrow> pubsub_topic \<Rightarrow> string \<Rightarrow> (ps_call, ps_answer, ps_error option, unit) io"
where
  "inventory_pages 0 p t token = io_fail None"
| "inventory_pages (Suc n) p t token =
     io_bind (io_try (ps_decoded answered_page (Ps_List (api_path (inventory_path t token))))) (\<lambda>res. case res of
       Inl e \<Rightarrow> io_fail (Some (Ps_Wrap ''inventory topic subscriptions: '' e))
     | Inr page \<Rightarrow>
         io_bind (io_try (io_each (validateInventoriedSubscription p t) (iv_subscriptions page))) (\<lambda>checked. case checked of
           Inl e \<Rightarrow> io_fail (Some e)
         | Inr u \<Rightarrow> if iv_next page = [] then io_return () else inventory_pages n p t (iv_next page)))"

definition validateTopicInventory ::
  "nat \<Rightarrow> pubsub_provider \<Rightarrow> pubsub_topic \<Rightarrow> (ps_call, ps_answer, ps_error option, unit) io"
where
  "validateTopicInventory n p t = inventory_pages n p t []"

definition lift_error :: "'a ps \<Rightarrow> (ps_call, ps_answer, ps_error option, 'a) io" where
  "lift_error m =
     io_bind (io_try m) (\<lambda>res. case res of Inl e \<Rightarrow> io_fail (Some e) | Inr a \<Rightarrow> io_return a)"

definition check_topic :: "pubsub_topic \<Rightarrow> unit ps" where
  "check_topic t =
     io_bind (io_try (ps_decoded answered_topic (Ps_Get_Topic (api_path (pt_topic t))))) (\<lambda>res. case res of
       Inl e \<Rightarrow> io_fail (Ps_Wrap (''inspect topic '' @ pt_topic t @ '': '') e)
     | Inr m \<Rightarrow>
         if tm_transforms m \<noteq> []
         then io_fail (Ps_Error (Validation (''Pub/Sub topic message transforms are not supported for isolation: '' @ pt_topic t)))
         else validateBaselineConsumers t)"

definition validate_topic :: "nat \<Rightarrow> pubsub_provider \<Rightarrow> pubsub_topic \<Rightarrow> (ps_call, ps_answer, ps_error option, unit) io" where
  "validate_topic n p t = io_seq (lift_error (check_topic t)) (validateTopicInventory n p t)"

fun ps_go_error :: "ps_error \<Rightarrow> go_error" where
  "ps_go_error (Api_Error n) = Plain (''Pub/Sub API returned HTTP '' @ show_int n)"
| "ps_go_error (Ps_Error e) = e"
| "ps_go_error (Ps_Wrap s e) = Wrapped s (ps_go_error e)"

text \<open>The error \<open>Validate\<close> answers with.\<close>

definition inspection_error :: "ps_error \<Rightarrow> go_error" where
  "inspection_error e =
     (case error_domain e of
        Some d \<Rightarrow> ps_go_error e
      | None \<Rightarrow> Domain_Error ((domain_err ''unavailable''
          (''cannot inspect Pub/Sub resources; check controller credentials, resource existence and topic/subscription permissions'' @
           (case error_status e of None \<Rightarrow> [] | Some n \<Rightarrow> '' (HTTP '' @ show_int n @ '')'')))\<lparr>e_retryable := True\<rparr>))"

definition Validate_Pubsub :: "nat \<Rightarrow> pubsub_provider \<Rightarrow> baseline \<Rightarrow> (ps_call, ps_answer, go_error option, unit) io" where
  "Validate_Pubsub n p b =
     io_bind (io_try (case ValidateMessaging b of
         Some e \<Rightarrow> io_fail (Some (Ps_Error e))
       | None \<Rightarrow> io_each (\<lambda>(k, t). validate_topic n p t) (b_pubsub b))) (\<lambda>res. case res of
       Inl None \<Rightarrow> io_fail None
     | Inl (Some e) \<Rightarrow> io_fail (Some (inspection_error e))
     | Inr u \<Rightarrow> io_return ())"

section \<open>Ensure\<close>

definition wanted_subscription :: "pubsub_provider \<Rightarrow> string \<Rightarrow> string \<Rightarrow> message_subscription \<Rightarrow> string \<Rightarrow> subscription" where
  "wanted_subscription p composition token want inst =
     \<lparr>sb_detached = False, sb_transforms = [], sb_big_table = [], sb_name = ms_name want, sb_topic = ms_topic want,
      sb_filter = ms_filter want, sb_labels = ps_labels p composition token @ [(''envy-instance'', inst)],
      sb_retention = ms_retention want, sb_expiration = Some [], sb_push = [], sb_big_query = [],
      sb_cloud_storage = [], sb_dead_letter = []\<rparr>"

definition createSubscription :: "pubsub_provider \<Rightarrow> string \<Rightarrow> string \<Rightarrow> message_subscription \<Rightarrow> subscription ps" where
  "createSubscription p composition token want =
     io_bind (io_call Ps_Random) (\<lambda>a. case a of
       Ans_Bytes bs \<Rightarrow>
         io_bind (io_try (ps_change p (Ps_Put (api_path (ms_name want))
             (wanted_subscription p composition token want (hex_encode bs))))) (\<lambda>res. case res of
           Inl e \<Rightarrow> if is_status 409 e then get_subscription (ms_name want) else io_fail e
         | Inr u \<Rightarrow> get_subscription (ms_name want))
     | _ \<Rightarrow> io_fail (ps_error_msg ''generate subscription instance''))"

text \<open>
  The tests of \<open>ensureSubscription\<close> on the subscription it found; \<open>gone\<close> tells that it had
  disappeared. The values the code returns along with an error are dropped by its caller.
\<close>

definition accept_subscription ::
  "pubsub_provider \<Rightarrow> string \<Rightarrow> string \<Rightarrow> message_subscription \<Rightarrow> bool \<Rightarrow> subscription \<Rightarrow> message_subscription ps"
where
  "accept_subscription p composition token want gone got =
     (let inst = get_or [] (sb_labels got) ''envy-instance'' in
      if \<not> ps_owned p got composition token
      then io_fail (ps_error_msg (''subscription ownership conflict: '' @ ms_name want))
      else if inst = [] then io_fail (ps_error_msg (''subscription has no Envy instance identity: '' @ ms_name want))
      else if \<not> sub_matches got want
      then io_fail (ps_error_msg (''subscription configuration drift: '' @ ms_name want @ '' (no baseline fallback)''))
      else io_return (want\<lparr>ms_instance := inst, ms_ready := True,
        ms_backlog_may_be_lost := ms_backlog_may_be_lost want \<or> gone \<and> ms_ready want \<or>
          ms_instance want \<noteq> [] \<and> ms_instance want \<noteq> inst\<rparr>))"

definition ensureSubscription :: "pubsub_provider \<Rightarrow> string \<Rightarrow> string \<Rightarrow> message_subscription \<Rightarrow> message_subscription ps" where
  "ensureSubscription p composition token want =
     io_bind (io_try (get_subscription (ms_name want))) (\<lambda>res. case res of
       Inl e \<Rightarrow>
         if is_status 404 e
         then io_bind (createSubscription p composition token want) (accept_subscription p composition token want True)
         else io_fail e
     | Inr got \<Rightarrow> accept_subscription p composition token want False got)"

text \<open>The loop of \<open>Ensure\<close>: what is not ensured yet stays as it was asked for.\<close>

fun ensure_all ::
  "pubsub_provider \<Rightarrow> string \<Rightarrow> string \<Rightarrow> message_subscription list \<Rightarrow> (message_subscription list \<times> ps_error option) ps"
where
  "ensure_all p composition token [] = io_return ([], None)"
| "ensure_all p composition token (want # rest) =
     io_bind (io_try (ensureSubscription p composition token want)) (\<lambda>res. case res of
       Inl e \<Rightarrow> io_return (want # rest, Some e)
     | Inr ensured \<Rightarrow> io_bind (ensure_all p composition token rest) (\<lambda>(out, e). io_return (ensured # out, e)))"

definition Ensure_Subscriptions ::
  "pubsub_provider \<Rightarrow> string \<Rightarrow> string \<Rightarrow> message_subscription list \<Rightarrow> (message_subscription list \<times> ps_error option) ps"
where
  "Ensure_Subscriptions p composition token subs =
     (if composition = [] \<or> token = [] then io_return ([], Some (ps_error_msg ''Pub/Sub requires composition ownership''))
      else ensure_all p composition token subs)"

section \<open>Delete\<close>

fun Delete_Subscriptions :: "pubsub_provider \<Rightarrow> string \<Rightarrow> string \<Rightarrow> message_subscription list \<Rightarrow> bool ps" where
  "Delete_Subscriptions p composition token [] = io_return True"
| "Delete_Subscriptions p composition token (want # rest) =
     io_bind (io_try (get_subscription (ms_name want))) (\<lambda>res. case res of
       Inl e \<Rightarrow> if is_status 404 e then Delete_Subscriptions p composition token rest else io_fail e
     | Inr got \<Rightarrow>
         if \<not> ps_owned p got composition token
         then io_fail (ps_error_msg (''subscription ownership conflict: '' @ ms_name want))
         else io_bind (io_try (ps_change p (Ps_Delete (api_path (ms_name want))))) (\<lambda>deleted.
           if (case deleted of Inl e \<Rightarrow> \<not> is_status 404 e | Inr u \<Rightarrow> False)
           then (case deleted of Inl e \<Rightarrow> io_fail e | Inr u \<Rightarrow> io_return False)
           else io_bind (io_try (get_subscription (ms_name want))) (\<lambda>res. case res of
             Inr got \<Rightarrow> io_return False
           | Inl e \<Rightarrow> if is_status 404 e then Delete_Subscriptions p composition token rest else io_fail e)))"

end
