(* ===== verification/Pubsub_Props.thy ===== *)
theory Pubsub_Props
  imports Pubsub
begin

text \<open>
  What the Pub/Sub provider guarantees, for every service: which subscriptions it deletes and
  creates, what a subscription it reports as ready or gone is, and what makes a topic safe.
\<close>

section \<open>Calls\<close>

lemma io_safe_decoded:
  "io_safe srv P (ps_decoded want q)
     (\<lambda>v h. \<exists>h0 a. P h0 \<and> h = (q, a) # h0 \<and> want a = Some v)
     (\<lambda>e h. \<exists>h0 a. P h0 \<and> h = (q, a) # h0 \<and> (\<forall>n. is_status n e \<longrightarrow> a = Ans_Error e))"
  unfolding ps_decoded_def
  by (auto simp: io_safe_def io_bind_def io_call_def io_fail_def io_return_def ps_error_msg_def
      split: ps_answer.splits option.splits)

lemma answered_sub_Some [simp]: "answered_sub a = Some s \<longleftrightarrow> a = Ans_Sub s"
  by (cases a) auto

lemma answered_page_Some [simp]: "answered_page a = Some s \<longleftrightarrow> a = Ans_Page s"
  by (cases a) auto

lemma io_safe_get:
  "io_safe srv P (get_subscription name)
     (\<lambda>got h. \<exists>h0. P h0 \<and> h = (Ps_Get (api_path name), Ans_Sub got) # h0)
     (\<lambda>e h. \<exists>h0 a. P h0 \<and> h = (Ps_Get (api_path name), a) # h0 \<and> (\<forall>n. is_status n e \<longrightarrow> a = Ans_Error e))"
  unfolding get_subscription_def by (rule io_safe_weaken[OF io_safe_decoded]) auto

lemma io_safe_change:
  "io_safe srv P (ps_change p q)
     (\<lambda>u h. \<exists>h0 a. P h0 \<and> h = (q, a) # (Ps_Guard, Ans_Guard None) # h0)
     (\<lambda>e h. (\<exists>h0 a. P h0 \<and> h = (q, a) # (Ps_Guard, Ans_Guard None) # h0) \<or>
        (\<forall>n. \<not> is_status n e) \<and> (P h \<or> (\<exists>h0 g. P h0 \<and> h = (Ps_Guard, g) # h0)))"
  unfolding ps_change_def ps_guarded_def
  by (auto simp: io_safe_def io_bind_def io_seq_def io_call_def io_fail_def io_return_def ps_error_msg_def
      split: ps_answer.splits option.splits)

definition answered_gone :: "ps_history \<Rightarrow> string \<Rightarrow> bool" where
  "answered_gone h name \<longleftrightarrow> (\<exists>e. is_status 404 e \<and> (Ps_Get (api_path name), Ans_Error e) \<in> set h)"

lemma answered_gone_Cons: "answered_gone h name \<Longrightarrow> answered_gone (c # h) name"
  by (auto simp: answered_gone_def)

lemma answered_gone_now [intro]: "is_status 404 e \<Longrightarrow> answered_gone ((Ps_Get (api_path name), Ans_Error e) # h) name"
  by (auto simp: answered_gone_def)

section \<open>Delete\<close>

definition delete_allowed ::
  "pubsub_provider \<Rightarrow> string \<Rightarrow> string \<Rightarrow> message_subscription list \<Rightarrow> ps_call \<Rightarrow> ps_history \<Rightarrow> bool"
where
  "delete_allowed p composition token subs q h =
     (case q of
        Ps_Delete path \<Rightarrow>
          path \<in> (\<lambda>w. api_path (ms_name w)) ` set subs \<and>
          (\<exists>got rest. h = (Ps_Guard, Ans_Guard None) # (Ps_Get path, Ans_Sub got) # rest \<and>
             ps_owned p got composition token)
      | Ps_Put path s \<Rightarrow> False
      | _ \<Rightarrow> True)"

lemma delete_allowed_read [simp]:
  "delete_allowed p composition token subs (Ps_Get path) h" "delete_allowed p composition token subs Ps_Guard h"
  by (simp_all add: delete_allowed_def)

lemma delete_allowed_delete [simp]:
  "delete_allowed p composition token subs (Ps_Delete path) ((Ps_Guard, Ans_Guard None) # (Ps_Get path, Ans_Sub got) # h) \<longleftrightarrow>
     path \<in> (\<lambda>w. api_path (ms_name w)) ` set subs \<and> ps_owned p got composition token"
  by (simp add: delete_allowed_def)

lemma delete_safe:
  assumes "set rest \<subseteq> set subs"
  shows "io_safe srv (\<lambda>h. each_call (delete_allowed p composition token subs) h \<and> (\<forall>w\<in>D. answered_gone h (ms_name w)))
     (Delete_Subscriptions p composition token rest)
     (\<lambda>ok h. each_call (delete_allowed p composition token subs) h \<and>
        (ok \<longrightarrow> (\<forall>w\<in>D \<union> set rest. answered_gone h (ms_name w))))
     (\<lambda>e h. each_call (delete_allowed p composition token subs) h)"
  using assms
proof (induction rest arbitrary: D)
  case Nil
  then show ?case by (simp add: io_safe_return)
next
  case (Cons want rest)
  let ?ok = "delete_allowed p composition token subs"
  let ?Q = "\<lambda>ok h. each_call ?ok h \<and> (ok \<longrightarrow> (\<forall>w\<in>D \<union> set (want # rest). answered_gone h (ms_name w)))"
  let ?E = "\<lambda>e h. each_call ?ok h"
  have path: "api_path (ms_name want) \<in> (\<lambda>w. api_path (ms_name w)) ` set subs" using Cons.prems by auto
  have rest: "io_safe srv P (Delete_Subscriptions p composition token rest) ?Q ?E"
    if "\<And>h. P h \<Longrightarrow> each_call ?ok h \<and> (\<forall>w\<in>insert want D. answered_gone h (ms_name w))" for P
    using Cons.IH[of "insert want D"] Cons.prems that by (auto elim!: io_safe_weaken)
  show ?case
    unfolding Delete_Subscriptions.simps
  proof (rule io_safe_bind_try[OF io_safe_get], goal_cases)
    case (1 got)
    have deleted: "io_safe srv (\<lambda>h. each_call ?ok h \<and> (\<forall>w\<in>D. answered_gone h (ms_name w)))
        (io_bind (io_try (get_subscription (ms_name want))) (\<lambda>res. case res of
             Inr got \<Rightarrow> io_return False
           | Inl e \<Rightarrow> if is_status 404 e then Delete_Subscriptions p composition token rest else io_fail e)) ?Q ?E"
    proof (rule io_safe_bind_try[OF io_safe_get], goal_cases)
      case (1 got)
      show ?case by (auto intro!: io_safe_return)
    next
      case (2 e)
      show ?case
        unfolding sum.case
        by (rule io_safe_if, rule rest) (auto intro!: io_safe_fail intro: answered_gone_Cons)
    qed
    show ?case
    proof (simp, intro conjI impI, goal_cases)
      case 1
      then show ?case by (auto intro!: io_safe_fail)
    next
      case 2
      show ?case
      proof (rule io_safe_bind_try[OF io_safe_change], goal_cases)
        case (1 u)
        show ?case
          using 2 path by (auto intro!: io_safe_weaken[OF deleted] answered_gone_Cons)
      next
        case (2 e)
        then show ?case
          using \<open>ps_owned p got composition token\<close> path
          by (auto intro!: io_safe_if io_safe_weaken[OF deleted] answered_gone_Cons io_safe_fail)
      qed
    qed
  next
    case (2 e)
    show ?case
      unfolding sum.case
      by (rule io_safe_if, rule rest) (auto intro!: io_safe_fail intro: answered_gone_Cons)
  qed
qed

section \<open>Ensure\<close>

definition ensure_allowed ::
  "pubsub_provider \<Rightarrow> string \<Rightarrow> string \<Rightarrow> message_subscription list \<Rightarrow> ps_call \<Rightarrow> ps_history \<Rightarrow> bool"
where
  "ensure_allowed p composition token subs q h =
     (case q of
        Ps_Put path s \<Rightarrow>
          (\<exists>want bs e rest. want \<in> set subs \<and> path = api_path (ms_name want) \<and>
             s = wanted_subscription p composition token want (hex_encode bs) \<and> is_status 404 e \<and>
             h = (Ps_Guard, Ans_Guard None) # (Ps_Random, Ans_Bytes bs) # (Ps_Get path, Ans_Error e) # rest)
      | Ps_Delete path \<Rightarrow> False
      | _ \<Rightarrow> True)"

lemma ensure_allowed_read [simp]:
  "ensure_allowed p composition token subs (Ps_Get path) h" "ensure_allowed p composition token subs Ps_Guard h"
  "ensure_allowed p composition token subs Ps_Random h"
  by (simp_all add: ensure_allowed_def)

lemma ensure_allowed_put [simp]:
  "want \<in> set subs \<Longrightarrow> is_status 404 e \<Longrightarrow>
     ensure_allowed p composition token subs
       (Ps_Put (api_path (ms_name want)) (wanted_subscription p composition token want (hex_encode bs)))
       ((Ps_Guard, Ans_Guard None) # (Ps_Random, Ans_Bytes bs) # (Ps_Get (api_path (ms_name want)), Ans_Error e) # h)"
  unfolding ensure_allowed_def ps_call.case by blast

definition recreated :: "ps_history \<Rightarrow> string \<Rightarrow> bool" where
  "recreated h name \<longleftrightarrow> (\<exists>path s a. (Ps_Put path s, a) \<in> set h \<and> sb_name s = name)"

lemma recreated_simps [simp]:
  "\<not> recreated [] name"
  "recreated ((Ps_Put path s, a) # h) name \<longleftrightarrow> sb_name s = name \<or> recreated h name"
  "recreated ((Ps_Get q, a) # h) name \<longleftrightarrow> recreated h name"
  "recreated ((Ps_Guard, a) # h) name \<longleftrightarrow> recreated h name"
  "recreated ((Ps_Random, a) # h) name \<longleftrightarrow> recreated h name"
  by (auto simp: recreated_def)

lemma recreated_Cons:
  "recreated ((q, a) # h) name \<longleftrightarrow> (\<exists>path s. q = Ps_Put path s \<and> sb_name s = name) \<or> recreated h name"
  by (simp add: recreated_def) blast

text \<open>What a subscription that was ensured is; \<open>gone\<close> tells that it was answered as absent first.\<close>

definition usable ::
  "pubsub_provider \<Rightarrow> string \<Rightarrow> string \<Rightarrow> ps_history \<Rightarrow> message_subscription \<Rightarrow> message_subscription \<Rightarrow> bool"
where
  "usable p composition token h want got \<longleftrightarrow>
     (\<exists>s gone inst.
        (Ps_Get (api_path (ms_name want)), Ans_Sub s) \<in> set h \<and> ps_owned p s composition token \<and>
        sub_matches s want \<and> inst = get_or [] (sb_labels s) ''envy-instance'' \<and> inst \<noteq> [] \<and>
        got = want\<lparr>ms_instance := inst, ms_ready := True,
          ms_backlog_may_be_lost := ms_backlog_may_be_lost want \<or> gone \<and> ms_ready want \<or>
            ms_instance want \<noteq> [] \<and> ms_instance want \<noteq> inst\<rparr> \<and>
        (gone \<longrightarrow> answered_gone h (ms_name want)) \<and> (recreated h (ms_name want) \<longrightarrow> gone))"

text \<open>What survives calls that create none but the subscriptions \<open>names\<close>.\<close>

definition stable_for :: "string set \<Rightarrow> (ps_history \<Rightarrow> bool) \<Rightarrow> bool" where
  "stable_for names Z \<longleftrightarrow>
     (\<forall>h q a. Z h \<longrightarrow> (\<forall>path s. q = Ps_Put path s \<longrightarrow> sb_name s \<in> names) \<longrightarrow> Z ((q, a) # h))"

lemma stable_simps:
  assumes "stable_for names Z" "Z h"
  shows "Z ((Ps_Get path, a) # h)" "Z ((Ps_Guard, a) # h)" "Z ((Ps_Random, a) # h)"
    "sb_name s \<in> names \<Longrightarrow> Z ((Ps_Put path s, a) # h)"
  using assms unfolding stable_for_def by blast+

lemma usable_Cons:
  assumes "usable p composition token h want got" "recreated (c # h) (ms_name want) \<longrightarrow> recreated h (ms_name want)"
  shows "usable p composition token (c # h) want got"
proof -
  obtain s gone where "(Ps_Get (api_path (ms_name want)), Ans_Sub s) \<in> set h" "ps_owned p s composition token"
    "sub_matches s want" "get_or [] (sb_labels s) ''envy-instance'' \<noteq> []"
    "got = want\<lparr>ms_instance := get_or [] (sb_labels s) ''envy-instance'', ms_ready := True,
        ms_backlog_may_be_lost := ms_backlog_may_be_lost want \<or> gone \<and> ms_ready want \<or>
          ms_instance want \<noteq> [] \<and> ms_instance want \<noteq> get_or [] (sb_labels s) ''envy-instance''\<rparr>"
    "gone \<longrightarrow> answered_gone h (ms_name want)" "recreated h (ms_name want) \<longrightarrow> gone"
    using assms(1) unfolding usable_def by blast
  then show ?thesis
    unfolding usable_def using assms(2)
    by (intro exI[of _ s] exI[of _ gone] exI[of _ "get_or [] (sb_labels s) ''envy-instance''"])
      (simp add: answered_gone_Cons)
qed

lemma stable_usable: "ms_name want \<notin> names \<Longrightarrow> stable_for names (\<lambda>h. usable p composition token h want got)"
  unfolding stable_for_def by (auto intro!: usable_Cons simp: recreated_Cons)

lemma desired_name [simp]: "sb_name (wanted_subscription p composition token want inst) = ms_name want"
  by (simp add: wanted_subscription_def)

lemma accept_safe:
  assumes "\<And>h. P h \<Longrightarrow> (\<exists>h0. h = (Ps_Get (api_path (ms_name want)), Ans_Sub s) # h0) \<and> R h \<and>
      (gone \<longrightarrow> answered_gone h (ms_name want)) \<and> (recreated h (ms_name want) \<longrightarrow> gone)"
  shows "io_safe srv P (accept_subscription p composition token want gone s)
     (\<lambda>got h. R h \<and> usable p composition token h want got) (\<lambda>e h. R h)"
  unfolding accept_subscription_def Let_def
  by (intro io_safe_if io_safe_fail io_safe_return) (auto simp: usable_def dest!: assms)

lemma create_safe:
  assumes "want \<in> set subs" "stable_for (insert (ms_name want) names) Z"
    and P: "\<And>h. P h \<Longrightarrow> (\<exists>e h0. h = (Ps_Get (api_path (ms_name want)), Ans_Error e) # h0 \<and> is_status 404 e) \<and>
      each_call (ensure_allowed p composition token subs) h \<and> Z h"
  shows "io_safe srv P (createSubscription p composition token want)
     (\<lambda>got h. (\<exists>h0. h = (Ps_Get (api_path (ms_name want)), Ans_Sub got) # h0) \<and>
        each_call (ensure_allowed p composition token subs) h \<and> Z h \<and> answered_gone h (ms_name want))
     (\<lambda>e h. each_call (ensure_allowed p composition token subs) h \<and> Z h)"
proof -
  let ?ok = "each_call (ensure_allowed p composition token subs)"
  let ?R = "\<lambda>h. ?ok h \<and> Z h \<and> answered_gone h (ms_name want)"
  have stable: "Z h \<Longrightarrow> Z ((Ps_Get q, a) # h)" "Z h \<Longrightarrow> Z ((Ps_Guard, a) # h)" "Z h \<Longrightarrow> Z ((Ps_Random, a) # h)"
    "Z h \<Longrightarrow> sb_name s = ms_name want \<Longrightarrow> Z ((Ps_Put path s, a) # h)" for q a h s path
    using stable_simps[OF assms(2)] by auto
  have again: "io_safe srv ?R (get_subscription (ms_name want))
     (\<lambda>got h. (\<exists>h0. h = (Ps_Get (api_path (ms_name want)), Ans_Sub got) # h0) \<and> ?R h) (\<lambda>e h. ?ok h \<and> Z h)"
    by (rule io_safe_weaken[OF io_safe_get[where P = ?R]]) (auto intro: stable answered_gone_Cons)
  show ?thesis
    unfolding createSubscription_def
  proof (rule io_safe_bind[where Q = "\<lambda>a h. \<exists>h0 e. h = (Ps_Random, a) # (Ps_Get (api_path (ms_name want)), Ans_Error e) # h0 \<and>
        is_status 404 e \<and> ?R h"], goal_cases)
    case 1
    show ?case by (rule io_safe_call) (fastforce dest!: P intro: stable answered_gone_Cons)
  next
    case (2 a)
    show ?case
    proof (cases a)
      case (Ans_Bytes bs)
      show ?thesis
        unfolding Ans_Bytes ps_answer.case
        by (rule io_safe_bind_try[OF io_safe_change])
          (auto simp: assms(1) intro!: io_safe_if io_safe_weaken[OF again] io_safe_fail intro: stable answered_gone_Cons)
    qed (auto intro!: io_safe_fail)
  qed
qed

lemma ensure_safe:
  assumes "want \<in> set subs" "stable_for {ms_name want} Z"
  shows "io_safe srv (\<lambda>h. each_call (ensure_allowed p composition token subs) h \<and> Z h \<and> \<not> recreated h (ms_name want))
     (ensureSubscription p composition token want)
     (\<lambda>got h. (each_call (ensure_allowed p composition token subs) h \<and> Z h) \<and> usable p composition token h want got)
     (\<lambda>e h. each_call (ensure_allowed p composition token subs) h \<and> Z h)"
  unfolding ensureSubscription_def
proof (rule io_safe_bind_try[OF io_safe_get], goal_cases)
  case (1 got)
  show ?case
    unfolding sum.case by (rule accept_safe) (auto intro: stable_simps[OF assms(2)])
next
  case (2 e)
  show ?case
    unfolding sum.case
  proof (intro io_safe_if, goal_cases)
    case 1
    show ?case
    proof (rule io_safe_bind[OF create_safe[where Z = Z and subs = subs]], goal_cases)
      case (3 h)
      then show ?case using 1 by (auto intro: stable_simps[OF assms(2)])
    next
      case (4 got)
      show ?case by (rule accept_safe) auto
    qed (use assms in auto)
  next
    case 2
    show ?case by (auto intro!: io_safe_fail intro: stable_simps[OF assms(2)])
  qed
qed

lemma stable_subset: "stable_for names Z \<Longrightarrow> ns \<subseteq> names \<Longrightarrow> stable_for ns Z"
  unfolding stable_for_def by blast

lemma stable_conj: "stable_for names Y \<Longrightarrow> stable_for names Z \<Longrightarrow> stable_for names (\<lambda>h. Y h \<and> Z h)"
  unfolding stable_for_def by blast

lemma stable_fresh: "names \<inter> ms_name ` W = {} \<Longrightarrow> stable_for names (\<lambda>h. \<forall>w\<in>W. \<not> recreated h (ms_name w))"
  unfolding stable_for_def by (auto simp: recreated_Cons)

lemma ensure_all_safe:
  assumes "distinct (map ms_name rest)" "set rest \<subseteq> set subs" "stable_for (ms_name ` set rest) Z"
  shows "io_safe srv
     (\<lambda>h. each_call (ensure_allowed p composition token subs) h \<and> Z h \<and> (\<forall>w\<in>set rest. \<not> recreated h (ms_name w)))
     (ensure_all p composition token rest)
     (\<lambda>(out, e) h. each_call (ensure_allowed p composition token subs) h \<and> Z h \<and>
        (e = None \<longrightarrow> list_all2 (usable p composition token h) rest out))
     (\<lambda>e h. False)"
  using assms
proof (induction rest arbitrary: Z)
  case Nil
  then show ?case by (simp add: io_safe_return)
next
  case (Cons want rest)
  let ?fresh = "\<lambda>h. \<forall>w\<in>set rest. \<not> recreated h (ms_name w)"
  have one: "stable_for {ms_name want} (\<lambda>h. Z h \<and> ?fresh h)"
    using Cons.prems stable_fresh[of "{ms_name want}" "set rest"] by (auto intro!: stable_conj elim: stable_subset)
  have step: "io_safe srv
      (\<lambda>h. each_call (ensure_allowed p composition token subs) h \<and> Z h \<and> (\<forall>w\<in>set (want # rest). \<not> recreated h (ms_name w)))
      (ensureSubscription p composition token want)
      (\<lambda>got h. (each_call (ensure_allowed p composition token subs) h \<and> Z h \<and> ?fresh h) \<and> usable p composition token h want got)
      (\<lambda>e h. each_call (ensure_allowed p composition token subs) h \<and> Z h)"
    by (rule io_safe_weaken[OF ensure_safe[OF _ one]]) (use Cons.prems in auto)
  show ?case
    unfolding ensure_all.simps
  proof (rule io_safe_bind_try[OF step], goal_cases)
    case (1 got)
    have "stable_for (ms_name ` set rest) (\<lambda>h. Z h \<and> usable p composition token h want got)"
      using Cons.prems by (auto intro!: stable_conj stable_usable elim: stable_subset)
    from Cons.IH[OF _ _ this] show ?case
      unfolding sum.case using Cons.prems(1,2)
      by (auto intro!: io_safe_bind[where Q = "\<lambda>(out, e) h. each_call (ensure_allowed p composition token subs) h \<and>
            (Z h \<and> usable p composition token h want got) \<and> (e = None \<longrightarrow> list_all2 (usable p composition token h) rest out)"]
          io_safe_return elim!: io_safe_weaken split: prod.splits)
  next
    case (2 e)
    show ?case unfolding sum.case by (rule io_safe_return) auto
  qed
qed

section \<open>Validate\<close>

definition checked_consumer :: "pubsub_topic \<Rightarrow> pubsub_consumer \<Rightarrow> ps_history \<Rightarrow> bool" where
  "checked_consumer t c h \<longleftrightarrow>
     (\<exists>got. (Ps_Get (api_path (pc_subscription c)), Ans_Sub got) \<in> set h \<and> \<not> sb_detached got \<and>
        sb_transforms got = [] \<and> sb_topic got = pt_topic t \<and>
        sb_filter got = MessageFilter BaselineMessageFilter (pc_filter c))"

definition checked_subscription :: "pubsub_provider \<Rightarrow> pubsub_topic \<Rightarrow> string \<Rightarrow> ps_history \<Rightarrow> bool" where
  "checked_subscription p t name h \<longleftrightarrow>
     (\<exists>got. (Ps_Get (api_path name), Ans_Sub got) \<in> set h \<and> protected p t got \<and> sb_transforms got = [])"

text \<open>The pages from a token to the last one were read, and every subscription they list was checked.\<close>

inductive inventoried :: "pubsub_provider \<Rightarrow> pubsub_topic \<Rightarrow> ps_history \<Rightarrow> string \<Rightarrow> bool" for p t h where
  last_page: "(Ps_List (api_path (inventory_path t token)), Ans_Page page) \<in> set h \<Longrightarrow>
    \<forall>name\<in>set (iv_subscriptions page). checked_subscription p t name h \<Longrightarrow> iv_next page = [] \<Longrightarrow>
    inventoried p t h token"
| more_pages: "(Ps_List (api_path (inventory_path t token)), Ans_Page page) \<in> set h \<Longrightarrow>
    \<forall>name\<in>set (iv_subscriptions page). checked_subscription p t name h \<Longrightarrow> inventoried p t h (iv_next page) \<Longrightarrow>
    inventoried p t h token"

lemma lasting_checked [lasting_rules]:
  "lasting (checked_consumer t c)" "lasting (checked_subscription p t name)"
  unfolding checked_consumer_def checked_subscription_def by (intro lasting_rules)+

lemmas checked_append = lasting_checked[THEN lastingD]

lemma inventoried_append: "inventoried p t h token \<Longrightarrow> inventoried p t (new @ h) token"
proof (induction rule: inventoried.induct)
  case (last_page token page)
  then show ?case by (intro inventoried.last_page[of t token page]) (auto intro: checked_append)
next
  case (more_pages token page)
  then show ?case by (intro inventoried.more_pages[of t token page]) (auto intro: checked_append)
qed

lemma lasting_inventoried [lasting_rules]: "lasting (\<lambda>h. inventoried p t h token)"
  by (simp add: lasting_def inventoried_append)

lemma grows_decoded [grows_rules]: "io_grows (ps_decoded want q)"
  unfolding ps_decoded_def by (rule grows_bind) (auto intro: grows_rules split: ps_answer.splits option.splits)

lemma grows_get [grows_rules]: "io_grows (get_subscription name)"
  by (simp add: get_subscription_def grows_decoded)

lemma grows_validation [grows_rules]:
  "io_grows (validate_consumer t c)" "io_grows (validateInventoriedSubscription p t name)" "io_grows (validateBaselineConsumers t)"
  "io_grows (check_topic t)"
  unfolding validate_consumer_def validateInventoriedSubscription_def validateBaselineConsumers_def check_topic_def
  by (intro grows_rules)+

lemma grows_inventory [grows_rules]: "io_grows (inventory_pages n p t token)"
  by (induction n arbitrary: token) (auto intro!: grows_rules)

lemma grows_lift [grows_rules]: "io_grows m \<Longrightarrow> io_grows (lift_error m)"
  unfolding lift_error_def by (intro grows_rules)

lemma consumer_safe: "io_safe srv (\<lambda>h. True) (validate_consumer t c) (\<lambda>_. checked_consumer t c) (\<lambda>_ h. True)"
  unfolding validate_consumer_def
  by (rule io_safe_bind_try[OF io_safe_get])
    (auto simp: checked_consumer_def intro!: io_safe_if io_safe_fail io_safe_return)

lemma inventoried_safe:
  "io_safe srv (\<lambda>h. True) (validateInventoriedSubscription p t name) (\<lambda>_. checked_subscription p t name) (\<lambda>_ h. True)"
  unfolding validateInventoriedSubscription_def
  by (rule io_safe_bind[where Q = "\<lambda>got h. (Ps_Get (api_path name), Ans_Sub got) \<in> set h"], rule io_safe_weaken[OF io_safe_get])
    (auto simp: checked_subscription_def intro!: io_safe_if io_safe_fail io_safe_return)

lemma names_safe:
  "io_safe srv (\<lambda>h. True) (io_each (validateInventoriedSubscription p t) names)
     (\<lambda>_ h. \<forall>name\<in>set names. checked_subscription p t name h) (\<lambda>_ h. True)"
  by (rule io_each_establishes) (auto intro: inventoried_safe grows_rules lasting_rules)

lemma pages_safe:
  "io_safe srv (\<lambda>h. True) (inventory_pages n p t token) (\<lambda>_ h. inventoried p t h token) (\<lambda>_ h. True)"
proof (induction n arbitrary: token)
  case 0
  then show ?case by (simp add: io_safe_fail)
next
  case (Suc n)
  let ?read = "\<lambda>page h. (Ps_List (api_path (inventory_path t token)), Ans_Page page) \<in> set h"
  show ?case
    unfolding inventory_pages.simps
  proof (rule io_safe_bind_try[OF io_safe_decoded], goal_cases)
    case (1 page)
    have names: "io_safe srv (?read page) (io_each (validateInventoriedSubscription p t) (iv_subscriptions page))
        (\<lambda>_ h. (\<forall>name\<in>set (iv_subscriptions page). checked_subscription p t name h) \<and> ?read page h) (\<lambda>_ h. True)"
      by (rule io_safe_keeping[OF names_safe]) (intro grows_rules lasting_rules)+
    have "io_safe srv (\<lambda>h. (\<forall>name\<in>set (iv_subscriptions page). checked_subscription p t name h) \<and> ?read page h)
        (inventory_pages n p t (iv_next page)) (\<lambda>_ h. inventoried p t h (iv_next page) \<and>
          (\<forall>name\<in>set (iv_subscriptions page). checked_subscription p t name h) \<and> ?read page h) (\<lambda>_ h. True)"
      by (rule io_safe_keeping[OF Suc.IH]) (intro grows_rules lasting_rules)+
    then have later: "io_safe srv (\<lambda>h. (\<forall>name\<in>set (iv_subscriptions page). checked_subscription p t name h) \<and> ?read page h)
        (inventory_pages n p t (iv_next page)) (\<lambda>_ h. inventoried p t h token) (\<lambda>_ h. True)"
      by (rule io_safe_weaken) (auto intro: more_pages)
    have "io_safe srv (?read page)
        (io_bind (io_try (io_each (validateInventoriedSubscription p t) (iv_subscriptions page))) (\<lambda>checked. case checked of
           Inl e \<Rightarrow> io_fail (Some e)
         | Inr u \<Rightarrow> if iv_next page = [] then io_return () else inventory_pages n p t (iv_next page)))
        (\<lambda>_ h. inventoried p t h token) (\<lambda>_ h. True)"
    proof (rule io_safe_bind_try[OF names], goal_cases)
      case (1 u)
      show ?case unfolding sum.case by (rule io_safe_if) (auto intro: last_page intro!: io_safe_return later)
    qed (auto intro!: io_safe_fail)
    then show ?case unfolding sum.case by (rule io_safe_weaken) auto
  next
    case (2 e)
    then show ?case by (auto intro!: io_safe_fail)
  qed
qed

lemma grows_topic [grows_rules]: "io_grows (validate_topic n p t)"
  unfolding validate_topic_def validateTopicInventory_def by (intro grows_rules)

definition checked_topic :: "pubsub_provider \<Rightarrow> pubsub_topic \<Rightarrow> ps_history \<Rightarrow> bool" where
  "checked_topic p t h \<longleftrightarrow>
     (\<exists>m. (Ps_Get_Topic (api_path (pt_topic t)), Ans_Topic m) \<in> set h \<and> tm_transforms m = []) \<and>
     (\<forall>(k, c)\<in>set (pt_consumers t). checked_consumer t c h) \<and> inventoried p t h []"

lemma lasting_topic [lasting_rules]: "lasting (checked_topic p t)"
  unfolding checked_topic_def by (intro lasting_rules)

lemma answered_topic_Some [simp]: "answered_topic a = Some s \<longleftrightarrow> a = Ans_Topic s"
  by (cases a) auto

lemma topic_safe:
  "io_safe srv (\<lambda>h. True) (validate_topic n p t) (\<lambda>_. checked_topic p t) (\<lambda>_ h. True)"
proof -
  let ?meta = "\<lambda>h. \<exists>m. (Ps_Get_Topic (api_path (pt_topic t)), Ans_Topic m) \<in> set h \<and> tm_transforms m = []"
  let ?consumers = "\<lambda>h. \<forall>(k, c)\<in>set (pt_consumers t). checked_consumer t c h"
  have lasting: "lasting ?meta" "lasting ?consumers" by (intro lasting_rules)+
  have "io_safe srv (\<lambda>h. True) (validateBaselineConsumers t) (\<lambda>_ h. \<forall>x\<in>set (pt_consumers t). checked_consumer t (snd x) h) (\<lambda>_ h. True)"
    unfolding validateBaselineConsumers_def
    by (rule io_each_establishes) (auto intro: consumer_safe grows_rules lasting_rules)
  from io_safe_keeping[OF this grows_validation(3) lasting(1)]
  have consumers: "io_safe srv ?meta (validateBaselineConsumers t) (\<lambda>_ h. ?consumers h \<and> ?meta h) (\<lambda>_ h. True)"
    by (rule io_safe_weaken) auto
  have "io_safe srv (\<lambda>h. True) (check_topic t) (\<lambda>_ h. ?consumers h \<and> ?meta h) (\<lambda>_ h. True)"
    unfolding check_topic_def
    by (rule io_safe_bind_try[OF io_safe_decoded])
      (auto intro!: io_safe_if io_safe_fail io_safe_weaken[OF consumers])
  then have "io_safe srv (\<lambda>h. True) (lift_error (check_topic t)) (\<lambda>_ h. ?consumers h \<and> ?meta h) (\<lambda>_ h. True)"
    unfolding lift_error_def
    by (rule io_safe_bind_try) (auto intro!: io_safe_return io_safe_fail)
  moreover have "io_safe srv (\<lambda>h. ?consumers h \<and> ?meta h) (validateTopicInventory n p t) (\<lambda>_. checked_topic p t) (\<lambda>_ h. True)"
    unfolding validateTopicInventory_def
    by (rule io_safe_weaken[OF io_safe_keeping[OF pages_safe grows_inventory lasting_conj[OF lasting(2,1)]]])
      (auto simp: checked_topic_def)
  ultimately show ?thesis unfolding validate_topic_def by (rule io_safe_seq)
qed

section \<open>Filters\<close>

lemma isolated_filter_iff:
  "isolated_filter f \<longleftrightarrow> (\<exists>i. length i = 24 \<and> list_all is_lower_hex i \<and> f = composition_filter i)"
proof
  let ?pre = "''attributes.envy_composition = '' @ [dquote]"
  assume f: "isolated_filter f"
  then obtain rest where rest: "f = ?pre @ rest"
    by (auto simp: isolated_filter_def Let_def has_prefix_iff simp del: append.simps)
  then have "length rest = 25" "rest \<noteq> []" using f by (auto simp: isolated_filter_def Let_def)
  moreover have "last rest = dquote" using f rest \<open>rest \<noteq> []\<close> by (simp add: isolated_filter_def Let_def)
  moreover have "list_all is_lower_hex (take 24 rest)" using f rest by (simp add: isolated_filter_def Let_def)
  moreover have "rest = butlast rest @ [last rest]" using \<open>rest \<noteq> []\<close> by simp
  ultimately have "length (butlast rest) = 24" "list_all is_lower_hex (butlast rest)" "f = ?pre @ butlast rest @ [dquote]"
    using rest by (auto simp: butlast_conv_take)
  then show "\<exists>i. length i = 24 \<and> list_all is_lower_hex i \<and> f = composition_filter i"
    by (intro exI[of _ "butlast rest"]) (simp add: composition_filter_def quote_hex)
next
  assume "\<exists>i. length i = 24 \<and> list_all is_lower_hex i \<and> f = composition_filter i"
  then show "isolated_filter f"
    by (auto simp: isolated_filter_def Let_def has_prefix_def composition_filter_def quote_hex)
qed

lemma trim_conjunction:
  assumes "has_prefix flt ''(''" "has_suffix flt ('')'' @ tail)"
  shows "flt = ''('' @ trim_suffix (trim_prefix flt ''('') ('')'' @ tail) @ '')'' @ tail"
proof -
  obtain t where t: "flt = t @ '')'' @ tail" using assms(2) by (auto simp: has_suffix_iff)
  then obtain u where "t = CHR ''('' # u" using assms(1) by (cases t) (auto simp: has_prefix_def)
  then show ?thesis using t by (simp add: trim_prefix_def trim_suffix_def has_prefix_def has_suffix_def)
qed

lemma preview_iff:
  "previewFilter flt business \<longleftrightarrow>
     (\<exists>i. length i = 24 \<and> list_all is_lower_hex i \<and> flt = MessageFilter (composition_filter i) business)"
proof (cases "business = []")
  case True
  then show ?thesis by (simp add: previewFilter_def MessageFilter_def isolated_filter_iff)
next
  case False
  let ?more = "'' AND ('' @ business @ '')''"
  have suffix: "'') AND ('' @ business @ '')'' = '')'' @ ?more" by simp
  have "trim_suffix (trim_prefix (''('' @ f @ '')'' @ ?more) ''('') ('')'' @ ?more) = f" for f
    by (simp add: trim_prefix_def trim_suffix_def has_prefix_def has_suffix_def)
  moreover have "has_suffix (''('' @ f @ '')'' @ ?more) ('')'' @ ?more)" "has_prefix (''('' @ f @ '')'' @ ?more) ''(''" for f
    by (simp_all add: has_prefix_def has_suffix_iff)
  ultimately show ?thesis
    using False trim_conjunction[of flt ?more]
    unfolding previewFilter_def MessageFilter_def suffix isolated_filter_iff Let_def by auto
qed

text \<open>
  The filters the provider accepts on other subscriptions of a topic are exactly those it gives to
  compositions: \<open>previewFilter\<close> accepts a filter with a business predicate if and only if it is the
  isolation predicate of some composition identity, 24 hexadecimal digits, joined with that predicate.
\<close>

theorem preview_filter_iff:
  "previewFilter flt business \<longleftrightarrow>
     (\<exists>i. length i = 24 \<and> list_all is_lower_hex i \<and> flt = MessageFilter (composition_filter i) business)"
  by (rule preview_iff)

section \<open>Properties\<close>

lemma each_call_at: "each_call ok h \<Longrightarrow> h = later @ (q, a) # earlier \<Longrightarrow> ok q earlier"
  by (simp add: each_call_split)

lemma delete_outcome:
  assumes "Delete_Subscriptions p composition token subs srv [] = (res, h)"
  shows "each_call (delete_allowed p composition token subs) h \<and>
    (res = Inr True \<longrightarrow> (\<forall>w\<in>set subs. answered_gone h (ms_name w)))"
  using io_safe_def[THEN iffD1, OF delete_safe[of subs subs srv p composition token "{}"], rule_format, of "[]"] assms
  by (cases res) auto

text \<open>
  Deleting the subscriptions of a composition. Whatever the API answers and whoever else works on it,
  each deletion is of a subscription named in the request, and follows directly on a successful check
  of the leadership and, before that, on reading that subscription with the labels of this
  installation, composition and owner. Nothing is created. When the provider reports that they are
  gone, the API answered for each of them that it does not exist.
\<close>

theorem deleted_subscriptions_confirmed:
  assumes "Delete_Subscriptions p composition token subs srv [] = (res, h)"
  shows "(\<forall>later path a earlier. h = later @ (Ps_Delete path, a) # earlier \<longrightarrow>
       (\<exists>w\<in>set subs. path = api_path (ms_name w)) \<and>
       (\<exists>got rest. earlier = (Ps_Guard, Ans_Guard None) # (Ps_Get path, Ans_Sub got) # rest \<and>
          ps_owned p got composition token)) \<and>
    (\<forall>path s a. (Ps_Put path s, a) \<notin> set h) \<and>
    (res = Inr True \<longrightarrow>
       (\<forall>w\<in>set subs. \<exists>e. is_status 404 e \<and> (Ps_Get (api_path (ms_name w)), Ans_Error e) \<in> set h))"
proof -
  note out = delete_outcome[OF assms]
  have "delete_allowed p composition token subs (Ps_Delete path) earlier" if "h = later @ (Ps_Delete path, a) # earlier"
    for later path a earlier using each_call_at[OF conjunct1[OF out] that] .
  moreover have "(Ps_Put path s, a) \<notin> set h" for path s a
    using each_call_at[OF conjunct1[OF out]] by (fastforce simp: delete_allowed_def dest!: split_list)
  ultimately show ?thesis
    using out unfolding delete_allowed_def answered_gone_def ps_call.case by blast
qed

lemma ensure_outcome:
  assumes "Ensure_Subscriptions p composition token subs srv [] = (res, h)" "distinct (map ms_name subs)"
    "composition \<noteq> []" "token \<noteq> []"
  shows "each_call (ensure_allowed p composition token subs) h \<and>
    (\<forall>out. res = Inr (out, None) \<longrightarrow> list_all2 (usable p composition token h) subs out)"
proof -
  have run: "ensure_all p composition token subs srv [] = (res, h)"
    using assms(1,3,4) by (simp add: Ensure_Subscriptions_def)
  have stable: "stable_for (ms_name ` set subs) (\<lambda>h. True)" by (simp add: stable_for_def)
  note safe = ensure_all_safe[OF assms(2) subset_refl stable, of srv p composition token]
  show ?thesis
  proof (cases res)
    case (Inl e)
    then show ?thesis using io_safe_Inl[OF safe, of "[]"] run by simp
  next
    case (Inr x)
    then show ?thesis using io_safe_Inr[OF safe, of "[]" x h] run by (cases x) simp
  qed
qed

text \<open>
  Ensuring the subscriptions of a composition, whatever the API answers. Each creation follows
  directly on a successful check of the leadership and on the answer that no subscription of that
  name exists, and asks for exactly the subscription wanted, with the labels of the composition and a
  fresh instance; nothing is deleted. When the provider succeeds, each subscription was read, with
  those labels, the wanted topic, filter and retention, and no delivery elsewhere; it is reported
  ready with the instance read. A backlog that may be lost is never forgotten: it is reported when it
  was reported before, when the instance is another one than recorded, and when a subscription that
  was ready had to be created again.
\<close>

theorem ensured_subscriptions_usable:
  assumes "Ensure_Subscriptions p composition token subs srv [] = (res, h)" "distinct (map ms_name subs)"
    "composition \<noteq> []" "token \<noteq> []"
  shows "(\<forall>later path s a earlier. h = later @ (Ps_Put path s, a) # earlier \<longrightarrow>
       (\<exists>want bs e rest. want \<in> set subs \<and> path = api_path (ms_name want) \<and>
          s = wanted_subscription p composition token want (hex_encode bs) \<and> is_status 404 e \<and>
          earlier = (Ps_Guard, Ans_Guard None) # (Ps_Random, Ans_Bytes bs) # (Ps_Get path, Ans_Error e) # rest)) \<and>
    (\<forall>path a. (Ps_Delete path, a) \<notin> set h) \<and>
    (\<forall>out. res = Inr (out, None) \<longrightarrow> list_all2 (\<lambda>want got.
       (\<exists>s. (Ps_Get (api_path (ms_name want)), Ans_Sub s) \<in> set h \<and> ps_owned p s composition token \<and> sub_matches s want \<and>
          ms_instance got = get_or [] (sb_labels s) ''envy-instance'') \<and>
       ms_instance got \<noteq> [] \<and> ms_ready got \<and>
       (ms_backlog_may_be_lost want \<or> ms_instance want \<notin> {[], ms_instance got} \<or>
        ms_ready want \<and> recreated h (ms_name want) \<longrightarrow> ms_backlog_may_be_lost got)) subs out)"
proof -
  note out = ensure_outcome[OF assms]
  have put: "ensure_allowed p composition token subs (Ps_Put path s) earlier" if "h = later @ (Ps_Put path s, a) # earlier"
    for later path s a earlier using each_call_at[OF conjunct1[OF out] that] .
  have none: "(Ps_Delete path, a) \<notin> set h" for path a
    using each_call_at[OF conjunct1[OF out]] by (fastforce simp: ensure_allowed_def dest!: split_list)
  have "(\<exists>s. (Ps_Get (api_path (ms_name want)), Ans_Sub s) \<in> set h \<and> ps_owned p s composition token \<and> sub_matches s want \<and>
          ms_instance got = get_or [] (sb_labels s) ''envy-instance'') \<and>
       ms_instance got \<noteq> [] \<and> ms_ready got \<and>
       (ms_backlog_may_be_lost want \<or> ms_instance want \<notin> {[], ms_instance got} \<or>
        ms_ready want \<and> recreated h (ms_name want) \<longrightarrow> ms_backlog_may_be_lost got)"
    if "usable p composition token h want got" for want got
    using that unfolding usable_def by auto
  note ready = list_all2_mono[OF _ this]
  show ?thesis
  proof (intro conjI, goal_cases)
    case 1
    show ?case using put unfolding ensure_allowed_def ps_call.case by (intro allI impI)
  next
    case 2
    show ?case using none by simp
  next
    case 3
    show ?case by (intro allI impI, rule ready) (use out in blast)
  qed
qed

lemma inventoried_pages:
  "inventoried p t h token \<Longrightarrow>
     \<exists>pages. pages \<noteq> [] \<and> fst (hd pages) = token \<and> iv_next (snd (last pages)) = [] \<and>
       (\<forall>i. Suc i < length pages \<longrightarrow> fst (pages ! Suc i) = iv_next (snd (pages ! i))) \<and>
       (\<forall>(token, page)\<in>set pages. (Ps_List (api_path (inventory_path t token)), Ans_Page page) \<in> set h \<and>
          (\<forall>name\<in>set (iv_subscriptions page). checked_subscription p t name h))"
proof (induction rule: inventoried.induct)
  case (last_page token page)
  then show ?case by (intro exI[of _ "[(token, page)]"]) auto
next
  case (more_pages token page)
  then obtain pages where pages: "pages \<noteq> []" "fst (hd pages) = iv_next page" "iv_next (snd (last pages)) = []"
    "\<forall>i. Suc i < length pages \<longrightarrow> fst (pages ! Suc i) = iv_next (snd (pages ! i))"
    "\<forall>(token, page)\<in>set pages. (Ps_List (api_path (inventory_path t token)), Ans_Page page) \<in> set h \<and>
          (\<forall>name\<in>set (iv_subscriptions page). checked_subscription p t name h)"
    by blast
  have "fst (((token, page) # pages) ! Suc i) = iv_next (snd (((token, page) # pages) ! i))"
    if "Suc i < length ((token, page) # pages)" for i
    using that pages by (cases i) (auto simp: hd_conv_nth)
  then show ?case using pages more_pages.hyps by (intro exI[of _ "(token, page) # pages"]) auto
qed

lemma validate_outcome:
  assumes "Validate_Pubsub n p b srv [] = (Inr (), h)"
  shows "\<forall>(k, t)\<in>set (b_pubsub b). checked_topic p t h"
proof -
  have "io_safe srv (\<lambda>h. True) (io_each (\<lambda>(k, t). validate_topic n p t) (b_pubsub b))
      (\<lambda>_ h. \<forall>x\<in>set (b_pubsub b). checked_topic p (snd x) h) (\<lambda>_ h. True)"
    by (rule io_each_establishes)
      (auto intro: topic_safe grows_rules lasting_rules)
  then have "io_safe srv (\<lambda>h. True) (Validate_Pubsub n p b) (\<lambda>_ h. \<forall>x\<in>set (b_pubsub b). checked_topic p (snd x) h) (\<lambda>_ h. True)"
    unfolding Validate_Pubsub_def
    by (intro io_safe_bind_try[where Q' = "\<lambda>_ h. \<forall>x\<in>set (b_pubsub b). checked_topic p (snd x) h" and E' = "\<lambda>_ h. True"]
          io_safe_case_option io_safe_fail)
      (auto intro!: io_safe_return io_safe_fail split: option.splits)
  from io_safe_Inr[OF this, of "[]"] show ?thesis using assms by auto
qed

text \<open>
  A subscription of a topic that receives no message of another composition than its own: it excludes
  the messages of compositions or asks for those of one composition.
\<close>

definition isolating :: "pubsub_topic \<Rightarrow> subscription \<Rightarrow> bool" where
  "isolating t got \<longleftrightarrow>
     sb_transforms got = [] \<and>
     (\<exists>(k, c)\<in>set (pt_consumers t).
        sb_filter got = MessageFilter BaselineMessageFilter (pc_filter c) \<or>
        (\<exists>i. length i = 24 \<and> list_all is_lower_hex i \<and>
           sb_filter got = MessageFilter (composition_filter i) (pc_filter c)))"

lemma checked_isolating:
  "checked_subscription p t name h \<Longrightarrow> \<exists>got. (Ps_Get (api_path name), Ans_Sub got) \<in> set h \<and> isolating t got"
  unfolding checked_subscription_def isolating_def protected_def
  by (fastforce simp: list_ex_iff preview_iff)

text \<open>Pages from the first to the last, each under the token the one before it gave.\<close>

definition page_chain :: "(string \<times> inventory_page) list \<Rightarrow> bool" where
  "page_chain pages \<longleftrightarrow>
     pages \<noteq> [] \<and> fst (hd pages) = [] \<and> iv_next (snd (last pages)) = [] \<and>
     (\<forall>i. Suc i < length pages \<longrightarrow> fst (pages ! Suc i) = iv_next (snd (pages ! i)))"

text \<open>
  Validating a baseline, whatever the API answers. When it succeeds, every topic was read without
  transforms; every registered consumer's subscription was read attached to the topic, with its
  exclusion filter and without transforms; and the pages of the topic's subscriptions were read from
  the first to the last, where every subscription listed was read and is isolating.
\<close>

theorem validated_topics_protected:
  assumes "Validate_Pubsub n p b srv [] = (Inr (), h)" "(k, t) \<in> set (b_pubsub b)"
  shows "(\<exists>m. (Ps_Get_Topic (api_path (pt_topic t)), Ans_Topic m) \<in> set h \<and> tm_transforms m = []) \<and>
    (\<forall>(j, c)\<in>set (pt_consumers t). \<exists>got. (Ps_Get (api_path (pc_subscription c)), Ans_Sub got) \<in> set h \<and>
       \<not> sb_detached got \<and> sb_transforms got = [] \<and> sb_topic got = pt_topic t \<and>
       sb_filter got = MessageFilter BaselineMessageFilter (pc_filter c)) \<and>
    (\<exists>pages. page_chain pages \<and>
       (\<forall>(token, page)\<in>set pages. (Ps_List (api_path (inventory_path t token)), Ans_Page page) \<in> set h \<and>
          (\<forall>name\<in>set (iv_subscriptions page).
             \<exists>got. (Ps_Get (api_path name), Ans_Sub got) \<in> set h \<and> isolating t got)))"
proof -
  have topic: "checked_topic p t h" using validate_outcome[OF assms(1)] assms(2) by auto
  then obtain pages where "page_chain pages"
    "\<forall>(token, page)\<in>set pages. (Ps_List (api_path (inventory_path t token)), Ans_Page page) \<in> set h \<and>
       (\<forall>name\<in>set (iv_subscriptions page). checked_subscription p t name h)"
    using inventoried_pages[of p t h "[]"] unfolding checked_topic_def page_chain_def by blast
  then have "\<exists>pages. page_chain pages \<and>
       (\<forall>(token, page)\<in>set pages. (Ps_List (api_path (inventory_path t token)), Ans_Page page) \<in> set h \<and>
          (\<forall>name\<in>set (iv_subscriptions page).
             \<exists>got. (Ps_Get (api_path name), Ans_Sub got) \<in> set h \<and> isolating t got))"
    using checked_isolating by (intro exI[of _ pages]) fast
  then show ?thesis using topic unfolding checked_topic_def checked_consumer_def by blast
qed

section \<open>The inventory ends\<close>

lemma inventory_pages_enough:
  assumes rank: "\<And>h token page. srv h (Ps_List (api_path (inventory_path t token))) = Ans_Page page \<Longrightarrow>
      iv_next page \<noteq> [] \<Longrightarrow> rank (iv_next page) < rank token"
    and "rank token < n" "rank token < m"
  shows "inventory_pages n p t token srv h = inventory_pages m p t token srv h \<and>
    fst (inventory_pages n p t token srv h) \<noteq> Inl None"
  using assms(2,3)
proof (induction n arbitrary: m token h)
  case 0
  then show ?case by simp
next
  case (Suc n)
  then obtain k where m: "m = Suc k" by (cases m) auto
  let ?q = "Ps_List (api_path (inventory_path t token))"
  have later: "inventory_pages n p t (iv_next page) srv h' = inventory_pages k p t (iv_next page) srv h' \<and>
      fst (inventory_pages k p t (iv_next page) srv h') \<noteq> Inl None"
    if "srv h ?q = Ans_Page page" "iv_next page \<noteq> []" for page h'
    using Suc.IH[of "iv_next page" k h'] rank[OF that] Suc.prems m by force
  show ?case
    unfolding m
    by (cases "srv h ?q")
      (use later in \<open>auto simp: io_defs ps_decoded_def ps_error_msg_def split: prod.splits sum.splits\<close>)
qed

text \<open>
  Reading the pages ends when the API's page tokens do: if each page's token is smaller, in some rank,
  than the token it was asked for with, then validation with any fuel above the rank of the first
  page has one outcome, and it is not that of running out of fuel.
\<close>

theorem validation_terminates:
  assumes "\<And>t h token page. srv h (Ps_List (api_path (inventory_path t token))) = Ans_Page page \<Longrightarrow>
      iv_next page \<noteq> [] \<Longrightarrow> rank (iv_next page) < (rank token :: nat)"
    and "rank [] < n"
  shows "Validate_Pubsub n p b srv h = Validate_Pubsub (Suc (rank [])) p b srv h \<and>
    fst (Validate_Pubsub n p b srv h) \<noteq> Inl None"
proof -
  have topic: "validate_topic n p t srv h = validate_topic (Suc (rank [])) p t srv h \<and>
      fst (validate_topic n p t srv h) \<noteq> Inl None" for t h
  proof -
    have pages: "inventory_pages n p t [] srv h = inventory_pages (Suc (rank [])) p t [] srv h \<and>
        fst (inventory_pages (Suc (rank [])) p t [] srv h) \<noteq> Inl None" for h
      using inventory_pages_enough[where rank = rank and srv = srv and token = "[]" and n = n and m = "Suc (rank [])"
          and t = t and p = p and h = h] assms by force
    have "fst (lift_error m srv h) \<noteq> Inl None" for m :: "unit ps"
      by (auto simp: lift_error_def io_defs split: prod.splits sum.splits)
    from this[of "check_topic t"] show ?thesis
      unfolding validate_topic_def validateTopicInventory_def io_seq_def io_bind_def
      using pages by (auto simp del: inventory_pages.simps split: prod.splits sum.splits)
  qed
  have "io_each (\<lambda>(k, t). validate_topic n p t) ts srv h = io_each (\<lambda>(k, t). validate_topic (Suc (rank [])) p t) ts srv h \<and>
      fst (io_each (\<lambda>(k, t). validate_topic (Suc (rank [])) p t) ts srv h) \<noteq> Inl None" for ts :: "pubsub_topic gomap" and h
  proof (induction ts arbitrary: h)
    case Nil
    then show ?case by (simp add: io_return_def)
  next
    case (Cons x ts)
    then show ?case
      using topic[of "snd x" h] by (auto simp: io_seq_def io_bind_def case_prod_beta split: sum.splits)
  qed
  from this[of "b_pubsub b" h] show ?thesis
    unfolding Validate_Pubsub_def by (auto simp: io_defs split: prod.splits sum.splits option.splits)
qed

section \<open>An example\<close>

text \<open>A subscription of the composition \<open>c1\<close>, and a service that may hold it at first.\<close>

definition demo_provider :: pubsub_provider where
  "demo_provider = \<lparr>pp_installation = ''local'', pp_has_guard = True\<rparr>"

definition demo_wanted :: message_subscription where
  "demo_wanted =
     \<lparr>ms_instance = [], ms_name = ''projects/demo/subscriptions/s'', ms_topic = ''projects/demo/topics/t'',
      ms_component = ''billing'', ms_subscription_env = ''ORDERS'', ms_filter = composition_filter (replicate 24 CHR ''0''),
      ms_retention = ''604800s'', ms_expires_at = 0, ms_ready = True, ms_backlog_may_be_lost = False\<rparr>"

definition demo_baseline_sub :: subscription where
  "demo_baseline_sub =
     (wanted_subscription demo_provider ''c1'' ''tok'' demo_wanted ''i'')
       \<lparr>sb_topic := ''projects/demo/topics/orders'', sb_filter := MessageFilter BaselineMessageFilter ''attributes:kind''\<rparr>"

definition demo_pubsub_service :: "subscription option \<Rightarrow> ps_service" where
  "demo_pubsub_service held h q =
     (case q of
        Ps_Guard \<Rightarrow> Ans_Guard None
      | Ps_Random \<Rightarrow> Ans_Bytes ''r''
      | Ps_Get path \<Rightarrow>
          (case List.find (\<lambda>c. case fst c of Ps_Put path' s \<Rightarrow> path' = path | Ps_Delete path' \<Rightarrow> path' = path | _ \<Rightarrow> False) h of
             Some (Ps_Put path' s, a) \<Rightarrow> Ans_Sub s
           | Some c \<Rightarrow> Ans_Error (Api_Error 404)
           | None \<Rightarrow> (case held of None \<Rightarrow> Ans_Error (Api_Error 404) | Some s \<Rightarrow> Ans_Sub s))
      | Ps_Get_Topic path \<Rightarrow> Ans_Topic \<lparr>tm_name = path, tm_transforms = []\<rparr>
      | Ps_List path \<Rightarrow> Ans_Page \<lparr>iv_subscriptions = [''projects/demo/subscriptions/billing''], iv_next = []\<rparr>
      | Ps_Put path s \<Rightarrow> Ans_Ok
      | Ps_Delete path \<Rightarrow> Ans_Ok)"

lemma demo_owned: "ps_owned demo_provider (wanted_subscription demo_provider ''c1'' ''tok'' demo_wanted inst) ''c1'' ''tok''"
  by (simp add: ps_owned_def wanted_subscription_def ps_labels_def get_or_def)

lemma demo_matches: "sub_matches (wanted_subscription demo_provider ''c1'' ''tok'' demo_wanted inst) demo_wanted"
  by (simp add: sub_matches_def wanted_subscription_def)

lemma demo_instance: "get_or [] (sb_labels (wanted_subscription demo_provider ''c1'' ''tok'' demo_wanted inst)) ''envy-instance'' = inst"
  by (simp add: wanted_subscription_def ps_labels_def get_or_def)

lemma demo_guard: "pp_has_guard demo_provider"
  by (simp add: demo_provider_def)

lemmas run_pubsub = get_subscription_def ps_decoded_def ps_change_def ps_guarded_def io_defs demo_pubsub_service_def

lemma demo_deleted:
  "\<exists>h. Delete_Subscriptions demo_provider ''c1'' ''tok'' [demo_wanted]
     (demo_pubsub_service (Some (wanted_subscription demo_provider ''c1'' ''tok'' demo_wanted ''i''))) [] = (Inr True, h)"
  using demo_owned[of "''i''"] by (simp add: run_pubsub demo_provider_def)

lemma deleted_subscriptions_confirmed_witness:
  "\<exists>h. Delete_Subscriptions demo_provider ''c1'' ''tok'' [demo_wanted]
      (demo_pubsub_service (Some (wanted_subscription demo_provider ''c1'' ''tok'' demo_wanted ''i''))) [] = (Inr True, h) \<and>
    (\<exists>e. is_status 404 e \<and> (Ps_Get (api_path (ms_name demo_wanted)), Ans_Error e) \<in> set h)"
  using demo_deleted deleted_subscriptions_confirmed[of demo_provider "''c1''" "''tok''" "[demo_wanted]"] by fastforce

lemma demo_ensured:
  "\<exists>out h. Ensure_Subscriptions demo_provider ''c1'' ''tok'' [demo_wanted] (demo_pubsub_service None) [] = (Inr (out, None), h) \<and>
     recreated h (ms_name demo_wanted)"
  using demo_owned[of "hex_encode ''r''"] demo_matches[of "hex_encode ''r''"] demo_instance[of "hex_encode ''r''"]
  by (simp add: run_pubsub Ensure_Subscriptions_def ensureSubscription_def createSubscription_def accept_subscription_def Let_def
      hex_encode_def hex_byte_def demo_guard)

lemma ensured_subscriptions_usable_witness:
  "\<exists>got h. Ensure_Subscriptions demo_provider ''c1'' ''tok'' [demo_wanted] (demo_pubsub_service None) [] = (Inr ([got], None), h) \<and>
     ms_ready got \<and> ms_backlog_may_be_lost got"
proof -
  obtain out h where run: "Ensure_Subscriptions demo_provider ''c1'' ''tok'' [demo_wanted] (demo_pubsub_service None) [] = (Inr (out, None), h)"
    "recreated h (ms_name demo_wanted)" using demo_ensured by blast
  have "ms_ready demo_wanted" by (simp add: demo_wanted_def)
  then show ?thesis
    using ensured_subscriptions_usable[OF run(1)] run by (auto simp: list_all2_Cons1)
qed

lemma demo_validated:
  "\<exists>h. Validate_Pubsub 1 demo_provider demo_messaging (demo_pubsub_service (Some demo_baseline_sub)) [] = (Inr (), h)"
  unfolding Validate_Pubsub_def demo_messaging_valid
  by (simp add: run_pubsub demo_messaging_def validate_topic_def validateTopicInventory_def lift_error_def check_topic_def
      validateBaselineConsumers_def validate_consumer_def validateInventoriedSubscription_def protected_def
      demo_baseline_sub_def wanted_subscription_def eval_nat_numeral)

lemma validated_topics_protected_witness:
  "\<exists>h. Validate_Pubsub 1 demo_provider demo_messaging (demo_pubsub_service (Some demo_baseline_sub)) [] = (Inr (), h) \<and>
     (\<exists>(k, t)\<in>set (b_pubsub demo_messaging). \<exists>pages token page.
        page_chain pages \<and> (token, page) \<in> set pages \<and> (Ps_List (api_path (inventory_path t token)), Ans_Page page) \<in> set h)"
proof -
  obtain h where run: "Validate_Pubsub 1 demo_provider demo_messaging (demo_pubsub_service (Some demo_baseline_sub)) [] = (Inr (), h)"
    using demo_validated by blast
  obtain k t where t: "(k, t) \<in> set (b_pubsub demo_messaging)" by (auto simp: demo_messaging_def)
  obtain pages where pages: "page_chain pages"
    "\<forall>(token, page)\<in>set pages. (Ps_List (api_path (inventory_path t token)), Ans_Page page) \<in> set h"
    using validated_topics_protected[OF run t] by fast
  obtain token page where "(token, page) \<in> set pages" using pages(1) by (cases pages) (auto simp: page_chain_def)
  then show ?thesis using run t pages by blast
qed

lemma validation_terminates_witness:
  "fst (Validate_Pubsub 7 demo_provider demo_messaging (demo_pubsub_service (Some demo_baseline_sub)) []) \<noteq> Inl None"
  using validation_terminates[of "demo_pubsub_service (Some demo_baseline_sub)" "\<lambda>token. 0" 7 demo_provider demo_messaging "[]"]
  by (auto simp: demo_pubsub_service_def)

end
